(* ===== verification/Prelude.thy ===== *)
theory Prelude
  imports Main "HOL-Library.Sublist" "HOL-Library.Word" "HOL-Library.Monad_Syntax"
begin

text \<open>
  What every component shares: C strings and the string routines of the C and C++ libraries
  that the sources call, the requests the sources make to the allocator, and the generic
  lemmas about them.

  A \<open>char *\<close> is a \<open>string option\<close> (\<open>None\<close> is \<open>nullptr\<close>, \<open>Some s\<close> a pointer to the characters
  \<open>s\<close> before the terminating NUL); a \<open>std::string\<close> is a \<open>string\<close>. An unsigned 8, 16, 32 or 64
  bit value whose wrap-around matters is a word; the others are \<open>nat\<close> or \<open>int\<close>.
\<close>

named_theorems str_lib \<open>characterisations of the string routines\<close>

type_synonym cstr = "string option"
type_synonym u8 = "8 word"
type_synonym u16 = "16 word"
type_synonym u32 = "32 word"
type_synonym u64 = "64 word"

subsection \<open>The allocator\<close>

text \<open>
  \<open>AdapterMalloc\<close> and \<open>new (std::nothrow)\<close> may return \<open>nullptr\<close>. Which requests are granted is a
  parameter of every definition that allocates: a predicate on the request, either for a buffer
  of so many characters or for so many objects of a named type.
\<close>

datatype alloc_req = Chars nat | Objects string nat

type_synonym allocator = "alloc_req \<Rightarrow> bool"

definition plentiful :: allocator where
  "plentiful = (\<lambda>_. True)"

lemma plentiful_grants: "plentiful r"
  by (simp add: plentiful_def)

subsection \<open>Searching in a string\<close>

text \<open>\<open>std::string::find\<close> of a substring: the first index at which it occurs.\<close>

fun find_sub :: "string \<Rightarrow> string \<Rightarrow> nat option" where
  "find_sub pat [] = (if pat = [] then Some 0 else None)"
| "find_sub pat (c # cs) =
     (if prefix pat (c # cs) then Some 0 else map_option Suc (find_sub pat cs))"

definition contains :: "string \<Rightarrow> string \<Rightarrow> bool" where
  "contains s pat = (find_sub pat s \<noteq> None)"

text \<open>\<open>find\<close> and \<open>rfind\<close> of one character.\<close>

fun find_char :: "char \<Rightarrow> string \<Rightarrow> nat option" where
  "find_char c [] = None"
| "find_char c (d # ds) = (if c = d then Some 0 else map_option Suc (find_char c ds))"

fun rfind_char :: "char \<Rightarrow> string \<Rightarrow> nat option" where
  "rfind_char c [] = None"
| "rfind_char c (d # ds) =
     (case rfind_char c ds of
        Some i \<Rightarrow> Some (Suc i)
      | None \<Rightarrow> if c = d then Some 0 else None)"

lemma contains_sublist [str_lib]: "contains s pat \<longleftrightarrow> sublist pat s"
  by (induction s) (auto simp: contains_def sublist_Cons_right)

lemma contains_mono: "contains s pat \<Longrightarrow> contains (a @ s @ b) pat"
  unfolding contains_sublist by (metis sublist_appendI sublist_order.order_trans)

lemma not_contains_parts:
  "\<not> contains (a @ b) pat \<Longrightarrow> \<not> contains a pat \<and> \<not> contains b pat"
  using contains_mono[of a pat "[]" b] contains_mono[of b pat a "[]"] by auto

lemma find_char_None [str_lib]: "find_char c s = None \<longleftrightarrow> c \<notin> set s"
  by (induction s) auto

lemma find_char_Some:
  "find_char c s = Some i \<Longrightarrow> i < length s \<and> s ! i = c \<and> c \<notin> set (take i s)"
  by (induction s arbitrary: i) (auto split: if_splits)

lemma rfind_char_None [str_lib]: "rfind_char c s = None \<longleftrightarrow> c \<notin> set s"
  by (induction s) (auto split: option.splits)

lemma rfind_char_Some:
  "rfind_char c s = Some i \<Longrightarrow> i < length s \<and> s ! i = c \<and> c \<notin> set (drop (Suc i) s)"
proof (induction s arbitrary: i)
  case Nil
  then show ?case by simp
next
  case (Cons d ds)
  show ?case
  proof (cases "rfind_char c ds")
    case None
    with Cons.prems show ?thesis by (auto simp: rfind_char_None split: if_splits)
  next
    case (Some j)
    with Cons show ?thesis by auto
  qed
qed

lemma rfind_char_snoc: "rfind_char c (s @ [c]) = Some (length s)"
  by (induction s) auto

lemma rfind_char_append_notin: "c \<notin> set t \<Longrightarrow> rfind_char c (s @ c # t) = Some (length s)"
  by (induction s) (auto simp: rfind_char_None[THEN iffD2])

subsection \<open>Prefixes compared character by character\<close>

lemma prefix_iff_take: "prefix p s \<longleftrightarrow> length p \<le> length s \<and> take (length p) s = p"
  by (metis append_eq_conv_conj append_take_drop_id prefix_def prefix_length_le)

lemma prefix_iff_nth:
  "prefix p s \<longleftrightarrow> length p \<le> length s \<and> (\<forall>i < length p. s ! i = p ! i)"
  by (auto simp: prefix_iff_take list_eq_iff_nth_eq)

lemma suffix_iff_nth:
  "suffix p s \<longleftrightarrow>
     length p \<le> length s \<and> (\<forall>i < length p. s ! (length s - length p + i) = p ! i)"
proof -
  have "suffix p s \<longleftrightarrow> length p \<le> length s \<and> drop (length s - length p) s = p"
    by (metis append_take_drop_id diff_diff_cancel length_drop suffix_def suffix_length_le
        append_eq_append_conv)
  then show ?thesis by (auto simp: list_eq_iff_nth_eq)
qed

subsection \<open>Lists and options\<close>

lemma distinct_map_eq:
  "distinct (map f xs) \<Longrightarrow> x \<in> set xs \<Longrightarrow> y \<in> set xs \<Longrightarrow> f x = f y \<Longrightarrow> x = y"
  by (meson distinct_map inj_onD)

lemma bind_Some_iff: "Option.bind m f = Some y \<longleftrightarrow> (\<exists>x. m = Some x \<and> f x = Some y)"
  by (cases m) auto

end
