(* ===== verification/Errors.thy ===== *)
theory Errors
  imports Main
begin

text \<open>
  The result codes of \<^verbatim>\<open>interfaces/kits/bundle_lite/appexecfwk_errors.h\<close> (\<open>AppexecfwkErrors\<close>) and
  the ones of the bundle daemon (\<open>ohos_errno.h\<close> is not part of the repository; the daemon only
  compares its codes for equality with \<open>EC_SUCCESS\<close>, so they are the constructors of a datatype).
  An enumerator keeps its value; the prefix \<open>ERR_APPEXECFWK_\<close> is shortened to \<open>ERR_\<close>.
  The functions of the service return them as \<open>uint8_t\<close>: every enumerator fits (\<open>max_error\<close>).
\<close>

type_synonym errcode = nat

abbreviation (input) ERR_OK :: errcode where "ERR_OK \<equiv> 0"
abbreviation (input) ERR_QUERY_PARAMETER_ERROR :: errcode where "ERR_QUERY_PARAMETER_ERROR \<equiv> 1"
abbreviation (input) ERR_QUERY_NO_INFOS :: errcode where "ERR_QUERY_NO_INFOS \<equiv> 2"
abbreviation (input) ERR_QUERY_INFOS_INIT_ERROR :: errcode where "ERR_QUERY_INFOS_INIT_ERROR \<equiv> 3"
abbreviation (input) ERR_OBJECT_NULL :: errcode where "ERR_OBJECT_NULL \<equiv> 4"
abbreviation (input) ERR_INSTALL_FAILED_INTERNAL_ERROR :: errcode where "ERR_INSTALL_FAILED_INTERNAL_ERROR \<equiv> 10"
abbreviation (input) ERR_INSTALL_FAILED_PARAM_ERROR :: errcode where "ERR_INSTALL_FAILED_PARAM_ERROR \<equiv> 11"
abbreviation (input) ERR_INSTALL_FAILED_FILE_PATH_INVALID :: errcode where "ERR_INSTALL_FAILED_FILE_PATH_INVALID \<equiv> 12"
abbreviation (input) ERR_INSTALL_FAILED_FILE_NOT_EXISTS :: errcode where "ERR_INSTALL_FAILED_FILE_NOT_EXISTS \<equiv> 13"
abbreviation (input) ERR_INSTALL_FAILED_INVALID_FILE_NAME :: errcode where "ERR_INSTALL_FAILED_INVALID_FILE_NAME \<equiv> 14"
abbreviation (input) ERR_INSTALL_FAILED_BAD_FILE :: errcode where "ERR_INSTALL_FAILED_BAD_FILE \<equiv> 15"
abbreviation (input) ERR_INSTALL_FAILED_CREATE_FILE_ERROR :: errcode where "ERR_INSTALL_FAILED_CREATE_FILE_ERROR \<equiv> 16"
abbreviation (input) ERR_INSTALL_FAILED_CREATE_PERMISSIONS_DIR_ERROR :: errcode where "ERR_INSTALL_FAILED_CREATE_PERMISSIONS_DIR_ERROR \<equiv> 17"
abbreviation (input) ERR_INSTALL_FAILED_RENAME_DIR_ERROR :: errcode where "ERR_INSTALL_FAILED_RENAME_DIR_ERROR \<equiv> 18"
abbreviation (input) ERR_INSTALL_FAILED_RENAME_FILE_ERROR :: errcode where "ERR_INSTALL_FAILED_RENAME_FILE_ERROR \<equiv> 19"
abbreviation (input) ERR_INSTALL_FAILED_CREATE_DATA_DIR_ERROR :: errcode where "ERR_INSTALL_FAILED_CREATE_DATA_DIR_ERROR \<equiv> 20"
abbreviation (input) ERR_INSTALL_FAILED_RECORD_INFO_ERROR :: errcode where "ERR_INSTALL_FAILED_RECORD_INFO_ERROR \<equiv> 21"
abbreviation (input) ERR_INSTALL_FAILED_UID_AND_GID_BACKUP_ERROR :: errcode where "ERR_INSTALL_FAILED_UID_AND_GID_BACKUP_ERROR \<equiv> 22"
abbreviation (input) ERR_INSTALL_FAILED_VERSION_DOWNGRADE :: errcode where "ERR_INSTALL_FAILED_VERSION_DOWNGRADE \<equiv> 23"
abbreviation (input) ERR_INSTALL_FAILED_EXCEED_MAX_BUNDLE_NUMBER :: errcode where "ERR_INSTALL_FAILED_EXCEED_MAX_BUNDLE_NUMBER \<equiv> 24"
abbreviation (input) ERR_INSTALL_FAILED_STORE_PERMISSIONS_ERROR :: errcode where "ERR_INSTALL_FAILED_STORE_PERMISSIONS_ERROR \<equiv> 25"
abbreviation (input) ERR_INSTALL_FAILED_FILE_DATA_INVALID :: errcode where "ERR_INSTALL_FAILED_FILE_DATA_INVALID \<equiv> 26"
abbreviation (input) ERR_INSTALL_FAILED_INCOMPATIBLE_SIGNATURE :: errcode where "ERR_INSTALL_FAILED_INCOMPATIBLE_SIGNATURE \<equiv> 27"
abbreviation (input) ERR_INSTALL_FAILED_INVALID_PROVISIONINFO :: errcode where "ERR_INSTALL_FAILED_INVALID_PROVISIONINFO \<equiv> 28"
abbreviation (input) ERR_INSTALL_FAILED_OPERATE_SIGNED_FILE_ERROR :: errcode where "ERR_INSTALL_FAILED_OPERATE_SIGNED_FILE_ERROR \<equiv> 29"
abbreviation (input) ERR_INSTALL_FAILED_PARSE_APP_SIGNATURE_ERROR :: errcode where "ERR_INSTALL_FAILED_PARSE_APP_SIGNATURE_ERROR \<equiv> 30"
abbreviation (input) ERR_INSTALL_FAILED_PARSE_PROFILE_SIGNATURE_ERROR :: errcode where "ERR_INSTALL_FAILED_PARSE_PROFILE_SIGNATURE_ERROR \<equiv> 31"
abbreviation (input) ERR_INSTALL_FAILED_INTERNAL_SIGNATURE_ERROR :: errcode where "ERR_INSTALL_FAILED_INTERNAL_SIGNATURE_ERROR \<equiv> 32"
abbreviation (input) ERR_INSTALL_FAILED_GET_JS_ENGINE_VERSION_ERROR :: errcode where "ERR_INSTALL_FAILED_GET_JS_ENGINE_VERSION_ERROR \<equiv> 33"
abbreviation (input) ERR_INSTALL_FAILED_TRANSFORM_BC_FILE_ERROR :: errcode where "ERR_INSTALL_FAILED_TRANSFORM_BC_FILE_ERROR \<equiv> 34"
abbreviation (input) ERR_SET_DEBUG_MODE_ERROR :: errcode where "ERR_SET_DEBUG_MODE_ERROR \<equiv> 35"
abbreviation (input) ERR_INSTALL_FAILED_PARSE_PROFILE_ERROR :: errcode where "ERR_INSTALL_FAILED_PARSE_PROFILE_ERROR \<equiv> 40"
abbreviation (input) ERR_INSTALL_FAILED_PARSE_BUNDLENAME_ERROR :: errcode where "ERR_INSTALL_FAILED_PARSE_BUNDLENAME_ERROR \<equiv> 41"
abbreviation (input) ERR_INSTALL_FAILED_PARSE_INVALID_BUNDLENAME :: errcode where "ERR_INSTALL_FAILED_PARSE_INVALID_BUNDLENAME \<equiv> 42"
abbreviation (input) ERR_INSTALL_FAILED_PARSE_VENDOR_ERROR :: errcode where "ERR_INSTALL_FAILED_PARSE_VENDOR_ERROR \<equiv> 43"
abbreviation (input) ERR_INSTALL_FAILED_PARSE_VERSIONCODE_ERROR :: errcode where "ERR_INSTALL_FAILED_PARSE_VERSIONCODE_ERROR \<equiv> 44"
abbreviation (input) ERR_INSTALL_FAILED_PARSE_VERSIONNAME_ERROR :: errcode where "ERR_INSTALL_FAILED_PARSE_VERSIONNAME_ERROR \<equiv> 45"
abbreviation (input) ERR_INSTALL_FAILED_PARSE_PERMISSIONS_ERROR :: errcode where "ERR_INSTALL_FAILED_PARSE_PERMISSIONS_ERROR \<equiv> 46"
abbreviation (input) ERR_INSTALL_FAILED_PARSE_API_VERSION_ERROR :: errcode where "ERR_INSTALL_FAILED_PARSE_API_VERSION_ERROR \<equiv> 47"
abbreviation (input) ERR_INSTALL_FAILED_PARSE_DEVICE_CONFIG_ERROR :: errcode where "ERR_INSTALL_FAILED_PARSE_DEVICE_CONFIG_ERROR \<equiv> 48"
abbreviation (input) ERR_INSTALL_FAILED_PARSE_KEEPALIVE_ERROR :: errcode where "ERR_INSTALL_FAILED_PARSE_KEEPALIVE_ERROR \<equiv> 49"
abbreviation (input) ERR_INSTALL_FAILED_PARSE_MODULENAME_ERROR :: errcode where "ERR_INSTALL_FAILED_PARSE_MODULENAME_ERROR \<equiv> 50"
abbreviation (input) ERR_INSTALL_FAILED_PARSE_INVALID_MODULENAME :: errcode where "ERR_INSTALL_FAILED_PARSE_INVALID_MODULENAME \<equiv> 51"
abbreviation (input) ERR_INSTALL_FAILED_PARSE_MODULE_DESCRIPTION_ERROR :: errcode where "ERR_INSTALL_FAILED_PARSE_MODULE_DESCRIPTION_ERROR \<equiv> 52"
abbreviation (input) ERR_INSTALL_FAILED_PARSE_DEVICETYPE_ERROR :: errcode where "ERR_INSTALL_FAILED_PARSE_DEVICETYPE_ERROR \<equiv> 53"
abbreviation (input) ERR_INSTALL_FAILED_PARSE_DEVICECAP_ERROR :: errcode where "ERR_INSTALL_FAILED_PARSE_DEVICECAP_ERROR \<equiv> 54"
abbreviation (input) ERR_INSTALL_FAILED_PARSE_DISTRO_ERROR :: errcode where "ERR_INSTALL_FAILED_PARSE_DISTRO_ERROR \<equiv> 55"
abbreviation (input) ERR_INSTALL_FAILED_PARSE_DISTRO_MODULENAME_ERROR :: errcode where "ERR_INSTALL_FAILED_PARSE_DISTRO_MODULENAME_ERROR \<equiv> 56"
abbreviation (input) ERR_INSTALL_FAILED_PARSE_DISTRO_MODULETYPE_ERROR :: errcode where "ERR_INSTALL_FAILED_PARSE_DISTRO_MODULETYPE_ERROR \<equiv> 57"
abbreviation (input) ERR_INSTALL_FAILED_PARSE_DISTRO_DELIVERY_ERROR :: errcode where "ERR_INSTALL_FAILED_PARSE_DISTRO_DELIVERY_ERROR \<equiv> 58"
abbreviation (input) ERR_INSTALL_FAILED_PARSE_METADATA_ERROR :: errcode where "ERR_INSTALL_FAILED_PARSE_METADATA_ERROR \<equiv> 59"
abbreviation (input) ERR_INSTALL_FAILED_PARSE_ABILITIES_ERROR :: errcode where "ERR_INSTALL_FAILED_PARSE_ABILITIES_ERROR \<equiv> 60"
abbreviation (input) ERR_INSTALL_FAILED_PARSE_ABILITY_NAME_ERROR :: errcode where "ERR_INSTALL_FAILED_PARSE_ABILITY_NAME_ERROR \<equiv> 61"
abbreviation (input) ERR_INSTALL_FAILED_PARSE_ABILITY_TYPE_ERROR :: errcode where "ERR_INSTALL_FAILED_PARSE_ABILITY_TYPE_ERROR \<equiv> 62"
abbreviation (input) ERR_INSTALL_FAILED_PARSE_ABILITY_ICONPATH_ERROR :: errcode where "ERR_INSTALL_FAILED_PARSE_ABILITY_ICONPATH_ERROR \<equiv> 63"
abbreviation (input) ERR_INSTALL_FAILED_PARSE_ABILITY_LABEL_ERROR :: errcode where "ERR_INSTALL_FAILED_PARSE_ABILITY_LABEL_ERROR \<equiv> 64"
abbreviation (input) ERR_INSTALL_FAILED_PARSE_ABILITY_DESCRIPTION_ERROR :: errcode where "ERR_INSTALL_FAILED_PARSE_ABILITY_DESCRIPTION_ERROR \<equiv> 65"
abbreviation (input) ERR_INSTALL_FAILED_PARSE_ABILITY_LAUNCHTYPE_ERROR :: errcode where "ERR_INSTALL_FAILED_PARSE_ABILITY_LAUNCHTYPE_ERROR \<equiv> 66"
abbreviation (input) ERR_INSTALL_FAILED_PARSE_ABILITY_VISIBLE_ERROR :: errcode where "ERR_INSTALL_FAILED_PARSE_ABILITY_VISIBLE_ERROR \<equiv> 67"
abbreviation (input) ERR_INSTALL_FAILED_PARSE_INVALID_BUNDLENAME_LENGTH :: errcode where "ERR_INSTALL_FAILED_PARSE_INVALID_BUNDLENAME_LENGTH \<equiv> 68"
abbreviation (input) ERR_INSTALL_FAILED_EXCEED_MAX_LABEL_LENGTH_ERROR :: errcode where "ERR_INSTALL_FAILED_EXCEED_MAX_LABEL_LENGTH_ERROR \<equiv> 69"
abbreviation (input) ERR_INSTALL_FAILED_EXCEED_MAX_VERSIONNAME_LENGTH_ERROR :: errcode where "ERR_INSTALL_FAILED_EXCEED_MAX_VERSIONNAME_LENGTH_ERROR \<equiv> 70"
abbreviation (input) ERR_INSTALL_FAILED_EXCEED_MAX_METADATA_NAME_LENGTH_ERROR :: errcode where "ERR_INSTALL_FAILED_EXCEED_MAX_METADATA_NAME_LENGTH_ERROR \<equiv> 71"
abbreviation (input) ERR_INSTALL_FAILED_EXCEED_MAX_METADATA_VALUE_LENGTH_ERROR :: errcode where "ERR_INSTALL_FAILED_EXCEED_MAX_METADATA_VALUE_LENGTH_ERROR \<equiv> 72"
abbreviation (input) ERR_INSTALL_FAILED_EXCEED_MAX_VENDOR_LENGTH_ERROR :: errcode where "ERR_INSTALL_FAILED_EXCEED_MAX_VENDOR_LENGTH_ERROR \<equiv> 73"
abbreviation (input) ERR_INSTALL_FAILED_EXCEED_MAX_MODULENAME_LENGTH_ERROR :: errcode where "ERR_INSTALL_FAILED_EXCEED_MAX_MODULENAME_LENGTH_ERROR \<equiv> 74"
abbreviation (input) ERR_INSTALL_FAILED_EXCEED_MAX_ABILITYNAME_LENGTH_ERROR :: errcode where "ERR_INSTALL_FAILED_EXCEED_MAX_ABILITYNAME_LENGTH_ERROR \<equiv> 75"
abbreviation (input) ERR_INSTALL_FAILED_EXCEED_MAX_ABILITY_DESCRIPTION_LENGTH_ERROR :: errcode where "ERR_INSTALL_FAILED_EXCEED_MAX_ABILITY_DESCRIPTION_LENGTH_ERROR \<equiv> 76"
abbreviation (input) ERR_INSTALL_FAILED_EXCEED_MAX_ABILITY_LABEL_LENGTH_ERROR :: errcode where "ERR_INSTALL_FAILED_EXCEED_MAX_ABILITY_LABEL_LENGTH_ERROR \<equiv> 77"
abbreviation (input) ERR_INSTALL_FAILED_EXTRACTOR_NOT_INIT :: errcode where "ERR_INSTALL_FAILED_EXTRACTOR_NOT_INIT \<equiv> 78"
abbreviation (input) ERR_INSTALL_FAILED_EXTRACT_HAP_ERROR :: errcode where "ERR_INSTALL_FAILED_EXTRACT_HAP_ERROR \<equiv> 79"
abbreviation (input) ERR_INSTALL_FAILED_PARSE_JS_DIR_ERROR :: errcode where "ERR_INSTALL_FAILED_PARSE_JS_DIR_ERROR \<equiv> 80"
abbreviation (input) ERR_INSTALL_FAILED_RESOURCE_INDEX_NOT_EXISTS :: errcode where "ERR_INSTALL_FAILED_RESOURCE_INDEX_NOT_EXISTS \<equiv> 81"
abbreviation (input) ERR_INSTALL_FAILED_PARSE_LABEL_RES_ERROR :: errcode where "ERR_INSTALL_FAILED_PARSE_LABEL_RES_ERROR \<equiv> 82"
abbreviation (input) ERR_INSTALL_FAILED_PARSE_ICON_RES_ERROR :: errcode where "ERR_INSTALL_FAILED_PARSE_ICON_RES_ERROR \<equiv> 83"
abbreviation (input) ERR_INSTALL_FAILED_PARSE_DESCRIPTION_RES_ERROR :: errcode where "ERR_INSTALL_FAILED_PARSE_DESCRIPTION_RES_ERROR \<equiv> 84"
abbreviation (input) ERR_INSTALL_FAILED_SEND_REQUEST_ERROR :: errcode where "ERR_INSTALL_FAILED_SEND_REQUEST_ERROR \<equiv> 85"
abbreviation (input) ERR_UNINSTALL_FAILED_INTERNAL_ERROR :: errcode where "ERR_UNINSTALL_FAILED_INTERNAL_ERROR \<equiv> 90"
abbreviation (input) ERR_UNINSTALL_FAILED_PARAM_ERROR :: errcode where "ERR_UNINSTALL_FAILED_PARAM_ERROR \<equiv> 91"
abbreviation (input) ERR_UNINSTALL_FAILED_BUNDLE_NOT_EXISTS :: errcode where "ERR_UNINSTALL_FAILED_BUNDLE_NOT_EXISTS \<equiv> 92"
abbreviation (input) ERR_UNINSTALL_FAILED_DELETE_DIRS_ERROR :: errcode where "ERR_UNINSTALL_FAILED_DELETE_DIRS_ERROR \<equiv> 93"
abbreviation (input) ERR_UNINSTALL_FAILED_DELETE_RECORD_INFO_ERROR :: errcode where "ERR_UNINSTALL_FAILED_DELETE_RECORD_INFO_ERROR \<equiv> 94"
abbreviation (input) ERR_UNINSTALL_FAILED_DELETE_PERMISSIONS_ERROR :: errcode where "ERR_UNINSTALL_FAILED_DELETE_PERMISSIONS_ERROR \<equiv> 95"
abbreviation (input) ERR_UNINSTALL_FAILED_BUNDLE_NOT_UNINSTALLABLE :: errcode where "ERR_UNINSTALL_FAILED_BUNDLE_NOT_UNINSTALLABLE \<equiv> 96"
abbreviation (input) ERR_UNINSTALL_FAILED_DELETE_UID_INFO_ERROR :: errcode where "ERR_UNINSTALL_FAILED_DELETE_UID_INFO_ERROR \<equiv> 97"
abbreviation (input) ERR_UNINSTALL_FAILED_SEND_REQUEST_ERROR :: errcode where "ERR_UNINSTALL_FAILED_SEND_REQUEST_ERROR \<equiv> 98"
abbreviation (input) ERR_DUMP_ERROR :: errcode where "ERR_DUMP_ERROR \<equiv> 100"
abbreviation (input) ERR_COMMAND_ERROR :: errcode where "ERR_COMMAND_ERROR \<equiv> 101"
abbreviation (input) ERR_CALLBACK_REGISTER_FAILED :: errcode where "ERR_CALLBACK_REGISTER_FAILED \<equiv> 102"
abbreviation (input) ERR_CALLBACK_UNREGISTER_FAILED :: errcode where "ERR_CALLBACK_UNREGISTER_FAILED \<equiv> 103"
abbreviation (input) ERR_CALLBACK_GENERATE_LOCAL_SERVICEID_FAILED :: errcode where "ERR_CALLBACK_GENERATE_LOCAL_SERVICEID_FAILED \<equiv> 104"
abbreviation (input) ERR_CALLBACK_SERVICEID_TRANSMITTED_FAILED :: errcode where "ERR_CALLBACK_SERVICEID_TRANSMITTED_FAILED \<equiv> 105"
abbreviation (input) ERR_CALLBACK_NEVER_REGISTERED :: errcode where "ERR_CALLBACK_NEVER_REGISTERED \<equiv> 106"
abbreviation (input) ERR_CALLBACK_OBTAIN_ALL_BUNDLE_FAILED :: errcode where "ERR_CALLBACK_OBTAIN_ALL_BUNDLE_FAILED \<equiv> 107"
abbreviation (input) ERR_CALLBACK_NULL_CORRESPONDING_CALLBACK :: errcode where "ERR_CALLBACK_NULL_CORRESPONDING_CALLBACK \<equiv> 108"
abbreviation (input) ERR_CALLBACK_GET_INSTALLTYPE_FAILED :: errcode where "ERR_CALLBACK_GET_INSTALLTYPE_FAILED \<equiv> 109"
abbreviation (input) ERR_CALLBACK_GET_ERROR_INSTALLTYPE :: errcode where "ERR_CALLBACK_GET_ERROR_INSTALLTYPE \<equiv> 110"
abbreviation (input) ERR_SERIALIZATION_FAILED :: errcode where "ERR_SERIALIZATION_FAILED \<equiv> 111"
abbreviation (input) ERR_DESERIALIZATION_FAILED :: errcode where "ERR_DESERIALIZATION_FAILED \<equiv> 112"
abbreviation (input) ERR_SYSTEM_INTERNAL_ERROR :: errcode where "ERR_SYSTEM_INTERNAL_ERROR \<equiv> 113"
abbreviation (input) ERR_NO_BUNDLENAME_FOR_UID :: errcode where "ERR_NO_BUNDLENAME_FOR_UID \<equiv> 114"
abbreviation (input) ERR_IPCIO_UNAVAILABLED :: errcode where "ERR_IPCIO_UNAVAILABLED \<equiv> 115"
abbreviation (input) ERR_INVOKE_ERROR :: errcode where "ERR_INVOKE_ERROR \<equiv> 116"
abbreviation (input) ERR_PERMISSION_DENIED :: errcode where "ERR_PERMISSION_DENIED \<equiv> 117"

text \<open>The enumeration as the header lists it: the values in order.\<close>

definition AppexecfwkErrors :: "errcode list" where
  "AppexecfwkErrors = [
     ERR_OK,
     ERR_QUERY_PARAMETER_ERROR,
     ERR_QUERY_NO_INFOS,
     ERR_QUERY_INFOS_INIT_ERROR,
     ERR_OBJECT_NULL,
     ERR_INSTALL_FAILED_INTERNAL_ERROR,
     ERR_INSTALL_FAILED_PARAM_ERROR,
     ERR_INSTALL_FAILED_FILE_PATH_INVALID,
     ERR_INSTALL_FAILED_FILE_NOT_EXISTS,
     ERR_INSTALL_FAILED_INVALID_FILE_NAME,
     ERR_INSTALL_FAILED_BAD_FILE,
     ERR_INSTALL_FAILED_CREATE_FILE_ERROR,
     ERR_INSTALL_FAILED_CREATE_PERMISSIONS_DIR_ERROR,
     ERR_INSTALL_FAILED_RENAME_DIR_ERROR,
     ERR_INSTALL_FAILED_RENAME_FILE_ERROR,
     ERR_INSTALL_FAILED_CREATE_DATA_DIR_ERROR,
     ERR_INSTALL_FAILED_RECORD_INFO_ERROR,
     ERR_INSTALL_FAILED_UID_AND_GID_BACKUP_ERROR,
     ERR_INSTALL_FAILED_VERSION_DOWNGRADE,
     ERR_INSTALL_FAILED_EXCEED_MAX_BUNDLE_NUMBER,
     ERR_INSTALL_FAILED_STORE_PERMISSIONS_ERROR,
     ERR_INSTALL_FAILED_FILE_DATA_INVALID,
     ERR_INSTALL_FAILED_INCOMPATIBLE_SIGNATURE,
     ERR_INSTALL_FAILED_INVALID_PROVISIONINFO,
     ERR_INSTALL_FAILED_OPERATE_SIGNED_FILE_ERROR,
     ERR_INSTALL_FAILED_PARSE_APP_SIGNATURE_ERROR,
     ERR_INSTALL_FAILED_PARSE_PROFILE_SIGNATURE_ERROR,
     ERR_INSTALL_FAILED_INTERNAL_SIGNATURE_ERROR,
     ERR_INSTALL_FAILED_GET_JS_ENGINE_VERSION_ERROR,
     ERR_INSTALL_FAILED_TRANSFORM_BC_FILE_ERROR,
     ERR_SET_DEBUG_MODE_ERROR,
     ERR_INSTALL_FAILED_PARSE_PROFILE_ERROR,
     ERR_INSTALL_FAILED_PARSE_BUNDLENAME_ERROR,
     ERR_INSTALL_FAILED_PARSE_INVALID_BUNDLENAME,
     ERR_INSTALL_FAILED_PARSE_VENDOR_ERROR,
     ERR_INSTALL_FAILED_PARSE_VERSIONCODE_ERROR,
     ERR_INSTALL_FAILED_PARSE_VERSIONNAME_ERROR,
     ERR_INSTALL_FAILED_PARSE_PERMISSIONS_ERROR,
     ERR_INSTALL_FAILED_PARSE_API_VERSION_ERROR,
     ERR_INSTALL_FAILED_PARSE_DEVICE_CONFIG_ERROR,
     ERR_INSTALL_FAILED_PARSE_KEEPALIVE_ERROR,
     ERR_INSTALL_FAILED_PARSE_MODULENAME_ERROR,
     ERR_INSTALL_FAILED_PARSE_INVALID_MODULENAME,
     ERR_INSTALL_FAILED_PARSE_MODULE_DESCRIPTION_ERROR,
     ERR_INSTALL_FAILED_PARSE_DEVICETYPE_ERROR,
     ERR_INSTALL_FAILED_PARSE_DEVICECAP_ERROR,
     ERR_INSTALL_FAILED_PARSE_DISTRO_ERROR,
     ERR_INSTALL_FAILED_PARSE_DISTRO_MODULENAME_ERROR,
     ERR_INSTALL_FAILED_PARSE_DISTRO_MODULETYPE_ERROR,
     ERR_INSTALL_FAILED_PARSE_DISTRO_DELIVERY_ERROR,
     ERR_INSTALL_FAILED_PARSE_METADATA_ERROR,
     ERR_INSTALL_FAILED_PARSE_ABILITIES_ERROR,
     ERR_INSTALL_FAILED_PARSE_ABILITY_NAME_ERROR,
     ERR_INSTALL_FAILED_PARSE_ABILITY_TYPE_ERROR,
     ERR_INSTALL_FAILED_PARSE_ABILITY_ICONPATH_ERROR,
     ERR_INSTALL_FAILED_PARSE_ABILITY_LABEL_ERROR,
     ERR_INSTALL_FAILED_PARSE_ABILITY_DESCRIPTION_ERROR,
     ERR_INSTALL_FAILED_PARSE_ABILITY_LAUNCHTYPE_ERROR,
     ERR_INSTALL_FAILED_PARSE_ABILITY_VISIBLE_ERROR,
     ERR_INSTALL_FAILED_PARSE_INVALID_BUNDLENAME_LENGTH,
     ERR_INSTALL_FAILED_EXCEED_MAX_LABEL_LENGTH_ERROR,
     ERR_INSTALL_FAILED_EXCEED_MAX_VERSIONNAME_LENGTH_ERROR,
     ERR_INSTALL_FAILED_EXCEED_MAX_METADATA_NAME_LENGTH_ERROR,
     ERR_INSTALL_FAILED_EXCEED_MAX_METADATA_VALUE_LENGTH_ERROR,
     ERR_INSTALL_FAILED_EXCEED_MAX_VENDOR_LENGTH_ERROR,
     ERR_INSTALL_FAILED_EXCEED_MAX_MODULENAME_LENGTH_ERROR,
     ERR_INSTALL_FAILED_EXCEED_MAX_ABILITYNAME_LENGTH_ERROR,
     ERR_INSTALL_FAILED_EXCEED_MAX_ABILITY_DESCRIPTION_LENGTH_ERROR,
     ERR_INSTALL_FAILED_EXCEED_MAX_ABILITY_LABEL_LENGTH_ERROR,
     ERR_INSTALL_FAILED_EXTRACTOR_NOT_INIT,
     ERR_INSTALL_FAILED_EXTRACT_HAP_ERROR,
     ERR_INSTALL_FAILED_PARSE_JS_DIR_ERROR,
     ERR_INSTALL_FAILED_RESOURCE_INDEX_NOT_EXISTS,
     ERR_INSTALL_FAILED_PARSE_LABEL_RES_ERROR,
     ERR_INSTALL_FAILED_PARSE_ICON_RES_ERROR,
     ERR_INSTALL_FAILED_PARSE_DESCRIPTION_RES_ERROR,
     ERR_INSTALL_FAILED_SEND_REQUEST_ERROR,
     ERR_UNINSTALL_FAILED_INTERNAL_ERROR,
     ERR_UNINSTALL_FAILED_PARAM_ERROR,
     ERR_UNINSTALL_FAILED_BUNDLE_NOT_EXISTS,
     ERR_UNINSTALL_FAILED_DELETE_DIRS_ERROR,
     ERR_UNINSTALL_FAILED_DELETE_RECORD_INFO_ERROR,
     ERR_UNINSTALL_FAILED_DELETE_PERMISSIONS_ERROR,
     ERR_UNINSTALL_FAILED_BUNDLE_NOT_UNINSTALLABLE,
     ERR_UNINSTALL_FAILED_DELETE_UID_INFO_ERROR,
     ERR_UNINSTALL_FAILED_SEND_REQUEST_ERROR,
     ERR_DUMP_ERROR,
     ERR_COMMAND_ERROR,
     ERR_CALLBACK_REGISTER_FAILED,
     ERR_CALLBACK_UNREGISTER_FAILED,
     ERR_CALLBACK_GENERATE_LOCAL_SERVICEID_FAILED,
     ERR_CALLBACK_SERVICEID_TRANSMITTED_FAILED,
     ERR_CALLBACK_NEVER_REGISTERED,
     ERR_CALLBACK_OBTAIN_ALL_BUNDLE_FAILED,
     ERR_CALLBACK_NULL_CORRESPONDING_CALLBACK,
     ERR_CALLBACK_GET_INSTALLTYPE_FAILED,
     ERR_CALLBACK_GET_ERROR_INSTALLTYPE,
     ERR_SERIALIZATION_FAILED,
     ERR_DESERIALIZATION_FAILED,
     ERR_SYSTEM_INTERNAL_ERROR,
     ERR_NO_BUNDLENAME_FOR_UID,
     ERR_IPCIO_UNAVAILABLED,
     ERR_INVOKE_ERROR,
     ERR_PERMISSION_DENIED]"

lemma AppexecfwkErrors_increasing: "successively (<) AppexecfwkErrors"
  by (simp add: AppexecfwkErrors_def)

lemma max_error: "\<forall>e \<in> set AppexecfwkErrors. e < 128"
  by (simp add: AppexecfwkErrors_def)

datatype ec = EC_SUCCESS | EC_FAILURE | EC_INVALID | EC_NOINIT | EC_NODIR | EC_NOFILE | EC_PERMISSION
  | EC_COMMU | EC_CANCELED

end
