(* ===== verification/Utils_List.thy ===== *)
theory Utils_List
  imports Prelude
begin

text \<open>
  \<^verbatim>\<open>utils/bundle_lite/utils_list.h\<close>: the circular doubly linked list \<open>List<T>\<close> with a sentinel, and
  \<^verbatim>\<open>utils/bundle_lite/utils.h\<close>: \<open>Utils::Strdup\<close> and \<open>Utils::Memdup\<close>.

  The list is modelled on an explicit store of nodes, so that the pointer surgery of each
  operation is the one of the code. \<open>T\<close> is a pointer type in every use of the repository, so a
  value is an \<open>option\<close> (\<open>None\<close> is \<open>nullptr\<close>). An operation returns \<open>None\<close> where the code would
  follow a null or dangling pointer or delete twice: such a run has no defined behaviour.
  Addresses are never reused, so a freed node stays freed.

  \<open>dll l as xs\<close> says that \<open>l\<close> is a well formed ring through the nodes \<open>as\<close> holding the values \<open>xs\<close>;
  every operation but \<open>RemoveAll\<close> refines an operation on \<open>xs\<close> and keeps the ring.
\<close>

section \<open>utils.h\<close>

abbreviation (input) MAX_STR_SIZE :: nat where "MAX_STR_SIZE \<equiv> 4096"

definition Strdup :: "allocator \<Rightarrow> cstr \<Rightarrow> cstr" where
  "Strdup m src =
     (case src of
        None \<Rightarrow> None
      | Some s \<Rightarrow>
          if length s > MAX_STR_SIZE then None
          else if \<not> m (Chars (length s + 1)) then None
          else Some s)"

definition Memdup :: "allocator \<Rightarrow> 'a list option \<Rightarrow> nat \<Rightarrow> 'a list option" where
  "Memdup m src len =
     (case src of
        None \<Rightarrow> None
      | Some bs \<Rightarrow>
          if len = 0 \<or> len > MAX_STR_SIZE then None
          else if \<not> m (Chars len) then None
          else Some (take len bs))"

lemma Strdup_copies: "Strdup m (Some s) = Some t \<Longrightarrow> t = s"
  by (auto simp: Strdup_def split: if_splits)

lemma Strdup_cases: "Strdup m p = None \<or> Strdup m p = p"
  by (auto simp: Strdup_def split: option.splits)

lemma Strdup_ok: "m (Chars (length s + 1)) \<Longrightarrow> length s \<le> MAX_STR_SIZE \<Longrightarrow> Strdup m (Some s) = Some s"
  by (simp add: Strdup_def)

lemma Strdup_None [simp]: "Strdup m None = None"
  by (simp add: Strdup_def)

section \<open>Nodes and the store\<close>

record 'a node =
  value_of :: "'a option"
  next_of :: "nat option"
  prev_of :: "nat option"

record 'a dlist =
  store :: "nat \<Rightarrow> 'a node option"
  fresh :: nat
  head_of :: nat
  count_of :: int

definition deref :: "nat option \<Rightarrow> 'a dlist \<Rightarrow> 'a node option" where
  "deref p l = (case p of None \<Rightarrow> None | Some a \<Rightarrow> store l a)"

text \<open>\<open>p->next_of = q\<close>, \<open>p->prev_of = q\<close>, \<open>delete p\<close> and \<open>new Node<T>(value)\<close>.\<close>

definition set_next :: "nat option \<Rightarrow> nat option \<Rightarrow> 'a dlist \<Rightarrow> 'a dlist option" where
  "set_next p q l = do {
     a \<leftarrow> p; n \<leftarrow> store l a;
     Some (l\<lparr>store := (store l)(a \<mapsto> n\<lparr>next_of := q\<rparr>)\<rparr>) }"

definition set_prev :: "nat option \<Rightarrow> nat option \<Rightarrow> 'a dlist \<Rightarrow> 'a dlist option" where
  "set_prev p q l = do {
     a \<leftarrow> p; n \<leftarrow> store l a;
     Some (l\<lparr>store := (store l)(a \<mapsto> n\<lparr>prev_of := q\<rparr>)\<rparr>) }"

definition delete_node :: "nat \<Rightarrow> 'a dlist \<Rightarrow> 'a dlist option" where
  "delete_node a l = do {
     _ \<leftarrow> store l a;
     Some (l\<lparr>store := (store l)(a := None)\<rparr>) }"

definition new_node :: "'a option \<Rightarrow> 'a dlist \<Rightarrow> nat \<times> 'a dlist" where
  "new_node v l =
     (fresh l,
      l\<lparr>store := (store l)(fresh l \<mapsto> \<lparr>value_of = v, next_of = None, prev_of = None\<rparr>),
        fresh := Suc (fresh l)\<rparr>)"

section \<open>The operations of List\<close>

text \<open>The constructor: a sentinel that points to itself.\<close>

definition List_new :: "'a dlist" where
  "List_new =
     \<lparr>store = [0 \<mapsto> \<lparr>value_of = None, next_of = Some 0, prev_of = Some 0\<rparr>],
      fresh = 1, head_of = 0, count_of = 0\<rparr>"

definition Front :: "'a dlist \<Rightarrow> 'a option option" where
  "Front l =
     (if count_of l = 0 then map_option value_of (deref (Some (head_of l)) l)
      else do { h \<leftarrow> deref (Some (head_of l)) l; n \<leftarrow> deref (next_of h) l; Some (value_of n) })"

definition Back :: "'a dlist \<Rightarrow> 'a option option" where
  "Back l =
     (if count_of l = 0 then map_option value_of (deref (Some (head_of l)) l)
      else do { h \<leftarrow> deref (Some (head_of l)) l; n \<leftarrow> deref (prev_of h) l; Some (value_of n) })"

definition PushFront :: "'a option \<Rightarrow> 'a dlist \<Rightarrow> 'a dlist option" where
  "PushFront v l0 =
     (let (a, l) = new_node v l0 in do {
        l \<leftarrow> set_prev (Some a) (Some (head_of l)) l;
        h \<leftarrow> deref (Some (head_of l)) l;
        l \<leftarrow> set_next (Some a) (next_of h) l;
        h \<leftarrow> deref (Some (head_of l)) l;
        l \<leftarrow> set_prev (next_of h) (Some a) l;
        l \<leftarrow> set_next (Some (head_of l)) (Some a) l;
        Some (l\<lparr>count_of := count_of l + 1\<rparr>) })"

definition PushBack :: "'a option \<Rightarrow> 'a dlist \<Rightarrow> 'a dlist option" where
  "PushBack v l0 =
     (let (a, l) = new_node v l0 in do {
        l \<leftarrow> set_next (Some a) (Some (head_of l)) l;
        h \<leftarrow> deref (Some (head_of l)) l;
        l \<leftarrow> set_prev (Some a) (prev_of h) l;
        h \<leftarrow> deref (Some (head_of l)) l;
        l \<leftarrow> set_next (prev_of h) (Some a) l;
        l \<leftarrow> set_prev (Some (head_of l)) (Some a) l;
        Some (l\<lparr>count_of := count_of l + 1\<rparr>) })"

definition PopFront :: "'a dlist \<Rightarrow> 'a dlist option" where
  "PopFront l =
     (if count_of l = 0 then Some l
      else do {
        h \<leftarrow> deref (Some (head_of l)) l;
        a \<leftarrow> next_of h;
        n \<leftarrow> store l a;
        l \<leftarrow> set_prev (next_of n) (Some (head_of l)) l;
        n \<leftarrow> store l a;
        l \<leftarrow> set_next (Some (head_of l)) (next_of n) l;
        l \<leftarrow> delete_node a l;
        Some (l\<lparr>count_of := count_of l - 1\<rparr>) })"

definition PopBack :: "'a dlist \<Rightarrow> 'a dlist option" where
  "PopBack l =
     (if count_of l = 0 then Some l
      else do {
        h \<leftarrow> deref (Some (head_of l)) l;
        a \<leftarrow> prev_of h;
        n \<leftarrow> store l a;
        l \<leftarrow> set_next (prev_of n) (Some (head_of l)) l;
        n \<leftarrow> store l a;
        l \<leftarrow> set_prev (Some (head_of l)) (prev_of n) l;
        l \<leftarrow> delete_node a l;
        Some (l\<lparr>count_of := count_of l - 1\<rparr>) })"

definition Remove :: "nat option \<Rightarrow> 'a dlist \<Rightarrow> 'a dlist option" where
  "Remove p l =
     (if count_of l = 0 \<or> p = None then Some l
      else do {
        a \<leftarrow> p;
        n \<leftarrow> store l a;
        l \<leftarrow> set_next (prev_of n) (next_of n) l;
        n \<leftarrow> store l a;
        l \<leftarrow> set_prev (next_of n) (prev_of n) l;
        l \<leftarrow> delete_node a l;
        Some (l\<lparr>count_of := count_of l - 1\<rparr>) })"

text \<open>
  \<open>RemoveAll\<close>: the loop \<open>while (node != head_) { temp = node; node = node->next_; delete temp; }\<close>.
  Neither the sentinel's links nor \<open>count_\<close> are reset.
\<close>

partial_function (option) RemoveAll_loop :: "nat option \<Rightarrow> 'a dlist \<Rightarrow> 'a dlist option" where
  "RemoveAll_loop p l =
     (if p = Some (head_of l) then Some l
      else do {
        a \<leftarrow> p;
        n \<leftarrow> store l a;
        l \<leftarrow> delete_node a l;
        RemoveAll_loop (next_of n) l })"

definition RemoveAll :: "'a dlist \<Rightarrow> 'a dlist option" where
  "RemoveAll l = do { h \<leftarrow> deref (Some (head_of l)) l; RemoveAll_loop (next_of h) l }"

definition Begin :: "'a dlist \<Rightarrow> nat option option" where
  "Begin l = map_option next_of (deref (Some (head_of l)) l)"

definition End :: "'a dlist \<Rightarrow> nat option" where
  "End l = Some (head_of l)"

text \<open>\<open>Size\<close> returns the \<open>int\<close> counter as \<open>uint32_t\<close>.\<close>

definition Size :: "'a dlist \<Rightarrow> u32" where
  "Size l = word_of_int (count_of l)"

definition IsEmpty :: "'a dlist \<Rightarrow> bool" where
  "IsEmpty l = (count_of l = 0)"

text \<open>
  The traversal that the clients write as
  \<open>for (node = Begin(); node != End(); node = node->next_) { if (found(node->value_of)) ...}\<close>:
  the first node whose value passes the test. The test itself may follow a dangling pointer.
\<close>

partial_function (option) find_loop ::
    "('a option \<Rightarrow> bool option) \<Rightarrow> nat option \<Rightarrow> 'a dlist \<Rightarrow> nat option option" where
  "find_loop test p l =
     (if p = Some (head_of l) then Some None
      else do {
        a \<leftarrow> p;
        n \<leftarrow> store l a;
        b \<leftarrow> test (value_of n);
        if b then Some (Some a) else find_loop test (next_of n) l })"

definition find_node :: "('a option \<Rightarrow> bool option) \<Rightarrow> 'a dlist \<Rightarrow> nat option option" where
  "find_node test l = do { p \<leftarrow> Begin l; find_loop test p l }"

text \<open>The loops and the empty list compute.\<close>

declare RemoveAll_loop.simps [code] find_loop.simps [code]
declare List_new_def [code_unfold]

section \<open>Well formed rings\<close>

definition nx :: "(nat \<Rightarrow> 'a node option) \<Rightarrow> nat \<Rightarrow> nat option" where
  "nx s a = Option.bind (s a) next_of"

definition pv :: "(nat \<Rightarrow> 'a node option) \<Rightarrow> nat \<Rightarrow> nat option" where
  "pv s a = Option.bind (s a) prev_of"

definition vl :: "(nat \<Rightarrow> 'a node option) \<Rightarrow> nat \<Rightarrow> 'a option" where
  "vl s a = Option.bind (s a) value_of"

text \<open>Neighbours in the list point to each other.\<close>

fun seg :: "(nat \<Rightarrow> 'a node option) \<Rightarrow> nat list \<Rightarrow> bool" where
  "seg s (a # b # as) = (nx s a = Some b \<and> pv s b = Some a \<and> seg s (b # as))"
| "seg s _ = True"

text \<open>
  \<open>ring\<close>: the links and the values, in a store that may hold other nodes too. \<open>dll\<close>: the store holds
  nothing else and the counter is right.
\<close>

definition ring :: "'a dlist \<Rightarrow> nat list \<Rightarrow> 'a option list \<Rightarrow> bool" where
  "ring l as xs \<longleftrightarrow>
     distinct (head_of l # as) \<and>
     seg (store l) (head_of l # as @ [head_of l]) \<and>
     map (vl (store l)) as = xs \<and>
     set (head_of l # as) \<subseteq> dom (store l) \<and>
     (\<forall>a \<in> dom (store l). a < fresh l)"

definition dll :: "'a dlist \<Rightarrow> nat list \<Rightarrow> 'a option list \<Rightarrow> bool" where
  "dll l as xs \<longleftrightarrow>
     ring l as xs \<and> dom (store l) = set (head_of l # as) \<and> count_of l = int (length as)"

lemma dll_iff:
  "dll l as xs \<longleftrightarrow>
     distinct (head_of l # as) \<and>
     seg (store l) (head_of l # as @ [head_of l]) \<and>
     map (vl (store l)) as = xs \<and>
     dom (store l) = set (head_of l # as) \<and>
     (\<forall>a \<in> dom (store l). a < fresh l) \<and>
     count_of l = int (length as)"
  by (auto simp: dll_def ring_def)

lemma dll_ring: "dll l as xs \<Longrightarrow> ring l as xs"
  by (simp add: dll_def)

lemma seg_append: "seg s (xs @ y # ys) \<longleftrightarrow> seg s (xs @ [y]) \<and> seg s (y # ys)"
proof (induction xs)
  case Nil
  then show ?case by simp
next
  case (Cons x xs)
  then show ?case by (cases xs) auto
qed

lemma seg_cong:
  "\<forall>a \<in> set (butlast xs). nx s a = nx t a \<Longrightarrow> \<forall>a \<in> set (tl xs). pv s a = pv t a \<Longrightarrow>
   seg s xs = seg t xs"
proof (induction xs)
  case Nil
  then show ?case by simp
next
  case (Cons x xs)
  show ?case
  proof (cases xs)
    case Nil
    then show ?thesis by simp
  next
    case (Cons y ys)
    with Cons.prems have "seg s xs = seg t xs"
      by (intro Cons.IH) (auto split: if_splits)
    with Cons Cons.prems show ?thesis by simp
  qed
qed

lemma seg_splice:
  assumes l: "seg s (ps @ [p])" and r: "seg s (q # qs)"
    and once: "distinct (ps @ [p])" "distinct (q # qs)"
    and split: "set (ps @ [p]) \<inter> set (butlast (q # qs)) = {}"
               "set (tl (ps @ [p])) \<inter> set (q # qs) = {}"
    and new: "set (ps @ p # q # qs) \<inter> N = {}"
    and nx: "\<And>b. b \<notin> N \<Longrightarrow> b \<noteq> p \<Longrightarrow> nx t b = nx s b"
    and pv: "\<And>b. b \<notin> N \<Longrightarrow> b \<noteq> q \<Longrightarrow> pv t b = pv s b"
  shows "seg t (ps @ [p]) \<and> seg t (q # qs)"
proof
  have "nx t b = nx s b" if "b \<in> set ps" for b
    using that once new nx[of b] by auto
  moreover have "pv t b = pv s b" if "b \<in> set (tl (ps @ [p]))" for b
  proof -
    have "b \<in> set (ps @ [p])" using that by (cases ps) auto
    with that split new show ?thesis using pv[of b] by auto
  qed
  ultimately show "seg t (ps @ [p])"
    using l seg_cong[of "ps @ [p]" t s] by simp
next
  have "nx t b = nx s b" if "b \<in> set (butlast (q # qs))" for b
  proof -
    have "b \<in> set (q # qs)" using that by (rule in_set_butlastD)
    with that split new show ?thesis using nx[of b] by auto
  qed
  moreover have "pv t b = pv s b" if "b \<in> set qs" for b
    using that once new pv[of b] by auto
  ultimately show "seg t (q # qs)"
    using r seg_cong[of "q # qs" t s] by simp
qed

lemma seg_insert:
  assumes ring: "seg s (ps @ p # q # qs)"
    and once: "distinct (ps @ [p])" "distinct (q # qs)"
    and split: "set (ps @ [p]) \<inter> set (butlast (q # qs)) = {}"
               "set (tl (ps @ [p])) \<inter> set (q # qs) = {}"
    and new: "a \<notin> set (ps @ p # q # qs)"
    and upd: "nx t = (nx s)(p := Some a, a := Some q)" "pv t = (pv s)(q := Some a, a := Some p)"
  shows "seg t (ps @ p # a # q # qs)"
proof -
  have "seg s (ps @ [p])" "seg s (q # qs)"
    using ring seg_append[of s ps p "q # qs"] by auto
  then have "seg t (ps @ [p]) \<and> seg t (q # qs)"
    using once split by (rule seg_splice[where N = "{a}"]) (use new in \<open>auto simp: upd\<close>)
  then show ?thesis
    using new by (subst seg_append) (simp add: upd)
qed

lemma seg_remove:
  assumes ring: "seg s (ps @ p # a # q # qs)"
    and once: "distinct (ps @ [p])" "distinct (q # qs)"
    and split: "set (ps @ [p]) \<inter> set (butlast (q # qs)) = {}"
               "set (tl (ps @ [p])) \<inter> set (q # qs) = {}"
    and new: "a \<notin> set (ps @ p # q # qs)"
    and upd: "nx t = (nx s)(p := Some q, a := None)" "pv t = (pv s)(q := Some p, a := None)"
  shows "seg t (ps @ p # q # qs)"
proof -
  have "seg s (ps @ [p])" "seg s (q # qs)"
    using ring seg_append[of s ps p "a # q # qs"] by auto
  then have "seg t (ps @ [p]) \<and> seg t (q # qs)"
    using once split by (rule seg_splice[where N = "{a}"]) (use new in \<open>auto simp: upd\<close>)
  then show ?thesis
    using new by (subst seg_append) (simp add: upd)
qed

lemma seg_replace:
  assumes ring: "seg s (ps @ p # a # q # qs)"
    and once: "distinct (ps @ [p])" "distinct (q # qs)"
    and split: "set (ps @ [p]) \<inter> set (butlast (q # qs)) = {}"
               "set (tl (ps @ [p])) \<inter> set (q # qs) = {}"
    and new: "a \<notin> set (ps @ p # q # qs)" "c \<notin> set (ps @ p # q # qs)" "a \<noteq> c"
    and upd: "nx t = (nx s)(p := Some c, c := Some q, a := None)"
             "pv t = (pv s)(q := Some c, c := Some p, a := None)"
  shows "seg t (ps @ p # c # q # qs)"
proof -
  have "seg s (ps @ [p])" "seg s (q # qs)"
    using ring seg_append[of s ps p "a # q # qs"] by auto
  then have "seg t (ps @ [p]) \<and> seg t (q # qs)"
    using once split by (rule seg_splice[where N = "{a, c}"]) (use new in \<open>auto simp: upd\<close>)
  then show ?thesis
    using new by (subst seg_append) (simp add: upd)
qed

lemma dll_new: "dll List_new [] []"
  by (simp add: dll_iff List_new_def nx_def pv_def)

lemma nx_upd [simp]:
  "nx (s(a \<mapsto> n)) = (nx s)(a := next_of n)" "pv (s(a \<mapsto> n)) = (pv s)(a := prev_of n)"
  "vl (s(a \<mapsto> n)) = (vl s)(a := value_of n)"
  by (auto simp: nx_def pv_def vl_def)

lemma nx_del [simp]:
  "nx (s(a := None)) = (nx s)(a := None)" "pv (s(a := None)) = (pv s)(a := None)"
  "vl (s(a := None)) = (vl s)(a := None)"
  by (auto simp: nx_def pv_def vl_def)

lemma nxD: "s a = Some n \<Longrightarrow> nx s a = next_of n" "s a = Some n \<Longrightarrow> pv s a = prev_of n"
  "s a = Some n \<Longrightarrow> vl s a = value_of n"
  by (auto simp: nx_def pv_def vl_def)

text \<open>
  What an insertion between the neighbours \<open>p\<close> and \<open>q\<close> and a removal from between them do to the
  links; nothing else changes.
\<close>

definition inserted :: "nat \<Rightarrow> nat \<Rightarrow> 'a option \<Rightarrow> 'a dlist \<Rightarrow> 'a dlist \<Rightarrow> bool" where
  "inserted p q v l l' \<longleftrightarrow>
     nx (store l') = (nx (store l))(p := Some (fresh l), fresh l := Some q) \<and>
     pv (store l') = (pv (store l))(q := Some (fresh l), fresh l := Some p) \<and>
     vl (store l') = (vl (store l))(fresh l := v) \<and>
     dom (store l') = insert (fresh l) (dom (store l)) \<and>
     fresh l' = Suc (fresh l) \<and> head_of l' = head_of l \<and> count_of l' = count_of l + 1"

definition removed :: "nat \<Rightarrow> nat \<Rightarrow> nat \<Rightarrow> 'a dlist \<Rightarrow> 'a dlist \<Rightarrow> bool" where
  "removed p a q l l' \<longleftrightarrow>
     nx (store l') = (nx (store l))(p := Some q, a := None) \<and>
     pv (store l') = (pv (store l))(q := Some p, a := None) \<and>
     vl (store l') = (vl (store l))(a := None) \<and>
     dom (store l') = dom (store l) - {a} \<and>
     fresh l' = fresh l \<and> head_of l' = head_of l \<and> count_of l' = count_of l - 1"

lemmas node_ops = set_next_def set_prev_def delete_node_def new_node_def deref_def

lemma PushFront_effect:
  assumes "store l (head_of l) = Some hn" "next_of hn = Some q" "q \<in> dom (store l)"
    and "store l (fresh l) = None"
  shows "\<exists>l'. PushFront v l = Some l' \<and> inserted (head_of l) q v l l'"
proof -
  from assms obtain qn where "store l q = Some qn" by auto
  with assms show ?thesis
    by (cases "q = head_of l")
       (auto simp: PushFront_def node_ops inserted_def nxD fun_eq_iff split: if_splits)
qed

lemma PushBack_effect:
  assumes "store l (head_of l) = Some hn" "prev_of hn = Some p" "p \<in> dom (store l)"
    and "store l (fresh l) = None"
  shows "\<exists>l'. PushBack v l = Some l' \<and> inserted p (head_of l) v l l'"
proof -
  from assms obtain pn where "store l p = Some pn" by auto
  with assms show ?thesis
    by (cases "p = head_of l")
       (auto simp: PushBack_def node_ops inserted_def nxD fun_eq_iff split: if_splits)
qed

lemma Remove_effect:
  assumes "store l a = Some n" "prev_of n = Some p" "next_of n = Some q"
    and "store l p = Some pn" "store l q = Some qn" "p \<noteq> a" "q \<noteq> a" "count_of l \<noteq> 0"
  shows "\<exists>l'. Remove (Some a) l = Some l' \<and> removed p a q l l'"
  using assms
  by (cases "p = q") (auto simp: Remove_def node_ops removed_def nxD fun_eq_iff split: if_splits)

lemma PopFront_effect:
  assumes "store l (head_of l) = Some hn" "next_of hn = Some a" "store l a = Some n"
    and "next_of n = Some q" "store l q = Some qn" "head_of l \<noteq> a" "q \<noteq> a" "count_of l \<noteq> 0"
  shows "\<exists>l'. PopFront l = Some l' \<and> removed (head_of l) a q l l'"
  using assms
  by (cases "head_of l = q") (auto simp: PopFront_def node_ops removed_def nxD fun_eq_iff split: if_splits)

lemma PopBack_effect:
  assumes "store l (head_of l) = Some hn" "prev_of hn = Some a" "store l a = Some n"
    and "prev_of n = Some p" "store l p = Some pn" "head_of l \<noteq> a" "p \<noteq> a" "count_of l \<noteq> 0"
  shows "\<exists>l'. PopBack l = Some l' \<and> removed p a (head_of l) l l'"
  using assms
  by (cases "head_of l = p") (auto simp: PopBack_def node_ops removed_def nxD fun_eq_iff split: if_splits)

text \<open>The ring cut open between two neighbours.\<close>

lemma ring_cut:
  "head_of l # (as1 @ as2) @ [head_of l] =
     butlast (head_of l # as1) @ last (head_of l # as1) # hd (as2 @ [head_of l]) # tl (as2 @ [head_of l])"
proof -
  have "head_of l # as1 = butlast (head_of l # as1) @ [last (head_of l # as1)]"
    by (rule append_butlast_last_id[symmetric]) simp
  moreover have "as2 @ [head_of l] = hd (as2 @ [head_of l]) # tl (as2 @ [head_of l])"
    by simp
  ultimately show ?thesis
    by (metis append.assoc append_Cons append_Nil)
qed

lemma ring_cut_sides:
  assumes "distinct (h # as1 @ as2)"
  shows "distinct (butlast (h # as1) @ [last (h # as1)])"
    and "distinct (hd (as2 @ [h]) # tl (as2 @ [h]))"
    and "set (butlast (h # as1) @ [last (h # as1)]) \<inter>
         set (butlast (hd (as2 @ [h]) # tl (as2 @ [h]))) = {}"
    and "set (tl (butlast (h # as1) @ [last (h # as1)])) \<inter>
         set (hd (as2 @ [h]) # tl (as2 @ [h])) = {}"
proof -
  have 1: "butlast (h # as1) @ [last (h # as1)] = h # as1"
    by (rule append_butlast_last_id) simp
  have 2: "hd (as2 @ [h]) # tl (as2 @ [h]) = as2 @ [h]"
    by simp
  from assms show "distinct (butlast (h # as1) @ [last (h # as1)])"
    "distinct (hd (as2 @ [h]) # tl (as2 @ [h]))"
    "set (butlast (h # as1) @ [last (h # as1)]) \<inter>
       set (butlast (hd (as2 @ [h]) # tl (as2 @ [h]))) = {}"
    "set (tl (butlast (h # as1) @ [last (h # as1)])) \<inter>
       set (hd (as2 @ [h]) # tl (as2 @ [h])) = {}"
    unfolding 1 2 by auto
qed

lemma dll_inserted:
  assumes d: "dll l (as1 @ as2) (xs1 @ xs2)" and len: "length as1 = length xs1"
    and ins: "inserted (last (head_of l # as1)) (hd (as2 @ [head_of l])) v l l'"
  shows "dll l' (as1 @ fresh l # as2) (xs1 @ v # xs2)"
proof -
  let ?h = "head_of l" let ?a = "fresh l"
  let ?p = "last (?h # as1)" let ?q = "hd (as2 @ [?h])"
  have a: "?a \<notin> set (?h # as1 @ as2)"
    using d by (auto simp: dll_iff)
  have dist: "distinct (?h # as1 @ as2)"
    using d by (simp add: dll_iff)
  have cut: "butlast (?h # as1) @ ?p # ys = ?h # as1 @ ys" for ys
    by (metis append.assoc append_Cons append_Nil append_butlast_last_id list.distinct(1))
  have "seg (store l') (butlast (?h # as1) @ ?p # ?a # ?q # tl (as2 @ [?h]))"
  proof (rule seg_insert[OF _ ring_cut_sides[OF dist]])
    show "seg (store l) (butlast (?h # as1) @ ?p # ?q # tl (as2 @ [?h]))"
      unfolding cut using d by (simp add: dll_iff)
    show "?a \<notin> set (butlast (?h # as1) @ ?p # ?q # tl (as2 @ [?h]))"
      using a by (subst ring_cut[symmetric]) auto
  qed (use ins in \<open>auto simp: inserted_def\<close>)
  then have "seg (store l') (?h # (as1 @ ?a # as2) @ [?h])"
    unfolding cut by simp
  moreover have "map (vl (store l')) (as1 @ ?a # as2) = xs1 @ v # xs2"
    using d ins a len by (auto simp: dll_iff inserted_def append_eq_append_conv)
  ultimately show ?thesis
    using d ins a by (auto simp: dll_iff inserted_def less_Suc_eq)
qed

lemma dll_removed:
  assumes d: "dll l (as1 @ a # as2) (xs1 @ x # xs2)" and len: "length as1 = length xs1"
    and rem: "removed (last (head_of l # as1)) a (hd (as2 @ [head_of l])) l l'"
  shows "dll l' (as1 @ as2) (xs1 @ xs2)"
proof -
  let ?h = "head_of l"
  let ?p = "last (?h # as1)" let ?q = "hd (as2 @ [?h])"
  have a: "a \<notin> set (?h # as1 @ as2)"
    using d by (auto simp: dll_iff)
  have dist: "distinct (?h # as1 @ as2)"
    using d by (simp add: dll_iff)
  have cut: "butlast (?h # as1) @ ?p # ys = ?h # as1 @ ys" for ys
    by (metis append.assoc append_Cons append_Nil append_butlast_last_id list.distinct(1))
  have "seg (store l') (butlast (?h # as1) @ ?p # ?q # tl (as2 @ [?h]))"
  proof (rule seg_remove[OF _ ring_cut_sides[OF dist]])
    show "seg (store l) (butlast (?h # as1) @ ?p # a # ?q # tl (as2 @ [?h]))"
      unfolding cut using d by (simp add: dll_iff)
    show "a \<notin> set (butlast (?h # as1) @ ?p # ?q # tl (as2 @ [?h]))"
      using a by (subst ring_cut[symmetric]) auto
  qed (use rem in \<open>auto simp: removed_def\<close>)
  then have "seg (store l') (?h # (as1 @ as2) @ [?h])"
    unfolding cut by simp
  moreover have "map (vl (store l')) (as1 @ as2) = xs1 @ xs2"
    using d rem a len by (auto simp: dll_iff removed_def append_eq_append_conv)
  ultimately show ?thesis
    using d rem a by (auto simp: dll_iff removed_def)
qed

section \<open>Each operation refines an operation on the values\<close>

lemma seg_links:
  "seg s (xs @ p # q # ys) \<Longrightarrow> nx s p = Some q \<and> pv s q = Some p"
  by (subst (asm) seg_append) simp

lemma ring_links:
  assumes "ring l (as1 @ as2) xs"
  shows "nx (store l) (last (head_of l # as1)) = Some (hd (as2 @ [head_of l]))"
    and "pv (store l) (hd (as2 @ [head_of l])) = Some (last (head_of l # as1))"
proof -
  have "seg (store l) (butlast (head_of l # as1) @ last (head_of l # as1) #
          hd (as2 @ [head_of l]) # tl (as2 @ [head_of l]))"
    using assms by (subst ring_cut[symmetric]) (simp add: ring_def)
  from seg_links[OF this]
  show "nx (store l) (last (head_of l # as1)) = Some (hd (as2 @ [head_of l]))"
    "pv (store l) (hd (as2 @ [head_of l])) = Some (last (head_of l # as1))"
    by auto
qed

lemmas dll_links = ring_links[OF dll_ring]

lemma ring_alive: "ring l as xs \<Longrightarrow> a \<in> set (head_of l # as) \<Longrightarrow> \<exists>n. store l a = Some n"
  by (auto simp: ring_def dom_def)

lemmas dll_alive = ring_alive[OF dll_ring]

lemma dll_fresh: "dll l as xs \<Longrightarrow> store l (fresh l) = None"
  by (auto simp: dll_iff dom_def)

lemma ring_length: "ring l as xs \<Longrightarrow> length as = length xs"
  by (auto simp: ring_def)

lemmas dll_length = ring_length[OF dll_ring]

lemma hd_in_ring: "hd (as @ [h]) \<in> set (h # as)"
  by (cases as) auto

lemma last_in_ring: "last (h # as) \<in> set (h # as)"
  by (rule last_in_set) simp

lemma PushFront_refines:
  assumes "dll l as xs"
  shows "\<exists>l'. PushFront v l = Some l' \<and> head_of l' = head_of l \<and> dll l' (fresh l # as) (v # xs)"
proof -
  obtain hn where hn: "store l (head_of l) = Some hn"
    using dll_alive[OF assms, of "head_of l"] by auto
  have q: "next_of hn = Some (hd (as @ [head_of l]))"
    using dll_links(1)[of l "[]" as xs] assms hn by (simp add: nxD)
  have "hd (as @ [head_of l]) \<in> dom (store l)"
    using dll_alive[OF assms hd_in_ring] by blast
  with PushFront_effect[OF hn q] dll_fresh[OF assms] obtain l' where
    "PushFront v l = Some l'" "inserted (head_of l) (hd (as @ [head_of l])) v l l'"
    by blast
  moreover from this have "dll l' (fresh l # as) (v # xs)"
    using dll_inserted[of l "[]" as "[]" xs v l'] assms by simp
  ultimately show ?thesis by (auto simp: inserted_def)
qed

lemma PushBack_refines:
  assumes "dll l as xs"
  shows "\<exists>l'. PushBack v l = Some l' \<and> head_of l' = head_of l \<and> dll l' (as @ [fresh l]) (xs @ [v])"
proof -
  obtain hn where hn: "store l (head_of l) = Some hn"
    using dll_alive[OF assms, of "head_of l"] by auto
  have p: "prev_of hn = Some (last (head_of l # as))"
    using dll_links(2)[of l as "[]" xs] assms hn by (simp add: nxD)
  have "last (head_of l # as) \<in> dom (store l)"
    using dll_alive[OF assms last_in_ring] by blast
  with PushBack_effect[OF hn p] dll_fresh[OF assms] obtain l' where
    "PushBack v l = Some l'" "inserted (last (head_of l # as)) (head_of l) v l l'"
    by blast
  moreover from this have "dll l' (as @ [fresh l]) (xs @ [v])"
    using dll_inserted[of l as "[]" xs "[]" v l'] assms dll_length[OF assms] by simp
  ultimately show ?thesis by (auto simp: inserted_def)
qed

text \<open>What a node knows of its neighbours.\<close>

lemma ring_node:
  assumes "ring l (as1 @ a # as2) xs" "store l a = Some n"
  shows "prev_of n = Some (last (head_of l # as1))" "next_of n = Some (hd (as2 @ [head_of l]))"
  using ring_links(2)[of l as1 "a # as2" xs] ring_links(1)[of l "as1 @ [a]" as2 xs] assms
  by (auto simp: nxD)

lemmas dll_node = ring_node[OF dll_ring]

lemma dll_node_apart:
  assumes "dll l (as1 @ a # as2) xs"
  shows "last (head_of l # as1) \<noteq> a" "hd (as2 @ [head_of l]) \<noteq> a"
proof -
  have "a \<notin> set (head_of l # as1)" "a \<notin> set (head_of l # as2)"
    using assms by (auto simp: dll_iff)
  then show "last (head_of l # as1) \<noteq> a" "hd (as2 @ [head_of l]) \<noteq> a"
    using last_in_ring hd_in_ring by (metis, metis)
qed

lemma Remove_refines:
  assumes d: "dll l (as1 @ a # as2) (xs1 @ x # xs2)" and len: "length as1 = length xs1"
  shows "\<exists>l'. Remove (Some a) l = Some l' \<and> head_of l' = head_of l \<and> dll l' (as1 @ as2) (xs1 @ xs2)"
proof -
  obtain n where n: "store l a = Some n"
    using dll_alive[OF d, of a] by auto
  obtain pn qn where "store l (last (head_of l # as1)) = Some pn"
      "store l (hd (as2 @ [head_of l])) = Some qn"
    using dll_alive[OF d, of "last (head_of l # as1)"] dll_alive[OF d, of "hd (as2 @ [head_of l])"]
      last_in_ring[of "head_of l" as1] hd_in_ring[of as2 "head_of l"] by auto
  moreover have "count_of l \<noteq> 0" using d by (simp add: dll_iff)
  ultimately obtain l' where "Remove (Some a) l = Some l'"
      and r: "removed (last (head_of l # as1)) a (hd (as2 @ [head_of l])) l l'"
    using Remove_effect[OF n dll_node[OF d n]] dll_node_apart[OF d] by blast
  with dll_removed[OF d len r] show ?thesis by (auto simp: removed_def)
qed

lemma PopFront_refines:
  assumes d: "dll l (a # as) (x # xs)"
  shows "\<exists>l'. PopFront l = Some l' \<and> head_of l' = head_of l \<and> dll l' as xs"
proof -
  obtain n hn qn where n: "store l a = Some n" and hn: "store l (head_of l) = Some hn"
      and qn: "store l (hd (as @ [head_of l])) = Some qn"
    using dll_alive[OF d, of a] dll_alive[OF d, of "head_of l"]
      dll_alive[OF d, of "hd (as @ [head_of l])"] hd_in_ring[of as "head_of l"] by auto
  have d': "dll l ([] @ a # as) ([] @ x # xs)" using d by simp
  have "next_of hn = Some a"
    using dll_links(1)[of l "[]" "a # as"] d hn by (simp add: nxD)
  moreover have "count_of l \<noteq> 0" using d by (simp add: dll_iff)
  ultimately obtain l' where "PopFront l = Some l'"
      and r: "removed (head_of l) a (hd (as @ [head_of l])) l l'"
    using PopFront_effect[OF hn _ n dll_node(2)[OF d' n] qn] dll_node_apart[OF d'] by auto
  with dll_removed[OF d'] show ?thesis by (auto simp: removed_def)
qed

lemma PopBack_refines:
  assumes d: "dll l (as @ [a]) (xs @ [x])"
  shows "\<exists>l'. PopBack l = Some l' \<and> head_of l' = head_of l \<and> dll l' as xs"
proof -
  obtain n hn pn where n: "store l a = Some n" and hn: "store l (head_of l) = Some hn"
      and pn: "store l (last (head_of l # as)) = Some pn"
    using dll_alive[OF d, of a] dll_alive[OF d, of "head_of l"]
      dll_alive[OF d, of "last (head_of l # as)"] last_in_ring[of "head_of l" as] by auto
  have "prev_of hn = Some a"
    using dll_links(2)[of l "as @ [a]" "[]"] d hn by (simp add: nxD)
  moreover have "count_of l \<noteq> 0" using d by (simp add: dll_iff)
  ultimately obtain l' where "PopBack l = Some l'"
      and r: "removed (last (head_of l # as)) a (head_of l) l l'"
    using PopBack_effect[OF hn _ n dll_node(1)[OF d n] pn] dll_node_apart[OF d] by auto
  moreover have "length as = length xs" using dll_length[OF d] by simp
  ultimately show ?thesis
    using dll_removed[OF d, of l'] by (auto simp: removed_def)
qed

lemma Pop_empty: "dll l [] [] \<Longrightarrow> PopFront l = Some l \<and> PopBack l = Some l"
  by (simp add: dll_iff PopFront_def PopBack_def)

lemma IsEmpty_refines: "dll l as xs \<Longrightarrow> IsEmpty l \<longleftrightarrow> xs = []"
  by (auto simp: dll_iff IsEmpty_def)

lemma Size_refines: "dll l as xs \<Longrightarrow> length xs < 2 ^ 32 \<Longrightarrow> unat (Size l) = length xs"
  by (auto simp: dll_iff Size_def unat_of_nat)

lemma Front_refines:
  assumes d: "dll l as xs" and "xs \<noteq> []"
  shows "Front l = Some (hd xs)"
proof -
  from assms dll_length[OF d] obtain a as' where as: "as = a # as'"
    by (cases as) auto
  obtain n hn where n: "store l a = Some n" and hn: "store l (head_of l) = Some hn"
    using dll_alive[OF d, of a] dll_alive[OF d, of "head_of l"] as by auto
  have "next_of hn = Some a"
    using dll_links(1)[of l "[]" "a # as'"] d hn as by (simp add: nxD)
  moreover have "count_of l \<noteq> 0" using d as by (simp add: dll_iff)
  moreover have "value_of n = hd xs" using d n as by (auto simp: dll_iff nxD)
  ultimately show ?thesis
    using hn n by (simp add: Front_def deref_def)
qed

text \<open>Traversals terminate on a ring and look at every value in order.\<close>

lemma find_loop_ring:
  assumes "ring l (as1 @ as2) (xs1 @ xs2)" and "length as1 = length xs1"
    and "\<And>x. x \<in> set xs2 \<Longrightarrow> test x = Some (good x)"
  shows "find_loop test (Some (hd (as2 @ [head_of l]))) l =
           Some (map_option fst (List.find (\<lambda>(a, x). good x) (zip as2 xs2)))"
  using assms
proof (induction as2 arbitrary: as1 xs1 xs2)
  case Nil
  then show ?case by (subst find_loop.simps) simp
next
  case (Cons a as2)
  from ring_length[OF Cons.prems(1)] Cons.prems(2) obtain x ys where xs2: "xs2 = x # ys"
    by (cases xs2) auto
  obtain n where n: "store l a = Some n"
    using ring_alive[OF Cons.prems(1), of a] by auto
  have ne: "a \<noteq> head_of l" using Cons.prems(1) by (auto simp: ring_def)
  have nv: "value_of n = x"
    using Cons.prems(1,2) n xs2 by (auto simp: ring_def append_eq_append_conv nxD)
  have nn: "next_of n = Some (hd (as2 @ [head_of l]))"
    by (rule ring_node(2)[OF Cons.prems(1) n])
  have IH: "find_loop test (Some (hd (as2 @ [head_of l]))) l =
      Some (map_option fst (List.find (\<lambda>(a, x). good x) (zip as2 ys)))"
    using Cons.prems xs2 by (intro Cons.IH[of "as1 @ [a]" "xs1 @ [x]"]) auto
  show ?case
    using n ne nv nn IH Cons.prems(3)[of x] xs2 by (subst find_loop.simps) simp
qed

lemma find_node_ring:
  assumes d: "ring l as xs" and "\<And>x. x \<in> set xs \<Longrightarrow> test x = Some (good x)"
  shows "find_node test l = Some (map_option fst (List.find (\<lambda>(a, x). good x) (zip as xs)))"
proof -
  obtain hn where hn: "store l (head_of l) = Some hn"
    using ring_alive[OF d, of "head_of l"] by auto
  have "Begin l = Some (Some (hd (as @ [head_of l])))"
    using ring_links(1)[of l "[]" as xs] d hn by (simp add: Begin_def deref_def nxD)
  moreover have "find_loop test (Some (hd (as @ [head_of l]))) l =
      Some (map_option fst (List.find (\<lambda>(a, x). good x) (zip as xs)))"
    using find_loop_ring[of l "[]" as "[]" xs test good] assms by simp
  ultimately show ?thesis by (simp add: find_node_def)
qed

text \<open>
  \<open>RemoveAll\<close> deletes the nodes and nothing else: the sentinel keeps pointing to the first of
  them and the counter keeps its value.
\<close>

lemma RemoveAll_loop_eq:
  assumes "seg (store l) (as @ [head_of l])" "distinct (as @ [head_of l])" "set as \<subseteq> dom (store l)"
  shows "RemoveAll_loop (Some (hd (as @ [head_of l]))) l =
           Some (l\<lparr>store := (\<lambda>b. if b \<in> set as then None else store l b)\<rparr>)"
  using assms
proof (induction as arbitrary: l)
  case Nil
  then show ?case by (subst RemoveAll_loop.simps) simp
next
  case (Cons a as)
  obtain n where n: "store l a = Some n" using Cons.prems(3) by auto
  let ?l = "l\<lparr>store := (store l)(a := None)\<rparr>"
  have nn: "next_of n = Some (hd (as @ [head_of l]))"
    using Cons.prems(1) n by (cases as) (auto simp: nxD)
  have "seg (store l) (as @ [head_of l])"
    using Cons.prems(1) by (cases as) auto
  then have 1: "seg (store ?l) (as @ [head_of ?l])"
    using Cons.prems(2) seg_cong[of "as @ [head_of l]" "store ?l" "store l"]
    by (cases as) (auto dest: in_set_butlastD)
  have 2: "distinct (as @ [head_of ?l])" "set as \<subseteq> dom (store ?l)"
    using Cons.prems by auto
  note IH = Cons.IH[OF 1 2]
  have "(\<lambda>b. if b \<in> set as then None else store ?l b) =
      (\<lambda>b. if b \<in> set (a # as) then None else store l b)"
    by (auto simp: fun_eq_iff)
  with IH n nn Cons.prems(2) show ?case
    by (subst RemoveAll_loop.simps) (simp add: delete_node_def)
qed

lemma RemoveAll_dangles:
  assumes d: "dll l as xs" and "xs \<noteq> []"
  shows "\<exists>l' a. RemoveAll l = Some l' \<and> dom (store l') = {head_of l} \<and>
           head_of l' = head_of l \<and> Begin l' = Some (Some a) \<and> a \<notin> dom (store l') \<and>
           \<not> IsEmpty l' \<and> Front l' = None \<and> PopFront l' = None"
proof -
  from assms dll_length[OF d] obtain a as' where as: "as = a # as'"
    by (cases as) auto
  obtain hn where hn: "store l (head_of l) = Some hn"
    using dll_alive[OF d, of "head_of l"] by auto
  have nn: "next_of hn = Some a"
    using dll_links(1)[of l "[]" as xs] d hn as by (simp add: nxD)
  let ?l = "l\<lparr>store := (\<lambda>b. if b \<in> set as then None else store l b)\<rparr>"
  have "seg (store l) (as @ [head_of l])"
    using d as by (simp add: dll_iff)
  moreover have "distinct (as @ [head_of l])" "set as \<subseteq> dom (store l)"
    using d by (auto simp: dll_iff)
  ultimately have "RemoveAll_loop (Some (hd (as @ [head_of l]))) l = Some ?l"
    by (rule RemoveAll_loop_eq)
  then have "RemoveAll l = Some ?l"
    using hn nn as by (simp add: RemoveAll_def deref_def)
  moreover have h: "head_of l \<notin> set as" using d by (simp add: dll_iff)
  moreover have "dom (store ?l) = {head_of l}"
    using d h by (auto simp: dll_iff dom_def set_eq_iff split: if_splits)
  ultimately show ?thesis
    using hn nn as d h
    by (intro exI[of _ ?l] exI[of _ a])
       (auto simp: Begin_def deref_def IsEmpty_def Front_def PopFront_def dll_iff)
qed

lemma Begin_ring: "ring l as xs \<Longrightarrow> Begin l = Some (Some (hd (as @ [head_of l])))"
  using ring_links(1)[of l "[]" as xs] ring_alive[of l as xs "head_of l"]
  by (auto simp: Begin_def deref_def nxD)

section \<open>The interface of a list\<close>

text \<open>What the users of a list rely on: it stands for the sequence of its values.\<close>

datatype 'a deque_op = AtFront "'a option" | AtBack "'a option" | DropFront | DropBack

fun spec_deque :: "'a deque_op \<Rightarrow> 'a option list \<Rightarrow> 'a option list" where
  "spec_deque (AtFront v) xs = v # xs"
| "spec_deque (AtBack v) xs = xs @ [v]"
| "spec_deque DropFront xs = tl xs"
| "spec_deque DropBack xs = butlast xs"

fun exec_deque where
  "exec_deque pushf pushb popf popb (AtFront v) s = pushf v s"
| "exec_deque pushf pushb popf popb (AtBack v) s = pushb v s"
| "exec_deque pushf pushb popf popb DropFront s = popf s"
| "exec_deque pushf pushb popf popb DropBack s = popb s"

fun run_deque where
  "run_deque pushf pushb popf popb [] s = Some s"
| "run_deque pushf pushb popf popb (c # cs) s =
     do { s \<leftarrow> exec_deque pushf pushb popf popb c s; run_deque pushf pushb popf popb cs s }"

locale deque =
  fixes holds :: "'s \<Rightarrow> 'a option list \<Rightarrow> bool"
    and pushf pushb :: "'a option \<Rightarrow> 's \<Rightarrow> 's option"
    and popf popb :: "'s \<Rightarrow> 's option"
    and front :: "'s \<Rightarrow> 'a option option"
    and is_empty :: "'s \<Rightarrow> bool"
  assumes pushf_law: "holds s xs \<Longrightarrow> \<exists>s'. pushf v s = Some s' \<and> holds s' (v # xs)"
    and pushb_law: "holds s xs \<Longrightarrow> \<exists>s'. pushb v s = Some s' \<and> holds s' (xs @ [v])"
    and popf_law: "holds s xs \<Longrightarrow> \<exists>s'. popf s = Some s' \<and> holds s' (tl xs)"
    and popb_law: "holds s xs \<Longrightarrow> \<exists>s'. popb s = Some s' \<and> holds s' (butlast xs)"
    and front_law: "holds s xs \<Longrightarrow> xs \<noteq> [] \<Longrightarrow> front s = Some (hd xs)"
    and empty_law: "holds s xs \<Longrightarrow> is_empty s \<longleftrightarrow> xs = []"
begin

lemma exec_holds:
  "holds s xs \<Longrightarrow> \<exists>s'. exec_deque pushf pushb popf popb c s = Some s' \<and> holds s' (spec_deque c xs)"
  by (cases c) (auto simp: pushf_law pushb_law popf_law popb_law)

lemma run_holds:
  "holds s xs \<Longrightarrow> \<exists>s'. run_deque pushf pushb popf popb cs s = Some s' \<and> holds s' (fold spec_deque cs xs)"
proof (induction cs arbitrary: s xs)
  case Nil
  then show ?case by simp
next
  case (Cons c cs)
  from exec_holds[OF Cons.prems, of c] obtain s1 where
    "exec_deque pushf pushb popf popb c s = Some s1" "holds s1 (spec_deque c xs)" by blast
  with Cons.IH[OF this(2)] show ?case by simp
qed

text \<open>A worklist is empty or has a front: the test before \<open>Front\<close> is enough.\<close>

lemma front_defined: "holds s xs \<Longrightarrow> \<not> is_empty s \<Longrightarrow> front s = Some (hd xs)"
  using front_law empty_law by blast

end

definition list_holds :: "'a dlist \<Rightarrow> 'a option list \<Rightarrow> bool" where
  "list_holds l xs \<longleftrightarrow> (\<exists>as. dll l as xs)"

lemma dll_cases:
  assumes "dll l as xs"
  obtains "as = []" "xs = []" | a as' x xs' where "as = a # as'" "xs = x # xs'"
  using dll_length[OF assms] by (cases as; cases xs) auto

lemma dll_rev_cases:
  assumes "dll l as xs"
  obtains "as = []" "xs = []" | as' a xs' x where "as = as' @ [a]" "xs = xs' @ [x]"
  using dll_length[OF assms] by (cases as rule: rev_cases; cases xs rule: rev_cases) auto

lemma PopFront_holds: "list_holds l xs \<Longrightarrow> \<exists>l'. PopFront l = Some l' \<and> list_holds l' (tl xs)"
proof -
  assume "list_holds l xs"
  then obtain as where d: "dll l as xs" by (auto simp: list_holds_def)
  from d show ?thesis
  proof (cases rule: dll_cases)
    case 1
    with d Pop_empty[of l] show ?thesis by (auto simp: list_holds_def)
  next
    case (2 a as' x xs')
    with d PopFront_refines[of l a as' x xs'] show ?thesis by (auto simp: list_holds_def)
  qed
qed

lemma PopBack_holds: "list_holds l xs \<Longrightarrow> \<exists>l'. PopBack l = Some l' \<and> list_holds l' (butlast xs)"
proof -
  assume "list_holds l xs"
  then obtain as where d: "dll l as xs" by (auto simp: list_holds_def)
  from d show ?thesis
  proof (cases rule: dll_rev_cases)
    case 1
    with d Pop_empty[of l] show ?thesis by (auto simp: list_holds_def)
  next
    case (2 as' a xs' x)
    with d PopBack_refines[of l as' a xs' x] show ?thesis by (auto simp: list_holds_def)
  qed
qed

interpretation dl: deque list_holds PushFront PushBack PopFront PopBack Front IsEmpty
proof unfold_locales
  fix l :: "'a dlist" and xs v
  assume l: "list_holds l xs"
  then obtain as where d: "dll l as xs" by (auto simp: list_holds_def)
  show "\<exists>l'. PushFront v l = Some l' \<and> list_holds l' (v # xs)"
    using PushFront_refines[OF d, of v] by (auto simp: list_holds_def)
  show "\<exists>l'. PushBack v l = Some l' \<and> list_holds l' (xs @ [v])"
    using PushBack_refines[OF d, of v] by (auto simp: list_holds_def)
  show "\<exists>l'. PopFront l = Some l' \<and> list_holds l' (tl xs)" using l by (rule PopFront_holds)
  show "\<exists>l'. PopBack l = Some l' \<and> list_holds l' (butlast xs)" using l by (rule PopBack_holds)
  show "IsEmpty l \<longleftrightarrow> xs = []" by (rule IsEmpty_refines[OF d])
  show "xs \<noteq> [] \<Longrightarrow> Front l = Some (hd xs)" by (rule Front_refines[OF d])
qed

section \<open>Properties\<close>

text \<open>C40 A list is the sequence of its values: any pushes and pops at either end of a new list run without
  touching a freed node and leave the values the same pushes and pops leave in a sequence; popping an
  empty list does nothing.\<close>

theorem List_is_a_sequence:
  "\<exists>l. run_deque PushFront PushBack PopFront PopBack cs List_new = Some l \<and>
       list_holds l (fold spec_deque cs [])"
  using dl.run_holds[of List_new "[]" cs] dll_new by (auto simp: list_holds_def)

text \<open>\<open>Remove\<close> of a node of a list takes out that value and keeps the order of the others.\<close>

theorem Remove_takes_one:
  assumes "dll l (as1 @ a # as2) (xs1 @ x # xs2)" and "length as1 = length xs1"
  shows "\<exists>l'. Remove (Some a) l = Some l' \<and> dll l' (as1 @ as2) (xs1 @ xs2)"
  using Remove_refines[OF assms] by blast

theorem Remove_takes_one_witness:
  "\<exists>l l'. PushFront (Some True) List_new = Some l \<and> Remove (Some 1) l = Some l' \<and> dll l' [] []"
proof -
  from PushFront_refines[OF dll_new, of "Some True"] obtain l where
    l: "PushFront (Some True) List_new = Some l" "dll l [1] [Some True]"
    by (auto simp: List_new_def)
  from Remove_takes_one[of l "[]" 1 "[]" "[]" "Some True" "[]"] l show ?thesis by auto
qed

end
