(* ===== verification/Bundle_Types.thy ===== *)
theory Bundle_Types
  imports Prelude Errors
begin

text \<open>
  The data of the service: \<^verbatim>\<open>ability_info.h\<close>, \<^verbatim>\<open>module_info.h\<close>, \<^verbatim>\<open>bundle_info.h\<close> and \<^verbatim>\<open>install_param.h\<close>
  under \<^verbatim>\<open>interfaces/kits/bundle_lite\<close>, and the structures and constants of
  \<^verbatim>\<open>services/bundlemgr_lite/include/bundle_common.h\<close>, for the build with
  \<open>OHOS_APPEXECFWK_BMS_BUNDLEMANAGER\<close> (the small system).

  A field of a record carries the initials of its structure, because the structures share field
  names. A \<open>char *\<close> is a \<open>cstr\<close>; a pointer to an array of structures is a list option whose length is the
  number of objects the array was allocated with; an inline array of 16 pointers is a list of length
  16. \<open>versionCode\<close> of a profile is \<open>uint32_t\<close> and a word; the other counters are \<open>int\<close>.
\<close>

section \<open>Constants\<close>

abbreviation (input) "PROFILE_NAME \<equiv> ''config.json''"
abbreviation (input) "JSON_SUFFIX \<equiv> ''.json''"
abbreviation (input) "PATH_SEPARATOR \<equiv> ''/''"
abbreviation (input) "MODULE_ENTRY \<equiv> ''entry''"
abbreviation (input) "MODULE_FEATURE \<equiv> ''feature''"
abbreviation (input) "PATH_LENGTH \<equiv> 256 :: nat"
abbreviation (input) "MAX_METADATA_NAME \<equiv> 255 :: nat"
abbreviation (input) "MAX_METADATA_VALUE \<equiv> 255 :: nat"
abbreviation (input) "MAX_NAME_LEN \<equiv> 255 :: nat"
abbreviation (input) "MAX_DECRIPTION_LEN \<equiv> 255 :: nat"
abbreviation (input) "MAX_VENDOR_LEN \<equiv> 255 :: nat"
abbreviation (input) "MAX_MODULENAME_LEN \<equiv> 31 :: nat"
abbreviation (input) "MAX_ABILITY_NAME_LEN \<equiv> 255 :: nat"
abbreviation (input) "SYSTEM_APP_FLAG \<equiv> 0 :: nat"
abbreviation (input) "THIRD_SYSTEM_APP_FLAG \<equiv> 1 :: nat"
abbreviation (input) "THIRD_APP_FLAG \<equiv> 2 :: nat"
abbreviation (input) "MIN_BUNDLE_NAME_LEN \<equiv> 7 :: nat"
abbreviation (input) "MAX_BUNDLE_NAME_LEN \<equiv> 127 :: nat"
abbreviation (input) "MAX_VERSION_NAME_LEN \<equiv> 127 :: nat"
abbreviation (input) "MAX_LABLE_LEN \<equiv> 255 :: nat"
abbreviation (input) "MAX_SYSCAP_NAME_LEN \<equiv> 64 :: nat"
abbreviation (input) "DEVICE_TYPE_SIZE \<equiv> 16 :: nat"
abbreviation (input) "METADATA_SIZE \<equiv> 16 :: nat"
abbreviation (input) "LABEL_ID \<equiv> ''labelId''"
abbreviation (input) "ICON_ID \<equiv> ''iconId''"
abbreviation (input) "MODULE_DES_ID \<equiv> ''descriptionId''"
abbreviation (input) "ABILITY_DES_ID \<equiv> ''descriptionId''"
abbreviation (input) "RESOURCES_INDEX \<equiv> ''/resources.index''"
abbreviation (input) "DEFAULT_LABEL_SETTING \<equiv> ''$string:''"
abbreviation (input) "DEFAULT_DESC_SETTING \<equiv> ''$string:''"
abbreviation (input) "DEFAULT_ICON_SETTING_BEGIN \<equiv> ''$media:''"
abbreviation (input) "ASSETS \<equiv> ''/assets/''"
abbreviation (input) "SHARED_LIB_NAME \<equiv> ''shared_libs''"
abbreviation (input) "SHARED_LIB_PATH \<equiv> ''/storage/app/libs''"
abbreviation (input) "DEFAULT_DEVICE_TYPE \<equiv> ''smartVision''"
abbreviation (input) "INSTALL_PATH \<equiv> ''/storage/app/run''"
abbreviation (input) "DATA_PATH \<equiv> ''/storage/app/data''"
abbreviation (input) "JSON_PATH \<equiv> ''/storage/app/etc/bundles/''"
abbreviation (input) "EXTEANAL_INSTALL_PATH \<equiv> ''/sdcard/app/run''"
abbreviation (input) "EXTEANAL_DATA_PATH \<equiv> ''/sdcard/app/data''"
abbreviation (input) "SYSTEM_BUNDLE_PATH \<equiv> ''/system/internal''"
abbreviation (input) "THIRD_SYSTEM_BUNDLE_PATH \<equiv> ''/system/external''"
abbreviation (input) "INSTALL_FILE_SUFFIX \<equiv> ''.hap''"
abbreviation (input) "INVALID_UID \<equiv> -1 :: int"
abbreviation (input) "INVALID_GID \<equiv> -1 :: int"
abbreviation (input) "BASE_SYS_UID \<equiv> 100 :: int"
abbreviation (input) "BASE_SYS_VEN_UID \<equiv> 1000 :: int"
abbreviation (input) "MAX_SYS_VEN_UID \<equiv> 9999 :: int"
abbreviation (input) "BASE_APP_UID \<equiv> 10000 :: int"
abbreviation (input) "INSTALL_LOCATION_INTERNAL_ONLY \<equiv> 1 :: int"
abbreviation (input) "INSTALL_LOCATION_PREFER_EXTERNAL \<equiv> 2 :: int"
abbreviation (input) "GET_BUNDLE_WITH_ABILITIES \<equiv> 1 :: int"

section \<open>Structures\<close>

datatype AbilityType = UNKNOWN | PAGE | SERVICE

datatype LaunchMode = SINGLETON | STANDARD

record SystemCapability =
  sc_systemCapNum :: int
  sc_systemCapName :: "string list option"

record AbilityInfo =
  ai_isVisible :: bool
  ai_abilityType :: AbilityType
  ai_launchMode :: LaunchMode
  ai_moduleName :: cstr
  ai_name :: cstr
  ai_description :: cstr
  ai_iconPath :: cstr
  ai_deviceId :: cstr
  ai_label :: cstr
  ai_deviceCap :: SystemCapability
  ai_bundleName :: cstr

record MetaData =
  md_name :: cstr
  md_value :: cstr
  md_extra :: cstr

record ModuleInfo =
  mi_moduleName :: cstr
  mi_description :: cstr
  mi_name :: cstr
  mi_moduleType :: cstr
  mi_isDeliveryInstall :: bool
  mi_deviceType :: "cstr list"
  mi_metaData :: "MetaData option list"

record BundleInfo =
  bi_isKeepAlive :: bool
  bi_isNativeApp :: bool
  bi_uid :: int
  bi_gid :: int
  bi_isSystemApp :: bool
  bi_compatibleApi :: int
  bi_targetApi :: int
  bi_versionCode :: int
  bi_versionName :: cstr
  bi_bundleName :: cstr
  bi_label :: cstr
  bi_bigIconPath :: cstr
  bi_codePath :: cstr
  bi_dataPath :: cstr
  bi_vendor :: cstr
  bi_moduleInfos :: "ModuleInfo list option"
  bi_numOfModule :: nat
  bi_appId :: cstr
  bi_abilityInfos :: "AbilityInfo list option"
  bi_numOfAbility :: nat

record AbilityRes =
  ar_iconId :: nat
  ar_labelId :: nat
  ar_descriptionId :: nat
  ar_index :: nat

record BundleRes =
  br_bundleName :: cstr
  br_moduleDescriptionId :: nat
  br_abilityRes :: "AbilityRes list option"
  br_totalNumOfAbilityRes :: nat

record BundleProfile =
  bp_isKeepAlive :: bool
  bp_isNativeApp :: bool
  bp_bundleName :: cstr
  bp_vendor :: cstr
  bp_label :: cstr
  bp_iconPath :: cstr
  bp_versionCode :: u32
  bp_versionName :: cstr
  bp_minApiVersion :: int
  bp_maxApiVersion :: int
  bp_moduleInfo :: ModuleInfo
  bp_abilityInfos :: "AbilityInfo list option"
  bp_numOfAbility :: nat

record InstallRecord =
  ir_bundleName :: cstr
  ir_codePath :: cstr
  ir_appId :: cstr
  ir_versionCode :: int
  ir_uid :: int
  ir_gid :: int

record InstallParam =
  ip_installLocation :: int
  ip_keepData :: bool

section \<open>Structures cleared with memset\<close>

definition zero_SystemCapability :: SystemCapability where
  "zero_SystemCapability = \<lparr>sc_systemCapNum = 0, sc_systemCapName = None\<rparr>"

definition zero_AbilityInfo :: AbilityInfo where
  "zero_AbilityInfo =
     \<lparr>ai_isVisible = False, ai_abilityType = UNKNOWN, ai_launchMode = SINGLETON, ai_moduleName = None,
      ai_name = None, ai_description = None, ai_iconPath = None, ai_deviceId = None, ai_label = None,
      ai_deviceCap = zero_SystemCapability, ai_bundleName = None\<rparr>"

definition zero_MetaData :: MetaData where
  "zero_MetaData = \<lparr>md_name = None, md_value = None, md_extra = None\<rparr>"

definition zero_ModuleInfo :: ModuleInfo where
  "zero_ModuleInfo =
     \<lparr>mi_moduleName = None, mi_description = None, mi_name = None, mi_moduleType = None,
      mi_isDeliveryInstall = False, mi_deviceType = replicate DEVICE_TYPE_SIZE None,
      mi_metaData = replicate METADATA_SIZE None\<rparr>"

definition zero_BundleInfo :: BundleInfo where
  "zero_BundleInfo =
     \<lparr>bi_isKeepAlive = False, bi_isNativeApp = False, bi_uid = 0, bi_gid = 0, bi_isSystemApp = False,
      bi_compatibleApi = 0, bi_targetApi = 0, bi_versionCode = 0, bi_versionName = None,
      bi_bundleName = None, bi_label = None, bi_bigIconPath = None, bi_codePath = None,
      bi_dataPath = None, bi_vendor = None, bi_moduleInfos = None, bi_numOfModule = 0,
      bi_appId = None, bi_abilityInfos = None, bi_numOfAbility = 0\<rparr>"

definition zero_AbilityRes :: AbilityRes where
  "zero_AbilityRes = \<lparr>ar_iconId = 0, ar_labelId = 0, ar_descriptionId = 0, ar_index = 0\<rparr>"

definition zero_BundleRes :: BundleRes where
  "zero_BundleRes =
     \<lparr>br_bundleName = None, br_moduleDescriptionId = 0, br_abilityRes = None,
      br_totalNumOfAbilityRes = 0\<rparr>"

definition zero_BundleProfile :: BundleProfile where
  "zero_BundleProfile =
     \<lparr>bp_isKeepAlive = False, bp_isNativeApp = False, bp_bundleName = None, bp_vendor = None,
      bp_label = None, bp_iconPath = None, bp_versionCode = 0, bp_versionName = None,
      bp_minApiVersion = 0, bp_maxApiVersion = 0, bp_moduleInfo = zero_ModuleInfo,
      bp_abilityInfos = None, bp_numOfAbility = 0\<rparr>"

lemmas zero_defs = zero_SystemCapability_def zero_AbilityInfo_def zero_MetaData_def
  zero_ModuleInfo_def zero_BundleInfo_def zero_AbilityRes_def zero_BundleRes_def
  zero_BundleProfile_def

end
