(* ===== verification/Info_Utils.thy ===== *)
theory Info_Utils
  imports Bundle_Types Utils_List
begin

text \<open>
  \<^verbatim>\<open>frameworks/bundle_lite/src\<close>: \<open>ability_info.cpp\<close>, \<open>module_info.cpp\<close>, \<open>bundle_info.cpp\<close> (clearing) and
  \<open>ability_info_utils.cpp\<close>, \<open>module_info_utils.cpp\<close>, \<open>bundle_info_utils.cpp\<close> (setting and copying), in
  the build with \<open>OHOS_APPEXECFWK_BMS_BUNDLEMANAGER\<close>.

  A pointer to a structure is an \<open>option\<close>; a setter returns its result and the structure as it leaves it.
  \<open>AdapterFree\<close> of a field is the assignment of \<open>nullptr\<close> that the macro makes.
\<close>

section \<open>One string field\<close>

text \<open>
  The body all the string setters share: test both pointers, free the field, store a copy.
\<close>

definition set_str ::
    "allocator \<Rightarrow> ((cstr \<Rightarrow> cstr) \<Rightarrow> 'r \<Rightarrow> 'r) \<Rightarrow> 'r option \<Rightarrow> cstr \<Rightarrow> bool \<times> 'r option" where
  "set_str m field obj src =
     (case (obj, src) of
        (Some r, Some s) \<Rightarrow>
          (let p = Strdup m src in (p \<noteq> None, Some (field (\<lambda>_. p) r)))
      | _ \<Rightarrow> (False, obj))"

section \<open>Abilities\<close>

definition SetAbilityInfoBundleName :: "allocator \<Rightarrow> AbilityInfo option \<Rightarrow> cstr \<Rightarrow> bool \<times> AbilityInfo option" where
  "SetAbilityInfoBundleName m abilityInfo s = set_str m ai_bundleName_update abilityInfo s"

definition SetAbilityInfoModuleName :: "allocator \<Rightarrow> AbilityInfo option \<Rightarrow> cstr \<Rightarrow> bool \<times> AbilityInfo option" where
  "SetAbilityInfoModuleName m abilityInfo s = set_str m ai_moduleName_update abilityInfo s"

definition SetAbilityInfoName :: "allocator \<Rightarrow> AbilityInfo option \<Rightarrow> cstr \<Rightarrow> bool \<times> AbilityInfo option" where
  "SetAbilityInfoName m abilityInfo s = set_str m ai_name_update abilityInfo s"

definition SetAbilityInfoDescription :: "allocator \<Rightarrow> AbilityInfo option \<Rightarrow> cstr \<Rightarrow> bool \<times> AbilityInfo option" where
  "SetAbilityInfoDescription m abilityInfo s = set_str m ai_description_update abilityInfo s"

definition SetAbilityInfoIconPath :: "allocator \<Rightarrow> AbilityInfo option \<Rightarrow> cstr \<Rightarrow> bool \<times> AbilityInfo option" where
  "SetAbilityInfoIconPath m abilityInfo s = set_str m ai_iconPath_update abilityInfo s"

definition SetAbilityInfoDeviceId :: "allocator \<Rightarrow> AbilityInfo option \<Rightarrow> cstr \<Rightarrow> bool \<times> AbilityInfo option" where
  "SetAbilityInfoDeviceId m abilityInfo s = set_str m ai_deviceId_update abilityInfo s"

definition SetAbilityInfoLabel :: "allocator \<Rightarrow> AbilityInfo option \<Rightarrow> cstr \<Rightarrow> bool \<times> AbilityInfo option" where
  "SetAbilityInfoLabel m abilityInfo s = set_str m ai_label_update abilityInfo s"

definition ClearAbilityInfo :: "AbilityInfo option \<Rightarrow> AbilityInfo option" where
  "ClearAbilityInfo abilityInfo =
     map_option (\<lambda>a. a\<lparr>ai_bundleName := None, ai_moduleName := None, ai_name := None,
       ai_description := None, ai_iconPath := None, ai_deviceId := None, ai_label := None\<rparr>) abilityInfo"

text \<open>The results of the setters are ignored; \<open>deviceCap\<close> is not copied.\<close>

definition CopyAbilityInfo :: "allocator \<Rightarrow> AbilityInfo option \<Rightarrow> AbilityInfo \<Rightarrow> AbilityInfo option" where
  "CopyAbilityInfo m des src =
     (case des of
        None \<Rightarrow> None
      | Some _ \<Rightarrow>
          (let des = snd (SetAbilityInfoBundleName m des (ai_bundleName src));
               des = map_option (\<lambda>d. d\<lparr>ai_isVisible := ai_isVisible src,
                       ai_abilityType := ai_abilityType src, ai_launchMode := ai_launchMode src\<rparr>) des;
               des = snd (SetAbilityInfoModuleName m des (ai_moduleName src));
               des = snd (SetAbilityInfoName m des (ai_name src));
               des = snd (SetAbilityInfoDescription m des (ai_description src));
               des = snd (SetAbilityInfoIconPath m des (ai_iconPath src));
               des = snd (SetAbilityInfoDeviceId m des (ai_deviceId src))
           in snd (SetAbilityInfoLabel m des (ai_label src))))"

section \<open>Modules\<close>

definition SetModuleInfoModuleName :: "allocator \<Rightarrow> ModuleInfo option \<Rightarrow> cstr \<Rightarrow> bool \<times> ModuleInfo option" where
  "SetModuleInfoModuleName m moduleInfo s = set_str m mi_moduleName_update moduleInfo s"

definition SetModuleInfoName :: "allocator \<Rightarrow> ModuleInfo option \<Rightarrow> cstr \<Rightarrow> bool \<times> ModuleInfo option" where
  "SetModuleInfoName m moduleInfo s = set_str m mi_name_update moduleInfo s"

definition SetModuleInfoDescription :: "allocator \<Rightarrow> ModuleInfo option \<Rightarrow> cstr \<Rightarrow> bool \<times> ModuleInfo option" where
  "SetModuleInfoDescription m moduleInfo s = set_str m mi_description_update moduleInfo s"

definition SetModuleInfoModuleType :: "allocator \<Rightarrow> ModuleInfo option \<Rightarrow> cstr \<Rightarrow> bool \<times> ModuleInfo option" where
  "SetModuleInfoModuleType m moduleInfo s = set_str m mi_moduleType_update moduleInfo s"

text \<open>
  Arrays of pointers: clearing the first \<open>n\<close> entries, and copying with a loop that stops at the first
  allocation that fails.
\<close>

definition ClearModuleInfoDeviceType :: "cstr list option \<Rightarrow> nat \<Rightarrow> cstr list option" where
  "ClearModuleInfoDeviceType deviceType n =
     (case deviceType of
        None \<Rightarrow> None
      | Some ds \<Rightarrow>
          if n = 0 \<or> n > DEVICE_TYPE_SIZE then Some ds
          else Some (map (\<lambda>_. None) (take n ds) @ drop n ds))"

definition ClearModuleInfoMetaData :: "MetaData option list option \<Rightarrow> nat \<Rightarrow> MetaData option list option" where
  "ClearModuleInfoMetaData metaData n =
     (case metaData of
        None \<Rightarrow> None
      | Some ms \<Rightarrow>
          if n > METADATA_SIZE then Some ms
          else Some (map (\<lambda>_. None) (take n ms) @ drop n ms))"

fun copy_device_types :: "allocator \<Rightarrow> cstr list \<Rightarrow> cstr list option" where
  "copy_device_types m [] = Some []"
| "copy_device_types m (None # ds) = map_option ((#) None) (copy_device_types m ds)"
| "copy_device_types m (Some d # ds) =
     (case Strdup m (Some d) of
        None \<Rightarrow> None
      | Some c \<Rightarrow> map_option ((#) (Some c)) (copy_device_types m ds))"

definition SetModuleInfoDeviceType ::
    "allocator \<Rightarrow> ModuleInfo option \<Rightarrow> cstr list option \<Rightarrow> nat \<Rightarrow> bool \<times> ModuleInfo option" where
  "SetModuleInfoDeviceType m moduleInfo deviceType n =
     (case (moduleInfo, deviceType) of
        (Some mi, Some ds) \<Rightarrow>
          if n > DEVICE_TYPE_SIZE then (False, moduleInfo)
          else (let cleared = replicate DEVICE_TYPE_SIZE None in
            case copy_device_types m (take n ds) of
              None \<Rightarrow> (False, Some (mi\<lparr>mi_deviceType := cleared\<rparr>))
            | Some cs \<Rightarrow> (True, Some (mi\<lparr>mi_deviceType := cs @ drop (length cs) cleared\<rparr>)))
      | _ \<Rightarrow> (False, moduleInfo))"

text \<open>
  One entry of the metadata: an object and copies of its three strings. The second component tells
  whether a copy failed, in which case the entries before are cleared and this one stays as it is.
\<close>

definition copy_MetaData :: "allocator \<Rightarrow> MetaData \<Rightarrow> MetaData option \<times> bool" where
  "copy_MetaData m src =
     (if \<not> m (Objects ''MetaData'' 1) then (None, False)
      else (let d = \<lparr>md_name = Strdup m (md_name src), md_value = Strdup m (md_value src),
                     md_extra = Strdup m (md_extra src)\<rparr>
        in (Some d,
            \<not> ((md_name src \<noteq> None \<and> md_name d = None) \<or> (md_value src \<noteq> None \<and> md_value d = None) \<or>
               (md_extra src \<noteq> None \<and> md_extra d = None)))))"

fun copy_metadata :: "allocator \<Rightarrow> MetaData option list \<Rightarrow> bool \<times> MetaData option list" where
  "copy_metadata m [] = (True, [])"
| "copy_metadata m (None # ms) = (let (ok, ds) = copy_metadata m ms in (ok, None # ds))"
| "copy_metadata m (Some s # ms) =
     (case copy_MetaData m s of
        (d, False) \<Rightarrow> (False, [d])
      | (d, True) \<Rightarrow> (let (ok, ds) = copy_metadata m ms in (ok, (if ok then d else None) # ds)))"

definition SetModuleInfoMetaData ::
    "allocator \<Rightarrow> ModuleInfo option \<Rightarrow> MetaData option list option \<Rightarrow> nat \<Rightarrow> bool \<times> ModuleInfo option" where
  "SetModuleInfoMetaData m moduleInfo metaData n =
     (case (moduleInfo, metaData) of
        (Some mi, Some ms) \<Rightarrow>
          if n > METADATA_SIZE then (False, moduleInfo)
          else (let cleared = replicate METADATA_SIZE None;
                    (ok, ds) = copy_metadata m (take n ms)
            in (ok, Some (mi\<lparr>mi_metaData := ds @ drop (length ds) cleared\<rparr>)))
      | _ \<Rightarrow> (False, moduleInfo))"

definition ClearModuleInfo :: "ModuleInfo option \<Rightarrow> ModuleInfo option" where
  "ClearModuleInfo moduleInfo =
     map_option (\<lambda>mi. mi\<lparr>mi_moduleName := None, mi_name := None, mi_description := None,
       mi_moduleType := None,
       mi_deviceType := the (ClearModuleInfoDeviceType (Some (mi_deviceType mi)) DEVICE_TYPE_SIZE),
       mi_metaData := the (ClearModuleInfoMetaData (Some (mi_metaData mi)) METADATA_SIZE)\<rparr>) moduleInfo"

definition CopyModuleInfo :: "allocator \<Rightarrow> ModuleInfo option \<Rightarrow> ModuleInfo \<Rightarrow> ModuleInfo option" where
  "CopyModuleInfo m des src =
     (case des of
        None \<Rightarrow> None
      | Some _ \<Rightarrow>
          (let des = snd (SetModuleInfoModuleName m des (mi_moduleName src));
               des = snd (SetModuleInfoName m des (mi_name src));
               des = snd (SetModuleInfoDescription m des (mi_description src));
               des = snd (SetModuleInfoModuleType m des (mi_moduleType src));
               des = snd (SetModuleInfoDeviceType m des (Some (mi_deviceType src)) DEVICE_TYPE_SIZE);
               des = map_option (\<lambda>d. d\<lparr>mi_isDeliveryInstall := mi_isDeliveryInstall src\<rparr>) des
           in snd (SetModuleInfoMetaData m des (Some (mi_metaData src)) METADATA_SIZE)))"

section \<open>Bundles\<close>

definition SetBundleInfoBundleName :: "allocator \<Rightarrow> BundleInfo option \<Rightarrow> cstr \<Rightarrow> bool \<times> BundleInfo option" where
  "SetBundleInfoBundleName m bundleInfo s = set_str m bi_bundleName_update bundleInfo s"

definition SetBundleInfoVendor :: "allocator \<Rightarrow> BundleInfo option \<Rightarrow> cstr \<Rightarrow> bool \<times> BundleInfo option" where
  "SetBundleInfoVendor m bundleInfo s = set_str m bi_vendor_update bundleInfo s"

definition SetBundleInfoLabel :: "allocator \<Rightarrow> BundleInfo option \<Rightarrow> cstr \<Rightarrow> bool \<times> BundleInfo option" where
  "SetBundleInfoLabel m bundleInfo s = set_str m bi_label_update bundleInfo s"

definition SetBundleInfoVersionName :: "allocator \<Rightarrow> BundleInfo option \<Rightarrow> cstr \<Rightarrow> bool \<times> BundleInfo option" where
  "SetBundleInfoVersionName m bundleInfo s = set_str m bi_versionName_update bundleInfo s"

definition SetBundleInfoBigIconPath :: "allocator \<Rightarrow> BundleInfo option \<Rightarrow> cstr \<Rightarrow> bool \<times> BundleInfo option" where
  "SetBundleInfoBigIconPath m bundleInfo s = set_str m bi_bigIconPath_update bundleInfo s"

definition SetBundleInfoCodePath :: "allocator \<Rightarrow> BundleInfo option \<Rightarrow> cstr \<Rightarrow> bool \<times> BundleInfo option" where
  "SetBundleInfoCodePath m bundleInfo s = set_str m bi_codePath_update bundleInfo s"

definition SetBundleInfoDataPath :: "allocator \<Rightarrow> BundleInfo option \<Rightarrow> cstr \<Rightarrow> bool \<times> BundleInfo option" where
  "SetBundleInfoDataPath m bundleInfo s = set_str m bi_dataPath_update bundleInfo s"

definition SetBundleInfoAppId :: "allocator \<Rightarrow> BundleInfo option \<Rightarrow> cstr \<Rightarrow> bool \<times> BundleInfo option" where
  "SetBundleInfoAppId m bundleInfo s = set_str m bi_appId_update bundleInfo s"

definition SetBundleInfoModuleInfos ::
    "allocator \<Rightarrow> BundleInfo option \<Rightarrow> ModuleInfo list option \<Rightarrow> nat \<Rightarrow> bool \<times> BundleInfo option" where
  "SetBundleInfoModuleInfos m bundleInfo moduleInfos numOfModule =
     (if numOfModule = 0 then (True, bundleInfo)
      else case (moduleInfos, bundleInfo) of
        (Some mis, Some b) \<Rightarrow>
          (let b = b\<lparr>bi_numOfModule := numOfModule\<rparr> in
           if \<not> m (Objects ''ModuleInfo'' numOfModule) then (False, Some (b\<lparr>bi_moduleInfos := None\<rparr>))
           else (True, Some (b\<lparr>bi_moduleInfos := Some
                  (map (\<lambda>i. the (CopyModuleInfo m (Some zero_ModuleInfo) (mis ! i))) [0..<numOfModule])\<rparr>)))
      | _ \<Rightarrow> (False, bundleInfo))"

definition SetBundleInfoAbilityInfos ::
    "allocator \<Rightarrow> BundleInfo option \<Rightarrow> AbilityInfo list option \<Rightarrow> nat \<Rightarrow> bool \<times> BundleInfo option" where
  "SetBundleInfoAbilityInfos m bundleInfo abilityInfos numOfAbility =
     (if numOfAbility = 0 then (True, bundleInfo)
      else case (abilityInfos, bundleInfo) of
        (Some ais, Some b) \<Rightarrow>
          (let b = b\<lparr>bi_numOfAbility := numOfAbility\<rparr> in
           if \<not> m (Objects ''AbilityInfo'' numOfAbility) then (False, Some (b\<lparr>bi_abilityInfos := None\<rparr>))
           else (True, Some (b\<lparr>bi_abilityInfos := Some
                  (map (\<lambda>i. the (CopyAbilityInfo m (Some zero_AbilityInfo) (ais ! i))) [0..<numOfAbility])\<rparr>)))
      | _ \<Rightarrow> (False, bundleInfo))"

definition ClearModuleInfos :: "ModuleInfo list option \<Rightarrow> nat \<Rightarrow> ModuleInfo list option" where
  "ClearModuleInfos moduleInfos n =
     (case moduleInfos of
        None \<Rightarrow> None
      | Some mis \<Rightarrow> Some (map (\<lambda>mi. the (ClearModuleInfo (Some mi))) (take n mis) @ drop n mis))"

definition ClearAbilityInfos :: "AbilityInfo list option \<Rightarrow> nat \<Rightarrow> AbilityInfo list option" where
  "ClearAbilityInfos abilityInfos n =
     (case abilityInfos of
        None \<Rightarrow> None
      | Some ais \<Rightarrow> Some (map (\<lambda>a. the (ClearAbilityInfo (Some a))) (take n ais) @ drop n ais))"

text \<open>
  \<open>ClearBundleInfo\<close> clears the modules and the abilities before it frees the two arrays, so what is
  left of them is the null pointer.
\<close>

definition ClearBundleInfo :: "BundleInfo option \<Rightarrow> BundleInfo option" where
  "ClearBundleInfo bundleInfo =
     map_option (\<lambda>b.
       let b = b\<lparr>bi_bundleName := None, bi_versionName := None, bi_label := None,
                 bi_bigIconPath := None, bi_codePath := None, bi_dataPath := None, bi_vendor := None\<rparr>;
           b = b\<lparr>bi_moduleInfos := ClearModuleInfos (bi_moduleInfos b) (bi_numOfModule b)\<rparr>;
           b = b\<lparr>bi_moduleInfos := None, bi_appId := None\<rparr>;
           b = b\<lparr>bi_abilityInfos := ClearAbilityInfos (bi_abilityInfos b) (bi_numOfAbility b)\<rparr>
       in b\<lparr>bi_abilityInfos := None\<rparr>) bundleInfo"

definition CopyBundleInfo :: "allocator \<Rightarrow> int \<Rightarrow> BundleInfo option \<Rightarrow> BundleInfo \<Rightarrow> BundleInfo option" where
  "CopyBundleInfo m flags des src =
     (case des of
        None \<Rightarrow> None
      | Some _ \<Rightarrow>
          (let des = snd (SetBundleInfoBundleName m des (bi_bundleName src));
               des = snd (SetBundleInfoLabel m des (bi_label src));
               des = snd (SetBundleInfoVersionName m des (bi_versionName src));
               des = snd (SetBundleInfoBigIconPath m des (bi_bigIconPath src));
               des = snd (SetBundleInfoCodePath m des (bi_codePath src));
               des = snd (SetBundleInfoDataPath m des (bi_dataPath src));
               des = snd (SetBundleInfoVendor m des (bi_vendor src));
               des = snd (SetBundleInfoModuleInfos m des (bi_moduleInfos src) (bi_numOfModule src));
               des = map_option (\<lambda>d. d\<lparr>bi_isSystemApp := bi_isSystemApp src,
                       bi_versionCode := bi_versionCode src, bi_compatibleApi := bi_compatibleApi src,
                       bi_targetApi := bi_targetApi src\<rparr>) des;
               des = snd (SetBundleInfoAppId m des (bi_appId src));
               des = map_option (\<lambda>d. d\<lparr>bi_isKeepAlive := bi_isKeepAlive src,
                       bi_isNativeApp := bi_isNativeApp src, bi_uid := bi_uid src, bi_gid := bi_gid src\<rparr>) des
           in if flags = GET_BUNDLE_WITH_ABILITIES
              then snd (SetBundleInfoAbilityInfos m des (bi_abilityInfos src) (bi_numOfAbility src))
              else map_option (\<lambda>d. d\<lparr>bi_abilityInfos := None, bi_numOfAbility := 0\<rparr>) des))"

definition CopyBundleInfoNoReplication ::
    "allocator \<Rightarrow> int \<Rightarrow> BundleInfo option \<Rightarrow> BundleInfo \<Rightarrow> BundleInfo option" where
  "CopyBundleInfoNoReplication m flags des src =
     (case des of
        None \<Rightarrow> None
      | Some d \<Rightarrow>
          (let d = d\<lparr>bi_bundleName := bi_bundleName src, bi_label := bi_label src,
                     bi_versionName := bi_versionName src, bi_bigIconPath := bi_bigIconPath src,
                     bi_codePath := bi_codePath src, bi_dataPath := bi_dataPath src,
                     bi_vendor := bi_vendor src\<rparr>;
               d = (if bi_numOfModule src \<noteq> 0
                    then d\<lparr>bi_numOfModule := bi_numOfModule src, bi_moduleInfos := bi_moduleInfos src\<rparr>
                    else d);
               d = d\<lparr>bi_isSystemApp := bi_isSystemApp src, bi_versionCode := bi_versionCode src,
                     bi_compatibleApi := bi_compatibleApi src, bi_targetApi := bi_targetApi src,
                     bi_appId := bi_appId src, bi_isKeepAlive := bi_isKeepAlive src,
                     bi_isNativeApp := bi_isNativeApp src, bi_uid := bi_uid src, bi_gid := bi_gid src\<rparr>
           in if flags = GET_BUNDLE_WITH_ABILITIES
              then snd (SetBundleInfoAbilityInfos m (Some d) (bi_abilityInfos src) (bi_numOfAbility src))
              else Some (d\<lparr>bi_abilityInfos := None, bi_numOfAbility := 0\<rparr>)))"

section \<open>A copy is the original\<close>

text \<open>
  The structures the service builds: every string short enough for \<open>Strdup\<close>, the inline arrays of
  16 entries, each array as long as its counter says.
\<close>

definition fits :: "cstr \<Rightarrow> bool" where
  "fits p = (case p of None \<Rightarrow> True | Some s \<Rightarrow> length s \<le> MAX_STR_SIZE)"

definition AbilityInfo_ok :: "AbilityInfo \<Rightarrow> bool" where
  "AbilityInfo_ok a \<longleftrightarrow> list_all fits [ai_bundleName a, ai_moduleName a, ai_name a, ai_description a,
     ai_iconPath a, ai_deviceId a, ai_label a]"

definition MetaData_ok :: "MetaData \<Rightarrow> bool" where
  "MetaData_ok d \<longleftrightarrow> list_all fits [md_name d, md_value d, md_extra d]"

definition ModuleInfo_ok :: "ModuleInfo \<Rightarrow> bool" where
  "ModuleInfo_ok mi \<longleftrightarrow>
     list_all fits [mi_moduleName mi, mi_name mi, mi_description mi, mi_moduleType mi] \<and>
     list_all fits (mi_deviceType mi) \<and> length (mi_deviceType mi) = DEVICE_TYPE_SIZE \<and>
     list_all (\<lambda>d. case d of None \<Rightarrow> True | Some md \<Rightarrow> MetaData_ok md) (mi_metaData mi) \<and>
     length (mi_metaData mi) = METADATA_SIZE"

definition array_ok :: "('a \<Rightarrow> bool) \<Rightarrow> 'a list option \<Rightarrow> nat \<Rightarrow> bool" where
  "array_ok ok arr n = (case arr of None \<Rightarrow> n = 0 | Some xs \<Rightarrow> n \<noteq> 0 \<and> length xs = n \<and> list_all ok xs)"

definition BundleInfo_ok :: "BundleInfo \<Rightarrow> bool" where
  "BundleInfo_ok b \<longleftrightarrow>
     list_all fits [bi_bundleName b, bi_label b, bi_versionName b, bi_bigIconPath b, bi_codePath b,
       bi_dataPath b, bi_vendor b, bi_appId b] \<and>
     array_ok ModuleInfo_ok (bi_moduleInfos b) (bi_numOfModule b) \<and>
     array_ok AbilityInfo_ok (bi_abilityInfos b) (bi_numOfAbility b)"

text \<open>What \<open>CopyAbilityInfo\<close> loses: the capabilities the ability asks of the device.\<close>

definition without_deviceCap :: "AbilityInfo \<Rightarrow> AbilityInfo" where
  "without_deviceCap a = a\<lparr>ai_deviceCap := zero_SystemCapability\<rparr>"

lemma Strdup_plentiful: "fits p \<Longrightarrow> Strdup plentiful p = p"
  by (auto simp: Strdup_def fits_def plentiful_grants split: option.splits)

lemma set_str_plentiful:
  "fits p \<Longrightarrow> set_str plentiful field (Some r) p =
     (p \<noteq> None, Some (if p = None then r else field (\<lambda>_. p) r))"
  by (auto simp: set_str_def Strdup_plentiful split: option.splits)

lemmas ability_setters = SetAbilityInfoBundleName_def SetAbilityInfoModuleName_def
  SetAbilityInfoName_def SetAbilityInfoDescription_def SetAbilityInfoIconPath_def
  SetAbilityInfoDeviceId_def SetAbilityInfoLabel_def

lemmas module_setters = SetModuleInfoModuleName_def SetModuleInfoName_def
  SetModuleInfoDescription_def SetModuleInfoModuleType_def

lemmas bundle_setters = SetBundleInfoBundleName_def SetBundleInfoVendor_def SetBundleInfoLabel_def
  SetBundleInfoVersionName_def SetBundleInfoBigIconPath_def SetBundleInfoCodePath_def
  SetBundleInfoDataPath_def SetBundleInfoAppId_def

lemma CopyAbilityInfo_faithful:
  assumes "AbilityInfo_ok a"
  shows "CopyAbilityInfo plentiful (Some zero_AbilityInfo) a = Some (without_deviceCap a)"
proof -
  have "fits (ai_bundleName a)" "fits (ai_moduleName a)" "fits (ai_name a)" "fits (ai_description a)"
    "fits (ai_iconPath a)" "fits (ai_deviceId a)" "fits (ai_label a)"
    using assms by (auto simp: AbilityInfo_ok_def)
  then show ?thesis
    by (cases a) (simp add: CopyAbilityInfo_def ability_setters set_str_plentiful
        without_deviceCap_def zero_AbilityInfo_def)
qed

lemma copy_device_types_plentiful:
  "list_all fits ds \<Longrightarrow> copy_device_types plentiful ds = Some ds"
proof (induction ds)
  case Nil
  then show ?case by simp
next
  case (Cons d ds)
  then show ?case by (cases d) (auto simp: Strdup_plentiful)
qed

lemma copy_MetaData_plentiful: "MetaData_ok d \<Longrightarrow> copy_MetaData plentiful d = (Some d, True)"
  by (auto simp: copy_MetaData_def MetaData_ok_def Strdup_plentiful plentiful_grants)

lemma copy_metadata_plentiful:
  "list_all (\<lambda>d. case d of None \<Rightarrow> True | Some md \<Rightarrow> MetaData_ok md) ms \<Longrightarrow>
   copy_metadata plentiful ms = (True, ms)"
proof (induction ms)
  case Nil
  then show ?case by simp
next
  case (Cons d ms)
  then show ?case by (cases d) (auto simp: copy_MetaData_plentiful)
qed

lemma CopyModuleInfo_faithful:
  assumes "ModuleInfo_ok mi"
  shows "CopyModuleInfo plentiful (Some zero_ModuleInfo) mi = Some mi"
proof -
  have "fits (mi_moduleName mi)" "fits (mi_name mi)" "fits (mi_description mi)" "fits (mi_moduleType mi)"
    using assms by (auto simp: ModuleInfo_ok_def)
  moreover have "copy_device_types plentiful (take DEVICE_TYPE_SIZE (mi_deviceType mi)) =
      Some (mi_deviceType mi)"
    using assms by (simp add: ModuleInfo_ok_def copy_device_types_plentiful)
  moreover have "copy_metadata plentiful (take METADATA_SIZE (mi_metaData mi)) = (True, mi_metaData mi)"
    using assms by (simp add: ModuleInfo_ok_def copy_metadata_plentiful)
  moreover have "length (mi_deviceType mi) = DEVICE_TYPE_SIZE" "length (mi_metaData mi) = METADATA_SIZE"
    using assms by (auto simp: ModuleInfo_ok_def)
  ultimately show ?thesis
    by (cases mi) (simp add: CopyModuleInfo_def module_setters set_str_plentiful zero_ModuleInfo_def
        SetModuleInfoDeviceType_def SetModuleInfoMetaData_def)
qed

lemma map_nth_copy:
  "list_all ok xs \<Longrightarrow> (\<And>x. ok x \<Longrightarrow> f x = g x) \<Longrightarrow> map (\<lambda>i. f (xs ! i)) [0..<length xs] = map g xs"
  by (rule nth_equalityI) (auto simp: list_all_length)

lemma SetBundleInfoModuleInfos_faithful:
  assumes "array_ok ModuleInfo_ok mis n" "bi_moduleInfos b = None" "bi_numOfModule b = 0"
  shows "SetBundleInfoModuleInfos plentiful (Some b) mis n =
           (True, Some (b\<lparr>bi_moduleInfos := mis, bi_numOfModule := n\<rparr>))"
proof (cases mis)
  case None
  with assms show ?thesis
    by (cases b) (simp add: SetBundleInfoModuleInfos_def array_ok_def)
next
  case (Some xs)
  then have "map (\<lambda>i. the (CopyModuleInfo plentiful (Some zero_ModuleInfo) (xs ! i))) [0..<n] = xs"
    using assms map_nth_copy[of ModuleInfo_ok xs "\<lambda>x. the (CopyModuleInfo plentiful (Some zero_ModuleInfo) x)" "\<lambda>x. x"]
    by (auto simp: array_ok_def CopyModuleInfo_faithful)
  with Some assms show ?thesis
    by (auto simp: SetBundleInfoModuleInfos_def array_ok_def plentiful_grants)
qed

lemma SetBundleInfoAbilityInfos_faithful:
  assumes "array_ok AbilityInfo_ok ais n" "bi_abilityInfos b = None" "bi_numOfAbility b = 0"
  shows "SetBundleInfoAbilityInfos plentiful (Some b) ais n =
           (True, Some (b\<lparr>bi_abilityInfos := map_option (map without_deviceCap) ais,
                          bi_numOfAbility := n\<rparr>))"
proof (cases ais)
  case None
  with assms show ?thesis
    by (cases b) (simp add: SetBundleInfoAbilityInfos_def array_ok_def)
next
  case (Some xs)
  then have "map (\<lambda>i. the (CopyAbilityInfo plentiful (Some zero_AbilityInfo) (xs ! i))) [0..<n] =
      map without_deviceCap xs"
    using assms map_nth_copy[of AbilityInfo_ok xs "\<lambda>x. the (CopyAbilityInfo plentiful (Some zero_AbilityInfo) x)" "without_deviceCap"]
    by (auto simp: array_ok_def CopyAbilityInfo_faithful)
  with Some assms show ?thesis
    by (auto simp: SetBundleInfoAbilityInfos_def array_ok_def plentiful_grants)
qed

lemma CopyBundleInfo_faithful:
  assumes "BundleInfo_ok b"
  shows "CopyBundleInfo plentiful flags (Some zero_BundleInfo) b =
           Some (if flags = GET_BUNDLE_WITH_ABILITIES
                 then b\<lparr>bi_abilityInfos := map_option (map without_deviceCap) (bi_abilityInfos b)\<rparr>
                 else b\<lparr>bi_abilityInfos := None, bi_numOfAbility := 0\<rparr>)"
proof -
  have "fits (bi_bundleName b)" "fits (bi_label b)" "fits (bi_versionName b)" "fits (bi_bigIconPath b)"
    "fits (bi_codePath b)" "fits (bi_dataPath b)" "fits (bi_vendor b)" "fits (bi_appId b)"
    using assms by (auto simp: BundleInfo_ok_def)
  moreover have "array_ok ModuleInfo_ok (bi_moduleInfos b) (bi_numOfModule b)"
    "array_ok AbilityInfo_ok (bi_abilityInfos b) (bi_numOfAbility b)"
    using assms by (auto simp: BundleInfo_ok_def)
  ultimately show ?thesis
    by (cases b) (simp add: CopyBundleInfo_def bundle_setters set_str_plentiful zero_BundleInfo_def
        SetBundleInfoModuleInfos_faithful SetBundleInfoAbilityInfos_faithful)
qed

lemma ClearBundleInfo_releases:
  "ClearBundleInfo (Some b) = Some c \<Longrightarrow>
     bi_bundleName c = None \<and> bi_moduleInfos c = None \<and> bi_abilityInfos c = None \<and> bi_appId c = None \<and>
     bi_codePath c = None \<and> bi_dataPath c = None"
  by (auto simp: ClearBundleInfo_def Let_def)

section \<open>Properties\<close>

text \<open>When memory is plentiful, \<open>CopyBundleInfo\<close> into a cleared structure copies every field of a bundle
  but the capabilities its abilities ask of the device; without the flag for abilities, none of the
  abilities.\<close>

theorem CopyBundleInfo_copies:
  assumes "BundleInfo_ok b"
  shows "CopyBundleInfo plentiful flags (Some zero_BundleInfo) b =
           Some (if flags = GET_BUNDLE_WITH_ABILITIES
                 then b\<lparr>bi_abilityInfos := map_option (map without_deviceCap) (bi_abilityInfos b)\<rparr>
                 else b\<lparr>bi_abilityInfos := None, bi_numOfAbility := 0\<rparr>)"
  using assms by (rule CopyBundleInfo_faithful)

theorem CopyBundleInfo_copies_witness:
  "let a = zero_AbilityInfo\<lparr>ai_name := Some ''Main'',
             ai_deviceCap := \<lparr>sc_systemCapNum = 1, sc_systemCapName = Some [''camera'']\<rparr>\<rparr>;
       b = zero_BundleInfo\<lparr>bi_bundleName := Some ''com.a'', bi_abilityInfos := Some [a], bi_numOfAbility := 1\<rparr>
   in CopyBundleInfo plentiful GET_BUNDLE_WITH_ABILITIES (Some zero_BundleInfo) b =
        Some (b\<lparr>bi_abilityInfos := Some [zero_AbilityInfo\<lparr>ai_name := Some ''Main''\<rparr>]\<rparr>)"
proof -
  let ?a = "zero_AbilityInfo\<lparr>ai_name := Some ''Main'',
      ai_deviceCap := \<lparr>sc_systemCapNum = 1, sc_systemCapName = Some [''camera'']\<rparr>\<rparr>"
  let ?b = "zero_BundleInfo\<lparr>bi_bundleName := Some ''com.a'', bi_abilityInfos := Some [?a], bi_numOfAbility := 1\<rparr>"
  have "BundleInfo_ok ?b"
    by (simp add: BundleInfo_ok_def AbilityInfo_ok_def array_ok_def fits_def zero_defs)
  from CopyBundleInfo_copies[OF this, of GET_BUNDLE_WITH_ABILITIES] show ?thesis
    by (simp add: without_deviceCap_def zero_defs)
qed

text \<open>When an allocation fails, a copied ability has null in the place of a string, never anything else:
  each string of the copy is null or that of the original.\<close>

theorem CopyAbilityInfo_null_or_same:
  "\<exists>c. CopyAbilityInfo m (Some zero_AbilityInfo) a = Some c \<and>
     list_all2 (\<lambda>t s. t = None \<or> t = s)
       [ai_bundleName c, ai_moduleName c, ai_name c, ai_description c, ai_iconPath c, ai_deviceId c, ai_label c]
       [ai_bundleName a, ai_moduleName a, ai_name a, ai_description a, ai_iconPath a, ai_deviceId a, ai_label a]"
proof -
  have set: "snd (set_str m field (Some r) s) = Some (if s = None then r else field (\<lambda>_. Strdup m s) r)"
    for field :: "(cstr \<Rightarrow> cstr) \<Rightarrow> AbilityInfo \<Rightarrow> AbilityInfo" and r s
    by (auto simp: set_str_def Let_def split: option.split)
  show ?thesis
    using Strdup_cases[of m]
    by (simp add: CopyAbilityInfo_def ability_setters set zero_AbilityInfo_def)
qed

end
