(* ===== verification/Bundle_Map.thy ===== *)
theory Bundle_Map
  imports Info_Utils
begin

text \<open>
  \<^verbatim>\<open>services/bundlemgr_lite/src/bundle_map.cpp\<close>: the registry of installed bundles, a list of pointers
  to \<open>BundleInfo\<close> objects. The objects live in a store of their own (\<open>bm_heap\<close>), since the service
  keeps further pointers to them: reading, freeing or traversing through a dead pointer is
  undefined and gives \<open>None\<close>. Every operation takes the list's mutex at its start and releases it on
  each return, so the model has the operations one after another.

  \<open>bm_ok\<close> is the invariant, \<open>bm_look\<close> the map from names to bundles the registry stands for. The locale
  \<open>bundle_registry\<close> is what the rest of the service relies on; the operations of \<open>BundleMap\<close> are its
  interpretation.
\<close>

section \<open>State\<close>

record bundle_map =
  bm_list :: "nat dlist"
  bm_heap :: "nat \<Rightarrow> BundleInfo option"
  bm_brk :: nat

definition BundleMap_new :: bundle_map where
  "BundleMap_new = \<lparr>bm_list = List_new, bm_heap = (\<lambda>_. None), bm_brk = 0\<rparr>"

text \<open>A \<open>BundleInfo\<close> its creator has allocated and filled; \<open>FreeBundleInfo\<close>.\<close>

definition new_info :: "BundleInfo \<Rightarrow> bundle_map \<Rightarrow> nat \<times> bundle_map" where
  "new_info b bm =
     (bm_brk bm, bm\<lparr>bm_heap := (bm_heap bm)(bm_brk bm \<mapsto> b), bm_brk := Suc (bm_brk bm)\<rparr>)"

definition FreeBundleInfo :: "nat option \<Rightarrow> bundle_map \<Rightarrow> bundle_map option" where
  "FreeBundleInfo p bm =
     (case p of
        None \<Rightarrow> Some bm
      | Some a \<Rightarrow> do { _ \<leftarrow> bm_heap bm a; Some (bm\<lparr>bm_heap := (bm_heap bm)(a := None)\<rparr>) })"

section \<open>The operations\<close>

text \<open>\<open>info != nullptr && info->bundleName != nullptr && strcmp(info->bundleName, name) == 0\<close>\<close>

definition has_name :: "(nat \<Rightarrow> BundleInfo option) \<Rightarrow> string \<Rightarrow> nat option \<Rightarrow> bool option" where
  "has_name heap name info =
     (case info of
        None \<Rightarrow> Some False
      | Some a \<Rightarrow> do { b \<leftarrow> heap a; Some (bi_bundleName b = Some name) })"

text \<open>The same without the first test, as \<open>Erase\<close> writes it.\<close>

definition has_name_unchecked :: "(nat \<Rightarrow> BundleInfo option) \<Rightarrow> string \<Rightarrow> nat option \<Rightarrow> bool option" where
  "has_name_unchecked heap name info =
     do { a \<leftarrow> info; b \<leftarrow> heap a; Some (bi_bundleName b = Some name) }"

definition Add :: "nat option \<Rightarrow> bundle_map \<Rightarrow> bundle_map option" where
  "Add bundleInfo bm =
     (case bundleInfo of
        None \<Rightarrow> Some bm
      | Some p \<Rightarrow> do {
          b \<leftarrow> bm_heap bm p;
          case bi_bundleName b of
            None \<Rightarrow> Some bm
          | Some name \<Rightarrow> do {
              r \<leftarrow> find_node (has_name (bm_heap bm) name) (bm_list bm);
              case r of
                Some _ \<Rightarrow> Some bm
              | None \<Rightarrow> do { l \<leftarrow> PushFront (Some p) (bm_list bm); Some (bm\<lparr>bm_list := l\<rparr>) } } })"

text \<open>The four assignments of \<open>Update\<close> that put the new node in the place of the old one.\<close>

definition relink :: "nat \<Rightarrow> nat \<Rightarrow> nat dlist \<Rightarrow> nat dlist option" where
  "relink oldNode newNode l = do {
     old \<leftarrow> store l oldNode;
     l \<leftarrow> set_next (prev_of old) (Some newNode) l;
     old \<leftarrow> store l oldNode;
     l \<leftarrow> set_prev (next_of old) (Some newNode) l;
     old \<leftarrow> store l oldNode;
     l \<leftarrow> set_prev (Some newNode) (prev_of old) l;
     set_next (Some newNode) (next_of old) l }"

definition Update :: "nat option \<Rightarrow> bundle_map \<Rightarrow> (bool \<times> bundle_map) option" where
  "Update bundleInfo bm =
     (case bundleInfo of
        None \<Rightarrow> Some (False, bm)
      | Some p \<Rightarrow> do {
          b \<leftarrow> bm_heap bm p;
          case bi_bundleName b of
            None \<Rightarrow> Some (False, bm)
          | Some name \<Rightarrow>
              (let (newNode, l) = new_node (Some p) (bm_list bm) in do {
                 r \<leftarrow> find_node (has_name (bm_heap bm) name) l;
                 case r of
                   Some oldNode \<Rightarrow> do {
                     old \<leftarrow> store l oldNode;
                     l \<leftarrow> relink oldNode newNode l;
                     bm \<leftarrow> FreeBundleInfo (value_of old) bm;
                     l \<leftarrow> delete_node oldNode l;
                     Some (True, bm\<lparr>bm_list := l\<rparr>) }
                 | None \<Rightarrow> do {
                     l \<leftarrow> delete_node newNode l;
                     l \<leftarrow> PushFront (Some p) l;
                     Some (True, bm\<lparr>bm_list := l\<rparr>) } }) })"

definition Get :: "cstr \<Rightarrow> bundle_map \<Rightarrow> nat option option" where
  "Get bundleName bm =
     (case bundleName of
        None \<Rightarrow> Some None
      | Some name \<Rightarrow> do {
          r \<leftarrow> find_node (has_name (bm_heap bm) name) (bm_list bm);
          case r of
            None \<Rightarrow> Some None
          | Some node \<Rightarrow> do { n \<leftarrow> store (bm_list bm) node; Some (value_of n) } })"

text \<open>A shallow copy of the fields; the abilities only on demand.\<close>

definition GetCopyBundleInfo :: "int \<Rightarrow> BundleInfo \<Rightarrow> BundleInfo" where
  "GetCopyBundleInfo flags b =
     (if flags = GET_BUNDLE_WITH_ABILITIES then b
      else b\<lparr>bi_abilityInfos := None, bi_numOfAbility := 0\<rparr>)"

definition GetBundleInfo :: "cstr \<Rightarrow> int \<Rightarrow> BundleInfo \<Rightarrow> bundle_map \<Rightarrow> (errcode \<times> BundleInfo) option" where
  "GetBundleInfo bundleName flags out bm =
     (if bundleName = None then Some (ERR_QUERY_PARAMETER_ERROR, out)
      else do {
        r \<leftarrow> Get bundleName bm;
        case r of
          None \<Rightarrow> Some (ERR_QUERY_NO_INFOS, out)
        | Some p \<Rightarrow> do { b \<leftarrow> bm_heap bm p; Some (ERR_OK, GetCopyBundleInfo flags b) } })"

text \<open>The loop of \<open>GetBundleInfos\<close>: one copy for each node.\<close>

partial_function (option) copy_loop ::
    "(nat option \<Rightarrow> 'b option) \<Rightarrow> nat option \<Rightarrow> nat dlist \<Rightarrow> 'b list option" where
  "copy_loop copy p l =
     (if p = Some (head_of l) then Some []
      else do {
        a \<leftarrow> p;
        n \<leftarrow> store l a;
        y \<leftarrow> copy (value_of n);
        ys \<leftarrow> copy_loop copy (next_of n) l;
        Some (y # ys) })"

definition read_info :: "bundle_map \<Rightarrow> nat option \<Rightarrow> BundleInfo option" where
  "read_info bm p = do { a \<leftarrow> p; bm_heap bm a }"

text \<open>\<open>null_out\<close>: the caller's \<open>bundleInfos\<close> pointer is null.\<close>

definition copy_all ::
    "allocator \<Rightarrow> (BundleInfo \<Rightarrow> BundleInfo) \<Rightarrow> bool \<Rightarrow> bundle_map \<Rightarrow>
     (errcode \<times> BundleInfo list option) option" where
  "copy_all m copy null_out bm =
     (if null_out then Some (ERR_QUERY_PARAMETER_ERROR, None)
      else if IsEmpty (bm_list bm) then Some (ERR_QUERY_NO_INFOS, None)
      else if \<not> m (Objects ''BundleInfo'' (unat (Size (bm_list bm))))
      then Some (ERR_QUERY_INFOS_INIT_ERROR, None)
      else do {
        p \<leftarrow> Begin (bm_list bm);
        infos \<leftarrow> copy_loop (\<lambda>v. map_option copy (read_info bm v)) p (bm_list bm);
        if length infos > unat (Size (bm_list bm)) then None else Some (ERR_OK, Some infos) })"

definition GetBundleInfos ::
    "allocator \<Rightarrow> int \<Rightarrow> bool \<Rightarrow> bundle_map \<Rightarrow> (errcode \<times> BundleInfo list option) option" where
  "GetBundleInfos m flags null_out bm =
     copy_all m (\<lambda>b. the (CopyBundleInfo m flags (Some zero_BundleInfo) b)) null_out bm"

definition GetBundleInfosNoReplication ::
    "allocator \<Rightarrow> int \<Rightarrow> bool \<Rightarrow> bundle_map \<Rightarrow> (errcode \<times> BundleInfo list option) option" where
  "GetBundleInfosNoReplication m flags null_out bm =
     copy_all m (\<lambda>b. the (CopyBundleInfoNoReplication m flags (Some zero_BundleInfo) b)) null_out bm"

definition Erase :: "cstr \<Rightarrow> bundle_map \<Rightarrow> bundle_map option" where
  "Erase bundleName bm =
     (case bundleName of
        None \<Rightarrow> Some bm
      | Some name \<Rightarrow> do {
          r \<leftarrow> find_node (has_name_unchecked (bm_heap bm) name) (bm_list bm);
          case r of
            None \<Rightarrow> Some bm
          | Some node \<Rightarrow> do {
              n \<leftarrow> store (bm_list bm) node;
              bm \<leftarrow> FreeBundleInfo (value_of n) bm;
              l \<leftarrow> Remove (Some node) (bm_list bm);
              Some (bm\<lparr>bm_list := l\<rparr>) } })"

partial_function (option) free_loop :: "nat option \<Rightarrow> nat dlist \<Rightarrow> bundle_map \<Rightarrow> bundle_map option" where
  "free_loop p l bm =
     (if p = Some (head_of l) then Some bm
      else do {
        a \<leftarrow> p;
        n \<leftarrow> store l a;
        bm \<leftarrow> FreeBundleInfo (value_of n) bm;
        free_loop (next_of n) l bm })"

definition EraseAll :: "bundle_map \<Rightarrow> bundle_map option" where
  "EraseAll bm = do {
     p \<leftarrow> Begin (bm_list bm);
     bm \<leftarrow> free_loop p (bm_list bm) bm;
     l \<leftarrow> RemoveAll (bm_list bm);
     Some (bm\<lparr>bm_list := l\<rparr>) }"

declare copy_loop.simps [code] free_loop.simps [code]

section \<open>The invariant and the map it stands for\<close>

text \<open>
  The list holds live objects, each with a name, no two with the same name. Objects are handed out
  below \<open>bm_brk\<close>.
\<close>

definition bm_inv :: "nat list \<Rightarrow> nat list \<Rightarrow> BundleInfo list \<Rightarrow> bundle_map \<Rightarrow> bool" where
  "bm_inv as ps bs bm \<longleftrightarrow>
     dll (bm_list bm) as (map Some ps) \<and> distinct ps \<and>
     map (bm_heap bm) ps = map Some bs \<and>
     (\<forall>b \<in> set bs. bi_bundleName b \<noteq> None) \<and> distinct (map bi_bundleName bs) \<and>
     (\<forall>a \<in> dom (bm_heap bm). a < bm_brk bm)"

definition bm_ok :: "bundle_map \<Rightarrow> bool" where
  "bm_ok bm \<longleftrightarrow> (\<exists>as ps bs. bm_inv as ps bs bm)"

definition bm_look :: "bundle_map \<Rightarrow> string \<Rightarrow> BundleInfo option" where
  "bm_look bm name = (case Get (Some name) bm of Some (Some p) \<Rightarrow> bm_heap bm p | _ \<Rightarrow> None)"

text \<open>The objects the list holds, found by walking it.\<close>

definition bm_held :: "bundle_map \<Rightarrow> nat \<Rightarrow> bool" where
  "bm_held bm p \<longleftrightarrow>
     (case find_node (\<lambda>v. Some (v = Some p)) (bm_list bm) of Some (Some _) \<Rightarrow> True | _ \<Rightarrow> False)"

section \<open>Finding a name\<close>

lemma notin_imageD: "x \<notin> f ` A \<Longrightarrow> a \<in> A \<Longrightarrow> f a \<noteq> x"
  by blast

lemma find_zip_None:
  "\<forall>x \<in> set xs. \<not> P x \<Longrightarrow> List.find (\<lambda>(a, x). P x) (zip as xs) = None"
  by (auto simp: find_None_iff dest: set_zip_rightD)

lemma find_zip_None_iff:
  "length as = length xs \<Longrightarrow>
   List.find (\<lambda>(a, x). P x) (zip as xs) = None \<longleftrightarrow> (\<forall>x \<in> set xs. \<not> P x)"
  by (induction as xs rule: list_induct2) auto

lemma find_zip_Some:
  "length as1 = length xs1 \<Longrightarrow> P x \<Longrightarrow> \<forall>y \<in> set xs1. \<not> P y \<Longrightarrow>
   List.find (\<lambda>(a, x). P x) (zip (as1 @ a # as2) (xs1 @ x # xs2)) = Some (a, x)"
  by (induction as1 xs1 rule: list_induct2) auto

definition named :: "(nat \<Rightarrow> BundleInfo option) \<Rightarrow> string \<Rightarrow> nat option \<Rightarrow> bool" where
  "named heap n v = (case v of None \<Rightarrow> False | Some p \<Rightarrow>
     (case heap p of None \<Rightarrow> False | Some b \<Rightarrow> bi_bundleName b = Some n))"

lemma has_name_total:
  assumes "map heap ps = map Some bs" "x \<in> set (map Some ps)"
  shows "has_name heap n x = Some (named heap n x)"
    and "has_name_unchecked heap n x = Some (named heap n x)"
proof -
  from assms(2) obtain p where p: "x = Some p" "p \<in> set ps" by auto
  then have "heap p \<in> set (map heap ps)" by simp
  then obtain b where "heap p = Some b" unfolding assms(1) by auto
  with p show "has_name heap n x = Some (named heap n x)"
    "has_name_unchecked heap n x = Some (named heap n x)"
    by (auto simp: has_name_def has_name_unchecked_def named_def)
qed

lemma find_named:
  assumes ring: "ring l as (map Some ps)" and live: "map heap ps = map Some bs"
    and t: "test = has_name heap n \<or> test = has_name_unchecked heap n"
  shows "find_node test l =
     Some (map_option fst (List.find (\<lambda>(a, v). named heap n v) (zip as (map Some ps))))"
  using t has_name_total[OF live] by (intro find_node_ring[OF ring]) auto

text \<open>Either no bundle has the name and every search fails, or exactly one has it and is found.\<close>

lemma find_named_absent:
  assumes "ring l as (map Some ps)" "map heap ps = map Some bs" "Some n \<notin> bi_bundleName ` set bs"
    and "test = has_name heap n \<or> test = has_name_unchecked heap n"
  shows "find_node test l = Some None"
proof -
  have "\<not> named heap n x" if "x \<in> set (map Some ps)" for x
  proof -
    from that obtain p where p: "x = Some p" "p \<in> set ps" by auto
    then have "heap p \<in> set (map heap ps)" by simp
    then obtain b where b: "heap p = Some b" "b \<in> set bs" unfolding assms(2) by auto
    with p notin_imageD[OF assms(3) b(2)] show ?thesis by (auto simp: named_def)
  qed
  then show ?thesis
    using find_named[OF assms(1,2,4)] by (simp add: find_zip_None)
qed

lemma find_named_present:
  assumes "ring l (as1 @ a # as2) (map Some (ps1 @ p # ps2))"
    and live: "map heap (ps1 @ p # ps2) = map Some (bs1 @ b # bs2)"
    and len: "length as1 = length ps1" "length ps1 = length bs1"
    and name: "bi_bundleName b = Some n" "Some n \<notin> bi_bundleName ` set bs1"
    and "test = has_name heap n \<or> test = has_name_unchecked heap n"
  shows "find_node test l = Some (Some a)"
proof -
  have h1: "map heap ps1 = map Some bs1" and hp: "heap p = Some b"
    using live len by (auto simp: append_eq_append_conv)
  have "\<not> named heap n x" if "x \<in> set (map Some ps1)" for x
  proof -
    from that obtain q where q: "x = Some q" "q \<in> set ps1" by auto
    then have "heap q \<in> set (map heap ps1)" by simp
    then obtain c where c: "heap q = Some c" "c \<in> set bs1" unfolding h1 by auto
    with q notin_imageD[OF name(2) c(2)] show ?thesis by (auto simp: named_def)
  qed
  moreover have "named heap n (Some p)"
    using hp name by (simp add: named_def)
  ultimately have "List.find (\<lambda>(a, v). named heap n v)
      (zip (as1 @ a # as2) (map Some ps1 @ Some p # map Some ps2)) = Some (a, Some p)"
    using len by (intro find_zip_Some) auto
  then show ?thesis
    using find_named[OF assms(1,2,7)] by simp
qed

text \<open>The place of a name in the registry.\<close>

lemma bm_place:
  assumes "bm_inv as ps bs bm" "b \<in> set bs" "bi_bundleName b = Some n"
  obtains as1 a as2 ps1 p ps2 bs1 bs2 where
    "as = as1 @ a # as2" "ps = ps1 @ p # ps2" "bs = bs1 @ b # bs2"
    "length as1 = length ps1" "length ps1 = length bs1"
    "bm_heap bm p = Some b" "Some n \<notin> bi_bundleName ` set (bs1 @ bs2)"
proof -
  from assms(2) obtain bs1 bs2 where bs: "bs = bs1 @ b # bs2"
    by (meson split_list)
  have len: "length as = length bs" "length ps = length bs"
    using assms(1) dll_length[of "bm_list bm" as "map Some ps"]
      map_eq_imp_length_eq[of "bm_heap bm" ps Some bs]
    by (auto simp: bm_inv_def)
  define k where "k = length bs1"
  have k: "k < length as" "k < length ps" using len bs by (auto simp: k_def)
  let ?ps1 = "take k ps" and ?as1 = "take k as"
  have as: "as = ?as1 @ as ! k # drop (Suc k) as" and ps: "ps = ?ps1 @ ps ! k # drop (Suc k) ps"
    using k by (auto simp: id_take_nth_drop)
  have "map (bm_heap bm) ps ! k = map Some bs ! k"
    using assms(1) by (simp add: bm_inv_def)
  then have "bm_heap bm (ps ! k) = Some b"
    using k len bs by (simp add: k_def nth_append)
  moreover have "Some n \<notin> bi_bundleName ` set (bs1 @ bs2)"
    using assms bs by (auto simp: bm_inv_def)
  ultimately show thesis
    using as ps bs k by (intro that[of ?as1 "as ! k" "drop (Suc k) as" ?ps1 "ps ! k" "drop (Suc k) ps" bs1 bs2])
      (auto simp: k_def)
qed

section \<open>The operations keep the invariant\<close>

lemma bm_inv_ring: "bm_inv as ps bs bm \<Longrightarrow> ring (bm_list bm) as (map Some ps)"
  by (simp add: bm_inv_def dll_ring)

lemma bm_inv_live: "bm_inv as ps bs bm \<Longrightarrow> map (bm_heap bm) ps = map Some bs"
  by (simp add: bm_inv_def)

lemma bm_inv_new: "bm_inv [] [] [] BundleMap_new"
  by (simp add: bm_inv_def BundleMap_new_def dll_new)

lemma find_absent:
  assumes "bm_inv as ps bs bm" "Some n \<notin> bi_bundleName ` set bs"
  shows "find_node (has_name (bm_heap bm) n) (bm_list bm) = Some None"
    and "find_node (has_name_unchecked (bm_heap bm) n) (bm_list bm) = Some None"
  using find_named_absent[OF bm_inv_ring bm_inv_live] assms by blast+

lemma place_length:
  assumes "bm_inv as ps bs bm" shows "length as = length ps" "length ps = length bs"
  using assms dll_length[of "bm_list bm" as "map Some ps"] map_eq_imp_length_eq[of "bm_heap bm" ps Some bs]
  by (auto simp: bm_inv_def)

text \<open>The value of the node at a place.\<close>

lemma place_value:
  assumes "ring l (as1 @ a # as2) (xs1 @ x # xs2)" "length as1 = length xs1" "store l a = Some n"
  shows "value_of n = x"
  using assms by (auto simp: ring_def append_eq_append_conv nxD)

lemma Get_absent:
  "bm_inv as ps bs bm \<Longrightarrow> Some n \<notin> bi_bundleName ` set bs \<Longrightarrow> Get (Some n) bm = Some None"
  by (simp add: Get_def find_absent)

lemma Get_present:
  assumes inv: "bm_inv as ps bs bm" and b: "b \<in> set bs" "bi_bundleName b = Some n"
  shows "\<exists>p \<in> set ps. Get (Some n) bm = Some (Some p) \<and> bm_heap bm p = Some b"
proof -
  obtain as1 a as2 ps1 p ps2 bs1 bs2 where
    pl: "as = as1 @ a # as2" "ps = ps1 @ p # ps2" "bs = bs1 @ b # bs2"
    "length as1 = length ps1" "length ps1 = length bs1" and
    hp: "bm_heap bm p = Some b" and nn: "Some n \<notin> bi_bundleName ` set (bs1 @ bs2)"
    by (rule bm_place[OF inv b])
  have ring: "ring (bm_list bm) (as1 @ a # as2) (map Some (ps1 @ p # ps2))"
    using bm_inv_ring[OF inv] pl by simp
  have "find_node (has_name (bm_heap bm) n) (bm_list bm) = Some (Some a)"
    using find_named_present[OF ring _ pl(4,5) b(2)] bm_inv_live[OF inv] pl nn by auto
  moreover obtain nd where nd: "store (bm_list bm) a = Some nd"
    using ring_alive[OF ring, of a] by auto
  moreover have "value_of nd = Some p"
    using place_value[of "bm_list bm" as1 a as2 "map Some ps1" "Some p" "map Some ps2"] ring pl nd by simp
  ultimately show ?thesis
    using hp pl by (auto simp: Get_def)
qed

lemma bm_look_iff:
  assumes inv: "bm_inv as ps bs bm"
  shows "bm_look bm n = Some b \<longleftrightarrow> b \<in> set bs \<and> bi_bundleName b = Some n"
proof (cases "Some n \<in> bi_bundleName ` set bs")
  case False
  with Get_absent[OF inv] notin_imageD[OF False, of b] show ?thesis
    by (auto simp: bm_look_def)
next
  case True
  then obtain c where c: "c \<in> set bs" "bi_bundleName c = Some n" by auto
  from Get_present[OF inv this] have "bm_look bm n = Some c" by (auto simp: bm_look_def)
  moreover have "b = c" if "b \<in> set bs" "bi_bundleName b = Some n"
    using that c inv distinct_map_eq[of bi_bundleName bs b c] by (auto simp: bm_inv_def)
  ultimately show ?thesis using c by auto
qed

lemma bm_look_None:
  assumes inv: "bm_inv as ps bs bm"
  shows "bm_look bm n = None \<longleftrightarrow> Some n \<notin> bi_bundleName ` set bs"
proof -
  have "bm_look bm n = None \<longleftrightarrow> (\<forall>b. bm_look bm n \<noteq> Some b)" by (metis not_None_eq)
  then show ?thesis unfolding bm_look_iff[OF inv] by (auto simp: image_iff)
qed

text \<open>Two registries whose bundles are described by a map: \<open>bm_look\<close> is determined by the list.\<close>

lemma bm_look_eq:
  assumes "bm_inv as ps bs bm" "\<And>n b. (b \<in> set bs \<and> bi_bundleName b = Some n) \<longleftrightarrow> f n = Some b"
  shows "bm_look bm = f"
proof
  fix n
  show "bm_look bm n = f n"
    using bm_look_iff[OF assms(1), of n] assms(2)[of _ n]
    by (cases "f n"; cases "bm_look bm n") auto
qed

lemma bm_held_iff:
  assumes inv: "bm_inv as ps bs bm"
  shows "bm_held bm p \<longleftrightarrow> p \<in> set ps"
proof -
  have ring: "ring (bm_list bm) as (map Some ps)" by (rule bm_inv_ring[OF inv])
  have "find_node (\<lambda>v. Some (v = Some p)) (bm_list bm) =
      Some (map_option fst (List.find (\<lambda>(a, v). v = Some p) (zip as (map Some ps))))"
    by (rule find_node_ring[OF ring]) simp
  moreover have "List.find (\<lambda>(a, v). v = Some p) (zip as (map Some ps)) = None \<longleftrightarrow> p \<notin> set ps"
    using place_length[OF inv] by (subst find_zip_None_iff) auto
  ultimately show ?thesis
    by (cases "List.find (\<lambda>(a, v). v = Some p) (zip as (map Some ps))") (auto simp: bm_held_def)
qed

text \<open>A new object: the list is as before.\<close>

lemma heap_fresh: "bm_inv as ps bs bm \<Longrightarrow> bm_heap bm (bm_brk bm) = None"
  by (auto simp: bm_inv_def dom_def)

lemma held_live: "bm_inv as ps bs bm \<Longrightarrow> p \<in> set ps \<Longrightarrow> \<exists>b. bm_heap bm p = Some b \<and> b \<in> set bs"
proof -
  assume inv: "bm_inv as ps bs bm" and "p \<in> set ps"
  then have "bm_heap bm p \<in> set (map (bm_heap bm) ps)" by simp
  then show ?thesis unfolding bm_inv_live[OF inv] by auto
qed

lemma new_info_inv:
  assumes inv: "bm_inv as ps bs bm"
  shows "bm_inv as ps bs (snd (new_info b bm))"
    and "bm_heap (snd (new_info b bm)) (fst (new_info b bm)) = Some b"
    and "fst (new_info b bm) \<notin> set ps"
proof -
  have "bm_brk bm \<notin> set ps" using held_live[OF inv] heap_fresh[OF inv] by force
  then show "bm_inv as ps bs (snd (new_info b bm))"
    "bm_heap (snd (new_info b bm)) (fst (new_info b bm)) = Some b"
    "fst (new_info b bm) \<notin> set ps"
    using inv by (auto simp: bm_inv_def new_info_def less_Suc_eq)
qed

lemma push_inv:
  assumes inv: "bm_inv as ps bs bm" and p: "bm_heap bm p = Some b" "bi_bundleName b = Some n" "p \<notin> set ps"
    and new: "Some n \<notin> bi_bundleName ` set bs"
  shows "\<exists>l. PushFront (Some p) (bm_list bm) = Some l \<and>
             bm_inv (fresh (bm_list bm) # as) (p # ps) (b # bs) (bm\<lparr>bm_list := l\<rparr>)"
proof -
  have "dll (bm_list bm) as (map Some ps)" using inv by (simp add: bm_inv_def)
  from PushFront_refines[OF this, of "Some p"] obtain l where
    "PushFront (Some p) (bm_list bm) = Some l" "dll l (fresh (bm_list bm) # as) (Some p # map Some ps)"
    by blast
  then show ?thesis
    using inv p new by (auto simp: bm_inv_def)
qed

lemma Add_new:
  assumes inv: "bm_inv as ps bs bm" and p: "bm_heap bm p = Some b" "bi_bundleName b = Some n" "p \<notin> set ps"
    and new: "Some n \<notin> bi_bundleName ` set bs"
  shows "\<exists>bm' as'. Add (Some p) bm = Some bm' \<and> bm_inv as' (p # ps) (b # bs) bm'"
  using push_inv[OF assms] p find_absent(1)[OF inv new] by (fastforce simp: Add_def)

lemma Add_known:
  assumes inv: "bm_inv as ps bs bm" and p: "bm_heap bm p = Some b" "bi_bundleName b = Some n"
    and known: "Some n \<in> bi_bundleName ` set bs"
  shows "Add (Some p) bm = Some bm"
proof -
  from known obtain c where c: "c \<in> set bs" "bi_bundleName c = Some n" by auto
  obtain q where "Get (Some n) bm = Some (Some q)"
    using Get_present[OF inv c] by auto
  then obtain nd where "find_node (has_name (bm_heap bm) n) (bm_list bm) = Some (Some nd)"
    by (auto simp: Get_def bind_Some_iff split: option.splits)
  with p show ?thesis by (simp add: Add_def)
qed

text \<open>Erasing a bundle frees its object and unlinks its node.\<close>

lemma Erase_known:
  assumes inv: "bm_inv as ps bs bm" and b: "b \<in> set bs" "bi_bundleName b = Some n"
  shows "\<exists>bm' as' ps' bs'. Erase (Some n) bm = Some bm' \<and> bm_inv as' ps' bs' bm' \<and>
           set bs' = {c \<in> set bs. bi_bundleName c \<noteq> Some n} \<and> set ps' \<subseteq> set ps \<and>
           (\<forall>x. x \<notin> set ps \<longrightarrow> bm_heap bm' x = bm_heap bm x)"
proof -
  obtain as1 a as2 ps1 p ps2 bs1 bs2 where
    pl: "as = as1 @ a # as2" "ps = ps1 @ p # ps2" "bs = bs1 @ b # bs2"
    "length as1 = length ps1" "length ps1 = length bs1" and
    hp: "bm_heap bm p = Some b" and nn: "Some n \<notin> bi_bundleName ` set (bs1 @ bs2)"
    by (rule bm_place[OF inv b])
  have d: "dll (bm_list bm) (as1 @ a # as2) (map Some ps1 @ Some p # map Some ps2)"
    using inv pl by (simp add: bm_inv_def)
  have found: "find_node (has_name_unchecked (bm_heap bm) n) (bm_list bm) = Some (Some a)"
    using find_named_present[of "bm_list bm" as1 a as2 ps1 p ps2 "bm_heap bm" bs1 b bs2]
      bm_inv_live[OF inv] dll_ring[OF d] pl b nn by auto
  obtain nd where nd: "store (bm_list bm) a = Some nd"
    using dll_alive[OF d, of a] by auto
  have v: "value_of nd = Some p"
    using place_value[OF dll_ring[OF d] _ nd] pl by simp
  obtain l where l: "Remove (Some a) (bm_list bm) = Some l" "dll l (as1 @ as2) (map Some ps1 @ map Some ps2)"
    using Remove_refines[OF d] pl by auto
  let ?bm = "bm\<lparr>bm_heap := (bm_heap bm)(p := None), bm_list := l\<rparr>"
  have "Erase (Some n) bm = Some ?bm"
    using found nd v hp l by (simp add: Erase_def FreeBundleInfo_def)
  moreover have "bm_inv (as1 @ as2) (ps1 @ ps2) (bs1 @ bs2) ?bm"
    using inv pl l hp by (auto simp: bm_inv_def append_eq_append_conv)
  moreover have "set (bs1 @ bs2) = {c \<in> set bs. bi_bundleName c \<noteq> Some n}"
  proof -
    have "\<forall>c \<in> set (bs1 @ bs2). bi_bundleName c \<noteq> Some n"
      using notin_imageD[OF nn] by blast
    then show ?thesis using pl b by auto
  qed
  moreover have "set (ps1 @ ps2) \<subseteq> set ps" "\<forall>x. x \<notin> set ps \<longrightarrow> bm_heap ?bm x = bm_heap bm x"
    using pl by auto
  ultimately show ?thesis by blast
qed

lemma Erase_absent:
  "bm_inv as ps bs bm \<Longrightarrow> Some n \<notin> bi_bundleName ` set bs \<Longrightarrow> Erase (Some n) bm = Some bm"
  by (simp add: Erase_def find_absent)

text \<open>
  Updating: the search runs with the new node already in the store but linked to nothing; then the
  new node takes the place of the old one, or is dropped and the bundle pushed to the front.
\<close>

lemma new_node_ring:
  assumes "dll l as xs" "new_node v l = (a, l')"
  shows "ring l' as xs" "a = fresh l" "head_of l' = head_of l" "a \<notin> set (head_of l # as)"
    "store l' a = Some \<lparr>value_of = v, next_of = None, prev_of = None\<rparr>"
    "\<And>c. c \<noteq> a \<Longrightarrow> store l' c = store l c"
proof -
  have a: "a = fresh l" and l': "l' = l\<lparr>store := (store l)(a \<mapsto> \<lparr>value_of = v, next_of = None, prev_of = None\<rparr>),
      fresh := Suc (fresh l)\<rparr>"
    using assms(2) by (auto simp: new_node_def)
  have n: "a \<notin> set (head_of l # as)" using assms(1) a by (auto simp: dll_iff)
  have "seg (store l') (head_of l # as @ [head_of l])"
    using assms(1) n seg_cong[of "head_of l # as @ [head_of l]" "store l'" "store l"]
    by (auto simp: dll_iff l' dest: in_set_butlastD)
  moreover have "map (vl (store l')) as = xs"
    using assms(1) n by (auto simp: dll_iff l')
  ultimately show "ring l' as xs"
    using assms(1) n a by (auto simp: ring_def dll_iff l' less_Suc_eq)
  show "a = fresh l" "head_of l' = head_of l" "a \<notin> set (head_of l # as)"
    "store l' a = Some \<lparr>value_of = v, next_of = None, prev_of = None\<rparr>"
    "\<And>c. c \<noteq> a \<Longrightarrow> store l' c = store l c"
    using a l' n by auto
qed

lemma new_node_dropped:
  assumes "dll l as xs" "new_node v l = (a, l')"
  shows "\<exists>l''. delete_node a l' = Some l'' \<and> dll l'' as xs"
proof -
  have a: "a = fresh l" and l': "l' = l\<lparr>store := (store l)(a \<mapsto> \<lparr>value_of = v, next_of = None, prev_of = None\<rparr>),
      fresh := Suc (fresh l)\<rparr>"
    using assms(2) by (auto simp: new_node_def)
  have "store l a = None" using dll_fresh[OF assms(1)] a by simp
  then have "(store l)(a := None) = store l" by auto
  then have "delete_node a l' = Some (l\<lparr>fresh := Suc (fresh l)\<rparr>)"
    using l' by (simp add: delete_node_def)
  moreover have "dll (l\<lparr>fresh := Suc (fresh l)\<rparr>) as xs"
    using assms(1) by (auto simp: dll_iff less_Suc_eq)
  ultimately show ?thesis by blast
qed

lemma relink_effect:
  assumes "store l a = Some n" "prev_of n = Some p" "next_of n = Some q" "store l c = Some nc"
    and "store l p = Some pn" "store l q = Some qn" "p \<noteq> a" "q \<noteq> a" "p \<noteq> c" "q \<noteq> c" "a \<noteq> c"
  shows "\<exists>l1 l'. relink a c l = Some l1 \<and> delete_node a l1 = Some l' \<and>
     nx (store l') = (nx (store l))(p := Some c, c := Some q, a := None) \<and>
     pv (store l') = (pv (store l))(q := Some c, c := Some p, a := None) \<and>
     vl (store l') = (vl (store l))(a := None) \<and>
     dom (store l') = dom (store l) - {a} \<and>
     fresh l' = fresh l \<and> head_of l' = head_of l \<and> count_of l' = count_of l"
  using assms
  by (cases "p = q") (auto simp: relink_def node_ops nxD fun_eq_iff split: if_splits)

lemma relink_refines:
  assumes d: "dll l (as1 @ a # as2) (xs1 @ x # xs2)" and len: "length as1 = length xs1"
    and new: "new_node v l = (c, l1)"
  shows "\<exists>l2 l'. relink a c l1 = Some l2 \<and> delete_node a l2 = Some l' \<and> dll l' (as1 @ c # as2) (xs1 @ v # xs2)"
proof -
  note r = new_node_ring[OF d new]
  let ?h = "head_of l"
  let ?p = "last (?h # as1)" let ?q = "hd (as2 @ [?h])"
  have pq: "?p \<in> set (?h # as1 @ a # as2)" "?q \<in> set (?h # as1 @ a # as2)"
    using last_in_ring[of ?h as1] hd_in_ring[of as2 ?h] by auto
  obtain n where n: "store l1 a = Some n" using ring_alive[OF r(1), of a] by auto
  obtain pn qn where alive: "store l1 ?p = Some pn" "store l1 ?q = Some qn"
    using ring_alive[OF r(1)] pq r(3) by metis
  have links: "prev_of n = Some ?p" "next_of n = Some ?q"
    using ring_node[OF r(1) n] r(3) by auto
  have "?p \<noteq> c" "?q \<noteq> c" "a \<noteq> c" using pq r(4) by auto
  then obtain l2 l' where l': "relink a c l1 = Some l2" "delete_node a l2 = Some l'" and
    nx: "nx (store l') = (nx (store l1))(?p := Some c, c := Some ?q, a := None)" and
    pv: "pv (store l') = (pv (store l1))(?q := Some c, c := Some ?p, a := None)" and
    rest: "vl (store l') = (vl (store l1))(a := None)" "dom (store l') = dom (store l1) - {a}"
      "fresh l' = fresh l1" "head_of l' = head_of l1" "count_of l' = count_of l1"
    using relink_effect[OF n links r(5) alive dll_node_apart[OF d]] by blast
  have cut: "butlast (?h # as1) @ ?p # ys = ?h # as1 @ ys" for ys
    by (metis append.assoc append_Cons append_Nil append_butlast_last_id list.distinct(1))
  have dist: "distinct (?h # as1 @ as2)" using d by (auto simp: dll_iff)
  have "seg (store l') (butlast (?h # as1) @ ?p # c # ?q # tl (as2 @ [?h]))"
  proof (rule seg_replace[OF _ ring_cut_sides[OF dist] _ _ \<open>a \<noteq> c\<close> nx pv])
    show "seg (store l1) (butlast (?h # as1) @ ?p # a # ?q # tl (as2 @ [?h]))"
      unfolding cut using r(1,3) by (simp add: ring_def)
    show "a \<notin> set (butlast (?h # as1) @ ?p # ?q # tl (as2 @ [?h]))"
      unfolding cut using d by (auto simp: dll_iff)
    show "c \<notin> set (butlast (?h # as1) @ ?p # ?q # tl (as2 @ [?h]))"
      unfolding cut using r(4) by auto
  qed
  then have "seg (store l') (?h # (as1 @ c # as2) @ [?h])"
    unfolding cut by simp
  moreover have "map (vl (store l')) (as1 @ c # as2) = xs1 @ v # xs2"
    using r(1,4,5) d len rest(1) \<open>a \<noteq> c\<close>
    by (auto simp: ring_def dll_iff nxD append_eq_append_conv)
  moreover have "dom (store l') = set (?h # as1 @ c # as2)"
  proof -
    have "dom (store l1) = insert c (dom (store l))"
      using new by (auto simp: new_node_def)
    then show ?thesis using rest(2) d r(4) by (auto simp: dll_iff)
  qed
  moreover have "count_of l' = count_of l" "\<forall>b \<in> dom (store l'). b < fresh l'"
    using rest r(1) new by (auto simp: ring_def new_node_def)
  ultimately have "dll l' (as1 @ c # as2) (xs1 @ v # xs2)"
    using rest r(3,4) d by (auto simp: dll_iff)
  with l' show ?thesis by blast
qed

lemma Update_new:
  assumes inv: "bm_inv as ps bs bm" and p: "bm_heap bm p = Some b" "bi_bundleName b = Some n" "p \<notin> set ps"
    and new: "Some n \<notin> bi_bundleName ` set bs"
  shows "\<exists>bm' as'. Update (Some p) bm = Some (True, bm') \<and> bm_inv as' (p # ps) (b # bs) bm' \<and> bm_heap bm' p = Some b"
proof -
  obtain c l1 where n: "new_node (Some p) (bm_list bm) = (c, l1)" by fastforce
  have d: "dll (bm_list bm) as (map Some ps)" using inv by (simp add: bm_inv_def)
  have "find_node (has_name (bm_heap bm) n) l1 = Some None"
    using find_named_absent[OF new_node_ring(1)[OF d n] bm_inv_live[OF inv] new] by blast
  moreover obtain l2 where l2: "delete_node c l1 = Some l2" "dll l2 as (map Some ps)"
    using new_node_dropped[OF d n] by blast
  moreover have inv2: "bm_inv as ps bs (bm\<lparr>bm_list := l2\<rparr>)"
    using inv l2 by (simp add: bm_inv_def)
  obtain l3 where "PushFront (Some p) l2 = Some l3"
      "bm_inv (fresh l2 # as) (p # ps) (b # bs) (bm\<lparr>bm_list := l3\<rparr>)"
    using push_inv[OF inv2 _ p(2,3) new] p(1) by auto
  ultimately show ?thesis using p n by (auto simp: Update_def)
qed

lemma Update_known:
  assumes inv: "bm_inv as ps bs bm" and p: "bm_heap bm p = Some b" "bi_bundleName b = Some n" "p \<notin> set ps"
    and c: "c \<in> set bs" "bi_bundleName c = Some n"
  shows "\<exists>bm' as' ps' bs'. Update (Some p) bm = Some (True, bm') \<and> bm_inv as' ps' bs' bm' \<and>
           set bs' = insert b {c \<in> set bs. bi_bundleName c \<noteq> Some n} \<and> p \<in> set ps' \<and> bm_heap bm' p = Some b"
proof -
  obtain as1 a as2 ps1 q ps2 bs1 bs2 where
    pl: "as = as1 @ a # as2" "ps = ps1 @ q # ps2" "bs = bs1 @ c # bs2"
    "length as1 = length ps1" "length ps1 = length bs1" and
    hq: "bm_heap bm q = Some c" and nn: "Some n \<notin> bi_bundleName ` set (bs1 @ bs2)"
    by (rule bm_place[OF inv c])
  obtain e l1 where n: "new_node (Some p) (bm_list bm) = (e, l1)" by fastforce
  have d: "dll (bm_list bm) (as1 @ a # as2) (map Some ps1 @ Some q # map Some ps2)"
    using inv pl by (simp add: bm_inv_def)
  note r = new_node_ring[OF d n]
  have found: "find_node (has_name (bm_heap bm) n) l1 = Some (Some a)"
    using find_named_present[of l1 as1 a as2 ps1 q ps2 "bm_heap bm" bs1 c bs2]
      bm_inv_live[OF inv] r(1) pl c nn by auto
  obtain old where old: "store l1 a = Some old"
    using ring_alive[OF r(1), of a] by auto
  have v: "value_of old = Some q"
    using place_value[OF r(1) _ old] pl by simp
  obtain l2 l3 where l: "relink a e l1 = Some l2" "delete_node a l2 = Some l3"
      "dll l3 (as1 @ e # as2) (map Some ps1 @ Some p # map Some ps2)"
    using relink_refines[OF d _ n] pl by auto
  let ?bm = "bm\<lparr>bm_heap := (bm_heap bm)(q := None), bm_list := l3\<rparr>"
  have "Update (Some p) bm = Some (True, ?bm)"
    using p n found old v hq l by (simp add: Update_def FreeBundleInfo_def)
  moreover have "p \<noteq> q" using p(3) pl by auto
  then have "bm_inv (as1 @ e # as2) (ps1 @ p # ps2) (bs1 @ b # bs2) ?bm"
    using inv pl l hq p c nn by (auto simp: bm_inv_def append_eq_append_conv)
  moreover have "set (bs1 @ b # bs2) = insert b {c \<in> set bs. bi_bundleName c \<noteq> Some n}"
  proof -
    have "\<forall>x \<in> set (bs1 @ bs2). bi_bundleName x \<noteq> Some n"
      using notin_imageD[OF nn] by blast
    then show ?thesis using pl c by auto
  qed
  moreover have "p \<in> set (ps1 @ p # ps2)" "bm_heap ?bm p = Some b" using \<open>p \<noteq> q\<close> p(1) by simp_all
  ultimately show ?thesis by blast
qed

section \<open>The interface the service relies on\<close>

text \<open>What the service does to its registry, with the bundles it has built.\<close>

datatype registry_op = OpAdd BundleInfo | OpUpdate BundleInfo | OpErase string

definition with_name :: "BundleInfo \<Rightarrow> (string \<Rightarrow> 'a) \<Rightarrow> 'a \<Rightarrow> 'a" where
  "with_name b f e = (case bi_bundleName b of Some n \<Rightarrow> f n | None \<Rightarrow> e)"

text \<open>The same on the map from names to bundles: the specification.\<close>

fun spec_op :: "registry_op \<Rightarrow> (string \<Rightarrow> BundleInfo option) \<Rightarrow> (string \<Rightarrow> BundleInfo option)" where
  "spec_op (OpAdd b) f = with_name b (\<lambda>n. if f n = None then f(n \<mapsto> b) else f) f"
| "spec_op (OpUpdate b) f = with_name b (\<lambda>n. f(n \<mapsto> b)) f"
| "spec_op (OpErase n) f = f(n := None)"

definition spec_ops :: "registry_op list \<Rightarrow> (string \<Rightarrow> BundleInfo option) \<Rightarrow> (string \<Rightarrow> BundleInfo option)" where
  "spec_ops ops f = fold spec_op ops f"

text \<open>And on a registry: a new object is made for the bundle and its pointer handed over.\<close>

fun exec_op ::
    "(BundleInfo \<Rightarrow> 's \<Rightarrow> nat \<times> 's) \<Rightarrow> (nat option \<Rightarrow> 's \<Rightarrow> 's option) \<Rightarrow>
     (nat option \<Rightarrow> 's \<Rightarrow> (bool \<times> 's) option) \<Rightarrow> (cstr \<Rightarrow> 's \<Rightarrow> 's option) \<Rightarrow>
     registry_op \<Rightarrow> 's \<Rightarrow> 's option" where
  "exec_op mk add upd del (OpAdd b) s = (let (p, s) = mk b s in add (Some p) s)"
| "exec_op mk add upd del (OpUpdate b) s = (let (p, s) = mk b s in map_option snd (upd (Some p) s))"
| "exec_op mk add upd del (OpErase n) s = del (Some n) s"

fun exec_ops where
  "exec_ops mk add upd del [] s = Some s"
| "exec_ops mk add upd del (c # cs) s =
     do { s \<leftarrow> exec_op mk add upd del c s; exec_ops mk add upd del cs s }"

locale bundle_registry =
  fixes ok :: "'s \<Rightarrow> bool"
    and look :: "'s \<Rightarrow> string \<Rightarrow> BundleInfo option"
    and held :: "'s \<Rightarrow> nat \<Rightarrow> bool"
    and peek :: "'s \<Rightarrow> nat \<Rightarrow> BundleInfo option"
    and mk :: "BundleInfo \<Rightarrow> 's \<Rightarrow> nat \<times> 's"
    and add :: "nat option \<Rightarrow> 's \<Rightarrow> 's option"
    and upd :: "nat option \<Rightarrow> 's \<Rightarrow> (bool \<times> 's) option"
    and del :: "cstr \<Rightarrow> 's \<Rightarrow> 's option"
  assumes mk_law: "ok s \<Longrightarrow> mk b s = (p, s') \<Longrightarrow>
      ok s' \<and> look s' = look s \<and> peek s' p = Some b \<and> \<not> held s' p"
    and add_law: "ok s \<Longrightarrow> peek s p = Some b \<Longrightarrow> \<not> held s p \<Longrightarrow>
      \<exists>s'. add (Some p) s = Some s' \<and> ok s' \<and> look s' = spec_op (OpAdd b) (look s)"
    and upd_law: "ok s \<Longrightarrow> peek s p = Some b \<Longrightarrow> \<not> held s p \<Longrightarrow>
      \<exists>s'. upd (Some p) s = Some (bi_bundleName b \<noteq> None, s') \<and> ok s' \<and>
           look s' = spec_op (OpUpdate b) (look s)"
    and del_law: "ok s \<Longrightarrow> \<exists>s'. del (Some n) s = Some s' \<and> ok s' \<and> look s' = spec_op (OpErase n) (look s)"
    and look_law: "ok s \<Longrightarrow> look s n = Some b \<Longrightarrow> bi_bundleName b = Some n"
begin

lemma op_refines:
  assumes "ok s"
  shows "\<exists>s'. exec_op mk add upd del c s = Some s' \<and> ok s' \<and> look s' = spec_op c (look s)"
proof (cases c)
  case (OpAdd b)
  obtain p s1 where m: "mk b s = (p, s1)" by fastforce
  from mk_law[OF assms m] add_law[of s1 p b] show ?thesis
    by (auto simp: OpAdd m)
next
  case (OpUpdate b)
  obtain p s1 where m: "mk b s = (p, s1)" by fastforce
  from mk_law[OF assms m] upd_law[of s1 p b] show ?thesis
    by (auto simp: OpUpdate m)
next
  case (OpErase n)
  with del_law[OF assms] show ?thesis by auto
qed

text \<open>Any sequence of operations runs without a wild pointer and is the sequence on the map.\<close>

lemma ops_refine:
  "ok s \<Longrightarrow> \<exists>s'. exec_ops mk add upd del cs s = Some s' \<and> ok s' \<and> look s' = spec_ops cs (look s)"
proof (induction cs arbitrary: s)
  case Nil
  then show ?case by (simp add: spec_ops_def)
next
  case (Cons c cs)
  from op_refines[OF Cons.prems, of c] obtain s1 where
    s1: "exec_op mk add upd del c s = Some s1" "ok s1" "look s1 = spec_op c (look s)" by blast
  from Cons.IH[OF s1(2)] s1 show ?case by (auto simp: spec_ops_def)
qed

lemma update_then_look:
  assumes "ok s" "peek s p = Some b" "\<not> held s p" "bi_bundleName b = Some n"
  shows "\<exists>s'. upd (Some p) s = Some (True, s') \<and> look s' n = Some b"
  using upd_law[OF assms(1-3)] assms(4) by (auto simp: with_name_def)

end

section \<open>BundleMap provides it\<close>

lemma bm_okI: "bm_inv as ps bs bm \<Longrightarrow> bm_ok bm"
  by (auto simp: bm_ok_def)

lemma bm_look_same:
  assumes "bm_inv as ps bs bm" "bm_inv as' ps' bs' bm'" "set bs' = set bs"
  shows "bm_look bm' = bm_look bm"
  using bm_look_iff[OF assms(1)] assms(3) by (intro bm_look_eq[OF assms(2)]) auto

lemma bm_look_erased:
  assumes "bm_inv as ps bs bm" "bm_inv as' ps' bs' bm'"
    and "set bs' = {c \<in> set bs. bi_bundleName c \<noteq> Some n}"
  shows "bm_look bm' = (bm_look bm)(n := None)"
  using bm_look_iff[OF assms(1)] assms(3) by (intro bm_look_eq[OF assms(2)]) auto

lemma bm_look_put:
  assumes inv: "bm_inv as ps bs bm" "bm_inv as' ps' bs' bm'" and n: "bi_bundleName b = Some n"
    and "set bs' = insert b {c \<in> set bs. bi_bundleName c \<noteq> Some n}"
  shows "bm_look bm' = (bm_look bm)(n \<mapsto> b)"
  using bm_look_iff[OF inv(1)] assms(4) n by (intro bm_look_eq[OF inv(2)]) auto

lemma unnamed_eq: "Some n \<notin> bi_bundleName ` A \<Longrightarrow> {c \<in> A. bi_bundleName c \<noteq> Some n} = A"
  by (auto dest: notin_imageD)

lemma bm_mk_law:
  assumes "bm_ok s" "new_info b s = (p, s')"
  shows "bm_ok s' \<and> bm_look s' = bm_look s \<and> bm_heap s' p = Some b \<and> \<not> bm_held s' p"
proof -
  from assms(1) obtain as ps bs where inv: "bm_inv as ps bs s" by (auto simp: bm_ok_def)
  from new_info_inv[OF inv, of b] assms(2) have
    i: "bm_inv as ps bs s'" "bm_heap s' p = Some b" "p \<notin> set ps" by auto
  then show ?thesis
    using bm_look_same[OF inv i(1)] bm_held_iff[OF i(1)] by (auto intro: bm_okI)
qed

lemma bm_add_law:
  assumes "bm_ok s" and p: "bm_heap s p = Some b" "\<not> bm_held s p"
  shows "\<exists>s'. Add (Some p) s = Some s' \<and> bm_ok s' \<and> bm_look s' = spec_op (OpAdd b) (bm_look s)"
proof (cases "bi_bundleName b")
  case None
  with assms show ?thesis by (simp add: Add_def with_name_def)
next
  case (Some n)
  from assms(1) obtain as ps bs where inv: "bm_inv as ps bs s" by (auto simp: bm_ok_def)
  have np: "p \<notin> set ps" using p bm_held_iff[OF inv] by simp
  show ?thesis
  proof (cases "Some n \<in> bi_bundleName ` set bs")
    case True
    with Add_known[OF inv p(1) Some True] bm_look_None[OF inv] assms(1) Some
    show ?thesis by (auto simp: with_name_def)
  next
    case False
    from Add_new[OF inv p(1) Some np False] obtain s' as' where
      s': "Add (Some p) s = Some s'" "bm_inv as' (p # ps) (b # bs) s'" by blast
    from bm_look_put[OF inv s'(2) Some] unnamed_eq[OF False]
    have "bm_look s' = (bm_look s)(n \<mapsto> b)" by simp
    with s' False Some bm_look_None[OF inv] show ?thesis
      by (auto simp: with_name_def intro: bm_okI)
  qed
qed

lemma bm_upd_law:
  assumes "bm_ok s" and p: "bm_heap s p = Some b" "\<not> bm_held s p"
  shows "\<exists>s'. Update (Some p) s = Some (bi_bundleName b \<noteq> None, s') \<and> bm_ok s' \<and>
              bm_look s' = spec_op (OpUpdate b) (bm_look s)"
proof (cases "bi_bundleName b")
  case None
  with assms show ?thesis by (simp add: Update_def with_name_def)
next
  case (Some n)
  from assms(1) obtain as ps bs where inv: "bm_inv as ps bs s" by (auto simp: bm_ok_def)
  have np: "p \<notin> set ps" using p bm_held_iff[OF inv] by simp
  have "\<exists>s' as' ps' bs'. Update (Some p) s = Some (True, s') \<and> bm_inv as' ps' bs' s' \<and>
          set bs' = insert b {c \<in> set bs. bi_bundleName c \<noteq> Some n}"
  proof (cases "Some n \<in> bi_bundleName ` set bs")
    case True
    then obtain c where "c \<in> set bs" "bi_bundleName c = Some n" by auto
    from Update_known[OF inv p(1) Some np this] show ?thesis by blast
  next
    case False
    from Update_new[OF inv p(1) Some np False] unnamed_eq[OF False] show ?thesis
      by (metis list.simps(15))
  qed
  then obtain s' as' ps' bs' where s': "Update (Some p) s = Some (True, s')" "bm_inv as' ps' bs' s'"
    "set bs' = insert b {c \<in> set bs. bi_bundleName c \<noteq> Some n}" by blast
  with bm_look_put[OF inv s'(2) Some s'(3)] Some show ?thesis
    by (auto simp: with_name_def intro: bm_okI)
qed

lemma bm_del_law:
  assumes "bm_ok s"
  shows "\<exists>s'. Erase (Some n) s = Some s' \<and> bm_ok s' \<and> bm_look s' = spec_op (OpErase n) (bm_look s)"
proof -
  from assms obtain as ps bs where inv: "bm_inv as ps bs s" by (auto simp: bm_ok_def)
  show ?thesis
  proof (cases "Some n \<in> bi_bundleName ` set bs")
    case True
    then obtain c where "c \<in> set bs" "bi_bundleName c = Some n" by auto
    from Erase_known[OF inv this] obtain s' as' ps' bs' where
      s': "Erase (Some n) s = Some s'" "bm_inv as' ps' bs' s'"
      "set bs' = {c \<in> set bs. bi_bundleName c \<noteq> Some n}" by blast
    with bm_look_erased[OF inv s'(2,3)] show ?thesis by (auto intro: bm_okI)
  next
    case False
    then have "(bm_look s)(n := None) = bm_look s" using bm_look_None[OF inv, of n] by auto
    with Erase_absent[OF inv False] assms show ?thesis by auto
  qed
qed

lemma bm_look_law:
  assumes "bm_ok s" "bm_look s n = Some b" shows "bi_bundleName b = Some n"
  using assms bm_look_iff by (auto simp: bm_ok_def)

interpretation bm: bundle_registry bm_ok bm_look bm_held bm_heap new_info Add Update Erase
  by unfold_locales (fact bm_mk_law bm_add_law bm_upd_law bm_del_law bm_look_law)+

lemma bm_ok_new: "bm_ok BundleMap_new"
  using bm_inv_new by (rule bm_okI)

lemma bm_look_new: "bm_look BundleMap_new = (\<lambda>_. None)"
  by (rule bm_look_eq[OF bm_inv_new]) simp

section \<open>Listing the bundles\<close>

lemma copy_loop_ring:
  assumes "ring l (as1 @ as2) (xs1 @ xs2)" and "length as1 = length xs1"
    and "\<And>x. x \<in> set xs2 \<Longrightarrow> copy x = Some (good x)"
  shows "copy_loop copy (Some (hd (as2 @ [head_of l]))) l = Some (map good xs2)"
  using assms
proof (induction as2 arbitrary: as1 xs1 xs2)
  case Nil
  with ring_length[OF Nil.prems(1)] show ?case by (subst copy_loop.simps) simp
next
  case (Cons a as2)
  from ring_length[OF Cons.prems(1)] Cons.prems(2) obtain x ys where xs2: "xs2 = x # ys"
    by (cases xs2) auto
  obtain n where n: "store l a = Some n"
    using ring_alive[OF Cons.prems(1), of a] by auto
  have ne: "a \<noteq> head_of l" using Cons.prems(1) by (auto simp: ring_def)
  have nv: "value_of n = x"
    using Cons.prems(1,2) n xs2 by (auto simp: ring_def append_eq_append_conv nxD)
  have nn: "next_of n = Some (hd (as2 @ [head_of l]))"
    by (rule ring_node(2)[OF Cons.prems(1) n])
  have IH: "copy_loop copy (Some (hd (as2 @ [head_of l]))) l = Some (map good ys)"
    using Cons.prems xs2 by (intro Cons.IH[of "as1 @ [a]" "xs1 @ [x]"]) auto
  show ?case
    using n ne nv nn IH Cons.prems(3)[of x] xs2 by (subst copy_loop.simps) simp
qed

lemma copy_all_lists:
  assumes inv: "bm_inv as ps bs bm" and ne: "bs \<noteq> []" and few: "length bs < 2 ^ 32"
  shows "copy_all plentiful copy False bm = Some (ERR_OK, Some (map copy bs))"
proof -
  let ?l = "bm_list bm"
  have d: "dll ?l as (map Some ps)" using inv by (simp add: bm_inv_def)
  note len = place_length[OF inv]
  have live: "map_option copy (read_info bm v) = Some (copy (the (read_info bm v)))"
    if "v \<in> set (map Some ps)" for v
  proof -
    from that obtain p where "v = Some p" "p \<in> set ps" by auto
    with held_live[OF inv, of p] show ?thesis by (auto simp: read_info_def)
  qed
  have "copy_loop (\<lambda>v. map_option copy (read_info bm v)) (Some (hd (as @ [head_of ?l]))) ?l =
      Some (map (\<lambda>v. copy (the (read_info bm v))) (map Some ps))"
    using copy_loop_ring[of ?l "[]" as "[]" "map Some ps", OF _ _ live] dll_ring[OF d] by simp
  also have "map (\<lambda>v. copy (the (read_info bm v))) (map Some ps) = map (copy \<circ> the) (map (bm_heap bm) ps)"
    by (simp add: read_info_def)
  also have "\<dots> = map copy bs" unfolding bm_inv_live[OF inv] by simp
  finally have "copy_loop (\<lambda>v. map_option copy (read_info bm v)) (Some (hd (as @ [head_of ?l]))) ?l =
      Some (map copy bs)" .
  moreover have "\<not> IsEmpty ?l" using IsEmpty_refines[OF d] ne len by auto
  moreover have "unat (Size ?l) = length bs" using Size_refines[OF d] few len by simp
  ultimately show ?thesis
    using Begin_ring[OF dll_ring[OF d]] by (simp add: copy_all_def plentiful_grants)
qed

lemma bm_look_ran:
  assumes inv: "bm_inv as ps bs bm" shows "ran (bm_look bm) = set bs"
proof -
  have "\<exists>n. bi_bundleName b = Some n" if "b \<in> set bs" for b
    using inv that by (auto simp: bm_inv_def)
  then show ?thesis using bm_look_iff[OF inv] by (auto simp: ran_def)
qed

lemma GetBundleInfos_lists:
  assumes "bm_ok bm" "bm_look bm \<noteq> (\<lambda>_. None)" "count_of (bm_list bm) < 2 ^ 32"
    and "\<forall>b \<in> ran (bm_look bm). BundleInfo_ok b"
  shows "\<exists>infos. GetBundleInfos plentiful 1 False bm = Some (ERR_OK, Some infos) \<and>
           distinct (map bi_bundleName infos) \<and>
           set infos = (\<lambda>b. b\<lparr>bi_abilityInfos := map_option (map without_deviceCap) (bi_abilityInfos b)\<rparr>)
                         ` ran (bm_look bm)"
proof -
  from assms(1) obtain as ps bs where inv: "bm_inv as ps bs bm" by (auto simp: bm_ok_def)
  let ?copy = "\<lambda>b. the (CopyBundleInfo plentiful 1 (Some zero_BundleInfo) b)"
  let ?less = "\<lambda>b. b\<lparr>bi_abilityInfos := map_option (map without_deviceCap) (bi_abilityInfos b)\<rparr>"
  have ne: "bs \<noteq> []" using assms(2) bm_look_eq[OF inv, of "\<lambda>_. None"] by auto
  have "count_of (bm_list bm) = int (length bs)"
    using inv place_length[OF inv] by (simp add: bm_inv_def dll_iff)
  then have "copy_all plentiful ?copy False bm = Some (ERR_OK, Some (map ?copy bs))"
    using assms(3) by (intro copy_all_lists[OF inv ne]) simp
  moreover have "map ?copy bs = map ?less bs"
    using assms(4) CopyBundleInfo_faithful[of _ 1] bm_look_ran[OF inv] by auto
  moreover have "distinct (map bi_bundleName (map ?less bs))"
    using inv by (simp add: bm_inv_def o_def)
  ultimately show ?thesis
    using bm_look_ran[OF inv] by (auto simp: GetBundleInfos_def)
qed

section \<open>EraseAll\<close>

lemma free_loop_ring:
  assumes "ring l (as1 @ as2) (xs1 @ map Some ps2)" and "length as1 = length xs1"
    and "distinct ps2" "set ps2 \<subseteq> dom (bm_heap bm)"
  shows "free_loop (Some (hd (as2 @ [head_of l]))) l bm =
           Some (bm\<lparr>bm_heap := (\<lambda>p. if p \<in> set ps2 then None else bm_heap bm p)\<rparr>)"
  using assms
proof (induction as2 arbitrary: as1 xs1 ps2 bm)
  case Nil
  with ring_length[OF Nil.prems(1)] show ?case by (subst free_loop.simps) simp
next
  case (Cons a as2)
  from ring_length[OF Cons.prems(1)] Cons.prems(2) obtain p qs where ps2: "ps2 = p # qs"
    by (cases ps2) auto
  obtain n where n: "store l a = Some n"
    using ring_alive[OF Cons.prems(1), of a] by auto
  obtain b where b: "bm_heap bm p = Some b" using Cons.prems(4) ps2 by auto
  have ne: "a \<noteq> head_of l" using Cons.prems(1) by (auto simp: ring_def)
  have nv: "value_of n = Some p"
    using Cons.prems(1,2) n ps2 by (auto simp: ring_def append_eq_append_conv nxD)
  have nn: "next_of n = Some (hd (as2 @ [head_of l]))"
    by (rule ring_node(2)[OF Cons.prems(1) n])
  let ?bm = "bm\<lparr>bm_heap := (bm_heap bm)(p := None)\<rparr>"
  have "free_loop (Some (hd (as2 @ [head_of l]))) l ?bm =
      Some (?bm\<lparr>bm_heap := (\<lambda>q. if q \<in> set qs then None else bm_heap ?bm q)\<rparr>)"
    using Cons.prems ps2 by (intro Cons.IH[of "as1 @ [a]" "xs1 @ [Some p]"]) auto
  moreover have "(\<lambda>q. if q \<in> set qs then None else bm_heap ?bm q) =
      (\<lambda>q. if q \<in> set ps2 then None else bm_heap bm q)"
    using ps2 by auto
  ultimately show ?case
    using n ne nv nn b by (subst free_loop.simps) (simp add: FreeBundleInfo_def)
qed

lemma EraseAll_dangles:
  assumes "bm_ok bm" "bm_look bm \<noteq> (\<lambda>_. None)"
  shows "\<exists>bm'. EraseAll bm = Some bm' \<and> (\<forall>n. Get (Some n) bm' = None \<and> Erase (Some n) bm' = None)"
proof -
  from assms(1) obtain as ps bs where inv: "bm_inv as ps bs bm" by (auto simp: bm_ok_def)
  let ?l = "bm_list bm"
  have d: "dll ?l as (map Some ps)" using inv by (simp add: bm_inv_def)
  have "bs \<noteq> []" using assms(2) bm_look_eq[OF inv, of "\<lambda>_. None"] by auto
  then have ne: "map Some ps \<noteq> []" using place_length[OF inv] by auto
  have "set ps \<subseteq> dom (bm_heap bm)" using held_live[OF inv] by auto
  then obtain bm1 where bm1: "free_loop (Some (hd (as @ [head_of ?l]))) ?l bm = Some bm1" "bm_list bm1 = ?l"
    using free_loop_ring[of ?l "[]" as "[]" ps bm] dll_ring[OF d] inv by (auto simp: bm_inv_def)
  obtain l a where l: "RemoveAll ?l = Some l" "dom (store l) = {head_of ?l}" "head_of l = head_of ?l"
    "Begin l = Some (Some a)" "a \<notin> dom (store l)"
    using RemoveAll_dangles[OF d ne] by blast
  have "EraseAll bm = Some (bm1\<lparr>bm_list := l\<rparr>)"
    using Begin_ring[OF dll_ring[OF d]] bm1 l by (simp add: EraseAll_def)
  moreover have "find_node t l = None" for t
  proof -
    have "a \<noteq> head_of l" "store l a = None" using l by auto
    then have "find_loop t (Some a) l = None" by (subst find_loop.simps) simp
    then show ?thesis using l by (simp add: find_node_def)
  qed
  ultimately show ?thesis by (auto simp: Get_def Erase_def)
qed

section \<open>Properties\<close>

text \<open>C2 The registry is a map from names to bundles: whatever sequence of \<open>Add\<close>, \<open>Update\<close> and \<open>Erase\<close>
  the service makes on an empty registry, each with a bundle object of its own, runs without touching a
  freed node or bundle, and looking names up gives what the same sequence gives on a map, where \<open>Add\<close>
  keeps a bundle that is there and \<open>Update\<close> replaces it.\<close>

theorem BundleMap_is_a_map:
  "\<exists>bm. exec_ops new_info Add Update Erase cs BundleMap_new = Some bm \<and> bm_ok bm \<and>
        bm_look bm = spec_ops cs (\<lambda>_. None)"
  using bm.ops_refine[OF bm_ok_new, of cs] by (simp add: bm_look_new)

text \<open>\<open>GetBundleInfos\<close> with the abilities gives each registered bundle once, copied without the
  capabilities its abilities ask of the device.\<close>

theorem GetBundleInfos_complete:
  assumes "bm_ok bm" "bm_look bm \<noteq> (\<lambda>_. None)" "count_of (bm_list bm) < 2 ^ 32"
    and "\<forall>b \<in> ran (bm_look bm). BundleInfo_ok b"
  shows "\<exists>infos. GetBundleInfos plentiful GET_BUNDLE_WITH_ABILITIES False bm = Some (ERR_OK, Some infos) \<and>
           distinct (map bi_bundleName infos) \<and>
           set infos = (\<lambda>b. b\<lparr>bi_abilityInfos := map_option (map without_deviceCap) (bi_abilityInfos b)\<rparr>)
                         ` ran (bm_look bm)"
  using assms by (rule GetBundleInfos_lists)

definition sample_info :: "string \<Rightarrow> BundleInfo" where
  "sample_info n = zero_BundleInfo\<lparr>bi_bundleName := Some n\<rparr>"

definition sample_map :: bundle_map where
  "sample_map = the (exec_ops new_info Add Update Erase [OpAdd (sample_info ''com.a'')] BundleMap_new)"

lemma sample_map_facts:
  "bm_ok sample_map" "bm_look sample_map = (\<lambda>_. None)(''com.a'' \<mapsto> sample_info ''com.a'')"
  "count_of (bm_list sample_map) = 1"
proof -
  obtain bm where bm: "exec_ops new_info Add Update Erase [OpAdd (sample_info ''com.a'')] BundleMap_new = Some bm"
    "bm_ok bm" "bm_look bm = spec_ops [OpAdd (sample_info ''com.a'')] (bm_look BundleMap_new)"
    using bm.ops_refine[OF bm_ok_new] by blast
  then show ok: "bm_ok sample_map"
    "bm_look sample_map = (\<lambda>_. None)(''com.a'' \<mapsto> sample_info ''com.a'')"
    by (simp_all add: sample_map_def bm_look_new spec_ops_def with_name_def sample_info_def)
  obtain as ps bs where inv: "bm_inv as ps bs sample_map" using ok(1) by (auto simp: bm_ok_def)
  have "set bs = {sample_info ''com.a''}" using bm_look_ran[OF inv] ok(2) by simp
  moreover have "distinct bs" using inv by (auto simp: bm_inv_def distinct_map)
  ultimately have "length bs = 1" by (metis distinct_card card_1_singleton_iff One_nat_def)
  then show "count_of (bm_list sample_map) = 1"
    using inv place_length[OF inv] by (simp add: bm_inv_def dll_iff)
qed

theorem GetBundleInfos_complete_witness:
  "\<exists>infos. GetBundleInfos plentiful GET_BUNDLE_WITH_ABILITIES False sample_map = Some (ERR_OK, Some infos) \<and>
     set infos = {sample_info ''com.a''}"
proof -
  have ne: "bm_look sample_map \<noteq> (\<lambda>_. None)" by (simp add: sample_map_facts fun_eq_iff)
  have few: "count_of (bm_list sample_map) < 2 ^ 32" by (simp add: sample_map_facts)
  have ok: "\<forall>b \<in> ran (bm_look sample_map). BundleInfo_ok b"
    by (simp add: sample_map_facts sample_info_def BundleInfo_ok_def zero_BundleInfo_def fits_def array_ok_def)
  from GetBundleInfos_complete[OF sample_map_facts(1) ne few ok] show ?thesis
    by (auto simp: sample_map_facts sample_info_def zero_BundleInfo_def)
qed

text \<open>\<open>EraseAll\<close> leaves the registry unusable: it frees the bundles and the nodes of a registry that is
  not empty but not the links to them, and the next lookup or erasure follows a freed node.\<close>

theorem EraseAll_leaves_dangling_list:
  assumes "bm_ok bm" and "bm_look bm \<noteq> (\<lambda>_. None)"
  shows "\<exists>bm'. EraseAll bm = Some bm' \<and> (\<forall>n. Get (Some n) bm' = None \<and> Erase (Some n) bm' = None)"
  using assms by (rule EraseAll_dangles)

theorem EraseAll_leaves_dangling_list_witness:
  "\<exists>bm'. EraseAll sample_map = Some bm' \<and> Get (Some ''com.a'') bm' = None"
proof -
  have ne: "bm_look sample_map \<noteq> (\<lambda>_. None)" by (simp add: sample_map_facts fun_eq_iff)
  from EraseAll_leaves_dangling_list[OF sample_map_facts(1) ne] show ?thesis by blast
qed

end
