(* ===== verification/Bundle_Util.thy ===== *)
theory Bundle_Util
  imports Bundle_Types Utils_List
begin

text \<open>
  \<^verbatim>\<open>services/bundlemgr_lite/src/bundle_util.cpp\<close>, the part that works on strings and paths: the check
  every path passes before it is used, prefixes, suffixes, digits, concatenation and the random part
  of a temporary file name. The lengths are \<open>int32_t\<close> in the source; strings are shorter than
  \<open>2 ^ 31\<close>, so they are \<open>nat\<close> here.

  What the file system answers is a parameter, the record \<open>posix\<close>: \<open>stat\<close> gives whether the path is
  a directory and its size, \<open>open\<close> for reading whether it succeeds, \<open>read\<close> the content.
\<close>

section \<open>Queries of the file system\<close>

record posix =
  px_stat :: "string \<Rightarrow> (bool \<times> int) option"
  px_open :: "string \<Rightarrow> bool"
  px_read :: "string \<Rightarrow> string"

section \<open>Paths\<close>

text \<open>The loop of \<open>CheckRealPath\<close>: the character after a dot is looked at and skipped.\<close>

fun real_path_loop :: "string \<Rightarrow> bool" where
  "real_path_loop [] = True"
| "real_path_loop (c # cs) =
     (if c \<noteq> CHR ''.'' then real_path_loop cs
      else case cs of
          [] \<Rightarrow> False
        | d # ds \<Rightarrow> if d = CHR ''.'' \<or> d = CHR ''/'' then False else real_path_loop ds)"

definition CheckRealPath :: "cstr \<Rightarrow> bool" where
  "CheckRealPath path =
     (case path of
        None \<Rightarrow> False
      | Some p \<Rightarrow> if length p > PATH_LENGTH then False else real_path_loop p)"

definition IsFile :: "posix \<Rightarrow> cstr \<Rightarrow> bool" where
  "IsFile px path =
     (if \<not> CheckRealPath path then False
      else if px_stat px (the path) = None then False
      else px_open px (the path))"

definition IsDir :: "posix \<Rightarrow> cstr \<Rightarrow> bool" where
  "IsDir px path =
     (case path of
        None \<Rightarrow> False
      | Some p \<Rightarrow> (case px_stat px p of None \<Rightarrow> False | Some (dir, _) \<Rightarrow> dir))"

definition GetFileSize :: "posix \<Rightarrow> cstr \<Rightarrow> u32" where
  "GetFileSize px filePath =
     (if \<not> CheckRealPath filePath then 0
      else case px_stat px (the filePath) of None \<Rightarrow> 0 | Some (_, bytes) \<Rightarrow> word_of_int bytes)"

section \<open>Strings\<close>

text \<open>The loop of \<open>EndWith\<close> counts both lengths down, that of \<open>StartWith\<close> an index up.\<close>

fun end_loop :: "string \<Rightarrow> string \<Rightarrow> nat \<Rightarrow> nat \<Rightarrow> bool" where
  "end_loop str subStr strLen 0 = True"
| "end_loop str subStr strLen (Suc subStrLen) =
     (if str ! (strLen - 1) \<noteq> subStr ! subStrLen then False
      else end_loop str subStr (strLen - 1) subStrLen)"

definition EndWith :: "cstr \<Rightarrow> cstr \<Rightarrow> bool" where
  "EndWith str subStr =
     (case (str, subStr) of
        (Some s, Some t) \<Rightarrow>
          if length s = 0 \<or> length t = 0 \<or> length s < length t then False
          else end_loop s t (length s) (length t)
      | _ \<Rightarrow> False)"

function start_loop :: "string \<Rightarrow> string \<Rightarrow> nat \<Rightarrow> bool" where
  "start_loop str subStr index =
     (if index < length subStr
      then if str ! index \<noteq> subStr ! index then False else start_loop str subStr (index + 1)
      else True)"
  by pat_completeness auto
termination by (relation "measure (\<lambda>(str, subStr, index). length subStr - index)") auto

declare start_loop.simps [simp del]

definition StartWith :: "cstr \<Rightarrow> cstr \<Rightarrow> bool" where
  "StartWith str subStr =
     (case (str, subStr) of
        (Some s, Some t) \<Rightarrow>
          if length s = 0 \<or> length t = 0 \<or> length s < length t then False
          else start_loop s t 0
      | _ \<Rightarrow> False)"

text \<open>\<open>strspn(str, DIGITSTR) == strlen(str)\<close>.\<close>

definition DIGITSTR :: string where
  "DIGITSTR = ''0123456789''"

definition IsDigitStr :: "cstr \<Rightarrow> bool" where
  "IsDigitStr str =
     (case str of
        None \<Rightarrow> False
      | Some s \<Rightarrow> length (takeWhile (\<lambda>c. c \<in> set DIGITSTR) s) = length s)"

text \<open>
  \<open>Strscat\<close>: the second loop copies each string to the end of the buffer; \<open>memcpy_s\<close> refuses one
  longer than the room left.
\<close>

fun strscat_loop :: "nat \<Rightarrow> nat \<Rightarrow> string \<Rightarrow> string list \<Rightarrow> cstr" where
  "strscat_loop strSize count outStr [] = Some outStr"
| "strscat_loop strSize count outStr (s # ss) =
     (if length s > strSize + 1 - count then None
      else strscat_loop strSize (count + length s) (outStr @ s) ss)"

definition Strscat :: "allocator \<Rightarrow> cstr list \<Rightarrow> cstr" where
  "Strscat m str =
     (if None \<in> set str then None
      else let strSize = sum_list (map (length \<circ> the) str) in
           if \<not> m (Chars (strSize + 1)) then None
           else strscat_loop strSize 0 [] (map the str))"

text \<open>
  \<open>CreateRandStr\<close> draws from \<open>rand()\<close>, whose results are the parameter; \<open>k\<close> counts the draws. The
  buffer holds \<open>cap\<close> characters, and a write past its end is undefined: \<open>len - 1\<close> is computed in
  \<open>uint32_t\<close>.
\<close>

definition rand_char :: "(nat \<Rightarrow> nat) \<Rightarrow> nat \<Rightarrow> char" where
  "rand_char rnd k =
     (let t = rnd k mod 3 in
      if t = 0 then char_of (65 + rnd (k + 1) mod 26)
      else if t = 1 then char_of (97 + rnd (k + 1) mod 26)
      else char_of (48 + rnd (k + 1) mod 10))"

fun rand_loop :: "(nat \<Rightarrow> nat) \<Rightarrow> nat \<Rightarrow> nat \<Rightarrow> string" where
  "rand_loop rnd k 0 = []"
| "rand_loop rnd k (Suc n) = rand_char rnd k # rand_loop rnd (k + 2) n"

definition CreateRandStr :: "(nat \<Rightarrow> nat) \<Rightarrow> nat option \<Rightarrow> u32 \<Rightarrow> string option option" where
  "CreateRandStr rnd cap len =
     (case cap of
        None \<Rightarrow> Some None
      | Some c \<Rightarrow>
          (let n = unat (len - 1) in if n < c then Some (Some (rand_loop rnd 0 n)) else None))"

section \<open>What they decide\<close>

text \<open>A path without a dot before a dot, before a slash or at the end.\<close>

definition no_parent :: "string \<Rightarrow> bool" where
  "no_parent p \<longleftrightarrow> \<not> contains p ''..'' \<and> \<not> contains p ''./'' \<and> \<not> suffix ''.'' p"

lemma prefix_two: "prefix [a, b] (c # cs) \<longleftrightarrow> c = a \<and> (case cs of [] \<Rightarrow> False | d # _ \<Rightarrow> d = b)"
  by (cases cs) auto

lemma contains_two:
  "contains (c # cs) [a, b] \<longleftrightarrow> (c = a \<and> (case cs of [] \<Rightarrow> False | d # _ \<Rightarrow> d = b)) \<or> contains cs [a, b]"
  by (auto simp: str_lib sublist_Cons_right split: list.splits)

lemma contains_nil_two: "\<not> contains [] [a, b]"
  by (simp add: contains_def)

lemma suffix_one_Cons: "suffix [a] (c # cs) \<longleftrightarrow> (cs = [] \<and> c = a) \<or> suffix [a] cs"
  by (cases cs rule: rev_cases) (auto simp: suffix_def)

lemma suffix_one_nil: "\<not> suffix [a] []"
  by simp

lemma real_path_loop_iff: "real_path_loop p \<longleftrightarrow> no_parent p"
proof (induction p rule: real_path_loop.induct)
  case 1
  then show ?case by (simp add: no_parent_def contains_nil_two)
next
  case (2 c cs)
  show ?case
  proof (cases cs)
    case Nil
    then show ?thesis by (simp add: no_parent_def contains_two contains_nil_two suffix_one_Cons)
  next
    case (Cons d ds)
    have dot: "real_path_loop (CHR ''.'' # d # ds) \<longleftrightarrow> d \<noteq> CHR ''.'' \<and> d \<noteq> CHR ''/'' \<and> real_path_loop ds"
      by auto
    show ?thesis
    proof (cases "c = CHR ''.''")
      case True
      show ?thesis
      proof (cases "d = CHR ''.'' \<or> d = CHR ''/''")
        case True
        with Cons \<open>c = CHR ''.''\<close> show ?thesis by (auto simp: no_parent_def contains_two)
      next
        case False
        with 2(2)[OF _ Cons] True have "real_path_loop ds = no_parent ds" by simp
        with False True Cons dot show ?thesis
          by (auto simp: no_parent_def contains_two suffix_one_Cons)
      qed
    next
      case False
      with 2(1) have "real_path_loop (c # cs) = no_parent cs" by simp
      also have "\<dots> = no_parent (c # cs)"
        using False by (auto simp: no_parent_def contains_two suffix_one_Cons)
      finally show ?thesis .
    qed
  qed
qed

lemma CheckRealPath_iff:
  "CheckRealPath (Some p) \<longleftrightarrow> length p \<le> PATH_LENGTH \<and> no_parent p"
  by (simp add: CheckRealPath_def real_path_loop_iff)

lemma no_parent_parts: "no_parent (a @ b) \<Longrightarrow> no_parent b"
  using not_contains_parts[of a b "''..''"] not_contains_parts[of a b "''./''"]
    suffix_appendI[of "''.''" b a]
  unfolding no_parent_def by blast

lemma end_loop_iff:
  "n \<le> length s \<Longrightarrow> k \<le> n \<Longrightarrow> end_loop s t n k \<longleftrightarrow> (\<forall>i < k. s ! (n - k + i) = t ! i)"
proof (induction s t n k rule: end_loop.induct)
  case (1 s t n)
  then show ?case by simp
next
  case (2 s t n k)
  have n: "n - Suc k + k = n - 1" "n - 1 - k = n - Suc k" using "2.prems" by linarith+
  have "(\<forall>i < Suc k. s ! (n - Suc k + i) = t ! i) \<longleftrightarrow>
      s ! (n - 1) = t ! k \<and> (\<forall>i < k. s ! (n - Suc k + i) = t ! i)"
    unfolding less_Suc_eq using n(1) by metis
  moreover have "end_loop s t (n - 1) k \<longleftrightarrow> (\<forall>i < k. s ! (n - Suc k + i) = t ! i)"
    if "s ! (n - 1) = t ! k"
    using "2.IH"[unfolded n(2)] "2.prems" that by simp
  ultimately show ?case by simp
qed

lemma EndWith_iff: "EndWith (Some s) (Some t) \<longleftrightarrow> t \<noteq> [] \<and> suffix t s"
  by (auto simp: EndWith_def suffix_iff_nth end_loop_iff)

lemma start_loop_iff:
  "start_loop s t i \<longleftrightarrow> (\<forall>j. i \<le> j \<longrightarrow> j < length t \<longrightarrow> s ! j = t ! j)"
proof (induction s t i rule: start_loop.induct)
  case (1 s t i)
  have step: "(\<forall>j. i \<le> j \<longrightarrow> P j) \<longleftrightarrow> P i \<and> (\<forall>j. i + 1 \<le> j \<longrightarrow> P j)" for P :: "nat \<Rightarrow> bool"
    by (metis Suc_eq_plus1 Suc_le_eq le_less)
  show ?case
  proof (cases "i < length t \<and> s ! i = t ! i")
    case True
    with 1 have "start_loop s t i = (\<forall>j. i + 1 \<le> j \<longrightarrow> j < length t \<longrightarrow> s ! j = t ! j)"
      by (subst start_loop.simps) simp
    with True step[of "\<lambda>j. j < length t \<longrightarrow> s ! j = t ! j"] show ?thesis by simp
  next
    case False
    then show ?thesis by (subst start_loop.simps) auto
  qed
qed

lemma StartWith_iff: "StartWith (Some s) (Some t) \<longleftrightarrow> t \<noteq> [] \<and> prefix t s"
  by (auto simp: StartWith_def prefix_iff_nth start_loop_iff)

lemma IsDigitStr_iff: "IsDigitStr (Some s) \<longleftrightarrow> set s \<subseteq> set DIGITSTR"
proof -
  have "length (takeWhile P s) = length s \<longleftrightarrow> (\<forall>c \<in> set s. P c)" for P
    by (induction s) auto
  then show ?thesis by (auto simp: IsDigitStr_def)
qed

lemma strscat_loop_concat:
  "count + sum_list (map length ss) \<le> strSize \<Longrightarrow>
   strscat_loop strSize count outStr ss = Some (outStr @ concat ss)"
  by (induction ss arbitrary: count outStr) auto

lemma Strscat_eq:
  "Strscat m str =
     (if None \<in> set str \<or> \<not> m (Chars (length (concat (map the str)) + 1)) then None
      else Some (concat (map the str)))"
proof -
  have "length (concat (map the str)) = sum_list (map (length \<circ> the) str)"
    by (simp add: length_concat o_def)
  then show ?thesis
    using strscat_loop_concat[of 0 "map the str" _ "[]"] by (simp add: Strscat_def Let_def o_def)
qed

lemma rand_loop_length: "length (rand_loop rnd k n) = n"
  by (induction n arbitrary: k) auto

definition alnum :: "char \<Rightarrow> bool" where
  "alnum c \<longleftrightarrow> (let n = of_char c :: nat in 48 \<le> n \<and> n \<le> 57 \<or> 65 \<le> n \<and> n \<le> 90 \<or> 97 \<le> n \<and> n \<le> 122)"

lemma alnum_char_of:
  "n < (256 :: nat) \<Longrightarrow> alnum (char_of n) \<longleftrightarrow> 48 \<le> n \<and> n \<le> 57 \<or> 65 \<le> n \<and> n \<le> 90 \<or> 97 \<le> n \<and> n \<le> 122"
  by (simp add: alnum_def)

lemma rand_char_alnum: "alnum (rand_char rnd k)"
proof -
  have "rnd (k + 1) mod 26 < 26" "rnd (k + 1) mod 10 < 10" by simp_all
  then show ?thesis by (auto simp: rand_char_def Let_def alnum_char_of)
qed

lemma rand_loop_alnum: "c \<in> set (rand_loop rnd k n) \<Longrightarrow> alnum c"
  by (induction n arbitrary: k) (auto simp: rand_char_alnum)

section \<open>Properties\<close>

text \<open>\<open>CheckRealPath\<close> accepts exactly the paths of at most 256 characters in which no dot stands before
  a dot or a slash or at the end.\<close>

theorem CheckRealPath_exact:
  "CheckRealPath (Some p) \<longleftrightarrow>
     length p \<le> PATH_LENGTH \<and> \<not> sublist ''..'' p \<and> \<not> sublist ''./'' p \<and> \<not> suffix ''.'' p"
  by (simp add: CheckRealPath_iff no_parent_def contains_sublist)

text \<open>\<open>EndWith\<close> and \<open>StartWith\<close> decide suffix and prefix by a string that is not empty.\<close>

theorem EndWith_StartWith_exact:
  "(EndWith (Some s) (Some t) \<longleftrightarrow> t \<noteq> [] \<and> suffix t s) \<and> (StartWith (Some s) (Some t) \<longleftrightarrow> t \<noteq> [] \<and> prefix t s)"
  by (simp add: EndWith_iff StartWith_iff)

text \<open>\<open>Strscat\<close> gives the concatenation of its strings, or null when one of them is null or the
  allocation of the whole fails; the copying loop never runs out of room.\<close>

theorem Strscat_exact:
  "Strscat m str =
     (if None \<notin> set str \<and> m (Chars (length (concat (map the str)) + 1))
      then Some (concat (map the str)) else None)"
  by (simp add: Strscat_eq)

text \<open>\<open>CreateRandStr\<close> fills a buffer of \<open>len\<close> characters with \<open>len - 1\<close> letters and digits and never
  writes past it.\<close>

theorem CreateRandStr_fits:
  assumes "0 < len" and "unat len \<le> c"
  shows "\<exists>s. CreateRandStr rnd (Some c) len = Some (Some s) \<and> length s = unat len - 1 \<and> list_all alnum s"
proof -
  have "unat (len - 1) = unat len - 1"
    using assms(1) by (simp add: unat_minus_one word_neq_0_conv)
  moreover have "0 < unat len" using assms(1) by (simp add: unat_gt_0 word_neq_0_conv)
  ultimately show ?thesis
    using assms(2) rand_loop_alnum by (auto simp: CreateRandStr_def Let_def rand_loop_length list_all_iff)
qed

theorem CreateRandStr_fits_witness:
  "\<exists>s. CreateRandStr (\<lambda>_. 0) (Some 16) 16 = Some (Some s) \<and> length s = 15 \<and> list_all alnum s"
  using CreateRandStr_fits[of 16 16 "\<lambda>_. 0"] by simp

end
