(* ===== verification/Json.thy ===== *)
theory Json
  imports Prelude
begin

text \<open>
  What the service uses of the cJSON library, as a parameter: a record of its functions on a type
  \<open>'j\<close> of items. A \<open>cJSON *\<close> is a \<open>'j option\<close>; a member read through the pointer without a test
  (\<open>item->type\<close>, \<open>item->valuestring\<close>) takes the item itself, so that a null pointer shows as an
  undefined read where the source would make it. \<open>j_elems\<close> are the items \<open>cJSON_ArrayForEach\<close> visits.

  \<open>cjson_ok\<close> collects the documented behaviour some lemmas need. The type \<open>js\<close> of trees with the
  record \<open>js_api\<close> is an instance, used to evaluate the model on concrete documents.
\<close>

datatype cjson_type =
    cJSON_False | cJSON_True | cJSON_NULL | cJSON_Number | cJSON_String | cJSON_Array | cJSON_Object
  | cJSON_Raw

record 'j cjson =
  j_GetObjectItem :: "'j option \<Rightarrow> string \<Rightarrow> 'j option"
  j_GetObjectItemCS :: "'j option \<Rightarrow> string \<Rightarrow> 'j option"
  j_HasObjectItem :: "'j option \<Rightarrow> string \<Rightarrow> bool"
  j_IsString :: "'j option \<Rightarrow> bool"
  j_IsNumber :: "'j option \<Rightarrow> bool"
  j_IsBool :: "'j option \<Rightarrow> bool"
  j_IsTrue :: "'j option \<Rightarrow> bool"
  j_IsArray :: "'j option \<Rightarrow> bool"
  j_IsObject :: "'j option \<Rightarrow> bool"
  j_GetArraySize :: "'j option \<Rightarrow> int"
  j_GetArrayItem :: "'j option \<Rightarrow> int \<Rightarrow> 'j option"
  j_elems :: "'j option \<Rightarrow> 'j list"
  j_type :: "'j \<Rightarrow> cjson_type"
  j_valuestring :: "'j \<Rightarrow> cstr"
  j_valueint :: "'j \<Rightarrow> int"

definition cjson_ok :: "'j cjson \<Rightarrow> bool" where
  "cjson_ok J \<longleftrightarrow>
     (\<forall>p. j_GetArraySize J p = int (length (j_elems J p))) \<and>
     (\<forall>p i. j_GetArrayItem J p i =
        (if 0 \<le> i \<and> i < j_GetArraySize J p then Some (j_elems J p ! nat i) else None)) \<and>
     (\<forall>p k. j_HasObjectItem J p k \<longleftrightarrow> j_GetObjectItem J p k \<noteq> None) \<and>
     (\<forall>k. j_GetObjectItem J None k = None) \<and>
     (\<not> j_IsString J None \<and> \<not> j_IsNumber J None \<and> \<not> j_IsBool J None \<and>
      \<not> j_IsArray J None \<and> \<not> j_IsObject J None) \<and>
     (\<forall>j. - (2 ^ 31) \<le> j_valueint J j \<and> j_valueint J j < 2 ^ 31)"

lemma cjson_okD:
  assumes "cjson_ok J"
  shows "j_GetArraySize J p = int (length (j_elems J p))"
    and "j_GetArrayItem J p i =
          (if 0 \<le> i \<and> i < int (length (j_elems J p)) then Some (j_elems J p ! nat i) else None)"
    and "j_HasObjectItem J p k \<longleftrightarrow> j_GetObjectItem J p k \<noteq> None"
    and "j_GetObjectItem J None k = None"
    and "\<not> j_IsString J None" "\<not> j_IsNumber J None" "\<not> j_IsBool J None"
    and "\<not> j_IsArray J None" "\<not> j_IsObject J None"
    and "- (2 ^ 31) \<le> j_valueint J j" "j_valueint J j < 2 ^ 31"
  using assms by (simp_all add: cjson_ok_def)

section \<open>Trees\<close>

text \<open>\<open>cJSON_GetObjectItem\<close> compares keys without regard to case.\<close>

datatype js = JNull | JBool bool | JNum int | JStr string | JArr "js list" | JObj "(string \<times> js) list"

definition to_lower :: "char \<Rightarrow> char" where
  "to_lower c = (let n = of_char c :: nat in if 65 \<le> n \<and> n \<le> 90 then char_of (n + 32) else c)"

fun js_find :: "(string \<Rightarrow> string) \<Rightarrow> js option \<Rightarrow> string \<Rightarrow> js option" where
  "js_find f (Some (JObj kvs)) k = map_option snd (List.find (\<lambda>(k', _). f k' = f k) kvs)"
| "js_find f _ k = None"

fun js_elems :: "js option \<Rightarrow> js list" where
  "js_elems (Some (JArr xs)) = xs"
| "js_elems (Some (JObj kvs)) = map snd kvs"
| "js_elems _ = []"

fun js_type :: "js \<Rightarrow> cjson_type" where
  "js_type JNull = cJSON_NULL"
| "js_type (JBool b) = (if b then cJSON_True else cJSON_False)"
| "js_type (JNum _) = cJSON_Number"
| "js_type (JStr _) = cJSON_String"
| "js_type (JArr _) = cJSON_Array"
| "js_type (JObj _) = cJSON_Object"

definition js_is :: "cjson_type set \<Rightarrow> js option \<Rightarrow> bool" where
  "js_is T p = (case p of None \<Rightarrow> False | Some j \<Rightarrow> js_type j \<in> T)"

definition clamp32 :: "int \<Rightarrow> int" where
  "clamp32 i = max (- 2147483648) (min 2147483647 i)"

definition js_api :: "js cjson" where
  "js_api =
     \<lparr>j_GetObjectItem = js_find (map to_lower),
      j_GetObjectItemCS = js_find (\<lambda>k. k),
      j_HasObjectItem = (\<lambda>p k. js_find (map to_lower) p k \<noteq> None),
      j_IsString = js_is {cJSON_String},
      j_IsNumber = js_is {cJSON_Number},
      j_IsBool = js_is {cJSON_False, cJSON_True},
      j_IsTrue = js_is {cJSON_True},
      j_IsArray = js_is {cJSON_Array},
      j_IsObject = js_is {cJSON_Object},
      j_GetArraySize = (\<lambda>p. int (length (js_elems p))),
      j_GetArrayItem = (\<lambda>p i. if 0 \<le> i \<and> i < int (length (js_elems p)) then Some (js_elems p ! nat i) else None),
      j_elems = js_elems,
      j_type = js_type,
      j_valuestring = (\<lambda>j. case j of JStr s \<Rightarrow> Some s | _ \<Rightarrow> None),
      j_valueint = (\<lambda>j. case j of JNum i \<Rightarrow> clamp32 i | _ \<Rightarrow> 0)\<rparr>"

lemma js_api_ok: "cjson_ok js_api"
proof -
  have "- (2 ^ 31) \<le> clamp32 i \<and> clamp32 i < 2 ^ 31" for i by (auto simp: clamp32_def)
  then show ?thesis
    by (auto simp: cjson_ok_def js_api_def js_is_def split: js.split)
qed

end
