(* ===== verification/Bundle_Name.thy ===== *)
theory Bundle_Name
  imports Prelude
begin

text \<open>
  \<open>CheckBundleNameIsValid\<close> of \<^verbatim>\<open>services/bundlemgr_lite/src/bundle_parser.cpp\<close> matches the name against a
  \<open>std::regex\<close>. The part of the language of regular expressions the pattern uses is a datatype,
  \<open>regex_match\<close> decides by derivatives whether a whole string matches, and \<open>in_lang\<close> is the language
  an expression denotes. The exceptions the source catches come from the library's limits on the
  work it does; they are not modelled, since a name is at most 127 characters when it is matched.
\<close>

section \<open>Regular expressions\<close>

datatype rx = RNone | REmpty | RClass string | RSeq rx rx | RAlt rx rx | RStar rx

definition RPlus :: "rx \<Rightarrow> rx" where
  "RPlus r = RSeq r (RStar r)"

inductive in_lang :: "rx \<Rightarrow> string \<Rightarrow> bool" where
  lang_empty: "in_lang REmpty []"
| lang_class: "c \<in> set cs \<Longrightarrow> in_lang (RClass cs) [c]"
| lang_seq: "in_lang r s \<Longrightarrow> in_lang q t \<Longrightarrow> in_lang (RSeq r q) (s @ t)"
| lang_alt1: "in_lang r s \<Longrightarrow> in_lang (RAlt r q) s"
| lang_alt2: "in_lang q s \<Longrightarrow> in_lang (RAlt r q) s"
| lang_star0: "in_lang (RStar r) []"
| lang_star1: "in_lang r s \<Longrightarrow> s \<noteq> [] \<Longrightarrow> in_lang (RStar r) t \<Longrightarrow> in_lang (RStar r) (s @ t)"

inductive_simps in_lang_simps:
  "in_lang RNone s" "in_lang REmpty s" "in_lang (RClass cs) s" "in_lang (RAlt r q) s" "in_lang (RSeq r q) s"

inductive_cases in_lang_starE: "in_lang (RStar r) s"

fun nullable :: "rx \<Rightarrow> bool" where
  "nullable RNone = False"
| "nullable REmpty = True"
| "nullable (RClass cs) = False"
| "nullable (RSeq r q) = (nullable r \<and> nullable q)"
| "nullable (RAlt r q) = (nullable r \<or> nullable q)"
| "nullable (RStar r) = True"

fun deriv :: "char \<Rightarrow> rx \<Rightarrow> rx" where
  "deriv c RNone = RNone"
| "deriv c REmpty = RNone"
| "deriv c (RClass cs) = (if c \<in> set cs then REmpty else RNone)"
| "deriv c (RSeq r q) =
     (if nullable r then RAlt (RSeq (deriv c r) q) (deriv c q) else RSeq (deriv c r) q)"
| "deriv c (RAlt r q) = RAlt (deriv c r) (deriv c q)"
| "deriv c (RStar r) = RSeq (deriv c r) (RStar r)"

definition regex_match :: "string \<Rightarrow> rx \<Rightarrow> bool" where
  "regex_match s r = nullable (fold deriv s r)"

section \<open>The pattern\<close>

definition word_chars :: string where
  "word_chars = ''abcdefghijklmnopqrstuvwxyzABCDEFGHIJKLMNOPQRSTUVWXYZ0123456789_''"

text \<open>\<^verbatim>\<open>([a-zA-Z0-9_]+\.)+[a-zA-Z0-9_]+\<close>\<close>

definition name_pattern :: rx where
  "name_pattern =
     RSeq (RPlus (RSeq (RPlus (RClass word_chars)) (RClass ''.''))) (RPlus (RClass word_chars))"

definition CheckBundleNameIsValid :: "cstr \<Rightarrow> bool" where
  "CheckBundleNameIsValid bundleName =
     (case bundleName of None \<Rightarrow> False | Some n \<Rightarrow> regex_match n name_pattern)"

section \<open>Derivatives decide the language\<close>

lemma nullable_iff: "nullable r \<longleftrightarrow> in_lang r []"
  by (induction r) (auto simp: in_lang_simps intro: lang_star0)

lemma star_Cons: "in_lang (RStar r) (c # s) \<longleftrightarrow> (\<exists>u v. s = u @ v \<and> in_lang r (c # u) \<and> in_lang (RStar r) v)"
proof
  assume "in_lang (RStar r) (c # s)"
  then show "\<exists>u v. s = u @ v \<and> in_lang r (c # u) \<and> in_lang (RStar r) v"
    by (rule in_lang_starE) (auto simp: Cons_eq_append_conv)
next
  assume "\<exists>u v. s = u @ v \<and> in_lang r (c # u) \<and> in_lang (RStar r) v"
  then obtain u v where "s = u @ v" "in_lang r (c # u)" "in_lang (RStar r) v" by blast
  with lang_star1[of r "c # u" v] show "in_lang (RStar r) (c # s)" by simp
qed

lemma deriv_iff: "in_lang (deriv c r) s \<longleftrightarrow> in_lang r (c # s)"
proof (induction r arbitrary: s)
  case (RSeq r q)
  have "in_lang (RSeq r q) (c # s) \<longleftrightarrow>
      (\<exists>u v. s = u @ v \<and> in_lang r (c # u) \<and> in_lang q v) \<or> (in_lang r [] \<and> in_lang q (c # s))"
    by (auto simp: in_lang_simps Cons_eq_append_conv)
  then show ?case
    using RSeq by (auto simp: in_lang_simps nullable_iff)
next
  case (RStar r)
  then show ?case by (auto simp: in_lang_simps star_Cons)
qed (auto simp: in_lang_simps)

lemma regex_match_iff: "regex_match s r \<longleftrightarrow> in_lang r s"
proof (induction s arbitrary: r)
  case Nil
  then show ?case by (simp add: regex_match_def nullable_iff)
next
  case (Cons c s)
  then show ?case by (simp add: regex_match_def deriv_iff)
qed

section \<open>The names the pattern accepts\<close>

text \<open>The parts of a name between the dots.\<close>

fun dot_parts :: "string \<Rightarrow> string list" where
  "dot_parts [] = [[]]"
| "dot_parts (c # cs) =
     (if c = CHR ''.'' then [] # dot_parts cs
      else case dot_parts cs of [] \<Rightarrow> [[c]] | p # ps \<Rightarrow> (c # p) # ps)"

definition word_part :: "string \<Rightarrow> bool" where
  "word_part p \<longleftrightarrow> p \<noteq> [] \<and> set p \<subseteq> set word_chars"

definition dotted_name :: "string \<Rightarrow> bool" where
  "dotted_name n \<longleftrightarrow> 2 \<le> length (dot_parts n) \<and> list_all word_part (dot_parts n)"

lemma dot_not_word: "CHR ''.'' \<notin> set word_chars"
  by (simp add: word_chars_def)

lemma dot_parts_nonempty: "dot_parts s \<noteq> []"
  by (induction s) (auto split: list.split)

lemma dot_parts_plain: "CHR ''.'' \<notin> set s \<Longrightarrow> dot_parts s = [s]"
  by (induction s) auto

lemma dot_parts_dot: "CHR ''.'' \<notin> set s \<Longrightarrow> dot_parts (s @ CHR ''.'' # t) = s # dot_parts t"
  by (induction s) auto

lemma dot_parts_cases:
  obtains "CHR ''.'' \<notin> set s" | u v where "s = u @ CHR ''.'' # v" "CHR ''.'' \<notin> set u"
  by (metis split_list_first)

lemma class_plus_iff: "in_lang (RPlus (RClass cs)) s \<longleftrightarrow> s \<noteq> [] \<and> set s \<subseteq> set cs"
proof -
  have star: "in_lang (RStar (RClass cs)) t \<longleftrightarrow> set t \<subseteq> set cs" for t
  proof (induction t)
    case Nil
    then show ?case by (simp add: lang_star0)
  next
    case (Cons c t)
    then show ?case by (auto simp: star_Cons in_lang_simps)
  qed
  have "in_lang (RPlus (RClass cs)) s \<longleftrightarrow> (\<exists>c t. s = c # t \<and> c \<in> set cs \<and> set t \<subseteq> set cs)"
    unfolding RPlus_def in_lang_simps(5) in_lang_simps(3) star by (metis append_Cons append_Nil)
  then show ?thesis by (cases s) auto
qed

lemma word_part_iff: "in_lang (RPlus (RClass word_chars)) s \<longleftrightarrow> word_part s"
  by (simp add: class_plus_iff word_part_def)

text \<open>One \<^verbatim>\<open>[a-zA-Z0-9_]+\.\<close>.\<close>

definition dotted_part :: rx where
  "dotted_part = RSeq (RPlus (RClass word_chars)) (RClass ''.'')"

lemma dotted_part_iff: "in_lang dotted_part s \<longleftrightarrow> (\<exists>p. s = p @ ''.'' \<and> word_part p)"
  by (auto simp: dotted_part_def in_lang_simps(5) in_lang_simps(3) word_part_iff)

lemma word_part_no_dot: "word_part p \<Longrightarrow> CHR ''.'' \<notin> set p"
  using dot_not_word by (auto simp: word_part_def)

lemma star_word:
  "in_lang (RStar dotted_part) s \<Longrightarrow> word_part w \<Longrightarrow> list_all word_part (dot_parts (s @ w))"
proof (induction "RStar dotted_part" s rule: in_lang.induct)
  case lang_star0
  then show ?case by (simp add: dot_parts_plain word_part_no_dot)
next
  case (lang_star1 s t)
  from lang_star1(1) obtain p where "s = p @ ''.''" "word_part p" by (auto simp: dotted_part_iff)
  with lang_star1 show ?case by (simp add: dot_parts_dot word_part_no_dot)
qed

lemma parts_star:
  "list_all word_part (dot_parts n) \<Longrightarrow>
   \<exists>s w. n = s @ w \<and> in_lang (RStar dotted_part) s \<and> word_part w"
proof (induction "length n" arbitrary: n rule: less_induct)
  case less
  show ?case
  proof (cases rule: dot_parts_cases[of n])
    case 1
    with less.prems show ?thesis
      using lang_star0[of dotted_part] by (intro exI[of _ "[]"] exI[of _ n]) (simp add: dot_parts_plain)
  next
    case (2 u v)
    with less.prems have u: "word_part u" and v: "list_all word_part (dot_parts v)"
      by (auto simp: dot_parts_dot)
    from less.hyps[OF _ v] 2 obtain s w where
      s: "v = s @ w" "in_lang (RStar dotted_part) s" "word_part w" by auto
    have "in_lang dotted_part (u @ ''.'')" using u by (auto simp: dotted_part_iff)
    from lang_star1[OF this _ s(2)] have "in_lang (RStar dotted_part) (u @ ''.'' @ s)" by simp
    with s 2 show ?thesis by (intro exI[of _ "u @ ''.'' @ s"] exI[of _ w]) auto
  qed
qed

lemma name_pattern_lang: "in_lang name_pattern n \<longleftrightarrow> dotted_name n"
proof
  assume "in_lang name_pattern n"
  then obtain p s w where n: "n = (p @ ''.'') @ s @ w" and p: "word_part p"
    and s: "in_lang (RStar dotted_part) s" and w: "word_part w"
    unfolding name_pattern_def dotted_part_def[symmetric] RPlus_def[of dotted_part] in_lang_simps(5)
      word_part_iff dotted_part_iff
    by auto
  have "dot_parts n = p # dot_parts (s @ w)"
    using n p by (simp add: dot_parts_dot word_part_no_dot)
  moreover have "1 \<le> length (dot_parts (s @ w))"
    using dot_parts_nonempty[of "s @ w"] by (cases "dot_parts (s @ w)") auto
  ultimately show "dotted_name n"
    using star_word[OF s w] p by (simp add: dotted_name_def)
next
  assume d: "dotted_name n"
  then obtain u v where n: "n = u @ CHR ''.'' # v" "CHR ''.'' \<notin> set u"
    by (cases rule: dot_parts_cases[of n]) (auto simp: dotted_name_def dot_parts_plain)
  with d have u: "word_part u" and v: "list_all word_part (dot_parts v)"
    by (auto simp: dotted_name_def dot_parts_dot)
  from parts_star[OF v] obtain s w where
    s: "v = s @ w" "in_lang (RStar dotted_part) s" "word_part w" by blast
  have "in_lang dotted_part (u @ ''.'')" using u by (auto simp: dotted_part_iff)
  then have "in_lang (RSeq dotted_part (RStar dotted_part)) ((u @ ''.'') @ s)"
    using s(2) by (rule lang_seq)
  then have "in_lang (RSeq (RSeq dotted_part (RStar dotted_part)) (RPlus (RClass word_chars)))
      (((u @ ''.'') @ s) @ w)"
    using s(3) by (intro lang_seq[of _ "(u @ ''.'') @ s"]) (simp_all only: word_part_iff)
  then show "in_lang name_pattern n"
    using n s by (simp add: name_pattern_def dotted_part_def RPlus_def[of "RSeq _ _"])
qed

lemma CheckBundleNameIsValid_iff: "CheckBundleNameIsValid (Some n) \<longleftrightarrow> dotted_name n"
  by (simp add: CheckBundleNameIsValid_def regex_match_iff name_pattern_lang)

section \<open>Properties\<close>

text \<open>C33 \<open>CheckBundleNameIsValid\<close> accepts exactly the dotted names: two or more parts between the dots,
  each of one or more letters, digits and underscores.\<close>

theorem CheckBundleNameIsValid_dotted: "CheckBundleNameIsValid (Some n) = dotted_name n"
  by (rule CheckBundleNameIsValid_iff)

end
