(* ===== verification/Bundle_Parser.thy ===== *)
theory Bundle_Parser
  imports Bundle_Util Json Bundle_Name Bundle_Types
begin

text \<open>
  \<^verbatim>\<open>services/bundlemgr_lite/src/bundle_parser.cpp\<close>: reading \<^verbatim>\<open>config.json\<close> into a \<open>BundleProfile\<close> and a
  \<open>BundleRes\<close>.

  A parsing function takes the structures it fills and returns its error code with them as it leaves
  them, fields set before an error included; \<open>None\<close> is an undefined access (a null \<open>valuestring\<close>
  handed to \<open>strlen\<close>, an index past an inline array). The functions on \<open>abilityInfos[index]\<close> take that
  element, which the loop writes back. The cJSON library is the parameter \<open>J\<close>, the answer of
  \<open>GetSystemAvailableCapabilities\<close> (its result and the array) the parameter \<open>caps\<close>, and
  \<open>IsPermissionValid\<close> of the permission service the parameter \<open>perm\<close>.
\<close>

section \<open>Reading a value\<close>

definition ParseValue_int :: "'j cjson \<Rightarrow> 'j option \<Rightarrow> string \<Rightarrow> int \<Rightarrow> int" where
  "ParseValue_int J object key defaultValue =
     (if object = None then defaultValue
      else let son = j_GetObjectItem J object key in
           if \<not> j_IsNumber J son then defaultValue
           else case son of Some s \<Rightarrow> j_valueint J s | None \<Rightarrow> defaultValue)"

definition ParseValue_str :: "'j cjson \<Rightarrow> 'j option \<Rightarrow> string \<Rightarrow> cstr" where
  "ParseValue_str J object key =
     (if object = None then None
      else let son = j_GetObjectItem J object key in
           if \<not> j_IsString J son then None
           else case son of Some s \<Rightarrow> j_valuestring J s | None \<Rightarrow> None)"

definition ParseValue_obj :: "'j cjson \<Rightarrow> 'j option \<Rightarrow> string \<Rightarrow> 'j option \<Rightarrow> 'j option" where
  "ParseValue_obj J object key defaultValue =
     (if object = None then defaultValue
      else let son = j_GetObjectItem J object key in
           if j_IsArray J son \<or> j_IsObject J son then son else defaultValue)"

text \<open>\<open>errorCode = f(...); CHECK_IS_TRUE(errorCode == ERR_OK, errorCode)\<close>.\<close>

type_synonym 's parsed = "(errcode \<times> 's) option"

definition ok_then :: "'s parsed \<Rightarrow> ('s \<Rightarrow> 's parsed) \<Rightarrow> 's parsed" where
  "ok_then r k = do { (e, s) \<leftarrow> r; if e = ERR_OK then k s else Some (e, s) }"

section \<open>Permissions\<close>

datatype PermissionWhen = INUSE | ALWAYS

record PermissionTrans =
  pt_name :: string
  pt_desc :: string
  pt_when :: PermissionWhen

text \<open>
  \<open>strncpy_s\<close> into the fixed arrays of \<open>PermissionTrans\<close>, whose sizes \<open>nameLen\<close> and \<open>descLen\<close> come from
  the permission service's header, fails when the string and its NUL do not fit.
\<close>

definition SetReqPermission ::
    "'j cjson \<Rightarrow> (string \<Rightarrow> int) \<Rightarrow> nat \<Rightarrow> nat \<Rightarrow> 'j option \<Rightarrow> PermissionTrans option" where
  "SetReqPermission J perm nameLen descLen object =
     (if object = None then None
      else case (ParseValue_str J object ''name'', ParseValue_str J object ''reason'') of
        (Some name, Some desc) \<Rightarrow>
          if perm name \<noteq> 0 then None
          else if length name \<ge> nameLen \<or> length desc \<ge> descLen then None
          else (let usedSceneObject = ParseValue_obj J object ''usedScene'' None in
            case ParseValue_str J usedSceneObject ''when'' of
              None \<Rightarrow> None
            | Some w \<Rightarrow>
                if w = ''inuse'' then Some \<lparr>pt_name = name, pt_desc = desc, pt_when = INUSE\<rparr>
                else if w = ''always'' then Some \<lparr>pt_name = name, pt_desc = desc, pt_when = ALWAYS\<rparr>
                else None)
      | _ \<Rightarrow> None)"

fun those_perms :: "PermissionTrans option list \<Rightarrow> PermissionTrans list option" where
  "those_perms [] = Some []"
| "those_perms (p # ps) = do { x \<leftarrow> p; xs \<leftarrow> those_perms ps; Some (x # xs) }"

text \<open>The result carries the permissions on success; \<open>permNum\<close> is their number.\<close>

definition ParsePermissions ::
    "'j cjson \<Rightarrow> (string \<Rightarrow> int) \<Rightarrow> nat \<Rightarrow> nat \<Rightarrow> allocator \<Rightarrow> 'j option \<Rightarrow> errcode \<times> PermissionTrans list" where
  "ParsePermissions J perm nameLen descLen m object =
     (case object of
        None \<Rightarrow> (ERR_OK, [])
      | Some o' \<Rightarrow>
          if j_type J o' \<noteq> cJSON_Array then (ERR_INSTALL_FAILED_PARSE_PERMISSIONS_ERROR, [])
          else let permNum = j_GetArraySize J object in
            if permNum = 0 then (ERR_OK, [])
            else if \<not> m (Objects ''PermissionTrans'' (nat permNum))
            then (ERR_INSTALL_FAILED_PARSE_PERMISSIONS_ERROR, [])
            else (case those_perms (map (\<lambda>p. SetReqPermission J perm nameLen descLen (Some p)) (j_elems J object)) of
                None \<Rightarrow> (ERR_INSTALL_FAILED_PARSE_PERMISSIONS_ERROR, [])
              | Some ps \<Rightarrow> (ERR_OK, ps)))"

section \<open>An ability\<close>

type_synonym ability = "AbilityInfo \<times> AbilityRes"

definition ABILITY_TYPE_MAP :: "(string \<times> AbilityType) list" where
  "ABILITY_TYPE_MAP = [(''page'', PAGE), (''service'', SERVICE)]"

definition LAUNCH_MODE_MAP :: "(string \<times> LaunchMode) list" where
  "LAUNCH_MODE_MAP = [(''singleton'', SINGLETON), (''standard'', STANDARD)]"

definition ParseAbilityDesc :: "'j cjson \<Rightarrow> 'j option \<Rightarrow> nat \<Rightarrow> ability \<Rightarrow> ability parsed" where
  "ParseAbilityDesc J abilityObject index = (\<lambda>(a, r).
     if \<not> j_HasObjectItem J abilityObject ''description'' then Some (ERR_OK, (a, r))
     else let a = a\<lparr>ai_description := ParseValue_str J abilityObject ''description''\<rparr> in
       case ai_description a of
         None \<Rightarrow> Some (ERR_INSTALL_FAILED_PARSE_ABILITY_DESCRIPTION_ERROR, (a, r))
       | Some d \<Rightarrow>
           if StartWith (Some d) (Some DEFAULT_DESC_SETTING) then
             (let descId = ParseValue_int J abilityObject ABILITY_DES_ID (-1) in
              if descId < 0 then Some (ERR_INSTALL_FAILED_PARSE_ABILITY_DESCRIPTION_ERROR, (a, r))
              else Some (ERR_OK, (a, r\<lparr>ar_index := index, ar_descriptionId := nat descId\<rparr>)))
           else if length d > MAX_DECRIPTION_LEN
           then Some (ERR_INSTALL_FAILED_EXCEED_MAX_ABILITY_DESCRIPTION_LENGTH_ERROR, (a, r))
           else Some (ERR_OK, (a, r)))"

definition ParseAbilityIcon :: "'j cjson \<Rightarrow> 'j option \<Rightarrow> nat \<Rightarrow> ability \<Rightarrow> ability parsed" where
  "ParseAbilityIcon J abilityObject index = (\<lambda>(a, r).
     if \<not> j_HasObjectItem J abilityObject ''icon'' then Some (ERR_OK, (a, r))
     else let a = a\<lparr>ai_iconPath := ParseValue_str J abilityObject ''icon''\<rparr> in
       case ai_iconPath a of
         None \<Rightarrow> Some (ERR_INSTALL_FAILED_PARSE_ABILITY_ICONPATH_ERROR, (a, r))
       | Some d \<Rightarrow>
           if StartWith (Some d) (Some DEFAULT_ICON_SETTING_BEGIN) then
             (let iconId = ParseValue_int J abilityObject ICON_ID (-1) in
              if iconId < 0 then Some (ERR_INSTALL_FAILED_PARSE_ABILITY_ICONPATH_ERROR, (a, r))
              else Some (ERR_OK, (a, r\<lparr>ar_index := index, ar_iconId := nat iconId\<rparr>)))
           else Some (ERR_OK, (a, r)))"

definition ParseAbilityLabel :: "'j cjson \<Rightarrow> 'j option \<Rightarrow> nat \<Rightarrow> ability \<Rightarrow> ability parsed" where
  "ParseAbilityLabel J abilityObject index = (\<lambda>(a, r).
     if \<not> j_HasObjectItem J abilityObject ''label'' then Some (ERR_OK, (a, r))
     else let a = a\<lparr>ai_label := ParseValue_str J abilityObject ''label''\<rparr> in
       case ai_label a of
         None \<Rightarrow> Some (ERR_INSTALL_FAILED_PARSE_ABILITY_LABEL_ERROR, (a, r))
       | Some d \<Rightarrow>
           if StartWith (Some d) (Some DEFAULT_LABEL_SETTING) then
             (let labelId = ParseValue_int J abilityObject LABEL_ID (-1) in
              if labelId < 0 then Some (ERR_INSTALL_FAILED_PARSE_ABILITY_LABEL_ERROR, (a, r))
              else Some (ERR_OK, (a, r\<lparr>ar_index := index, ar_labelId := nat labelId\<rparr>)))
           else if length d > MAX_LABLE_LEN
           then Some (ERR_INSTALL_FAILED_EXCEED_MAX_ABILITY_LABEL_LENGTH_ERROR, (a, r))
           else Some (ERR_OK, (a, r)))"

definition ParseAbilityType :: "'j cjson \<Rightarrow> 'j option \<Rightarrow> AbilityInfo \<Rightarrow> errcode \<times> AbilityInfo" where
  "ParseAbilityType J abilityObjectItem a =
     (case ParseValue_str J abilityObjectItem ''type'' of
        None \<Rightarrow> (ERR_INSTALL_FAILED_PARSE_ABILITY_TYPE_ERROR, a)
      | Some t \<Rightarrow>
          (case List.find (\<lambda>item. fst item = t) ABILITY_TYPE_MAP of
             Some (_, v) \<Rightarrow> (ERR_OK, a\<lparr>ai_abilityType := v\<rparr>)
           | None \<Rightarrow> (ERR_OK, a\<lparr>ai_abilityType := UNKNOWN\<rparr>)))"

text \<open>The mode that was found is overwritten.\<close>

definition ParseAbilityLauchMode :: "'j cjson \<Rightarrow> 'j option \<Rightarrow> AbilityInfo \<Rightarrow> errcode \<times> AbilityInfo" where
  "ParseAbilityLauchMode J abilityObjectItem a =
     (if j_HasObjectItem J abilityObjectItem ''launchType'' then
        (case ParseValue_str J abilityObjectItem ''launchType'' of
           None \<Rightarrow> (ERR_INSTALL_FAILED_PARSE_ABILITY_LAUNCHTYPE_ERROR, a)
         | Some t \<Rightarrow>
             let a = (case List.find (\<lambda>item. fst item = t) LAUNCH_MODE_MAP of
                        Some (_, v) \<Rightarrow> a\<lparr>ai_launchMode := v\<rparr>
                      | None \<Rightarrow> a)
             in (ERR_OK, a\<lparr>ai_launchMode := SINGLETON\<rparr>))
      else (ERR_OK, a\<lparr>ai_launchMode := SINGLETON\<rparr>))"

definition ParseAbilityVisible :: "'j cjson \<Rightarrow> 'j option \<Rightarrow> AbilityInfo \<Rightarrow> errcode \<times> AbilityInfo" where
  "ParseAbilityVisible J abilityObjectItem a =
     (if j_HasObjectItem J abilityObjectItem ''visible'' then
        (let visibleObject = j_GetObjectItem J abilityObjectItem ''visible'' in
         if \<not> j_IsBool J visibleObject then (ERR_INSTALL_FAILED_PARSE_ABILITY_VISIBLE_ERROR, a)
         else (ERR_OK, a\<lparr>ai_isVisible := j_IsTrue J visibleObject\<rparr>))
      else (ERR_OK, a\<lparr>ai_isVisible := False\<rparr>))"

text \<open>
  The loop copies each name into an array of \<open>MAX_SYSCAP_NAME_LEN\<close> characters; the names it has
  written are the accumulator. A skipped entry keeps what the allocator left there, written as the
  empty string. The first result is whether every copy fitted.
\<close>

fun device_cap_loop :: "'j cjson \<Rightarrow> 'j option list \<Rightarrow> string list \<Rightarrow> (bool \<times> string list) option" where
  "device_cap_loop J [] names = Some (True, names)"
| "device_cap_loop J (deviceCapObject # os) names =
     (case deviceCapObject of
        None \<Rightarrow> device_cap_loop J os (names @ [''''])
      | Some c \<Rightarrow> do {
          v \<leftarrow> j_valuestring J c;
          if length v \<ge> MAX_SYSCAP_NAME_LEN then Some (False, names)
          else device_cap_loop J os (names @ [v]) })"

definition ParseAbilityDeviceCap :: "'j cjson \<Rightarrow> allocator \<Rightarrow> 'j option \<Rightarrow> AbilityInfo \<Rightarrow> AbilityInfo parsed" where
  "ParseAbilityDeviceCap J m abilityObjectItem a =
     (if j_HasObjectItem J abilityObjectItem ''deviceCapability'' then
        (let object = ParseValue_obj J abilityObjectItem ''deviceCapability'' None in
         if \<not> j_IsArray J object then Some (ERR_INSTALL_FAILED_PARSE_DEVICECAP_ERROR, a)
         else let deviceCapSize = j_GetArraySize J object in
           if deviceCapSize = 0
           then Some (ERR_OK, a\<lparr>ai_deviceCap := (ai_deviceCap a)\<lparr>sc_systemCapNum := 0\<rparr>\<rparr>)
           else if \<not> m (Objects ''SystemCapName'' (nat deviceCapSize))
           then Some (ERR_INSTALL_FAILED_PARSE_DEVICECAP_ERROR,
                  a\<lparr>ai_deviceCap := \<lparr>sc_systemCapNum = deviceCapSize, sc_systemCapName = None\<rparr>\<rparr>)
           else do {
             (fitted, names) \<leftarrow> device_cap_loop J
                (map (\<lambda>i. j_GetArrayItem J object (int i)) [0..<nat deviceCapSize]) [];
             if fitted
             then Some (ERR_OK, a\<lparr>ai_deviceCap :=
                    \<lparr>sc_systemCapNum = deviceCapSize, sc_systemCapName = Some names\<rparr>\<rparr>)
             else Some (ERR_INSTALL_FAILED_PARSE_DEVICECAP_ERROR,
                    a\<lparr>ai_deviceCap := \<lparr>sc_systemCapNum = 0, sc_systemCapName = None\<rparr>\<rparr>) })
      else Some (ERR_OK, a))"

definition on_ability :: "(AbilityInfo \<Rightarrow> AbilityInfo parsed) \<Rightarrow> ability \<Rightarrow> ability parsed" where
  "on_ability f = (\<lambda>(a, r). map_option (\<lambda>(e, a). (e, (a, r))) (f a))"

definition ParsePerAbilityInfo :: "'j cjson \<Rightarrow> allocator \<Rightarrow> 'j option \<Rightarrow> nat \<Rightarrow> ability \<Rightarrow> ability parsed" where
  "ParsePerAbilityInfo J m item index = (\<lambda>(a, r).
     let a = a\<lparr>ai_name := ParseValue_str J item ''name''\<rparr> in
     case ai_name a of
       None \<Rightarrow> Some (ERR_INSTALL_FAILED_PARSE_ABILITY_NAME_ERROR, (a, r))
     | Some n \<Rightarrow>
         if length n > MAX_ABILITY_NAME_LEN
         then Some (ERR_INSTALL_FAILED_EXCEED_MAX_ABILITYNAME_LENGTH_ERROR, (a, r))
         else ok_then (ParseAbilityDesc J item index (a, r)) (\<lambda>s.
              ok_then (ParseAbilityIcon J item index s) (\<lambda>s.
              ok_then (ParseAbilityLabel J item index s) (\<lambda>s.
              ok_then (on_ability (\<lambda>a. Some (ParseAbilityType J item a)) s) (\<lambda>s.
              ok_then (on_ability (\<lambda>a. Some (ParseAbilityLauchMode J item a)) s) (\<lambda>s.
              ok_then (on_ability (\<lambda>a. Some (ParseAbilityVisible J item a)) s) (\<lambda>s.
              on_ability (ParseAbilityDeviceCap J m item) s)))))))"

section \<open>The capabilities the device offers\<close>

fun find_cap :: "string \<Rightarrow> string list \<Rightarrow> bool" where
  "find_cap name [] = False"
| "find_cap name (c # cs) = (if name = c then True else find_cap name cs)"

fun ability_caps_loop :: "string list \<Rightarrow> string list \<Rightarrow> bool" where
  "ability_caps_loop sysCaps [] = True"
| "ability_caps_loop sysCaps (n # ns) = (if \<not> find_cap n sysCaps then False else ability_caps_loop sysCaps ns)"

definition CheckAbilityCapIsValid :: "AbilityInfo \<Rightarrow> string list \<Rightarrow> bool" where
  "CheckAbilityCapIsValid a sysCaps =
     ability_caps_loop sysCaps
       (take (nat (sc_systemCapNum (ai_deviceCap a))) (the (sc_systemCapName (ai_deviceCap a))))"

fun device_caps_loop :: "string list \<Rightarrow> AbilityInfo list \<Rightarrow> errcode" where
  "device_caps_loop sysCaps [] = ERR_OK"
| "device_caps_loop sysCaps (a # as) =
     (if sc_systemCapNum (ai_deviceCap a) = 0 \<or> sc_systemCapName (ai_deviceCap a) = None
      then device_caps_loop sysCaps as
      else if \<not> CheckAbilityCapIsValid a sysCaps then ERR_INSTALL_FAILED_INTERNAL_ERROR
      else device_caps_loop sysCaps as)"

definition CheckDeviceCapIsValid :: "errcode \<times> string list \<Rightarrow> BundleProfile \<Rightarrow> errcode" where
  "CheckDeviceCapIsValid caps p =
     (case bp_abilityInfos p of
        None \<Rightarrow> ERR_INSTALL_FAILED_INTERNAL_ERROR
      | Some as \<Rightarrow>
          if bp_numOfAbility p = 0 then ERR_INSTALL_FAILED_INTERNAL_ERROR
          else if fst caps \<noteq> ERR_OK then ERR_INSTALL_FAILED_INTERNAL_ERROR
          else device_caps_loop (snd caps) (take (bp_numOfAbility p) as))"

section \<open>The abilities of the module\<close>

type_synonym profile = "BundleProfile \<times> BundleRes"

text \<open>
  The loop writes \<open>abilityInfos[i]\<close> and \<open>abilityRes[i]\<close>: \<open>put_ability\<close> is the two assignments, and an index
  past the arrays is undefined.
\<close>

definition get_ability :: "nat \<Rightarrow> profile \<Rightarrow> ability option" where
  "get_ability i = (\<lambda>(p, r). do {
     as \<leftarrow> bp_abilityInfos p; rs \<leftarrow> br_abilityRes r;
     if i < length as \<and> i < length rs then Some (as ! i, rs ! i) else None })"

definition put_ability :: "nat \<Rightarrow> ability \<Rightarrow> profile \<Rightarrow> profile" where
  "put_ability i ar = (\<lambda>(p, r).
     (p\<lparr>bp_abilityInfos := map_option (\<lambda>as. as[i := fst ar]) (bp_abilityInfos p)\<rparr>,
      r\<lparr>br_abilityRes := map_option (\<lambda>rs. rs[i := snd ar]) (br_abilityRes r)\<rparr>))"

fun abilities_loop :: "'j cjson \<Rightarrow> allocator \<Rightarrow> 'j list \<Rightarrow> nat \<Rightarrow> profile \<Rightarrow> profile parsed" where
  "abilities_loop J m [] i s = Some (ERR_OK, s)"
| "abilities_loop J m (object # os) i s = do {
     (a, r) \<leftarrow> get_ability i s;
     let a = a\<lparr>ai_moduleName := mi_moduleName (bp_moduleInfo (fst s)), ai_bundleName := bp_bundleName (fst s)\<rparr>;
     (e, ar) \<leftarrow> ParsePerAbilityInfo J m (Some object) i (a, r);
     let s = put_ability i ar s;
     if e \<noteq> ERR_OK then Some (e, s) else abilities_loop J m os (i + 1) s }"

definition ParseAllAbilityInfo ::
    "'j cjson \<Rightarrow> allocator \<Rightarrow> errcode \<times> string list \<Rightarrow> 'j option \<Rightarrow> profile \<Rightarrow> profile parsed" where
  "ParseAllAbilityInfo J m caps abilityObjects = (\<lambda>(p, r).
     let n = nat (j_GetArraySize J abilityObjects);
         p = p\<lparr>bp_numOfAbility := n\<rparr>;
         r = r\<lparr>br_totalNumOfAbilityRes := n\<rparr>
     in if n = 0 then Some (ERR_OK, (p, r))
        else if \<not> m (Objects ''AbilityRes'' n)
        then Some (ERR_INSTALL_FAILED_PARSE_ABILITIES_ERROR, (p, r\<lparr>br_abilityRes := None\<rparr>))
        else let r = r\<lparr>br_abilityRes := Some (replicate n zero_AbilityRes)\<rparr> in
          if \<not> m (Objects ''AbilityInfo'' n)
          then Some (ERR_INSTALL_FAILED_PARSE_ABILITIES_ERROR, (p\<lparr>bp_abilityInfos := None\<rparr>, r))
          else let p = p\<lparr>bp_abilityInfos := Some (replicate n zero_AbilityInfo)\<rparr> in
            ok_then (abilities_loop J m (j_elems J abilityObjects) 0 (p, r)) (\<lambda>s.
              if CheckDeviceCapIsValid caps (fst s) \<noteq> ERR_OK
              then Some (ERR_INSTALL_FAILED_PARSE_DEVICECAP_ERROR, s)
              else Some (ERR_OK, s)))"

text \<open>The label and icon of the first ability are the profile's.\<close>

definition parse_first_label :: "'j cjson \<Rightarrow> 'j option \<Rightarrow> profile \<Rightarrow> profile parsed" where
  "parse_first_label J first = (\<lambda>(p, r).
     if \<not> j_HasObjectItem J first ''label'' then Some (ERR_OK, (p, r))
     else let p = p\<lparr>bp_label := ParseValue_str J first ''label''\<rparr> in
       case bp_label p of
         None \<Rightarrow> Some (ERR_INSTALL_FAILED_PARSE_ABILITY_LABEL_ERROR, (p, r))
       | Some l \<Rightarrow>
           if length l > MAX_LABLE_LEN then Some (ERR_INSTALL_FAILED_EXCEED_MAX_LABEL_LENGTH_ERROR, (p, r))
           else Some (ERR_OK, (p, r)))"

definition parse_first_icon :: "'j cjson \<Rightarrow> 'j option \<Rightarrow> profile \<Rightarrow> profile parsed" where
  "parse_first_icon J first = (\<lambda>(p, r).
     if \<not> j_HasObjectItem J first ''icon'' then Some (ERR_OK, (p, r))
     else let p = p\<lparr>bp_iconPath := ParseValue_str J first ''icon''\<rparr> in
       if bp_iconPath p = None then Some (ERR_INSTALL_FAILED_PARSE_ABILITY_ICONPATH_ERROR, (p, r))
       else Some (ERR_OK, (p, r)))"

definition ParseAbilityInfos ::
    "'j cjson \<Rightarrow> allocator \<Rightarrow> errcode \<times> string list \<Rightarrow> 'j option \<Rightarrow> profile \<Rightarrow> profile parsed" where
  "ParseAbilityInfos J m caps moduleObject s =
     (let abilityObjects = ParseValue_obj J moduleObject ''abilities'' None in
      if \<not> j_IsArray J abilityObjects then Some (ERR_INSTALL_FAILED_PARSE_ABILITIES_ERROR, s)
      else if j_GetArraySize J abilityObjects = 0 then Some (ERR_OK, ((fst s)\<lparr>bp_numOfAbility := 0\<rparr>, snd s))
      else let first = j_GetArrayItem J abilityObjects 0 in
        ok_then (parse_first_label J first s) (\<lambda>s.
        ok_then (parse_first_icon J first s) (\<lambda>s.
        ParseAllAbilityInfo J m caps abilityObjects s)))"

section \<open>The module\<close>

definition on_module :: "(ModuleInfo \<Rightarrow> ModuleInfo) \<Rightarrow> profile \<Rightarrow> profile" where
  "on_module f = (\<lambda>(p, r). (p\<lparr>bp_moduleInfo := f (bp_moduleInfo p)\<rparr>, r))"

definition ParseModuleDesc :: "'j cjson \<Rightarrow> 'j option \<Rightarrow> profile \<Rightarrow> profile parsed" where
  "ParseModuleDesc J moduleObject s =
     (if \<not> j_HasObjectItem J moduleObject ''description'' then Some (ERR_OK, s)
      else let d = ParseValue_str J moduleObject ''description'';
               s = on_module (\<lambda>mi. mi\<lparr>mi_description := d\<rparr>) s in
        case d of
          None \<Rightarrow> Some (ERR_INSTALL_FAILED_PARSE_MODULE_DESCRIPTION_ERROR, s)
        | Some t \<Rightarrow>
            if StartWith d (Some DEFAULT_DESC_SETTING) then
              (let descId = ParseValue_int J moduleObject MODULE_DES_ID (-1) in
               if descId < 0 then Some (ERR_INSTALL_FAILED_PARSE_MODULE_DESCRIPTION_ERROR, s)
               else Some (ERR_OK, (fst s, (snd s)\<lparr>br_moduleDescriptionId := nat descId\<rparr>)))
            else if length t > MAX_DECRIPTION_LEN
            then Some (ERR_INSTALL_FAILED_PARSE_MODULE_DESCRIPTION_ERROR, s)
            else Some (ERR_OK, s))"

text \<open>The result of the loop: its error code, whether the device's type was among the items, the array.\<close>

fun device_type_loop ::
    "'j cjson \<Rightarrow> 'j list \<Rightarrow> nat \<Rightarrow> bool \<Rightarrow> cstr list \<Rightarrow> (errcode \<times> bool \<times> cstr list) option" where
  "device_type_loop J [] i isMatched ds = Some (ERR_OK, isMatched, ds)"
| "device_type_loop J (item # os) i isMatched ds =
     (if j_type J item \<noteq> cJSON_String then Some (ERR_INSTALL_FAILED_PARSE_DEVICETYPE_ERROR, isMatched, ds)
      else let isMatched = (if j_valuestring J item = Some DEFAULT_DEVICE_TYPE then True else isMatched) in
        if i < length ds
        then device_type_loop J os (i + 1) isMatched (ds[i := j_valuestring J item])
        else None)"

definition ParseDeviceType :: "'j cjson \<Rightarrow> 'j option \<Rightarrow> profile \<Rightarrow> profile parsed" where
  "ParseDeviceType J moduleObject s =
     (let object = ParseValue_obj J moduleObject ''deviceType'' None in
      if \<not> (j_IsArray J object \<and> j_GetArraySize J object \<le> int DEVICE_TYPE_SIZE)
      then Some (ERR_INSTALL_FAILED_PARSE_DEVICETYPE_ERROR, s)
      else do {
        (e, isMatched, ds) \<leftarrow>
          device_type_loop J (j_elems J object) 0 False (mi_deviceType (bp_moduleInfo (fst s)));
        let s = on_module (\<lambda>mi. mi\<lparr>mi_deviceType := ds\<rparr>) s;
        if e \<noteq> ERR_OK then Some (e, s)
        else if \<not> isMatched then Some (ERR_INSTALL_FAILED_PARSE_DEVICETYPE_ERROR, s)
        else Some (ERR_OK, s) })"

text \<open>One entry of \<open>customizeData\<close>.\<close>

definition parse_MetaData :: "'j cjson \<Rightarrow> 'j option \<Rightarrow> errcode \<times> MetaData" where
  "parse_MetaData J item =
     (let name = (if j_HasObjectItem J item ''name'' then ParseValue_str J item ''name'' else None);
          d = zero_MetaData\<lparr>md_name := name\<rparr> in
      if j_HasObjectItem J item ''name'' \<and> name = None then (ERR_INSTALL_FAILED_PARSE_METADATA_ERROR, d)
      else if j_HasObjectItem J item ''name'' \<and> length (the name) > MAX_METADATA_NAME
      then (ERR_INSTALL_FAILED_EXCEED_MAX_METADATA_NAME_LENGTH_ERROR, d)
      else let val = (if j_HasObjectItem J item ''value'' then ParseValue_str J item ''value'' else None);
               d = d\<lparr>md_value := val\<rparr> in
      if j_HasObjectItem J item ''value'' \<and> val = None then (ERR_INSTALL_FAILED_PARSE_METADATA_ERROR, d)
      else if j_HasObjectItem J item ''value'' \<and> length (the val) > MAX_METADATA_VALUE
      then (ERR_INSTALL_FAILED_EXCEED_MAX_METADATA_VALUE_LENGTH_ERROR, d)
      else let ext = (if j_HasObjectItem J item ''extra'' then ParseValue_str J item ''extra'' else None);
               d = d\<lparr>md_extra := ext\<rparr> in
      if j_HasObjectItem J item ''extra'' \<and> ext = None then (ERR_INSTALL_FAILED_PARSE_METADATA_ERROR, d)
      else (ERR_OK, d))"

fun metadata_loop ::
    "'j cjson \<Rightarrow> allocator \<Rightarrow> 'j list \<Rightarrow> nat \<Rightarrow> MetaData option list \<Rightarrow> (errcode \<times> MetaData option list) option" where
  "metadata_loop J m [] i ms = Some (ERR_OK, ms)"
| "metadata_loop J m (objectItem # os) i ms =
     (if i \<ge> length ms then None
      else if \<not> m (Objects ''MetaData'' 1)
      then Some (ERR_INSTALL_FAILED_PARSE_METADATA_ERROR, ms[i := None])
      else let (e, d) = parse_MetaData J (Some objectItem); ms = ms[i := Some d] in
        if e \<noteq> ERR_OK then Some (e, ms) else metadata_loop J m os (i + 1) ms)"

definition is_null_item :: "'j cjson \<Rightarrow> 'j option \<Rightarrow> bool" where
  "is_null_item J p = (case p of None \<Rightarrow> True | Some j \<Rightarrow> j_type J j = cJSON_NULL)"

definition ParseModuleMetaData :: "'j cjson \<Rightarrow> allocator \<Rightarrow> 'j option \<Rightarrow> profile \<Rightarrow> profile parsed" where
  "ParseModuleMetaData J m moduleObject s =
     (let object = ParseValue_obj J moduleObject ''metaData'' None in
      if is_null_item J object then Some (ERR_OK, s)
      else let object = j_GetObjectItem J object ''customizeData'' in
      if is_null_item J object then Some (ERR_OK, s)
      else if \<not> (j_IsArray J object \<and> j_GetArraySize J object \<le> int METADATA_SIZE)
      then Some (ERR_INSTALL_FAILED_PARSE_METADATA_ERROR, s)
      else do {
        (e, ms) \<leftarrow> metadata_loop J m (j_elems J object) 0 (mi_metaData (bp_moduleInfo (fst s)));
        Some (e, on_module (\<lambda>mi. mi\<lparr>mi_metaData := ms\<rparr>) s) })"

text \<open>The distribution part of the module: \<open>deliveryWithInstall\<close>, \<open>moduleName\<close>, \<open>moduleType\<close>.\<close>

definition parse_distro :: "'j cjson \<Rightarrow> 'j option \<Rightarrow> profile \<Rightarrow> profile parsed" where
  "parse_distro J moduleObject s =
     (let object = ParseValue_obj J moduleObject ''distro'' None in
      if object = None then Some (ERR_INSTALL_FAILED_PARSE_DISTRO_ERROR, s)
      else let deliveryObject = j_GetObjectItem J object ''deliveryWithInstall'' in
      if \<not> j_IsBool J deliveryObject then Some (ERR_INSTALL_FAILED_PARSE_DISTRO_DELIVERY_ERROR, s)
      else let s = on_module (\<lambda>mi. mi\<lparr>mi_isDeliveryInstall := j_IsTrue J deliveryObject\<rparr>) s;
               moduleName = ParseValue_str J object ''moduleName'';
               s = on_module (\<lambda>mi. mi\<lparr>mi_moduleName := moduleName\<rparr>) s in
      (case moduleName of
        None \<Rightarrow> Some (ERR_INSTALL_FAILED_PARSE_DISTRO_MODULENAME_ERROR, s)
      | Some n \<Rightarrow>
          if length n > MAX_MODULENAME_LEN
          then Some (ERR_INSTALL_FAILED_EXCEED_MAX_MODULENAME_LENGTH_ERROR, s)
          else if contains n ''../'' then Some (ERR_INSTALL_FAILED_PARSE_INVALID_MODULENAME, s)
          else let moduleType = ParseValue_str J object ''moduleType'';
                   s = on_module (\<lambda>mi. mi\<lparr>mi_moduleType := moduleType\<rparr>) s in
            (case moduleType of
              None \<Rightarrow> Some (ERR_INSTALL_FAILED_PARSE_DISTRO_MODULETYPE_ERROR, s)
            | Some t \<Rightarrow>
                if \<not> (t = MODULE_ENTRY \<or> t = MODULE_FEATURE)
                then Some (ERR_INSTALL_FAILED_PARSE_DISTRO_MODULETYPE_ERROR, s)
                else Some (ERR_OK, s))))"

definition parse_module_name :: "'j cjson \<Rightarrow> 'j option \<Rightarrow> profile \<Rightarrow> profile parsed" where
  "parse_module_name J moduleObject s =
     (if \<not> j_HasObjectItem J moduleObject ''name'' then Some (ERR_OK, s)
      else let name = ParseValue_str J moduleObject ''name'';
               s = on_module (\<lambda>mi. mi\<lparr>mi_name := name\<rparr>) s in
        case name of
          None \<Rightarrow> Some (ERR_INSTALL_FAILED_PARSE_MODULENAME_ERROR, s)
        | Some n \<Rightarrow>
            if length n > MAX_NAME_LEN then Some (ERR_INSTALL_FAILED_PARSE_MODULENAME_ERROR, s)
            else Some (ERR_OK, s))"

definition parse_js :: "'j cjson \<Rightarrow> 'j option \<Rightarrow> profile \<Rightarrow> profile" where
  "parse_js J moduleObject = (\<lambda>(p, r).
     let object = ParseValue_obj J moduleObject ''js'' None in
     (p\<lparr>bp_isNativeApp := (object = None \<or> (j_IsArray J object \<and> j_GetArraySize J object = 0))\<rparr>, r))"

definition ParseModuleInfo ::
    "'j cjson \<Rightarrow> allocator \<Rightarrow> errcode \<times> string list \<Rightarrow> 'j option \<Rightarrow> profile \<Rightarrow> profile parsed" where
  "ParseModuleInfo J m caps moduleObject s =
     ok_then (parse_module_name J moduleObject s) (\<lambda>s.
     ok_then (ParseModuleDesc J moduleObject s) (\<lambda>s.
     ok_then (ParseDeviceType J moduleObject s) (\<lambda>s.
     ok_then (parse_distro J moduleObject s) (\<lambda>s.
     ok_then (ParseModuleMetaData J m moduleObject s) (\<lambda>s.
     ParseAbilityInfos J m caps moduleObject (parse_js J moduleObject s))))))"

section \<open>The application\<close>

definition ParseDeviceConfig :: "'j cjson \<Rightarrow> 'j option \<Rightarrow> profile \<Rightarrow> profile parsed" where
  "ParseDeviceConfig J configObject = (\<lambda>(p, r).
     if is_null_item J configObject then Some (ERR_OK, (p\<lparr>bp_isKeepAlive := False\<rparr>, r))
     else if \<not> j_IsObject J configObject then Some (ERR_INSTALL_FAILED_PARSE_DEVICE_CONFIG_ERROR, (p, r))
     else let defaultObject = (if j_HasObjectItem J configObject ''default''
                               then ParseValue_obj J configObject ''default'' None else None) in
     if j_HasObjectItem J configObject ''default'' \<and> \<not> j_IsObject J defaultObject
     then Some (ERR_INSTALL_FAILED_PARSE_DEVICE_CONFIG_ERROR, (p, r))
     else let smartVisionObject = (if j_HasObjectItem J configObject DEFAULT_DEVICE_TYPE
                                   then ParseValue_obj J configObject DEFAULT_DEVICE_TYPE None else None) in
     if j_HasObjectItem J configObject DEFAULT_DEVICE_TYPE \<and> \<not> j_IsObject J smartVisionObject
     then Some (ERR_INSTALL_FAILED_PARSE_DEVICE_CONFIG_ERROR, (p, r))
     else let object = (if j_HasObjectItem J defaultObject ''keepAlive''
                        then j_GetObjectItem J defaultObject ''keepAlive'' else None);
              object = (if j_HasObjectItem J smartVisionObject ''keepAlive''
                        then j_GetObjectItem J smartVisionObject ''keepAlive'' else object) in
     if object \<noteq> None \<and> \<not> j_IsBool J object then Some (ERR_INSTALL_FAILED_PARSE_KEEPALIVE_ERROR, (p, r))
     else Some (ERR_OK, (p\<lparr>bp_isKeepAlive := (if object = None then False else j_IsTrue J object)\<rparr>, r)))"

definition parse_bundleName :: "'j cjson \<Rightarrow> 'j option \<Rightarrow> profile \<Rightarrow> profile parsed" where
  "parse_bundleName J appObject = (\<lambda>(p, r).
     let name = ParseValue_str J appObject ''bundleName''; p = p\<lparr>bp_bundleName := name\<rparr> in
     case name of
       None \<Rightarrow> Some (ERR_INSTALL_FAILED_PARSE_BUNDLENAME_ERROR, (p, r))
     | Some n \<Rightarrow>
         if \<not> (length n \<ge> MIN_BUNDLE_NAME_LEN \<and> length n \<le> MAX_BUNDLE_NAME_LEN)
         then Some (ERR_INSTALL_FAILED_PARSE_INVALID_BUNDLENAME_LENGTH, (p, r))
         else if \<not> CheckBundleNameIsValid name
         then Some (ERR_INSTALL_FAILED_PARSE_INVALID_BUNDLENAME, (p, r))
         else Some (ERR_OK, (p, r)))"

definition parse_vendor :: "'j cjson \<Rightarrow> 'j option \<Rightarrow> profile \<Rightarrow> profile parsed" where
  "parse_vendor J appObject = (\<lambda>(p, r).
     if \<not> j_HasObjectItem J appObject ''vendor'' then Some (ERR_OK, (p, r))
     else let v = ParseValue_str J appObject ''vendor''; p = p\<lparr>bp_vendor := v\<rparr> in
       case v of
         None \<Rightarrow> Some (ERR_INSTALL_FAILED_PARSE_VENDOR_ERROR, (p, r))
       | Some t \<Rightarrow>
           if length t > MAX_VENDOR_LEN
           then Some (ERR_INSTALL_FAILED_EXCEED_MAX_VENDOR_LENGTH_ERROR, (p, r))
           else Some (ERR_OK, (p, r)))"

text \<open>\<open>versionCode\<close> is a \<open>uint32_t\<close>: the default \<open>-1\<close> wraps, and the test that it is not negative holds.\<close>

definition parse_version :: "'j cjson \<Rightarrow> 'j option \<Rightarrow> profile \<Rightarrow> profile parsed" where
  "parse_version J appObject = (\<lambda>(p, r).
     let object = ParseValue_obj J appObject ''version'' None;
         v = ParseValue_str J object ''name''; p = p\<lparr>bp_versionName := v\<rparr> in
     case v of
       None \<Rightarrow> Some (ERR_INSTALL_FAILED_PARSE_VERSIONNAME_ERROR, (p, r))
     | Some t \<Rightarrow>
         if length t > MAX_VERSION_NAME_LEN
         then Some (ERR_INSTALL_FAILED_EXCEED_MAX_VERSIONNAME_LENGTH_ERROR, (p, r))
         else let p = p\<lparr>bp_versionCode := word_of_int (ParseValue_int J object ''code'' (-1))\<rparr> in
           if \<not> bp_versionCode p \<ge> 0 then Some (ERR_INSTALL_FAILED_PARSE_VERSIONCODE_ERROR, (p, r))
           else Some (ERR_OK, (p, r)))"

definition parse_apiVersion :: "'j cjson \<Rightarrow> 'j option \<Rightarrow> profile \<Rightarrow> profile parsed" where
  "parse_apiVersion J appObject = (\<lambda>(p, r).
     let object = ParseValue_obj J appObject ''apiVersion'' None in
     if object = None then Some (ERR_INSTALL_FAILED_PARSE_API_VERSION_ERROR, (p, r))
     else let p = p\<lparr>bp_minApiVersion := ParseValue_int J object ''compatible'' (-1)\<rparr> in
     if \<not> bp_minApiVersion p \<ge> 0 then Some (ERR_INSTALL_FAILED_PARSE_API_VERSION_ERROR, (p, r))
     else if j_HasObjectItem J object ''target'' then
       (let p = p\<lparr>bp_maxApiVersion := ParseValue_int J object ''target'' (-1)\<rparr> in
        if \<not> bp_maxApiVersion p \<ge> bp_minApiVersion p
        then Some (ERR_INSTALL_FAILED_PARSE_API_VERSION_ERROR, (p, r))
        else Some (ERR_OK, (p, r)))
     else Some (ERR_OK, (p, r)))"

definition ParseJsonInfo ::
    "'j cjson \<Rightarrow> allocator \<Rightarrow> errcode \<times> string list \<Rightarrow> 'j option \<Rightarrow> 'j option \<Rightarrow> 'j option \<Rightarrow> profile \<Rightarrow> profile parsed" where
  "ParseJsonInfo J m caps appObject configObject moduleObject s =
     ok_then (parse_bundleName J appObject s) (\<lambda>s.
     ok_then (parse_vendor J appObject s) (\<lambda>s.
     ok_then (parse_version J appObject s) (\<lambda>s.
     ok_then (parse_apiVersion J appObject s) (\<lambda>s.
     ok_then (ParseDeviceConfig J configObject s) (\<lambda>s.
     ParseModuleInfo J m caps moduleObject s)))))"

text \<open>\<open>FREE_BUNDLE_PROFILE\<close>: the array of abilities and the metadata the profile owns.\<close>

definition FREE_BUNDLE_PROFILE :: "BundleProfile \<Rightarrow> BundleProfile" where
  "FREE_BUNDLE_PROFILE p =
     p\<lparr>bp_abilityInfos := None,
       bp_moduleInfo := (bp_moduleInfo p)\<lparr>mi_metaData :=
         map (\<lambda>_. None) (take METADATA_SIZE (mi_metaData (bp_moduleInfo p))) @
         drop METADATA_SIZE (mi_metaData (bp_moduleInfo p))\<rparr>\<rparr>"

section \<open>What a parse that succeeds has established\<close>

text \<open>Each step that succeeds leaves the structures as an explicit update, under the conditions it checked.\<close>

named_theorems parse_ok \<open>effect of the parsing steps that succeed\<close>

lemma ok_then_OK:
  "ok_then r k = Some (ERR_OK, s') \<longleftrightarrow> (\<exists>s. r = Some (ERR_OK, s) \<and> k s = Some (ERR_OK, s'))"
  by (auto simp: ok_then_def bind_Some_iff split: if_splits)

lemma ok_then_None:
  "ok_then r k = None \<longleftrightarrow> r = None \<or> (\<exists>s. r = Some (ERR_OK, s) \<and> k s = None)"
  by (cases r) (auto simp: ok_then_def split: if_splits)

lemma parse_bundleName_OK [parse_ok]:
  "parse_bundleName J app (p, r) = Some (ERR_OK, s') \<Longrightarrow>
   \<exists>n. s' = (p\<lparr>bp_bundleName := Some n\<rparr>, r) \<and> dotted_name n \<and> MIN_BUNDLE_NAME_LEN \<le> length n \<and>
       length n \<le> MAX_BUNDLE_NAME_LEN"
  by (auto simp: parse_bundleName_def Let_def CheckBundleNameIsValid_iff split: option.splits if_splits)

lemma parse_vendor_OK [parse_ok]:
  "parse_vendor J app (p, r) = Some (ERR_OK, s') \<Longrightarrow>
   s' = (p, r) \<or> (\<exists>v. s' = (p\<lparr>bp_vendor := Some v\<rparr>, r) \<and> length v \<le> MAX_VENDOR_LEN)"
  by (auto simp: parse_vendor_def Let_def split: option.splits if_splits)

lemma parse_version_OK [parse_ok]:
  "parse_version J app (p, r) = Some (ERR_OK, s') \<Longrightarrow>
   \<exists>v c. s' = (p\<lparr>bp_versionName := Some v, bp_versionCode := c\<rparr>, r) \<and> length v \<le> MAX_VERSION_NAME_LEN"
  by (auto simp: parse_version_def Let_def split: option.splits if_splits)

lemma parse_apiVersion_OK [parse_ok]:
  "parse_apiVersion J app (p, r) = Some (ERR_OK, s') \<Longrightarrow>
   \<exists>lo. 0 \<le> lo \<and> (s' = (p\<lparr>bp_minApiVersion := lo\<rparr>, r) \<or>
       (\<exists>hi. lo \<le> hi \<and> s' = (p\<lparr>bp_minApiVersion := lo, bp_maxApiVersion := hi\<rparr>, r)))"
  by (auto simp: parse_apiVersion_def Let_def split: option.splits if_splits)

lemma ParseDeviceConfig_OK [parse_ok]:
  "ParseDeviceConfig J cfg (p, r) = Some (ERR_OK, s') \<Longrightarrow> \<exists>k. s' = (p\<lparr>bp_isKeepAlive := k\<rparr>, r)"
  by (auto simp: ParseDeviceConfig_def Let_def split: if_splits)

lemma parse_module_name_OK [parse_ok]:
  "parse_module_name J mo s = Some (ERR_OK, s') \<Longrightarrow>
   s' = s \<or> (\<exists>n. s' = on_module (\<lambda>mi. mi\<lparr>mi_name := Some n\<rparr>) s \<and> length n \<le> MAX_NAME_LEN)"
  by (auto simp: parse_module_name_def Let_def split: option.splits if_splits)

lemma ParseModuleDesc_OK [parse_ok]:
  "ParseModuleDesc J mo s = Some (ERR_OK, s') \<Longrightarrow>
   s' = s \<or> (\<exists>d. s' = on_module (\<lambda>mi. mi\<lparr>mi_description := Some d\<rparr>) s) \<or>
   (\<exists>d k. s' = (fst (on_module (\<lambda>mi. mi\<lparr>mi_description := Some d\<rparr>) s),
                         (snd s)\<lparr>br_moduleDescriptionId := k\<rparr>))"
  by (cases s) (auto simp: ParseModuleDesc_def Let_def on_module_def split: option.splits if_splits)

lemma parse_distro_OK [parse_ok]:
  "parse_distro J mo s = Some (ERR_OK, s') \<Longrightarrow>
   \<exists>b n t. s' = on_module (\<lambda>mi. mi\<lparr>mi_isDeliveryInstall := b, mi_moduleName := Some n, mi_moduleType := Some t\<rparr>) s \<and>
     length n \<le> MAX_MODULENAME_LEN \<and> \<not> contains n ''../'' \<and> (t = MODULE_ENTRY \<or> t = MODULE_FEATURE)"
  by (cases s) (auto simp: parse_distro_def Let_def on_module_def split: option.splits if_splits;
      (intro exI conjI, rule refl, simp_all))

text \<open>The loop over the device types keeps the array's length, stays inside it, and puts the items in order.\<close>

lemma device_type_loop_OK:
  "device_type_loop J os i b ds = Some (ERR_OK, b', ds') \<Longrightarrow>
     length ds' = length ds \<and> take i ds' = take i ds \<and>
     (b' \<longleftrightarrow> b \<or> (\<exists>j \<in> set os. j_valuestring J j = Some DEFAULT_DEVICE_TYPE)) \<and>
     (os = [] \<or> i + length os \<le> length ds) \<and>
     (\<forall>k < length os. ds' ! (i + k) = j_valuestring J (os ! k))"
proof (induction J os i b ds rule: device_type_loop.induct)
  case (1 J i b ds)
  then show ?case by auto
next
  case (2 J item os i b ds)
  let ?b = "if j_valuestring J item = Some DEFAULT_DEVICE_TYPE then True else b"
  let ?ds = "ds[i := j_valuestring J item]"
  from "2.prems" have t: "\<not> j_type J item \<noteq> cJSON_String" and i: "i < length ds"
    and rec: "device_type_loop J os (i + 1) ?b ?ds = Some (ERR_OK, b', ds')"
    by (auto simp: Let_def split: if_splits)
  from "2.IH"[OF t refl i rec] have IH: "length ds' = length ds" "take (i + 1) ds' = take (i + 1) ?ds"
    "b' \<longleftrightarrow> ?b \<or> (\<exists>j \<in> set os. j_valuestring J j = Some DEFAULT_DEVICE_TYPE)"
    "os = [] \<or> i + 1 + length os \<le> length ds" "\<forall>k < length os. ds' ! (i + 1 + k) = j_valuestring J (os ! k)"
    by auto
  have di: "ds' ! i = j_valuestring J item"
    using arg_cong[OF IH(2), of "\<lambda>l. l ! i"] i IH(1) by simp
  have "take i ds' = take i ds"
    using arg_cong[OF IH(2), of "take i"] by simp
  moreover have "ds' ! (i + k) = j_valuestring J ((item # os) ! k)" if "k < length (item # os)" for k
    using that di IH(5) by (cases k) auto
  ultimately show ?case using IH i by auto
qed

lemma ParseDeviceType_OK [parse_ok]:
  assumes "ParseDeviceType J mo s = Some (ERR_OK, s')"
    and "length (mi_deviceType (bp_moduleInfo (fst s))) = DEVICE_TYPE_SIZE"
  shows "\<exists>ds. s' = on_module (\<lambda>mi. mi\<lparr>mi_deviceType := ds\<rparr>) s \<and> length ds = DEVICE_TYPE_SIZE \<and>
           Some DEFAULT_DEVICE_TYPE \<in> set ds"
proof -
  let ?os = "j_elems J (ParseValue_obj J mo ''deviceType'' None)"
  from assms(1) obtain ds where
    l: "device_type_loop J ?os 0 False (mi_deviceType (bp_moduleInfo (fst s))) = Some (ERR_OK, True, ds)"
    and s': "s' = on_module (\<lambda>mi. mi\<lparr>mi_deviceType := ds\<rparr>) s"
    by (auto simp: ParseDeviceType_def Let_def bind_Some_iff split: if_splits)
  from device_type_loop_OK[OF l] assms(2) have len: "length ds = DEVICE_TYPE_SIZE"
    and ex: "\<exists>j \<in> set ?os. j_valuestring J j = Some DEFAULT_DEVICE_TYPE"
    and fit: "?os = [] \<or> length ?os \<le> length ds"
    and val: "\<forall>k < length ?os. ds ! k = j_valuestring J (?os ! k)"
    by auto
  from ex obtain k where k: "k < length ?os" "j_valuestring J (?os ! k) = Some DEFAULT_DEVICE_TYPE"
    by (metis in_set_conv_nth)
  with fit have "k < length ds" by auto
  from nth_mem[OF this] val k have "Some DEFAULT_DEVICE_TYPE \<in> set ds" by metis
  with len s' show ?thesis by blast
qed

definition metadata_wf :: "MetaData option \<Rightarrow> bool" where
  "metadata_wf d = (case d of None \<Rightarrow> True | Some md \<Rightarrow>
     (case md_name md of None \<Rightarrow> True | Some n \<Rightarrow> length n \<le> MAX_METADATA_NAME) \<and>
     (case md_value md of None \<Rightarrow> True | Some v \<Rightarrow> length v \<le> MAX_METADATA_VALUE))"

lemma parse_MetaData_OK: "parse_MetaData J item = (ERR_OK, d) \<Longrightarrow> metadata_wf (Some d)"
  by (auto simp: parse_MetaData_def Let_def metadata_wf_def zero_MetaData_def split: if_splits option.splits)

lemma metadata_loop_OK:
  "metadata_loop J m os i ms = Some (ERR_OK, ms') \<Longrightarrow> list_all metadata_wf ms \<Longrightarrow>
     length ms' = length ms \<and> list_all metadata_wf ms'"
proof (induction J m os i ms rule: metadata_loop.induct)
  case (1 J m i ms)
  then show ?case by auto
next
  case (2 J m item os i ms)
  obtain e d where ed: "parse_MetaData J (Some item) = (e, d)" by fastforce
  from "2.prems"(1) ed have c: "\<not> length ms \<le> i" "\<not> \<not> m (Objects ''MetaData'' 1)" "e = ERR_OK"
    and rec: "metadata_loop J m os (i + 1) (ms[i := Some d]) = Some (ERR_OK, ms')"
    by (auto simp: Let_def split: if_splits)
  have "list_all metadata_wf (ms[i := Some d])"
    using "2.prems"(2) parse_MetaData_OK[of J "Some item" d] ed c(3) set_update_subset_insert[of ms i "Some d"]
    by (auto simp: list_all_iff)
  with "2.IH"[OF c(1,2) ed[symmetric] refl, of ] rec c(3) show ?case by (metis length_list_update)
qed

lemma ParseModuleMetaData_OK [parse_ok]:
  assumes "ParseModuleMetaData J m mo s = Some (ERR_OK, s')"
    and "list_all metadata_wf (mi_metaData (bp_moduleInfo (fst s)))"
  shows "\<exists>ms. s' = on_module (\<lambda>mi. mi\<lparr>mi_metaData := ms\<rparr>) s \<and>
           length ms = length (mi_metaData (bp_moduleInfo (fst s))) \<and> list_all metadata_wf ms"
proof -
  have "s = on_module (\<lambda>mi. mi\<lparr>mi_metaData := mi_metaData (bp_moduleInfo (fst s))\<rparr>) s"
    by (cases s) (simp add: on_module_def)
  with assms metadata_loop_OK show ?thesis
    by (fastforce simp: ParseModuleMetaData_def Let_def bind_Some_iff split: if_splits)
qed

subsection \<open>Abilities\<close>

text \<open>A text that is a reference to a resource (\<open>$string:\<close>) or is short enough, or absent.\<close>

definition text_ok :: "string \<Rightarrow> nat \<Rightarrow> cstr \<Rightarrow> bool" where
  "text_ok refr n t = (case t of None \<Rightarrow> True | Some s \<Rightarrow> length s \<le> n \<or> prefix refr s)"

definition caps_wf :: "SystemCapability \<Rightarrow> bool" where
  "caps_wf c = (case sc_systemCapName c of
     None \<Rightarrow> sc_systemCapNum c = 0
   | Some ns \<Rightarrow> sc_systemCapNum c = int (length ns) \<and> list_all (\<lambda>n. length n < MAX_SYSCAP_NAME_LEN) ns)"

definition ability_wf :: "AbilityInfo \<Rightarrow> bool" where
  "ability_wf a \<longleftrightarrow>
     (\<exists>n. ai_name a = Some n \<and> length n \<le> MAX_ABILITY_NAME_LEN) \<and>
     text_ok DEFAULT_DESC_SETTING MAX_DECRIPTION_LEN (ai_description a) \<and>
     text_ok DEFAULT_LABEL_SETTING MAX_LABLE_LEN (ai_label a) \<and>
     ai_launchMode a = SINGLETON \<and> caps_wf (ai_deviceCap a)"

lemma ParseAbilityDesc_OK:
  assumes "ParseAbilityDesc J item i (a, r) = Some (ERR_OK, (a', r'))"
  shows "a' = a\<lparr>ai_description := ai_description a'\<rparr>"
    and "ai_description a = None \<Longrightarrow> text_ok DEFAULT_DESC_SETTING MAX_DECRIPTION_LEN (ai_description a')"
  using assms by (auto simp: ParseAbilityDesc_def Let_def text_ok_def StartWith_iff
      split: option.splits if_splits)

lemma ParseAbilityIcon_OK:
  assumes "ParseAbilityIcon J item i (a, r) = Some (ERR_OK, (a', r'))"
  shows "a' = a\<lparr>ai_iconPath := ai_iconPath a'\<rparr>"
  using assms by (auto simp: ParseAbilityIcon_def Let_def split: option.splits if_splits)

lemma ParseAbilityLabel_OK:
  assumes "ParseAbilityLabel J item i (a, r) = Some (ERR_OK, (a', r'))"
  shows "a' = a\<lparr>ai_label := ai_label a'\<rparr>"
    and "ai_label a = None \<Longrightarrow> text_ok DEFAULT_LABEL_SETTING MAX_LABLE_LEN (ai_label a')"
  using assms by (auto simp: ParseAbilityLabel_def Let_def text_ok_def StartWith_iff
      split: option.splits if_splits)

lemma ParseAbilityType_OK:
  "ParseAbilityType J item a = (ERR_OK, a') \<Longrightarrow> a' = a\<lparr>ai_abilityType := ai_abilityType a'\<rparr>"
  by (auto simp: ParseAbilityType_def split: option.splits)

lemma ParseAbilityLauchMode_OK:
  "ParseAbilityLauchMode J item a = (ERR_OK, a') \<Longrightarrow> a' = a\<lparr>ai_launchMode := SINGLETON\<rparr>"
  by (auto simp: ParseAbilityLauchMode_def Let_def split: option.splits if_splits)

lemma ParseAbilityVisible_OK:
  "ParseAbilityVisible J item a = (ERR_OK, a') \<Longrightarrow> a' = a\<lparr>ai_isVisible := ai_isVisible a'\<rparr>"
  by (auto simp: ParseAbilityVisible_def Let_def split: if_splits)

lemma device_cap_loop_OK:
  "device_cap_loop J os names = Some (True, names') \<Longrightarrow>
   list_all (\<lambda>n. length n < MAX_SYSCAP_NAME_LEN) names \<Longrightarrow>
   length names' = length names + length os \<and> list_all (\<lambda>n. length n < MAX_SYSCAP_NAME_LEN) names'"
  by (induction J os names rule: device_cap_loop.induct)
    (auto simp: bind_Some_iff split: option.splits if_splits)

lemma ParseAbilityDeviceCap_OK:
  assumes "ParseAbilityDeviceCap J m item a = Some (ERR_OK, a')" and "cjson_ok J"
    and "ai_deviceCap a = zero_SystemCapability"
  shows "a' = a\<lparr>ai_deviceCap := ai_deviceCap a'\<rparr> \<and> caps_wf (ai_deviceCap a')"
  using assms device_cap_loop_OK
  by (fastforce simp: ParseAbilityDeviceCap_def Let_def caps_wf_def zero_SystemCapability_def
      bind_Some_iff cjson_okD(1) split: option.splits if_splits)

lemma on_ability_OK:
  "on_ability f (a, r) = Some (e, (a', r')) \<longleftrightarrow> f a = Some (e, a') \<and> r' = r"
  by (auto simp: on_ability_def)

lemma ParsePerAbilityInfo_OK:
  assumes "ParsePerAbilityInfo J m item i (a, r) = Some (ERR_OK, (a', r'))" and J: "cjson_ok J"
    and a: "a = zero_AbilityInfo\<lparr>ai_moduleName := mn, ai_bundleName := bn\<rparr>"
  shows "ability_wf a' \<and> ai_moduleName a' = mn \<and> ai_bundleName a' = bn"
proof -
  from assms(1) obtain n a1 r1 a2 r2 a3 r3 a4 a5 a6 where
    n: "length n \<le> MAX_ABILITY_NAME_LEN" and
    s1: "ParseAbilityDesc J item i (a\<lparr>ai_name := Some n\<rparr>, r) = Some (ERR_OK, (a1, r1))" and
    s2: "ParseAbilityIcon J item i (a1, r1) = Some (ERR_OK, (a2, r2))" and
    s3: "ParseAbilityLabel J item i (a2, r2) = Some (ERR_OK, (a3, r3))" and
    s4: "ParseAbilityType J item a3 = (ERR_OK, a4)" and
    s5: "ParseAbilityLauchMode J item a4 = (ERR_OK, a5)" and
    s6: "ParseAbilityVisible J item a5 = (ERR_OK, a6)" and
    s7: "ParseAbilityDeviceCap J m item a6 = Some (ERR_OK, a')"
    by (auto simp: ParsePerAbilityInfo_def Let_def ok_then_OK on_ability_OK not_less
        split: option.splits if_splits)
  obtain d where a1: "a1 = a\<lparr>ai_name := Some n, ai_description := d\<rparr>"
    using ParseAbilityDesc_OK(1)[OF s1] by metis
  obtain c where a2: "a2 = a1\<lparr>ai_iconPath := c\<rparr>"
    using ParseAbilityIcon_OK[OF s2] by metis
  obtain l where a3: "a3 = a2\<lparr>ai_label := l\<rparr>"
    using ParseAbilityLabel_OK(1)[OF s3] by metis
  obtain t where a4: "a4 = a3\<lparr>ai_abilityType := t\<rparr>"
    using ParseAbilityType_OK[OF s4] by metis
  obtain v where a6: "a6 = a5\<lparr>ai_isVisible := v\<rparr>"
    using ParseAbilityVisible_OK[OF s6] by metis
  note a5 = ParseAbilityLauchMode_OK[OF s5]
  note z = a1 a2 a3 a4 a5 a6 a zero_AbilityInfo_def
  have "text_ok DEFAULT_DESC_SETTING MAX_DECRIPTION_LEN d"
    "text_ok DEFAULT_LABEL_SETTING MAX_LABLE_LEN l"
    using ParseAbilityDesc_OK(2)[OF s1] ParseAbilityLabel_OK(2)[OF s3] by (simp_all add: z)
  moreover obtain k where "a' = a6\<lparr>ai_deviceCap := k\<rparr>" "caps_wf k"
    using ParseAbilityDeviceCap_OK[OF s7 J] by (fastforce simp: z)
  ultimately show ?thesis using n by (simp add: ability_wf_def z)
qed

definition ability_of :: "BundleProfile \<Rightarrow> AbilityInfo \<Rightarrow> bool" where
  "ability_of p a \<longleftrightarrow> ability_wf a \<and> ai_moduleName a = mi_moduleName (bp_moduleInfo p) \<and>
     ai_bundleName a = bp_bundleName p"

text \<open>
  The loop on abilities: the entries before \<open>i\<close> are done, those from \<open>i\<close> on are as \<open>memset\<close> left them,
  and as many items remain as entries.
\<close>

lemma abilities_loop_OK:
  assumes "abilities_loop J m os i (p, r) = Some (ERR_OK, s')" and J: "cjson_ok J"
    and "bp_abilityInfos p = Some as" "br_abilityRes r = Some rs" "length rs = length as"
    and "as = fin @ replicate (length os) zero_AbilityInfo" "length fin = i" "list_all (ability_of p) fin"
  shows "\<exists>as' rs'. s' = (p\<lparr>bp_abilityInfos := Some as'\<rparr>, r\<lparr>br_abilityRes := Some rs'\<rparr>) \<and>
           length as' = length as \<and> length rs' = length as \<and> list_all (ability_of p) as'"
  using assms
proof (induction os arbitrary: i p r as rs fin)
  case Nil
  then show ?case
    by (intro exI[of _ as] exI[of _ rs]) (cases p, cases r, simp)
next
  case (Cons object os)
  let ?a = "zero_AbilityInfo\<lparr>ai_moduleName := mi_moduleName (bp_moduleInfo p), ai_bundleName := bp_bundleName p\<rparr>"
  have i: "i < length as" "as ! i = zero_AbilityInfo"
    using Cons.prems(6,7) by (auto simp: nth_append)
  then have g: "get_ability i (p, r) = Some (zero_AbilityInfo, rs ! i)"
    using Cons.prems(3-5) by (simp add: get_ability_def)
  from Cons.prems(1) obtain a' r' where
    per: "ParsePerAbilityInfo J m (Some object) i (?a, rs ! i) = Some (ERR_OK, (a', r'))" and
    rec: "abilities_loop J m os (i + 1) (put_ability i (a', r') (p, r)) = Some (ERR_OK, s')"
    by (auto simp: g bind_Some_iff Let_def split: if_splits)
  let ?p = "p\<lparr>bp_abilityInfos := Some (as[i := a'])\<rparr>" and ?r = "r\<lparr>br_abilityRes := Some (rs[i := r'])\<rparr>"
  have put: "put_ability i (a', r') (p, r) = (?p, ?r)"
    using Cons.prems(3,4) by (simp add: put_ability_def)
  have good: "ability_of p a'"
    using ParsePerAbilityInfo_OK[OF per J refl] by (simp add: ability_of_def)
  have same: "ability_of ?p = ability_of p" by (simp add: ability_of_def fun_eq_iff)
  have "as[i := a'] = (fin @ [a']) @ replicate (length os) zero_AbilityInfo"
    using Cons.prems(6,7) by (simp add: list_update_append)
  then have "\<exists>as' rs'. s' = (?p\<lparr>bp_abilityInfos := Some as'\<rparr>, ?r\<lparr>br_abilityRes := Some rs'\<rparr>) \<and>
      length as' = length (as[i := a']) \<and> length rs' = length (as[i := a']) \<and> list_all (ability_of ?p) as'"
    using rec Cons.prems good same J unfolding put
    by (intro Cons.IH[of "i + 1" ?p ?r "as[i := a']" "rs[i := r']" "fin @ [a']"]) auto
  then show ?case unfolding same by (auto intro!: exI)
qed

definition abilities_wf :: "BundleProfile \<Rightarrow> bool" where
  "abilities_wf p \<longleftrightarrow>
     (case bp_abilityInfos p of
        None \<Rightarrow> bp_numOfAbility p = 0
      | Some as \<Rightarrow> bp_numOfAbility p = length as \<and> list_all (ability_of p) as)"

lemma ParseAllAbilityInfo_OK:
  assumes ok: "ParseAllAbilityInfo J m caps arr (p, r) = Some (ERR_OK, (p', r'))" and J: "cjson_ok J"
    and "bp_abilityInfos p = None"
  shows "\<exists>as. p' = p\<lparr>bp_abilityInfos := as, bp_numOfAbility := bp_numOfAbility p'\<rparr> \<and> abilities_wf p' \<and>
           bp_numOfAbility p' = length (j_elems J arr) \<and> br_totalNumOfAbilityRes r' = bp_numOfAbility p'"
proof (cases "j_elems J arr = []")
  case True
  with assms show ?thesis
    by (intro exI[of _ "None"])
      (cases p, auto simp: ParseAllAbilityInfo_def cjson_okD(1) abilities_wf_def Let_def)
next
  case False
  let ?n = "length (j_elems J arr)"
  let ?p = "p\<lparr>bp_numOfAbility := ?n, bp_abilityInfos := Some (replicate ?n zero_AbilityInfo)\<rparr>"
  let ?r = "r\<lparr>br_totalNumOfAbilityRes := ?n, br_abilityRes := Some (replicate ?n zero_AbilityRes)\<rparr>"
  from ok False have loop: "abilities_loop J m (j_elems J arr) 0 (?p, ?r) = Some (ERR_OK, (p', r'))"
    by (auto simp: ParseAllAbilityInfo_def cjson_okD(1)[OF J] Let_def ok_then_OK split: if_splits)
  from abilities_loop_OK[OF this J, of "replicate ?n zero_AbilityInfo" "replicate ?n zero_AbilityRes" "[]"]
  obtain as' rs' where "p' = ?p\<lparr>bp_abilityInfos := Some as'\<rparr>" "r' = ?r\<lparr>br_abilityRes := Some rs'\<rparr>"
    "length as' = ?n" "list_all (ability_of ?p) as'"
    by auto
  moreover have "ability_of (?p\<lparr>bp_abilityInfos := Some as'\<rparr>) = ability_of ?p"
    by (simp add: ability_of_def fun_eq_iff)
  ultimately show ?thesis
    by (intro exI[of _ "Some as'"]) (simp add: abilities_wf_def)
qed

lemma parse_first_OK:
  "parse_first_label J first (p, r) = Some (ERR_OK, s') \<Longrightarrow> \<exists>l. s' = (p\<lparr>bp_label := l\<rparr>, r)"
  "parse_first_icon J first (p, r) = Some (ERR_OK, s') \<Longrightarrow> \<exists>c. s' = (p\<lparr>bp_iconPath := c\<rparr>, r)"
  by (cases p, auto simp: parse_first_label_def parse_first_icon_def Let_def split: if_splits option.splits)+

lemma ParseAbilityInfos_OK:
  assumes ok: "ParseAbilityInfos J m caps mo (p, r) = Some (ERR_OK, (p', r'))" and J: "cjson_ok J"
    and "bp_abilityInfos p = None"
  shows "\<exists>l c as n. p' = p\<lparr>bp_label := l, bp_iconPath := c, bp_abilityInfos := as, bp_numOfAbility := n\<rparr> \<and>
           abilities_wf p'"
proof (cases "j_elems J (ParseValue_obj J mo ''abilities'' None) = []")
  case True
  with assms show ?thesis
    by (intro exI[of _ "bp_label p"] exI[of _ "bp_iconPath p"] exI[of _ None] exI[of _ 0])
      (cases p, auto simp: ParseAbilityInfos_def cjson_okD(1) abilities_wf_def Let_def split: if_splits)
next
  case False
  let ?arr = "ParseValue_obj J mo ''abilities'' None"
  from ok False obtain s1 s2 where
    "parse_first_label J (j_GetArrayItem J ?arr 0) (p, r) = Some (ERR_OK, s1)"
    "parse_first_icon J (j_GetArrayItem J ?arr 0) s1 = Some (ERR_OK, s2)" and
    all: "ParseAllAbilityInfo J m caps ?arr s2 = Some (ERR_OK, (p', r'))"
    by (auto simp: ParseAbilityInfos_def Let_def cjson_okD(1)[OF J] ok_then_OK split: if_splits)
  then obtain l c where s2: "s2 = (p\<lparr>bp_label := l, bp_iconPath := c\<rparr>, r)"
    using parse_first_OK by metis
  have "bp_abilityInfos (p\<lparr>bp_label := l, bp_iconPath := c\<rparr>) = None" using assms(3) by simp
  from ParseAllAbilityInfo_OK[OF all[unfolded s2] J this] show ?thesis by blast
qed

section \<open>A profile that was accepted\<close>

definition module_wf :: "ModuleInfo \<Rightarrow> bool" where
  "module_wf mi \<longleftrightarrow>
     (\<exists>n. mi_moduleName mi = Some n \<and> length n \<le> MAX_MODULENAME_LEN \<and> \<not> contains n ''../'') \<and>
     (mi_moduleType mi = Some MODULE_ENTRY \<or> mi_moduleType mi = Some MODULE_FEATURE) \<and>
     length (mi_deviceType mi) = DEVICE_TYPE_SIZE \<and> Some DEFAULT_DEVICE_TYPE \<in> set (mi_deviceType mi) \<and>
     length (mi_metaData mi) = METADATA_SIZE \<and> list_all metadata_wf (mi_metaData mi)"

definition profile_wf :: "BundleProfile \<Rightarrow> bool" where
  "profile_wf p \<longleftrightarrow>
     (\<exists>n. bp_bundleName p = Some n \<and> dotted_name n \<and> MIN_BUNDLE_NAME_LEN \<le> length n \<and>
          length n \<le> MAX_BUNDLE_NAME_LEN) \<and>
     (case bp_vendor p of None \<Rightarrow> True | Some v \<Rightarrow> length v \<le> MAX_VENDOR_LEN) \<and>
     (\<exists>v. bp_versionName p = Some v \<and> length v \<le> MAX_VERSION_NAME_LEN) \<and>
     0 \<le> bp_minApiVersion p \<and> (bp_maxApiVersion p = 0 \<or> bp_minApiVersion p \<le> bp_maxApiVersion p) \<and>
     module_wf (bp_moduleInfo p) \<and> abilities_wf p"

lemma ParseModuleInfo_OK:
  assumes ok: "ParseModuleInfo J m caps mo (p, r) = Some (ERR_OK, (p', r'))" and J: "cjson_ok J"
    and z: "bp_moduleInfo p = zero_ModuleInfo" "bp_abilityInfos p = None"
  shows "\<exists>mi nat l c as n. p' = p\<lparr>bp_moduleInfo := mi, bp_isNativeApp := nat, bp_label := l,
           bp_iconPath := c, bp_abilityInfos := as, bp_numOfAbility := n\<rparr> \<and> module_wf mi \<and> abilities_wf p'"
proof -
  from ok obtain s1 s2 s3 s4 s5 where
    s1: "parse_module_name J mo (p, r) = Some (ERR_OK, s1)" and
    s2: "ParseModuleDesc J mo s1 = Some (ERR_OK, s2)" and
    s3: "ParseDeviceType J mo s2 = Some (ERR_OK, s3)" and
    s4: "parse_distro J mo s3 = Some (ERR_OK, s4)" and
    s5: "ParseModuleMetaData J m mo s4 = Some (ERR_OK, s5)" and
    s6: "ParseAbilityInfos J m caps mo (parse_js J mo s5) = Some (ERR_OK, (p', r'))"
    by (auto simp: ParseModuleInfo_def ok_then_OK)
  have "\<exists>x. s1 = (p\<lparr>bp_moduleInfo := zero_ModuleInfo\<lparr>mi_name := x\<rparr>\<rparr>, r)"
    using parse_module_name_OK[OF s1] z(1) by (cases p) (auto simp: on_module_def zero_ModuleInfo_def)
  then obtain x where e1: "s1 = (p\<lparr>bp_moduleInfo := zero_ModuleInfo\<lparr>mi_name := x\<rparr>\<rparr>, r)" by blast
  have "\<exists>d r2. s2 = (p\<lparr>bp_moduleInfo := zero_ModuleInfo\<lparr>mi_name := x, mi_description := d\<rparr>\<rparr>, r2)"
    using ParseModuleDesc_OK[OF s2] e1 by (auto simp: on_module_def zero_ModuleInfo_def)
  then obtain d r2 where
    e2: "s2 = (p\<lparr>bp_moduleInfo := zero_ModuleInfo\<lparr>mi_name := x, mi_description := d\<rparr>\<rparr>, r2)" by blast
  obtain ds where e3: "s3 = on_module (\<lambda>mi. mi\<lparr>mi_deviceType := ds\<rparr>) s2" "length ds = DEVICE_TYPE_SIZE"
    "Some DEFAULT_DEVICE_TYPE \<in> set ds"
    using ParseDeviceType_OK[OF s3] by (auto simp: e2 zero_ModuleInfo_def)
  obtain b n t where
    e4: "s4 = on_module (\<lambda>mi. mi\<lparr>mi_isDeliveryInstall := b, mi_moduleName := Some n, mi_moduleType := Some t\<rparr>) s3"
    "length n \<le> MAX_MODULENAME_LEN" "\<not> contains n ''../''" "t = MODULE_ENTRY \<or> t = MODULE_FEATURE"
    using parse_distro_OK[OF s4] by blast
  have m4: "mi_metaData (bp_moduleInfo (fst s4)) = replicate METADATA_SIZE None"
    by (simp add: e2 e3 e4 on_module_def zero_ModuleInfo_def)
  have "list_all metadata_wf (mi_metaData (bp_moduleInfo (fst s4)))"
    by (simp add: m4 metadata_wf_def list_all_iff)
  from ParseModuleMetaData_OK[OF s5 this] obtain ms where
    e5: "s5 = on_module (\<lambda>mi. mi\<lparr>mi_metaData := ms\<rparr>) s4" "length ms = METADATA_SIZE" "list_all metadata_wf ms"
    unfolding m4 by auto
  let ?mi = "\<lparr>mi_moduleName = Some n, mi_description = d, mi_name = x, mi_moduleType = Some t,
      mi_isDeliveryInstall = b, mi_deviceType = ds, mi_metaData = ms\<rparr>"
  have "s5 = (p\<lparr>bp_moduleInfo := ?mi\<rparr>, r2)"
    by (simp add: e2 e3(1) e4(1) e5(1) on_module_def zero_ModuleInfo_def)
  then obtain na where js: "parse_js J mo s5 = (p\<lparr>bp_moduleInfo := ?mi, bp_isNativeApp := na\<rparr>, r2)"
    by (simp add: parse_js_def Let_def)
  have wf: "module_wf ?mi" using e3 e4 e5 by (auto simp: module_wf_def)
  have "bp_abilityInfos (p\<lparr>bp_moduleInfo := ?mi, bp_isNativeApp := na\<rparr>) = None" using z(2) by simp
  from ParseAbilityInfos_OK[OF s6[unfolded js] J this] wf show ?thesis by blast
qed

lemma ParseJsonInfo_OK:
  assumes ok: "ParseJsonInfo J m caps app cfg mo (zero_BundleProfile, r) = Some (ERR_OK, (p', r'))"
    and J: "cjson_ok J"
  shows "profile_wf p'"
proof -
  from ok obtain s1 s2 s3 s4 s5 where
    s1: "parse_bundleName J app (zero_BundleProfile, r) = Some (ERR_OK, s1)" and
    s2: "parse_vendor J app s1 = Some (ERR_OK, s2)" and
    s3: "parse_version J app s2 = Some (ERR_OK, s3)" and
    s4: "parse_apiVersion J app s3 = Some (ERR_OK, s4)" and
    s5: "ParseDeviceConfig J cfg s4 = Some (ERR_OK, s5)" and
    s6: "ParseModuleInfo J m caps mo s5 = Some (ERR_OK, (p', r'))"
    by (auto simp: ParseJsonInfo_def ok_then_OK)
  obtain n where e1: "s1 = (zero_BundleProfile\<lparr>bp_bundleName := Some n\<rparr>, r)" and
    n: "dotted_name n" "MIN_BUNDLE_NAME_LEN \<le> length n" "length n \<le> MAX_BUNDLE_NAME_LEN"
    using parse_bundleName_OK[OF s1] by blast
  have "\<exists>v. s2 = (zero_BundleProfile\<lparr>bp_bundleName := Some n, bp_vendor := v\<rparr>, r) \<and>
      (case v of None \<Rightarrow> True | Some w \<Rightarrow> length w \<le> MAX_VENDOR_LEN)"
    using parse_vendor_OK[OF s2[unfolded e1]] by (auto simp: zero_BundleProfile_def)
  then obtain v where e2: "s2 = (zero_BundleProfile\<lparr>bp_bundleName := Some n, bp_vendor := v\<rparr>, r)" and
    v: "case v of None \<Rightarrow> True | Some w \<Rightarrow> length w \<le> MAX_VENDOR_LEN" by blast
  obtain w c where e3: "s3 = (zero_BundleProfile\<lparr>bp_bundleName := Some n, bp_vendor := v,
      bp_versionName := Some w, bp_versionCode := c\<rparr>, r)" and w: "length w \<le> MAX_VERSION_NAME_LEN"
    using parse_version_OK[OF s3[unfolded e2]] by blast
  have "\<exists>lo hi. s4 = (zero_BundleProfile\<lparr>bp_bundleName := Some n, bp_vendor := v,
      bp_versionName := Some w, bp_versionCode := c, bp_minApiVersion := lo, bp_maxApiVersion := hi\<rparr>, r) \<and>
      0 \<le> lo \<and> (hi = 0 \<or> lo \<le> hi)"
    using parse_apiVersion_OK[OF s4[unfolded e3]] by (auto simp: zero_BundleProfile_def)
  then obtain lo hi where e4: "s4 = (zero_BundleProfile\<lparr>bp_bundleName := Some n, bp_vendor := v,
      bp_versionName := Some w, bp_versionCode := c, bp_minApiVersion := lo, bp_maxApiVersion := hi\<rparr>, r)" and
    api: "0 \<le> lo" "hi = 0 \<or> lo \<le> hi" by blast
  obtain k where e5: "s5 = (zero_BundleProfile\<lparr>bp_bundleName := Some n, bp_vendor := v,
      bp_versionName := Some w, bp_versionCode := c, bp_minApiVersion := lo, bp_maxApiVersion := hi,
      bp_isKeepAlive := k\<rparr>, r)"
    using ParseDeviceConfig_OK[OF s5[unfolded e4]] by blast
  from ParseModuleInfo_OK[OF s6[unfolded e5] J] obtain mi na l ic as na' where
    "p' = zero_BundleProfile\<lparr>bp_bundleName := Some n, bp_vendor := v, bp_versionName := Some w,
      bp_versionCode := c, bp_minApiVersion := lo, bp_maxApiVersion := hi, bp_isKeepAlive := k,
      bp_moduleInfo := mi, bp_isNativeApp := na, bp_label := l, bp_iconPath := ic,
      bp_abilityInfos := as, bp_numOfAbility := na'\<rparr>" "module_wf mi" "abilities_wf p'"
    by (auto simp: zero_BundleProfile_def)
  then show ?thesis
    using n v w api by (simp add: profile_wf_def)
qed

section \<open>No undefined access\<close>

text \<open>
  The only item read without a test of its kind is an entry of \<open>deviceCapability\<close>: if those of the
  module's abilities are strings, parsing never leaves an array nor reads a null pointer.
\<close>

definition caps_are_strings :: "'j cjson \<Rightarrow> 'j option \<Rightarrow> bool" where
  "caps_are_strings J mo \<longleftrightarrow>
     list_all (\<lambda>a. list_all (\<lambda>c. j_valuestring J c \<noteq> None)
                     (j_elems J (ParseValue_obj J (Some a) ''deviceCapability'' None)))
       (j_elems J (ParseValue_obj J mo ''abilities'' None))"

lemma ok_then_total: "r \<noteq> None \<Longrightarrow> (\<And>s. r = Some (ERR_OK, s) \<Longrightarrow> k s \<noteq> None) \<Longrightarrow> ok_then r k \<noteq> None"
  unfolding ok_then_None by blast

lemma if_total: "(c \<Longrightarrow> x \<noteq> None) \<Longrightarrow> (\<not> c \<Longrightarrow> y \<noteq> None) \<Longrightarrow> (if c then x else y) \<noteq> None"
  by simp

lemma case_total:
  "x \<noteq> None \<Longrightarrow> (\<And>a. y a \<noteq> None) \<Longrightarrow> (case t of None \<Rightarrow> x | Some a \<Rightarrow> y a) \<noteq> None"
  by (cases t) simp_all

lemmas total_intros = ok_then_total if_total case_total option.distinct(2)

lemma device_type_loop_total: "i + length os \<le> length ds \<Longrightarrow> device_type_loop J os i b ds \<noteq> None"
  by (induction J os i b ds rule: device_type_loop.induct) (auto simp: Let_def)

lemma metadata_loop_total: "i + length os \<le> length ms \<Longrightarrow> metadata_loop J m os i ms \<noteq> None"
  by (induction J m os i ms rule: metadata_loop.induct) (auto simp: Let_def split: prod.splits)

lemma device_cap_loop_total:
  "list_all (\<lambda>c. case c of None \<Rightarrow> True | Some j \<Rightarrow> j_valuestring J j \<noteq> None) os \<Longrightarrow>
   device_cap_loop J os names \<noteq> None"
  by (induction J os names rule: device_cap_loop.induct) (auto split: option.splits)

lemma ParseAbilityDeviceCap_total:
  assumes J: "cjson_ok J"
    and "list_all (\<lambda>c. j_valuestring J c \<noteq> None) (j_elems J (ParseValue_obj J item ''deviceCapability'' None))"
  shows "ParseAbilityDeviceCap J m item a \<noteq> None"
proof -
  let ?arr = "ParseValue_obj J item ''deviceCapability'' None"
  have "list_all (\<lambda>c. case c of None \<Rightarrow> True | Some j \<Rightarrow> j_valuestring J j \<noteq> None)
      (map (\<lambda>i. j_GetArrayItem J ?arr (int i)) [0..<nat (j_GetArraySize J ?arr)])"
    using assms(2) by (auto simp: list_all_length cjson_okD(1,2)[OF J])
  from device_cap_loop_total[OF this, of "[]"] show ?thesis
    by (auto simp: ParseAbilityDeviceCap_def Let_def split: prod.splits)
qed

lemma ParsePerAbilityInfo_total:
  assumes "cjson_ok J"
    and "list_all (\<lambda>c. j_valuestring J c \<noteq> None) (j_elems J (ParseValue_obj J item ''deviceCapability'' None))"
  shows "ParsePerAbilityInfo J m item i (a, r) \<noteq> None"
proof -
  have texts: "ParseAbilityDesc J item i s \<noteq> None" "ParseAbilityIcon J item i s \<noteq> None"
    "ParseAbilityLabel J item i s \<noteq> None" for s
    by (auto simp: ParseAbilityDesc_def ParseAbilityIcon_def ParseAbilityLabel_def Let_def
        split: prod.splits option.splits)
  have on: "on_ability f s \<noteq> None" if "\<And>a. f a \<noteq> None" for f s
    using that by (cases s) (simp add: on_ability_def)
  show ?thesis
    unfolding ParsePerAbilityInfo_def Let_def prod.case
    by (intro total_intros texts on ParseAbilityDeviceCap_total[OF assms])
qed

lemma abilities_loop_total:
  assumes "cjson_ok J" "bp_abilityInfos p = Some as" "br_abilityRes r = Some rs" "length rs = length as"
    and "i + length os \<le> length as"
    and "list_all (\<lambda>a. list_all (\<lambda>c. j_valuestring J c \<noteq> None)
           (j_elems J (ParseValue_obj J (Some a) ''deviceCapability'' None))) os"
  shows "abilities_loop J m os i (p, r) \<noteq> None"
  using assms
proof (induction os arbitrary: i p r as rs)
  case Nil
  then show ?case by simp
next
  case (Cons object os)
  let ?a = "(as ! i)\<lparr>ai_moduleName := mi_moduleName (bp_moduleInfo p), ai_bundleName := bp_bundleName p\<rparr>"
  have g: "get_ability i (p, r) = Some (as ! i, rs ! i)"
    using Cons.prems by (simp add: get_ability_def)
  obtain e a' r' where per: "ParsePerAbilityInfo J m (Some object) i (?a, rs ! i) = Some (e, (a', r'))"
    using ParsePerAbilityInfo_total[OF Cons.prems(1), of "Some object" m i ?a "rs ! i"] Cons.prems(6)
    by (auto simp del: not_None_eq)
  have put: "put_ability i (a', r') (p, r) =
      (p\<lparr>bp_abilityInfos := Some (as[i := a'])\<rparr>, r\<lparr>br_abilityRes := Some (rs[i := r'])\<rparr>)"
    using Cons.prems by (simp add: put_ability_def)
  have "abilities_loop J m os (i + 1) (put_ability i (a', r') (p, r)) \<noteq> None"
    unfolding put using Cons.prems by (intro Cons.IH[of _ "as[i := a']" _ "rs[i := r']"]) auto
  then show ?case by (simp add: g per Let_def)
qed

lemma ParseAbilityInfos_total:
  assumes J: "cjson_ok J" and "caps_are_strings J mo"
  shows "ParseAbilityInfos J m caps mo s \<noteq> None"
proof -
  let ?arr = "ParseValue_obj J mo ''abilities'' None"
  let ?n = "length (j_elems J ?arr)"
  have loop: "abilities_loop J m (j_elems J ?arr) 0
      (p\<lparr>bp_numOfAbility := ?n, bp_abilityInfos := Some (replicate ?n zero_AbilityInfo)\<rparr>,
       r\<lparr>br_totalNumOfAbilityRes := ?n, br_abilityRes := Some (replicate ?n zero_AbilityRes)\<rparr>) \<noteq> None" for p r
    using assms(2)
    by (intro abilities_loop_total[OF J, where as = "replicate ?n zero_AbilityInfo"
          and rs = "replicate ?n zero_AbilityRes"]) (simp_all add: caps_are_strings_def)
  have "ParseAllAbilityInfo J m caps ?arr (p, r) \<noteq> None" for p r
    unfolding ParseAllAbilityInfo_def Let_def prod.case cjson_okD(1)[OF J] nat_int
    by (intro total_intros loop)
  moreover have "parse_first_label J f t \<noteq> None" "parse_first_icon J f t \<noteq> None" for f t
    by (auto simp: parse_first_label_def parse_first_icon_def Let_def split: prod.splits option.splits)
  ultimately show ?thesis
    unfolding ParseAbilityInfos_def Let_def by (metis (no_types, lifting) prod.collapse total_intros)
qed

lemma on_module_fst: "bp_moduleInfo (fst (on_module f s)) = f (bp_moduleInfo (fst s))"
  by (cases s) (simp add: on_module_def)

lemma ParseModuleInfo_total:
  assumes J: "cjson_ok J" and mo: "caps_are_strings J mo"
    and z: "bp_moduleInfo (fst s) = zero_ModuleInfo"
  shows "ParseModuleInfo J m caps mo s \<noteq> None"
proof -
  let ?len = "\<lambda>s. length (mi_deviceType (bp_moduleInfo (fst s))) = DEVICE_TYPE_SIZE \<and>
      length (mi_metaData (bp_moduleInfo (fst s))) = METADATA_SIZE"
  have l1: "?len s1" if "parse_module_name J mo s = Some (ERR_OK, s1)" for s1
    using parse_module_name_OK[OF that] z by (auto simp: on_module_fst zero_ModuleInfo_def)
  have l2: "?len s2" if "?len s1" "ParseModuleDesc J mo s1 = Some (ERR_OK, s2)" for s1 s2
    using ParseModuleDesc_OK[OF that(2)] that(1) by (auto simp: on_module_fst)
  have l3: "?len s3" if "?len s2" "ParseDeviceType J mo s2 = Some (ERR_OK, s3)" for s2 s3
    using ParseDeviceType_OK[OF that(2)] that(1) by (auto simp: on_module_fst)
  have l4: "?len s4" if "?len s3" "parse_distro J mo s3 = Some (ERR_OK, s4)" for s3 s4
    using parse_distro_OK[OF that(2)] that(1) by (auto simp: on_module_fst)
  have t: "parse_module_name J mo s \<noteq> None" "ParseModuleDesc J mo s' \<noteq> None" "parse_distro J mo s' \<noteq> None" for s'
    by (auto simp: parse_module_name_def ParseModuleDesc_def parse_distro_def Let_def split: option.splits)
  have dt: "ParseDeviceType J mo s2 \<noteq> None" if "?len s2" for s2
  proof -
    have "\<exists>e b ds. device_type_loop J os 0 False (mi_deviceType (bp_moduleInfo (fst s2))) = Some (e, b, ds)"
      if "length os \<le> DEVICE_TYPE_SIZE" for os
      using device_type_loop_total[of 0 os "mi_deviceType (bp_moduleInfo (fst s2))" J False] that \<open>?len s2\<close>
      by auto
    then show ?thesis
      by (fastforce simp: ParseDeviceType_def Let_def cjson_okD(1)[OF J])
  qed
  have md: "ParseModuleMetaData J m mo s4 \<noteq> None" if "?len s4" for s4
  proof -
    have "\<exists>e ms. metadata_loop J m os 0 (mi_metaData (bp_moduleInfo (fst s4))) = Some (e, ms)"
      if "length os \<le> METADATA_SIZE" for os
      using metadata_loop_total[of 0 os "mi_metaData (bp_moduleInfo (fst s4))" J m] that \<open>?len s4\<close>
      by auto
    then show ?thesis
      by (fastforce simp: ParseModuleMetaData_def Let_def cjson_okD(1)[OF J])
  qed
  show ?thesis
    unfolding ParseModuleInfo_def
    by (rule ok_then_total[OF t(1)], rule ok_then_total[OF t(2)], rule ok_then_total[OF dt[OF l2[OF l1]]],
        assumption+, rule ok_then_total[OF t(3)], rule ok_then_total[OF md[OF l4[OF l3[OF l2[OF l1]]]]],
        assumption+, rule ParseAbilityInfos_total[OF J mo])
qed

lemma ParseJsonInfo_total:
  assumes J: "cjson_ok J" and mo: "caps_are_strings J mo"
  shows "ParseJsonInfo J m caps app cfg mo (zero_BundleProfile, r) \<noteq> None"
proof -
  let ?z = "\<lambda>s. bp_moduleInfo (fst s) = zero_ModuleInfo"
  have z1: "?z s1" if "parse_bundleName J app (zero_BundleProfile, r) = Some (ERR_OK, s1)" for s1
    using parse_bundleName_OK[OF that] by (auto simp: zero_BundleProfile_def)
  have z2: "?z s2" if "?z s1" "parse_vendor J app s1 = Some (ERR_OK, s2)" for s1 s2
    using parse_vendor_OK[of J app "fst s1" "snd s1" s2] that by auto
  have z3: "?z s2" if "?z s1" "parse_version J app s1 = Some (ERR_OK, s2)" for s1 s2
    using parse_version_OK[of J app "fst s1" "snd s1" s2] that by auto
  have z4: "?z s2" if "?z s1" "parse_apiVersion J app s1 = Some (ERR_OK, s2)" for s1 s2
    using parse_apiVersion_OK[of J app "fst s1" "snd s1" s2] that by auto
  have z5: "?z s2" if "?z s1" "ParseDeviceConfig J cfg s1 = Some (ERR_OK, s2)" for s1 s2
    using ParseDeviceConfig_OK[of J cfg "fst s1" "snd s1" s2] that by auto
  have t: "parse_bundleName J app s \<noteq> None" "parse_vendor J app s \<noteq> None"
    "parse_version J app s \<noteq> None" "parse_apiVersion J app s \<noteq> None" "ParseDeviceConfig J cfg s \<noteq> None" for s
    by (cases s, simp only: parse_bundleName_def parse_vendor_def parse_version_def parse_apiVersion_def
        ParseDeviceConfig_def Let_def prod.case, intro total_intros)+
  show ?thesis
    unfolding ParseJsonInfo_def
    by (rule ok_then_total[OF t(1)], rule ok_then_total[OF t(2)], rule ok_then_total[OF t(3)],
        rule ok_then_total[OF t(4)], rule ok_then_total[OF t(5)],
        rule ParseModuleInfo_total[OF J mo z5[OF z4[OF z3[OF z2[OF z1]]]]])
qed

section \<open>Properties\<close>

subsection \<open>A document to evaluate the parser on\<close>

lemmas parse_defs = ParseJsonInfo_def parse_bundleName_def parse_vendor_def parse_version_def
  parse_apiVersion_def ParseDeviceConfig_def ParseModuleInfo_def parse_module_name_def ParseModuleDesc_def
  ParseDeviceType_def parse_distro_def ParseModuleMetaData_def parse_js_def ParseAbilityInfos_def
  parse_first_label_def parse_first_icon_def ParseAllAbilityInfo_def ParsePerAbilityInfo_def
  ParseAbilityDesc_def ParseAbilityIcon_def ParseAbilityLabel_def ParseAbilityType_def
  ParseAbilityLauchMode_def ParseAbilityVisible_def ParseAbilityDeviceCap_def CheckDeviceCapIsValid_def
  CheckAbilityCapIsValid_def parse_MetaData_def on_module_def on_ability_def get_ability_def put_ability_def
  is_null_item_def ParseValue_int_def ParseValue_str_def ParseValue_obj_def ok_then_def StartWith_def
  ABILITY_TYPE_MAP_def LAUNCH_MODE_MAP_def

lemmas js_defs = js_api_def js_is_def to_lower_def clamp32_def

definition sample_app :: js where
  "sample_app = JObj
     [(''bundleName'', JStr ''com.a.b''), (''vendor'', JStr ''v''),
      (''version'', JObj [(''code'', JNum 3), (''name'', JStr ''1.0'')]),
      (''apiVersion'', JObj [(''compatible'', JNum 3), (''target'', JNum 4)])]"

definition sample_ability :: js where
  "sample_ability = JObj
     [(''name'', JStr ''Main''), (''type'', JStr ''page''), (''launchType'', JStr ''standard''),
      (''label'', JStr ''Demo''), (''deviceCapability'', JArr [JStr ''camera''])]"

definition sample_module :: js where
  "sample_module = JObj
     [(''deviceType'', JArr [JStr ''smartVision'']),
      (''distro'', JObj [(''deliveryWithInstall'', JBool True), (''moduleName'', JStr ''entry''),
                        (''moduleType'', JStr ''entry'')]),
      (''metaData'', JObj [(''customizeData'', JArr [JObj [(''name'', JStr ''k'')]])]),
      (''js'', JArr []), (''abilities'', JArr [sample_ability])]"

definition sample_parse :: "profile parsed" where
  "sample_parse = ParseJsonInfo js_api plentiful (ERR_OK, [''camera'']) (Some sample_app) None (Some sample_module)
     (zero_BundleProfile, zero_BundleRes)"

lemma sample_name: "CheckBundleNameIsValid (Some ''com.a.b'')"
  by (simp add: CheckBundleNameIsValid_iff dotted_name_def word_part_def word_chars_def)

lemma sample_accepted: "\<exists>p r. sample_parse = Some (ERR_OK, (p, r))"
  by (simp add: sample_parse_def parse_defs js_defs sample_name sample_app_def sample_module_def
      sample_ability_def Let_def zero_defs plentiful_def contains_def start_loop.simps)

lemma sample_caps: "caps_are_strings js_api (Some sample_module)"
  by (simp add: caps_are_strings_def ParseValue_obj_def js_defs sample_module_def sample_ability_def)

subsection \<open>The properties\<close>

text \<open>C19 A profile \<open>ParseJsonInfo\<close> accepts is well formed: a dotted bundle name of 7 to 127 characters,
  every text within its limit, an ordered API range, a module name of at most 31 characters without
  \<open>../\<close>, a type that is \<open>entry\<close> or \<open>feature\<close>, \<open>smartVision\<close> among the device types, and as many abilities
  as \<open>numOfAbility\<close> says, each with the bundle's and the module's name.\<close>

theorem ParseJsonInfo_accepts_wf:
  assumes "ParseJsonInfo J m caps app cfg mo (zero_BundleProfile, r) = Some (ERR_OK, (p', r'))"
    and "cjson_ok J"
  shows "profile_wf p'"
  using assms by (rule ParseJsonInfo_OK)

theorem ParseJsonInfo_accepts_wf_witness:
  "\<exists>p r. sample_parse = Some (ERR_OK, (p, r)) \<and> profile_wf p"
proof -
  obtain p r where ok: "sample_parse = Some (ERR_OK, (p, r))" using sample_accepted by blast
  from ParseJsonInfo_accepts_wf[OF ok[unfolded sample_parse_def] js_api_ok] ok show ?thesis by blast
qed

text \<open>C21 Parsing makes no undefined access: when the entries of the abilities' \<open>deviceCapability\<close> are
  strings, \<open>ParseJsonInfo\<close> returns on every document, inside its inline arrays of 16 device types and 16
  metadata entries and inside the arrays of abilities it allocates.\<close>

theorem ParseJsonInfo_defined:
  assumes "cjson_ok J" and "caps_are_strings J mo"
  shows "\<exists>e s'. ParseJsonInfo J m caps app cfg mo (zero_BundleProfile, r) = Some (e, s')"
  using ParseJsonInfo_total[OF assms, of m caps app cfg r] by auto

theorem ParseJsonInfo_defined_witness:
  "\<exists>e s'. ParseJsonInfo js_api plentiful (ERR_OK, []) None None (Some sample_module)
     (zero_BundleProfile, zero_BundleRes) = Some (e, s')"
  by (rule ParseJsonInfo_defined[OF js_api_ok sample_caps])

text \<open>The condition is needed: an entry of \<open>deviceCapability\<close> that is not a string has no
  \<open>valuestring\<close>, and \<open>ParseAbilityDeviceCap\<close> hands the null pointer to \<open>strlen\<close>.\<close>

theorem ParseAbilityDeviceCap_null_entry:
  "ParseAbilityDeviceCap js_api plentiful (Some (JObj [(''deviceCapability'', JArr [JNum 1])])) zero_AbilityInfo = None"
  by (simp add: ParseAbilityDeviceCap_def ParseValue_obj_def js_defs plentiful_def)

text \<open>The launch type of a profile has no effect: every call of \<open>ParseAbilityLauchMode\<close> that does not
  fail sets \<open>SINGLETON\<close>, also for \<open>standard\<close>.\<close>

theorem ParseAbilityLauchMode_always_singleton:
  "ParseAbilityLauchMode J item a = (ERR_OK, a\<lparr>ai_launchMode := SINGLETON\<rparr>) \<or>
   ParseAbilityLauchMode J item a = (ERR_INSTALL_FAILED_PARSE_ABILITY_LAUNCHTYPE_ERROR, a)"
  by (auto simp: ParseAbilityLauchMode_def Let_def split: option.split)

text \<open>The test of the version code never fails, since \<open>versionCode\<close> is unsigned: a profile with no
  version code is accepted by this step, with the code \<open>2 ^ 32 - 1\<close>.\<close>

theorem parse_version_no_code:
  assumes "ParseValue_str J (ParseValue_obj J app ''version'' None) ''name'' = Some v"
    and "length v \<le> MAX_VERSION_NAME_LEN"
    and "ParseValue_int J (ParseValue_obj J app ''version'' None) ''code'' (-1) = -1"
  shows "parse_version J app (p, r) =
           Some (ERR_OK, (p\<lparr>bp_versionName := Some v, bp_versionCode := 2 ^ 32 - 1\<rparr>, r))"
  using assms by (simp add: parse_version_def Let_def)

theorem parse_version_no_code_witness:
  "parse_version js_api (Some (JObj [(''version'', JObj [(''name'', JStr ''1'')])])) (zero_BundleProfile, zero_BundleRes) =
     Some (ERR_OK, (zero_BundleProfile\<lparr>bp_versionName := Some ''1'', bp_versionCode := 2 ^ 32 - 1\<rparr>, zero_BundleRes))"
  by (rule parse_version_no_code) (simp_all add: ParseValue_str_def ParseValue_obj_def ParseValue_int_def js_defs)

end
