(* ===== verification/Uid_Maps.thy ===== *)
theory Uid_Maps
  imports Bundle_Types Json
begin

text \<open>
  The user ids of the installed bundles: \<open>GenerateUid\<close>, \<open>RecycleUid\<close> and \<open>RestoreUidAndGidMap\<close> of
  \<^verbatim>\<open>services/bundlemgr_lite/src/bundle_manager_service.cpp\<close>. A \<open>std::map<int, std::string>\<close> is an
  association list with its keys ascending, which \<open>emplace\<close>, \<open>assign\<close> (the subscript assignment)
  and \<open>erase\<close> keep; \<open>rbegin()\<close> is its last entry. Keys stay far below \<open>2 ^ 31\<close>, so they are \<open>int\<close>.

  \<open>uid_ok\<close> is the invariant, \<open>uid_pairs\<close> the assignment of uids to bundles the three maps stand for. The
  locale \<open>uid_pool\<close> is what installing and uninstalling rely on.
\<close>

section \<open>Maps with ascending keys\<close>

type_synonym uid_map = "(int \<times> string) list"

fun emplace :: "int \<Rightarrow> string \<Rightarrow> uid_map \<Rightarrow> uid_map" where
  "emplace k v [] = [(k, v)]"
| "emplace k v ((k', v') # m) =
     (if k < k' then (k, v) # (k', v') # m
      else if k = k' then (k', v') # m
      else (k', v') # emplace k v m)"

fun assign :: "int \<Rightarrow> string \<Rightarrow> uid_map \<Rightarrow> uid_map" where
  "assign k v [] = [(k, v)]"
| "assign k v ((k', v') # m) =
     (if k < k' then (k, v) # (k', v') # m
      else if k = k' then (k, v) # m
      else (k', v') # assign k v m)"

definition last_key :: "uid_map \<Rightarrow> int" where
  "last_key m = fst (last m)"

section \<open>The code\<close>

text \<open>The loop of \<open>GenerateInnerUid\<close> looks for the first key from \<open>i\<close> below the last that is free.\<close>

function gap_loop :: "int \<Rightarrow> int \<Rightarrow> uid_map \<Rightarrow> int option" where
  "gap_loop i lst m =
     (if i < lst
      then if map_of m i = None then Some i else gap_loop (i + 1) lst m
      else None)"
  by pat_completeness auto
termination by (relation "measure (\<lambda>(i, lst, m). nat (lst - i))") auto

declare gap_loop.simps [simp del]

definition GenerateInnerUid :: "uid_map \<Rightarrow> string \<Rightarrow> nat \<Rightarrow> int \<Rightarrow> int \<times> uid_map" where
  "GenerateInnerUid innerMap bundleName bundleStyle baseUid =
     (if innerMap = [] then (baseUid, emplace 0 bundleName innerMap)
      else case gap_loop 0 (last_key innerMap) innerMap of
          Some i \<Rightarrow> (i + baseUid, emplace i bundleName innerMap)
        | None \<Rightarrow>
            if bundleStyle = SYSTEM_APP_FLAG \<and> last_key innerMap = BASE_SYS_VEN_UID - 1
            then (INVALID_UID, innerMap)
            else if bundleStyle = THIRD_SYSTEM_APP_FLAG \<and> last_key innerMap = MAX_SYS_VEN_UID
            then (INVALID_UID, innerMap)
            else let innerMap = emplace (last_key innerMap + 1) bundleName innerMap
                 in (last_key innerMap + baseUid, innerMap))"

record uid_maps =
  um_sys :: uid_map
  um_ven :: uid_map
  um_app :: uid_map

definition uid_maps_new :: uid_maps where
  "uid_maps_new = \<lparr>um_sys = [], um_ven = [], um_app = []\<rparr>"

definition GenerateUid :: "cstr \<Rightarrow> nat \<Rightarrow> uid_maps \<Rightarrow> int \<times> uid_maps" where
  "GenerateUid bundleName bundleStyle s =
     (case bundleName of
        None \<Rightarrow> (INVALID_UID, s)
      | Some n \<Rightarrow>
          if bundleStyle = THIRD_SYSTEM_APP_FLAG then
            (let (u, m) = GenerateInnerUid (um_ven s) n THIRD_SYSTEM_APP_FLAG BASE_SYS_VEN_UID
             in (u, s\<lparr>um_ven := m\<rparr>))
          else if bundleStyle = THIRD_APP_FLAG then
            (let (u, m) = GenerateInnerUid (um_app s) n THIRD_APP_FLAG BASE_APP_UID
             in (u, s\<lparr>um_app := m\<rparr>))
          else if bundleStyle = SYSTEM_APP_FLAG then
            (let (u, m) = GenerateInnerUid (um_sys s) n SYSTEM_APP_FLAG BASE_SYS_UID
             in (u, s\<lparr>um_sys := m\<rparr>))
          else (INVALID_UID, s))"

fun RecycleInnerUid :: "string \<Rightarrow> uid_map \<Rightarrow> bool \<times> uid_map" where
  "RecycleInnerUid bundleName [] = (False, [])"
| "RecycleInnerUid bundleName ((k, v) # m) =
     (if v = bundleName then (True, m)
      else let (found, m) = RecycleInnerUid bundleName m in (found, (k, v) # m))"

definition RecycleUid :: "cstr \<Rightarrow> uid_maps \<Rightarrow> uid_maps" where
  "RecycleUid bundleName s =
     (case bundleName of
        None \<Rightarrow> s
      | Some n \<Rightarrow>
          let (found, m) = RecycleInnerUid n (um_app s); s = s\<lparr>um_app := m\<rparr> in
          if found then s
          else let (found, m) = RecycleInnerUid n (um_ven s); s = s\<lparr>um_ven := m\<rparr> in
          if found then s
          else s\<lparr>um_sys := snd (RecycleInnerUid n (um_sys s))\<rparr>)"

text \<open>
  \<open>uidValue\<close> is a \<open>uint32_t\<close>; a key is the \<open>int\<close> its difference with the base converts to.
\<close>

definition restore_entry :: "'j cjson \<Rightarrow> 'j \<Rightarrow> uid_maps \<Rightarrow> uid_maps option" where
  "restore_entry J uid s =
     (let innerUid = j_GetObjectItemCS J (Some uid) ''uid'';
          innerBundleName = j_GetObjectItemCS J (Some uid) ''bundleName'' in
      if \<not> j_IsNumber J innerUid \<or> \<not> j_IsString J innerBundleName then Some s
      else do {
        u \<leftarrow> innerUid; b \<leftarrow> innerBundleName;
        name \<leftarrow> j_valuestring J b;
        let uidValue = (word_of_int (j_valueint J u) :: u32);
        if uidValue < 1000 \<and> uidValue \<ge> 100
        then Some (s\<lparr>um_sys := assign (sint (uidValue - 100)) name (um_sys s)\<rparr>)
        else if uidValue \<ge> 1000 \<and> uidValue \<le> 9999
        then Some (s\<lparr>um_ven := assign (sint (uidValue - 1000)) name (um_ven s)\<rparr>)
        else if uidValue > 9999
        then Some (s\<lparr>um_app := assign (sint (uidValue - 10000)) name (um_app s)\<rparr>)
        else Some s })"

fun restore_loop :: "'j cjson \<Rightarrow> 'j list \<Rightarrow> uid_maps \<Rightarrow> uid_maps option" where
  "restore_loop J [] s = Some s"
| "restore_loop J (u # us) s = do { s \<leftarrow> restore_entry J u s; restore_loop J us s }"

definition RestoreUidAndGidMap :: "'j cjson \<Rightarrow> 'j option \<Rightarrow> uid_maps \<Rightarrow> uid_maps option" where
  "RestoreUidAndGidMap J object s =
     (if object = None then Some s
      else let uids = j_GetObjectItemCS J object ''uid_and_gid'' in
        if \<not> j_IsArray J uids then Some s
        else restore_loop J (j_elems J uids) s)"

section \<open>Keys in order\<close>

definition ascending :: "uid_map \<Rightarrow> bool" where
  "ascending m \<longleftrightarrow> sorted_wrt (\<lambda>p q. fst p < fst q) m"

named_theorems uid_lib \<open>the maps from keys to names\<close>

lemma set_emplace [uid_lib]: "map_of m k = None \<Longrightarrow> set (emplace k v m) = insert (k, v) (set m)"
  by (induction k v m rule: emplace.induct) (auto split: if_splits)

lemma set_assign [uid_lib]:
  "ascending m \<Longrightarrow> set (assign k v m) = insert (k, v) {p \<in> set m. fst p \<noteq> k}"
  by (induction k v m rule: assign.induct) (auto simp: ascending_def)

lemma ascending_emplace [uid_lib]: "ascending m \<Longrightarrow> map_of m k = None \<Longrightarrow> ascending (emplace k v m)"
  by (induction k v m rule: emplace.induct) (auto simp: ascending_def set_emplace split: if_splits)

lemma ascending_assign [uid_lib]: "ascending m \<Longrightarrow> ascending (assign k v m)"
proof (induction k v m rule: assign.induct)
  case (2 k v k' v' m)
  then have "ascending m" by (simp add: ascending_def)
  with 2 show ?case by (auto simp: ascending_def set_assign)
qed (simp add: ascending_def)

lemma ascending_keys: "ascending m \<Longrightarrow> p \<in> set m \<Longrightarrow> q \<in> set m \<Longrightarrow> fst p = fst q \<Longrightarrow> p = q"
  by (induction m) (auto simp: ascending_def)

lemma ascending_distinct: "ascending m \<Longrightarrow> distinct (map fst m)"
  by (induction m) (auto simp: ascending_def)

lemma last_key_max: "ascending m \<Longrightarrow> p \<in> set m \<Longrightarrow> fst p \<le> last_key m"
  by (induction m) (auto simp: ascending_def last_key_def order.strict_iff_order)

lemma map_of_None_keys: "map_of m k = None \<longleftrightarrow> k \<notin> fst ` set m"
  by (simp add: map_of_eq_None_iff)

lemma recycle_found: "fst (RecycleInnerUid n m) \<longleftrightarrow> (\<exists>k. (k, n) \<in> set m)"
  by (induction n m rule: RecycleInnerUid.induct) (auto split: prod.splits)

lemma recycle_subset: "set (snd (RecycleInnerUid n m)) \<subseteq> set m"
  by (induction n m rule: RecycleInnerUid.induct) (auto split: prod.splits)

lemma recycle_absent: "\<not> fst (RecycleInnerUid n m) \<Longrightarrow> snd (RecycleInnerUid n m) = m"
  by (induction n m rule: RecycleInnerUid.induct) (auto split: prod.splits if_splits)

lemma recycle_ascending: "ascending m \<Longrightarrow> ascending (snd (RecycleInnerUid n m))"
proof (induction n m rule: RecycleInnerUid.induct)
  case (2 n k v m)
  then have "\<forall>p \<in> set (snd (RecycleInnerUid n m)). k < fst p"
    using recycle_subset[of n m] by (auto simp: ascending_def)
  with 2 show ?case by (auto simp: ascending_def split: prod.splits)
qed (simp add: ascending_def)

lemma recycle_removes:
  assumes "ascending m" "(k, n) \<in> set m"
  shows "\<exists>j. (j, n) \<in> set m \<and> set (snd (RecycleInnerUid n m)) = set m - {(j, n)}"
  using assms
proof (induction n m rule: RecycleInnerUid.induct)
  case (2 n i v m)
  show ?case
  proof (cases "v = n")
    case True
    with 2(2) have "(i, n) \<notin> set m" by (auto simp: ascending_def)
    with True show ?thesis by (intro exI[of _ i]) simp
  next
    case False
    have "ascending m" "(k, n) \<in> set m" using 2(2,3) False by (simp_all add: ascending_def)
    from 2(1)[OF False this] obtain j where
      "(j, n) \<in> set m" "set (snd (RecycleInnerUid n m)) = set m - {(j, n)}"
      by blast
    moreover have "snd (RecycleInnerUid n ((i, v) # m)) = (i, v) # snd (RecycleInnerUid n m)"
      using False by (simp add: case_prod_beta)
    ultimately show ?thesis using False by (intro exI[of _ j]) (simp add: insert_Diff_if)
  qed
qed simp

section \<open>A new uid\<close>

lemma gap_loop_Some:
  "gap_loop i lst m = Some k \<Longrightarrow> i \<le> k \<and> k < lst \<and> map_of m k = None \<and> (\<forall>j. i \<le> j \<longrightarrow> j < k \<longrightarrow> map_of m j \<noteq> None)"
proof (induction i lst m rule: gap_loop.induct)
  case (1 i lst m)
  show ?case
  proof (cases "i < lst \<and> map_of m i \<noteq> None")
    case True
    then have "gap_loop (i + 1) lst m = Some k" using 1(2) by (subst (asm) gap_loop.simps) auto
    with 1(1) True have r: "i + 1 \<le> k" "k < lst" "map_of m k = None"
        "\<forall>j. i + 1 \<le> j \<longrightarrow> j < k \<longrightarrow> map_of m j \<noteq> None" by auto
    have "map_of m j \<noteq> None" if "i \<le> j" "j < k" for j
      using r(4) True that by (cases "j = i") auto
    with r show ?thesis by simp
  next
    case False
    with 1(2) show ?thesis by (subst (asm) gap_loop.simps) (auto split: if_splits)
  qed
qed

lemma gap_loop_None:
  "gap_loop i lst m = None \<Longrightarrow> i \<le> j \<Longrightarrow> j < lst \<Longrightarrow> map_of m j \<noteq> None"
proof (induction i lst m arbitrary: j rule: gap_loop.induct)
  case (1 i lst m)
  from 1(2-4) have "map_of m i \<noteq> None" and rec: "gap_loop (i + 1) lst m = None"
    by (subst (asm) gap_loop.simps, simp split: if_splits)+
  with 1 show ?case by (cases "j = i") auto
qed

text \<open>
  The key \<open>GenerateInnerUid\<close> takes is the least that is not used: below it every key is taken.
\<close>

definition least_free :: "uid_map \<Rightarrow> int \<Rightarrow> bool" where
  "least_free m k \<longleftrightarrow> 0 \<le> k \<and> k \<notin> fst ` set m \<and> (\<forall>j. 0 \<le> j \<longrightarrow> j < k \<longrightarrow> j \<in> fst ` set m)"

lemma least_free_card: "least_free m k \<Longrightarrow> k \<le> int (length m)"
proof -
  assume l: "least_free m k"
  then have "{0..<k} \<subseteq> fst ` set m" by (auto simp: least_free_def)
  then have "card {0..<k} \<le> card (fst ` set m)" by (intro card_mono) auto
  also have "\<dots> \<le> length m" using card_image_le[of "set m" fst] card_length[of m] by simp
  finally show ?thesis by (simp add: nat_le_iff)
qed

lemma GenerateInnerUid_least:
  assumes asc: "ascending m" and pos: "\<forall>p \<in> set m. 0 \<le> fst p"
    and "GenerateInnerUid m n style base = (u, m')" and "m' \<noteq> m"
  shows "\<exists>k. least_free m k \<and> u = k + base \<and> m' = emplace k n m"
proof (cases "m = []")
  case True
  with assms show ?thesis
    by (intro exI[of _ 0]) (auto simp: GenerateInnerUid_def least_free_def)
next
  case False
  show ?thesis
  proof (cases "gap_loop 0 (last_key m) m")
    case (Some k)
    from gap_loop_Some[OF Some] have "least_free m k"
      by (auto simp: least_free_def map_of_None_keys)
    with Some False assms(3) show ?thesis by (auto simp: GenerateInnerUid_def)
  next
    case None
    let ?k = "last_key m + 1"
    have ex: "?k \<notin> fst ` set m" using last_key_max[OF asc] by fastforce
    have "last m \<in> set m" using False by simp
    then have l: "last_key m \<in> fst ` set m" "0 \<le> last_key m"
      using pos by (auto simp: last_key_def)
    have "j \<in> fst ` set m" if "0 \<le> j" "j < ?k" for j
      using gap_loop_None[OF None that(1)] l that by (cases "j = last_key m") (auto simp: map_of_None_keys)
    with ex l have least: "least_free m ?k" by (auto simp: least_free_def)
    have free: "map_of m ?k = None" using ex by (simp add: map_of_None_keys)
    have asc': "ascending (emplace ?k n m)" by (rule ascending_emplace[OF asc free])
    have "last_key (emplace ?k n m) = ?k"
    proof -
      have "emplace ?k n m \<noteq> []" by (cases m) (auto split: if_splits)
      then have "last (emplace ?k n m) \<in> insert (?k, n) (set m)"
        using set_emplace[OF free, of n] last_in_set by metis
      moreover have "(?k, n) \<in> set (emplace ?k n m)" using set_emplace[OF free] by simp
      from last_key_max[OF asc' this] have "?k \<le> last_key (emplace ?k n m)" by simp
      ultimately show ?thesis using last_key_max[OF asc] by (fastforce simp: last_key_def)
    qed
    with None False assms(3,4) least show ?thesis
      by (auto simp: GenerateInnerUid_def Let_def split: if_splits)
  qed
qed

section \<open>The assignment of uids\<close>

definition shifted :: "int \<Rightarrow> uid_map \<Rightarrow> (int \<times> string) set" where
  "shifted base m = (\<lambda>(k, n). (k + base, n)) ` set m"

definition uid_pairs :: "uid_maps \<Rightarrow> (int \<times> string) set" where
  "uid_pairs s = shifted BASE_SYS_UID (um_sys s) \<union> shifted BASE_SYS_VEN_UID (um_ven s) \<union>
     shifted BASE_APP_UID (um_app s)"

definition keys_in :: "int \<Rightarrow> int \<Rightarrow> uid_map \<Rightarrow> bool" where
  "keys_in lo hi m \<longleftrightarrow> ascending m \<and> (\<forall>p \<in> set m. lo \<le> fst p \<and> fst p < hi)"

text \<open>
  The three ranges do not meet: a system bundle has one of the 900 uids below \<open>BASE_SYS_VEN_UID\<close>, a
  vendor's one of the 9000 below \<open>BASE_APP_UID\<close>.
\<close>

definition uid_ok :: "uid_maps \<Rightarrow> bool" where
  "uid_ok s \<longleftrightarrow> keys_in 0 900 (um_sys s) \<and> keys_in 0 9000 (um_ven s) \<and>
     ascending (um_app s) \<and> (\<forall>p \<in> set (um_app s). 0 \<le> fst p)"

definition uid_room :: "uid_maps \<Rightarrow> nat \<Rightarrow> bool" where
  "uid_room s style \<longleftrightarrow>
     (style = SYSTEM_APP_FLAG \<and> length (um_sys s) < 900) \<or>
     (style = THIRD_SYSTEM_APP_FLAG \<and> length (um_ven s) < 9000) \<or> style = THIRD_APP_FLAG"

lemma shifted_iff: "(u, n) \<in> shifted base m \<longleftrightarrow> (u - base, n) \<in> set m"
  by (force simp: shifted_def)

lemma uid_pairs_iff:
  "(u, n) \<in> uid_pairs s \<longleftrightarrow>
     (u - 100, n) \<in> set (um_sys s) \<or> (u - 1000, n) \<in> set (um_ven s) \<or> (u - 10000, n) \<in> set (um_app s)"
  by (simp add: uid_pairs_def shifted_iff)

lemma uid_ok_range:
  assumes "uid_ok s"
  shows "(k, n) \<in> set (um_sys s) \<Longrightarrow> 0 \<le> k \<and> k < 900"
    and "(k, n) \<in> set (um_ven s) \<Longrightarrow> 0 \<le> k \<and> k < 9000"
    and "(k, n) \<in> set (um_app s) \<Longrightarrow> 0 \<le> k"
  using assms by (auto simp: uid_ok_def keys_in_def)

lemma uid_pairs_functional:
  assumes ok: "uid_ok s" and ab: "(u, a) \<in> uid_pairs s" "(u, b) \<in> uid_pairs s"
  shows "a = b"
proof -
  have "ascending (um_sys s)" "ascending (um_ven s)" "ascending (um_app s)"
    using ok by (auto simp: uid_ok_def keys_in_def)
  note keys = this[THEN ascending_keys]
  show ?thesis
    using ab uid_ok_range[OF ok] unfolding uid_pairs_iff
    by (elim disjE) (fastforce dest: keys)+
qed

lemma Generate_inner:
  assumes "ascending m" "\<forall>p \<in> set m. 0 \<le> fst p" "GenerateInnerUid m n style base = (u, m')"
    and room: "style = SYSTEM_APP_FLAG \<and> length m < 900 \<and> hi = 900 \<or>
      style = THIRD_SYSTEM_APP_FLAG \<and> length m < 9000 \<and> hi = 9000 \<or>
      style = THIRD_APP_FLAG \<and> hi = int (length m) + 1"
    and "\<forall>p \<in> set m. style \<noteq> THIRD_APP_FLAG \<longrightarrow> fst p < hi"
  shows "\<exists>k. least_free m k \<and> k < hi \<and> u = k + base \<and> ascending m' \<and> set m' = insert (k, n) (set m)"
proof -
  have changed: "m' \<noteq> m"
  proof
    assume "m' = m"
    have emp: "emplace k n m \<noteq> m" if "map_of m k = None" for k
      using set_emplace[OF that, of n] that by (force simp: map_of_None_keys)
    have free: "map_of m (last_key m + 1) = None"
      using last_key_max[OF assms(1)] by (fastforce simp: map_of_None_keys)
    from assms(3) \<open>m' = m\<close> have inv: "style = SYSTEM_APP_FLAG \<and> last_key m = 999 \<or>
        style = THIRD_SYSTEM_APP_FLAG \<and> last_key m = 9999" "m \<noteq> []"
      using emp[OF free] emp[of 0] gap_loop_Some[of 0 "last_key m" m] emp
      by (auto simp: GenerateInnerUid_def Let_def split: if_splits option.splits)
    then have l: "last m \<in> set m" by simp
    from inv(1) show False
      using room bspec[OF assms(5) l] by (auto simp: last_key_def)
  qed
  from GenerateInnerUid_least[OF assms(1,2,3) this] obtain k where
    k: "least_free m k" "u = k + base" "m' = emplace k n m" by blast
  have free: "map_of m k = None" using k by (simp add: least_free_def map_of_None_keys)
  have "k < hi" using least_free_card[OF k(1)] room by auto
  with k set_emplace[OF free] ascending_emplace[OF assms(1) free] show ?thesis by auto
qed

lemma GenerateUid_law:
  assumes ok: "uid_ok s" and room: "uid_room s style" and gen: "GenerateUid (Some n) style s = (u, s')"
  shows "uid_ok s' \<and> u \<notin> fst ` uid_pairs s \<and> uid_pairs s' = insert (u, n) (uid_pairs s)"
proof -
  have asc: "ascending (um_sys s)" "ascending (um_ven s)" "ascending (um_app s)"
    using ok by (auto simp: uid_ok_def keys_in_def)
  from room consider (sys) "style = SYSTEM_APP_FLAG" "length (um_sys s) < 900"
    | (ven) "style = THIRD_SYSTEM_APP_FLAG" "length (um_ven s) < 9000" | (app) "style = THIRD_APP_FLAG"
    by (auto simp: uid_room_def)
  then show ?thesis
  proof cases
    case sys
    obtain m' where g: "GenerateInnerUid (um_sys s) n style BASE_SYS_UID = (u, m')" and s': "s' = s\<lparr>um_sys := m'\<rparr>"
      using gen sys by (auto simp: GenerateUid_def split: prod.splits)
    from Generate_inner[OF asc(1) _ g, of 900] uid_ok_range(1)[OF ok] sys obtain k where
      k: "least_free (um_sys s) k" "k < 900" "u = k + 100" "ascending m'" "set m' = insert (k, n) (set (um_sys s))"
      by fastforce
    have "0 \<le> k" "k \<notin> fst ` set (um_sys s)" using k(1) by (auto simp: least_free_def)
    then have "u \<notin> fst ` uid_pairs s"
      using k(2,3) uid_ok_range[OF ok] by (fastforce simp: uid_pairs_iff image_iff)
    moreover have "uid_ok s'" using ok k \<open>0 \<le> k\<close> s' by (auto simp: uid_ok_def keys_in_def)
    ultimately show ?thesis using k s' by (auto simp: uid_pairs_iff)
  next
    case ven
    obtain m' where g: "GenerateInnerUid (um_ven s) n style BASE_SYS_VEN_UID = (u, m')" and s': "s' = s\<lparr>um_ven := m'\<rparr>"
      using gen ven by (auto simp: GenerateUid_def split: prod.splits)
    from Generate_inner[OF asc(2) _ g, of 9000] uid_ok_range(2)[OF ok] ven obtain k where
      k: "least_free (um_ven s) k" "k < 9000" "u = k + 1000" "ascending m'" "set m' = insert (k, n) (set (um_ven s))"
      by fastforce
    have "0 \<le> k" "k \<notin> fst ` set (um_ven s)" using k(1) by (auto simp: least_free_def)
    then have "u \<notin> fst ` uid_pairs s"
      using k(2,3) uid_ok_range[OF ok] by (fastforce simp: uid_pairs_iff image_iff)
    moreover have "uid_ok s'" using ok k \<open>0 \<le> k\<close> s' by (auto simp: uid_ok_def keys_in_def)
    ultimately show ?thesis using k s' by (auto simp: uid_pairs_iff)
  next
    case app
    obtain m' where g: "GenerateInnerUid (um_app s) n style BASE_APP_UID = (u, m')" and s': "s' = s\<lparr>um_app := m'\<rparr>"
      using gen app by (auto simp: GenerateUid_def split: prod.splits)
    from Generate_inner[OF asc(3) _ g, of "int (length (um_app s)) + 1"] uid_ok_range(3)[OF ok] app obtain k where
      k: "least_free (um_app s) k" "u = k + 10000" "ascending m'" "set m' = insert (k, n) (set (um_app s))"
      by fastforce
    have "0 \<le> k" "k \<notin> fst ` set (um_app s)" using k(1) by (auto simp: least_free_def)
    then have "u \<notin> fst ` uid_pairs s"
      using k(2) uid_ok_range[OF ok] by (fastforce simp: uid_pairs_iff image_iff)
    moreover have "uid_ok s'" using ok k \<open>0 \<le> k\<close> s' by (auto simp: uid_ok_def)
    ultimately show ?thesis using k s' by (auto simp: uid_pairs_iff)
  qed
qed

lemma recycled:
  assumes "ascending m"
  obtains (found) k where "fst (RecycleInnerUid n m)" "(k, n) \<in> set m"
      "set (snd (RecycleInnerUid n m)) = set m - {(k, n)}"
    | (absent) "\<not> fst (RecycleInnerUid n m)" "snd (RecycleInnerUid n m) = m" "\<forall>k. (k, n) \<notin> set m"
  using recycle_found[of n m] recycle_removes[OF assms] recycle_absent[of n m] by metis

lemma RecycleUid_law:
  assumes ok: "uid_ok s"
  shows "uid_ok (RecycleUid (Some n) s) \<and>
     ((\<exists>u. (u, n) \<in> uid_pairs s \<and> uid_pairs (RecycleUid (Some n) s) = uid_pairs s - {(u, n)}) \<or>
      ((\<forall>u. (u, n) \<notin> uid_pairs s) \<and> uid_pairs (RecycleUid (Some n) s) = uid_pairs s))"
proof -
  have asc: "ascending (um_sys s)" "ascending (um_ven s)" "ascending (um_app s)"
    using ok by (auto simp: uid_ok_def keys_in_def)
  have sub: "keys_in lo hi m \<Longrightarrow> keys_in lo hi (snd (RecycleInnerUid n m))" for lo hi m
    using recycle_ascending[of m n] recycle_subset[of n m] by (auto simp: keys_in_def)
  have shape: "RecycleUid (Some n) s =
      (if fst (RecycleInnerUid n (um_app s)) then s\<lparr>um_app := snd (RecycleInnerUid n (um_app s))\<rparr>
       else if fst (RecycleInnerUid n (um_ven s)) then s\<lparr>um_ven := snd (RecycleInnerUid n (um_ven s))\<rparr>
       else s\<lparr>um_sys := snd (RecycleInnerUid n (um_sys s))\<rparr>)"
    using recycle_absent[of n "um_app s"] recycle_absent[of n "um_ven s"]
    by (auto simp: RecycleUid_def Let_def split: prod.splits)
  have ok': "uid_ok (RecycleUid (Some n) s)"
    using ok sub recycle_ascending[OF asc(3), of n] recycle_subset[of n "um_app s"]
    by (auto simp: shape uid_ok_def)
  note r = uid_ok_range[OF ok]
  show ?thesis
  proof (cases rule: recycled[OF asc(3), of n, case_names found absent])
    case (found k)
    have "uid_pairs (RecycleUid (Some n) s) = uid_pairs s - {(k + 10000, n)}"
      using found(1) r(1)[of "9900 + k" n] r(2)[of "9000 + k" n] r(3)[OF found(2)]
      by (auto simp: shape set_eq_iff uid_pairs_iff found(3))
    moreover have "(k + 10000, n) \<in> uid_pairs s" using found by (simp add: uid_pairs_iff)
    ultimately show ?thesis using ok' by blast
  next
    case absent
    note app = absent
    show ?thesis
    proof (cases rule: recycled[OF asc(2), of n, case_names found absent])
      case (found k)
      have "uid_pairs (RecycleUid (Some n) s) = uid_pairs s - {(k + 1000, n)}"
        using found(1) app r(1)[of "900 + k" n] r(2)[OF found(2)]
        by (auto simp: shape set_eq_iff uid_pairs_iff found(3))
      moreover have "(k + 1000, n) \<in> uid_pairs s" using found by (simp add: uid_pairs_iff)
      ultimately show ?thesis using ok' by blast
    next
      case absent
      note ven = absent
      show ?thesis
      proof (cases rule: recycled[OF asc(1), of n, case_names found absent])
        case (found k)
        have "uid_pairs (RecycleUid (Some n) s) = uid_pairs s - {(k + 100, n)}"
          using found(1) app ven by (auto simp: shape set_eq_iff uid_pairs_iff found(3))
        moreover have "(k + 100, n) \<in> uid_pairs s" using found by (simp add: uid_pairs_iff)
        ultimately show ?thesis using ok' by blast
      next
        case absent
        then have "RecycleUid (Some n) s = s" using app ven by (simp add: shape)
        with absent app ven ok' show ?thesis by (auto simp: uid_pairs_iff)
      qed
    qed
  qed
qed

section \<open>The interface to installing\<close>

text \<open>
  Installing a bundle that is not installed takes a uid, uninstalling gives it back: the history of a
  pool.
\<close>

datatype uid_op = TakeUid string nat | GiveUid string

locale uid_pool =
  fixes ok :: "'s \<Rightarrow> bool"
    and pairs :: "'s \<Rightarrow> (int \<times> string) set"
    and room :: "'s \<Rightarrow> nat \<Rightarrow> bool"
    and take_uid :: "cstr \<Rightarrow> nat \<Rightarrow> 's \<Rightarrow> int \<times> 's"
    and give_uid :: "cstr \<Rightarrow> 's \<Rightarrow> 's"
  assumes one_owner: "ok s \<Longrightarrow> (u, a) \<in> pairs s \<Longrightarrow> (u, b) \<in> pairs s \<Longrightarrow> a = b"
    and take_law: "ok s \<Longrightarrow> room s style \<Longrightarrow> take_uid (Some n) style s = (u, s') \<Longrightarrow>
      ok s' \<and> u \<notin> fst ` pairs s \<and> pairs s' = insert (u, n) (pairs s)"
    and give_law: "ok s \<Longrightarrow> ok (give_uid (Some n) s) \<and>
      ((\<exists>u. (u, n) \<in> pairs s \<and> pairs (give_uid (Some n) s) = pairs s - {(u, n)}) \<or>
       ((\<forall>u. (u, n) \<notin> pairs s) \<and> pairs (give_uid (Some n) s) = pairs s))"
begin

text \<open>A state in which uids and bundles correspond one to one.\<close>

definition one_to_one :: "'s \<Rightarrow> bool" where
  "one_to_one s \<longleftrightarrow> ok s \<and> (\<forall>u v n. (u, n) \<in> pairs s \<longrightarrow> (v, n) \<in> pairs s \<longrightarrow> u = v)"

lemma take_one_to_one:
  assumes "one_to_one s" "room s style" "n \<notin> snd ` pairs s"
  shows "one_to_one (snd (take_uid (Some n) style s))"
proof -
  obtain u s' where t: "take_uid (Some n) style s = (u, s')" by fastforce
  from take_law[OF _ assms(2) t] assms(1) have
    "ok s'" "u \<notin> fst ` pairs s" "pairs s' = insert (u, n) (pairs s)" by (auto simp: one_to_one_def)
  with assms(1,3) show ?thesis by (force simp: one_to_one_def t)
qed

lemma give_one_to_one:
  assumes "one_to_one s"
  shows "one_to_one (give_uid (Some n) s) \<and> pairs (give_uid (Some n) s) = {p \<in> pairs s. snd p \<noteq> n}"
proof -
  from assms give_law[of s n] show ?thesis
    unfolding one_to_one_def by (elim conjE disjE exE) auto
qed

end

interpretation uids: uid_pool uid_ok uid_pairs uid_room GenerateUid RecycleUid
proof unfold_locales
  fix s :: uid_maps and u a b
  assume "uid_ok s" "(u, a) \<in> uid_pairs s" "(u, b) \<in> uid_pairs s"
  then show "a = b" by (rule uid_pairs_functional)
qed (fact GenerateUid_law RecycleUid_law)+

section \<open>The ranges overlap when one is full\<close>

lemma emplace_append: "\<forall>p \<in> set m. fst p < k \<Longrightarrow> emplace k v m = m @ [(k, v)]"
  by (induction m) auto

text \<open>The system map with all of its 900 keys in use.\<close>

definition full_sys :: uid_map where
  "full_sys = map (\<lambda>i. (int i, ''com.ohos.sys'')) [0..<900]"

lemma full_sys_keys: "fst ` set full_sys = {0..<900}"
proof -
  have "fst ` set full_sys = int ` {0..<900}" by (simp add: full_sys_def image_image del: image_int_atLeastLessThan)
  then show ?thesis unfolding image_int_atLeastLessThan by simp
qed

lemma full_sys_overflows: "GenerateInnerUid full_sys n SYSTEM_APP_FLAG BASE_SYS_UID = (1000, full_sys @ [(900, n)])"
proof -
  have ne: "full_sys \<noteq> []" and last: "last_key full_sys = 899"
    by (simp_all add: full_sys_def last_key_def last_map)
  have "gap_loop 0 899 full_sys = None"
  proof (rule ccontr)
    assume "gap_loop 0 899 full_sys \<noteq> None"
    then obtain k where "gap_loop 0 899 full_sys = Some k" by blast
    from gap_loop_Some[OF this] show False by (auto simp: map_of_None_keys full_sys_keys)
  qed
  moreover have "emplace 900 n full_sys = full_sys @ [(900, n)]"
    by (rule emplace_append) (auto simp: full_sys_def)
  ultimately show ?thesis
    using ne last by (simp add: GenerateInnerUid_def last_key_def)
qed

lemma full_sys_collides:
  "\<exists>s. uid_ok s \<and> \<not> uid_room s SYSTEM_APP_FLAG \<and> fst (GenerateUid (Some a) SYSTEM_APP_FLAG s) = 1000 \<and>
     fst (GenerateUid (Some b) THIRD_SYSTEM_APP_FLAG (snd (GenerateUid (Some a) SYSTEM_APP_FLAG s))) = 1000"
proof -
  let ?s = "\<lparr>um_sys = full_sys, um_ven = [], um_app = []\<rparr>"
  have "keys_in 0 900 full_sys"
    by (auto simp: keys_in_def ascending_def full_sys_def sorted_wrt_map sorted_wrt_upt)
  then have "uid_ok ?s" by (simp add: uid_ok_def keys_in_def ascending_def)
  moreover have "length full_sys = 900" by (simp add: full_sys_def)
  then have "\<not> uid_room ?s SYSTEM_APP_FLAG" by (simp add: uid_room_def)
  moreover have "GenerateUid (Some a) SYSTEM_APP_FLAG ?s = (1000, ?s\<lparr>um_sys := full_sys @ [(900, a)]\<rparr>)"
    using full_sys_overflows[of a] by (simp add: GenerateUid_def)
  moreover have "fst (GenerateUid (Some b) THIRD_SYSTEM_APP_FLAG (?s\<lparr>um_sys := full_sys @ [(900, a)]\<rparr>)) = 1000"
    by (simp add: GenerateUid_def GenerateInnerUid_def)
  ultimately show ?thesis by (intro exI[of _ ?s]) simp
qed

section \<open>Restoring the maps at boot\<close>

text \<open>An item of \<open>uid_and_gid\<close> that gives a uid and a name.\<close>

definition uid_entry :: "'j cjson \<Rightarrow> 'j \<Rightarrow> int \<times> string \<Rightarrow> bool" where
  "uid_entry J j = (\<lambda>(u, n).
     (case (j_GetObjectItemCS J (Some j) ''uid'', j_GetObjectItemCS J (Some j) ''bundleName'') of
        (Some a, Some b) \<Rightarrow> j_IsNumber J (Some a) \<and> j_valueint J a = u \<and> j_IsString J (Some b) \<and>
           j_valuestring J b = Some n
      | _ \<Rightarrow> False))"

lemma uid_word:
  assumes "0 \<le> u" "u < 2 ^ 31"
  shows "uint (word_of_int u :: u32) = u"
  using assms by (simp add: unsigned_of_int take_bit_int_eq_self)

lemma word_sub_sint:
  assumes "0 \<le> b" "b \<le> u" "u < 2 ^ 31"
  shows "sint (word_of_int u - word_of_int b :: u32) = u - b"
proof -
  have "sint (word_of_int (u - b) :: u32) = u - b"
    using assms by (subst signed_of_int) (simp add: signed_take_bit_int_eq_self)
  then show ?thesis by simp
qed

lemma restore_entry_spec:
  assumes e: "uid_entry J j (u, n)" and u: "100 \<le> u" "u < 2 ^ 31"
  shows "restore_entry J j s = Some
     (if u < 1000 then s\<lparr>um_sys := assign (u - 100) n (um_sys s)\<rparr>
      else if u \<le> 9999 then s\<lparr>um_ven := assign (u - 1000) n (um_ven s)\<rparr>
      else s\<lparr>um_app := assign (u - 10000) n (um_app s)\<rparr>)"
proof -
  from e obtain a b where ab: "j_GetObjectItemCS J (Some j) ''uid'' = Some a"
    "j_GetObjectItemCS J (Some j) ''bundleName'' = Some b" "j_IsNumber J (Some a)" "j_valueint J a = u"
    "j_IsString J (Some b)" "j_valuestring J b = Some n"
    by (auto simp: uid_entry_def split: option.splits)
  let ?w = "word_of_int u :: u32"
  have w: "uint ?w = u" using u by (intro uid_word) auto
  have cmp: "?w < 1000 \<longleftrightarrow> u < 1000" "?w \<ge> 100 \<longleftrightarrow> 100 \<le> u" "?w \<ge> 1000 \<longleftrightarrow> 1000 \<le> u"
    "?w \<le> 9999 \<longleftrightarrow> u \<le> 9999" "?w > 9999 \<longleftrightarrow> 9999 < u"
    by (simp_all add: word_less_iff_unsigned word_le_def word_less_def w)
  have sub: "sint (?w - 100) = u - 100" "1000 \<le> u \<Longrightarrow> sint (?w - 1000) = u - 1000"
    "10000 \<le> u \<Longrightarrow> sint (?w - 10000) = u - 10000"
    using word_sub_sint[of 100 u] word_sub_sint[of 1000 u] word_sub_sint[of 10000 u] u by simp_all
  show ?thesis
    using u by (simp add: restore_entry_def ab cmp sub Let_def)
qed

lemma restore_loop_spec:
  assumes "list_all2 (uid_entry J) js ps" "distinct (map fst ps)" "\<forall>p \<in> set ps. 100 \<le> fst p \<and> fst p < 2 ^ 31"
    and "uid_ok s" "fst ` uid_pairs s \<inter> fst ` set ps = {}"
  shows "\<exists>s'. restore_loop J js s = Some s' \<and> uid_ok s' \<and> uid_pairs s' = uid_pairs s \<union> set ps"
  using assms
proof (induction js ps arbitrary: s rule: list_all2_induct)
  case Nil
  then show ?case by simp
next
  case (Cons j js p ps)
  obtain u n where p: "p = (u, n)" by fastforce
  have u: "100 \<le> u" "u < 2 ^ 31" using Cons.prems(2) p by auto
  have "(u, x) \<notin> uid_pairs s" for x using Cons.prems(4) p by force
  then have free: "u - 100 \<notin> fst ` set (um_sys s)" "u - 1000 \<notin> fst ` set (um_ven s)"
    "u - 10000 \<notin> fst ` set (um_app s)"
    by (auto simp: uid_pairs_iff)
  have keep: "{q \<in> set m. fst q \<noteq> k} = set m" if "k \<notin> fst ` set m" for k and m :: uid_map
    using that by auto
  have asc: "ascending (um_sys s)" "ascending (um_ven s)" "ascending (um_app s)"
    using Cons.prems(3) by (auto simp: uid_ok_def keys_in_def)
  obtain s1 where s1: "restore_entry J j s = Some s1" "uid_ok s1" "uid_pairs s1 = insert (u, n) (uid_pairs s)"
  proof -
    note spec = restore_entry_spec[OF Cons.hyps(1)[unfolded p] u]
    note sets = set_assign[OF asc(1), of "u - 100" n, unfolded keep[OF free(1)]]
      set_assign[OF asc(2), of "u - 1000" n, unfolded keep[OF free(2)]]
      set_assign[OF asc(3), of "u - 10000" n, unfolded keep[OF free(3)]]
    have "uid_ok (the (restore_entry J j s))" "uid_pairs (the (restore_entry J j s)) = insert (u, n) (uid_pairs s)"
      using Cons.prems(3) u sets asc
      by (auto simp: spec uid_ok_def keys_in_def ascending_assign uid_pairs_iff)
    with spec that show thesis by simp
  qed
  have "fst ` uid_pairs s1 \<inter> fst ` set ps = {}"
    using Cons.prems(1,4) s1(3) p by auto
  from Cons.IH[OF _ _ s1(2) this] Cons.prems(1,2) obtain s' where
    "restore_loop J js s1 = Some s'" "uid_ok s'" "uid_pairs s' = uid_pairs s1 \<union> set ps" by auto
  with s1 p show ?case by auto
qed

lemma uid_ok_new: "uid_ok uid_maps_new" and uid_pairs_new: "uid_pairs uid_maps_new = {}"
  by (auto simp: uid_ok_def uid_maps_new_def keys_in_def ascending_def uid_pairs_def shifted_def)

lemma RestoreUidAndGidMap_spec:
  assumes "j_GetObjectItemCS J (Some obj) ''uid_and_gid'' = Some arr" "j_IsArray J (Some arr)"
    and "list_all2 (uid_entry J) (j_elems J (Some arr)) ps" "distinct (map fst ps)"
    and "\<forall>p \<in> set ps. 100 \<le> fst p \<and> fst p < 2 ^ 31"
  shows "\<exists>s'. RestoreUidAndGidMap J (Some obj) uid_maps_new = Some s' \<and> uid_ok s' \<and> uid_pairs s' = set ps"
  using restore_loop_spec[OF assms(3-5) uid_ok_new] assms(1,2)
  by (auto simp: RestoreUidAndGidMap_def uid_pairs_new)

section \<open>Properties\<close>

text \<open>C29 A uid is given to one bundle: while the range of its kind has room, \<open>GenerateUid\<close> returns a uid
  no bundle has, and records that bundle and no other change.\<close>

theorem GenerateUid_fresh:
  assumes "uid_ok s" "uid_room s style" "GenerateUid (Some n) style s = (u, s')"
  shows "uid_ok s' \<and> u \<notin> fst ` uid_pairs s \<and> uid_pairs s' = insert (u, n) (uid_pairs s)"
  using assms by (rule uids.take_law)

theorem GenerateUid_fresh_witness:
  "GenerateUid (Some ''com.a'') THIRD_APP_FLAG uid_maps_new = (10000, uid_maps_new\<lparr>um_app := [(0, ''com.a'')]\<rparr>) \<and>
   uid_pairs (uid_maps_new\<lparr>um_app := [(0, ''com.a'')]\<rparr>) = {(10000, ''com.a'')}"
proof -
  have g: "GenerateUid (Some ''com.a'') THIRD_APP_FLAG uid_maps_new =
      (10000, uid_maps_new\<lparr>um_app := [(0, ''com.a'')]\<rparr>)"
    by (simp add: GenerateUid_def GenerateInnerUid_def uid_maps_new_def)
  have room: "uid_room uid_maps_new THIRD_APP_FLAG" by (simp add: uid_room_def)
  from GenerateUid_fresh[OF uid_ok_new room g] g show ?thesis by (simp add: uid_pairs_new)
qed



text \<open>Without room the ranges overlap: with 900 system bundles, the next system bundle gets uid 1000,
  and so does the first vendor bundle after it. The limit the code tests, a key of 999, comes too late.\<close>

theorem GenerateUid_collision:
  "\<exists>s. uid_ok s \<and> \<not> uid_room s SYSTEM_APP_FLAG \<and> fst (GenerateUid (Some a) SYSTEM_APP_FLAG s) = 1000 \<and>
     fst (GenerateUid (Some b) THIRD_SYSTEM_APP_FLAG (snd (GenerateUid (Some a) SYSTEM_APP_FLAG s))) = 1000"
  by (rule full_sys_collides)

text \<open>C31 The maps survive a reboot: from a \<open>uid_and_gid\<close> array that names every uid once,
  \<open>RestoreUidAndGidMap\<close> rebuilds exactly the assignment the array gives.\<close>

theorem RestoreUidAndGidMap_restores:
  assumes "j_GetObjectItemCS J (Some obj) ''uid_and_gid'' = Some arr" "j_IsArray J (Some arr)"
    and "list_all2 (uid_entry J) (j_elems J (Some arr)) ps" "distinct (map fst ps)"
    and "\<forall>p \<in> set ps. 100 \<le> fst p \<and> fst p < 2 ^ 31"
  shows "\<exists>s'. RestoreUidAndGidMap J (Some obj) uid_maps_new = Some s' \<and> uid_ok s' \<and> uid_pairs s' = set ps"
  using assms by (rule RestoreUidAndGidMap_spec)

definition sample_uids :: js where
  "sample_uids = JArr [JObj [(''bundleName'', JStr ''com.a''), (''uid'', JNum 10000), (''gid'', JNum 10000)]]"

theorem RestoreUidAndGidMap_restores_witness:
  "\<exists>s'. RestoreUidAndGidMap js_api (Some (JObj [(''size'', JNum 1), (''uid_and_gid'', sample_uids)]))
      uid_maps_new = Some s' \<and> uid_ok s' \<and> uid_pairs s' = set [(10000, ''com.a'')]"
  by (rule RestoreUidAndGidMap_restores[where arr = sample_uids])
    (simp_all add: js_api_def js_is_def uid_entry_def clamp32_def sample_uids_def)

end
