(* ===== verification/Info_Creator.thy ===== *)
theory Info_Creator
  imports Info_Utils Bundle_Parser
begin

text \<open>
  \<^verbatim>\<open>services/bundlemgr_lite/src/bundle_info_creator.cpp\<close> and \<^verbatim>\<open>bundle_res_transform.cpp\<close>: the \<open>BundleInfo\<close>
  of a parsed profile, and the texts and icons its abilities take from the resource index.

  A function that fills a structure returns its result with the structure as it leaves it; \<open>None\<close> is
  a null pointer used as a string. The answer of \<open>QueryBundleInfo\<close> for the profile's name is the
  parameter \<open>old\<close>, the installer's directories are \<open>codeDir\<close> and \<open>dataDir\<close>, and the lookup
  \<open>GLOBAL_GetValueById\<close> of the resource manager is \<open>res\<close>: its code and the string it allocates.
\<close>

section \<open>Modules and abilities\<close>

text \<open>A text that is present and not a reference to a resource.\<close>

definition own_text :: "cstr \<Rightarrow> string \<Rightarrow> bool" where
  "own_text t refr = (t \<noteq> None \<and> \<not> StartWith t (Some refr))"

definition SetModuleInfos :: "allocator \<Rightarrow> BundleProfile \<Rightarrow> BundleInfo \<Rightarrow> bool \<times> BundleInfo" where
  "SetModuleInfos m p b =
     (if \<not> m (Objects ''ModuleInfo'' 1) then (False, b\<lparr>bi_moduleInfos := None\<rparr>)
      else let q = bp_moduleInfo p;
               put = (\<lambda>mi b. b\<lparr>bi_moduleInfos := Some [the mi]\<rparr>);
               b = b\<lparr>bi_numOfModule := 1\<rparr>;
               (ok, mi) = SetModuleInfoDeviceType m (Some zero_ModuleInfo) (Some (mi_deviceType q)) DEVICE_TYPE_SIZE in
      if \<not> ok then (False, put mi b)
      else let (ok, mi) = SetModuleInfoMetaData m mi (Some (mi_metaData q)) METADATA_SIZE in
      if \<not> ok then (False, put mi b)
      else let (ok, mi) = (if own_text (mi_description q) DEFAULT_DESC_SETTING
                           then SetModuleInfoDescription m mi (mi_description q) else (True, mi)) in
      if \<not> ok then (False, put mi b)
      else let (ok, mi) = (if mi_name q \<noteq> None then SetModuleInfoName m mi (mi_name q) else (True, mi)) in
      if \<not> ok then (False, put mi b)
      else let (ok, mi) = SetModuleInfoModuleName m mi (mi_moduleName q) in
      if \<not> ok then (False, put mi b)
      else let (ok, mi) = SetModuleInfoModuleType m mi (mi_moduleType q) in
      if \<not> ok then (False, put mi b)
      else (True, put (map_option (\<lambda>x. x\<lparr>mi_isDeliveryInstall := mi_isDeliveryInstall q\<rparr>) mi) b))"

text \<open>\<open>codePath + PATH_SEPARATOR + moduleName + PATH_SEPARATOR + iconPath\<close>.\<close>

definition icon_in :: "string \<Rightarrow> cstr \<Rightarrow> string \<Rightarrow> cstr" where
  "icon_in codePath moduleName icon =
     do { mn \<leftarrow> moduleName; Some (codePath @ PATH_SEPARATOR @ mn @ PATH_SEPARATOR @ icon) }"

text \<open>The ability of the bundle at one index, from that of the profile at the same index.\<close>

definition SetAbilityInfo ::
    "allocator \<Rightarrow> BundleProfile \<Rightarrow> string \<Rightarrow> AbilityInfo \<Rightarrow> AbilityInfo \<Rightarrow> (bool \<times> AbilityInfo) option" where
  "SetAbilityInfo m p codePath src a = do {
     (ok, a) \<leftarrow>
       (if own_text (ai_iconPath src) DEFAULT_ICON_SETTING_BEGIN then do {
          iconPath \<leftarrow> icon_in codePath (mi_moduleName (bp_moduleInfo p)) (the (ai_iconPath src));
          if length iconPath > PATH_LENGTH then Some (False, a)
          else let (ok, x) = SetAbilityInfoIconPath m (Some a) (Some iconPath) in Some (ok, the x) }
        else Some (True, a));
     if \<not> ok then Some (False, a)
     else let (ok, a) = (if own_text (ai_description src) DEFAULT_DESC_SETTING
                         then map_prod id the (SetAbilityInfoDescription m (Some a) (ai_description src))
                         else (True, a)) in
     if \<not> ok then Some (False, a)
     else let (ok, a) = (if own_text (ai_label src) DEFAULT_LABEL_SETTING
                         then map_prod id the (SetAbilityInfoLabel m (Some a) (ai_label src))
                         else (True, a)) in
     if \<not> ok then Some (False, a)
     else let a = a\<lparr>ai_isVisible := ai_isVisible src, ai_abilityType := ai_abilityType src,
                    ai_launchMode := ai_launchMode src\<rparr>;
              (ok, a) = map_prod id the (SetAbilityInfoBundleName m (Some a) (bp_bundleName p)) in
     if \<not> ok then Some (False, a)
     else let (ok, a) = map_prod id the (SetAbilityInfoModuleName m (Some a) (mi_moduleName (bp_moduleInfo p))) in
     if \<not> ok then Some (False, a)
     else Some (map_prod id the (SetAbilityInfoName m (Some a) (ai_name src))) }"

text \<open>
  The loop over the abilities stops at the first that fails; \<open>fin\<close> are those it has set, the rest
  stay as \<open>memset\<close> left them.
\<close>

fun set_abilities ::
    "allocator \<Rightarrow> BundleProfile \<Rightarrow> string \<Rightarrow> AbilityInfo list \<Rightarrow> AbilityInfo list \<Rightarrow> (bool \<times> AbilityInfo list) option" where
  "set_abilities m p codePath fin [] = Some (True, fin)"
| "set_abilities m p codePath fin (src # rest) = do {
     (ok, a) \<leftarrow> SetAbilityInfo m p codePath src zero_AbilityInfo;
     if \<not> ok then Some (False, fin @ a # replicate (length rest) zero_AbilityInfo)
     else set_abilities m p codePath (fin @ [a]) rest }"

definition SetAbilityInfos :: "allocator \<Rightarrow> BundleProfile \<Rightarrow> string \<Rightarrow> BundleInfo \<Rightarrow> (bool \<times> BundleInfo) option" where
  "SetAbilityInfos m p codePath b =
     (if bp_numOfAbility p = 0 then Some (False, b)
      else let b = b\<lparr>bi_numOfAbility := bp_numOfAbility p\<rparr> in
        if \<not> m (Objects ''AbilityInfo'' (bp_numOfAbility p)) then Some (False, b\<lparr>bi_abilityInfos := None\<rparr>)
        else do {
          srcs \<leftarrow> bp_abilityInfos p;
          if length srcs < bp_numOfAbility p then None
          else do {
            (ok, as) \<leftarrow> set_abilities m p codePath [] (take (bp_numOfAbility p) srcs);
            Some (ok, b\<lparr>bi_abilityInfos := Some as\<rparr>) } })"

section \<open>The bundle\<close>

definition SetBundleInfo ::
    "allocator \<Rightarrow> BundleProfile \<Rightarrow> string \<Rightarrow> string \<Rightarrow> BundleInfo \<Rightarrow> (bool \<times> BundleInfo) option" where
  "SetBundleInfo m p installDirPath dataDirPath b =
     (if installDirPath = [] \<or> dataDirPath = [] then Some (False, b)
      else let b = b\<lparr>bi_isKeepAlive := bp_isKeepAlive p, bi_isNativeApp := bp_isNativeApp p,
                     bi_versionCode := sint (bp_versionCode p), bi_compatibleApi := bp_minApiVersion p,
                     bi_targetApi := (if bp_maxApiVersion p = 0 then bp_minApiVersion p
                                      else bp_maxApiVersion p)\<rparr>
      in do {
        name \<leftarrow> bp_bundleName p;
        let codePath = installDirPath @ PATH_SEPARATOR @ name;
        let dataPath = dataDirPath @ PATH_SEPARATOR @ name;
        if length codePath > PATH_LENGTH \<or> length dataPath > PATH_LENGTH then Some (False, b)
        else do {
          (ok, b) \<leftarrow>
            (if own_text (bp_iconPath p) DEFAULT_ICON_SETTING_BEGIN then do {
               iconPath \<leftarrow> icon_in codePath (mi_moduleName (bp_moduleInfo p)) (the (bp_iconPath p));
               if length iconPath > PATH_LENGTH then Some (False, b)
               else Some (map_prod id the (SetBundleInfoBigIconPath m (Some b) (Some iconPath))) }
             else Some (True, b));
          if \<not> ok then Some (False, b)
          else let (ok, b) = (if own_text (bp_label p) DEFAULT_LABEL_SETTING
                              then map_prod id the (SetBundleInfoLabel m (Some b) (bp_label p)) else (True, b)) in
          if \<not> ok then Some (False, b)
          else let (ok, b) = map_prod id the (SetBundleInfoBundleName m (Some b) (Some name)) in
          if \<not> ok then Some (False, b)
          else let (ok, b) = map_prod id the (SetBundleInfoVersionName m (Some b) (bp_versionName p)) in
          if \<not> ok then Some (False, b)
          else let (ok, b) = map_prod id the (SetBundleInfoCodePath m (Some b) (Some codePath)) in
          if \<not> ok then Some (False, b)
          else let (ok, b) = map_prod id the (SetBundleInfoDataPath m (Some b) (Some dataPath)) in
          if \<not> ok then Some (False, b)
          else let (ok, b) = (if bp_vendor p \<noteq> None
                              then map_prod id the (SetBundleInfoVendor m (Some b) (bp_vendor p)) else (True, b)) in
          if \<not> ok then Some (False, b)
          else let (ok, b) = SetModuleInfos m p b in
          if \<not> ok then Some (False, b)
          else if bp_numOfAbility p \<noteq> 0 then SetAbilityInfos m p codePath b
          else Some (True, b) } })"

text \<open>The directory part of a path: up to its last separator.\<close>

definition dir_of :: "string \<Rightarrow> string option" where
  "dir_of path = map_option (\<lambda>i. take i path) (rfind_char (CHR ''/'') path)"

text \<open>
  The second component is what \<open>*bundleInfo\<close> is left with: on the two early errors the cleared
  structure, which the caller frees.
\<close>

definition SaveBundleInfo ::
    "allocator \<Rightarrow> BundleInfo option \<Rightarrow> string \<Rightarrow> string \<Rightarrow> BundleProfile \<Rightarrow> (errcode \<times> BundleInfo option) option" where
  "SaveBundleInfo m old codeDir dataDir p =
     (if \<not> m (Objects ''BundleInfo'' 1) then Some (ERR_INSTALL_FAILED_INTERNAL_ERROR, None)
      else do {
        dirs \<leftarrow> (case old of
            None \<Rightarrow> Some (Some (codeDir, dataDir))
          | Some info \<Rightarrow> do {
              cp \<leftarrow> bi_codePath info;
              case dir_of cp of
                None \<Rightarrow> Some None
              | Some c \<Rightarrow> do {
                  dp \<leftarrow> bi_dataPath info;
                  Some (map_option (\<lambda>d. (c, d)) (dir_of dp)) } });
        case dirs of
          None \<Rightarrow> Some (ERR_INSTALL_FAILED_INTERNAL_ERROR, Some zero_BundleInfo)
        | Some (installDirPath, dataDirPath) \<Rightarrow> do {
            (ok, b) \<leftarrow> SetBundleInfo m p installDirPath dataDirPath zero_BundleInfo;
            if \<not> ok then Some (ERR_INSTALL_FAILED_INTERNAL_ERROR, None)
            else Some (ERR_OK, Some b) } })"

section \<open>The bundle of a profile\<close>

text \<open>What the structures hold, as functions of the profile.\<close>

definition kept :: "cstr \<Rightarrow> string \<Rightarrow> cstr" where
  "kept t refr = (if own_text t refr then t else None)"

definition icon_of :: "BundleProfile \<Rightarrow> string \<Rightarrow> cstr \<Rightarrow> cstr" where
  "icon_of p codePath icon =
     (if own_text icon DEFAULT_ICON_SETTING_BEGIN
      then icon_in codePath (mi_moduleName (bp_moduleInfo p)) (the icon) else None)"

definition short_path :: "cstr \<Rightarrow> bool" where
  "short_path t = (case t of None \<Rightarrow> True | Some s \<Rightarrow> length s \<le> PATH_LENGTH)"

definition ability_info_of :: "BundleProfile \<Rightarrow> string \<Rightarrow> AbilityInfo \<Rightarrow> AbilityInfo" where
  "ability_info_of p codePath src = zero_AbilityInfo
     \<lparr>ai_isVisible := ai_isVisible src, ai_abilityType := ai_abilityType src, ai_launchMode := ai_launchMode src,
      ai_moduleName := mi_moduleName (bp_moduleInfo p), ai_name := ai_name src,
      ai_description := kept (ai_description src) DEFAULT_DESC_SETTING,
      ai_iconPath := icon_of p codePath (ai_iconPath src),
      ai_label := kept (ai_label src) DEFAULT_LABEL_SETTING, ai_bundleName := bp_bundleName p\<rparr>"

definition module_info_of :: "BundleProfile \<Rightarrow> ModuleInfo" where
  "module_info_of p = (bp_moduleInfo p)
     \<lparr>mi_description := kept (mi_description (bp_moduleInfo p)) DEFAULT_DESC_SETTING\<rparr>"

definition bundle_info_of :: "BundleProfile \<Rightarrow> string \<Rightarrow> string \<Rightarrow> BundleInfo" where
  "bundle_info_of p installDir dataDir =
     (let codePath = installDir @ PATH_SEPARATOR @ the (bp_bundleName p) in zero_BundleInfo
      \<lparr>bi_isKeepAlive := bp_isKeepAlive p, bi_isNativeApp := bp_isNativeApp p,
       bi_versionCode := sint (bp_versionCode p), bi_compatibleApi := bp_minApiVersion p,
       bi_targetApi := (if bp_maxApiVersion p = 0 then bp_minApiVersion p else bp_maxApiVersion p),
       bi_bundleName := bp_bundleName p, bi_versionName := bp_versionName p,
       bi_codePath := Some codePath,
       bi_dataPath := Some (dataDir @ PATH_SEPARATOR @ the (bp_bundleName p)),
       bi_vendor := bp_vendor p, bi_label := kept (bp_label p) DEFAULT_LABEL_SETTING,
       bi_bigIconPath := icon_of p codePath (bp_iconPath p),
       bi_moduleInfos := Some [module_info_of p], bi_numOfModule := 1,
       bi_abilityInfos := (if bp_numOfAbility p = 0 then None
         else Some (map (ability_info_of p codePath) (the (bp_abilityInfos p)))),
       bi_numOfAbility := bp_numOfAbility p\<rparr>)"

text \<open>The paths are short enough for the buffers of the rest of the service.\<close>

definition paths_fit :: "BundleProfile \<Rightarrow> string \<Rightarrow> string \<Rightarrow> bool" where
  "paths_fit p installDir dataDir \<longleftrightarrow>
     (let codePath = installDir @ PATH_SEPARATOR @ the (bp_bundleName p) in
      installDir \<noteq> [] \<and> dataDir \<noteq> [] \<and> length codePath \<le> PATH_LENGTH \<and>
      length (dataDir @ PATH_SEPARATOR @ the (bp_bundleName p)) \<le> PATH_LENGTH \<and>
      short_path (icon_of p codePath (bp_iconPath p)) \<and>
      (case bp_abilityInfos p of None \<Rightarrow> True
       | Some as \<Rightarrow> list_all (\<lambda>a. short_path (icon_of p codePath (ai_iconPath a))) as))"

text \<open>A profile as the parser accepts it, with every string short enough for \<open>Strdup\<close>.\<close>

definition profile_ready :: "BundleProfile \<Rightarrow> bool" where
  "profile_ready p \<longleftrightarrow> profile_wf p \<and> ModuleInfo_ok (bp_moduleInfo p) \<and> fits (bp_label p) \<and>
     (case bp_abilityInfos p of None \<Rightarrow> True | Some as \<Rightarrow> list_all AbilityInfo_ok as)"

lemma fits_short: "short_path t \<Longrightarrow> fits t"
  by (auto simp: short_path_def fits_def split: option.splits)

lemma fits_Some: "length s \<le> 4096 \<Longrightarrow> fits (Some s)"
  by (simp add: fits_def)

lemma own_text_Some: "own_text t refr \<Longrightarrow> \<exists>s. t = Some s"
  by (auto simp: own_text_def)

lemma SetAbilityInfo_spec:
  assumes src: "AbilityInfo_ok src" "ai_name src = Some an"
    and p: "bp_bundleName p = Some n" "fits (Some n)" "mi_moduleName (bp_moduleInfo p) = Some mn" "fits (Some mn)"
  shows "\<exists>a. SetAbilityInfo plentiful p codePath src zero_AbilityInfo =
      Some (if short_path (icon_of p codePath (ai_iconPath src)) then (True, ability_info_of p codePath src)
            else (False, a))"
proof -
  have f: "fits (ai_description src)" "fits (ai_label src)" "fits (ai_name src)"
    using src by (auto simp: AbilityInfo_ok_def)
  show ?thesis
  proof (cases "own_text (ai_iconPath src) DEFAULT_ICON_SETTING_BEGIN")
    case True
    then obtain ic where ic: "ai_iconPath src = Some ic" by (auto simp: own_text_def)
    let ?path = "codePath @ PATH_SEPARATOR @ mn @ PATH_SEPARATOR @ ic"
    have icon: "icon_of p codePath (ai_iconPath src) = Some ?path"
      using True p by (simp add: icon_of_def icon_in_def ic)
    show ?thesis
    proof (cases "length ?path \<le> PATH_LENGTH")
      case True
      then have "fits (Some ?path)" by (simp add: fits_def)
      with True \<open>own_text (ai_iconPath src) DEFAULT_ICON_SETTING_BEGIN\<close> src(2) p f icon show ?thesis
        by (auto simp: SetAbilityInfo_def icon_in_def ic short_path_def ability_setters set_str_plentiful
            ability_info_of_def kept_def own_text_def zero_AbilityInfo_def)
    next
      case False
      with True p icon show ?thesis
        by (simp add: SetAbilityInfo_def icon_in_def ic short_path_def)
    qed
  next
    case False
    then have icon: "icon_of p codePath (ai_iconPath src) = None" by (simp add: icon_of_def)
    with False src(2) p f show ?thesis
      by (auto simp: SetAbilityInfo_def short_path_def ability_setters set_str_plentiful
          ability_info_of_def kept_def own_text_def zero_AbilityInfo_def)
  qed
qed

lemma set_abilities_spec:
  assumes "list_all AbilityInfo_ok srcs" "list_all (\<lambda>a. ai_name a \<noteq> None) srcs"
    and p: "bp_bundleName p = Some n" "fits (Some n)" "mi_moduleName (bp_moduleInfo p) = Some mn" "fits (Some mn)"
  shows "\<exists>as. set_abilities plentiful p codePath fin srcs =
      Some (if list_all (\<lambda>a. short_path (icon_of p codePath (ai_iconPath a))) srcs
            then (True, fin @ map (ability_info_of p codePath) srcs) else (False, as))"
  using assms(1,2)
proof (induction srcs arbitrary: fin)
  case Nil
  then show ?case by simp
next
  case (Cons src srcs)
  then obtain an where "AbilityInfo_ok src" "ai_name src = Some an" by auto
  from SetAbilityInfo_spec[OF this p, of codePath] obtain a where
    a: "SetAbilityInfo plentiful p codePath src zero_AbilityInfo =
      Some (if short_path (icon_of p codePath (ai_iconPath src)) then (True, ability_info_of p codePath src)
            else (False, a))" by blast
  from Cons.IH[of "fin @ [ability_info_of p codePath src]"] Cons.prems a show ?case by auto
qed

lemma SetModuleInfos_spec:
  assumes "ModuleInfo_ok (bp_moduleInfo p)"
    and "mi_moduleName (bp_moduleInfo p) = Some mn" "mi_moduleType (bp_moduleInfo p) = Some mt"
  shows "SetModuleInfos plentiful p b =
           (True, b\<lparr>bi_numOfModule := 1, bi_moduleInfos := Some [module_info_of p]\<rparr>)"
proof -
  let ?q = "bp_moduleInfo p"
  have f: "fits (mi_moduleName ?q)" "fits (mi_name ?q)" "fits (mi_description ?q)" "fits (mi_moduleType ?q)"
    using assms(1) by (auto simp: ModuleInfo_ok_def)
  have "copy_device_types plentiful (take DEVICE_TYPE_SIZE (mi_deviceType ?q)) = Some (mi_deviceType ?q)"
    "copy_metadata plentiful (take METADATA_SIZE (mi_metaData ?q)) = (True, mi_metaData ?q)"
    "length (mi_deviceType ?q) = DEVICE_TYPE_SIZE" "length (mi_metaData ?q) = METADATA_SIZE"
    using assms(1) by (auto simp: ModuleInfo_ok_def copy_device_types_plentiful copy_metadata_plentiful)
  then show ?thesis
    using f assms(2,3)
    by (cases ?q) (auto simp: SetModuleInfos_def plentiful_grants SetModuleInfoDeviceType_def
        SetModuleInfoMetaData_def module_setters set_str_plentiful zero_ModuleInfo_def module_info_of_def
        kept_def own_text_def Let_def)
qed

lemma abilities_of_wf:
  assumes "abilities_wf p" "bp_numOfAbility p \<noteq> 0"
  obtains srcs where "bp_abilityInfos p = Some srcs" "length srcs = bp_numOfAbility p"
    "list_all (\<lambda>a. ai_name a \<noteq> None) srcs"
  using assms by (auto simp: abilities_wf_def ability_of_def ability_wf_def list_all_iff split: option.splits)

lemma SetAbilityInfos_spec:
  assumes wf: "abilities_wf p" "bp_numOfAbility p \<noteq> 0"
    and ok: "case bp_abilityInfos p of None \<Rightarrow> True | Some as \<Rightarrow> list_all AbilityInfo_ok as"
    and p: "bp_bundleName p = Some n" "fits (Some n)" "mi_moduleName (bp_moduleInfo p) = Some mn" "fits (Some mn)"
  shows "\<exists>b'. SetAbilityInfos plentiful p codePath b =
      Some (if list_all (\<lambda>a. short_path (icon_of p codePath (ai_iconPath a))) (the (bp_abilityInfos p))
            then (True, b\<lparr>bi_numOfAbility := bp_numOfAbility p,
              bi_abilityInfos := Some (map (ability_info_of p codePath) (the (bp_abilityInfos p)))\<rparr>)
            else (False, b'))"
proof -
  from wf obtain srcs where s: "bp_abilityInfos p = Some srcs" "length srcs = bp_numOfAbility p"
    "list_all (\<lambda>a. ai_name a \<noteq> None) srcs" by (rule abilities_of_wf)
  with ok have "list_all AbilityInfo_ok srcs" by simp
  from set_abilities_spec[OF this s(3) p, of codePath "[]", unfolded append_Nil] obtain as where
    "set_abilities plentiful p codePath [] srcs =
      Some (if list_all (\<lambda>a. short_path (icon_of p codePath (ai_iconPath a))) srcs
            then (True, map (ability_info_of p codePath) srcs) else (False, as))" by blast
  with s wf(2) show ?thesis by (auto simp: SetAbilityInfos_def Let_def plentiful_grants)
qed

lemma SetBundleInfo_spec:
  assumes "profile_ready p"
  shows "\<exists>b. SetBundleInfo plentiful p installDir dataDir zero_BundleInfo =
      Some (if paths_fit p installDir dataDir then (True, bundle_info_of p installDir dataDir) else (False, b))"
proof -
  have wf: "profile_wf p" "module_wf (bp_moduleInfo p)" "abilities_wf p"
    and mok: "ModuleInfo_ok (bp_moduleInfo p)" and lab: "fits (bp_label p)"
    and aok: "case bp_abilityInfos p of None \<Rightarrow> True | Some as \<Rightarrow> list_all AbilityInfo_ok as"
    using assms by (auto simp: profile_ready_def profile_wf_def)
  obtain n v mn mt where n: "bp_bundleName p = Some n" "fits (Some n)"
    and v: "bp_versionName p = Some v" "fits (Some v)"
    and mn: "mi_moduleName (bp_moduleInfo p) = Some mn" "fits (Some mn)"
    and mt: "mi_moduleType (bp_moduleInfo p) = Some mt"
    using wf(1,2) by (auto simp: profile_wf_def module_wf_def fits_def)
  have ve: "fits (bp_vendor p)" using wf(1) by (auto simp: profile_wf_def fits_def split: option.splits)
  let ?code = "installDir @ PATH_SEPARATOR @ n"
  let ?data = "dataDir @ PATH_SEPARATOR @ n"
  note setM = SetModuleInfos_spec[OF mok mn(1) mt]
  have "\<exists>b'. bp_numOfAbility p \<noteq> 0 \<longrightarrow> SetAbilityInfos plentiful p ?code b =
      Some (if list_all (\<lambda>a. short_path (icon_of p ?code (ai_iconPath a))) (the (bp_abilityInfos p))
            then (True, b\<lparr>bi_numOfAbility := bp_numOfAbility p,
              bi_abilityInfos := Some (map (ability_info_of p ?code) (the (bp_abilityInfos p)))\<rparr>)
            else (False, b'))" for b
    using SetAbilityInfos_spec[OF wf(3) _ aok n mn] by blast
  then obtain bad where setA: "bp_numOfAbility p \<noteq> 0 \<Longrightarrow> SetAbilityInfos plentiful p ?code b =
      Some (if list_all (\<lambda>a. short_path (icon_of p ?code (ai_iconPath a))) (the (bp_abilityInfos p))
            then (True, b\<lparr>bi_numOfAbility := bp_numOfAbility p,
              bi_abilityInfos := Some (map (ability_info_of p ?code) (the (bp_abilityInfos p)))\<rparr>)
            else (False, bad b))" for b by metis
  let ?fit = "list_all (\<lambda>a. short_path (icon_of p ?code (ai_iconPath a))) (the (bp_abilityInfos p))"
  have fit: "(case bp_abilityInfos p of None \<Rightarrow> True
       | Some as \<Rightarrow> list_all (\<lambda>a. short_path (icon_of p ?code (ai_iconPath a))) as) \<longleftrightarrow>
     bp_numOfAbility p = 0 \<or> ?fit"
    using wf(3) by (auto simp: abilities_wf_def split: option.splits)
  have label: "(if own_text (bp_label p) DEFAULT_LABEL_SETTING
      then map_prod id the (SetBundleInfoLabel plentiful (Some b) (bp_label p)) else (True, b)) =
     (True, if own_text (bp_label p) DEFAULT_LABEL_SETTING then b\<lparr>bi_label := bp_label p\<rparr> else b)" for b
    using lab by (auto simp: SetBundleInfoLabel_def set_str_plentiful own_text_def)
  have vendor: "(if bp_vendor p \<noteq> None
      then map_prod id the (SetBundleInfoVendor plentiful (Some b) (bp_vendor p)) else (True, b)) =
     (True, if bp_vendor p \<noteq> None then b\<lparr>bi_vendor := bp_vendor p\<rparr> else b)" for b
    using ve by (auto simp: SetBundleInfoVendor_def set_str_plentiful)
  have fixed: "map_prod id the (SetBundleInfoBundleName plentiful (Some b) (Some n)) = (True, b\<lparr>bi_bundleName := Some n\<rparr>)"
    "map_prod id the (SetBundleInfoVersionName plentiful (Some b) (bp_versionName p)) = (True, b\<lparr>bi_versionName := Some v\<rparr>)"
    "length s \<le> 256 \<Longrightarrow> map_prod id the (SetBundleInfoCodePath plentiful (Some b) (Some s)) = (True, b\<lparr>bi_codePath := Some s\<rparr>)"
    "length s \<le> 256 \<Longrightarrow> map_prod id the (SetBundleInfoDataPath plentiful (Some b) (Some s)) = (True, b\<lparr>bi_dataPath := Some s\<rparr>)"
    "length s \<le> 256 \<Longrightarrow> map_prod id the (SetBundleInfoBigIconPath plentiful (Some b) (Some s)) = (True, b\<lparr>bi_bigIconPath := Some s\<rparr>)"
    for b s using n(2) v by (simp_all add: bundle_setters set_str_plentiful fits_Some)
  show ?thesis
  proof (cases "installDir \<noteq> [] \<and> dataDir \<noteq> [] \<and> length ?code \<le> PATH_LENGTH \<and> length ?data \<le> PATH_LENGTH")
    case False
    then show ?thesis by (auto simp: SetBundleInfo_def paths_fit_def n(1) Let_def)
  next
    case True
    let ?icon = "icon_of p ?code (bp_iconPath p)"
    show ?thesis
    proof (cases "short_path ?icon")
      case False
      with True show ?thesis
        by (auto simp: SetBundleInfo_def paths_fit_def icon_of_def icon_in_def short_path_def n(1) mn(1) Let_def split: if_splits)
    next
      case icon: True
      have bicon: "(if own_text (bp_iconPath p) DEFAULT_ICON_SETTING_BEGIN then do {
               iconPath \<leftarrow> icon_in ?code (mi_moduleName (bp_moduleInfo p)) (the (bp_iconPath p));
               if length iconPath > PATH_LENGTH then Some (False, b)
               else Some (map_prod id the (SetBundleInfoBigIconPath plentiful (Some b) (Some iconPath))) }
             else Some (True, b)) =
        Some (True, if own_text (bp_iconPath p) DEFAULT_ICON_SETTING_BEGIN then b\<lparr>bi_bigIconPath := ?icon\<rparr> else b)" for b
        using icon by (auto simp: icon_of_def icon_in_def short_path_def mn(1) fixed)
      have fit: "paths_fit p installDir dataDir \<longleftrightarrow> bp_numOfAbility p = 0 \<or> ?fit"
        unfolding paths_fit_def Let_def n(1) option.sel fit using True icon by blast
      have tests: "installDir \<noteq> []" "dataDir \<noteq> []" "\<not> PATH_LENGTH < length ?code" "\<not> PATH_LENGTH < length ?data"
        "length ?code \<le> 256" "length ?data \<le> 256" using True by auto
      let ?b = "bundle_info_of p installDir dataDir\<lparr>bi_numOfAbility := 0, bi_abilityInfos := None\<rparr>"
      have "SetBundleInfo plentiful p installDir dataDir zero_BundleInfo =
         (if bp_numOfAbility p \<noteq> 0 then SetAbilityInfos plentiful p ?code ?b else Some (True, ?b))"
        unfolding SetBundleInfo_def Let_def n(1) bind.bind_lunit tests(1,2) simp_thms if_False
          bicon label vendor fixed(1,2) fixed(3)[OF tests(5)] fixed(4)[OF tests(6)] prod.case setM
        apply (simp only: tests simp_thms if_False not_True_eq_False option.sel bind.bind_lunit prod.case if_True)
        apply (rule arg_cong2[where f = "\<lambda>x y. if bp_numOfAbility p \<noteq> 0 then x else y"]; 
          (rule arg_cong[where f = "SetAbilityInfos plentiful p ?code"] arg_cong[where f = "\<lambda>b. Some (True, b)"]))
        by (simp_all add: bundle_info_of_def zero_BundleInfo_def kept_def n(1) v(1) icon_of_def Let_def)
      moreover have "bundle_info_of p installDir dataDir = (if bp_numOfAbility p = 0 then ?b
          else ?b\<lparr>bi_numOfAbility := bp_numOfAbility p,
              bi_abilityInfos := Some (map (ability_info_of p ?code) (the (bp_abilityInfos p)))\<rparr>)"
        by (simp add: bundle_info_of_def n(1) Let_def zero_BundleInfo_def)
      ultimately obtain B where B: "SetBundleInfo plentiful p installDir dataDir zero_BundleInfo =
          (if bp_numOfAbility p \<noteq> 0 then SetAbilityInfos plentiful p ?code B else Some (True, B))"
        "bundle_info_of p installDir dataDir = (if bp_numOfAbility p = 0 then B
          else B\<lparr>bi_numOfAbility := bp_numOfAbility p,
              bi_abilityInfos := Some (map (ability_info_of p ?code) (the (bp_abilityInfos p)))\<rparr>)" by blast
      show ?thesis
      proof (cases "bp_numOfAbility p = 0")
        case True
        with B fit show ?thesis by (simp only: if_True not_True_eq_False if_False simp_thms)
      next
        case False
        with B setA[OF False, of B] fit show ?thesis
          by (simp only: if_True not_False_eq_True if_False simp_thms) (rule exI, rule refl)
      qed
    qed
  qed
qed

section \<open>Texts and icons from the resource index\<close>

type_synonym resources = "nat \<Rightarrow> string \<Rightarrow> int \<times> cstr"

text \<open>\<open>moduleInfos[0].moduleName\<close>.\<close>

definition first_module :: "BundleInfo \<Rightarrow> string option" where
  "first_module b = do {
     ms \<leftarrow> bi_moduleInfos b;
     case ms of [] \<Rightarrow> None | mi # _ \<Rightarrow> mi_moduleName mi }"

text \<open>A setter applied to \<open>abilityInfos + index\<close>; the null pointer itself is one the setters test.\<close>

definition on_ability_at ::
    "nat \<Rightarrow> (AbilityInfo option \<Rightarrow> bool \<times> AbilityInfo option) \<Rightarrow> BundleInfo \<Rightarrow> (bool \<times> BundleInfo) option" where
  "on_ability_at index f b =
     (case bi_abilityInfos b of
        None \<Rightarrow> if index = 0 then Some (fst (f None), b) else None
      | Some as \<Rightarrow>
          if index < length as
          then let (ok, a) = f (Some (as ! index)) in
            Some (ok, b\<lparr>bi_abilityInfos := Some (as[index := the a])\<rparr>)
          else None)"

definition ConvertIconResToBundleInfo ::
    "allocator \<Rightarrow> posix \<Rightarrow> resources \<Rightarrow> string \<Rightarrow> nat \<Rightarrow> nat \<Rightarrow> BundleInfo \<Rightarrow> (bool \<times> BundleInfo) option" where
  "ConvertIconResToBundleInfo m px res path iconId index b =
     (if path = [] then Some (False, b)
      else if \<not> IsFile px (Some path) then Some (False, b)
      else let (r, relativeIconPath) = res iconId path in
        if r \<noteq> 0 then Some (False, b)
        else do {
          codePath \<leftarrow> bi_codePath b;
          mn \<leftarrow> first_module b;
          rel \<leftarrow> relativeIconPath;
          let iconPath = codePath @ PATH_SEPARATOR @ mn @ ASSETS @ rel;
          if \<not> IsFile px (Some iconPath) then Some (False, b)
          else let (ok, b) = (if index = 0
                              then map_prod id the (SetBundleInfoBigIconPath m (Some b) (Some iconPath))
                              else (True, b)) in
            if \<not> ok then Some (False, b)
            else on_ability_at index (\<lambda>a. SetAbilityInfoIconPath m a (Some iconPath)) b })"

definition ConvertLableResToBundleInfo ::
    "allocator \<Rightarrow> posix \<Rightarrow> resources \<Rightarrow> string \<Rightarrow> nat \<Rightarrow> nat \<Rightarrow> BundleInfo \<Rightarrow> (bool \<times> BundleInfo) option" where
  "ConvertLableResToBundleInfo m px res path labelId index b =
     (if path = [] then Some (False, b)
      else if \<not> IsFile px (Some path) then Some (False, b)
      else let (r, label) = res labelId path in
        if r \<noteq> 0 then Some (False, b)
        else let (ok, b) = (if index = 0 then map_prod id the (SetBundleInfoLabel m (Some b) label)
                            else (True, b)) in
          if \<not> ok then Some (False, b)
          else on_ability_at index (\<lambda>a. SetAbilityInfoLabel m a label) b)"

definition ConvertDesResIdToBundleInfo ::
    "allocator \<Rightarrow> posix \<Rightarrow> resources \<Rightarrow> string \<Rightarrow> nat \<Rightarrow> nat \<Rightarrow> BundleInfo \<Rightarrow> (bool \<times> BundleInfo) option" where
  "ConvertDesResIdToBundleInfo m px res path desId index b =
     (if path = [] then Some (False, b)
      else if \<not> IsFile px (Some path) then Some (False, b)
      else let (r, description) = res desId path in
        if r \<noteq> 0 then Some (False, b)
        else on_ability_at index (\<lambda>a. SetAbilityInfoDescription m a description) b)"

text \<open>One round of the loop over \<open>abilityRes\<close>, and the loop.\<close>

definition convert_ability_res ::
    "allocator \<Rightarrow> posix \<Rightarrow> resources \<Rightarrow> string \<Rightarrow> AbilityRes \<Rightarrow> nat \<Rightarrow> BundleInfo \<Rightarrow> (errcode \<times> BundleInfo) option" where
  "convert_ability_res m px res resPath ar i b = do {
     (ok, b) \<leftarrow> (if ar_iconId ar > 0 then ConvertIconResToBundleInfo m px res resPath (ar_iconId ar) i b
                 else Some (True, b));
     if \<not> ok then Some (ERR_INSTALL_FAILED_PARSE_ICON_RES_ERROR, b)
     else do {
       (ok, b) \<leftarrow> (if ar_labelId ar > 0 then ConvertLableResToBundleInfo m px res resPath (ar_labelId ar) i b
                   else Some (True, b));
       if \<not> ok then Some (ERR_INSTALL_FAILED_PARSE_LABEL_RES_ERROR, b)
       else do {
         (ok, b) \<leftarrow> (if ar_descriptionId ar > 0
                     then ConvertDesResIdToBundleInfo m px res resPath (ar_descriptionId ar) i b
                     else Some (True, b));
         Some (if ok then ERR_OK else ERR_INSTALL_FAILED_PARSE_DESCRIPTION_RES_ERROR, b) } } }"

fun convert_res_loop ::
    "allocator \<Rightarrow> posix \<Rightarrow> resources \<Rightarrow> string \<Rightarrow> AbilityRes list \<Rightarrow> nat \<Rightarrow> BundleInfo \<Rightarrow> (errcode \<times> BundleInfo) option" where
  "convert_res_loop m px res resPath [] i b = Some (ERR_OK, b)"
| "convert_res_loop m px res resPath (ar # ars) i b = do {
     (e, b) \<leftarrow> convert_ability_res m px res resPath ar i b;
     if e \<noteq> ERR_OK then Some (e, b) else convert_res_loop m px res resPath ars (i + 1) b }"

text \<open>The description of the module.\<close>

definition describe_module ::
    "allocator \<Rightarrow> posix \<Rightarrow> resources \<Rightarrow> string \<Rightarrow> nat \<Rightarrow> BundleInfo \<Rightarrow> (errcode \<times> BundleInfo) option" where
  "describe_module m px res resPath desId b =
     (if desId > 0 then
        (if \<not> IsFile px (Some resPath) then Some (ERR_INSTALL_FAILED_RESOURCE_INDEX_NOT_EXISTS, b)
         else let (c, des) = res desId resPath in
           if c < 0 then Some (ERR_INSTALL_FAILED_PARSE_DESCRIPTION_RES_ERROR, b)
           else do {
             ms \<leftarrow> bi_moduleInfos b;
             let (ok, mi) = SetModuleInfoDescription m (Some (hd ms)) des;
             Some (if ok then ERR_OK else ERR_INSTALL_FAILED_INTERNAL_ERROR,
                   b\<lparr>bi_moduleInfos := Some (the mi # tl ms)\<rparr>) })
      else Some (ERR_OK, b))"

definition ConvertResInfoToBundleInfo ::
    "allocator \<Rightarrow> posix \<Rightarrow> resources \<Rightarrow> string \<Rightarrow> BundleRes \<Rightarrow> BundleInfo \<Rightarrow> (errcode \<times> BundleInfo) option" where
  "ConvertResInfoToBundleInfo m px res path r b =
     (if br_totalNumOfAbilityRes r = 0 \<or> bi_isNativeApp b then Some (ERR_OK, b)
      else do {
        mn \<leftarrow> first_module b;
        let resPath = path @ PATH_SEPARATOR @ mn @ ASSETS @ mn @ RESOURCES_INDEX;
        (e, b) \<leftarrow> describe_module m px res resPath (br_moduleDescriptionId r) b;
        if e \<noteq> ERR_OK then Some (e, b)
        else do {
          ars \<leftarrow> br_abilityRes r;
          if length ars < br_totalNumOfAbilityRes r then None
          else convert_res_loop m px res resPath (take (br_totalNumOfAbilityRes r) ars) 0 b } })"

definition CreateBundleInfo ::
    "allocator \<Rightarrow> posix \<Rightarrow> resources \<Rightarrow> BundleProfile \<Rightarrow> string \<Rightarrow> string \<Rightarrow> BundleRes \<Rightarrow> BundleInfo option option" where
  "CreateBundleInfo m px res p installDirPath dataDirPath r =
     (if \<not> m (Objects ''BundleInfo'' 1) then Some None
      else do {
        (ok, b) \<leftarrow> SetBundleInfo m p installDirPath dataDirPath zero_BundleInfo;
        if \<not> ok then Some None
        else do {
          codePath \<leftarrow> bi_codePath b;
          (e, b) \<leftarrow> ConvertResInfoToBundleInfo m px res codePath r b;
          Some (if e \<noteq> ERR_OK then None else Some b) } })"

section \<open>Where a bundle is installed\<close>

text \<open>The directories a new bundle is put in: those of the installed bundle of the same name, if any.\<close>

definition install_dirs :: "BundleInfo option \<Rightarrow> string \<Rightarrow> string \<Rightarrow> (string \<times> string) option" where
  "install_dirs old codeDir dataDir =
     (case old of
        None \<Rightarrow> Some (codeDir, dataDir)
      | Some info \<Rightarrow> do {
          cp \<leftarrow> bi_codePath info; dp \<leftarrow> bi_dataPath info;
          c \<leftarrow> dir_of cp; d \<leftarrow> dir_of dp; Some (c, d) })"

lemma dir_of_child: "CHR ''/'' \<notin> set n \<Longrightarrow> dir_of (d @ PATH_SEPARATOR @ n) = Some d"
  by (simp add: dir_of_def rfind_char_append_notin)

lemma SaveBundleInfo_spec:
  assumes "profile_ready p" "install_dirs old codeDir dataDir = Some (c, d)"
  shows "SaveBundleInfo plentiful old codeDir dataDir p =
     Some (if paths_fit p c d then (ERR_OK, Some (bundle_info_of p c d))
           else (ERR_INSTALL_FAILED_INTERNAL_ERROR, None))"
proof -
  from SetBundleInfo_spec[OF assms(1)] obtain b where
    b: "SetBundleInfo plentiful p c d zero_BundleInfo =
      Some (if paths_fit p c d then (True, bundle_info_of p c d) else (False, b))" by blast
  show ?thesis
  proof (cases old)
    case None
    with assms(2) b show ?thesis by (simp add: SaveBundleInfo_def install_dirs_def plentiful_grants)
  next
    case (Some info)
    with assms(2) obtain cp dp where "bi_codePath info = Some cp" "bi_dataPath info = Some dp"
      "dir_of cp = Some c" "dir_of dp = Some d" by (auto simp: install_dirs_def bind_Some_iff)
    with Some b show ?thesis by (simp add: SaveBundleInfo_def plentiful_grants)
  qed
qed

lemma parts_chars: "c \<in> set n \<Longrightarrow> c = CHR ''.'' \<or> (\<exists>p \<in> set (dot_parts n). c \<in> set p)"
  by (induction n) (auto split: list.splits)

lemma dotted_no_separator: "dotted_name n \<Longrightarrow> CHR ''/'' \<notin> set n"
proof
  assume n: "dotted_name n" and "CHR ''/'' \<in> set n"
  then obtain p where "p \<in> set (dot_parts n)" "CHR ''/'' \<in> set p" using parts_chars by blast
  with n have "CHR ''/'' \<in> set word_chars" by (auto simp: dotted_name_def list_all_iff word_part_def)
  then show False by (simp add: word_chars_def)
qed

text \<open>A small profile, to evaluate the creator on.\<close>

definition sample_profile :: BundleProfile where
  "sample_profile = zero_BundleProfile
     \<lparr>bp_bundleName := Some ''com.a.b'', bp_versionName := Some ''1'', bp_versionCode := 1,
      bp_moduleInfo := zero_ModuleInfo\<lparr>mi_moduleName := Some ''m'', mi_moduleType := Some MODULE_ENTRY,
        mi_deviceType := Some DEFAULT_DEVICE_TYPE # replicate 15 None\<rparr>\<rparr>"

lemma sample_profile_ready: "profile_ready sample_profile"
proof -
  have "dotted_name ''com.a.b''"
    using sample_name by (simp add: CheckBundleNameIsValid_iff)
  then show ?thesis
    by (simp add: profile_ready_def profile_wf_def sample_profile_def zero_defs module_wf_def abilities_wf_def
        ModuleInfo_ok_def fits_def metadata_wf_def list_all_iff contains_def)
qed

lemma paths_sample: "paths_fit sample_profile ''/storage/app/run'' ''/storage/app/data''"
  by (simp add: paths_fit_def sample_profile_def zero_defs icon_of_def own_text_def short_path_def)

subsection \<open>The properties\<close>

text \<open>With enough memory \<open>SaveBundleInfo\<close> turns a ready profile into exactly the bundle it describes, in the
  directories of the installed bundle of that name or else of the installer, and fails precisely when
  a path would exceed 256 characters.\<close>

theorem SaveBundleInfo_of_profile:
  assumes "profile_ready p" and "install_dirs old codeDir dataDir = Some (c, d)"
  shows "SaveBundleInfo plentiful old codeDir dataDir p =
     Some (if paths_fit p c d then (ERR_OK, Some (bundle_info_of p c d))
           else (ERR_INSTALL_FAILED_INTERNAL_ERROR, None))"
  using assms by (rule SaveBundleInfo_spec)

theorem SaveBundleInfo_of_profile_witness:
  "SaveBundleInfo plentiful None ''/storage/app/run'' ''/storage/app/data'' sample_profile =
     Some (ERR_OK, Some (bundle_info_of sample_profile ''/storage/app/run'' ''/storage/app/data''))"
  using SaveBundleInfo_of_profile[OF sample_profile_ready, of None "''/storage/app/run''" "''/storage/app/data''"]
  by (simp add: install_dirs_def paths_sample)

text \<open>An update stays where the bundle is: when the registered bundle of the name lies at \<open>c/n\<close> and \<open>d/n\<close>,
  the bundle made from a profile named \<open>n\<close> has exactly these two paths.\<close>

theorem SaveBundleInfo_keeps_paths:
  assumes "profile_ready p" and "bp_bundleName p = Some n"
    and "bi_codePath info = Some (c @ PATH_SEPARATOR @ n)" and "bi_dataPath info = Some (d @ PATH_SEPARATOR @ n)"
    and "SaveBundleInfo plentiful (Some info) codeDir dataDir p = Some (ERR_OK, Some b)"
  shows "bi_codePath b = bi_codePath info \<and> bi_dataPath b = bi_dataPath info \<and> bi_bundleName b = Some n"
proof -
  have "CHR ''/'' \<notin> set n"
    using assms(1,2) by (auto simp: profile_ready_def profile_wf_def dest: dotted_no_separator)
  then have "dir_of (c @ PATH_SEPARATOR @ n) = Some c" "dir_of (d @ PATH_SEPARATOR @ n) = Some d"
    by (simp_all only: dir_of_child not_False_eq_True)
  then have "install_dirs (Some info) codeDir dataDir = Some (c, d)"
    using assms(3,4) by (simp add: install_dirs_def)
  from SaveBundleInfo_spec[OF assms(1) this] assms(5) have "b = bundle_info_of p c d"
    by (auto split: if_splits)
  then show ?thesis using assms(2-4) by (simp add: bundle_info_of_def Let_def)
qed

theorem SaveBundleInfo_keeps_paths_witness:
  "\<exists>b. SaveBundleInfo plentiful
      (Some (zero_BundleInfo\<lparr>bi_codePath := Some ''/sdcard/app/run/com.a.b'', bi_dataPath := Some ''/sdcard/app/data/com.a.b''\<rparr>))
      ''/storage/app/run'' ''/storage/app/data'' sample_profile = Some (ERR_OK, Some b) \<and>
    bi_codePath b = Some ''/sdcard/app/run/com.a.b''"
proof -
  let ?info = "zero_BundleInfo\<lparr>bi_codePath := Some ''/sdcard/app/run/com.a.b'', bi_dataPath := Some ''/sdcard/app/data/com.a.b''\<rparr>"
  have "install_dirs (Some ?info) ''/storage/app/run'' ''/storage/app/data'' = Some (''/sdcard/app/run'', ''/sdcard/app/data'')"
    by (simp add: install_dirs_def zero_defs dir_of_def)
  moreover have "paths_fit sample_profile ''/sdcard/app/run'' ''/sdcard/app/data''"
    by (simp add: paths_fit_def sample_profile_def zero_defs icon_of_def own_text_def short_path_def)
  ultimately have r: "SaveBundleInfo plentiful (Some ?info) ''/storage/app/run'' ''/storage/app/data'' sample_profile =
     Some (ERR_OK, Some (bundle_info_of sample_profile ''/sdcard/app/run'' ''/sdcard/app/data''))"
    using SaveBundleInfo_spec[OF sample_profile_ready] by simp
  have "bi_codePath (bundle_info_of sample_profile ''/sdcard/app/run'' ''/sdcard/app/data'') = bi_codePath ?info"
    using SaveBundleInfo_keeps_paths[OF sample_profile_ready _ _ _ r, of "''com.a.b''" "''/sdcard/app/run''" "''/sdcard/app/data''"]
    by (simp add: sample_profile_def zero_defs)
  with r show ?thesis by simp
qed

section \<open>What a bundle that was made holds\<close>

text \<open>Under any behaviour of the allocator.\<close>

lemma Strdup_same: "Strdup m s = Some r \<Longrightarrow> s = Some r"
  by (auto simp: Strdup_def split: option.splits if_splits)

lemma set_str_OK: "set_str m field (Some r) s = (True, q) \<Longrightarrow> s \<noteq> None \<and> q = Some (field (\<lambda>_. s) r)"
  by (auto simp: set_str_def Let_def dest: Strdup_same split: option.splits)

lemma SetModuleInfos_OK:
  assumes "SetModuleInfos m p b = (True, b')"
  shows "\<exists>mi. b' = b\<lparr>bi_numOfModule := 1, bi_moduleInfos := Some [mi]\<rparr> \<and>
           mi_moduleName mi = mi_moduleName (bp_moduleInfo p) \<and> mi_moduleName mi \<noteq> None"
proof -
  let ?q = "bp_moduleInfo p"
  have dt: "SetModuleInfoDeviceType m (Some x) ds k = (ok, mi) \<Longrightarrow> \<exists>x'. mi = Some x'" for x ds k ok mi
    by (auto simp: SetModuleInfoDeviceType_def Let_def split: option.splits if_splits)
  have md: "SetModuleInfoMetaData m (Some x) ds k = (ok, mi) \<Longrightarrow> \<exists>x'. mi = Some x'" for x ds k ok mi
    by (auto simp: SetModuleInfoMetaData_def Let_def split: option.splits if_splits prod.splits)
  from assms obtain x1 x2 x3 x4 x5 x6 where
    1: "SetModuleInfoDeviceType m (Some zero_ModuleInfo) (Some (mi_deviceType ?q)) DEVICE_TYPE_SIZE = (True, x1)" and
    2: "SetModuleInfoMetaData m x1 (Some (mi_metaData ?q)) METADATA_SIZE = (True, x2)" and
    3: "(if own_text (mi_description ?q) DEFAULT_DESC_SETTING
         then SetModuleInfoDescription m x2 (mi_description ?q) else (True, x2)) = (True, x3)" and
    4: "(if mi_name ?q \<noteq> None then SetModuleInfoName m x3 (mi_name ?q) else (True, x3)) = (True, x4)" and
    5: "SetModuleInfoModuleName m x4 (mi_moduleName ?q) = (True, x5)" and
    6: "SetModuleInfoModuleType m x5 (mi_moduleType ?q) = (True, x6)" and
    7: "b' = b\<lparr>bi_numOfModule := 1, bi_moduleInfos := Some [the (map_option (\<lambda>x. x\<lparr>mi_isDeliveryInstall := mi_isDeliveryInstall ?q\<rparr>) x6)]\<rparr>"
    unfolding SetModuleInfos_def Let_def by (auto split: if_splits prod.splits)
  from dt[OF 1] obtain y1 where "x1 = Some y1" by blast
  with md 2 obtain y2 where y2: "x2 = Some y2" by blast
  with 3 obtain y3 where y3: "x3 = Some y3"
    by (auto simp: SetModuleInfoDescription_def split: if_splits dest: set_str_OK)
  with 4 obtain y4 where y4: "x4 = Some y4" by (auto simp: SetModuleInfoName_def split: if_splits dest: set_str_OK)
  from 5 y4 have y5: "x5 = Some (y4\<lparr>mi_moduleName := mi_moduleName ?q\<rparr>)" "mi_moduleName ?q \<noteq> None"
    by (auto simp: SetModuleInfoModuleName_def dest!: set_str_OK)
  from 6 y5 have "x6 = Some (y4\<lparr>mi_moduleName := mi_moduleName ?q, mi_moduleType := mi_moduleType ?q\<rparr>)"
    by (auto simp: SetModuleInfoModuleType_def dest!: set_str_OK)
  with 7 y5(2) show ?thesis by auto
qed

lemma SetAbilityInfos_OK:
  "SetAbilityInfos m p codePath b = Some (True, b') \<Longrightarrow>
   \<exists>as. b' = b\<lparr>bi_numOfAbility := bp_numOfAbility p, bi_abilityInfos := Some as\<rparr>"
  by (auto simp: SetAbilityInfos_def Let_def bind_Some_iff split: if_splits)

lemma SetBundleInfo_OK:
  assumes "SetBundleInfo m p i d b0 = Some (True, b)"
  shows "\<exists>n mi mn. bp_bundleName p = Some n \<and> bi_bundleName b = Some n \<and>
     bi_codePath b = Some (i @ PATH_SEPARATOR @ n) \<and> bi_dataPath b = Some (d @ PATH_SEPARATOR @ n) \<and>
     bi_versionCode b = sint (bp_versionCode p) \<and> bi_appId b = bi_appId b0 \<and>
     bi_moduleInfos b = Some [mi] \<and> mi_moduleName mi = Some mn \<and> mi_moduleName (bp_moduleInfo p) = Some mn"
proof -
  from assms obtain n where n: "bp_bundleName p = Some n"
    by (auto simp: SetBundleInfo_def Let_def bind_Some_iff split: if_splits)
  let ?code = "i @ PATH_SEPARATOR @ n" let ?data = "d @ PATH_SEPARATOR @ n"
  define b1 where "b1 = b0\<lparr>bi_isKeepAlive := bp_isKeepAlive p, bi_isNativeApp := bp_isNativeApp p,
                     bi_versionCode := sint (bp_versionCode p), bi_compatibleApi := bp_minApiVersion p,
                     bi_targetApi := (if bp_maxApiVersion p = 0 then bp_minApiVersion p
                                      else bp_maxApiVersion p)\<rparr>"
  from assms obtain b2 b3 b4 b5 b6 b7 b8 b9 where
    2: "(if own_text (bp_iconPath p) DEFAULT_ICON_SETTING_BEGIN then do {
               iconPath \<leftarrow> icon_in ?code (mi_moduleName (bp_moduleInfo p)) (the (bp_iconPath p));
               if length iconPath > PATH_LENGTH then Some (False, b1)
               else Some (map_prod id the (SetBundleInfoBigIconPath m (Some b1) (Some iconPath))) }
             else Some (True, b1)) = Some (True, b2)" and
    3: "(if own_text (bp_label p) DEFAULT_LABEL_SETTING
         then map_prod id the (SetBundleInfoLabel m (Some b2) (bp_label p)) else (True, b2)) = (True, b3)" and
    4: "map_prod id the (SetBundleInfoBundleName m (Some b3) (Some n)) = (True, b4)" and
    5: "map_prod id the (SetBundleInfoVersionName m (Some b4) (bp_versionName p)) = (True, b5)" and
    6: "map_prod id the (SetBundleInfoCodePath m (Some b5) (Some ?code)) = (True, b6)" and
    7: "map_prod id the (SetBundleInfoDataPath m (Some b6) (Some ?data)) = (True, b7)" and
    8: "(if bp_vendor p \<noteq> None then map_prod id the (SetBundleInfoVendor m (Some b7) (bp_vendor p)) else (True, b7)) = (True, b8)" and
    9: "SetModuleInfos m p b8 = (True, b9)" and
    10: "(if bp_numOfAbility p \<noteq> 0 then SetAbilityInfos m p ?code b9 else Some (True, b9)) = Some (True, b)"
    unfolding SetBundleInfo_def Let_def n bind.bind_lunit b1_def[symmetric]
    by (auto simp: bind_Some_iff split: if_splits prod.splits)
  have s: "map_prod id the (set_str m f (Some r) x) = (True, q) \<Longrightarrow> x \<noteq> None \<and> q = f (\<lambda>_. x) r"
    for f :: "(cstr \<Rightarrow> cstr) \<Rightarrow> BundleInfo \<Rightarrow> BundleInfo" and r x q
    by (cases "set_str m f (Some r) x") (auto dest: set_str_OK)
  have e2: "b2 = b1\<lparr>bi_bigIconPath := bi_bigIconPath b2\<rparr>"
    using 2 by (auto simp: SetBundleInfoBigIconPath_def bind_Some_iff dest!: s split: if_splits)
  have e3: "b3 = b2\<lparr>bi_label := bi_label b3\<rparr>"
    using 3 by (auto simp: SetBundleInfoLabel_def dest!: s split: if_splits)
  have e4: "b4 = b3\<lparr>bi_bundleName := Some n\<rparr>" using 4 by (auto simp: SetBundleInfoBundleName_def dest!: s)
  have e5: "b5 = b4\<lparr>bi_versionName := bp_versionName p\<rparr>" using 5 by (auto simp: SetBundleInfoVersionName_def dest!: s)
  have e6: "b6 = b5\<lparr>bi_codePath := Some ?code\<rparr>" using 6 by (auto simp: SetBundleInfoCodePath_def dest!: s)
  have e7: "b7 = b6\<lparr>bi_dataPath := Some ?data\<rparr>" using 7 by (auto simp: SetBundleInfoDataPath_def dest!: s)
  have e8: "b8 = b7\<lparr>bi_vendor := bi_vendor b8\<rparr>"
    using 8 by (auto simp: SetBundleInfoVendor_def dest!: s split: if_splits)
  from SetModuleInfos_OK[OF 9] obtain mi where
    e9: "b9 = b8\<lparr>bi_numOfModule := 1, bi_moduleInfos := Some [mi]\<rparr>" and
    mi: "mi_moduleName mi = mi_moduleName (bp_moduleInfo p)" "mi_moduleName mi \<noteq> None" by blast
  have e10: "\<exists>k as. b = b9\<lparr>bi_numOfAbility := k, bi_abilityInfos := as\<rparr>"
  proof (cases "bp_numOfAbility p = 0")
    case True
    with 10 show ?thesis by (intro exI[of _ "bi_numOfAbility b9"] exI[of _ "bi_abilityInfos b9"]) simp
  next
    case False
    with 10 SetAbilityInfos_OK show ?thesis by fastforce
  qed
  have k: "bi_bundleName b = bi_bundleName b4 \<and> bi_codePath b = bi_codePath b6 \<and> bi_dataPath b = bi_dataPath b7 \<and>
      bi_versionCode b = bi_versionCode b1 \<and> bi_appId b = bi_appId b1 \<and> bi_moduleInfos b = Some [mi]"
  proof -
    have c8: "bi_bundleName b8 = bi_bundleName b7 \<and> bi_codePath b8 = bi_codePath b7 \<and> bi_dataPath b8 = bi_dataPath b7 \<and>
      bi_versionCode b8 = bi_versionCode b7 \<and> bi_appId b8 = bi_appId b7" by (subst (1 2 3 4 5) e8) simp
    have c3: "bi_versionCode b3 = bi_versionCode b2 \<and> bi_appId b3 = bi_appId b2" by (subst (1 2) e3) simp
    have c2: "bi_versionCode b2 = bi_versionCode b1 \<and> bi_appId b2 = bi_appId b1" by (subst (1 2) e2) simp
    from e10 c8 c3 c2 show ?thesis by (auto simp: e9 e7 e6 e5 e4)
  qed
  moreover have "bi_versionCode b1 = sint (bp_versionCode p) \<and> bi_appId b1 = bi_appId b0" by (simp add: b1_def)
  moreover have "bi_dataPath b7 = Some ?data" "bi_codePath b6 = Some ?code" "bi_bundleName b4 = Some n"
    by (simp_all add: e4 e6 e7)
  ultimately show ?thesis using n mi by auto
qed

section \<open>What the resources change\<close>

definition res_update :: "BundleInfo \<Rightarrow> BundleInfo \<Rightarrow> bool" where
  "res_update b b' \<longleftrightarrow> b' = b\<lparr>bi_moduleInfos := bi_moduleInfos b', bi_bigIconPath := bi_bigIconPath b',
      bi_label := bi_label b', bi_abilityInfos := bi_abilityInfos b'\<rparr>"

lemma res_update_refl: "res_update b b"
  by (simp add: res_update_def)

lemma res_update_trans: "res_update a b \<Longrightarrow> res_update b c \<Longrightarrow> res_update a c"
proof -
  assume "res_update a b" "res_update b c"
  then show ?thesis unfolding res_update_def by (cases a; cases b; cases c) simp
qed

lemma res_update_fields: "res_update b b' \<Longrightarrow> bi_bundleName b' = bi_bundleName b \<and> bi_codePath b' = bi_codePath b \<and>
    bi_dataPath b' = bi_dataPath b \<and> bi_versionCode b' = bi_versionCode b \<and> bi_appId b' = bi_appId b \<and>
    bi_uid b' = bi_uid b \<and> bi_gid b' = bi_gid b \<and> bi_vendor b' = bi_vendor b \<and>
    bi_versionName b' = bi_versionName b \<and> bi_isSystemApp b' = bi_isSystemApp b"
  unfolding res_update_def by (cases b; cases b') simp

lemma res_update_icon: "map_prod id the (SetBundleInfoBigIconPath m (Some b) p) = (ok, b') \<Longrightarrow> res_update b b'"
  by (auto simp: SetBundleInfoBigIconPath_def set_str_def Let_def res_update_def split: option.splits)

lemma res_update_label: "map_prod id the (SetBundleInfoLabel m (Some b) p) = (ok, b') \<Longrightarrow> res_update b b'"
  by (auto simp: SetBundleInfoLabel_def set_str_def Let_def res_update_def split: option.splits)

lemma res_update_ability: "on_ability_at i f b = Some (ok, b') \<Longrightarrow> res_update b b'"
  by (auto simp: on_ability_at_def res_update_def Let_def split: option.splits if_splits prod.splits)

lemma res_update_icon_step: "ConvertIconResToBundleInfo m px res path rid i b = Some (ok, b') \<Longrightarrow> res_update b b'"
  unfolding ConvertIconResToBundleInfo_def Let_def
  by (fastforce simp: bind_Some_iff res_update_refl
      dest: res_update_ability res_update_icon elim: res_update_trans split: if_splits prod.splits)

lemma res_update_label_step: "ConvertLableResToBundleInfo m px res path rid i b = Some (ok, b') \<Longrightarrow> res_update b b'"
  unfolding ConvertLableResToBundleInfo_def Let_def
  by (fastforce simp: res_update_refl
      dest: res_update_ability res_update_label elim: res_update_trans split: if_splits prod.splits)

lemma res_update_des_step: "ConvertDesResIdToBundleInfo m px res path rid i b = Some (ok, b') \<Longrightarrow> res_update b b'"
  unfolding ConvertDesResIdToBundleInfo_def Let_def
  by (auto simp: res_update_refl dest: res_update_ability split: if_splits prod.splits)

lemma res_update_one:
  assumes "convert_ability_res m px res path ar i b = Some (e, b')"
  shows "res_update b b'"
proof -
  let ?icon = "if ar_iconId ar > 0 then ConvertIconResToBundleInfo m px res path (ar_iconId ar) i b else Some (True, b)"
  let ?label = "\<lambda>b. if ar_labelId ar > 0 then ConvertLableResToBundleInfo m px res path (ar_labelId ar) i b else Some (True, b)"
  let ?des = "\<lambda>b. if ar_descriptionId ar > 0 then ConvertDesResIdToBundleInfo m px res path (ar_descriptionId ar) i b else Some (True, b)"
  from assms obtain o1 b1 where 1: "?icon = Some (o1, b1)"
    by (auto simp: convert_ability_res_def bind_Some_iff)
  have u1: "res_update b b1" using 1 by (auto simp: res_update_refl intro: res_update_icon_step split: if_splits)
  show ?thesis
  proof (cases o1)
    case False
    with 1 assms u1 show ?thesis by (simp add: convert_ability_res_def)
  next
    case o1: True
    with 1 assms obtain o2 b2 where 2: "?label b1 = Some (o2, b2)"
      by (auto simp: convert_ability_res_def bind_Some_iff)
    have "res_update b1 b2" using 2 by (auto simp: res_update_refl intro: res_update_label_step split: if_splits)
    with u1 have u2: "res_update b b2" by (rule res_update_trans)
    show ?thesis
    proof (cases o2)
      case False
      with 1 2 o1 assms u2 show ?thesis by (simp add: convert_ability_res_def)
    next
      case True
      with 1 2 o1 assms obtain o3 b3 where 3: "?des b2 = Some (o3, b3)" "b' = b3"
        by (auto simp: convert_ability_res_def bind_Some_iff)
      have "res_update b2 b3" using 3(1) by (auto simp: res_update_refl intro: res_update_des_step split: if_splits)
      with u2 have "res_update b b3" by (rule res_update_trans)
      with 3 show ?thesis by simp
    qed
  qed
qed

lemma res_update_loop: "convert_res_loop m px res path ars i b = Some (e, b') \<Longrightarrow> res_update b b'"
  by (induction ars arbitrary: i b) (auto simp: bind_Some_iff res_update_refl
      intro: res_update_trans dest!: res_update_one split: if_splits)

lemma describe_module_update:
  assumes "describe_module m px res resPath desId b = Some (e, b')"
  shows "res_update b b'"
proof (cases "desId > 0 \<and> IsFile px (Some resPath)")
  case False
  with assms show ?thesis by (auto simp: describe_module_def res_update_refl split: if_splits)
next
  case True
  obtain c des where c: "res desId resPath = (c, des)" by fastforce
  have "res_update b (b\<lparr>bi_moduleInfos := v\<rparr>)" for v by (simp add: res_update_def)
  with assms True c show ?thesis
    by (cases "bi_moduleInfos b") (auto simp: describe_module_def res_update_refl Let_def case_prod_beta split: if_splits)
qed

lemma ConvertRes_update:
  assumes "ConvertResInfoToBundleInfo m px res path r b = Some (e, b')"
  shows "res_update b b'"
proof (cases "br_totalNumOfAbilityRes r = 0 \<or> bi_isNativeApp b")
  case True
  with assms show ?thesis by (auto simp: ConvertResInfoToBundleInfo_def res_update_refl)
next
  case False
  then obtain mn where mn: "first_module b = Some mn"
    using assms by (cases "first_module b") (auto simp: ConvertResInfoToBundleInfo_def)
  define resPath where "resPath = path @ PATH_SEPARATOR @ mn @ ASSETS @ mn @ RESOURCES_INDEX"
  have eq: "do {
        (e, b) \<leftarrow> describe_module m px res resPath (br_moduleDescriptionId r) b;
        if e \<noteq> ERR_OK then Some (e, b)
        else do {
          ars \<leftarrow> br_abilityRes r;
          if length ars < br_totalNumOfAbilityRes r then None
          else convert_res_loop m px res resPath (take (br_totalNumOfAbilityRes r) ars) 0 b } } = Some (e, b')"
    using assms False unfolding ConvertResInfoToBundleInfo_def mn bind.bind_lunit Let_def resPath_def[symmetric] by simp
  then obtain e1 b1 where
    1: "describe_module m px res resPath (br_moduleDescriptionId r) b = Some (e1, b1)" and
    2: "(if e1 \<noteq> ERR_OK then Some (e1, b1)
        else do {
          ars \<leftarrow> br_abilityRes r;
          if length ars < br_totalNumOfAbilityRes r then None
          else convert_res_loop m px res resPath (take (br_totalNumOfAbilityRes r) ars) 0 b1 }) = Some (e, b')"
    unfolding bind_Some_iff by auto
  from 2 have "res_update b1 b'"
    by (auto simp: bind_Some_iff res_update_refl intro: res_update_loop split: if_splits)
  with describe_module_update[OF 1] show ?thesis by (rule res_update_trans)
qed

end
