(* ===== verification/System.thy ===== *)
theory System
  imports Bundle_Util Json Bundle_Parser Info_Creator
begin

text \<open>
  What surrounds the service, as parameters: the file system, the bundle daemon it sends its privileged
  operations to, the ability manager, the permission service, the part of cJSON that builds and prints
  documents, and the answers of the libraries. A call with an effect is recorded in a trace; whether it
  succeeds, and what the file system shows afterwards, may depend on all the calls made so far.
\<close>

section \<open>Building JSON documents\<close>

text \<open>
  An item is modified in place in the source; here the function returns it as it then is, and
  \<open>k_put\<close> gives the object whose member under a key (compared with case if the flag is set) has been modified. The adding
  functions answer \<open>None\<close> where cJSON returns a null pointer or false.
\<close>

record 'j cjson_mk =
  k_CreateObject :: "'j option"
  k_CreateArray :: "'j option"
  k_CreateNumber :: "int \<Rightarrow> 'j option"
  k_CreateString :: "string \<Rightarrow> 'j option"
  k_AddStringToObject :: "'j \<Rightarrow> string \<Rightarrow> cstr \<Rightarrow> 'j option"
  k_AddNumberToObject :: "'j \<Rightarrow> string \<Rightarrow> int \<Rightarrow> 'j option"
  k_AddItemToObject :: "'j \<Rightarrow> string \<Rightarrow> 'j \<Rightarrow> 'j option"
  k_AddItemToArray :: "'j \<Rightarrow> 'j \<Rightarrow> 'j option"
  k_DeleteItemFromArray :: "'j \<Rightarrow> int \<Rightarrow> 'j"
  k_SetNumberValue :: "'j \<Rightarrow> int \<Rightarrow> 'j"
  k_put :: "bool \<Rightarrow> 'j \<Rightarrow> string \<Rightarrow> 'j \<Rightarrow> 'j"
  k_Print :: "'j \<Rightarrow> cstr"
  k_Parse :: "string \<Rightarrow> 'j option"

section \<open>Signature verification\<close>

text \<open>
  What the service reads of the library's result (\<open>VerifyResult\<close>), and the library's error codes it compares with,
  as unsigned numbers.
\<close>

record SignatureInfo =
  si_appId :: string
  si_provisionBundleName :: string
  si_restrictedPermissions :: "string list"

record verify_codes =
  V_ERR :: u32
  V_ERR_GET_CERT_INFO :: u32
  V_ERR_GET_CERT_TYPE :: u32
  V_ERR_GET_PROFILE_DATA :: u32
  V_ERR_INVALID_DEVID :: u32
  V_ERR_FILE_OPEN :: u32
  V_ERR_FILE_LENGTH :: u32
  V_ERR_MEMSET :: u32
  V_ERR_MALLOC :: u32

section \<open>Calls with an effect\<close>

text \<open>
  An identity is compared by its handle and token. A request that is sent carries the callback code, the result and,
  for the registered observers, the name of the bundle.
\<close>

record SvcIdentity =
  svc_handle :: int
  svc_token :: nat

datatype call =
    Initialize
  | ExtractHap string string
  | RenameFile string string
  | MoveFile string string
  | RemoveFile string
  | CreatePermissionDir
  | CreateDataDirectory string int int bool
  | StoreContentToFile string string nat
  | RemoveInstallDirectory string string bool
  | GetAmsInterface
  | TerminateApp string
  | StartKeepAliveApps
  | SaveOrUpdatePermissions string "PermissionTrans list" bool
  | DeletePermissions string
  | SetVerifyDebugMode bool
  | SendRequest SvcIdentity nat errcode cstr
  | ReleaseSvc SvcIdentity

type_synonym trace = "call list"

text \<open>
  \<open>y_ask\<close> is the test the source makes on the result (\<open>== EC_SUCCESS\<close>, \<open>>= 0\<close>, not null); the lengths are
  those of the fields of \<open>PermissionTrans\<close>; \<open>y_sysCaps\<close> is the answer of
  \<open>GetSystemAvailableCapabilities\<close>; \<open>y_extract\<close> is \<open>ExtractHapProfile\<close>, its result and the text it extracts.
\<close>

record 'j system =
  y_json :: "'j cjson"
  y_mk :: "'j cjson_mk"
  y_alloc :: allocator
  y_posix :: "trace \<Rightarrow> posix"
  y_ask :: "trace \<Rightarrow> call \<Rightarrow> bool"
  y_realpath :: "trace \<Rightarrow> string \<Rightarrow> string option"
  y_readdir :: "trace \<Rightarrow> string \<Rightarrow> string list option"
  y_extract :: "trace \<Rightarrow> string \<Rightarrow> errcode \<times> string"
  y_res :: resources
  y_sysCaps :: "errcode \<times> string list"
  y_permValid :: "string \<Rightarrow> int"
  y_permRestricted :: "string \<Rightarrow> int"
  y_permNameLen :: nat
  y_permDescLen :: nat
  y_appVerify :: "trace \<Rightarrow> string \<Rightarrow> int \<times> SignatureInfo"
  y_verifyCodes :: verify_codes
  y_rand :: "trace \<Rightarrow> nat \<Rightarrow> nat"

definition ask :: "'j system \<Rightarrow> call \<Rightarrow> trace \<Rightarrow> bool \<times> trace" where
  "ask y c t = (y_ask y t c, t @ [c])"

lemma ask_trace: "snd (ask y c t) = t @ [c]"
  by (simp add: ask_def)

section \<open>Documented behaviour of the builder\<close>

definition in_range32 :: "int \<Rightarrow> bool" where
  "in_range32 v \<longleftrightarrow> - (2 ^ 31) \<le> v \<and> v < 2 ^ 31"

text \<open>The object is the former one with the item under a key that was free.\<close>

definition adds_item :: "'j cjson \<Rightarrow> 'j \<Rightarrow> string \<Rightarrow> 'j \<Rightarrow> ('j \<Rightarrow> bool) \<Rightarrow> bool" where
  "adds_item J ob k ob' P \<longleftrightarrow>
     (\<exists>x. j_GetObjectItemCS J (Some ob') k = Some x \<and> P x) \<and>
     (\<forall>k'. k' \<noteq> k \<longrightarrow> j_GetObjectItemCS J (Some ob') k' = j_GetObjectItemCS J (Some ob) k')"

text \<open>The same for the lookup that ignores the case of keys.\<close>

definition adds_item_ci :: "'j cjson \<Rightarrow> 'j \<Rightarrow> string \<Rightarrow> 'j \<Rightarrow> ('j \<Rightarrow> bool) \<Rightarrow> bool" where
  "adds_item_ci J ob k ob' P \<longleftrightarrow>
     (\<exists>x. j_GetObjectItem J (Some ob') k = Some x \<and> P x) \<and>
     (\<forall>k'. map to_lower k' \<noteq> map to_lower k \<longrightarrow> j_GetObjectItem J (Some ob') k' = j_GetObjectItem J (Some ob) k')"

definition is_str :: "'j cjson \<Rightarrow> string \<Rightarrow> 'j \<Rightarrow> bool" where
  "is_str J s x \<longleftrightarrow> j_IsString J (Some x) \<and> j_valuestring J x = Some s"

definition is_int :: "'j cjson \<Rightarrow> int \<Rightarrow> 'j \<Rightarrow> bool" where
  "is_int J v x \<longleftrightarrow> j_IsNumber J (Some x) \<and> j_valueint J x = v"

definition is_arr :: "'j cjson \<Rightarrow> 'j list \<Rightarrow> 'j \<Rightarrow> bool" where
  "is_arr J xs x \<longleftrightarrow> j_IsArray J (Some x) \<and> j_elems J (Some x) = xs"

definition cjson_mk_ok :: "'j cjson \<Rightarrow> 'j cjson_mk \<Rightarrow> bool" where
  "cjson_mk_ok J K \<longleftrightarrow>
     (\<forall>ob k. k_CreateObject K = Some ob \<longrightarrow> j_GetObjectItemCS J (Some ob) k = None) \<and>
     (\<forall>a. k_CreateArray K = Some a \<longrightarrow> is_arr J [] a) \<and>
     (\<forall>v n. in_range32 v \<longrightarrow> k_CreateNumber K v = Some n \<longrightarrow> is_int J v n) \<and>
     (\<forall>ob k s ob'. j_GetObjectItemCS J (Some ob) k = None \<longrightarrow> k_AddStringToObject K ob k (Some s) = Some ob' \<longrightarrow>
        adds_item J ob k ob' (is_str J s)) \<and>
     (\<forall>ob k v ob'. j_GetObjectItemCS J (Some ob) k = None \<longrightarrow> in_range32 v \<longrightarrow>
        k_AddNumberToObject K ob k v = Some ob' \<longrightarrow> adds_item J ob k ob' (is_int J v)) \<and>
     (\<forall>ob k x ob'. j_GetObjectItemCS J (Some ob) k = None \<longrightarrow> k_AddItemToObject K ob k x = Some ob' \<longrightarrow>
        adds_item J ob k ob' (\<lambda>z. z = x)) \<and>
     (\<forall>a xs x a'. is_arr J xs a \<longrightarrow> k_AddItemToArray K a x = Some a' \<longrightarrow> is_arr J (xs @ [x]) a') \<and>
     (\<forall>a xs i. is_arr J xs a \<longrightarrow> i < length xs \<longrightarrow>
        is_arr J (take i xs @ drop (Suc i) xs) (k_DeleteItemFromArray K a (int i))) \<and>
     (\<forall>n u v. is_int J u n \<longrightarrow> in_range32 v \<longrightarrow> is_int J v (k_SetNumberValue K n v)) \<and>
     (\<forall>ob k x. j_GetObjectItemCS J (Some ob) k \<noteq> None \<longrightarrow> adds_item J ob k (k_put K True ob k x) (\<lambda>z. z = x)) \<and>
     (\<forall>ob k. k_CreateObject K = Some ob \<longrightarrow> j_GetObjectItem J (Some ob) k = None) \<and>
     (\<forall>ob k s ob'. j_GetObjectItem J (Some ob) k = None \<longrightarrow> k_AddStringToObject K ob k (Some s) = Some ob' \<longrightarrow>
        adds_item_ci J ob k ob' (is_str J s)) \<and>
     (\<forall>ob k v ob'. j_GetObjectItem J (Some ob) k = None \<longrightarrow> in_range32 v \<longrightarrow>
        k_AddNumberToObject K ob k v = Some ob' \<longrightarrow> adds_item_ci J ob k ob' (is_int J v))"

lemmas mk_create_object = cjson_mk_ok_def[THEN iffD1, THEN conjunct1, rule_format]
lemmas mk_create_array = cjson_mk_ok_def[THEN iffD1, THEN conjunct2, THEN conjunct1, rule_format]
lemmas mk_create_number = cjson_mk_ok_def[THEN iffD1, THEN conjunct2, THEN conjunct2, THEN conjunct1, rule_format]
lemmas mk_add_string = cjson_mk_ok_def[THEN iffD1, THEN conjunct2, THEN conjunct2, THEN conjunct2, THEN conjunct1, rule_format]
lemmas mk_add_number = cjson_mk_ok_def[THEN iffD1, THEN conjunct2, THEN conjunct2, THEN conjunct2, THEN conjunct2, THEN conjunct1, rule_format]
lemmas mk_add_item = cjson_mk_ok_def[THEN iffD1, THEN conjunct2, THEN conjunct2, THEN conjunct2, THEN conjunct2, THEN conjunct2, THEN conjunct1, rule_format]
lemmas mk_add_to_array = cjson_mk_ok_def[THEN iffD1, THEN conjunct2, THEN conjunct2, THEN conjunct2, THEN conjunct2, THEN conjunct2, THEN conjunct2, THEN conjunct1, rule_format]
lemmas mk_delete_from_array = cjson_mk_ok_def[THEN iffD1, THEN conjunct2, THEN conjunct2, THEN conjunct2, THEN conjunct2, THEN conjunct2, THEN conjunct2, THEN conjunct2, THEN conjunct1, rule_format]
lemmas mk_set_number = cjson_mk_ok_def[THEN iffD1, THEN conjunct2, THEN conjunct2, THEN conjunct2, THEN conjunct2, THEN conjunct2, THEN conjunct2, THEN conjunct2, THEN conjunct2, THEN conjunct1, rule_format]
lemmas mk_put = cjson_mk_ok_def[THEN iffD1, THEN conjunct2, THEN conjunct2, THEN conjunct2, THEN conjunct2, THEN conjunct2, THEN conjunct2, THEN conjunct2, THEN conjunct2, THEN conjunct2, THEN conjunct1, rule_format]
lemmas mk_create_object_ci = cjson_mk_ok_def[THEN iffD1, THEN conjunct2, THEN conjunct2, THEN conjunct2, THEN conjunct2, THEN conjunct2, THEN conjunct2, THEN conjunct2, THEN conjunct2, THEN conjunct2, THEN conjunct2, THEN conjunct1, rule_format]
lemmas mk_add_string_ci = cjson_mk_ok_def[THEN iffD1, THEN conjunct2, THEN conjunct2, THEN conjunct2, THEN conjunct2, THEN conjunct2, THEN conjunct2, THEN conjunct2, THEN conjunct2, THEN conjunct2, THEN conjunct2, THEN conjunct2, THEN conjunct1, rule_format]
lemmas mk_add_number_ci = cjson_mk_ok_def[THEN iffD1, THEN conjunct2, THEN conjunct2, THEN conjunct2, THEN conjunct2, THEN conjunct2, THEN conjunct2, THEN conjunct2, THEN conjunct2, THEN conjunct2, THEN conjunct2, THEN conjunct2, THEN conjunct2, rule_format]

text \<open>The builder on trees. Printing and parsing stay parameters: their text format is cJSON's.\<close>

fun js_replace :: "(string \<Rightarrow> string) \<Rightarrow> (string \<times> js) list \<Rightarrow> string \<Rightarrow> js \<Rightarrow> (string \<times> js) list" where
  "js_replace f [] k x = []"
| "js_replace f ((k', v) # kvs) k x =
     (if f k' = f k then (k', x) # kvs else (k', v) # js_replace f kvs k x)"

definition js_put :: "bool \<Rightarrow> js \<Rightarrow> string \<Rightarrow> js \<Rightarrow> js" where
  "js_put cs ob k x =
     (case ob of JObj kvs \<Rightarrow> JObj (js_replace (if cs then (\<lambda>k. k) else map to_lower) kvs k x) | _ \<Rightarrow> ob)"

definition js_add :: "js \<Rightarrow> string \<Rightarrow> js \<Rightarrow> js option" where
  "js_add ob k x = (case ob of JObj kvs \<Rightarrow> Some (JObj (kvs @ [(k, x)])) | _ \<Rightarrow> None)"

definition js_mk :: "(js \<Rightarrow> cstr) \<Rightarrow> (string \<Rightarrow> js option) \<Rightarrow> js cjson_mk" where
  "js_mk pr pa =
     \<lparr>k_CreateObject = Some (JObj []), k_CreateArray = Some (JArr []),
      k_CreateNumber = (\<lambda>v. Some (JNum v)), k_CreateString = (\<lambda>s. Some (JStr s)),
      k_AddStringToObject = (\<lambda>ob k s. Option.bind s (\<lambda>s. js_add ob k (JStr s))),
      k_AddNumberToObject = (\<lambda>ob k v. js_add ob k (JNum v)),
      k_AddItemToObject = js_add,
      k_AddItemToArray = (\<lambda>a x. case a of JArr xs \<Rightarrow> Some (JArr (xs @ [x])) | _ \<Rightarrow> None),
      k_DeleteItemFromArray = (\<lambda>a i. case a of JArr xs \<Rightarrow> JArr (take (nat i) xs @ drop (Suc (nat i)) xs) | _ \<Rightarrow> a),
      k_SetNumberValue = (\<lambda>n v. case n of JNum _ \<Rightarrow> JNum v | _ \<Rightarrow> n),
      k_put = js_put, k_Print = pr, k_Parse = pa\<rparr>"

lemma js_find_append:
  "js_find f (Some (JObj (kvs @ [(k, x)]))) k' =
     (case js_find f (Some (JObj kvs)) k' of None \<Rightarrow> if f k = f k' then Some x else None | Some y \<Rightarrow> Some y)"
  by (induction kvs) auto

lemma js_find_replace:
  "js_find (\<lambda>k. k) (Some (JObj kvs)) k \<noteq> None \<Longrightarrow>
   js_find (\<lambda>k. k) (Some (JObj (js_replace (\<lambda>k. k) kvs k x))) k' =
     (if k' = k then Some x else js_find (\<lambda>k. k) (Some (JObj kvs)) k')"
  by (induction kvs) (auto split: if_splits)

lemma js_add_adds:
  "js_find (\<lambda>k. k) (Some ob) k = None \<Longrightarrow> js_add ob k x = Some ob' \<Longrightarrow> P x \<Longrightarrow> adds_item js_api ob k ob' P"
  by (cases ob) (auto simp: js_add_def adds_item_def js_api_def js_find_append simp del: js_find.simps split: option.split)

lemma js_add_adds_ci:
  "js_find (map to_lower) (Some ob) k = None \<Longrightarrow> js_add ob k x = Some ob' \<Longrightarrow> P x \<Longrightarrow> adds_item_ci js_api ob k ob' P"
  by (cases ob) (auto simp: js_add_def adds_item_ci_def js_api_def js_find_append simp del: js_find.simps split: option.split)

lemma js_put_adds:
  "js_find (\<lambda>k. k) (Some ob) k \<noteq> None \<Longrightarrow> adds_item js_api ob k (js_put True ob k x) (\<lambda>z. z = x)"
  by (cases ob) (auto simp: js_put_def adds_item_def js_api_def js_find_replace simp del: js_find.simps(1))

lemma js_num: "in_range32 v \<Longrightarrow> is_int js_api v (JNum v)"
  by (simp add: is_int_def js_api_def js_is_def in_range32_def clamp32_def)

lemma js_arr: "is_arr js_api xs a \<longleftrightarrow> a = JArr xs"
  by (cases a) (auto simp: is_arr_def js_api_def js_is_def)

lemma js_mk_ok: "cjson_mk_ok js_api (js_mk pr pa)"
proof -
  have num: "is_int js_api u n \<Longrightarrow> \<exists>w. n = JNum w" for u n
    by (cases n) (auto simp: is_int_def js_api_def js_is_def split: if_splits)
  have str: "is_str js_api s (JStr s)" for s
    by (simp add: is_str_def js_api_def js_is_def)
  have cs: "j_GetObjectItemCS js_api = js_find (\<lambda>k. k)" "j_GetObjectItem js_api = js_find (map to_lower)"
    by (simp_all add: js_api_def)
  show ?thesis
    unfolding cjson_mk_ok_def cs
    by (auto simp: js_mk_def js_arr intro: js_num js_add_adds js_add_adds_ci str js_put_adds dest!: num)
qed

text \<open>
  A system to evaluate the model on: the JSON documents \<open>files\<close> shows, no other files, and every call
  succeeds. The content of a file stands for its path, so that parsing it gives the document.
\<close>

definition js_system :: "(string \<Rightarrow> js option) \<Rightarrow> js system" where
  "js_system files =
     \<lparr>y_json = js_api, y_mk = js_mk (\<lambda>_. Some ''{}'') files, y_alloc = plentiful,
      y_posix = (\<lambda>_. \<lparr>px_stat = (\<lambda>p. map_option (\<lambda>_. (False, int (length p))) (files p)),
                       px_open = (\<lambda>p. files p \<noteq> None), px_read = (\<lambda>p. p)\<rparr>),
      y_ask = (\<lambda>_ _. True), y_realpath = (\<lambda>_. Some), y_readdir = (\<lambda>_ _. None),
      y_extract = (\<lambda>_ p. (ERR_OK, p)), y_res = (\<lambda>_ _. (-1, None)), y_sysCaps = (ERR_OK, []),
      y_permValid = (\<lambda>_. 0), y_permRestricted = (\<lambda>_. 1), y_permNameLen = 64, y_permDescLen = 64,
      y_appVerify = (\<lambda>_ _. (0, \<lparr>si_appId = ''x_id'', si_provisionBundleName = ''.*'', si_restrictedPermissions = []\<rparr>)),
      y_verifyCodes = \<lparr>V_ERR = 1, V_ERR_GET_CERT_INFO = 0x10, V_ERR_GET_CERT_TYPE = 0x1f,
        V_ERR_GET_PROFILE_DATA = 0x20, V_ERR_INVALID_DEVID = 0x2f, V_ERR_FILE_OPEN = 0x30, V_ERR_FILE_LENGTH = 0x3f,
        V_ERR_MEMSET = 0x40, V_ERR_MALLOC = 0x4f\<rparr>,
      y_rand = (\<lambda>_ _. 0)\<rparr>"

end
