(* ===== verification/Bundle_Records.thy ===== *)
theory Bundle_Records
  imports System Uid_Maps
begin

text \<open>
  The JSON records the service keeps on disk: one file for each installed bundle, the table of uids, and the
  lists of third-party system bundles installed and uninstalled. The functions are those of
  \<^verbatim>\<open>services/bundlemgr_lite/src/bundle_util.cpp\<close> and the record functions of \<^verbatim>\<open>bundle_installer.cpp\<close>.

  A function that makes calls takes the trace of those made before and returns it extended.
\<close>

section \<open>Keys and files\<close>

abbreviation (input) "JSON_MAIN_KEY \<equiv> ''packages''"
abbreviation (input) "JSON_SUB_KEY_PACKAGE \<equiv> ''bundleName''"
abbreviation (input) "JSON_SUB_KEY_CODEPATH \<equiv> ''codePath''"
abbreviation (input) "JSON_SUB_KEY_APPID \<equiv> ''appID''"
abbreviation (input) "JSON_SUB_KEY_VERSIONCODE \<equiv> ''versionCode''"
abbreviation (input) "JSON_SUB_KEY_UID \<equiv> ''uid''"
abbreviation (input) "JSON_SUB_KEY_GID \<equiv> ''gid''"
abbreviation (input) "PROFILE_KEY_UID_SIZE \<equiv> ''size''"
abbreviation (input) "PROFILE_KEY_UID_AND_GID \<equiv> ''uid_and_gid''"
abbreviation (input) "UID_GID_MAP \<equiv> ''uid_gid_map''"
abbreviation (input) "THIRD_SYSTEM_BUNDLE_JSON \<equiv> ''/storage/app/etc/third_system_bundle.json''"
abbreviation (input) "UNINSTALL_THIRD_SYSTEM_BUNDLE_JSON \<equiv> ''/storage/app/etc/uninstalled_delbundle.json''"
abbreviation (input) "MAX_JSON_SIZE \<equiv> 65536 :: nat"

text \<open>\<open>sprintf_s(bundleJsonPath, PATH_LENGTH, "%s%s%s", JSON_PATH, bundleName, JSON_SUFFIX)\<close>.\<close>

definition bundle_json_path :: "string \<Rightarrow> string option" where
  "bundle_json_path bundleName =
     (let path = JSON_PATH @ bundleName @ JSON_SUFFIX in
      if length path \<ge> PATH_LENGTH then None else Some path)"

section \<open>Reading a record\<close>

text \<open>
  The size is the \<open>int32_t\<close> of \<open>st_size\<close>. The buffer of so many characters is handed to the parser without a
  terminating NUL; \<open>cJSON_Parse\<close> reads one document and ignores what follows it.
\<close>

definition GetJsonStream :: "'j system \<Rightarrow> trace \<Rightarrow> cstr \<Rightarrow> 'j option" where
  "GetJsonStream y t path =
     (let px = y_posix y t in
      if \<not> IsFile px path then None
      else case px_stat px (the path) of
          None \<Rightarrow> None
        | Some (_, st_size) \<Rightarrow>
            (let size = sint (word_of_int st_size :: u32) in
             if size \<le> 0 then None
             else if nat size > MAX_JSON_SIZE then None
             else if \<not> px_open px (the path) then None
             else if \<not> y_alloc y (Chars (nat size)) then None
             else if length (px_read px (the path)) < nat size then None
             else k_Parse (y_mk y) (take (nat size) (px_read px (the path)))))"

text \<open>The outputs are returned as they are left, whatever the result.\<close>

definition CheckBundleJsonIsValid ::
    "'j system \<Rightarrow> trace \<Rightarrow> cstr \<Rightarrow> cstr \<Rightarrow> cstr \<Rightarrow> int \<Rightarrow> (bool \<times> cstr \<times> cstr \<times> int) option" where
  "CheckBundleJsonIsValid y t bundleName codePath appId versionCode =
     (let J = y_json y; fail = (\<lambda>cp ai v. Some (False, cp, ai, v)) in
      case Option.bind bundleName bundle_json_path of
        None \<Rightarrow> fail codePath appId versionCode
      | Some path \<Rightarrow>
          let object = GetJsonStream y t (Some path) in
          if object = None then fail codePath appId versionCode
          else let item = j_GetObjectItem J object JSON_SUB_KEY_CODEPATH in
          if \<not> j_IsString J item then fail codePath appId versionCode
          else do {
            i \<leftarrow> item;
            let codePath = Strdup (y_alloc y) (j_valuestring J i);
            if codePath = None then fail codePath appId versionCode
            else if \<not> IsDir (y_posix y t) codePath then fail codePath appId versionCode
            else if \<not> EndWith codePath bundleName then fail codePath appId versionCode
            else let item = j_GetObjectItem J object JSON_SUB_KEY_APPID in
            if \<not> j_IsString J item then fail codePath appId versionCode
            else do {
              i \<leftarrow> item;
              let appId = Strdup (y_alloc y) (j_valuestring J i);
              if appId = None then fail codePath appId versionCode
              else let item = j_GetObjectItem J object JSON_SUB_KEY_VERSIONCODE in
              if \<not> j_IsNumber J item then fail codePath appId versionCode
              else do {
                i \<leftarrow> item;
                Some (\<not> j_valueint J i < 0, codePath, appId, j_valueint J i) } } })"

definition GetValueFromBundleJson_str :: "'j system \<Rightarrow> trace \<Rightarrow> cstr \<Rightarrow> cstr \<Rightarrow> cstr" where
  "GetValueFromBundleJson_str y t bundleName key = do {
     n \<leftarrow> bundleName; k \<leftarrow> key;
     path \<leftarrow> bundle_json_path n;
     object \<leftarrow> GetJsonStream y t (Some path);
     let item = j_GetObjectItem (y_json y) (Some object) k;
     if \<not> j_IsString (y_json y) item then None
     else do { i \<leftarrow> item; Strdup (y_alloc y) (j_valuestring (y_json y) i) } }"

definition GetValueFromBundleJson_int :: "'j system \<Rightarrow> trace \<Rightarrow> cstr \<Rightarrow> cstr \<Rightarrow> int \<Rightarrow> int" where
  "GetValueFromBundleJson_int y t bundleName key defaultValue =
     (case do {
        n \<leftarrow> bundleName; k \<leftarrow> key;
        path \<leftarrow> bundle_json_path n;
        object \<leftarrow> GetJsonStream y t (Some path);
        let item = j_GetObjectItem (y_json y) (Some object) k;
        if \<not> j_IsNumber (y_json y) item then None
        else do { i \<leftarrow> item; Some (j_valueint (y_json y) i) } } of
        None \<Rightarrow> defaultValue | Some v \<Rightarrow> v)"

section \<open>The record of a bundle\<close>

definition ConvertInstallRecordToJson :: "'j cjson_mk \<Rightarrow> InstallRecord \<Rightarrow> 'j option" where
  "ConvertInstallRecordToJson K r = do {
     root \<leftarrow> k_CreateObject K;
     root \<leftarrow> k_AddStringToObject K root JSON_SUB_KEY_PACKAGE (ir_bundleName r);
     root \<leftarrow> k_AddStringToObject K root JSON_SUB_KEY_APPID (ir_appId r);
     root \<leftarrow> k_AddNumberToObject K root JSON_SUB_KEY_VERSIONCODE (ir_versionCode r);
     root \<leftarrow> k_AddNumberToObject K root JSON_SUB_KEY_UID (ir_uid r);
     root \<leftarrow> k_AddNumberToObject K root JSON_SUB_KEY_GID (ir_gid r);
     k_AddStringToObject K root JSON_SUB_KEY_CODEPATH (ir_codePath r) }"

text \<open>\<open>cJSON_Print\<close> and \<open>StoreContentToFile\<close> of what it prints, with the NUL.\<close>

definition print_and_store :: "'j system \<Rightarrow> 'j \<Rightarrow> string \<Rightarrow> trace \<Rightarrow> bool \<times> trace" where
  "print_and_store y object path t =
     (case k_Print (y_mk y) object of
        None \<Rightarrow> (False, t)
      | Some buffer \<Rightarrow> ask y (StoreContentToFile path buffer (length buffer + 1)) t)"

definition BackUpInstallRecord :: "'j system \<Rightarrow> InstallRecord \<Rightarrow> cstr \<Rightarrow> trace \<Rightarrow> bool \<times> trace" where
  "BackUpInstallRecord y r jsonPath t =
     (case jsonPath of
        None \<Rightarrow> (False, t)
      | Some path \<Rightarrow>
          (case ConvertInstallRecordToJson (y_mk y) r of
             None \<Rightarrow> (False, t)
           | Some object \<Rightarrow> print_and_store y object path t))"

text \<open>The temporary record if it is there, else the record.\<close>

definition DeleteJsonFile :: "'j system \<Rightarrow> cstr \<Rightarrow> cstr \<Rightarrow> trace \<Rightarrow> trace" where
  "DeleteJsonFile y bundleName randStr t =
     (if bundleName = None \<or> randStr = None then t
      else case Strscat (y_alloc y) [Some JSON_PATH, bundleName, randStr, Some JSON_SUFFIX] of
          None \<Rightarrow> t
        | Some tmp \<Rightarrow>
            if IsFile (y_posix y t) (Some tmp) then snd (ask y (RemoveFile tmp) t)
            else (case Strscat (y_alloc y) [Some JSON_PATH, bundleName, Some JSON_SUFFIX] of
                None \<Rightarrow> t
              | Some path \<Rightarrow>
                  if IsFile (y_posix y t) (Some path) then snd (ask y (RemoveFile path) t) else t))"

definition RenameJsonFile :: "'j system \<Rightarrow> cstr \<Rightarrow> cstr \<Rightarrow> trace \<Rightarrow> bool \<times> trace" where
  "RenameJsonFile y fileName randStr t =
     (case (fileName, randStr) of
        (Some f, Some r) \<Rightarrow>
          ask y (RenameFile (JSON_PATH @ f @ r @ JSON_SUFFIX) (JSON_PATH @ f @ JSON_SUFFIX)) t
      | _ \<Rightarrow> (False, t))"

section \<open>The table of uids\<close>

definition uid_json_path :: string where
  "uid_json_path = JSON_PATH @ UID_GID_MAP @ JSON_SUFFIX"

definition ObtainUidAndGidJson :: "'j system \<Rightarrow> trace \<Rightarrow> bool \<Rightarrow> 'j option" where
  "ObtainUidAndGidJson y t flag =
     (let K = y_mk y; object = GetJsonStream y t (Some uid_json_path) in
      if object \<noteq> None \<or> \<not> flag then object
      else do {
        object \<leftarrow> k_CreateObject K;
        sizeItem \<leftarrow> k_CreateNumber K 0;
        object \<leftarrow> k_AddItemToObject K object PROFILE_KEY_UID_SIZE sizeItem;
        uids \<leftarrow> k_CreateArray K;
        k_AddItemToObject K object PROFILE_KEY_UID_AND_GID uids })"

text \<open>The items \<open>size\<close> and \<open>uids\<close> as the function leaves them.\<close>

definition AddUidAndGidInfo ::
    "'j cjson \<Rightarrow> 'j cjson_mk \<Rightarrow> InstallRecord \<Rightarrow> 'j option \<Rightarrow> 'j option \<Rightarrow> bool \<times> 'j option \<times> 'j option" where
  "AddUidAndGidInfo J K r sizeItem uids =
     (case (sizeItem, uids) of
        (Some sz, Some us) \<Rightarrow>
          (let sz = k_SetNumberValue K sz (j_valueint J sz + 1) in
           case do {
             uid \<leftarrow> k_CreateObject K;
             uid \<leftarrow> k_AddStringToObject K uid JSON_SUB_KEY_PACKAGE (ir_bundleName r);
             uid \<leftarrow> k_AddNumberToObject K uid JSON_SUB_KEY_UID (ir_uid r);
             uid \<leftarrow> k_AddNumberToObject K uid JSON_SUB_KEY_GID (ir_gid r);
             k_AddItemToArray K us uid } of
             None \<Rightarrow> (False, Some sz, uids)
           | Some us \<Rightarrow> (True, Some sz, Some us))
      | _ \<Rightarrow> (False, sizeItem, uids))"

text \<open>The test both loops over the table make on an entry.\<close>

definition names_entry :: "'j cjson \<Rightarrow> string \<Rightarrow> 'j \<Rightarrow> bool" where
  "names_entry J bundleName item =
     (let innerBundleName = j_GetObjectItemCS J (Some item) JSON_SUB_KEY_PACKAGE in
      case innerBundleName of
        None \<Rightarrow> False
      | Some i \<Rightarrow> j_IsString J innerBundleName \<and> j_valuestring J i = Some bundleName)"

definition ConvertUidAndGidToJson :: "'j system \<Rightarrow> trace \<Rightarrow> InstallRecord \<Rightarrow> 'j option" where
  "ConvertUidAndGidToJson y t r =
     (let J = y_json y; K = y_mk y in
      case ir_bundleName r of
        None \<Rightarrow> None
      | Some n \<Rightarrow> do {
          object \<leftarrow> ObtainUidAndGidJson y t True;
          let sizeItem = j_GetObjectItemCS J (Some object) PROFILE_KEY_UID_SIZE;
          let uids = j_GetObjectItemCS J (Some object) PROFILE_KEY_UID_AND_GID;
          if \<not> j_IsNumber J sizeItem then None
          else if \<not> j_IsArray J uids then None
          else if list_ex (names_entry J n) (j_elems J uids) then Some object
          else case AddUidAndGidInfo J K r sizeItem uids of
              (True, Some sz, Some us) \<Rightarrow>
                Some (k_put K True (k_put K True object PROFILE_KEY_UID_SIZE sz) PROFILE_KEY_UID_AND_GID us)
            | _ \<Rightarrow> None })"

text \<open>The index the loop stops at, and whether it found the name.\<close>

fun uid_index :: "'j cjson \<Rightarrow> string \<Rightarrow> 'j list \<Rightarrow> int \<Rightarrow> int \<times> bool" where
  "uid_index J bundleName [] index = (index, False)"
| "uid_index J bundleName (u # us) index =
     (let index = index + 1 in
      if names_entry J bundleName u then (index, True) else uid_index J bundleName us index)"

definition DeleteInnerUidInfoFromUidArray ::
    "'j cjson \<Rightarrow> 'j cjson_mk \<Rightarrow> cstr \<Rightarrow> 'j option \<Rightarrow> 'j option \<Rightarrow> bool \<times> 'j option \<times> 'j option" where
  "DeleteInnerUidInfoFromUidArray J K bundleName sizeItem uids =
     (case (sizeItem, uids, bundleName) of
        (Some sz, Some us, Some n) \<Rightarrow>
          (case uid_index J n (j_elems J uids) (-1) of
             (index, True) \<Rightarrow>
               (True, Some (k_SetNumberValue K sz (j_valueint J sz - 1)), Some (k_DeleteItemFromArray K us index))
           | (_, False) \<Rightarrow> (True, sizeItem, uids))
      | _ \<Rightarrow> (False, sizeItem, uids))"

text \<open>The table without the bundle; its record is the file, removed when the table is empty.\<close>

definition remove_uid :: "'j cjson \<Rightarrow> 'j cjson_mk \<Rightarrow> cstr \<Rightarrow> 'j \<Rightarrow> ('j \<times> 'j) option" where
  "remove_uid J K bundleName object =
     (let sizeItem = j_GetObjectItemCS J (Some object) PROFILE_KEY_UID_SIZE;
          uids = j_GetObjectItemCS J (Some object) PROFILE_KEY_UID_AND_GID in
      if \<not> j_IsNumber J sizeItem then None
      else if \<not> j_IsArray J uids then None
      else case DeleteInnerUidInfoFromUidArray J K bundleName sizeItem uids of
          (True, Some sz, Some us) \<Rightarrow>
            Some (sz, k_put K True (k_put K True object PROFILE_KEY_UID_SIZE sz) PROFILE_KEY_UID_AND_GID us)
        | _ \<Rightarrow> None)"

definition DeleteUidInfoFromJson :: "'j system \<Rightarrow> cstr \<Rightarrow> trace \<Rightarrow> bool \<times> trace" where
  "DeleteUidInfoFromJson y bundleName t =
     (case Option.bind (ObtainUidAndGidJson y t False) (remove_uid (y_json y) (y_mk y) bundleName) of
        None \<Rightarrow> (False, t)
      | Some (sz, object) \<Rightarrow>
          if j_valueint (y_json y) sz = 0 then (True, snd (ask y (RemoveFile uid_json_path) t))
          else (case k_Print (y_mk y) object of
              None \<Rightarrow> (False, t)
            | Some out \<Rightarrow> (True, snd (ask y (StoreContentToFile uid_json_path out (length out + 1)) t))))"

definition BackUpUidAndGidInfo :: "'j system \<Rightarrow> InstallRecord \<Rightarrow> cstr \<Rightarrow> trace \<Rightarrow> bool \<times> trace" where
  "BackUpUidAndGidInfo y r jsonPath t =
     (case jsonPath of
        None \<Rightarrow> (False, t)
      | Some path \<Rightarrow>
          (case ConvertUidAndGidToJson y t r of
             None \<Rightarrow> (False, t)
           | Some object \<Rightarrow> print_and_store y object path t))"

section \<open>Third-party system bundles\<close>

text \<open>The loop that looks for a name: an entry that is no string ends it.\<close>

fun lists_bundle :: "'j cjson \<Rightarrow> string \<Rightarrow> 'j list \<Rightarrow> bool" where
  "lists_bundle J bundleName [] = False"
| "lists_bundle J bundleName (item # items) =
     (if \<not> j_IsString J (Some item) then False
      else if j_valuestring J item = Some bundleName then True
      else lists_bundle J bundleName items)"

definition CheckIsThirdSystemBundle :: "'j system \<Rightarrow> cstr \<Rightarrow> trace \<Rightarrow> bool \<times> trace" where
  "CheckIsThirdSystemBundle y bundleName t =
     (let J = y_json y in
      case bundleName of
        None \<Rightarrow> (False, t)
      | Some n \<Rightarrow>
          (case GetJsonStream y t (Some THIRD_SYSTEM_BUNDLE_JSON) of
             None \<Rightarrow> (False, t)
           | Some root \<Rightarrow>
               (let son = j_GetObjectItem J (Some root) JSON_MAIN_KEY in
                if \<not> j_IsArray J son then (False, snd (ask y (RemoveFile THIRD_SYSTEM_BUNDLE_JSON) t))
                else (lists_bundle J n (j_elems J son), t))))"

definition InitThirdSystemBundleRecord :: "'j system \<Rightarrow> cstr \<Rightarrow> cstr \<Rightarrow> trace \<Rightarrow> trace" where
  "InitThirdSystemBundleRecord y bundleName path t =
     (let K = y_mk y in
      case do {
        n \<leftarrow> bundleName; p \<leftarrow> path;
        root \<leftarrow> k_CreateObject K;
        son \<leftarrow> k_CreateArray K;
        root \<leftarrow> k_AddItemToObject K root JSON_MAIN_KEY son;
        str \<leftarrow> k_CreateString K n;
        son \<leftarrow> k_AddItemToArray K son str;
        Some (p, k_put K False root JSON_MAIN_KEY son) } of
        None \<Rightarrow> t
      | Some (p, root) \<Rightarrow> snd (print_and_store y root p t))"

definition RecordThirdSystemBundle :: "'j system \<Rightarrow> cstr \<Rightarrow> cstr \<Rightarrow> trace \<Rightarrow> trace" where
  "RecordThirdSystemBundle y bundleName path t =
     (let J = y_json y; K = y_mk y in
      case (bundleName, path) of
        (Some n, Some p) \<Rightarrow>
          if \<not> IsFile (y_posix y t) path then InitThirdSystemBundleRecord y bundleName path t
          else (case GetJsonStream y t path of
              None \<Rightarrow> t
            | Some root \<Rightarrow>
                (let son = j_GetObjectItem J (Some root) JSON_MAIN_KEY in
                 if \<not> j_IsArray J son
                 then InitThirdSystemBundleRecord y bundleName path (snd (ask y (RemoveFile p) t))
                 else case do {
                     s \<leftarrow> son;
                     str \<leftarrow> k_CreateString K n;
                     s \<leftarrow> k_AddItemToArray K s str;
                     Some (k_put K False root JSON_MAIN_KEY s) } of
                     None \<Rightarrow> t
                   | Some root \<Rightarrow> snd (print_and_store y root p t)))
      | _ \<Rightarrow> t)"

section \<open>What the table of uids holds\<close>

definition table_entry :: "'j cjson \<Rightarrow> 'j \<Rightarrow> string \<times> int \<Rightarrow> bool" where
  "table_entry J item e \<longleftrightarrow>
     (\<exists>a b. j_GetObjectItemCS J (Some item) JSON_SUB_KEY_PACKAGE = Some a \<and> is_str J (fst e) a \<and>
            j_GetObjectItemCS J (Some item) JSON_SUB_KEY_UID = Some b \<and> is_int J (snd e) b)"

text \<open>A well-formed table with the entries \<open>es\<close>: its size is their number and no bundle has two.\<close>

definition uid_json :: "'j cjson \<Rightarrow> 'j \<Rightarrow> (string \<times> int) list \<Rightarrow> bool" where
  "uid_json J ob es \<longleftrightarrow>
     (\<exists>sz us items. j_GetObjectItemCS J (Some ob) PROFILE_KEY_UID_SIZE = Some sz \<and>
        is_int J (int (length es)) sz \<and>
        j_GetObjectItemCS J (Some ob) PROFILE_KEY_UID_AND_GID = Some us \<and> is_arr J items us \<and>
        list_all2 (table_entry J) items es \<and> distinct (map fst es))"

definition record_uid :: "string \<Rightarrow> int \<Rightarrow> (string \<times> int) list \<Rightarrow> (string \<times> int) list" where
  "record_uid n u es = (if n \<in> fst ` set es then es else es @ [(n, u)])"

definition forget_uid :: "string \<Rightarrow> (string \<times> int) list \<Rightarrow> (string \<times> int) list" where
  "forget_uid n es = filter (\<lambda>e. fst e \<noteq> n) es"

lemma names_entry_iff: "table_entry J item e \<Longrightarrow> names_entry J n item \<longleftrightarrow> fst e = n"
  by (auto simp: table_entry_def names_entry_def is_str_def)

lemma list_ex_names:
  "list_all2 (table_entry J) items es \<Longrightarrow> list_ex (names_entry J n) items \<longleftrightarrow> n \<in> fst ` set es"
  by (induction items es rule: list_all2_induct) (auto simp: names_entry_iff)

lemma uid_index_absent:
  "list_all2 (table_entry J) items es \<Longrightarrow> n \<notin> fst ` set es \<Longrightarrow>
   uid_index J n items i = (i + int (length es), False)"
  by (induction items es arbitrary: i rule: list_all2_induct) (auto simp: names_entry_iff Let_def)

lemma uid_index_present:
  "list_all2 (table_entry J) items (es1 @ (n, u) # es2) \<Longrightarrow> n \<notin> fst ` set es1 \<Longrightarrow>
   uid_index J n items i = (i + 1 + int (length es1), True)"
  by (induction es1 arbitrary: items i) (auto simp: list_all2_Cons2 names_entry_iff Let_def)

lemma two_puts:
  assumes K: "cjson_mk_ok J K" and "k1 \<noteq> k2"
    and "j_GetObjectItemCS J (Some ob) k1 \<noteq> None" "j_GetObjectItemCS J (Some ob) k2 \<noteq> None"
  shows "j_GetObjectItemCS J (Some (k_put K True (k_put K True ob k1 x) k2 z)) k1 = Some x"
    and "j_GetObjectItemCS J (Some (k_put K True (k_put K True ob k1 x) k2 z)) k2 = Some z"
proof -
  have 1: "adds_item J ob k1 (k_put K True ob k1 x) (\<lambda>w. w = x)" by (rule mk_put[OF K assms(3)])
  then have "j_GetObjectItemCS J (Some (k_put K True ob k1 x)) k2 \<noteq> None"
    using assms(2,4) by (auto simp: adds_item_def)
  from mk_put[OF K this, of z] 1 assms(2)
  show "j_GetObjectItemCS J (Some (k_put K True (k_put K True ob k1 x) k2 z)) k1 = Some x"
    "j_GetObjectItemCS J (Some (k_put K True (k_put K True ob k1 x) k2 z)) k2 = Some z"
    by (auto simp: adds_item_def)
qed

lemma AddUidAndGidInfo_adds:
  assumes K: "cjson_mk_ok J K" and r: "ir_bundleName r = Some n" "in_range32 (ir_uid r)" "in_range32 (ir_gid r)"
    and sz: "is_int J k sz" "in_range32 (k + 1)" and us: "is_arr J items us"
    and "AddUidAndGidInfo J K r (Some sz) (Some us) = (True, sz', us')"
  shows "\<exists>s u x. sz' = Some s \<and> us' = Some u \<and> is_int J (k + 1) s \<and> is_arr J (items @ [x]) u \<and>
           table_entry J x (n, ir_uid r)"
proof -
  from assms(8) obtain o0 o1 o2 o3 a where o0: "k_CreateObject K = Some o0"
    and o1: "k_AddStringToObject K o0 JSON_SUB_KEY_PACKAGE (Some n) = Some o1"
    and o2: "k_AddNumberToObject K o1 JSON_SUB_KEY_UID (ir_uid r) = Some o2"
    and o3: "k_AddNumberToObject K o2 JSON_SUB_KEY_GID (ir_gid r) = Some o3"
    and a: "k_AddItemToArray K us o3 = Some a" and
    eq: "sz' = Some (k_SetNumberValue K sz (j_valueint J sz + 1))" "us' = Some a"
    by (auto simp: AddUidAndGidInfo_def r(1) bind_eq_Some_conv Let_def split: option.splits)
  have e1: "adds_item J o0 JSON_SUB_KEY_PACKAGE o1 (is_str J n)"
    by (rule mk_add_string[OF K mk_create_object[OF K o0] o1])
  then have "j_GetObjectItemCS J (Some o1) JSON_SUB_KEY_UID = None"
    using mk_create_object[OF K o0] by (simp add: adds_item_def)
  from mk_add_number[OF K this r(2) o2] have e2: "adds_item J o1 JSON_SUB_KEY_UID o2 (is_int J (ir_uid r))" .
  then have "j_GetObjectItemCS J (Some o2) JSON_SUB_KEY_GID = None"
    using e1 mk_create_object[OF K o0] by (simp add: adds_item_def)
  from mk_add_number[OF K this r(3) o3] have e3: "adds_item J o2 JSON_SUB_KEY_GID o3 (is_int J (ir_gid r))" .
  from e1 e2 e3 have "table_entry J o3 (n, ir_uid r)" by (auto simp: adds_item_def table_entry_def)
  moreover have "is_int J (k + 1) (k_SetNumberValue K sz (j_valueint J sz + 1))"
    using mk_set_number[OF K sz(1,2)] sz(1) by (simp add: is_int_def)
  ultimately show ?thesis using eq mk_add_to_array[OF K us a] by blast
qed

lemma Convert_uid_json:
  assumes K: "cjson_mk_ok (y_json y) (y_mk y)" and ob: "ObtainUidAndGidJson y t True = Some ob"
    and es: "uid_json (y_json y) ob es" "length es < 2 ^ 31 - 1"
    and r: "ir_bundleName r = Some n" "in_range32 (ir_uid r)" "in_range32 (ir_gid r)"
    and "ConvertUidAndGidToJson y t r = Some ob'"
  shows "uid_json (y_json y) ob' (record_uid n (ir_uid r) es)"
proof -
  let ?J = "y_json y"
  from es(1) obtain sz us items where
    sz: "j_GetObjectItemCS ?J (Some ob) PROFILE_KEY_UID_SIZE = Some sz" "is_int ?J (int (length es)) sz" and
    us: "j_GetObjectItemCS ?J (Some ob) PROFILE_KEY_UID_AND_GID = Some us" "is_arr ?J items us" and
    l: "list_all2 (table_entry ?J) items es" and d: "distinct (map fst es)"
    by (auto simp: uid_json_def)
  have num: "j_IsNumber ?J (Some sz)" and arr: "j_IsArray ?J (Some us)" "j_elems ?J (Some us) = items"
    using sz us by (auto simp: is_int_def is_arr_def)
  show ?thesis
  proof (cases "n \<in> fst ` set es")
    case True
    then have "list_ex (names_entry ?J n) items" using list_ex_names[OF l] by simp
    then have "ob' = ob"
      using assms(8) num arr by (simp add: ConvertUidAndGidToJson_def r(1) ob sz(1) us(1) Let_def)
    then show ?thesis using True es(1) by (simp add: record_uid_def)
  next
    case False
    then have "\<not> list_ex (names_entry ?J n) items" using list_ex_names[OF l] by simp
    then obtain s u where add: "AddUidAndGidInfo ?J (y_mk y) r (Some sz) (Some us) = (True, Some s, Some u)"
      and ob': "ob' = k_put (y_mk y) True (k_put (y_mk y) True ob PROFILE_KEY_UID_SIZE s) PROFILE_KEY_UID_AND_GID u"
      using assms(8) num arr
      by (auto simp: ConvertUidAndGidToJson_def r(1) ob sz(1) us(1) Let_def split: prod.splits bool.splits option.splits)
    have "in_range32 (int (length es) + 1)" using es(2) by (simp add: in_range32_def)
    from AddUidAndGidInfo_adds[OF K r sz(2) this us(2) add] obtain x where
      x: "is_int ?J (int (length es) + 1) s" "is_arr ?J (items @ [x]) u" "table_entry ?J x (n, ir_uid r)" by auto
    have ex: "j_GetObjectItemCS ?J (Some ob) PROFILE_KEY_UID_SIZE \<noteq> None"
      "j_GetObjectItemCS ?J (Some ob) PROFILE_KEY_UID_AND_GID \<noteq> None" using sz us by simp_all
    have ne: "PROFILE_KEY_UID_SIZE \<noteq> PROFILE_KEY_UID_AND_GID" by simp
    have "list_all2 (table_entry ?J) (items @ [x]) (es @ [(n, ir_uid r)])"
      using l x(3) by (simp add: list_all2_appendI)
    then show ?thesis
      using two_puts[OF K ne ex, of s u] x(1,2) d False
      by (auto simp: uid_json_def ob' record_uid_def add.commute)
  qed
qed

lemma forget_uid_split:
  assumes "distinct (map fst es)" "n \<in> fst ` set es"
  obtains es1 u es2 where "es = es1 @ (n, u) # es2" "n \<notin> fst ` set es1" "forget_uid n es = es1 @ es2"
proof -
  from assms(2) obtain u where "(n, u) \<in> set es" by auto
  then obtain es1 es2 where es: "es = es1 @ (n, u) # es2" by (meson split_list)
  with assms(1) have n: "n \<notin> fst ` set es1" "n \<notin> fst ` set es2" by auto
  then have "filter (\<lambda>e. fst e \<noteq> n) es1 = es1" "filter (\<lambda>e. fst e \<noteq> n) es2 = es2"
    by (auto simp: filter_id_conv)
  with es n that show ?thesis by (simp add: forget_uid_def)
qed

lemma remove_uid_json:
  assumes K: "cjson_mk_ok J K" and es: "uid_json J ob es" "length es < 2 ^ 31"
  shows "\<exists>sz ob'. remove_uid J K (Some n) ob = Some (sz, ob') \<and> is_int J (int (length (forget_uid n es))) sz \<and>
           uid_json J ob' (forget_uid n es)"
proof -
  from es(1) obtain sz us items where
    sz: "j_GetObjectItemCS J (Some ob) PROFILE_KEY_UID_SIZE = Some sz" "is_int J (int (length es)) sz" and
    us: "j_GetObjectItemCS J (Some ob) PROFILE_KEY_UID_AND_GID = Some us" "is_arr J items us" and
    l: "list_all2 (table_entry J) items es" and d: "distinct (map fst es)"
    by (auto simp: uid_json_def)
  have ex: "j_GetObjectItemCS J (Some ob) PROFILE_KEY_UID_SIZE \<noteq> None"
    "j_GetObjectItemCS J (Some ob) PROFILE_KEY_UID_AND_GID \<noteq> None" using sz us by simp_all
  have ne: "PROFILE_KEY_UID_SIZE \<noteq> PROFILE_KEY_UID_AND_GID" by simp
  note puts = two_puts[OF K ne ex]
  have num: "j_IsNumber J (Some sz)" and arr: "j_IsArray J (Some us)" "j_elems J (Some us) = items"
    using sz us by (auto simp: is_int_def is_arr_def)
  have len: "length items = length es" using l by (rule list_all2_lengthD)
  show ?thesis
  proof (cases "n \<in> fst ` set es")
    case False
    then have "forget_uid n es = es" by (auto simp: forget_uid_def filter_id_conv)
    moreover have "remove_uid J K (Some n) ob =
       Some (sz, k_put K True (k_put K True ob PROFILE_KEY_UID_SIZE sz) PROFILE_KEY_UID_AND_GID us)"
      using uid_index_absent[OF l False, of "-1"] num arr sz us
      by (simp add: remove_uid_def DeleteInnerUidInfoFromUidArray_def)
    moreover have "uid_json J (k_put K True (k_put K True ob PROFILE_KEY_UID_SIZE sz) PROFILE_KEY_UID_AND_GID us) es"
      using puts[of sz us] sz us l d by (auto simp: uid_json_def)
    ultimately show ?thesis using sz(2) by simp
  next
    case True
    from forget_uid_split[OF d this] obtain es1 u es2 where
      s: "es = es1 @ (n, u) # es2" "n \<notin> fst ` set es1" and f: "forget_uid n es = es1 @ es2" by metis
    let ?sz = "k_SetNumberValue K sz (j_valueint J sz - 1)"
    let ?us = "k_DeleteItemFromArray K us (int (length es1))"
    have "remove_uid J K (Some n) ob =
       Some (?sz, k_put K True (k_put K True ob PROFILE_KEY_UID_SIZE ?sz) PROFILE_KEY_UID_AND_GID ?us)"
      using uid_index_present[OF l[unfolded s(1)] s(2), of "-1"] num arr sz us
      by (simp add: remove_uid_def DeleteInnerUidInfoFromUidArray_def)
    moreover have "in_range32 (int (length es) - 1)" using es(2) by (simp add: in_range32_def)
    then have sz': "is_int J (int (length (es1 @ es2))) ?sz"
      using mk_set_number[OF K sz(2)] sz(2) by (simp add: is_int_def s(1))
    moreover have "is_arr J (take (length es1) items @ drop (Suc (length es1)) items) ?us"
      using mk_delete_from_array[OF K us(2), of "length es1"] len s(1) by simp
    moreover have "list_all2 (table_entry J) (take (length es1) items @ drop (Suc (length es1)) items) (es1 @ es2)"
    proof -
      from l[unfolded s(1) list_all2_append2] obtain a b z where "items = a @ z # b"
        "length a = length es1" "list_all2 (table_entry J) a es1" "list_all2 (table_entry J) b es2"
        by (auto simp: list_all2_Cons2)
      then show ?thesis by (simp add: list_all2_appendI)
    qed
    moreover have "distinct (map fst (es1 @ es2))" using d s(1) by auto
    ultimately show ?thesis
      using puts[of ?sz ?us] by (auto simp: f uid_json_def)
  qed
qed

lemma Obtain_new:
  assumes K: "cjson_mk_ok (y_json y) (y_mk y)"
    and "GetJsonStream y t (Some uid_json_path) = None" "ObtainUidAndGidJson y t True = Some ob"
  shows "uid_json (y_json y) ob []"
proof -
  from assms(2,3) obtain o0 n o1 a where o0: "k_CreateObject (y_mk y) = Some o0"
    and n: "k_CreateNumber (y_mk y) 0 = Some n"
    and o1: "k_AddItemToObject (y_mk y) o0 PROFILE_KEY_UID_SIZE n = Some o1"
    and a: "k_CreateArray (y_mk y) = Some a"
    and o2: "k_AddItemToObject (y_mk y) o1 PROFILE_KEY_UID_AND_GID a = Some ob"
    by (auto simp: ObtainUidAndGidJson_def Let_def bind_eq_Some_conv)
  have e1: "adds_item (y_json y) o0 PROFILE_KEY_UID_SIZE o1 (\<lambda>z. z = n)"
    by (rule mk_add_item[OF K mk_create_object[OF K o0] o1])
  then have "j_GetObjectItemCS (y_json y) (Some o1) PROFILE_KEY_UID_AND_GID = None"
    using mk_create_object[OF K o0] by (simp add: adds_item_def)
  from mk_add_item[OF K this o2] have e2: "adds_item (y_json y) o1 PROFILE_KEY_UID_AND_GID ob (\<lambda>z. z = a)" .
  have "is_int (y_json y) 0 n" using mk_create_number[OF K _ n] by (simp add: in_range32_def)
  with e1 e2 mk_create_array[OF K a] show ?thesis
    by (auto simp: uid_json_def adds_item_def)
qed

section \<open>A record is read back\<close>

lemma Strdup_Some: "Strdup plentiful (Some s) = (if length s \<le> MAX_STR_SIZE then Some s else None)"
  by (simp add: Strdup_def plentiful_grants)

lemma record_items:
  assumes K: "cjson_mk_ok J K" and r: "ir_codePath r = Some c" "ir_appId r = Some a" "ir_bundleName r = Some n"
    and range: "in_range32 (ir_versionCode r)" "in_range32 (ir_uid r)" "in_range32 (ir_gid r)"
    and "ConvertInstallRecordToJson K r = Some ob"
  shows "\<exists>x. j_GetObjectItem J (Some ob) JSON_SUB_KEY_CODEPATH = Some x \<and> is_str J c x"
    and "\<exists>x. j_GetObjectItem J (Some ob) JSON_SUB_KEY_APPID = Some x \<and> is_str J a x"
    and "\<exists>x. j_GetObjectItem J (Some ob) JSON_SUB_KEY_VERSIONCODE = Some x \<and> is_int J (ir_versionCode r) x"
    and "\<exists>x. j_GetObjectItem J (Some ob) JSON_SUB_KEY_UID = Some x \<and> is_int J (ir_uid r) x"
proof -
  let ?get = "\<lambda>ob k. j_GetObjectItem J (Some ob) k"
  from assms(8) r obtain o0 o1 o2 o3 o4 o5 where
    o: "k_CreateObject K = Some o0" "k_AddStringToObject K o0 JSON_SUB_KEY_PACKAGE (Some n) = Some o1"
      "k_AddStringToObject K o1 JSON_SUB_KEY_APPID (Some a) = Some o2"
      "k_AddNumberToObject K o2 JSON_SUB_KEY_VERSIONCODE (ir_versionCode r) = Some o3"
      "k_AddNumberToObject K o3 JSON_SUB_KEY_UID (ir_uid r) = Some o4"
      "k_AddNumberToObject K o4 JSON_SUB_KEY_GID (ir_gid r) = Some o5"
      "k_AddStringToObject K o5 JSON_SUB_KEY_CODEPATH (Some c) = Some ob"
    by (auto simp: ConvertInstallRecordToJson_def bind_eq_Some_conv)
  note keys = adds_item_ci_def to_lower_def Let_def
  have n0: "?get o0 k = None" for k by (rule mk_create_object_ci[OF K o(1)])
  have e1: "adds_item_ci J o0 JSON_SUB_KEY_PACKAGE o1 (is_str J n)"
    by (rule mk_add_string_ci[OF K n0 o(2)])
  have "?get o1 JSON_SUB_KEY_APPID = None" using e1 n0 by (simp add: keys)
  from mk_add_string_ci[OF K this o(3)] have e2: "adds_item_ci J o1 JSON_SUB_KEY_APPID o2 (is_str J a)" .
  have "?get o2 JSON_SUB_KEY_VERSIONCODE = None" using e1 e2 n0 by (simp add: keys)
  from mk_add_number_ci[OF K this range(1) o(4)]
  have e3: "adds_item_ci J o2 JSON_SUB_KEY_VERSIONCODE o3 (is_int J (ir_versionCode r))" .
  have "?get o3 JSON_SUB_KEY_UID = None" using e1 e2 e3 n0 by (simp add: keys)
  from mk_add_number_ci[OF K this range(2) o(5)] have e4: "adds_item_ci J o3 JSON_SUB_KEY_UID o4 (is_int J (ir_uid r))" .
  have "?get o4 JSON_SUB_KEY_GID = None" using e1 e2 e3 e4 n0 by (simp add: keys)
  from mk_add_number_ci[OF K this range(3) o(6)] have e5: "adds_item_ci J o4 JSON_SUB_KEY_GID o5 (is_int J (ir_gid r))" .
  have "?get o5 JSON_SUB_KEY_CODEPATH = None" using e1 e2 e3 e4 e5 n0 by (simp add: keys)
  from mk_add_string_ci[OF K this o(7)] have e6: "adds_item_ci J o5 JSON_SUB_KEY_CODEPATH ob (is_str J c)" .
  show "\<exists>x. ?get ob JSON_SUB_KEY_CODEPATH = Some x \<and> is_str J c x"
    using e6 by (simp add: keys)
  show "\<exists>x. ?get ob JSON_SUB_KEY_APPID = Some x \<and> is_str J a x"
    using e2 e3 e4 e5 e6 by (simp add: keys)
  show "\<exists>x. ?get ob JSON_SUB_KEY_VERSIONCODE = Some x \<and> is_int J (ir_versionCode r) x"
    using e3 e4 e5 e6 by (simp add: keys)
  show "\<exists>x. ?get ob JSON_SUB_KEY_UID = Some x \<and> is_int J (ir_uid r) x"
    using e4 e5 e6 by (simp add: keys)
qed

section \<open>Examples\<close>

definition sample_record :: InstallRecord where
  "sample_record = \<lparr>ir_bundleName = Some ''com.a.b'', ir_codePath = Some ''/storage/app/run/com.a.b'',
     ir_appId = Some ''com.a.b_id'', ir_versionCode = 2, ir_uid = 10000, ir_gid = 10000\<rparr>"

definition no_files :: "js system" where
  "no_files = js_system (\<lambda>_. None)"

lemma no_files_stream: "GetJsonStream no_files t p = None"
  by (simp add: GetJsonStream_def no_files_def js_system_def IsFile_def Let_def)

lemma js_system_json: "y_json (js_system f) = js_api" "y_mk (js_system f) = js_mk (\<lambda>_. Some ''{}'') f"
  by (simp_all add: js_system_def)

definition sample_table :: js where
  "sample_table = JObj [(''size'', JNum 1), (''uid_and_gid'',
     JArr [JObj [(''bundleName'', JStr ''com.a.b''), (''uid'', JNum 10000), (''gid'', JNum 10000)]])]"

lemma sample_table_ok: "uid_json js_api sample_table [(''com.a.b'', 10000)]"
  by (simp add: uid_json_def sample_table_def js_api_def table_entry_def is_str_def is_int_def is_arr_def js_is_def clamp32_def)

definition with_table :: "js system" where
  "with_table = js_system (\<lambda>p. if p = uid_json_path then Some sample_table else None)"

lemma with_table_stream: "GetJsonStream with_table t (Some uid_json_path) = Some sample_table"
  by (simp add: GetJsonStream_def with_table_def js_system_def js_mk_def IsFile_def CheckRealPath_def uid_json_path_def
      plentiful_grants Let_def)

lemma sample_record_facts: "ir_bundleName sample_record = Some ''com.a.b''" "ir_codePath sample_record = Some ''/storage/app/run/com.a.b''"
    "ir_appId sample_record = Some ''com.a.b_id''" "ir_versionCode sample_record = 2"
    "in_range32 (ir_uid sample_record)" "in_range32 (ir_gid sample_record)" "in_range32 (ir_versionCode sample_record)"
  by (simp_all add: sample_record_def in_range32_def)

lemma no_files_obtain: "\<exists>ob. ObtainUidAndGidJson no_files t True = Some ob"
  by (simp add: ObtainUidAndGidJson_def no_files_stream) (simp add: no_files_def js_system_def js_mk_def js_add_def)

subsection \<open>The properties\<close>

text \<open>\<open>ConvertUidAndGidToJson\<close> records the bundle: on a well-formed table it gives the table with one more
  entry and the size increased, or the same table when the bundle is already in it, and the table stays
  well formed.\<close>

theorem ConvertUidAndGidToJson_records:
  assumes "cjson_mk_ok (y_json y) (y_mk y)" and "ObtainUidAndGidJson y t True = Some ob"
    and "uid_json (y_json y) ob es" and "length es < 2 ^ 31 - 1"
    and "ir_bundleName r = Some n" and "in_range32 (ir_uid r)" and "in_range32 (ir_gid r)"
    and "ConvertUidAndGidToJson y t r = Some ob'"
  shows "uid_json (y_json y) ob' (record_uid n (ir_uid r) es)"
  using assms by (rule Convert_uid_json)

theorem ConvertUidAndGidToJson_records_witness:
  "\<exists>ob. ConvertUidAndGidToJson no_files [] sample_record = Some ob \<and> uid_json js_api ob [(''com.a.b'', 10000)]"
proof -
  have K: "cjson_mk_ok (y_json no_files) (y_mk no_files)" by (simp add: no_files_def js_system_json js_mk_ok)
  obtain o1 where o1: "ObtainUidAndGidJson no_files [] True = Some o1" using no_files_obtain by blast
  have e: "uid_json (y_json no_files) o1 []" by (rule Obtain_new[OF K no_files_stream o1])
  have o1': "o1 = JObj [(''size'', JNum 0), (''uid_and_gid'', JArr [])]"
    using o1 by (simp add: ObtainUidAndGidJson_def no_files_stream)
      (simp add: no_files_def js_system_def js_mk_def js_add_def)
  obtain ob where ob: "ConvertUidAndGidToJson no_files [] sample_record = Some ob"
    unfolding ConvertUidAndGidToJson_def o1 sample_record_facts o1'
    by (simp add: no_files_def js_system_def js_mk_def js_add_def js_api_def js_is_def
        AddUidAndGidInfo_def sample_record_def Let_def)
  from ConvertUidAndGidToJson_records[OF K o1 e _ sample_record_facts(1,5,6) ob] ob show ?thesis
    by (simp add: record_uid_def sample_record_def no_files_def js_system_json)
qed

text \<open>\<open>DeleteUidInfoFromJson\<close> forgets exactly the bundle: with a well-formed table on disk it succeeds, makes one
  call, and that call removes the file when no entry is left, or else stores the text of a well-formed table
  with the other entries in their order.\<close>

theorem DeleteUidInfoFromJson_forgets:
  assumes "cjson_mk_ok (y_json y) (y_mk y)" and "GetJsonStream y t (Some uid_json_path) = Some ob"
    and "uid_json (y_json y) ob es" and "length es < 2 ^ 31"
    and "\<And>j. k_Print (y_mk y) j = Some (text j)"
  shows "\<exists>ob'. uid_json (y_json y) ob' (forget_uid n es) \<and>
     DeleteUidInfoFromJson y (Some n) t =
       (True, t @ [if forget_uid n es = [] then RemoveFile uid_json_path
                   else StoreContentToFile uid_json_path (text ob') (length (text ob') + 1)])"
proof -
  from remove_uid_json[OF assms(1,3,4)] obtain sz ob' where
    r: "remove_uid (y_json y) (y_mk y) (Some n) ob = Some (sz, ob')"
    "is_int (y_json y) (int (length (forget_uid n es))) sz" "uid_json (y_json y) ob' (forget_uid n es)" by blast
  have "ObtainUidAndGidJson y t False = Some ob" using assms(2) by (simp add: ObtainUidAndGidJson_def)
  with r assms(5) have "DeleteUidInfoFromJson y (Some n) t =
       (True, t @ [if forget_uid n es = [] then RemoveFile uid_json_path
                   else StoreContentToFile uid_json_path (text ob') (length (text ob') + 1)])"
    by (auto simp: DeleteUidInfoFromJson_def is_int_def ask_def)
  with r(3) show ?thesis by blast
qed

theorem DeleteUidInfoFromJson_forgets_witness:
  "DeleteUidInfoFromJson with_table (Some ''com.a.b'') [] = (True, [RemoveFile uid_json_path])"
proof -
  have y: "y_json with_table = js_api" "cjson_mk_ok (y_json with_table) (y_mk with_table)"
    by (simp_all add: with_table_def js_system_json js_mk_ok)
  have "k_Print (y_mk with_table) j = Some ''{}''" for j
    by (simp add: with_table_def js_system_json js_mk_def)
  from DeleteUidInfoFromJson_forgets[OF y(2) with_table_stream sample_table_ok[folded y(1)] _ this, of "''com.a.b''" "[]"]
  show ?thesis by (simp add: forget_uid_def)
qed

text \<open>The record of an installation is read back at the next boot: when the bundle's file holds the document
  \<open>ConvertInstallRecordToJson\<close> built and its code path is a directory named after the bundle, then
  \<open>CheckBundleJsonIsValid\<close> accepts it with the code path, application id and version that were recorded.\<close>

theorem install_record_read_back:
  assumes "cjson_mk_ok (y_json y) (y_mk y)" and "y_alloc y = plentiful"
    and "ir_bundleName r = Some n" and "ir_codePath r = Some c" and "ir_appId r = Some a"
    and "in_range32 (ir_versionCode r)" and "in_range32 (ir_uid r)" and "in_range32 (ir_gid r)"
    and "0 \<le> ir_versionCode r" and "length c \<le> MAX_STR_SIZE" and "length a \<le> MAX_STR_SIZE"
    and "n \<noteq> []" and "suffix n c" and "IsDir (y_posix y t) (Some c)"
    and "ConvertInstallRecordToJson (y_mk y) r = Some ob"
    and "bundle_json_path n = Some path" and "GetJsonStream y t (Some path) = Some ob"
  shows "CheckBundleJsonIsValid y t (Some n) c0 a0 v0 = Some (True, Some c, Some a, ir_versionCode r)"
proof -
  note items = record_items[OF assms(1,4,5,3,6,7,8,15)]
  from items(1) obtain x where x: "j_GetObjectItem (y_json y) (Some ob) JSON_SUB_KEY_CODEPATH = Some x" "is_str (y_json y) c x" by blast
  from items(2) obtain z where z: "j_GetObjectItem (y_json y) (Some ob) JSON_SUB_KEY_APPID = Some z" "is_str (y_json y) a z" by blast
  from items(3) obtain v where v: "j_GetObjectItem (y_json y) (Some ob) JSON_SUB_KEY_VERSIONCODE = Some v"
    "is_int (y_json y) (ir_versionCode r) v" by blast
  have "EndWith (Some c) (Some n)" using assms(12,13) by (simp add: EndWith_iff)
  then show ?thesis
    using x z v assms(2,9-14,16,17)
    by (simp add: CheckBundleJsonIsValid_def Let_def is_str_def is_int_def Strdup_Some)
qed

theorem install_record_read_back_witness:
  "\<exists>ob. CheckBundleJsonIsValid
      ((js_system (\<lambda>p. if p = ''/storage/app/etc/bundles/com.a.b.json'' then Some ob else None))
        \<lparr>y_posix := (\<lambda>_. \<lparr>px_stat = (\<lambda>p. Some (p = ''/storage/app/run/com.a.b'', int (length p))),
                         px_open = (\<lambda>_. True), px_read = (\<lambda>p. p)\<rparr>)\<rparr>)
      [] (Some ''com.a.b'') None None (-1) =
    Some (True, Some ''/storage/app/run/com.a.b'', Some ''com.a.b_id'', 2)"
proof -
  let ?p = "''/storage/app/etc/bundles/com.a.b.json''"
  define files :: "js \<Rightarrow> string \<Rightarrow> js option" where "files = (\<lambda>ob p. if p = ?p then Some ob else None)"
  let ?y = "\<lambda>ob. (js_system (files ob))
        \<lparr>y_posix := (\<lambda>_. \<lparr>px_stat = (\<lambda>p. Some (p = ''/storage/app/run/com.a.b'', int (length p))),
                         px_open = (\<lambda>_. True), px_read = (\<lambda>p. p)\<rparr>)\<rparr>"
  have K: "cjson_mk_ok (y_json (?y ob)) (y_mk (?y ob))" for ob
    by (simp add: js_system_json js_mk_ok)
  obtain ob where ob: "ConvertInstallRecordToJson (js_mk (\<lambda>_. Some ''{}'') f) sample_record = Some ob" for f
    by (simp add: ConvertInstallRecordToJson_def js_mk_def js_add_def sample_record_def)
  have st: "GetJsonStream (?y ob) [] (Some ?p) = Some ob"
    by (simp add: GetJsonStream_def js_system_def js_mk_def IsFile_def CheckRealPath_def plentiful_grants Let_def files_def)
  have dir: "IsDir (y_posix (?y ob) []) (Some ''/storage/app/run/com.a.b'')" by (simp add: IsDir_def)
  have path: "bundle_json_path ''com.a.b'' = Some ?p" by (simp add: bundle_json_path_def)
  have al: "y_alloc (?y ob) = plentiful" by (simp add: js_system_def)
  have mk: "ConvertInstallRecordToJson (y_mk (?y ob)) sample_record = Some ob" using ob by (simp add: js_system_json)
  have suf: "suffix ''com.a.b'' ''/storage/app/run/com.a.b''" by (simp add: suffix_def)
  from install_record_read_back[OF K al sample_record_facts(1-3,7,5,6) _ _ _ _ suf dir mk path st, of None None "-1"]
  show ?thesis by (intro exI[of _ ob]) (simp add: sample_record_facts files_def)
qed

end
