(* ===== verification/Hap_Profile.thy ===== *)
theory Hap_Profile
  imports System Bundle_Records
begin

text \<open>
  The entry points of \<^verbatim>\<open>services/bundlemgr_lite/src/bundle_parser.cpp\<close>: the parameters of a package to be
  installed, the bundle of an installed package (its \<open>config.json\<close> on disk) and that of a package being
  installed (the profile in its archive, with its permissions and resource ids).

  \<open>None\<close> is an undefined access, as in the parser. The registry's answer for a name is the parameter \<open>query\<close>.
\<close>

abbreviation (input) "PROFILE_KEY_APP \<equiv> ''app''"
abbreviation (input) "PROFILE_KEY_DEVICECONFIG \<equiv> ''deviceConfig''"
abbreviation (input) "PROFILE_KEY_MODULE \<equiv> ''module''"
abbreviation (input) "PROFILE_KEY_REQPERMISSIONS \<equiv> ''reqPermissions''"

text \<open>The outputs \<open>bundleName\<close> and \<open>versionCode\<close> are returned as they are left.\<close>

definition ParseBundleParam :: "'j system \<Rightarrow> trace \<Rightarrow> cstr \<Rightarrow> cstr \<Rightarrow> int \<Rightarrow> errcode \<times> cstr \<times> int" where
  "ParseBundleParam y t path bundleName versionCode =
     (let J = y_json y in
      if \<not> CheckRealPath path then (ERR_INSTALL_FAILED_FILE_PATH_INVALID, bundleName, versionCode)
      else if \<not> EndWith path (Some INSTALL_FILE_SUFFIX)
      then (ERR_INSTALL_FAILED_INVALID_FILE_NAME, bundleName, versionCode)
      else if \<not> IsFile (y_posix y t) path then (ERR_INSTALL_FAILED_FILE_NOT_EXISTS, bundleName, versionCode)
      else let (e, profileStream) = y_extract y t (the path) in
      if e \<noteq> ERR_OK then (ERR_INSTALL_FAILED_PARSE_PROFILE_ERROR, bundleName, versionCode)
      else let root = k_Parse (y_mk y) profileStream in
      if root = None then (ERR_INSTALL_FAILED_PARSE_PROFILE_ERROR, bundleName, versionCode)
      else let appObject = j_GetObjectItem J root PROFILE_KEY_APP in
      if appObject = None then (ERR_INSTALL_FAILED_PARSE_PROFILE_ERROR, bundleName, versionCode)
      else let bundleName = Strdup (y_alloc y) (ParseValue_str J appObject ''bundleName'') in
      if bundleName = None then (ERR_INSTALL_FAILED_PARSE_BUNDLENAME_ERROR, bundleName, versionCode)
      else let object = ParseValue_obj J appObject ''version'' None in
      if object = None then (ERR_INSTALL_FAILED_PARSE_VERSIONCODE_ERROR, bundleName, versionCode)
      else let versionCode = ParseValue_int J object ''code'' (-1) in
      if versionCode = -1 then (ERR_INSTALL_FAILED_PARSE_VERSIONCODE_ERROR, bundleName, versionCode)
      else (ERR_OK, bundleName, versionCode))"

text \<open>The profile of an installed package, in the directory \<open>path\<close> of the package.\<close>

definition ParseHapProfile_dir :: "'j system \<Rightarrow> trace \<Rightarrow> cstr \<Rightarrow> BundleInfo option option" where
  "ParseHapProfile_dir y t path =
     (let J = y_json y in
      if \<not> CheckRealPath path then Some None
      else let root = GetJsonStream y t (Some (the path @ PATH_SEPARATOR @ PROFILE_NAME)) in
      if root = None then Some None
      else let appObject = j_GetObjectItem J root PROFILE_KEY_APP;
               configObject = j_GetObjectItem J root PROFILE_KEY_DEVICECONFIG;
               moduleObject = j_GetObjectItem J root PROFILE_KEY_MODULE in
      if appObject = None \<or> moduleObject = None then Some None
      else do {
        (e, (p, r)) \<leftarrow> ParseJsonInfo J (y_alloc y) (y_sysCaps y) appObject configObject moduleObject
                        (zero_BundleProfile, zero_BundleRes);
        if e \<noteq> ERR_OK then Some None
        else let (installDirPath, dataDirPath) =
               (if StartWith path (Some INSTALL_PATH) then (INSTALL_PATH, DATA_PATH)
                else (EXTEANAL_INSTALL_PATH, EXTEANAL_DATA_PATH)) in
          CreateBundleInfo (y_alloc y) (y_posix y t) (y_res y) p installDirPath dataDirPath r })"

record hap =
  hap_permissions :: "PermissionTrans list"
  hap_bundleRes :: BundleRes
  hap_bundleInfo :: "BundleInfo option"

definition zero_hap :: hap where
  "zero_hap = \<lparr>hap_permissions = [], hap_bundleRes = zero_BundleRes, hap_bundleInfo = None\<rparr>"

text \<open>What the installer's variables hold afterwards is the second component.\<close>

definition ParseHapProfile ::
    "'j system \<Rightarrow> trace \<Rightarrow> (cstr \<Rightarrow> BundleInfo option option) \<Rightarrow> string \<Rightarrow> string \<Rightarrow> string \<Rightarrow> (errcode \<times> hap) option" where
  "ParseHapProfile y t query codeDir dataDir path =
     (let J = y_json y; m = y_alloc y; (e, profileStream) = y_extract y t path in
      if e \<noteq> ERR_OK then Some (e, zero_hap)
      else let root = k_Parse (y_mk y) profileStream in
      if root = None then Some (ERR_INSTALL_FAILED_PARSE_PROFILE_ERROR, zero_hap)
      else let appObject = j_GetObjectItem J root PROFILE_KEY_APP;
               configObject = j_GetObjectItem J root PROFILE_KEY_DEVICECONFIG;
               moduleObject = j_GetObjectItem J root PROFILE_KEY_MODULE in
      if appObject = None \<or> moduleObject = None then Some (ERR_INSTALL_FAILED_PARSE_PROFILE_ERROR, zero_hap)
      else do {
        (e, (p, r)) \<leftarrow> ParseJsonInfo J m (y_sysCaps y) appObject configObject moduleObject
                        (zero_BundleProfile, zero_BundleRes);
        let h = zero_hap\<lparr>hap_bundleRes := r\<rparr>;
        if e \<noteq> ERR_OK then Some (e, h)
        else let object = ParseValue_obj J moduleObject PROFILE_KEY_REQPERMISSIONS None;
                 (e, ps) = ParsePermissions J (y_permValid y) (y_permNameLen y) (y_permDescLen y) m object;
                 h = h\<lparr>hap_permissions := ps\<rparr> in
        if e \<noteq> ERR_OK then Some (e, h)
        else do {
          old \<leftarrow> query (bp_bundleName p);
          (e, b) \<leftarrow> SaveBundleInfo m old codeDir dataDir p;
          Some (e, h\<lparr>hap_bundleInfo := b\<rparr>) } })"

text \<open>What an accepted profile is.\<close>

lemma SaveBundleInfo_OK:
  assumes "SaveBundleInfo m old codeDir dataDir p = Some (ERR_OK, bo)"
  shows "\<exists>i d b. bo = Some b \<and> install_dirs old codeDir dataDir = Some (i, d) \<and>
     SetBundleInfo m p i d zero_BundleInfo = Some (True, b)"
  using assms
  by (auto simp: SaveBundleInfo_def install_dirs_def bind_Some_iff
      split: if_splits option.splits prod.splits)

lemma ParseHapProfile_OK:
  assumes ok: "ParseHapProfile y t query codeDir dataDir path = Some (ERR_OK, h)" and J: "cjson_ok (y_json y)"
  shows "\<exists>n b old i d mn. hap_bundleInfo h = Some b \<and> bi_bundleName b = Some n \<and> dotted_name n \<and>
     query (Some n) = Some old \<and> install_dirs old codeDir dataDir = Some (i, d) \<and>
     bi_codePath b = Some (i @ PATH_SEPARATOR @ n) \<and> bi_dataPath b = Some (d @ PATH_SEPARATOR @ n) \<and>
     first_module b = Some mn \<and> \<not> contains mn ''../''"
proof -
  define J where "J = y_json y"
  obtain e1 text1 where x: "y_extract y t path = (e1, text1)" by fastforce
  define root where "root = k_Parse (y_mk y) text1"
  define app where "app = j_GetObjectItem J root PROFILE_KEY_APP"
  define cfg where "cfg = j_GetObjectItem J root PROFILE_KEY_DEVICECONFIG"
  define mo where "mo = j_GetObjectItem J root PROFILE_KEY_MODULE"
  note parts = x J_def[symmetric] root_def[symmetric] app_def[symmetric] cfg_def[symmetric] mo_def[symmetric]
  from ok have nn: "e1 = ERR_OK" "root \<noteq> None" "app \<noteq> None" "mo \<noteq> None"
    by (auto simp: ParseHapProfile_def Let_def parts split: if_splits)
  from ok nn obtain e2 p r where pj2: "ParseJsonInfo J (y_alloc y) (y_sysCaps y) app cfg mo (zero_BundleProfile, zero_BundleRes) = Some (e2, (p, r))"
    by (auto simp: ParseHapProfile_def Let_def parts bind_Some_iff)
  with ok nn have e2: "e2 = ERR_OK" by (auto simp: ParseHapProfile_def Let_def parts split: if_splits)
  obtain e3 ps where pp: "ParsePermissions J (y_permValid y) (y_permNameLen y) (y_permDescLen y) (y_alloc y)
      (ParseValue_obj J mo PROFILE_KEY_REQPERMISSIONS None) = (e3, ps)" by fastforce
  from ok nn pj2 e2 have e3: "e3 = ERR_OK" by (auto simp: ParseHapProfile_def Let_def parts pp split: if_splits)
  from ok nn pj2 e2 e3 obtain old bo where
    q: "query (bp_bundleName p) = Some old"
    and sb: "SaveBundleInfo (y_alloc y) old codeDir dataDir p = Some (ERR_OK, bo)"
    and h: "hap_bundleInfo h = bo"
    by (auto simp: ParseHapProfile_def Let_def parts pp bind_Some_iff)
  have pj: "ParseJsonInfo (y_json y) (y_alloc y) (y_sysCaps y) app cfg mo (zero_BundleProfile, zero_BundleRes) = Some (ERR_OK, (p, r))"
    using pj2 e2 by (simp add: J_def)
  from ParseJsonInfo_OK[OF pj J] have wf: "profile_wf p" .
  from SaveBundleInfo_OK[OF sb] obtain i d b where
    b: "bo = Some b" "install_dirs old codeDir dataDir = Some (i, d)" "SetBundleInfo (y_alloc y) p i d zero_BundleInfo = Some (True, b)"
    by blast
  from SetBundleInfo_OK[OF b(3)] obtain n mi mn where
    n: "bp_bundleName p = Some n" "bi_bundleName b = Some n" "bi_codePath b = Some (i @ PATH_SEPARATOR @ n)"
      "bi_dataPath b = Some (d @ PATH_SEPARATOR @ n)" and
    mi: "bi_moduleInfos b = Some [mi]" "mi_moduleName mi = Some mn" "mi_moduleName (bp_moduleInfo p) = Some mn" by blast
  from wf mi(3) have "\<not> contains mn ''../''" by (auto simp: profile_wf_def module_wf_def)
  moreover from wf n(1) have "dotted_name n" by (auto simp: profile_wf_def)
  moreover from mi have "first_module b = Some mn" by (simp add: first_module_def)
  ultimately show ?thesis using h b n q by auto
qed

end
