(* ===== verification/Bundle_Store.thy ===== *)
theory Bundle_Store
  imports Bundle_Map
begin

text \<open>
  The registry together with the objects its clients hold before they register them: the installer
  makes a \<open>BundleInfo\<close>, changes it through its pointer, and either registers or frees it. The locale
  \<open>bundle_store\<close> extends \<open>bundle_registry\<close> with looking up a pointer, writing through one and freeing; its
  interpretation is \<open>BundleMap\<close> with the store of objects.
\<close>

definition write_info :: "nat \<Rightarrow> BundleInfo \<Rightarrow> bundle_map \<Rightarrow> bundle_map" where
  "write_info p b bm = bm\<lparr>bm_heap := (bm_heap bm)(p \<mapsto> b)\<rparr>"

locale bundle_store = bundle_registry +
  fixes get :: "cstr \<Rightarrow> 'a \<Rightarrow> nat option option"
    and wr :: "nat \<Rightarrow> BundleInfo \<Rightarrow> 'a \<Rightarrow> 'a"
    and rel :: "nat option \<Rightarrow> 'a \<Rightarrow> 'a option"
  assumes get_none: "ok s \<Longrightarrow> look s n = None \<Longrightarrow> get (Some n) s = Some None"
    and get_some: "ok s \<Longrightarrow> look s n = Some b \<Longrightarrow>
      \<exists>p. get (Some n) s = Some (Some p) \<and> peek s p = Some b \<and> held s p"
    and wr_law: "ok s \<Longrightarrow> peek s p \<noteq> None \<Longrightarrow> \<not> held s p \<Longrightarrow>
      ok (wr p b s) \<and> look (wr p b s) = look s \<and> peek (wr p b s) p = Some b \<and> \<not> held (wr p b s) p"
    and rel_law: "ok s \<Longrightarrow> peek s p \<noteq> None \<Longrightarrow> \<not> held s p \<Longrightarrow>
      \<exists>s'. rel (Some p) s = Some s' \<and> ok s' \<and> look s' = look s \<and> peek s' p = None"
    and del_keeps: "ok s \<Longrightarrow> del (Some n) s = Some s' \<Longrightarrow> \<not> held s p \<Longrightarrow>
      peek s' p = peek s p \<and> \<not> held s' p"
    and upd_keeps: "ok s \<Longrightarrow> peek s p = Some b \<Longrightarrow> \<not> held s p \<Longrightarrow> upd (Some p) s = Some (r, s') \<Longrightarrow>
      peek s' p = Some b"
begin

text \<open>An object of a client's own: live and not registered.\<close>

definition own :: "'a \<Rightarrow> nat \<Rightarrow> BundleInfo \<Rightarrow> bool" where
  "own s p b \<longleftrightarrow> ok s \<and> peek s p = Some b \<and> \<not> held s p"

lemma own_peek: "own s p b \<Longrightarrow> peek s p = Some b"
  by (simp add: own_def)

lemma own_new: "ok s \<Longrightarrow> mk b s = (p, s') \<Longrightarrow> own s' p b \<and> look s' = look s"
  using mk_law by (simp add: own_def)

lemma own_write: "own s p b \<Longrightarrow> own (wr p c s) p c \<and> look (wr p c s) = look s"
  using wr_law by (auto simp: own_def)

lemma own_free: "own s p b \<Longrightarrow> \<exists>s'. rel (Some p) s = Some s' \<and> ok s' \<and> look s' = look s \<and> peek s' p = None"
  using rel_law by (auto simp: own_def)

lemma own_del: "own s p b \<Longrightarrow> \<exists>s'. del (Some n) s = Some s' \<and> own s' p b \<and> look s' = (look s)(n := None)"
  using del_law[of s n] del_keeps[of s n] by (auto simp: own_def)

lemma own_register:
  "own s p b \<Longrightarrow> bi_bundleName b = Some n \<Longrightarrow>
   \<exists>s'. upd (Some p) s = Some (True, s') \<and> ok s' \<and> look s' = (look s)(n \<mapsto> b) \<and> peek s' p = Some b"
  using upd_law[of s p b] upd_keeps[of s p b] by (auto simp: own_def with_name_def)

end

lemma bm_get_some:
  assumes "bm_ok bm" "bm_look bm n = Some b"
  shows "\<exists>p. Get (Some n) bm = Some (Some p) \<and> bm_heap bm p = Some b \<and> bm_held bm p"
proof -
  from assms(1) obtain as ps bs where inv: "bm_inv as ps bs bm" by (auto simp: bm_ok_def)
  with assms(2) have "b \<in> set bs" "bi_bundleName b = Some n" by (simp_all add: bm_look_iff)
  from Get_present[OF inv this] show ?thesis using bm_held_iff[OF inv] by auto
qed

lemma bm_get_none: "bm_ok bm \<Longrightarrow> bm_look bm n = None \<Longrightarrow> Get (Some n) bm = Some None"
  by (auto simp: bm_ok_def bm_look_None intro: Get_absent)

lemma bm_heap_changed:
  assumes inv: "bm_inv as ps bs bm" and p: "bm_heap bm p \<noteq> None" "p \<notin> set ps"
  shows "bm_inv as ps bs (bm\<lparr>bm_heap := (bm_heap bm)(p := v)\<rparr>)"
  using assms by (auto simp: bm_inv_def dom_def split: if_splits)

lemma bm_wr_law:
  assumes "bm_ok bm" "bm_heap bm p \<noteq> None" "\<not> bm_held bm p"
  shows "bm_ok (write_info p b bm) \<and> bm_look (write_info p b bm) = bm_look bm \<and>
         bm_heap (write_info p b bm) p = Some b \<and> \<not> bm_held (write_info p b bm) p"
proof -
  from assms(1) obtain as ps bs where inv: "bm_inv as ps bs bm" by (auto simp: bm_ok_def)
  have np: "p \<notin> set ps" using assms(3) bm_held_iff[OF inv] by simp
  have i: "bm_inv as ps bs (write_info p b bm)"
    unfolding write_info_def by (rule bm_heap_changed[OF inv assms(2) np])
  then show ?thesis
    using bm_look_same[OF inv i] np bm_held_iff[OF i] by (auto simp: write_info_def intro: bm_okI)
qed

lemma bm_rel_law:
  assumes "bm_ok bm" "bm_heap bm p \<noteq> None" "\<not> bm_held bm p"
  shows "\<exists>bm'. FreeBundleInfo (Some p) bm = Some bm' \<and> bm_ok bm' \<and> bm_look bm' = bm_look bm \<and> bm_heap bm' p = None"
proof -
  from assms(1) obtain as ps bs where inv: "bm_inv as ps bs bm" by (auto simp: bm_ok_def)
  have np: "p \<notin> set ps" using assms(3) bm_held_iff[OF inv] by simp
  have i: "bm_inv as ps bs (bm\<lparr>bm_heap := (bm_heap bm)(p := None)\<rparr>)"
    by (rule bm_heap_changed[OF inv assms(2) np])
  moreover from assms(2) obtain b where "bm_heap bm p = Some b" by auto
  ultimately show ?thesis
    using bm_look_same[OF inv i] by (auto simp: FreeBundleInfo_def intro: bm_okI)
qed

lemma bm_del_keeps:
  assumes "bm_ok bm" "Erase (Some n) bm = Some bm'" "\<not> bm_held bm p"
  shows "bm_heap bm' p = bm_heap bm p \<and> \<not> bm_held bm' p"
proof -
  from assms(1) obtain as ps bs where inv: "bm_inv as ps bs bm" by (auto simp: bm_ok_def)
  have np: "p \<notin> set ps" using assms(3) bm_held_iff[OF inv] by simp
  show ?thesis
  proof (cases "Some n \<in> bi_bundleName ` set bs")
    case False
    with Erase_absent[OF inv] assms show ?thesis by simp
  next
    case True
    then obtain c where "c \<in> set bs" "bi_bundleName c = Some n" by auto
    from Erase_known[OF inv this] assms(2) obtain as' ps' bs' where
      e: "bm_inv as' ps' bs' bm'" "set ps' \<subseteq> set ps" "\<forall>x. x \<notin> set ps \<longrightarrow> bm_heap bm' x = bm_heap bm x" by auto
    then have "bm_heap bm' p = bm_heap bm p" "p \<notin> set ps'" using np by auto
    then show ?thesis using bm_held_iff[OF e(1)] by simp
  qed
qed

lemma bm_upd_keeps:
  assumes "bm_ok bm" and p: "bm_heap bm p = Some b" "\<not> bm_held bm p" and u: "Update (Some p) bm = Some (r, bm')"
  shows "bm_heap bm' p = Some b"
proof (cases "bi_bundleName b")
  case None
  with p u show ?thesis by (simp add: Update_def)
next
  case (Some n)
  from assms(1) obtain as ps bs where inv: "bm_inv as ps bs bm" by (auto simp: bm_ok_def)
  have np: "p \<notin> set ps" using p bm_held_iff[OF inv] by simp
  show ?thesis
  proof (cases "Some n \<in> bi_bundleName ` set bs")
    case True
    then obtain c where "c \<in> set bs" "bi_bundleName c = Some n" by auto
    from Update_known[OF inv p(1) Some np this] u show ?thesis by auto
  next
    case False
    from Update_new[OF inv p(1) Some np False] u show ?thesis by auto
  qed
qed

interpretation bs: bundle_store bm_ok bm_look bm_held bm_heap new_info Add Update Erase Get write_info FreeBundleInfo
  by unfold_locales (fact bm_get_none bm_get_some bm_wr_law bm_rel_law bm_del_keeps bm_upd_keeps)+

text \<open>
  Freeing an object that the list still holds: the next search for its name compares with the freed
  object's name.
\<close>

lemma find_loop_stuck:
  assumes "ring l (as0 @ as1 @ a # as2) (xs0 @ xs1 @ x # xs2)" and "length as0 = length xs0" "length as1 = length xs1"
    and "\<forall>z \<in> set xs1. test z = Some False" "test x = None"
  shows "find_loop test (Some (hd (as1 @ [a]))) l = None"
  using assms
proof (induction as1 arbitrary: as0 xs0 xs1)
  case Nil
  obtain n where n: "store l a = Some n" using ring_alive[OF Nil.prems(1), of a] by auto
  have ne: "a \<noteq> head_of l" using Nil.prems(1) by (auto simp: ring_def)
  have "value_of n = x" using place_value[of l as0 a as2 xs0 x xs2] Nil.prems(1,2,3) n by simp
  with n ne Nil.prems(5) show ?case by (subst find_loop.simps) simp
next
  case (Cons c as1)
  from Cons.prems(3) obtain z ys where xs1: "xs1 = z # ys" by (cases xs1) auto
  obtain n where n: "store l c = Some n" using ring_alive[OF Cons.prems(1), of c] by auto
  have ne: "c \<noteq> head_of l" using Cons.prems(1) by (auto simp: ring_def)
  have v: "value_of n = z"
    using place_value[of l as0 c "as1 @ a # as2" xs0 z "ys @ x # xs2"] Cons.prems(1,2) xs1 n by simp
  have nn: "next_of n = Some (hd (as1 @ [a]))"
    using ring_links(1)[of l "as0 @ [c]" "as1 @ a # as2" "xs0 @ xs1 @ x # xs2"] Cons.prems(1) n
    by (simp add: nxD hd_append)
  have IH: "find_loop test (Some (hd (as1 @ [a]))) l = None"
    using Cons.prems xs1 by (intro Cons.IH[of "as0 @ [c]" "xs0 @ [z]" ys]) auto
  show ?case using n ne v nn IH Cons.prems(4) xs1 by (subst find_loop.simps) simp
qed

lemma find_node_stuck:
  assumes "ring l (as1 @ a # as2) (xs1 @ x # xs2)" "length as1 = length xs1"
    and "\<forall>z \<in> set xs1. test z = Some False" "test x = None"
  shows "find_node test l = None"
proof -
  obtain hn where hn: "store l (head_of l) = Some hn" using ring_alive[OF assms(1), of "head_of l"] by auto
  have "Begin l = Some (Some (hd (as1 @ [a])))"
    using ring_links(1)[of l "[]" "as1 @ a # as2" "xs1 @ x # xs2"] assms(1) hn
    by (simp add: Begin_def deref_def nxD hd_append)
  moreover have "find_loop test (Some (hd (as1 @ [a]))) l = None"
    using find_loop_stuck[of l "[]" as1 a as2 "[]" xs1 x xs2 test] assms by simp
  ultimately show ?thesis by (simp add: find_node_def)
qed

lemma Get_after_free:
  assumes ok: "bm_ok bm" and b: "bm_look bm n = Some b" and g: "Get (Some n) bm = Some (Some p)"
    and f: "FreeBundleInfo (Some p) bm = Some bm'"
  shows "Get (Some n) bm' = None"
proof -
  from ok obtain as ps bs where inv: "bm_inv as ps bs bm" by (auto simp: bm_ok_def)
  from b inv have bn: "b \<in> set bs" "bi_bundleName b = Some n" by (simp_all add: bm_look_iff)
  from bm_place[OF inv bn] obtain as1 a as2 ps1 q ps2 bs1 bs2 where
    pl: "as = as1 @ a # as2" "ps = ps1 @ q # ps2" "bs = bs1 @ b # bs2"
      "length as1 = length ps1" "length ps1 = length bs1"
      "bm_heap bm q = Some b" "Some n \<notin> bi_bundleName ` set (bs1 @ bs2)" by metis
  have ring: "ring (bm_list bm) (as1 @ a # as2) (map Some ps1 @ Some q # map Some ps2)"
    using bm_inv_ring[OF inv] pl(1,2) by simp
  have live: "map (bm_heap bm) (ps1 @ q # ps2) = map Some (bs1 @ b # bs2)"
    using bm_inv_live[OF inv] pl(2,3) by simp
  have "find_node (has_name (bm_heap bm) n) (bm_list bm) = Some (Some a)"
    using find_named_present[OF _ live pl(4,5) bn(2)] ring pl(7) by (simp add: image_Un)
  moreover obtain nd where nd: "store (bm_list bm) a = Some nd" using ring_alive[OF ring, of a] by auto
  moreover have "value_of nd = Some q"
    using place_value[OF ring _ nd] pl(4) by simp
  ultimately have pq: "p = q" using g by (simp add: Get_def)
  have l1: "map (bm_heap bm) ps1 = map Some bs1" using live pl(5) by (simp add: append_eq_append_conv)
  have q1: "q \<notin> set ps1" using inv pl(2) by (auto simp: bm_inv_def)
  have "has_name ((bm_heap bm)(p := None)) n z = Some False" if "z \<in> set (map Some ps1)" for z
  proof -
    from that obtain r where r: "z = Some r" "r \<in> set ps1" by auto
    then have "bm_heap bm r \<in> set (map (bm_heap bm) ps1)" by simp
    then obtain c where c: "bm_heap bm r = Some c" "c \<in> set bs1" unfolding l1 by auto
    with pl(7) have "bi_bundleName c \<noteq> Some n" by force
    with c(1) r q1 pq show ?thesis by (auto simp: has_name_def)
  qed
  moreover have "has_name ((bm_heap bm)(p := None)) n (Some q) = None" using pq by (simp add: has_name_def)
  ultimately have "find_node (has_name ((bm_heap bm)(p := None)) n) (bm_list bm) = None"
    using find_node_stuck[OF ring] pl(4) by simp
  then show ?thesis using f pl(6) pq by (auto simp: FreeBundleInfo_def Get_def)
qed

end
