(* ===== verification/Installer.thy ===== *)
theory Installer
  imports Hap_Profile Bundle_Store
begin

text \<open>
  \<^verbatim>\<open>services/bundlemgr_lite/src/bundle_installer.cpp\<close> and \<^verbatim>\<open>hap_sign_verify.cpp\<close>, in the release build: the checks a
  package passes, and the sequences of steps that install and uninstall it. The state is the registry
  (with the store of \<open>BundleInfo\<close> objects), the uid maps, the installer's two directories, the install mode
  and the trace of the calls made.

  \<open>installRecord.bundleName\<close>, \<open>appId\<close> and \<open>codePath\<close> point into the \<open>BundleInfo\<close> object being installed:
  \<open>owner\<close> is that object, and reading one of them after the object was freed is undefined, as is every
  other access through a dead pointer; such a run is \<open>None\<close>.
\<close>

abbreviation (input) "MATCHED_ALL_STR \<equiv> ''.*''"
abbreviation (input) "PATH_MAX \<equiv> 4096 :: nat"

record service =
  sv_bundles :: bundle_map
  sv_uids :: uid_maps
  sv_codeDir :: string
  sv_dataDir :: string
  sv_external :: bool
  sv_trace :: trace

text \<open>A call made in a state.\<close>

definition do_call :: "'j system \<Rightarrow> call \<Rightarrow> service \<Rightarrow> bool \<times> service" where
  "do_call y c s = (y_ask y (sv_trace s) c, s\<lparr>sv_trace := sv_trace s @ [c]\<rparr>)"

section \<open>Where a package goes\<close>

definition GetHapType :: "cstr \<Rightarrow> nat" where
  "GetHapType path =
     (if StartWith path (Some SYSTEM_BUNDLE_PATH) then SYSTEM_APP_FLAG
      else if StartWith path (Some THIRD_SYSTEM_BUNDLE_PATH) then THIRD_SYSTEM_APP_FLAG
      else THIRD_APP_FLAG)"

definition ModifyInstallDirByHapType :: "InstallParam \<Rightarrow> nat \<Rightarrow> service \<Rightarrow> service" where
  "ModifyInstallDirByHapType installParam hapType s =
     (if hapType \<noteq> THIRD_APP_FLAG then s\<lparr>sv_dataDir := DATA_PATH, sv_codeDir := INSTALL_PATH\<rparr>
      else if sv_external s \<or> ip_installLocation installParam = INSTALL_LOCATION_PREFER_EXTERNAL
      then s\<lparr>sv_dataDir := EXTEANAL_DATA_PATH, sv_codeDir := EXTEANAL_INSTALL_PATH\<rparr>
      else s\<lparr>sv_dataDir := DATA_PATH, sv_codeDir := INSTALL_PATH\<rparr>)"

definition RestoreInstallEnv :: "InstallParam \<Rightarrow> service \<Rightarrow> service" where
  "RestoreInstallEnv installParam s =
     (if sv_external s then s
      else if ip_installLocation installParam = INSTALL_LOCATION_PREFER_EXTERNAL
      then s\<lparr>sv_dataDir := DATA_PATH, sv_codeDir := INSTALL_PATH\<rparr>
      else s)"

definition CheckInstallFileIsValid :: "posix \<Rightarrow> cstr \<Rightarrow> errcode" where
  "CheckInstallFileIsValid px path =
     (if path = None then ERR_INSTALL_FAILED_PARAM_ERROR
      else if \<not> EndWith path (Some INSTALL_FILE_SUFFIX) then ERR_INSTALL_FAILED_INVALID_FILE_NAME
      else if \<not> IsFile px path then ERR_INSTALL_FAILED_FILE_NOT_EXISTS
      else if GetFileSize px path = 0 then ERR_INSTALL_FAILED_BAD_FILE
      else ERR_OK)"

section \<open>The signature and the provision\<close>

definition SwitchErrorCode :: "verify_codes \<Rightarrow> int \<Rightarrow> errcode" where
  "SwitchErrorCode v errorCode =
     (let errCode = (word_of_int errorCode :: u32) in
      if errCode \<ge> V_ERR_GET_CERT_INFO v \<and> errCode \<le> V_ERR_GET_CERT_TYPE v
      then ERR_INSTALL_FAILED_PARSE_APP_SIGNATURE_ERROR
      else if errCode \<ge> V_ERR_GET_PROFILE_DATA v \<and> errCode \<le> V_ERR_INVALID_DEVID v
      then ERR_INSTALL_FAILED_PARSE_PROFILE_SIGNATURE_ERROR
      else if errCode \<ge> V_ERR_FILE_OPEN v \<and> errCode \<le> V_ERR_FILE_LENGTH v
      then ERR_INSTALL_FAILED_OPERATE_SIGNED_FILE_ERROR
      else if (errCode \<ge> V_ERR_MEMSET v \<and> errCode \<le> V_ERR_MALLOC v) \<or> errCode = V_ERR v
      then ERR_INSTALL_FAILED_INTERNAL_SIGNATURE_ERROR
      else ERR_OK)"

definition VerifySignature :: "'j system \<Rightarrow> trace \<Rightarrow> string \<Rightarrow> errcode \<times> SignatureInfo" where
  "VerifySignature y t hapFilepath =
     (let (ret, info) = y_appVerify y t hapFilepath; errorCode = SwitchErrorCode (y_verifyCodes y) ret in
      if errorCode \<noteq> ERR_OK
      then (errorCode, \<lparr>si_appId = [], si_provisionBundleName = [], si_restrictedPermissions = []\<rparr>)
      else (ERR_OK, info))"

text \<open>
  The loop of \<open>MatchBundleName\<close> on what is left of the two strings; \<open>pos\<close> is what is left of the second.
\<close>

fun match_loop :: "string \<Rightarrow> string \<Rightarrow> bool" where
  "match_loop (b # bs) (m # ms) =
     (if b \<noteq> m then (m # ms = MATCHED_ALL_STR)
      else if m # ms = MATCHED_ALL_STR then True
      else match_loop bs ms)"
| "match_loop _ _ = False"

definition MatchBundleName :: "cstr \<Rightarrow> cstr \<Rightarrow> bool" where
  "MatchBundleName bundleName matchedBundleName =
     (case (bundleName, matchedBundleName) of
        (Some b, Some m) \<Rightarrow>
          if m = MATCHED_ALL_STR \<or> b = m then True else match_loop b m
      | _ \<Rightarrow> False)"

text \<open>\<open>permissionsTrans\<close> is the array with its \<open>permTransNum\<close> entries.\<close>

definition MatchPermissions :: "(string \<Rightarrow> int) \<Rightarrow> string list \<Rightarrow> PermissionTrans list \<Rightarrow> bool" where
  "MatchPermissions restricted restrictedPermissions permissionsTrans =
     (if permissionsTrans = [] then True
      else let realRestrictedPermissions = filter (\<lambda>p. restricted p = 0) (map pt_name permissionsTrans) in
        if realRestrictedPermissions = [] then True
        else list_all (\<lambda>p. list_ex (\<lambda>q. p = q) restrictedPermissions) realRestrictedPermissions)"

definition CheckProvisionInfoIsValid ::
    "'j system \<Rightarrow> SignatureInfo \<Rightarrow> PermissionTrans list \<Rightarrow> cstr \<Rightarrow> errcode" where
  "CheckProvisionInfoIsValid y signatureInfo permissions bundleName =
     (if bundleName = None \<or> si_provisionBundleName signatureInfo = [] then ERR_INSTALL_FAILED_INTERNAL_ERROR
      else if \<not> MatchBundleName bundleName (Some (si_provisionBundleName signatureInfo))
      then ERR_INSTALL_FAILED_INVALID_PROVISIONINFO
      else if \<not> MatchPermissions (y_permRestricted y) (si_restrictedPermissions signatureInfo) permissions
      then ERR_INSTALL_FAILED_INVALID_PROVISIONINFO
      else ERR_OK)"

definition ReshapeAppId :: "cstr \<Rightarrow> string \<Rightarrow> errcode \<times> string" where
  "ReshapeAppId bundleName appId =
     (case bundleName of
        None \<Rightarrow> (ERR_INSTALL_FAILED_INTERNAL_ERROR, appId)
      | Some n \<Rightarrow>
          (case find_char (CHR ''_'') appId of
             None \<Rightarrow> (ERR_INSTALL_FAILED_INVALID_PROVISIONINFO, appId)
           | Some index \<Rightarrow>
               (let appId = n @ drop index appId in
                if appId = [] then (ERR_INSTALL_FAILED_INTERNAL_ERROR, appId) else (ERR_OK, appId))))"

section \<open>The registry, through the service\<close>

text \<open>
  \<open>QueryBundleInfo\<close>, \<open>RemoveBundleInfo\<close> and \<open>UpdateBundleInfo\<close> of the manager service; the bundle a
  pointer shows.
\<close>

definition QueryBundleInfo :: "cstr \<Rightarrow> service \<Rightarrow> nat option option" where
  "QueryBundleInfo bundleName s =
     (if bundleName = None then Some None else Get bundleName (sv_bundles s))"

definition RemoveBundleInfo :: "cstr \<Rightarrow> service \<Rightarrow> service option" where
  "RemoveBundleInfo bundleName s =
     (if bundleName = None then Some s
      else do { bm \<leftarrow> Erase bundleName (sv_bundles s); Some (s\<lparr>sv_bundles := bm\<rparr>) })"

definition info_at :: "nat \<Rightarrow> service \<Rightarrow> BundleInfo option" where
  "info_at p s = bm_heap (sv_bundles s) p"

definition put_info :: "nat \<Rightarrow> BundleInfo \<Rightarrow> service \<Rightarrow> service" where
  "put_info p b s = s\<lparr>sv_bundles := write_info p b (sv_bundles s)\<rparr>"

definition MS_UpdateBundleInfo :: "nat option \<Rightarrow> service \<Rightarrow> (bool \<times> service) option" where
  "MS_UpdateBundleInfo info s =
     (case info of
        None \<Rightarrow> Some (False, s)
      | Some p \<Rightarrow> do {
          b \<leftarrow> info_at p s;
          if bi_bundleName b = None then Some (False, s)
          else do { (ok, bm) \<leftarrow> Update info (sv_bundles s); Some (ok, s\<lparr>sv_bundles := bm\<rparr>) } })"

definition free_info :: "nat option \<Rightarrow> service \<Rightarrow> service option" where
  "free_info p s = do { bm \<leftarrow> FreeBundleInfo p (sv_bundles s); Some (s\<lparr>sv_bundles := bm\<rparr>) }"

text \<open>The registered bundle of a name, its fields read through the pointer.\<close>

definition query_info :: "cstr \<Rightarrow> service \<Rightarrow> BundleInfo option option" where
  "query_info bundleName s = do {
     q \<leftarrow> QueryBundleInfo bundleName s;
     case q of None \<Rightarrow> Some None | Some p \<Rightarrow> do { b \<leftarrow> info_at p s; Some (Some b) } }"

section \<open>The steps of an installation\<close>

definition CheckVersionAndSignature :: "'j system \<Rightarrow> cstr \<Rightarrow> nat \<Rightarrow> service \<Rightarrow> (errcode \<times> service) option" where
  "CheckVersionAndSignature y bundleName p s =
     (if bundleName = None then Some (ERR_INSTALL_FAILED_INTERNAL_ERROR, s)
      else do {
        q \<leftarrow> query_info bundleName s;
        case q of
          None \<Rightarrow> Some (ERR_OK, s)
        | Some old \<Rightarrow> do {
            b \<leftarrow> info_at p s;
            if bi_versionCode old > bi_versionCode b then Some (ERR_INSTALL_FAILED_VERSION_DOWNGRADE, s)
            else if bi_appId old = None \<or> bi_appId b = None then Some (ERR_INSTALL_FAILED_INTERNAL_ERROR, s)
            else if bi_appId old \<noteq> bi_appId b then Some (ERR_INSTALL_FAILED_INCOMPATIBLE_SIGNATURE, s)
            else let (ok, b) = map_prod id the (SetBundleInfoCodePath (y_alloc y) (Some b) (bi_codePath old)) in
              if \<not> ok then Some (ERR_INSTALL_FAILED_INTERNAL_ERROR, put_info p b s)
              else let (ok, b) = map_prod id the (SetBundleInfoDataPath (y_alloc y) (Some b) (bi_dataPath old)) in
                Some (if ok then ERR_OK else ERR_INSTALL_FAILED_INTERNAL_ERROR, put_info p b s) } })"

definition HandleFileAndBackUpRecord ::
    "'j system \<Rightarrow> string \<Rightarrow> string \<Rightarrow> InstallRecord \<Rightarrow> bool \<Rightarrow> nat \<Rightarrow> service \<Rightarrow> (errcode \<times> InstallRecord \<times> service) option" where
  "HandleFileAndBackUpRecord y codePath randStr r isUpdate hapType s =
     (let (ok, s) = do_call y GetAmsInterface s in
      if \<not> ok then Some (ERR_INSTALL_FAILED_INTERNAL_ERROR, r, s)
      else do {
        n \<leftarrow> ir_bundleName r;
        let s = snd (do_call y (TerminateApp n) s);
        let tmpPath = codePath @ randStr;
        let (ok, s) = do_call y (RenameFile tmpPath codePath) s;
        if \<not> ok then Some (ERR_INSTALL_FAILED_RENAME_DIR_ERROR, r, snd (do_call y (RemoveFile tmpPath) s))
        else do {
          (e, r, s) \<leftarrow>
            (if \<not> isUpdate then
               let (uid, um) = GenerateUid (Some n) hapType (sv_uids s);
                   s = s\<lparr>sv_uids := um\<rparr>; r = r\<lparr>ir_uid := uid, ir_gid := uid\<rparr>;
                   isChown = (ir_uid r \<noteq> INVALID_UID \<and> ir_gid r \<noteq> INVALID_GID);
                   dataPath = sv_dataDir s @ PATH_SEPARATOR @ n;
                   (ok, s) = do_call y (CreateDataDirectory dataPath (ir_uid r) (ir_gid r) isChown) s
               in Some (if ok then ERR_OK else ERR_INSTALL_FAILED_CREATE_DATA_DIR_ERROR, r, s)
             else do {
               q \<leftarrow> query_info (Some n) s;
               case q of
                 None \<Rightarrow> Some (ERR_INSTALL_FAILED_INTERNAL_ERROR, r, s)
               | Some old \<Rightarrow> Some (ERR_OK, r\<lparr>ir_uid := bi_uid old, ir_gid := bi_gid old\<rparr>, s) });
          if e \<noteq> ERR_OK then Some (e, r, s)
          else let (ok, t) = BackUpInstallRecord y r (Some (JSON_PATH @ n @ randStr @ JSON_SUFFIX)) (sv_trace s) in
            Some (if ok then ERR_OK else ERR_INSTALL_FAILED_RECORD_INFO_ERROR, r, s\<lparr>sv_trace := t\<rparr>) } })"

definition StorePermissions ::
    "'j system \<Rightarrow> cstr \<Rightarrow> PermissionTrans list \<Rightarrow> bool \<Rightarrow> service \<Rightarrow> (errcode \<times> service) option" where
  "StorePermissions y bundleName permissions isUpdate s =
     (if permissions = [] then
        (if isUpdate then do { n \<leftarrow> bundleName; Some (ERR_OK, snd (do_call y (DeletePermissions n) s)) }
         else Some (ERR_OK, s))
      else case bundleName of
          None \<Rightarrow> Some (ERR_INSTALL_FAILED_INTERNAL_ERROR, s)
        | Some n \<Rightarrow>
            (let (ok, s) = do_call y CreatePermissionDir s in
             if \<not> ok then Some (ERR_INSTALL_FAILED_CREATE_PERMISSIONS_DIR_ERROR, s)
             else let (ok, s) = do_call y (SaveOrUpdatePermissions n permissions isUpdate) s in
               Some (if ok then ERR_OK else ERR_INSTALL_FAILED_STORE_PERMISSIONS_ERROR, s)))"

definition UpdateBundleInfo ::
    "'j system \<Rightarrow> cstr \<Rightarrow> BundleRes \<Rightarrow> nat \<Rightarrow> bool \<Rightarrow> nat \<Rightarrow> service \<Rightarrow> (errcode \<times> service) option" where
  "UpdateBundleInfo y appId bundleRes p isUpdate hapType s =
     (if appId = None then Some (ERR_OBJECT_NULL, s)
      else do {
        b \<leftarrow> info_at p s;
        codePath \<leftarrow> bi_codePath b;
        (e, b) \<leftarrow> ConvertResInfoToBundleInfo (y_alloc y) (y_posix y (sv_trace s)) (y_res y) codePath bundleRes b;
        let s = put_info p b s;
        if e \<noteq> ERR_OK then Some (e, s)
        else do {
          system \<leftarrow>
            (if \<not> isUpdate then Some (Some (hapType = SYSTEM_APP_FLAG))
             else do { q \<leftarrow> query_info (bi_bundleName b) s; Some (map_option bi_isSystemApp q) });
          case system of
            None \<Rightarrow> Some (ERR_INSTALL_FAILED_INTERNAL_ERROR, s)
          | Some flag \<Rightarrow>
              (let b = b\<lparr>bi_isSystemApp := flag, bi_appId := Strdup (y_alloc y) appId\<rparr>; s = put_info p b s in
               if bi_appId b = None then do {
                 s \<leftarrow> RemoveBundleInfo (bi_bundleName b) s;
                 Some (ERR_INSTALL_FAILED_INTERNAL_ERROR, s) }
               else do {
                 (ok, s) \<leftarrow> MS_UpdateBundleInfo (Some p) s;
                 Some (if ok then ERR_OK else ERR_INSTALL_FAILED_INTERNAL_ERROR, s) }) } })"

section \<open>What is undone on an error\<close>

text \<open>The macro \<open>CLEAR_INSTALL_ENV\<close>; the daemon's client makes no call for a null path.\<close>

definition CLEAR_INSTALL_ENV :: "'j system \<Rightarrow> nat option \<Rightarrow> service \<Rightarrow> service option" where
  "CLEAR_INSTALL_ENV y bundleInfo s =
     (case bundleInfo of
        None \<Rightarrow> Some s
      | Some p \<Rightarrow> do {
          b \<leftarrow> info_at p s;
          let s = (case (bi_codePath b, bi_dataPath b) of
              (Some c, Some d) \<Rightarrow> snd (do_call y (RemoveInstallDirectory c d False) s)
            | _ \<Rightarrow> s);
          free_info bundleInfo s })"

text \<open>The macro \<open>CHECK_PRO_ROLLBACK\<close> on an error.\<close>

definition PRO_ROLLBACK :: "'j system \<Rightarrow> nat \<Rightarrow> string \<Rightarrow> service \<Rightarrow> service option" where
  "PRO_ROLLBACK y p randStr s = do {
     b \<leftarrow> info_at p s;
     s \<leftarrow> RemoveBundleInfo (bi_bundleName b) s;
     b \<leftarrow> info_at p s;
     CLEAR_INSTALL_ENV y (Some p) (s\<lparr>sv_trace := DeleteJsonFile y (bi_bundleName b) (Some randStr) (sv_trace s)\<rparr>) }"

section \<open>Installing\<close>

definition empty_record :: InstallRecord where
  "empty_record = \<lparr>ir_bundleName = None, ir_codePath = None, ir_appId = None, ir_versionCode = -1,
     ir_uid = INVALID_UID, ir_gid = INVALID_GID\<rparr>"

type_synonym processed = "errcode \<times> nat option \<times> InstallRecord \<times> service"

text \<open>
  From the unpacking on: \<open>p\<close> is the new bundle, whose strings the record shows from here on.
\<close>

definition process_files ::
    "'j system \<Rightarrow> string \<Rightarrow> string \<Rightarrow> nat \<Rightarrow> nat \<Rightarrow> hap \<Rightarrow> InstallRecord \<Rightarrow> service \<Rightarrow> processed option" where
  "process_files y path randStr hapType p h r s = do {
     b \<leftarrow> info_at p s;
     bundlePath \<leftarrow> bi_codePath b;
     moduleName \<leftarrow> first_module b;
     let codePath = bundlePath @ PATH_SEPARATOR @ moduleName;
     let r = r\<lparr>ir_codePath := bi_codePath b\<rparr>;
     let tmpCodePath = codePath @ randStr;
     let (ok, s) = do_call y (ExtractHap path tmpCodePath) s;
     if \<not> ok then do {
       s \<leftarrow> free_info (Some p) (snd (do_call y (RemoveFile tmpCodePath) s));
       Some (ERR_INSTALL_FAILED_EXTRACT_HAP_ERROR, Some p, r, s) }
     else do {
       old \<leftarrow> QueryBundleInfo (ir_bundleName r) s;
       let isUpdate = (old \<noteq> None);
       (e, r, s) \<leftarrow> HandleFileAndBackUpRecord y codePath randStr r isUpdate hapType s;
       if e \<noteq> ERR_OK then do { s \<leftarrow> PRO_ROLLBACK y p randStr s; Some (e, Some p, r, s) }
       else do {
         b \<leftarrow> info_at p s;
         let s = put_info p (b\<lparr>bi_uid := ir_uid r, bi_gid := ir_uid r\<rparr>) s;
         (e, s) \<leftarrow> StorePermissions y (ir_bundleName r) (hap_permissions h) isUpdate s;
         if e \<noteq> ERR_OK then do { s \<leftarrow> PRO_ROLLBACK y p randStr s; Some (e, Some p, r, s) }
         else do {
           (e, s) \<leftarrow> UpdateBundleInfo y (ir_appId r) (hap_bundleRes h) p isUpdate hapType s;
           if e \<noteq> ERR_OK then do { s \<leftarrow> PRO_ROLLBACK y p randStr s; Some (e, Some p, r, s) }
           else Some (ERR_OK, Some p, r, s) } } } }"

text \<open>The second component of the result is the object the record's strings belong to.\<close>

definition ProcessBundleInstall ::
    "'j system \<Rightarrow> string \<Rightarrow> string \<Rightarrow> nat \<Rightarrow> service \<Rightarrow> processed option" where
  "ProcessBundleInstall y path randStr hapType s =
     (let t = sv_trace s; e = CheckInstallFileIsValid (y_posix y t) (Some path) in
      if e \<noteq> ERR_OK then Some (e, None, empty_record, s)
      else let (e, signatureInfo) = VerifySignature y t path in
      if e \<noteq> ERR_OK then Some (e, None, empty_record, s)
      else do {
        (e, h) \<leftarrow> ParseHapProfile y t (\<lambda>n. query_info n s) (sv_codeDir s) (sv_dataDir s) path;
        if e \<noteq> ERR_OK then Some (e, None, empty_record, s)
        else do {
          b \<leftarrow> hap_bundleInfo h;
          let (p, bm) = new_info b (sv_bundles s);
          let s = s\<lparr>sv_bundles := bm\<rparr>;
          let e = CheckProvisionInfoIsValid y signatureInfo (hap_permissions h) (bi_bundleName b);
          if e \<noteq> ERR_OK then do { s \<leftarrow> free_info (Some p) s; Some (e, None, empty_record, s) }
          else let (e, appId) = ReshapeAppId (bi_bundleName b) (si_appId signatureInfo) in
          if e \<noteq> ERR_OK then do { s \<leftarrow> free_info (Some p) s; Some (e, None, empty_record, s) }
          else let b = b\<lparr>bi_appId := Strdup (y_alloc y) (Some appId)\<rparr>; s = put_info p b s in
          if bi_appId b = None
          then do { s \<leftarrow> free_info (Some p) s; Some (ERR_INSTALL_FAILED_INTERNAL_ERROR, None, empty_record, s) }
          else do {
            let r = empty_record\<lparr>ir_bundleName := bi_bundleName b, ir_appId := bi_appId b,
                                 ir_versionCode := bi_versionCode b\<rparr>;
            (e, s) \<leftarrow> CheckVersionAndSignature y (ir_bundleName r) p s;
            if e \<noteq> ERR_OK then do { s \<leftarrow> free_info (Some p) s; Some (e, Some p, r, s) }
            else process_files y path randStr hapType p h r s } } })"

text \<open>\<open>installRecord.bundleName\<close>, read when \<open>ProcessBundleInstall\<close> has returned.\<close>

definition record_name :: "nat option \<Rightarrow> service \<Rightarrow> cstr option" where
  "record_name owner s =
     (case owner of None \<Rightarrow> Some None | Some p \<Rightarrow> do { b \<leftarrow> info_at p s; Some (bi_bundleName b) })"

definition Install :: "'j system \<Rightarrow> cstr \<Rightarrow> InstallParam \<Rightarrow> service \<Rightarrow> (errcode \<times> service) option" where
  "Install y path installParam s =
     (if path = None \<or> ip_installLocation installParam < INSTALL_LOCATION_INTERNAL_ONLY \<or>
         ip_installLocation installParam > INSTALL_LOCATION_PREFER_EXTERNAL
      then Some (ERR_INSTALL_FAILED_PARAM_ERROR, s)
      else do {
        str \<leftarrow> CreateRandStr (y_rand y (sv_trace s)) (Some 16) 16;
        randStr \<leftarrow> str;
        if randStr = [] then Some (ERR_INSTALL_FAILED_INTERNAL_ERROR, s)
        else if length (the path) > PATH_MAX then Some (ERR_INSTALL_FAILED_FILE_PATH_INVALID, s)
        else case y_realpath y (sv_trace s) (the path) of
            None \<Rightarrow> Some (ERR_INSTALL_FAILED_FILE_PATH_INVALID, s)
          | Some realPath \<Rightarrow> do {
              let hapType = GetHapType (Some realPath);
              let s = ModifyInstallDirByHapType installParam hapType s;
              (e, ow, r, s) \<leftarrow> ProcessBundleInstall y realPath randStr hapType s;
              name \<leftarrow> record_name ow s;
              if e \<noteq> ERR_OK then Some (e, s\<lparr>sv_uids := RecycleUid name (sv_uids s)\<rparr>)
              else let (ok, t) = BackUpUidAndGidInfo y r (Some (JSON_PATH @ UID_GID_MAP @ randStr @ JSON_SUFFIX)) (sv_trace s);
                       s = s\<lparr>sv_trace := t\<rparr> in
              if \<not> ok then do {
                q \<leftarrow> QueryBundleInfo name s;
                s \<leftarrow> CLEAR_INSTALL_ENV y q s;
                Some (ERR_INSTALL_FAILED_UID_AND_GID_BACKUP_ERROR, s) }
              else let (ok, t) = RenameJsonFile y (Some UID_GID_MAP) (Some randStr) (sv_trace s);
                       (ok, t) = (if ok then RenameJsonFile y name (Some randStr) t else (False, t));
                       s = s\<lparr>sv_trace := t\<rparr> in
              if \<not> ok then do {
                q \<leftarrow> QueryBundleInfo name s;
                s \<leftarrow> CLEAR_INSTALL_ENV y q s;
                Some (ERR_INSTALL_FAILED_RENAME_FILE_ERROR, s) }
              else let t = (if hapType = THIRD_SYSTEM_APP_FLAG then
                              let (known, t) = CheckIsThirdSystemBundle y name (sv_trace s) in
                              if known then t else RecordThirdSystemBundle y name (Some THIRD_SYSTEM_BUNDLE_JSON) t
                            else sv_trace s) in
                Some (ERR_OK, RestoreInstallEnv installParam (s\<lparr>sv_trace := t\<rparr>)) } })"

section \<open>Uninstalling\<close>

definition Uninstall :: "'j system \<Rightarrow> cstr \<Rightarrow> InstallParam \<Rightarrow> service \<Rightarrow> (errcode \<times> service) option" where
  "Uninstall y bundleName installParam s =
     (case bundleName of
        None \<Rightarrow> Some (ERR_UNINSTALL_FAILED_PARAM_ERROR, s)
      | Some n \<Rightarrow> do {
          q \<leftarrow> query_info bundleName s;
          case q of
            None \<Rightarrow> Some (ERR_UNINSTALL_FAILED_BUNDLE_NOT_EXISTS, s)
          | Some b \<Rightarrow>
              if bi_isSystemApp b then Some (ERR_UNINSTALL_FAILED_BUNDLE_NOT_UNINSTALLABLE, s)
              else let (ok, s) = do_call y GetAmsInterface s in
              if \<not> ok then Some (ERR_UNINSTALL_FAILED_INTERNAL_ERROR, s)
              else let s = snd (do_call y (TerminateApp n) s);
                       (ok, s) = (case (bi_codePath b, bi_dataPath b) of
                           (Some c, Some d) \<Rightarrow> do_call y (RemoveInstallDirectory c d (ip_keepData installParam)) s
                         | _ \<Rightarrow> (False, s)) in do {
                s \<leftarrow> RemoveBundleInfo bundleName s;
                if \<not> ok then Some (ERR_UNINSTALL_FAILED_DELETE_DIRS_ERROR, s)
                else let (ok, s) = do_call y (DeletePermissions n) s in
                if \<not> ok then Some (ERR_UNINSTALL_FAILED_DELETE_PERMISSIONS_ERROR, s)
                else let (ok, t) = DeleteUidInfoFromJson y bundleName (sv_trace s); s = s\<lparr>sv_trace := t\<rparr> in
                if \<not> ok then Some (ERR_UNINSTALL_FAILED_DELETE_UID_INFO_ERROR, s)
                else let (ok, s) = do_call y (RemoveFile (JSON_PATH @ n @ JSON_SUFFIX)) s in
                if \<not> ok then Some (ERR_UNINSTALL_FAILED_DELETE_RECORD_INFO_ERROR, s)
                else let (known, t) = CheckIsThirdSystemBundle y bundleName (sv_trace s);
                         t = (if known then RecordThirdSystemBundle y bundleName (Some UNINSTALL_THIRD_SYSTEM_BUNDLE_JSON) t
                              else t) in
                  Some (ERR_OK, s\<lparr>sv_trace := t\<rparr>) } })"

end
