(* ===== verification/Installer_Correct.thy ===== *)
theory Installer_Correct
  imports Installer
begin

text \<open>
  The installer on a registry in order: what a provision allows, what each step does with the bundle being
  installed (\<open>owns\<close>: it is live and not registered), and what \<open>Install\<close> and \<open>Uninstall\<close> do to the registry
  and to the uids, on every branch.
\<close>

section \<open>What a provision allows\<close>

lemma match_loop_iff: "match_loop b m \<longleftrightarrow> (\<exists>p q. m = p @ MATCHED_ALL_STR \<and> b = p @ q \<and> q \<noteq> [])"
proof (induction b m rule: match_loop.induct)
  case (1 b bs m ms)
  show ?case
  proof (cases "m # ms = MATCHED_ALL_STR")
    case True
    then show ?thesis by (auto intro!: exI[of _ "[]"])
  next
    case False
    show ?thesis
    proof (cases "b = m")
      case True
      with 1 False have "match_loop (b # bs) (m # ms) \<longleftrightarrow> (\<exists>p q. ms = p @ MATCHED_ALL_STR \<and> bs = p @ q \<and> q \<noteq> [])"
        by simp
      also have "\<dots> \<longleftrightarrow> (\<exists>p q. m # ms = p @ MATCHED_ALL_STR \<and> b # bs = p @ q \<and> q \<noteq> [])"
      proof -
        have "m # ms = p @ MATCHED_ALL_STR \<and> b # bs = p @ q \<longleftrightarrow>
            (\<exists>p'. p = m # p' \<and> ms = p' @ MATCHED_ALL_STR \<and> bs = p' @ q)" for p q
          using False True by (cases p) auto
        then show ?thesis by blast
      qed
      finally show ?thesis .
    next
      case ne: False
      then have "\<not> match_loop (b # bs) (m # ms)" using False by simp
      moreover have "\<not> (m # ms = p @ MATCHED_ALL_STR \<and> b # bs = p @ q)" for p q
        using False ne by (cases p) auto
      ultimately show ?thesis by blast
    qed
  qed
qed auto

text \<open>The names a provision stands for.\<close>

definition provision_covers :: "string \<Rightarrow> string \<Rightarrow> bool" where
  "provision_covers m b \<longleftrightarrow> m = MATCHED_ALL_STR \<or> m = b \<or> (\<exists>p. m = p @ MATCHED_ALL_STR \<and> strict_prefix p b)"

lemma MatchBundleName_iff: "MatchBundleName (Some b) (Some m) \<longleftrightarrow> provision_covers m b"
proof -
  have "match_loop b m \<longleftrightarrow> (\<exists>p. m = p @ MATCHED_ALL_STR \<and> strict_prefix p b)"
    unfolding match_loop_iff strict_prefix_def prefix_def by (metis append_self_conv)
  then show ?thesis by (auto simp: MatchBundleName_def provision_covers_def)
qed

lemma MatchPermissions_iff:
  "MatchPermissions restricted granted ps \<longleftrightarrow>
     (\<forall>p \<in> set ps. restricted (pt_name p) = 0 \<longrightarrow> pt_name p \<in> set granted)"
  by (auto simp: MatchPermissions_def Let_def list_all_iff list_ex_iff filter_empty_conv)

lemma CheckProvision_iff:
  "CheckProvisionInfoIsValid y si ps (Some n) = ERR_OK \<longleftrightarrow>
     si_provisionBundleName si \<noteq> [] \<and> provision_covers (si_provisionBundleName si) n \<and>
     (\<forall>p \<in> set ps. y_permRestricted y (pt_name p) = 0 \<longrightarrow> pt_name p \<in> set (si_restrictedPermissions si))"
  by (simp add: CheckProvisionInfoIsValid_def MatchBundleName_iff MatchPermissions_iff)

section \<open>The registry through the service\<close>

definition registered :: "service \<Rightarrow> string \<Rightarrow> BundleInfo option" where
  "registered s = bm_look (sv_bundles s)"

definition service_ok :: "service \<Rightarrow> bool" where
  "service_ok s \<longleftrightarrow> bm_ok (sv_bundles s)"

definition owns :: "service \<Rightarrow> nat \<Rightarrow> BundleInfo \<Rightarrow> bool" where
  "owns s p b \<longleftrightarrow> bs.own (sv_bundles s) p b"

named_theorems service_lib \<open>the registry seen through the service\<close>

lemma owns_ok: "owns s p b \<Longrightarrow> service_ok s"
  by (simp add: owns_def service_ok_def bs.own_def)

lemma owns_info: "owns s p b \<Longrightarrow> info_at p s = Some b"
  by (simp add: owns_def info_at_def bs.own_peek)

lemma owns_same: "sv_bundles s' = sv_bundles s \<Longrightarrow> owns s' p b = owns s p b \<and> registered s' = registered s"
  by (simp add: owns_def registered_def)

lemma owns_put: "owns s p b \<Longrightarrow> owns (put_info p c s) p c \<and> registered (put_info p c s) = registered s"
  using bs.own_write by (simp add: owns_def put_info_def registered_def)

lemma owns_free: "owns s p b \<Longrightarrow> \<exists>s'. free_info (Some p) s = Some s' \<and> service_ok s' \<and>
    registered s' = registered s \<and> info_at p s' = None \<and> s' = s\<lparr>sv_bundles := sv_bundles s'\<rparr>"
  using bs.own_free[of "sv_bundles s" p b]
  by (auto simp: owns_def free_info_def service_ok_def registered_def info_at_def)

lemma query_info_look: "service_ok s \<Longrightarrow> query_info (Some n) s = Some (registered s n)"
  using bs.get_none[of "sv_bundles s" n] bs.get_some[of "sv_bundles s" n]
  by (cases "bm_look (sv_bundles s) n")
    (auto simp: query_info_def QueryBundleInfo_def service_ok_def registered_def info_at_def)

lemma QueryBundleInfo_look:
  "service_ok s \<Longrightarrow> \<exists>q. QueryBundleInfo (Some n) s = Some q \<and> (q \<noteq> None \<longleftrightarrow> registered s n \<noteq> None)"
  using bs.get_none[of "sv_bundles s" n] bs.get_some[of "sv_bundles s" n]
  by (cases "bm_look (sv_bundles s) n") (auto simp: QueryBundleInfo_def service_ok_def registered_def)

lemma RemoveBundleInfo_look:
  "service_ok s \<Longrightarrow> \<exists>s'. RemoveBundleInfo (Some n) s = Some s' \<and> service_ok s' \<and>
     registered s' = (registered s)(n := None) \<and> s' = s\<lparr>sv_bundles := sv_bundles s'\<rparr>"
  using bm.del_law[of "sv_bundles s" n]
  by (auto simp: RemoveBundleInfo_def service_ok_def registered_def)

lemma RemoveBundleInfo_owns:
  "owns s p b \<Longrightarrow> \<exists>s'. RemoveBundleInfo (Some n) s = Some s' \<and> owns s' p b \<and>
     registered s' = (registered s)(n := None) \<and> s' = s\<lparr>sv_bundles := sv_bundles s'\<rparr>"
  using bs.own_del[of "sv_bundles s" p b n]
  by (auto simp: RemoveBundleInfo_def owns_def registered_def)

lemma MS_UpdateBundleInfo_registers:
  "owns s p b \<Longrightarrow> bi_bundleName b = Some n \<Longrightarrow>
   \<exists>s'. MS_UpdateBundleInfo (Some p) s = Some (True, s') \<and> service_ok s' \<and>
        registered s' = (registered s)(n \<mapsto> b) \<and> info_at p s' = Some b \<and> s' = s\<lparr>sv_bundles := sv_bundles s'\<rparr>"
  using bs.own_register[of "sv_bundles s" p b n] owns_info[of s p b]
  by (auto simp: MS_UpdateBundleInfo_def owns_def registered_def service_ok_def info_at_def)

lemma do_call_eq: "do_call y c s = (y_ask y (sv_trace s) c, s\<lparr>sv_trace := sv_trace s @ [c]\<rparr>)"
  by (simp add: do_call_def)

section \<open>Each step on a registry in order\<close>

text \<open>What a version check demands of an update, and what it then changes.\<close>

definition may_replace :: "BundleInfo \<Rightarrow> BundleInfo \<Rightarrow> bool" where
  "may_replace old b \<longleftrightarrow> bi_versionCode old \<le> bi_versionCode b \<and> bi_appId old \<noteq> None \<and> bi_appId old = bi_appId b"

definition stays :: "service \<Rightarrow> service \<Rightarrow> bool" where
  "stays s s' \<longleftrightarrow> s' = s\<lparr>sv_bundles := sv_bundles s'\<rparr>"

lemma stays_refl: "stays s s"
  by (simp add: stays_def)

lemma stays_fields: "stays s s' \<Longrightarrow> sv_uids s' = sv_uids s \<and> sv_codeDir s' = sv_codeDir s \<and>
    sv_dataDir s' = sv_dataDir s \<and> sv_external s' = sv_external s \<and> sv_trace s' = sv_trace s"
  by (simp add: stays_def) (metis service.select_convs service.surjective service.update_convs(1))

lemma stays_put: "stays s (put_info p b s)"
  by (simp add: stays_def put_info_def)

lemma set_dir:
  "map_prod id the (SetBundleInfoCodePath m (Some b) q) = (ok, b') \<Longrightarrow>
     \<exists>v. b' = b\<lparr>bi_codePath := v\<rparr> \<and> (ok \<longrightarrow> v = q \<and> q \<noteq> None)"
  "map_prod id the (SetBundleInfoDataPath m (Some b) q) = (ok, b') \<Longrightarrow>
     \<exists>v. b' = b\<lparr>bi_dataPath := v\<rparr> \<and> (ok \<longrightarrow> v = q \<and> q \<noteq> None)"
proof -
  have u: "\<exists>v. b = b\<lparr>bi_codePath := v\<rparr>" "\<exists>v. b = b\<lparr>bi_dataPath := v\<rparr>"
    by (rule exI[of _ "bi_codePath b"], simp) (rule exI[of _ "bi_dataPath b"], simp)
  have u0: "b = b\<lparr>bi_codePath := bi_codePath b\<rparr>" "b = b\<lparr>bi_dataPath := bi_dataPath b\<rparr>" by simp_all
  show "map_prod id the (SetBundleInfoCodePath m (Some b) q) = (ok, b') \<Longrightarrow>
     \<exists>v. b' = b\<lparr>bi_codePath := v\<rparr> \<and> (ok \<longrightarrow> v = q \<and> q \<noteq> None)"
    using u(1) by (cases q) (auto simp: SetBundleInfoCodePath_def set_str_def Let_def dest: Strdup_same)
  show "map_prod id the (SetBundleInfoDataPath m (Some b) q) = (ok, b') \<Longrightarrow>
     \<exists>v. b' = b\<lparr>bi_dataPath := v\<rparr> \<and> (ok \<longrightarrow> v = q \<and> q \<noteq> None)"
    using u(2) by (cases q) (auto simp: SetBundleInfoDataPath_def set_str_def Let_def dest: Strdup_same)
qed

text \<open>The bundle a version check lets through.\<close>

definition checked :: "BundleInfo option \<Rightarrow> BundleInfo \<Rightarrow> BundleInfo \<Rightarrow> bool" where
  "checked old b b' \<longleftrightarrow>
     (case old of
        None \<Rightarrow> b' = b
      | Some o' \<Rightarrow> may_replace o' b \<and> b' = b\<lparr>bi_codePath := bi_codePath o', bi_dataPath := bi_dataPath o'\<rparr>)"

lemma CheckVersion_step:
  assumes own: "owns s p b"
  shows "\<exists>e s' b'. CheckVersionAndSignature y (Some n) p s = Some (e, s') \<and> owns s' p b' \<and>
     registered s' = registered s \<and> stays s s' \<and> bi_bundleName b' = bi_bundleName b \<and>
     (e = ERR_OK \<longrightarrow> checked (registered s n) b b')"
proof -
  have q: "query_info (Some n) s = Some (registered s n)"
    using query_info_look[OF owns_ok[OF own]] .
  show ?thesis
  proof (cases "registered s n")
    case None
    with own q show ?thesis
      by (auto simp: CheckVersionAndSignature_def checked_def stays_refl)
  next
    case (Some old)
    consider (down) "bi_versionCode old > bi_versionCode b" | (null) "bi_versionCode old \<le> bi_versionCode b" "bi_appId old = None \<or> bi_appId b = None"
      | (other) "bi_versionCode old \<le> bi_versionCode b" "bi_appId old \<noteq> None" "bi_appId b \<noteq> None" "bi_appId old \<noteq> bi_appId b"
      | (same) "may_replace old b" unfolding may_replace_def by (metis not_less)
    then show ?thesis
    proof cases
      case same
      obtain ok1 b1 where 1: "map_prod id the (SetBundleInfoCodePath (y_alloc y) (Some b) (bi_codePath old)) = (ok1, b1)" by fastforce
      obtain ok2 b2 where 2: "map_prod id the (SetBundleInfoDataPath (y_alloc y) (Some b1) (bi_dataPath old)) = (ok2, b2)" by fastforce
      from set_dir(1)[OF 1] obtain v where v: "b1 = b\<lparr>bi_codePath := v\<rparr>" "ok1 \<longrightarrow> v = bi_codePath old" by auto
      from set_dir(2)[OF 2] obtain w where w: "b2 = b1\<lparr>bi_dataPath := w\<rparr>" "ok2 \<longrightarrow> w = bi_dataPath old" by auto
      have r: "CheckVersionAndSignature y (Some n) p s =
          (if \<not> ok1 then Some (ERR_INSTALL_FAILED_INTERNAL_ERROR, put_info p b1 s)
           else Some (if ok2 then ERR_OK else ERR_INSTALL_FAILED_INTERNAL_ERROR, put_info p b2 s))"
        using same Some q owns_info[OF own]
        by (auto simp: CheckVersionAndSignature_def may_replace_def 1 2 Let_def)
      show ?thesis
        using owns_put[OF own, of b1] owns_put[OF own, of b2] v w same Some
        by (cases ok1) (auto simp: r stays_put checked_def)
    qed (use own q Some owns_info[OF own] in \<open>auto simp: CheckVersionAndSignature_def stays_refl\<close>)
  qed
qed

text \<open>The uid of a bundle: a new one, or the one it had.\<close>

definition uid_given :: "bool \<Rightarrow> string \<Rightarrow> nat \<Rightarrow> service \<Rightarrow> int \<Rightarrow> uid_maps \<Rightarrow> bool" where
  "uid_given isUpdate n hapType s u um \<longleftrightarrow>
     (if isUpdate then u = bi_uid (the (registered s n)) \<and> um = sv_uids s
      else (u, um) = GenerateUid (Some n) hapType (sv_uids s))"

lemma Handle_step:
  assumes ok: "service_ok s" and r: "ir_bundleName r = Some n" and u: "isUpdate \<longleftrightarrow> registered s n \<noteq> None"
  shows "\<exists>e r' s'. HandleFileAndBackUpRecord y codePath randStr r isUpdate hapType s = Some (e, r', s') \<and>
     sv_bundles s' = sv_bundles s \<and> ir_bundleName r' = Some n \<and> ir_appId r' = ir_appId r \<and>
     (e = ERR_OK \<longrightarrow> uid_given isUpdate n hapType s (ir_uid r') (sv_uids s'))"
proof -
  have q: "query_info (Some n) s0 = Some (registered s n)" if "sv_bundles s0 = sv_bundles s" for s0
    using query_info_look[of s0 n] ok that by (simp add: service_ok_def registered_def)
  show ?thesis
  proof (cases isUpdate)
    case True
    with u obtain old where old: "registered s n = Some old" by auto
    with True show ?thesis
      by (auto simp: HandleFileAndBackUpRecord_def do_call_eq r q Let_def uid_given_def split: prod.splits)
  next
    case False
    then show ?thesis
      by (auto simp: HandleFileAndBackUpRecord_def do_call_eq r Let_def uid_given_def split: prod.splits)
  qed
qed

lemma Store_step:
  "\<exists>e s'. StorePermissions y (Some n) ps isUpdate s = Some (e, s') \<and> sv_bundles s' = sv_bundles s \<and> sv_uids s' = sv_uids s"
  by (auto simp: StorePermissions_def do_call_eq Let_def)

lemma Update_step:
  assumes own: "owns s p b" and b: "bi_bundleName b = Some n" and a: "appId = Some a"
    and u: "UpdateBundleInfo y appId br p isUpdate hapType s = Some (e, s')"
  shows "sv_uids s' = sv_uids s \<and>
    (if e = ERR_OK then service_ok s' \<and> (\<exists>b'. registered s' = (registered s)(n \<mapsto> b') \<and> info_at p s' = Some b' \<and>
          res_update (b\<lparr>bi_isSystemApp := bi_isSystemApp b', bi_appId := appId\<rparr>) b' \<and>
          bi_isSystemApp b' = (if isUpdate then bi_isSystemApp (the (registered s n)) else hapType = SYSTEM_APP_FLAG))
     else \<exists>b'. owns s' p b' \<and> bi_bundleName b' = Some n \<and>
          (registered s' = registered s \<or> registered s' = (registered s)(n := None)))"
proof -
  from u a owns_info[OF own] obtain codePath e1 b1 where
    cr: "ConvertResInfoToBundleInfo (y_alloc y) (y_posix y (sv_trace s)) (y_res y) codePath br b = Some (e1, b1)"
    and cp: "bi_codePath b = Some codePath"
    by (auto simp: UpdateBundleInfo_def bind_Some_iff)
  let ?s1 = "put_info p b1 s"
  have r1: "res_update b b1" by (rule ConvertRes_update[OF cr])
  then have n1: "bi_bundleName b1 = Some n" using b res_update_fields by simp
  have o1: "owns ?s1 p b1" "registered ?s1 = registered s" using owns_put[OF own] by auto
  have q: "query_info (Some n) ?s1 = Some (registered s n)" using query_info_look[OF owns_ok[OF o1(1)]] o1(2) by simp
  have u1: "sv_uids ?s1 = sv_uids s" by (simp add: put_info_def)
  show ?thesis
  proof (cases "e1 = ERR_OK")
    case False
    with u cr cp owns_info[OF own] a have "e = e1" "s' = ?s1"
      by (auto simp: UpdateBundleInfo_def Let_def)
    with False o1 n1 u1 show ?thesis by auto
  next
    case True
    define flag where "flag = (if isUpdate then map_option bi_isSystemApp (registered s n) else Some (hapType = SYSTEM_APP_FLAG))"
    have eq: "Some (e, s') = (case flag of
            None \<Rightarrow> Some (ERR_INSTALL_FAILED_INTERNAL_ERROR, ?s1)
          | Some flag \<Rightarrow>
              (let b = b1\<lparr>bi_isSystemApp := flag, bi_appId := Strdup (y_alloc y) appId\<rparr>; s = put_info p b ?s1 in
               if bi_appId b = None then do {
                 s \<leftarrow> RemoveBundleInfo (bi_bundleName b) s;
                 Some (ERR_INSTALL_FAILED_INTERNAL_ERROR, s) }
               else do {
                 (ok, s) \<leftarrow> MS_UpdateBundleInfo (Some p) s;
                 Some (if ok then ERR_OK else ERR_INSTALL_FAILED_INTERNAL_ERROR, s) }))"
      using u True cr cp owns_info[OF own] a q n1
      by (cases isUpdate; cases "registered s n") (simp_all add: UpdateBundleInfo_def flag_def Let_def)
    show ?thesis
    proof (cases flag)
      case None
      with eq o1 n1 u1 show ?thesis by auto
    next
      case (Some f)
      let ?b2 = "b1\<lparr>bi_isSystemApp := f, bi_appId := Strdup (y_alloc y) appId\<rparr>"
      let ?s2 = "put_info p ?b2 ?s1"
      have o2: "owns ?s2 p ?b2" "registered ?s2 = registered s" using owns_put[OF o1(1)] o1(2) by auto
      have n2: "bi_bundleName ?b2 = Some n" using n1 by simp
      have u2: "sv_uids ?s2 = sv_uids s" by (simp add: put_info_def)
      show ?thesis
      proof (cases "Strdup (y_alloc y) appId")
        case None
        from RemoveBundleInfo_owns[OF o2(1), of n] obtain s3 where
          "RemoveBundleInfo (Some n) ?s2 = Some s3" "owns s3 p ?b2" "registered s3 = (registered s)(n := None)"
          "s3 = ?s2\<lparr>sv_bundles := sv_bundles s3\<rparr>" using o2(2) by auto
        with eq Some None n1 n2 u2 show ?thesis
          by (auto simp: Let_def) (metis service.select_convs(2) service.surjective service.update_convs(1))
      next
        case (Some w)
        then have w: "Strdup (y_alloc y) appId = appId" using Strdup_same[of "y_alloc y" appId w] by simp
        from MS_UpdateBundleInfo_registers[OF o2(1) n2] obtain s3 where
          s3: "MS_UpdateBundleInfo (Some p) ?s2 = Some (True, s3)" "service_ok s3" "info_at p s3 = Some ?b2"
            "registered s3 = (registered s)(n \<mapsto> ?b2)" "s3 = ?s2\<lparr>sv_bundles := sv_bundles s3\<rparr>" using o2(2) by auto
        have u3: "sv_uids s3 = sv_uids s" using s3(5) u2
          by (metis service.select_convs(2) service.surjective service.update_convs(1))
        have e: "e = ERR_OK" "s' = s3" using eq \<open>flag = Some f\<close> s3(1) w a by (auto simp: Let_def)
        have "res_update (b\<lparr>bi_isSystemApp := f, bi_appId := appId\<rparr>) ?b2"
          using r1 w unfolding res_update_def by (cases b; cases b1) simp
        moreover have "f = (if isUpdate then bi_isSystemApp (the (registered s n)) else hapType = SYSTEM_APP_FLAG)"
          using \<open>flag = Some f\<close> by (auto simp: flag_def split: if_splits)
        ultimately show ?thesis using e s3 u3 by (intro conjI) (auto intro!: exI[of _ ?b2])
      qed
    qed
  qed
qed

lemma same_uids: "s' = s\<lparr>sv_bundles := x\<rparr> \<Longrightarrow> sv_uids s' = sv_uids s \<and> sv_trace s' = sv_trace s"
  by simp

lemma Rollback_step:
  assumes own: "owns s p b" and n: "bi_bundleName b = Some n"
  shows "\<exists>s'. PRO_ROLLBACK y p randStr s = Some s' \<and> service_ok s' \<and> info_at p s' = None \<and>
     registered s' = (registered s)(n := None) \<and> sv_uids s' = sv_uids s"
proof -
  from RemoveBundleInfo_owns[OF own, of n] obtain s1 where
    s1: "RemoveBundleInfo (Some n) s = Some s1" "owns s1 p b" "registered s1 = (registered s)(n := None)"
      "s1 = s\<lparr>sv_bundles := sv_bundles s1\<rparr>" by auto
  have u1: "sv_uids s1 = sv_uids s" using same_uids[OF s1(4)] by simp
  let ?s2 = "s1\<lparr>sv_trace := DeleteJsonFile y (Some n) (Some randStr) (sv_trace s1)\<rparr>"
  define s3 where "s3 = (case (bi_codePath b, bi_dataPath b) of
      (Some c, Some d) \<Rightarrow> snd (do_call y (RemoveInstallDirectory c d False) ?s2) | _ \<Rightarrow> ?s2)"
  have s3: "sv_bundles s3 = sv_bundles s1" "sv_uids s3 = sv_uids s1"
    by (auto simp: s3_def do_call_eq split: option.splits)
  then have o3: "owns s3 p b" "registered s3 = registered s1" using owns_same[of s3 s1 p b] s1(2) by auto
  from owns_free[OF o3(1)] obtain s4 where
    s4: "free_info (Some p) s3 = Some s4" "service_ok s4" "registered s4 = registered s3" "info_at p s4 = None"
      "s4 = s3\<lparr>sv_bundles := sv_bundles s4\<rparr>" by auto
  have u4: "sv_uids s4 = sv_uids s3" using same_uids[OF s4(5)] by simp
  have i2: "info_at p ?s2 = Some b" using owns_info[OF s1(2)] by (simp add: info_at_def)
  have "PRO_ROLLBACK y p randStr s = Some s4"
    using owns_info[OF own] owns_info[OF s1(2)] s1(1) i2 s4(1) n
    by (cases "bi_codePath b"; cases "bi_dataPath b") (simp_all add: PRO_ROLLBACK_def CLEAR_INSTALL_ENV_def s3_def Let_def)
  moreover have "registered s4 = (registered s)(n := None)" "sv_uids s4 = sv_uids s"
    using s4(3) o3(2) s1(3) u1 u4 s3(2) by simp_all
  ultimately show ?thesis using s4(2,4) by blast
qed

text \<open>The registry afterwards is the former one, or lacks the bundle that was to be replaced.\<close>

definition dropped :: "service \<Rightarrow> string \<Rightarrow> service \<Rightarrow> bool" where
  "dropped s n s' \<longleftrightarrow> registered s' = registered s \<or> registered s' = (registered s)(n := None)"

text \<open>The bundle an installation registers: the new one, with its uid and its rank.\<close>

definition installed :: "nat \<Rightarrow> service \<Rightarrow> string \<Rightarrow> BundleInfo \<Rightarrow> BundleInfo \<Rightarrow> bool" where
  "installed hapType s n b b' \<longleftrightarrow>
     res_update (b\<lparr>bi_uid := bi_uid b', bi_gid := bi_uid b', bi_isSystemApp := bi_isSystemApp b'\<rparr>) b' \<and>
     bi_isSystemApp b' = (case registered s n of None \<Rightarrow> hapType = SYSTEM_APP_FLAG | Some old \<Rightarrow> bi_isSystemApp old)"

lemma process_files_step:
  assumes own: "owns s p b" and n: "bi_bundleName b = Some n" and a: "bi_appId b = Some a"
    and r: "ir_bundleName r = Some n" "ir_appId r = Some a"
    and f: "process_files y path randStr hapType p h r s = Some (e, ow, r', s')"
  shows "ow = Some p \<and> service_ok s' \<and>
    (if e = ERR_OK then \<exists>b'. registered s' = (registered s)(n \<mapsto> b') \<and> info_at p s' = Some b' \<and>
        installed hapType s n b b' \<and> bi_uid b' = ir_uid r' \<and> ir_bundleName r' = Some n \<and>
        uid_given (registered s n \<noteq> None) n hapType s (bi_uid b') (sv_uids s')
     else info_at p s' = None \<and> dropped s n s')"
proof -
  from f owns_info[OF own] obtain bundlePath moduleName where
    bp: "bi_codePath b = Some bundlePath" "first_module b = Some moduleName"
    by (auto simp: process_files_def bind_Some_iff)
  let ?cp = "bundlePath @ PATH_SEPARATOR @ moduleName"
  let ?r = "r\<lparr>ir_codePath := bi_codePath b\<rparr>"
  let ?c = "ExtractHap path (?cp @ randStr)"
  let ?s1 = "s\<lparr>sv_trace := sv_trace s @ [?c]\<rparr>"
  have o1: "owns ?s1 p b" "registered ?s1 = registered s" using owns_same[of ?s1 s p b] own by auto
  show ?thesis
  proof (cases "y_ask y (sv_trace s) ?c")
    case False
    let ?s2 = "?s1\<lparr>sv_trace := sv_trace ?s1 @ [RemoveFile (?cp @ randStr)]\<rparr>"
    have "owns ?s2 p b" "registered ?s2 = registered s" using owns_same[of ?s2 s p b] own by auto
    with owns_free[of ?s2 p b] f False owns_info[OF own] bp show ?thesis
      by (auto simp: process_files_def Let_def do_call_eq dropped_def)
  next
    case True
    obtain q where q: "QueryBundleInfo (Some n) ?s1 = Some q" "q \<noteq> None \<longleftrightarrow> registered s n \<noteq> None"
      using QueryBundleInfo_look[OF owns_ok[OF o1(1)], of n] o1(2) by auto
    define u where "u = (q \<noteq> None)"
    have ur: "u \<longleftrightarrow> registered ?s1 n \<noteq> None" using q o1(2) by (simp add: u_def)
    from Handle_step[OF owns_ok[OF o1(1)] _ ur, of ?r y ?cp randStr hapType] r obtain e2 r2 s2 where
      h: "HandleFileAndBackUpRecord y ?cp randStr ?r u hapType ?s1 = Some (e2, r2, s2)"
        "sv_bundles s2 = sv_bundles ?s1" "ir_bundleName r2 = Some n" "ir_appId r2 = Some a"
        "e2 = ERR_OK \<longrightarrow> uid_given u n hapType ?s1 (ir_uid r2) (sv_uids s2)"
      by auto
    have o2: "owns s2 p b" "registered s2 = registered s" using owns_same[of s2 ?s1 p b] h(2) o1 by auto
    note start = f True owns_info[OF own] bp q(1) h(1) r
    show ?thesis
    proof (cases "e2 = ERR_OK")
      case False
      from Rollback_step[OF o2(1) n, of y randStr] False start o2(2) show ?thesis
        by (auto simp: process_files_def Let_def do_call_eq u_def dropped_def)
    next
      case e2: True
      let ?b3 = "b\<lparr>bi_uid := ir_uid r2, bi_gid := ir_uid r2\<rparr>"
      let ?s3 = "put_info p ?b3 s2"
      have o3: "owns ?s3 p ?b3" "registered ?s3 = registered s" using owns_put[OF o2(1)] o2(2) by auto
      from Store_step[of y n "hap_permissions h" u ?s3] obtain e4 s4 where
        st: "StorePermissions y (Some n) (hap_permissions h) u ?s3 = Some (e4, s4)"
          "sv_bundles s4 = sv_bundles ?s3" "sv_uids s4 = sv_uids ?s3" by auto
      have o4: "owns s4 p ?b3" "registered s4 = registered s" using owns_same[of s4 ?s3 p ?b3] st(2) o3 by auto
      have n3: "bi_bundleName ?b3 = Some n" using n by simp
      show ?thesis
      proof (cases "e4 = ERR_OK")
        case False
        from Rollback_step[OF o4(1) n3, of y randStr] False start e2 owns_info[OF o2(1)] st(1) h(3) o4(2) show ?thesis
          by (auto simp: process_files_def Let_def do_call_eq u_def dropped_def)
      next
        case e4: True
        note start2 = start e2 e4 owns_info[OF o2(1)] st(1) h(3,4)
        from start2 obtain e5 s5 where
          up: "UpdateBundleInfo y (Some a) (hap_bundleRes h) p u hapType s4 = Some (e5, s5)"
          by (auto simp: process_files_def Let_def do_call_eq u_def bind_Some_iff)
        from Update_step[OF o4(1) n3 refl up] have U: "sv_uids s5 = sv_uids s4"
          "e5 = ERR_OK \<Longrightarrow> service_ok s5 \<and> (\<exists>b'. registered s5 = (registered s)(n \<mapsto> b') \<and> info_at p s5 = Some b' \<and>
            res_update (?b3\<lparr>bi_isSystemApp := bi_isSystemApp b', bi_appId := Some a\<rparr>) b' \<and>
            bi_isSystemApp b' = (if u then bi_isSystemApp (the (registered s n)) else hapType = SYSTEM_APP_FLAG))"
          "e5 \<noteq> ERR_OK \<Longrightarrow> \<exists>b'. owns s5 p b' \<and> bi_bundleName b' = Some n \<and>
            (registered s5 = registered s \<or> registered s5 = (registered s)(n := None))"
          using o4(2) by (auto split: if_splits)
        show ?thesis
        proof (cases "e5 = ERR_OK")
          case False
          from U(3)[OF this] obtain b' where b': "owns s5 p b'" "bi_bundleName b' = Some n"
            "registered s5 = registered s \<or> registered s5 = (registered s)(n := None)" by auto
          from Rollback_step[OF b'(1,2), of y randStr] False start2 up b'(3) show ?thesis
            by (auto simp: process_files_def Let_def do_call_eq u_def dropped_def)
        next
          case e5: True
          from U(2)[OF this] obtain b' where b': "service_ok s5" "registered s5 = (registered s)(n \<mapsto> b')"
            "info_at p s5 = Some b'" "res_update (?b3\<lparr>bi_isSystemApp := bi_isSystemApp b', bi_appId := Some a\<rparr>) b'"
            "bi_isSystemApp b' = (if u then bi_isSystemApp (the (registered s n)) else hapType = SYSTEM_APP_FLAG)" by auto
          have res: "e = ERR_OK" "ow = Some p" "r' = r2" "s' = s5"
            using start2 up e5 by (auto simp: process_files_def Let_def do_call_eq u_def)
          have uid: "bi_uid b' = ir_uid r2" "bi_gid b' = ir_uid r2" using res_update_fields[OF b'(4)] by simp_all
          have us: "sv_uids s5 = sv_uids s2" using U(1) st(3) by (simp add: put_info_def)
          have g: "uid_given (registered s n \<noteq> None) n hapType s (bi_uid b') (sv_uids s5)"
            using h(5) e2 us uid(1) ur o1(2) by (simp add: uid_given_def)
          have "?b3\<lparr>bi_isSystemApp := bi_isSystemApp b', bi_appId := Some a\<rparr> =
              b\<lparr>bi_uid := bi_uid b', bi_gid := bi_uid b', bi_isSystemApp := bi_isSystemApp b'\<rparr>"
            using a uid by simp
          then have "installed hapType s n b b'"
            using b'(4,5) ur o1(2) unfolding installed_def by (auto split: option.splits)
          with res b' g uid(1) h(3) show ?thesis by auto
        qed
      qed
    qed
  qed
qed

section \<open>What an installation does\<close>

text \<open>
  The package in the file \<open>path\<close> stands for the bundle \<open>b\<close> of the name \<open>n\<close>: its signature is accepted, its
  profile is read, and the provision allows its name and its restricted permissions. The bundle's \<open>appId\<close> is that
  of the signature with what stands before the first underscore replaced by the name.
\<close>

definition approved :: "'j system \<Rightarrow> service \<Rightarrow> string \<Rightarrow> string \<Rightarrow> BundleInfo \<Rightarrow> bool" where
  "approved y s path n b \<longleftrightarrow>
     (\<exists>si h c i. CheckInstallFileIsValid (y_posix y (sv_trace s)) (Some path) = ERR_OK \<and>
        VerifySignature y (sv_trace s) path = (ERR_OK, si) \<and>
        ParseHapProfile y (sv_trace s) (\<lambda>n. query_info n s) (sv_codeDir s) (sv_dataDir s) path = Some (ERR_OK, h) \<and>
        hap_bundleInfo h = Some c \<and> bi_bundleName c = Some n \<and>
        provision_covers (si_provisionBundleName si) n \<and>
        (\<forall>p \<in> set (hap_permissions h). y_permRestricted y (pt_name p) = 0 \<longrightarrow>
           pt_name p \<in> set (si_restrictedPermissions si)) \<and>
        find_char (CHR ''_'') (si_appId si) = Some i \<and>
        b = c\<lparr>bi_appId := Some (n @ drop i (si_appId si))\<rparr>)"

lemma approved_name: "approved y s path n b \<Longrightarrow> bi_bundleName b = Some n"
  by (auto simp: approved_def)

lemma Reshape_OK:
  "ReshapeAppId (Some n) a = (ERR_OK, a') \<longleftrightarrow>
     (\<exists>i. find_char (CHR ''_'') a = Some i \<and> a' = n @ drop i a)"
  by (auto simp: ReshapeAppId_def Let_def split: option.splits dest: find_char_Some)

text \<open>The installation of \<open>n\<close> has succeeded in the registry.\<close>

definition has_installed :: "'j system \<Rightarrow> nat \<Rightarrow> service \<Rightarrow> string \<Rightarrow> string \<Rightarrow> service \<Rightarrow> bool" where
  "has_installed y hapType s path n s' \<longleftrightarrow>
     (\<exists>b b1 b'. approved y s path n b \<and> checked (registered s n) b b1 \<and> installed hapType s n b1 b' \<and>
        registered s' = (registered s)(n \<mapsto> b') \<and>
        uid_given (registered s n \<noteq> None) n hapType s (bi_uid b') (sv_uids s'))"

lemma freed_step:
  assumes own: "owns s p b" and f: "do { s \<leftarrow> free_info (Some p) s; Some (e, ow, r, s) } = Some (e', ow', r', s')"
  shows "e' = e \<and> ow' = ow \<and> r' = r \<and> service_ok s' \<and> registered s' = registered s \<and> info_at p s' = None \<and>
    sv_uids s' = sv_uids s"
proof -
  from owns_free[OF own] obtain s1 where s1: "free_info (Some p) s = Some s1" "service_ok s1" "registered s1 = registered s"
    "info_at p s1 = None" "s1 = s\<lparr>sv_bundles := sv_bundles s1\<rparr>" by auto
  with f same_uids[OF s1(5)] show ?thesis by auto
qed

lemma Process_start:
  assumes ok: "service_ok s"
    and f: "ProcessBundleInstall y path randStr hapType s = Some (e, ow, r, s')"
  obtains
    (refused) "e \<noteq> ERR_OK" "ow = None" "service_ok s'" "registered s' = registered s" "sv_uids s' = sv_uids s"
  | (vetted) n b p h s1 where "approved y s path n b" "bi_appId b \<noteq> None" "owns s1 p b" "registered s1 = registered s"
      "sv_uids s1 = sv_uids s"
      "do { (e, s) \<leftarrow> CheckVersionAndSignature y (Some n) p s1;
            let r = empty_record\<lparr>ir_bundleName := Some n, ir_appId := bi_appId b, ir_versionCode := bi_versionCode b\<rparr>;
            if e \<noteq> ERR_OK then do { s \<leftarrow> free_info (Some p) s; Some (e, Some p, r, s) }
            else process_files y path randStr hapType p h r s } = Some (e, ow, r, s')"
proof (cases "CheckInstallFileIsValid (y_posix y (sv_trace s)) (Some path) = ERR_OK")
  case False
  with f ok refused show ?thesis by (auto simp: ProcessBundleInstall_def Let_def)
next
  case fl: True
  obtain e1 si where v: "VerifySignature y (sv_trace s) path = (e1, si)" by fastforce
  show ?thesis
  proof (cases "e1 = ERR_OK")
    case False
    with f ok refused fl v show ?thesis by (auto simp: ProcessBundleInstall_def Let_def)
  next
    case e1: True
    let ?q = "\<lambda>n. query_info n s"
    from f fl v e1 obtain e2 h where
      ph: "ParseHapProfile y (sv_trace s) ?q (sv_codeDir s) (sv_dataDir s) path = Some (e2, h)"
      by (auto simp: ProcessBundleInstall_def Let_def bind_Some_iff)
    show ?thesis
    proof (cases "e2 = ERR_OK")
      case False
      with f ok refused fl v e1 ph show ?thesis by (auto simp: ProcessBundleInstall_def Let_def)
    next
      case e2: True
      from f fl v e1 ph e2 obtain c where c: "hap_bundleInfo h = Some c"
        by (auto simp: ProcessBundleInstall_def Let_def bind_Some_iff)
      obtain p bm where nw: "new_info c (sv_bundles s) = (p, bm)" by fastforce
      let ?s0 = "s\<lparr>sv_bundles := bm\<rparr>"
      have o0: "owns ?s0 p c" "registered ?s0 = registered s"
        using bs.own_new[OF _ nw] ok by (auto simp: owns_def service_ok_def registered_def)
      define e3 where "e3 = CheckProvisionInfoIsValid y si (hap_permissions h) (bi_bundleName c)"
      note start = f fl v e1 ph e2 c nw e3_def[symmetric]
      show ?thesis
      proof (cases "e3 = ERR_OK")
        case False
        with start have "do { s \<leftarrow> free_info (Some p) ?s0; Some (e3, None, empty_record, s) } = Some (e, ow, r, s')"
          by (simp add: ProcessBundleInstall_def Let_def)
        from freed_step[OF o0(1) this] False o0 refused show ?thesis by auto
      next
        case e3: True
        then obtain n where n: "bi_bundleName c = Some n"
          by (auto simp: e3_def CheckProvisionInfoIsValid_def split: if_splits)
        obtain e4 a where ra: "ReshapeAppId (Some n) (si_appId si) = (e4, a)" by fastforce
        show ?thesis
        proof (cases "e4 = ERR_OK")
          case False
          with start e3 n ra have "do { s \<leftarrow> free_info (Some p) ?s0; Some (e4, None, empty_record, s) } = Some (e, ow, r, s')"
            by (simp add: ProcessBundleInstall_def Let_def)
          from freed_step[OF o0(1) this] False o0 refused show ?thesis by auto
        next
          case e4: True
          define b where "b = c\<lparr>bi_appId := Strdup (y_alloc y) (Some a)\<rparr>"
          let ?s1 = "put_info p b ?s0"
          have o1: "owns ?s1 p b" "registered ?s1 = registered s" using owns_put[OF o0(1)] o0(2) by auto
          show ?thesis
          proof (cases "bi_appId b")
            case None
            with start e3 n ra e4 have
              "do { s \<leftarrow> free_info (Some p) ?s1; Some (ERR_INSTALL_FAILED_INTERNAL_ERROR, None, empty_record, s) } = Some (e, ow, r, s')"
              by (simp add: ProcessBundleInstall_def Let_def b_def)
            from freed_step[OF o1(1) this] o1 refused show ?thesis by (auto simp: put_info_def)
          next
            case (Some a')
            then have a: "bi_appId b = Some a" using Strdup_same[of "y_alloc y" "Some a" a'] by (simp add: b_def)
            from ra e4 obtain i where i: "find_char (CHR ''_'') (si_appId si) = Some i" "a = n @ drop i (si_appId si)"
              using Reshape_OK by metis
            have "CheckProvisionInfoIsValid y si (hap_permissions h) (Some n) = ERR_OK" using e3 n by (simp add: e3_def)
            then have pr: "provision_covers (si_provisionBundleName si) n" "\<forall>p \<in> set (hap_permissions h).
                y_permRestricted y (pt_name p) = 0 \<longrightarrow> pt_name p \<in> set (si_restrictedPermissions si)"
              unfolding CheckProvision_iff by blast+
            have "b = c\<lparr>bi_appId := Some (n @ drop i (si_appId si))\<rparr>" using a i(2) by (simp add: b_def)
            then have ap: "approved y s path n b"
              unfolding approved_def using fl v e1 ph e2 c n pr i(1) by blast
            have "bi_bundleName b = Some n" using n by (simp add: b_def)
            with start e3 n ra e4 a have
              "do { (e, s) \<leftarrow> CheckVersionAndSignature y (Some n) p ?s1;
                 let r = empty_record\<lparr>ir_bundleName := Some n, ir_appId := bi_appId b, ir_versionCode := bi_versionCode b\<rparr>;
                 if e \<noteq> ERR_OK then do { s \<leftarrow> free_info (Some p) s; Some (e, Some p, r, s) }
                 else process_files y path randStr hapType p h r s } = Some (e, ow, r, s')"
              by (simp add: ProcessBundleInstall_def Let_def b_def)
            moreover have "sv_uids ?s1 = sv_uids s" by (simp add: put_info_def)
            ultimately show ?thesis using vetted[OF ap _ o1(1,2)] a by blast
          qed
        qed
      qed
    qed
  qed
qed

lemma Process_step:
  assumes ok: "service_ok s"
    and f: "ProcessBundleInstall y path randStr hapType s = Some (e, ow, r, s')"
  shows "service_ok s' \<and>
    (if e = ERR_OK then \<exists>n p b'. ow = Some p \<and> has_installed y hapType s path n s' \<and> info_at p s' = Some b' \<and>
        registered s' n = Some b' \<and> bi_bundleName b' = Some n \<and> ir_bundleName r = Some n \<and> ir_uid r = bi_uid b'
     else case ow of None \<Rightarrow> registered s' = registered s \<and> sv_uids s' = sv_uids s
        | Some p \<Rightarrow> info_at p s' = None \<and> (\<exists>n b. approved y s path n b \<and> dropped s n s'))"
  using ok f
proof (cases rule: Process_start)
  case refused
  then show ?thesis by simp
next
  case (vetted n b p h s1)
  from vetted(2) obtain a where a: "bi_appId b = Some a" by auto
  let ?r = "empty_record\<lparr>ir_bundleName := Some n, ir_appId := bi_appId b, ir_versionCode := bi_versionCode b\<rparr>"
  from CheckVersion_step[OF vetted(3), of y n] vetted(4) obtain e1 s2 b1 where
    cv: "CheckVersionAndSignature y (Some n) p s1 = Some (e1, s2)" "owns s2 p b1" "registered s2 = registered s"
      "stays s1 s2" "bi_bundleName b1 = bi_bundleName b" "e1 = ERR_OK \<longrightarrow> checked (registered s n) b b1" by auto
  have u2: "sv_uids s2 = sv_uids s" using stays_fields[OF cv(4)] vetted(5) by simp
  show ?thesis
  proof (cases "e1 = ERR_OK")
    case False
    with vetted(6) cv(1) have "do { s \<leftarrow> free_info (Some p) s2; Some (e1, Some p, ?r, s) } = Some (e, ow, r, s')"
      by (simp add: Let_def)
    from freed_step[OF cv(2) this] False cv(3) vetted(1) show ?thesis by (auto simp: dropped_def)
  next
    case True
    with cv have ck: "checked (registered s n) b b1" by simp
    have n1: "bi_bundleName b1 = Some n" using cv(5) approved_name[OF vetted(1)] by simp
    have a1: "bi_appId b1 = Some a" using ck a by (auto simp: checked_def split: option.splits)
    from vetted(6) cv(1) True have "process_files y path randStr hapType p h ?r s2 = Some (e, ow, r, s')"
      by (simp add: Let_def)
    from process_files_step[OF cv(2) n1 a1 _ _ this] a have P: "ow = Some p" "service_ok s'"
      "e = ERR_OK \<Longrightarrow> \<exists>b'. registered s' = (registered s)(n \<mapsto> b') \<and> info_at p s' = Some b' \<and>
        installed hapType s2 n b1 b' \<and> bi_uid b' = ir_uid r \<and> ir_bundleName r = Some n \<and>
        uid_given (registered s n \<noteq> None) n hapType s2 (bi_uid b') (sv_uids s')"
      "e \<noteq> ERR_OK \<Longrightarrow> info_at p s' = None \<and> dropped s2 n s'" using cv(3) by (auto split: if_splits)
    show ?thesis
    proof (cases "e = ERR_OK")
      case False
      with P vetted(1) cv(3) show ?thesis by (auto simp: dropped_def)
    next
      case e: True
      from P(3)[OF this] obtain b' where b': "registered s' = (registered s)(n \<mapsto> b')" "info_at p s' = Some b'"
        "installed hapType s2 n b1 b'" "bi_uid b' = ir_uid r" "ir_bundleName r = Some n"
        "uid_given (registered s n \<noteq> None) n hapType s2 (bi_uid b') (sv_uids s')" by auto
      have i: "installed hapType s n b1 b'" "uid_given (registered s n \<noteq> None) n hapType s (bi_uid b') (sv_uids s')"
        using b'(3) b'(6) unfolding installed_def uid_given_def cv(3) u2 by - (assumption, assumption)
      have "bi_bundleName b' = Some n"
        using res_update_fields[OF installed_def[THEN iffD1, OF i(1), THEN conjunct1]] n1 by simp
      moreover have "has_installed y hapType s path n s'"
        unfolding has_installed_def using vetted(1) ck i b'(1) by blast
      ultimately show ?thesis using e P(1,2) b' by auto
    qed
  qed
qed

text \<open>The state in which the package is processed, for the path the file system gives it.\<close>

definition prepared :: "InstallParam \<Rightarrow> string \<Rightarrow> service \<Rightarrow> service" where
  "prepared installParam realPath s = ModifyInstallDirByHapType installParam (GetHapType (Some realPath)) s"

lemma prepared_same: "sv_bundles (prepared i rp s) = sv_bundles s \<and> sv_uids (prepared i rp s) = sv_uids s \<and>
    sv_trace (prepared i rp s) = sv_trace s"
  by (simp add: prepared_def ModifyInstallDirByHapType_def)

text \<open>The codes that answer a request before a bundle is made.\<close>

lemma Restore_same: "sv_bundles (RestoreInstallEnv i s) = sv_bundles s \<and> sv_uids (RestoreInstallEnv i s) = sv_uids s"
  by (simp add: RestoreInstallEnv_def)

lemma Install_start:
  assumes f: "Install y (Some path) installParam s = Some (e, s')"
  obtains (refused) "e \<noteq> ERR_OK" "e \<noteq> ERR_INSTALL_FAILED_UID_AND_GID_BACKUP_ERROR"
      "e \<noteq> ERR_INSTALL_FAILED_RENAME_FILE_ERROR" "s' = s"
  | (processed) realPath randStr e1 ow r s1 name where
      "y_realpath y (sv_trace s) path = Some realPath"
      "ProcessBundleInstall y realPath randStr (GetHapType (Some realPath)) (prepared installParam realPath s) = Some (e1, ow, r, s1)"
      "record_name ow s1 = Some name"
      "(if e1 \<noteq> ERR_OK then Some (e1, s1\<lparr>sv_uids := RecycleUid name (sv_uids s1)\<rparr>)
        else let (ok, t) = BackUpUidAndGidInfo y r (Some (JSON_PATH @ UID_GID_MAP @ randStr @ JSON_SUFFIX)) (sv_trace s1);
                 s = s1\<lparr>sv_trace := t\<rparr> in
        if \<not> ok then do {
          q \<leftarrow> QueryBundleInfo name s;
          s \<leftarrow> CLEAR_INSTALL_ENV y q s;
          Some (ERR_INSTALL_FAILED_UID_AND_GID_BACKUP_ERROR, s) }
        else let (ok, t) = RenameJsonFile y (Some UID_GID_MAP) (Some randStr) (sv_trace s);
                 (ok, t) = (if ok then RenameJsonFile y name (Some randStr) t else (False, t));
                 s = s\<lparr>sv_trace := t\<rparr> in
        if \<not> ok then do {
          q \<leftarrow> QueryBundleInfo name s;
          s \<leftarrow> CLEAR_INSTALL_ENV y q s;
          Some (ERR_INSTALL_FAILED_RENAME_FILE_ERROR, s) }
        else let t = (if GetHapType (Some realPath) = THIRD_SYSTEM_APP_FLAG then
                        let (known, t) = CheckIsThirdSystemBundle y name (sv_trace s) in
                        if known then t else RecordThirdSystemBundle y name (Some THIRD_SYSTEM_BUNDLE_JSON) t
                      else sv_trace s) in
          Some (ERR_OK, RestoreInstallEnv installParam (s\<lparr>sv_trace := t\<rparr>))) = Some (e, s')"
proof -
  consider (param) "ip_installLocation installParam < INSTALL_LOCATION_INTERNAL_ONLY \<or>
      ip_installLocation installParam > INSTALL_LOCATION_PREFER_EXTERNAL"
    | (go) "\<not> (ip_installLocation installParam < INSTALL_LOCATION_INTERNAL_ONLY \<or>
      ip_installLocation installParam > INSTALL_LOCATION_PREFER_EXTERNAL)" by blast
  then show ?thesis
  proof cases
    case param
    with f have "e = ERR_INSTALL_FAILED_PARAM_ERROR" "s' = s" by (auto simp: Install_def)
    with refused show ?thesis by simp
  next
    case go
    with f obtain randStr where rs: "CreateRandStr (y_rand y (sv_trace s)) (Some 16) 16 = Some (Some randStr)"
      unfolding Install_def bind_Some_iff by (auto simp: bind_Some_iff split: if_splits)
    show ?thesis
    proof (cases "randStr = [] \<or> length path > PATH_MAX \<or> y_realpath y (sv_trace s) path = None")
      case True
      with f go rs have "s' = s \<and> (e = ERR_INSTALL_FAILED_INTERNAL_ERROR \<or> e = ERR_INSTALL_FAILED_FILE_PATH_INVALID)"
        by (auto simp: Install_def split: if_splits)
      with refused show ?thesis by auto
    next
      case False
      then obtain realPath where rp: "y_realpath y (sv_trace s) path = Some realPath" by auto
      let ?h = "GetHapType (Some realPath)"
      from f go rs rp False obtain e1 ow r s1 where
        p: "ProcessBundleInstall y realPath randStr ?h (prepared installParam realPath s) = Some (e1, ow, r, s1)"
        unfolding Install_def prepared_def by (auto simp: bind_Some_iff Let_def)
      from f go rs rp False p obtain name where nm: "record_name ow s1 = Some name"
        unfolding Install_def prepared_def by (auto simp: bind_Some_iff Let_def)
      from f go rs rp False p nm show ?thesis
        by (intro processed[OF rp p nm]) (simp add: Install_def prepared_def Let_def)
    qed
  qed
qed

lemma Install_result:
  assumes ok: "service_ok s" and f: "Install y (Some path) installParam s = Some (e, s')"
  shows "(if e = ERR_INSTALL_FAILED_UID_AND_GID_BACKUP_ERROR \<or> e = ERR_INSTALL_FAILED_RENAME_FILE_ERROR then True
     else service_ok s' \<and>
       (if e = ERR_OK then \<exists>realPath n. y_realpath y (sv_trace s) path = Some realPath \<and>
          has_installed y (GetHapType (Some realPath)) (prepared installParam realPath s) realPath n s'
        else registered s' = registered s \<and> sv_uids s' = sv_uids s))"
  using f
proof (cases rule: Install_start)
  case refused
  with ok show ?thesis by simp
next
  case (processed realPath randStr e1 ow r s1 name)
  let ?s0 = "prepared installParam realPath s"
  have ok0: "service_ok ?s0" "registered ?s0 = registered s" "sv_uids ?s0 = sv_uids s"
    using ok prepared_same by (simp_all add: service_ok_def registered_def)
  note P = Process_step[OF ok0(1) processed(2)]
  show ?thesis
  proof (cases "e1 = ERR_OK")
    case False
    with processed(4) have e: "e = e1" "s' = s1\<lparr>sv_uids := RecycleUid name (sv_uids s1)\<rparr>" by simp_all
    show ?thesis
    proof (cases ow)
      case None
      with processed(3) have "name = None" by (simp add: record_name_def)
      with P False None ok0 e show ?thesis by (auto simp: RecycleUid_def service_ok_def registered_def)
    next
      case (Some p)
      with P False processed(3) show ?thesis by (simp add: record_name_def)
    qed
  next
    case True
    with P obtain n p b' where P1: "service_ok s1" "ow = Some p"
      "has_installed y (GetHapType (Some realPath)) ?s0 realPath n s1" by auto
    have keep: "service_ok s1'" "has_installed y (GetHapType (Some realPath)) ?s0 realPath n s1'"
      if "sv_bundles s1' = sv_bundles s1" "sv_uids s1' = sv_uids s1" for s1'
      using P1(1,3) that by (simp_all add: service_ok_def has_installed_def registered_def)
    show ?thesis
    proof (cases "e = ERR_OK")
      case e: True
      with processed(4) True have "sv_bundles s' = sv_bundles s1 \<and> sv_uids s' = sv_uids s1"
        by (auto simp: Let_def Restore_same bind_Some_iff split: if_splits prod.splits)
      with keep[of s'] processed(1) e show ?thesis by auto
    next
      case False
      with processed(4) True have "e = ERR_INSTALL_FAILED_UID_AND_GID_BACKUP_ERROR \<or> e = ERR_INSTALL_FAILED_RENAME_FILE_ERROR"
        by (auto simp: Let_def bind_Some_iff split: if_splits prod.splits)
      then show ?thesis by simp
    qed
  qed
qed

text \<open>\<open>CLEAR_INSTALL_ENV\<close> of the registered bundle frees it without taking it off the registry.\<close>

lemma CLEAR_registered:
  assumes ok: "service_ok s" and n: "registered s n \<noteq> None" and q: "QueryBundleInfo (Some n) s = Some q"
    and c: "CLEAR_INSTALL_ENV y q s = Some s'"
  shows "QueryBundleInfo (Some n) s' = None"
proof -
  from n obtain b where b: "registered s n = Some b" by auto
  with ok q obtain p where p: "q = Some p" "info_at p s = Some b"
    using bs.get_some[of "sv_bundles s" n b]
    by (auto simp: service_ok_def registered_def QueryBundleInfo_def info_at_def)
  define s0 where "s0 = (case (bi_codePath b, bi_dataPath b) of
      (Some c, Some d) \<Rightarrow> snd (do_call y (RemoveInstallDirectory c d False) s) | _ \<Rightarrow> s)"
  have s0: "sv_bundles s0 = sv_bundles s" by (auto simp: s0_def do_call_eq split: option.splits)
  from c p have "free_info (Some p) s0 = Some s'" by (simp add: CLEAR_INSTALL_ENV_def s0_def Let_def)
  with s0 obtain bm where bm: "FreeBundleInfo (Some p) (sv_bundles s) = Some bm" "s' = s0\<lparr>sv_bundles := bm\<rparr>"
    by (auto simp: free_info_def bind_Some_iff)
  have "Get (Some n) bm = None"
    using Get_after_free[OF _ _ _ bm(1)] ok b q p(1) by (simp add: service_ok_def registered_def QueryBundleInfo_def)
  with bm(2) show ?thesis by (simp add: QueryBundleInfo_def)
qed

text \<open>A request the installer turns to \<open>ProcessBundleInstall\<close>.\<close>

definition processes :: "'j system \<Rightarrow> string \<Rightarrow> InstallParam \<Rightarrow> service \<Rightarrow> string \<Rightarrow> string \<Rightarrow> bool" where
  "processes y path installParam s realPath randStr \<longleftrightarrow>
     ip_installLocation installParam \<in> {INSTALL_LOCATION_INTERNAL_ONLY .. INSTALL_LOCATION_PREFER_EXTERNAL} \<and>
     CreateRandStr (y_rand y (sv_trace s)) (Some 16) 16 = Some (Some randStr) \<and> randStr \<noteq> [] \<and>
     length path \<le> PATH_MAX \<and> y_realpath y (sv_trace s) path = Some realPath"

lemma Install_processes:
  assumes p: "processes y path installParam s realPath randStr"
    and f: "ProcessBundleInstall y realPath randStr (GetHapType (Some realPath)) (prepared installParam realPath s) =
      Some (e1, ow, r, s1)"
  shows "record_name ow s1 = None \<Longrightarrow> Install y (Some path) installParam s = None"
    and "e1 \<noteq> ERR_OK \<Longrightarrow> record_name ow s1 = Some name \<Longrightarrow>
      Install y (Some path) installParam s = Some (e1, s1\<lparr>sv_uids := RecycleUid name (sv_uids s1)\<rparr>)"
  using p f unfolding processes_def Install_def prepared_def by (auto simp: Let_def)

lemma Install_late_error:
  assumes "service_ok s" and p: "processes y path installParam s realPath randStr"
    and f: "ProcessBundleInstall y realPath randStr (GetHapType (Some realPath)) (prepared installParam realPath s) =
      Some (e, Some p, r, s1)" and "e \<noteq> ERR_OK"
  shows "Install y (Some path) installParam s = None"
proof -
  have "service_ok (prepared installParam realPath s)" using assms(1) prepared_same by (simp add: service_ok_def)
  from Process_step[OF this f] assms(4) have "record_name (Some p) s1 = None" by (simp add: record_name_def)
  from Install_processes(1)[OF p f this] show ?thesis .
qed

lemma Install_not_backed_up:
  assumes ok: "service_ok s" and i: "Install y (Some path) installParam s = Some (e, s')" and e: "e \<noteq> ERR_OK"
    and p: "processes y path installParam s realPath randStr"
    and f: "ProcessBundleInstall y realPath randStr (GetHapType (Some realPath)) (prepared installParam realPath s) =
      Some (ERR_OK, ow, r, s1)"
  shows "\<exists>n. has_installed y (GetHapType (Some realPath)) (prepared installParam realPath s) realPath n s1 \<and>
      QueryBundleInfo (Some n) s' = None"
proof -
  have "service_ok (prepared installParam realPath s)" using ok prepared_same by (simp add: service_ok_def)
  from Process_step[OF this f] obtain n p b' where P: "service_ok s1" "ow = Some p" "registered s1 n = Some b'"
    "has_installed y (GetHapType (Some realPath)) (prepared installParam realPath s) realPath n s1"
    "info_at p s1 = Some b'" "bi_bundleName b' = Some n" by auto
  have nm: "record_name ow s1 = Some (Some n)" using P by (simp add: record_name_def)
  have clear: "QueryBundleInfo (Some n) s' = None"
    if "sv_bundles s2 = sv_bundles s1" "QueryBundleInfo (Some n) s2 = Some q" "CLEAR_INSTALL_ENV y q s2 = Some s'" for s2 q
    using CLEAR_registered[OF _ _ that(2,3)] P(1,3) that(1) by (simp add: service_ok_def registered_def)
  from i p f nm e obtain t q where "QueryBundleInfo (Some n) (s1\<lparr>sv_trace := t\<rparr>) = Some q"
    "CLEAR_INSTALL_ENV y q (s1\<lparr>sv_trace := t\<rparr>) = Some s'"
    unfolding processes_def Install_def prepared_def
    by (auto simp: Let_def bind_Some_iff split: if_splits prod.splits)
  from clear[OF _ this] P(4) show ?thesis by auto
qed

section \<open>Uninstalling\<close>

text \<open>What a removal does to the registry, and the bundles it may remove.\<close>

definition removable :: "service \<Rightarrow> string \<Rightarrow> bool" where
  "removable s n \<longleftrightarrow> (case registered s n of None \<Rightarrow> False | Some b \<Rightarrow> \<not> bi_isSystemApp b)"

lemma Uninstall_refuses:
  "service_ok s \<Longrightarrow> registered s n = None \<Longrightarrow>
     Uninstall y (Some n) i s = Some (ERR_UNINSTALL_FAILED_BUNDLE_NOT_EXISTS, s)"
  "service_ok s \<Longrightarrow> registered s n = Some b \<Longrightarrow> bi_isSystemApp b \<Longrightarrow>
     Uninstall y (Some n) i s = Some (ERR_UNINSTALL_FAILED_BUNDLE_NOT_UNINSTALLABLE, s)"
  by (simp_all add: Uninstall_def query_info_look)

lemma Uninstall_removes:
  assumes ok: "service_ok s" and r: "removable s n" and a: "y_ask y (sv_trace s) GetAmsInterface"
  shows "\<exists>e s'. Uninstall y (Some n) i s = Some (e, s') \<and> service_ok s' \<and>
     registered s' = (registered s)(n := None) \<and> sv_uids s' = sv_uids s"
proof -
  from r obtain b where b: "registered s n = Some b" "\<not> bi_isSystemApp b"
    by (auto simp: removable_def split: option.splits)
  let ?s1 = "s\<lparr>sv_trace := sv_trace s @ [GetAmsInterface, TerminateApp n]\<rparr>"
  obtain ok1 s2 where 2: "(case (bi_codePath b, bi_dataPath b) of
      (Some c, Some d) \<Rightarrow> do_call y (RemoveInstallDirectory c d (ip_keepData i)) ?s1
    | _ \<Rightarrow> (False, ?s1)) = (ok1, s2)" by fastforce
  then have s2: "sv_bundles s2 = sv_bundles s" "sv_uids s2 = sv_uids s"
    by (auto simp: do_call_eq split: option.splits)
  from RemoveBundleInfo_look[of s2 n] ok s2(1) obtain s3 where
    s3: "RemoveBundleInfo (Some n) s2 = Some s3" "service_ok s3" "registered s3 = (registered s)(n := None)"
      "s3 = s2\<lparr>sv_bundles := sv_bundles s3\<rparr>" by (auto simp: service_ok_def registered_def)
  have u3: "sv_uids s3 = sv_uids s" using same_uids[OF s3(4)] s2(2) by simp
  have "\<exists>e s'. Uninstall y (Some n) i s = Some (e, s') \<and> sv_bundles s' = sv_bundles s3 \<and> sv_uids s' = sv_uids s3"
    using b a 2 s3(1)
    by (cases "bi_codePath b"; cases "bi_dataPath b")
      (auto simp: Uninstall_def query_info_look[OF ok] do_call_eq Let_def split: prod.splits)
  then show ?thesis using s3(2,3) u3 by (auto simp: service_ok_def registered_def)
qed

lemma Uninstall_OK_only:
  assumes ok: "service_ok s" and u: "Uninstall y (Some n) i s = Some (ERR_OK, s')"
  shows "removable s n \<and> y_ask y (sv_trace s) GetAmsInterface"
proof (cases "removable s n")
  case False
  with Uninstall_refuses(1)[OF ok, of n y i] Uninstall_refuses(2)[OF ok, of n _ y i] u show ?thesis
    by (cases "registered s n") (auto simp: removable_def)
next
  case True
  then obtain b where b: "registered s n = Some b" "\<not> bi_isSystemApp b"
    by (auto simp: removable_def split: option.splits)
  show ?thesis
  proof (rule ccontr)
    assume "\<not> ?thesis"
    with True have "\<not> y_ask y (sv_trace s) GetAmsInterface" by simp
    with b u show False by (simp add: Uninstall_def query_info_look[OF ok] do_call_eq)
  qed
qed

section \<open>Properties\<close>

subsection \<open>A package to install\<close>

definition small_hap :: js where
  "small_hap = JObj
     [(''app'', JObj [(''bundleName'', JStr ''com.a.b''), (''vendor'', JStr ''v''),
        (''version'', JObj [(''code'', JNum 3), (''name'', JStr ''1'')]),
        (''apiVersion'', JObj [(''compatible'', JNum 3), (''target'', JNum 4)])]),
      (''module'', JObj [(''deviceType'', JArr [JStr ''smartVision'']),
        (''distro'', JObj [(''deliveryWithInstall'', JBool True), (''moduleName'', JStr ''m''),
                           (''moduleType'', JStr ''entry'')]),
        (''abilities'', JArr [])])]"

definition shop :: "js system" where
  "shop = js_system (\<lambda>p. if p = ''/x.hap'' then Some small_hap else None)"

definition internal :: InstallParam where
  "internal = \<lparr>ip_installLocation = 1, ip_keepData = False\<rparr>"

text \<open>The service when it has started.\<close>

definition new_service :: service where
  "new_service = \<lparr>sv_bundles = BundleMap_new, sv_uids = uid_maps_new, sv_codeDir = INSTALL_PATH,
     sv_dataDir = DATA_PATH, sv_external = False, sv_trace = []\<rparr>"

lemma new_service_ok: "service_ok new_service" "registered new_service = Map.empty"
  using bm_inv_new Get_absent[OF bm_inv_new]
  by (auto simp: service_ok_def bm_ok_def registered_def new_service_def bm_look_def)

text \<open>The same package when it cannot be unpacked, and when the uid table cannot be stored.\<close>

definition shut :: "(call \<Rightarrow> bool) \<Rightarrow> js system" where
  "shut bad = shop\<lparr>y_ask := (\<lambda>t c. \<not> bad c)\<rparr>"

fun is_extract :: "call \<Rightarrow> bool" where
  "is_extract (ExtractHap _ _) = True"
| "is_extract _ = False"

fun is_rename_json :: "call \<Rightarrow> bool" where
  "is_rename_json (RenameFile a b) = prefix JSON_PATH b"
| "is_rename_json _ = False"

definition state_of :: "(errcode \<times> service) option \<Rightarrow> service" where
  "state_of r = (case r of Some (_, s) \<Rightarrow> s | None \<Rightarrow> new_service)"

lemma shop_installs:
  "map_option fst (Install shop (Some ''/x.hap'') internal new_service) = Some ERR_OK"
  by code_simp

lemma shop_result:
  "Install shop (Some ''/x.hap'') internal new_service =
     Some (ERR_OK, state_of (Install shop (Some ''/x.hap'') internal new_service))"
  using shop_installs by (auto simp: state_of_def split: option.splits)

subsection \<open>The properties\<close>

text \<open>C28 The provision check lets a bundle through exactly when the provision names it - itself, every bundle, or
  every longer name with the prefix before \<open>.*\<close> - and grants each permission the bundle asks for and the
  system restricts.\<close>

theorem CheckProvisionInfoIsValid_exact:
  "CheckProvisionInfoIsValid y si ps (Some n) = ERR_OK \<longleftrightarrow>
     si_provisionBundleName si \<noteq> [] \<and> provision_covers (si_provisionBundleName si) n \<and>
     (\<forall>p \<in> set ps. y_permRestricted y (pt_name p) = 0 \<longrightarrow> pt_name p \<in> set (si_restrictedPermissions si))"
  by (rule CheckProvision_iff)

theorem CheckProvisionInfoIsValid_exact_witness:
  "CheckProvisionInfoIsValid shop \<lparr>si_appId = ''x_id'', si_provisionBundleName = ''com.a.*'', si_restrictedPermissions = []\<rparr>
     [] (Some ''com.a.b'') = ERR_OK \<and>
   CheckProvisionInfoIsValid shop \<lparr>si_appId = ''x_id'', si_provisionBundleName = ''com.a.*'', si_restrictedPermissions = []\<rparr>
     [] (Some ''com.b'') \<noteq> ERR_OK"
proof -
  have "provision_covers ''com.a.*'' ''com.a.b''"
    by (auto simp: provision_covers_def intro!: exI[of _ "''com.a''"])
  moreover have "\<not> provision_covers ''com.a.*'' ''com.b''"
    by (auto simp: provision_covers_def strict_prefix_def prefix_def Cons_eq_append_conv)
  ultimately show ?thesis by (simp add: CheckProvisionInfoIsValid_exact)
qed

text \<open>What an installation that succeeded has done, in the bundle's fields.\<close>

lemma installed_fields:
  "installed hapType s n b b' \<Longrightarrow> bi_bundleName b' = bi_bundleName b \<and> bi_codePath b' = bi_codePath b \<and>
     bi_dataPath b' = bi_dataPath b \<and> bi_versionCode b' = bi_versionCode b \<and> bi_appId b' = bi_appId b \<and>
     bi_gid b' = bi_uid b'"
  using res_update_fields[of "b\<lparr>bi_uid := bi_uid b', bi_gid := bi_uid b', bi_isSystemApp := bi_isSystemApp b'\<rparr>" b']
  by (auto simp: installed_def)

lemma installed_keeps:
  assumes h: "has_installed y hapType s path n s'" and m: "registered s m = Some old"
  shows "\<exists>b'. registered s' m = Some b' \<and> bi_uid b' = bi_uid old \<and> bi_codePath b' = bi_codePath old \<and>
     bi_dataPath b' = bi_dataPath old \<and> bi_appId b' = bi_appId old \<and> bi_isSystemApp b' = bi_isSystemApp old \<and>
     bi_versionCode old \<le> bi_versionCode b'"
proof -
  from h obtain b b1 b' where b: "checked (registered s n) b b1" "installed hapType s n b1 b'"
    "registered s' = (registered s)(n \<mapsto> b')" "uid_given (registered s n \<noteq> None) n hapType s (bi_uid b') (sv_uids s')"
    by (auto simp: has_installed_def)
  show ?thesis
  proof (cases "m = n")
    case False
    with m b(3) show ?thesis by simp
  next
    case True
    with m b(1) have c: "may_replace old b" "b1 = b\<lparr>bi_codePath := bi_codePath old, bi_dataPath := bi_dataPath old\<rparr>"
      by (simp_all add: checked_def)
    have "bi_isSystemApp b' = bi_isSystemApp old" using b(2) m True by (simp add: installed_def)
    moreover have "bi_uid b' = bi_uid old" using b(4) m True by (simp add: uid_given_def)
    ultimately show ?thesis using b(3) True c installed_fields[OF b(2)] by (simp add: may_replace_def)
  qed
qed

lemma installed_new:
  assumes ok: "service_ok s" and h: "has_installed y hapType s path n s'" and J: "cjson_ok (y_json y)"
    and m: "registered s m = None" "registered s' m = Some b'"
  shows "m = n \<and> dotted_name m \<and> bi_codePath b' = Some (sv_codeDir s @ PATH_SEPARATOR @ m) \<and>
     bi_dataPath b' = Some (sv_dataDir s @ PATH_SEPARATOR @ m) \<and> bi_gid b' = bi_uid b' \<and>
     (bi_isSystemApp b' \<longleftrightarrow> hapType = SYSTEM_APP_FLAG) \<and>
     GenerateUid (Some m) hapType (sv_uids s) = (bi_uid b', sv_uids s')"
proof -
  from h obtain b b1 b'' where b: "approved y s path n b" "checked (registered s n) b b1" "installed hapType s n b1 b''"
    "registered s' = (registered s)(n \<mapsto> b'')" "uid_given (registered s n \<noteq> None) n hapType s (bi_uid b'') (sv_uids s')"
    by (auto simp: has_installed_def)
  from m b(4) have mn: "m = n" "b'' = b'" by (auto split: if_splits)
  from b(1) obtain p c a where pc: "ParseHapProfile y (sv_trace s) (\<lambda>n. query_info n s) (sv_codeDir s) (sv_dataDir s) path = Some (ERR_OK, p)"
    "hap_bundleInfo p = Some c" "bi_bundleName c = Some n" "b = c\<lparr>bi_appId := a\<rparr>" by (auto simp: approved_def)
  from ParseHapProfile_OK[OF pc(1) J] pc(2,3) obtain old i d where
    q: "dotted_name n" "query_info (Some n) s = Some old" "install_dirs old (sv_codeDir s) (sv_dataDir s) = Some (i, d)"
      "bi_codePath c = Some (i @ PATH_SEPARATOR @ n)" "bi_dataPath c = Some (d @ PATH_SEPARATOR @ n)" by auto
  have "registered s n = None" using m mn by simp
  with q query_info_look[OF ok, of n] have "i = sv_codeDir s" "d = sv_dataDir s" by (simp_all add: install_dirs_def)
  with q b pc mn m installed_fields[OF b(3)] show ?thesis
    by (simp add: checked_def uid_given_def installed_def)
qed

text \<open>C1 An installation that succeeds registers one bundle and changes no other: the one the signed package
  stands for (\<open>approved\<close>), which may replace a registered bundle of its name only if that one is not newer and
  has the same \<open>appId\<close>; its uid is new or, on an update, the former one.\<close>

theorem Install_success:
  assumes "service_ok s" and "Install y (Some path) installParam s = Some (ERR_OK, s')"
  shows "\<exists>realPath n. y_realpath y (sv_trace s) path = Some realPath \<and> service_ok s' \<and>
     has_installed y (GetHapType (Some realPath)) (prepared installParam realPath s) realPath n s'"
  using Install_result[OF assms] by simp

theorem Install_success_witness:
  "\<exists>n. has_installed shop THIRD_APP_FLAG (prepared internal ''/x.hap'' new_service) ''/x.hap'' n
     (state_of (Install shop (Some ''/x.hap'') internal new_service))"
proof -
  have "y_realpath shop (sv_trace new_service) ''/x.hap'' = Some ''/x.hap''"
    by (simp add: shop_def js_system_def)
  moreover have "GetHapType (Some ''/x.hap'') = THIRD_APP_FLAG" by (simp add: GetHapType_def StartWith_def)
  ultimately show ?thesis using Install_success[OF new_service_ok(1) shop_result] by auto
qed


text \<open>C5 A bundle that is new has a dotted name, lies in the directories named after it, and got its uid from the pool
  of its kind; it is a system bundle exactly if the package lies in the system directory.\<close>

theorem Install_new_bundle:
  assumes "service_ok s" and "cjson_ok (y_json y)" and "Install y (Some path) installParam s = Some (ERR_OK, s')"
    and "registered s m = None" and "registered s' m = Some b"
  shows "\<exists>realPath. y_realpath y (sv_trace s) path = Some realPath \<and> dotted_name m \<and>
     bi_codePath b = Some (sv_codeDir (prepared installParam realPath s) @ PATH_SEPARATOR @ m) \<and>
     bi_dataPath b = Some (sv_dataDir (prepared installParam realPath s) @ PATH_SEPARATOR @ m) \<and>
     (bi_isSystemApp b \<longleftrightarrow> prefix SYSTEM_BUNDLE_PATH realPath) \<and>
     GenerateUid (Some m) (GetHapType (Some realPath)) (sv_uids s) = (bi_uid b, sv_uids s')"
proof -
  from Install_result[OF assms(1,3)] obtain realPath n where
    h: "has_installed y (GetHapType (Some realPath)) (prepared installParam realPath s) realPath n s'"
    and rp: "y_realpath y (sv_trace s) path = Some realPath" by auto
  have ok: "service_ok (prepared installParam realPath s)" "registered (prepared installParam realPath s) m = None"
    using assms(1,4) prepared_same by (simp_all add: service_ok_def registered_def)
  have "GetHapType (Some realPath) = SYSTEM_APP_FLAG \<longleftrightarrow> prefix SYSTEM_BUNDLE_PATH realPath"
    by (simp add: GetHapType_def StartWith_iff)
  with installed_new[OF ok(1) h assms(2) ok(2) assms(5)] rp prepared_same show ?thesis by auto
qed


lemma shop_sequence:
  "let s1 = state_of (Install shop (Some ''/x.hap'') internal new_service) in
     registered s1 ''com.a.b'' \<noteq> None \<and> map_option fst (Install shop (Some ''/x.hap'') internal s1) = Some ERR_OK"
  by code_simp

text \<open>The state after the package was installed.\<close>

definition stocked :: service where
  "stocked = state_of (Install shop (Some ''/x.hap'') internal new_service)"

lemma stocked_ok: "service_ok stocked" "registered stocked ''com.a.b'' \<noteq> None"
  using Install_result[OF new_service_ok(1) shop_result] shop_sequence
  by (simp_all add: stocked_def Let_def)

lemma stocked_update:
  "Install shop (Some ''/x.hap'') internal stocked = Some (ERR_OK, state_of (Install shop (Some ''/x.hap'') internal stocked))"
  using shop_sequence by (auto simp: stocked_def Let_def state_of_def[of "Install shop _ _ _"] split: option.splits)


theorem Install_new_bundle_witness:
  "\<exists>b. registered stocked ''com.a.b'' = Some b \<and> bi_codePath b = Some ''/storage/app/run/com.a.b'' \<and> \<not> bi_isSystemApp b"
proof -
  from stocked_ok(2) obtain b where b: "registered stocked ''com.a.b'' = Some b" by auto
  have J: "cjson_ok (y_json shop)" using js_api_ok by (simp add: shop_def js_system_def)
  have "y_realpath shop (sv_trace new_service) ''/x.hap'' = Some ''/x.hap''"
    by (simp add: shop_def js_system_def)
  moreover have "sv_codeDir (prepared internal ''/x.hap'' new_service) = INSTALL_PATH"
    by (simp add: prepared_def ModifyInstallDirByHapType_def internal_def new_service_def)
  ultimately show ?thesis
    using Install_new_bundle[OF new_service_ok(1) J shop_result, of "''com.a.b''" b] b new_service_ok(2)
    by (auto simp: stocked_def)
qed

lemma shop_no_file:
  "map_option fst (Install shop (Some ''/y.hap'') internal new_service) = Some ERR_INSTALL_FAILED_FILE_NOT_EXISTS"
  by code_simp


text \<open>An error after the record of the installation was filled in makes the installer use freed memory: the bundle
  is freed, and \<open>Install\<close> then passes its name, which the record still shows, to \<open>RecycleUid\<close>. So no such
  error - a downgrade, another signer, a package that cannot be unpacked - is ever reported.\<close>

theorem Install_late_error_undefined:
  assumes "service_ok s" and "processes y path installParam s realPath randStr"
    and "ProcessBundleInstall y realPath randStr (GetHapType (Some realPath)) (prepared installParam realPath s) =
      Some (e, Some p, r, s1)" and "e \<noteq> ERR_OK"
  shows "Install y (Some path) installParam s = None"
  using assms by (rule Install_late_error)

definition sample_rand :: string where
  "sample_rand = replicate 15 (CHR ''A'')"

lemma sample_rand_drawn: "CreateRandStr (\<lambda>_. 0) (Some 16) 16 = Some (Some sample_rand) \<and> sample_rand \<noteq> []"
  by code_simp

lemma shut_processes: "processes (shut bad) ''/x.hap'' internal new_service ''/x.hap'' sample_rand"
  using sample_rand_drawn
  by (simp add: processes_def shut_def shop_def js_system_def internal_def)

lemma shut_extract_fails:
  "case ProcessBundleInstall (shut is_extract) ''/x.hap'' sample_rand THIRD_APP_FLAG new_service of
     Some (e, Some p, r, s) \<Rightarrow> e \<noteq> ERR_OK | _ \<Rightarrow> False"
  by code_simp

lemma prepared_new: "prepared internal ''/x.hap'' new_service = new_service" "GetHapType (Some ''/x.hap'') = THIRD_APP_FLAG"
  by (simp_all add: prepared_def ModifyInstallDirByHapType_def internal_def new_service_def GetHapType_def StartWith_def)

theorem Install_late_error_undefined_witness:
  "Install (shut is_extract) (Some ''/x.hap'') internal new_service = None"
proof -
  obtain e p r s where "ProcessBundleInstall (shut is_extract) ''/x.hap'' sample_rand THIRD_APP_FLAG new_service = Some (e, Some p, r, s)"
    "e \<noteq> ERR_OK"
    using shut_extract_fails by (auto split: option.splits prod.splits)
  then show ?thesis
    using Install_late_error_undefined[OF new_service_ok(1) shut_processes, of is_extract e p r s] prepared_new by simp
qed

text \<open>When the records of an installed bundle cannot be stored or renamed, the bundle is freed but stays registered: the
  next search for its name compares with freed memory.\<close>

theorem Install_not_backed_up_dangles:
  assumes "service_ok s" and "Install y (Some path) installParam s = Some (e, s')" and "e \<noteq> ERR_OK"
    and "processes y path installParam s realPath randStr"
    and "ProcessBundleInstall y realPath randStr (GetHapType (Some realPath)) (prepared installParam realPath s) =
      Some (ERR_OK, ow, r, s1)"
  shows "\<exists>n. has_installed y (GetHapType (Some realPath)) (prepared installParam realPath s) realPath n s1 \<and>
      QueryBundleInfo (Some n) s' = None"
  using assms by (rule Install_not_backed_up)

lemma shut_rename_fails:
  "map_option fst (ProcessBundleInstall (shut is_rename_json) ''/x.hap'' sample_rand THIRD_APP_FLAG new_service) = Some ERR_OK \<and>
   map_option fst (Install (shut is_rename_json) (Some ''/x.hap'') internal new_service) = Some ERR_INSTALL_FAILED_RENAME_FILE_ERROR"
  by code_simp

theorem Install_not_backed_up_dangles_witness:
  "\<exists>n. QueryBundleInfo (Some n) (state_of (Install (shut is_rename_json) (Some ''/x.hap'') internal new_service)) = None"
proof -
  obtain s' where i: "Install (shut is_rename_json) (Some ''/x.hap'') internal new_service = Some (ERR_INSTALL_FAILED_RENAME_FILE_ERROR, s')"
    using shut_rename_fails by auto
  obtain ow r s1 where p: "ProcessBundleInstall (shut is_rename_json) ''/x.hap'' sample_rand THIRD_APP_FLAG new_service = Some (ERR_OK, ow, r, s1)"
    using shut_rename_fails by auto
  from Install_not_backed_up_dangles[OF new_service_ok(1) i _ shut_processes] p prepared_new i show ?thesis
    by (auto simp: state_of_def)
qed


lemma stocked_removable: "removable stocked ''com.a.b'' \<and> y_ask shop (sv_trace stocked) GetAmsInterface"
proof -
  from stocked_ok(2) obtain b where b: "registered stocked ''com.a.b'' = Some b" by auto
  have J: "cjson_ok (y_json shop)" using js_api_ok by (simp add: shop_def js_system_def)
  from Install_result[OF new_service_ok(1) shop_result] prepared_new obtain n where
    h: "has_installed shop THIRD_APP_FLAG new_service ''/x.hap'' n stocked"
    by (auto simp: stocked_def shop_def js_system_def)
  from installed_new[OF new_service_ok(1) h J _ b] new_service_ok(2) have "\<not> bi_isSystemApp b" by simp
  with b show ?thesis by (simp add: removable_def shop_def js_system_def)
qed


end
