(* ===== verification/Folder_Size.thy ===== *)
theory Folder_Size
  imports Bundle_Util Utils_List "HOL-Library.Multiset"
begin

text \<open>
  \<open>GetFileFolderSize\<close> and \<open>GetCurrentFolderSize\<close> of \<^verbatim>\<open>services/bundlemgr_lite/src/bundle_util.cpp\<close>: the bytes of a
  directory and of the directories under it, summed in \<open>uint32_t\<close>, with the directories still to visit in a list.

  \<open>opendir\<close> and \<open>readdir\<close> are the parameter \<open>dirs\<close>: the names a directory shows, or \<open>None\<close>. The loop over the
  list is a partial function; that it ends whatever the file system shows is proved.
\<close>

section \<open>The operations\<close>

text \<open>
  The loop over the names of \<open>dirPath\<close>; the second result are the directories pushed at the end of the list. A
  path of \<open>PATH_LENGTH\<close> characters does not fit the buffer, and \<open>sprintf_s\<close> fails.
\<close>

fun entries_loop ::
    "allocator \<Rightarrow> posix \<Rightarrow> string \<Rightarrow> string list \<Rightarrow> u32 \<Rightarrow> cstr list \<Rightarrow> u32 \<times> cstr list" where
  "entries_loop m px dirPath [] fileSize pushed = (fileSize, pushed)"
| "entries_loop m px dirPath (n # ns) fileSize pushed =
     (if n = ''.'' \<or> n = ''..'' then entries_loop m px dirPath ns fileSize pushed
      else let filePath = dirPath @ ''/'' @ n in
      if length filePath \<ge> PATH_LENGTH then entries_loop m px dirPath ns fileSize pushed
      else if \<not> IsDir px (Some filePath) then
        (case px_stat px filePath of
           None \<Rightarrow> (0, pushed)
         | Some (_, bytes) \<Rightarrow>
             if bytes \<le> 0 then (0, pushed)
             else entries_loop m px dirPath ns (fileSize + word_of_int bytes) pushed)
      else entries_loop m px dirPath ns fileSize (pushed @ [Strdup m (Some filePath)]))"

definition GetCurrentFolderSize ::
    "allocator \<Rightarrow> posix \<Rightarrow> (string \<Rightarrow> string list option) \<Rightarrow> string \<Rightarrow> u32 \<times> cstr list" where
  "GetCurrentFolderSize m px dirs dirPath =
     (case dirs dirPath of None \<Rightarrow> (0, []) | Some ns \<Rightarrow> entries_loop m px dirPath ns 0 [])"

partial_function (option) folder_loop ::
    "allocator \<Rightarrow> posix \<Rightarrow> (string \<Rightarrow> string list option) \<Rightarrow> cstr list \<Rightarrow> u32 \<Rightarrow> u32 option" where
  "folder_loop m px dirs queue fileFolderSize =
     (case queue of
        [] \<Rightarrow> Some fileFolderSize
      | None # _ \<Rightarrow> Some fileFolderSize
      | Some curPath # rest \<Rightarrow>
          (let (bytes, pushed) = GetCurrentFolderSize m px dirs curPath in
           folder_loop m px dirs (rest @ pushed) (fileFolderSize + bytes)))"

declare folder_loop.simps [code]

definition GetFileFolderSize ::
    "allocator \<Rightarrow> posix \<Rightarrow> (string \<Rightarrow> string list option) \<Rightarrow> cstr \<Rightarrow> u32 option" where
  "GetFileFolderSize m px dirs filePath =
     (if \<not> CheckRealPath filePath then Some 0
      else if \<not> m (Objects ''List'' 1) then Some 0
      else folder_loop m px dirs [Strdup m filePath] 0)"

section \<open>The loop ends\<close>

text \<open>
  A directory that is pushed has a longer path than the one it was found in, and fits the buffer. So each step
  replaces a number by smaller ones, in the order on multisets.
\<close>

definition room :: "cstr \<Rightarrow> nat" where
  "room q = (case q of None \<Rightarrow> 0 | Some p \<Rightarrow> PATH_LENGTH - length p)"

definition rooms :: "cstr list \<Rightarrow> nat multiset" where
  "rooms queue = mset (map room queue)"

lemma Strdup_either: "Strdup m (Some s) = None \<or> Strdup m (Some s) = Some s"
  by (auto simp: Strdup_def)

lemma entries_pushed:
  "\<exists>qs. snd (entries_loop m px d ns b pushed) = pushed @ qs \<and> (\<forall>q \<in> set qs. room q < room (Some d))"
proof (induction m px d ns b pushed rule: entries_loop.induct)
  case (1 m px d b pushed)
  then show ?case by simp
next
  case (2 m px d n ns b pushed)
  let ?f = "d @ ''/'' @ n"
  have f: "room (Strdup m (Some ?f)) < room (Some d)" if "length ?f < PATH_LENGTH"
    using Strdup_either[of m ?f] that by (auto simp: room_def)
  consider (skip) "n = ''.'' \<or> n = ''..'' \<or> length ?f \<ge> PATH_LENGTH"
    | (other) "n \<noteq> ''.''" "n \<noteq> ''..''" "length ?f < PATH_LENGTH" by fastforce
  then show ?case
  proof cases
    case skip
    with 2(1,2) show ?thesis by (auto simp: Let_def)
  next
    case other
    show ?thesis
    proof (cases "IsDir px (Some ?f)")
      case True
      with 2(4) other obtain qs where
        "snd (entries_loop m px d ns b (pushed @ [Strdup m (Some ?f)])) = (pushed @ [Strdup m (Some ?f)]) @ qs"
        "\<forall>q \<in> set qs. room q < room (Some d)" by (auto simp: Let_def)
      with True other f show ?thesis by (intro exI[of _ "Strdup m (Some ?f) # qs"]) (simp add: Let_def)
    next
      case False
      with 2(3) other show ?thesis by (auto simp: Let_def split: option.splits)
    qed
  qed
qed

lemma pushed_rooms: "\<forall>q \<in> set (snd (GetCurrentFolderSize m px dirs p)). room q < room (Some p)"
proof (cases "dirs p")
  case (Some ns)
  then show ?thesis using entries_pushed[of m px p ns 0 "[]"] by (auto simp: GetCurrentFolderSize_def)
qed (simp add: GetCurrentFolderSize_def)

lemma rooms_step:
  "(rooms (rest @ snd (GetCurrentFolderSize m px dirs p)), rooms (Some p # rest)) \<in> mult less_than"
proof -
  let ?new = "rooms (snd (GetCurrentFolderSize m px dirs p))"
  have "\<forall>k \<in> set_mset ?new. k < room (Some p)"
    using pushed_rooms by (auto simp: rooms_def)
  then have "(rooms rest + ?new, rooms rest + {#room (Some p)#}) \<in> mult less_than"
    by (intro one_step_implies_mult) auto
  then show ?thesis by (simp add: rooms_def)
qed

lemma folder_loop_ends: "\<exists>r. folder_loop m px dirs queue b = Some r"
proof (induction "rooms queue" arbitrary: queue b rule: wf_induct_rule[OF wf_mult[OF wf_less_than]])
  case (1 queue b)
  show ?case
  proof (cases queue)
    case Nil
    then show ?thesis by (subst folder_loop.simps) simp
  next
    case (Cons q rest)
    show ?thesis
    proof (cases q)
      case None
      with Cons show ?thesis by (subst folder_loop.simps) simp
    next
      case (Some p)
      obtain k qs where k: "GetCurrentFolderSize m px dirs p = (k, qs)" by fastforce
      have "(rooms (rest @ qs), rooms queue) \<in> mult less_than"
        using rooms_step[of rest m px dirs p] Cons Some k by simp
      from 1[OF this, of "b + k"] Cons Some k show ?thesis
        by (subst folder_loop.simps) simp
    qed
  qed
qed

section \<open>What it computes\<close>

text \<open>A directory tree; the file system shows it at a path, with \<open>.\<close> and \<open>..\<close> among the names.\<close>

datatype tree = File int | Folder "(string \<times> tree) list"

fun total :: "tree \<Rightarrow> int" where
  "total (File b) = b"
| "total (Folder es) = sum_list (map (\<lambda>(n, t). total t) es)"

definition real_name :: "string \<Rightarrow> bool" where
  "real_name n \<longleftrightarrow> n \<noteq> ''.'' \<and> n \<noteq> ''..''"

text \<open>Every file has bytes and every path fits the buffer.\<close>

fun shows_tree :: "posix \<Rightarrow> (string \<Rightarrow> string list option) \<Rightarrow> string \<Rightarrow> tree \<Rightarrow> bool" where
  "shows_tree px dirs p (File b) \<longleftrightarrow> length p < PATH_LENGTH \<and> px_stat px p = Some (False, b) \<and> 0 < b"
| "shows_tree px dirs p (Folder es) \<longleftrightarrow> length p < PATH_LENGTH \<and> IsDir px (Some p) \<and>
     (case dirs p of None \<Rightarrow> False | Some ns \<Rightarrow> filter real_name ns = map fst es) \<and>
     list_all (\<lambda>(n, t). shows_tree px dirs (p @ ''/'' @ n) t) es"

fun is_folder :: "tree \<Rightarrow> bool" where
  "is_folder (Folder _) = True"
| "is_folder (File _) = False"

definition sub_folders :: "string \<Rightarrow> (string \<times> tree) list \<Rightarrow> (string \<times> tree) list" where
  "sub_folders p es = map (\<lambda>(n, t). (p @ ''/'' @ n, t)) (filter (is_folder \<circ> snd) es)"

definition own_bytes :: "(string \<times> tree) list \<Rightarrow> int" where
  "own_bytes es = sum_list (map (\<lambda>(n, t). if is_folder t then 0 else total t) es)"

lemma own_and_sub: "own_bytes es + sum_list (map (\<lambda>(n, t). total t) (sub_folders p es)) = total (Folder es)"
  by (induction es) (auto simp: own_bytes_def sub_folders_def)

lemma entries_skip:
  "entries_loop m px p ns b qs = entries_loop m px p (filter real_name ns) b qs"
  by (induction ns arbitrary: b qs) (auto simp: real_name_def Let_def split: option.split)

lemma entries_tree:
  assumes "list_all (\<lambda>(n, t). real_name n \<and> shows_tree px dirs (p @ ''/'' @ n) t) es"
  shows "entries_loop plentiful px p (map fst es) b qs =
     (b + word_of_int (own_bytes es), qs @ map (Some \<circ> fst) (sub_folders p es))"
  using assms
proof (induction es arbitrary: b qs)
  case Nil
  then show ?case by (simp add: own_bytes_def sub_folders_def)
next
  case (Cons e es)
  obtain n t where e: "e = (n, t)" by fastforce
  let ?f = "p @ ''/'' @ n"
  from Cons.prems e have n: "n \<noteq> ''.''" "n \<noteq> ''..''" and s: "shows_tree px dirs ?f t"
    and l: "list_all (\<lambda>(n, t). real_name n \<and> shows_tree px dirs (p @ ''/'' @ n) t) es" by (auto simp: real_name_def)
  from s have len: "length ?f < PATH_LENGTH" by (cases t) auto
  then have dup: "Strdup plentiful (Some ?f) = Some ?f" by (simp add: Strdup_def plentiful_def)
  show ?case
  proof (cases t)
    case (File k)
    with s have "\<not> IsDir px (Some ?f)" "px_stat px ?f = Some (False, k)" "0 < k" by (auto simp: IsDir_def)
    with n len Cons.IH[OF l] e File show ?thesis
      by (simp add: Let_def own_bytes_def sub_folders_def)
  next
    case (Folder fs)
    with s have "IsDir px (Some ?f)" by simp
    with n len dup Cons.IH[OF l] e Folder show ?thesis
      by (simp add: Let_def own_bytes_def sub_folders_def)
  qed
qed

lemma folder_entries:
  assumes "shows_tree px dirs p (Folder es)"
  shows "GetCurrentFolderSize plentiful px dirs p =
     (word_of_int (own_bytes es), map (Some \<circ> fst) (sub_folders p es))"
    and "\<forall>(q, t) \<in> set (sub_folders p es). is_folder t \<and> shows_tree px dirs q t"
proof -
  from assms obtain ns where ns: "dirs p = Some ns" "filter real_name ns = map fst es"
    by (auto split: option.splits)
  have "real_name n" if "(n, t) \<in> set es" for n t
  proof -
    from that have "n \<in> set (map fst es)" by force
    then show ?thesis unfolding ns(2)[symmetric] by simp
  qed
  with assms have "list_all (\<lambda>(n, t). real_name n \<and> shows_tree px dirs (p @ ''/'' @ n) t) es"
    by (auto simp: list_all_iff)
  from entries_tree[OF this, of 0 "[]"] ns show "GetCurrentFolderSize plentiful px dirs p =
     (word_of_int (own_bytes es), map (Some \<circ> fst) (sub_folders p es))"
    by (simp add: GetCurrentFolderSize_def entries_skip[of _ _ _ ns])
  show "\<forall>(q, t) \<in> set (sub_folders p es). is_folder t \<and> shows_tree px dirs q t"
    using assms by (auto simp: sub_folders_def list_all_iff)
qed

lemma folder_loop_total:
  assumes "\<forall>(q, t) \<in> set qs. is_folder t \<and> shows_tree px dirs q t"
  shows "folder_loop plentiful px dirs (map (Some \<circ> fst) qs) b =
     Some (b + word_of_int (sum_list (map (\<lambda>(q, t). total t) qs)))"
  using assms
proof (induction "rooms (map (Some \<circ> fst) qs)" arbitrary: qs b rule: wf_induct_rule[OF wf_mult[OF wf_less_than]])
  case (1 qs b)
  show ?case
  proof (cases qs)
    case Nil
    then show ?thesis by (subst folder_loop.simps) simp
  next
    case (Cons q rest)
    obtain p t where q: "q = (p, t)" by fastforce
    with 1(2) Cons obtain es where t: "t = Folder es" "shows_tree px dirs p (Folder es)" by (cases t) auto
    let ?next = "rest @ sub_folders p es"
    have st: "GetCurrentFolderSize plentiful px dirs p = (word_of_int (own_bytes es), map (Some \<circ> fst) (sub_folders p es))"
      using folder_entries(1)[OF t(2)] .
    have "(rooms (map (Some \<circ> fst) ?next), rooms (map (Some \<circ> fst) qs)) \<in> mult less_than"
      using rooms_step[of "map (Some \<circ> fst) rest" plentiful px dirs p] st Cons q by simp
    moreover have "\<forall>(q, t) \<in> set ?next. is_folder t \<and> shows_tree px dirs q t"
      using 1(2) Cons folder_entries(2)[OF t(2)] by auto
    ultimately have "folder_loop plentiful px dirs (map (Some \<circ> fst) ?next) (b + word_of_int (own_bytes es)) =
        Some (b + word_of_int (own_bytes es) + word_of_int (sum_list (map (\<lambda>(q, t). total t) ?next)))"
      by (rule 1(1))
    moreover have "total t = own_bytes es + sum_list (map (\<lambda>(n, t). total t) (sub_folders p es))"
      using own_and_sub[of es p] t(1) by simp
    ultimately show ?thesis using Cons q st
      by (subst folder_loop.simps) (simp add: algebra_simps)
  qed
qed

section \<open>Properties\<close>

text \<open>\<open>GetFileFolderSize\<close> returns whatever the file system shows, links that lead back included, since a
  path that no longer fits 256 characters is not followed.\<close>

theorem GetFileFolderSize_ends: "\<exists>r. GetFileFolderSize m px dirs filePath = Some r"
  using folder_loop_ends by (auto simp: GetFileFolderSize_def)

text \<open>The size of a directory is the number of bytes of the files below it, modulo \<open>2 ^ 32\<close>, when no file is empty
  and every path fits.\<close>

theorem GetFileFolderSize_total:
  assumes "CheckRealPath (Some p)" and "shows_tree px dirs p (Folder es)"
  shows "GetFileFolderSize plentiful px dirs (Some p) = Some (word_of_int (total (Folder es)))"
proof -
  have "Strdup plentiful (Some p) = Some p" using assms(2) by (simp add: Strdup_def plentiful_def)
  moreover have "folder_loop plentiful px dirs (map (Some \<circ> fst) [(p, Folder es)]) 0 = Some (word_of_int (total (Folder es)))"
    using folder_loop_total[of "[(p, Folder es)]" px dirs 0] assms(2) by simp
  ultimately show ?thesis using assms(1) by (simp add: GetFileFolderSize_def plentiful_def)
qed

definition sample_disk :: "posix \<times> (string \<Rightarrow> string list option)" where
  "sample_disk =
     (\<lparr>px_stat = (\<lambda>p. if p = ''/d'' \<or> p = ''/d/e'' then Some (True, 0)
                       else if p = ''/d/a'' then Some (False, 5)
                       else if p = ''/d/e/b'' then Some (False, 2 ^ 32 + 1) else None),
       px_open = (\<lambda>_. True), px_read = (\<lambda>_. [])\<rparr>,
      (\<lambda>p. if p = ''/d'' then Some [''.'', ''..'', ''e'', ''a''] else if p = ''/d/e'' then Some [''..'', ''b''] else None))"

theorem GetFileFolderSize_total_witness:
  "GetFileFolderSize plentiful (fst sample_disk) (snd sample_disk) (Some ''/d'') = Some 6"
proof -
  have t: "shows_tree (fst sample_disk) (snd sample_disk) ''/d'' (Folder [(''e'', Folder [(''b'', File (2 ^ 32 + 1))]), (''a'', File 5)])"
    by (simp add: sample_disk_def IsDir_def real_name_def)
  have "CheckRealPath (Some ''/d'')" by (simp add: CheckRealPath_def)
  from GetFileFolderSize_total[OF this t] show ?thesis by simp
qed

text \<open>One empty file hides the files next to it: it ends the loop over its directory, and the directory itself
  counts 0.\<close>

theorem GetCurrentFolderSize_empty_file:
  assumes "dirs d = Some (ns @ [n])" and "real_name n" and "length (d @ ''/'' @ n) < PATH_LENGTH"
    and "px_stat px (d @ ''/'' @ n) = Some (False, 0)"
  shows "fst (GetCurrentFolderSize m px dirs d) = 0"
proof -
  have "fst (entries_loop m px d (ns @ [n]) b qs) = 0" for b qs
    using assms(2-4) by (induction ns arbitrary: b qs) (auto simp: real_name_def IsDir_def Let_def split: option.split)
  then show ?thesis using assms(1) by (simp add: GetCurrentFolderSize_def)
qed

theorem GetCurrentFolderSize_empty_file_witness:
  "fst (GetCurrentFolderSize plentiful
      \<lparr>px_stat = (\<lambda>p. Some (False, if p = ''/d/a'' then 7 else 0)), px_open = (\<lambda>_. True), px_read = (\<lambda>_. [])\<rparr>
      (\<lambda>_. Some [''a'', ''b'']) ''/d'') = 0"
  by (rule GetCurrentFolderSize_empty_file[of _ _ "[''a'']" "''b''"]) (simp_all add: real_name_def)

end
