(* ===== verification/Manager_Service.thy ===== *)
theory Manager_Service
  imports Installer_Correct Folder_Size
begin

text \<open>
  \<^verbatim>\<open>services/bundlemgr_lite/src/bundle_manager_service.cpp\<close>: the service around the registry, the uid maps and
  the installer. It restores the installed bundles when the system starts, installs and removes bundles on request,
  answers the client that asked and tells the registered observers.

  A directory shows the names \<open>y_readdir\<close> gives when it is opened. \<open>None\<close> is an undefined access. The constructor
  makes the installer and the registry, which are never null afterwards.
\<close>

abbreviation (input) "INSTALL_CALLBACK \<equiv> 0 :: nat"
abbreviation (input) "UNINSTALL_CALLBACK \<equiv> 1 :: nat"

record manager =
  mg_service :: service
  mg_svcIdentity :: "SvcIdentity list"
  mg_isDebugMode :: bool

section \<open>Modes\<close>

definition SetExternalInstallMode :: "bool \<Rightarrow> manager \<Rightarrow> errcode \<times> manager" where
  "SetExternalInstallMode enable g = (ERR_OK, g\<lparr>mg_service := (mg_service g)\<lparr>sv_external := enable\<rparr>\<rparr>)"

definition IsExternalInstallMode :: "manager \<Rightarrow> bool" where
  "IsExternalInstallMode g = sv_external (mg_service g)"

definition SetDebugMode :: "'j system \<Rightarrow> bool \<Rightarrow> manager \<Rightarrow> errcode \<times> manager" where
  "SetDebugMode y enable g =
     (let (ok, s) = do_call y (SetVerifyDebugMode enable) (mg_service g); g = g\<lparr>mg_service := s\<rparr> in
      if \<not> ok then (ERR_SET_DEBUG_MODE_ERROR, g) else (ERR_OK, g\<lparr>mg_isDebugMode := enable\<rparr>))"

definition IsDebugMode :: "manager \<Rightarrow> bool" where
  "IsDebugMode g = mg_isDebugMode g"

section \<open>Observers\<close>

definition CompareServiceId :: "SvcIdentity \<Rightarrow> SvcIdentity \<Rightarrow> bool" where
  "CompareServiceId svc1 svc2 = (svc_handle svc1 = svc_handle svc2 \<and> svc_token svc1 = svc_token svc2)"

definition AddCallbackServiceId :: "SvcIdentity \<Rightarrow> manager \<Rightarrow> manager" where
  "AddCallbackServiceId svc g =
     (if list_ex (\<lambda>it. CompareServiceId it svc) (mg_svcIdentity g) then g
      else g\<lparr>mg_svcIdentity := mg_svcIdentity g @ [svc]\<rparr>)"

fun erase_first :: "('a \<Rightarrow> bool) \<Rightarrow> 'a list \<Rightarrow> 'a list" where
  "erase_first P [] = []"
| "erase_first P (x # xs) = (if P x then xs else x # erase_first P xs)"

definition RemoveCallbackServiceId :: "'j system \<Rightarrow> SvcIdentity \<Rightarrow> manager \<Rightarrow> manager" where
  "RemoveCallbackServiceId y svc g =
     g\<lparr>mg_service := snd (do_call y (ReleaseSvc svc) (mg_service g)),
       mg_svcIdentity := erase_first (\<lambda>it. CompareServiceId it svc) (mg_svcIdentity g)\<rparr>"

text \<open>The loop over the observers ends at the first request that fails.\<close>

fun transact_loop :: "'j system \<Rightarrow> SvcIdentity list \<Rightarrow> nat \<Rightarrow> errcode \<Rightarrow> string \<Rightarrow> service \<Rightarrow> service" where
  "transact_loop y [] code resultCode n s = s"
| "transact_loop y (svc # svcs) code resultCode n s =
     (let (ok, s) = do_call y (SendRequest svc code resultCode (Some n)) s in
      if \<not> ok then s else transact_loop y svcs code resultCode n s)"

definition InnerTransact :: "'j system \<Rightarrow> nat \<Rightarrow> errcode \<Rightarrow> cstr \<Rightarrow> manager \<Rightarrow> manager" where
  "InnerTransact y code resultCode bundleName g =
     (case bundleName of
        None \<Rightarrow> g
      | Some n \<Rightarrow> g\<lparr>mg_service := transact_loop y (mg_svcIdentity g) code resultCode n (mg_service g)\<rparr>)"

definition InnerSelfTransact :: "'j system \<Rightarrow> nat \<Rightarrow> errcode \<Rightarrow> SvcIdentity \<Rightarrow> manager \<Rightarrow> manager" where
  "InnerSelfTransact y code resultCode svc g =
     g\<lparr>mg_service := snd (do_call y (ReleaseSvc svc)
         (snd (do_call y (SendRequest svc code resultCode None) (mg_service g))))\<rparr>"

section \<open>Installing\<close>

definition on_service :: "(service \<Rightarrow> service option) \<Rightarrow> manager \<Rightarrow> manager option" where
  "on_service f g = do { s \<leftarrow> f (mg_service g); Some (g\<lparr>mg_service := s\<rparr>) }"

definition InstallThirdBundle :: "'j system \<Rightarrow> cstr \<Rightarrow> SvcIdentity \<Rightarrow> int \<Rightarrow> manager \<Rightarrow> manager option" where
  "InstallThirdBundle y path svc installLocation g =
     (if path = None then Some g
      else let (ret, bundleName, _) = ParseBundleParam y (sv_trace (mg_service g)) path None (-1) in
      if ret \<noteq> ERR_OK then Some (InnerSelfTransact y INSTALL_CALLBACK ret svc g)
      else do {
        (bResult, s) \<leftarrow> Install y path \<lparr>ip_installLocation = installLocation, ip_keepData = False\<rparr> (mg_service g);
        Some (InnerTransact y INSTALL_CALLBACK bResult bundleName
               (InnerSelfTransact y INSTALL_CALLBACK bResult svc (g\<lparr>mg_service := s\<rparr>))) })"

definition InstallSystemBundle :: "'j system \<Rightarrow> string \<Rightarrow> string \<Rightarrow> service \<Rightarrow> service option" where
  "InstallSystemBundle y fileDir fileName s =
     (let systemAppPath = fileDir @ PATH_SEPARATOR @ fileName in
      if \<not> IsFile (y_posix y (sv_trace s)) (Some systemAppPath) \<or> \<not> EndWith (Some systemAppPath) (Some INSTALL_FILE_SUFFIX)
      then Some s
      else do {
        (_, s) \<leftarrow> Install y (Some systemAppPath) \<lparr>ip_installLocation = 1, ip_keepData = False\<rparr> s;
        Some s })"

text \<open>The loop over the names of an open directory.\<close>

fun each_entry :: "(string \<Rightarrow> 's \<Rightarrow> 's option) \<Rightarrow> string list \<Rightarrow> 's \<Rightarrow> 's option" where
  "each_entry f [] s = Some s"
| "each_entry f (n # ns) s =
     (if n = ''.'' \<or> n = ''..'' then each_entry f ns s
      else do { s \<leftarrow> f n s; each_entry f ns s })"

definition InstallAllSystemBundle :: "'j system \<Rightarrow> nat \<Rightarrow> service \<Rightarrow> service option" where
  "InstallAllSystemBundle y scanFlag s =
     (let dir = (if scanFlag = SYSTEM_APP_FLAG then SYSTEM_BUNDLE_PATH else THIRD_SYSTEM_BUNDLE_PATH) in
      case y_readdir y (sv_trace s) dir of
        None \<Rightarrow> Some s
      | Some ns \<Rightarrow> each_entry (InstallSystemBundle y dir) ns s)"

section \<open>Restoring the installed bundles\<close>

definition CheckThirdSystemBundleHasUninstalled :: "'j cjson \<Rightarrow> cstr \<Rightarrow> 'j option \<Rightarrow> bool" where
  "CheckThirdSystemBundleHasUninstalled J bundleName object =
     (case bundleName of
        None \<Rightarrow> False
      | Some n \<Rightarrow>
          if object = None then False
          else let array = j_GetObjectItem J object JSON_MAIN_KEY in
            if \<not> j_IsArray J array then False else lists_bundle J n (j_elems J array))"

definition AddBundleInfo :: "nat option \<Rightarrow> service \<Rightarrow> service option" where
  "AddBundleInfo info s =
     (case info of
        None \<Rightarrow> Some s
      | Some p \<Rightarrow> do {
          b \<leftarrow> info_at p s;
          if bi_bundleName b = None then Some s
          else do { bm \<leftarrow> Add info (sv_bundles s); Some (s\<lparr>sv_bundles := bm\<rparr>) } })"

text \<open>One directory entry in \<open>ReloadBundleInfo\<close>.\<close>

definition reload_entry ::
    "'j system \<Rightarrow> string \<Rightarrow> cstr \<Rightarrow> string \<Rightarrow> bool \<Rightarrow> int \<Rightarrow> string \<Rightarrow> service \<Rightarrow> service option" where
  "reload_entry y codePath appId bundleName isSystemApp uid d_name s =
     (let profileDir = codePath @ PATH_SEPARATOR @ d_name in do {
        parsed \<leftarrow> ParseHapProfile_dir y (sv_trace s) (Some profileDir);
        case parsed of
          None \<Rightarrow>
            (let s = snd (do_call y (RemoveFile profileDir) s) in
             Some (s\<lparr>sv_trace := snd (DeleteUidInfoFromJson y (Some bundleName) (sv_trace s))\<rparr>))
        | Some b \<Rightarrow>
            (let b = b\<lparr>bi_isSystemApp := isSystemApp, bi_appId := Strdup (y_alloc y) appId\<rparr> in
             if bi_appId b = None then Some s
             else let b = b\<lparr>bi_uid := uid, bi_gid := uid\<rparr>;
                      (p, bm) = new_info b (sv_bundles s) in do {
               bm \<leftarrow> Add (Some p) bm;
               Some (s\<lparr>sv_bundles := bm\<rparr>) }) })"

definition ReloadBundleInfo :: "'j system \<Rightarrow> cstr \<Rightarrow> cstr \<Rightarrow> string \<Rightarrow> bool \<Rightarrow> service \<Rightarrow> service option" where
  "ReloadBundleInfo y codePath appId bundleName isSystemApp s =
     (let uid = GetValueFromBundleJson_int y (sv_trace s) (Some bundleName) (Some JSON_SUB_KEY_UID) INVALID_UID in
      if uid = INVALID_UID then Some s
      else do {
        dir \<leftarrow> codePath;
        case y_readdir y (sv_trace s) dir of
          None \<Rightarrow> Some s
        | Some ns \<Rightarrow> each_entry (reload_entry y dir appId bundleName isSystemApp uid) ns s })"

definition ReloadEntireBundleInfo ::
    "'j system \<Rightarrow> cstr \<Rightarrow> cstr \<Rightarrow> int \<Rightarrow> nat \<Rightarrow> service \<Rightarrow> service option" where
  "ReloadEntireBundleInfo y appPath bundleName versionCode scanFlag s =
     (case (appPath, bundleName) of
        (Some ap, Some n) \<Rightarrow> do {
          q \<leftarrow> QueryBundleInfo bundleName s;
          if q \<noteq> None then Some s
          else do {
            (res, codePath, appId, oldVersionCode) \<leftarrow>
              CheckBundleJsonIsValid y (sv_trace s) bundleName None None (-1);
            let isSystemApp = (scanFlag = SYSTEM_APP_FLAG);
                installParam = \<lparr>ip_installLocation = 1, ip_keepData = False\<rparr> in
            if scanFlag \<noteq> THIRD_APP_FLAG then
              if \<not> res then do { (_, s) \<leftarrow> Install y appPath installParam s; Some s }
              else if versionCode > oldVersionCode then do {
                s \<leftarrow> ReloadBundleInfo y codePath appId n isSystemApp s;
                (_, s) \<leftarrow> Install y appPath installParam s;
                Some s }
              else ReloadBundleInfo y codePath appId n isSystemApp s
            else if \<not> res then Some s
            else ReloadBundleInfo y codePath appId n isSystemApp s } }
      | _ \<Rightarrow> Some s)"

text \<open>\<open>*bundleName\<close> and \<open>versionCode\<close> are returned as they are left.\<close>

definition CheckSystemBundleIsValid :: "'j system \<Rightarrow> trace \<Rightarrow> cstr \<Rightarrow> cstr \<Rightarrow> int \<Rightarrow> bool \<times> cstr \<times> int" where
  "CheckSystemBundleIsValid y t appPath bundleName versionCode =
     (if appPath = None then (False, bundleName, versionCode)
      else if \<not> EndWith appPath (Some INSTALL_FILE_SUFFIX) then (False, bundleName, versionCode)
      else let (ret, bundleName, versionCode) = ParseBundleParam y t appPath bundleName versionCode in
      if ret \<noteq> ERR_OK then (False, bundleName, versionCode)
      else (case bundleName of
          Some n \<Rightarrow> (length n \<le> MAX_BUNDLE_NAME_LEN, bundleName, versionCode)
        | None \<Rightarrow> (True, bundleName, versionCode)))"

text \<open>
  One directory entry in \<open>ScanAppDir\<close>. \<open>AdapterFree\<close> sets \<open>bundleName\<close> to null, so each entry starts with a null
  name; \<open>versionCode\<close> is what the entry before left.
\<close>

definition scan_entry ::
    "'j system \<Rightarrow> string \<Rightarrow> 'j option \<Rightarrow> nat \<Rightarrow> string \<Rightarrow> int \<times> service \<Rightarrow> (int \<times> service) option" where
  "scan_entry y appDir uninstallRecord scanFlag d_name = (\<lambda>(versionCode, s).
     let appPath = appDir @ PATH_SEPARATOR @ d_name in
     if scanFlag = THIRD_APP_FLAG then
       if \<not> IsDir (y_posix y (sv_trace s)) (Some appPath) then Some (versionCode, s)
       else do {
         s \<leftarrow> ReloadEntireBundleInfo y (Some appPath) (Some d_name) versionCode scanFlag s;
         Some (versionCode, s) }
     else let (res, bundleName, versionCode) =
                CheckSystemBundleIsValid y (sv_trace s) (Some appPath) None versionCode in
     if \<not> res then Some (versionCode, s)
     else if scanFlag = THIRD_SYSTEM_APP_FLAG \<and>
         CheckThirdSystemBundleHasUninstalled (y_json y) bundleName uninstallRecord then Some (versionCode, s)
     else do {
       s \<leftarrow> ReloadEntireBundleInfo y (Some appPath) bundleName versionCode scanFlag s;
       Some (versionCode, s) })"

definition ScanAppDir :: "'j system \<Rightarrow> string \<Rightarrow> 'j option \<Rightarrow> nat \<Rightarrow> service \<Rightarrow> service option" where
  "ScanAppDir y appDir uninstallRecord scanFlag s =
     (case y_readdir y (sv_trace s) appDir of
        None \<Rightarrow> Some s
      | Some ns \<Rightarrow> map_option snd (each_entry (scan_entry y appDir uninstallRecord scanFlag) ns (-1, s)))"

definition ScanPackages :: "'j system \<Rightarrow> service \<Rightarrow> service option" where
  "ScanPackages y s = do {
     um \<leftarrow> RestoreUidAndGidMap (y_json y) (GetJsonStream y (sv_trace s) (Some uid_json_path)) (sv_uids s);
     let s = s\<lparr>sv_uids := um\<rparr>;
     if \<not> IsDir (y_posix y (sv_trace s)) (Some JSON_PATH) then do {
       s \<leftarrow> InstallAllSystemBundle y SYSTEM_APP_FLAG s;
       InstallAllSystemBundle y THIRD_SYSTEM_APP_FLAG s }
     else do {
       let uninstallRecord = GetJsonStream y (sv_trace s) (Some UNINSTALL_THIRD_SYSTEM_BUNDLE_JSON);
       let s = (if uninstallRecord = None
                then snd (do_call y (RemoveFile UNINSTALL_THIRD_SYSTEM_BUNDLE_JSON) s) else s);
       s \<leftarrow> ScanAppDir y SYSTEM_BUNDLE_PATH None SYSTEM_APP_FLAG s;
       s \<leftarrow> ScanAppDir y THIRD_SYSTEM_BUNDLE_PATH uninstallRecord THIRD_SYSTEM_APP_FLAG s;
       s \<leftarrow> ScanAppDir y INSTALL_PATH None THIRD_APP_FLAG s;
       if IsDir (y_posix y (sv_trace s)) (Some EXTEANAL_INSTALL_PATH)
       then ScanAppDir y EXTEANAL_INSTALL_PATH None THIRD_APP_FLAG s
       else Some s } }"

text \<open>The shared libraries of a system bundle are moved to their common directory.\<close>

definition share_libs :: "'j system \<Rightarrow> BundleInfo \<Rightarrow> service \<Rightarrow> service option" where
  "share_libs y b s =
     (if \<not> bi_isSystemApp b then Some s
      else do {
        codePath \<leftarrow> bi_codePath b; moduleName \<leftarrow> first_module b;
        let path = codePath @ PATH_SEPARATOR @ moduleName @ PATH_SEPARATOR @ SHARED_LIB_NAME;
        if \<not> IsDir (y_posix y (sv_trace s)) (Some path) then Some s
        else Some (snd (do_call y (MoveFile path SHARED_LIB_PATH) s)) })"

fun share_all :: "'j system \<Rightarrow> BundleInfo list \<Rightarrow> service \<Rightarrow> service option" where
  "share_all y [] s = Some s"
| "share_all y (b # bs) s = do { s \<leftarrow> share_libs y b s; share_all y bs s }"

definition ScanSharedLibPath :: "'j system \<Rightarrow> service \<Rightarrow> service option" where
  "ScanSharedLibPath y s = do {
     (e, infos) \<leftarrow> GetBundleInfos (y_alloc y) 1 False (sv_bundles s);
     if e \<noteq> ERR_OK then Some s
     else case infos of None \<Rightarrow> Some s | Some bs \<Rightarrow> share_all y bs s }"

section \<open>Queries\<close>

definition MS_GetBundleInfo :: "cstr \<Rightarrow> int \<Rightarrow> BundleInfo \<Rightarrow> service \<Rightarrow> (errcode \<times> BundleInfo) option" where
  "MS_GetBundleInfo bundleName flags out s =
     (if bundleName = None then Some (ERR_QUERY_PARAMETER_ERROR, out)
      else GetBundleInfo bundleName flags out (sv_bundles s))"

definition MS_GetBundleInfos :: "'j system \<Rightarrow> int \<Rightarrow> bool \<Rightarrow> service \<Rightarrow> (errcode \<times> BundleInfo list option) option" where
  "MS_GetBundleInfos y flags null_out s = GetBundleInfos (y_alloc y) flags null_out (sv_bundles s)"

text \<open>The answer of the service manager is the argument; the error code is converted to \<open>bool\<close>.\<close>

definition HasSystemCapability :: "(string \<Rightarrow> bool) \<Rightarrow> cstr \<Rightarrow> bool" where
  "HasSystemCapability samgr sysCapName =
     (case sysCapName of None \<Rightarrow> ERR_QUERY_PARAMETER_ERROR \<noteq> 0 | Some n \<Rightarrow> samgr n)"

definition GetSystemAvailableCapabilities :: "(int \<times> string list) \<Rightarrow> bool \<Rightarrow> errcode \<times> string list" where
  "GetSystemAvailableCapabilities samgr null_out =
     (if null_out then (ERR_QUERY_PARAMETER_ERROR, [])
      else if fst samgr \<noteq> 0 then (ERR_QUERY_PARAMETER_ERROR, snd samgr)
      else (ERR_OK, snd samgr))"

definition GetBundleSize :: "'j system \<Rightarrow> cstr \<Rightarrow> service \<Rightarrow> u32 option" where
  "GetBundleSize y bundleName s =
     (if bundleName = None then Some 0
      else do {
        installedInfo \<leftarrow> query_info bundleName s;
        case installedInfo of
          None \<Rightarrow> Some 0
        | Some b \<Rightarrow> do {
            let t = sv_trace s; folder = GetFileFolderSize (y_alloc y) (y_posix y t) (y_readdir y t) in do {
            codeBundleSize \<leftarrow> folder (bi_codePath b);
            if codeBundleSize = 0 then Some 0
            else do { dataBundleSize \<leftarrow> folder (bi_dataPath b); Some (codeBundleSize + dataBundleSize) } } } })"

definition GetCodeDirPath :: "service \<Rightarrow> string" where
  "GetCodeDirPath s = sv_codeDir s"

definition GetDataDirPath :: "service \<Rightarrow> string" where
  "GetDataDirPath s = sv_dataDir s"

section \<open>Requests\<close>

text \<open>What a request carries; \<open>svc\<close> is null when the client gave none.\<close>

record SvcIdentityInfo =
  ri_path :: cstr
  ri_bundleName :: cstr
  ri_svc :: "SvcIdentity option"
  ri_installLocation :: int
  ri_keepData :: bool

datatype request =
    BUNDLE_SERVICE_INITED
  | BUNDLE_INSTALLED "SvcIdentityInfo option"
  | BUNDLE_UPDATED "SvcIdentityInfo option"
  | BUNDLE_UNINSTALLED "SvcIdentityInfo option"
  | BUNDLE_CHANGE_CALLBACK "SvcIdentity option" bool
  | OTHER_MESSAGE

definition service_inited :: "'j system \<Rightarrow> service \<Rightarrow> service option" where
  "service_inited y s =
     (let (ok, s) = do_call y Initialize s in
      if \<not> ok then Some s
      else do {
        s \<leftarrow> ScanPackages y s;
        s \<leftarrow> ScanSharedLibPath y s;
        let (ok, s) = do_call y GetAmsInterface s in
          Some (if \<not> ok then s else snd (do_call y StartKeepAliveApps s)) })"

definition install_request :: "'j system \<Rightarrow> SvcIdentityInfo option \<Rightarrow> manager \<Rightarrow> manager option" where
  "install_request y info g =
     (case info of
        None \<Rightarrow> Some g
      | Some i \<Rightarrow> (case (ri_svc i, ri_path i) of
            (Some svc, Some path) \<Rightarrow> InstallThirdBundle y (Some path) svc (ri_installLocation i) g
          | _ \<Rightarrow> Some g))"

definition uninstall_request :: "'j system \<Rightarrow> SvcIdentityInfo option \<Rightarrow> manager \<Rightarrow> manager option" where
  "uninstall_request y info g =
     (case info of
        None \<Rightarrow> Some g
      | Some i \<Rightarrow> (case (ri_bundleName i, ri_svc i) of
            (Some n, Some svc) \<Rightarrow> do {
              (bResult, s) \<leftarrow> Uninstall y (Some n) \<lparr>ip_installLocation = 1, ip_keepData = ri_keepData i\<rparr> (mg_service g);
              let g = InnerTransact y UNINSTALL_CALLBACK bResult (Some n)
                        (InnerSelfTransact y UNINSTALL_CALLBACK bResult svc (g\<lparr>mg_service := s\<rparr>));
              Some (if bResult = ERR_OK
                    then g\<lparr>mg_service := (mg_service g)\<lparr>sv_uids := RecycleUid (Some n) (sv_uids (mg_service g))\<rparr>\<rparr>
                    else g) }
          | _ \<Rightarrow> Some g))"

definition ServiceMsgProcess :: "'j system \<Rightarrow> request \<Rightarrow> manager \<Rightarrow> manager option" where
  "ServiceMsgProcess y request g =
     (case request of
        BUNDLE_SERVICE_INITED \<Rightarrow> on_service (service_inited y) g
      | BUNDLE_UPDATED info \<Rightarrow> install_request y info g
      | BUNDLE_INSTALLED info \<Rightarrow> install_request y info g
      | BUNDLE_UNINSTALLED info \<Rightarrow> uninstall_request y info g
      | BUNDLE_CHANGE_CALLBACK svc msgValue \<Rightarrow>
          (case svc of
             None \<Rightarrow> Some g
           | Some i \<Rightarrow> Some (if msgValue then AddCallbackServiceId i g else RemoveCallbackServiceId y i g))
      | OTHER_MESSAGE \<Rightarrow> Some g)"

end
