(* ===== verification/Manager_Correct.thy ===== *)
theory Manager_Correct
  imports Manager_Service
begin

text \<open>
  The manager service over its whole life. Every operation but an uninstallation only adds to the registry or
  replaces a bundle by a newer one of the same identity (\<open>grows\<close>); an uninstallation takes away one bundle
  that is not a system bundle. The steps of the service are the requests it processes (\<open>serves\<close>), and what
  holds of the state it starts in and is kept by every step holds in each state it can reach.
\<close>

section \<open>Operations that only add\<close>

definition same_identity :: "BundleInfo \<Rightarrow> BundleInfo \<Rightarrow> bool" where
  "same_identity b b' \<longleftrightarrow> bi_uid b' = bi_uid b \<and> bi_codePath b' = bi_codePath b \<and> bi_dataPath b' = bi_dataPath b \<and>
     bi_appId b' = bi_appId b \<and> bi_isSystemApp b' = bi_isSystemApp b"

definition grows :: "service \<Rightarrow> service \<Rightarrow> bool" where
  "grows s s' \<longleftrightarrow> service_ok s' \<and>
     (\<forall>n b. registered s n = Some b \<longrightarrow> (\<exists>b'. registered s' n = Some b' \<and> same_identity b b'))"

named_theorems grow_rules \<open>operations that only add to the registry\<close>

lemma grows_refl: "service_ok s \<Longrightarrow> grows s s"
  by (simp add: grows_def same_identity_def)

lemma grows_trans: "grows s s1 \<Longrightarrow> grows s1 s2 \<Longrightarrow> grows s s2"
  unfolding grows_def same_identity_def by metis

lemma grows_ok: "grows s s' \<Longrightarrow> service_ok s'"
  by (simp add: grows_def)

lemma grows_same: "service_ok s \<Longrightarrow> sv_bundles s' = sv_bundles s \<Longrightarrow> grows s s'"
  by (simp add: grows_def same_identity_def service_ok_def registered_def)

lemma grows_same_right: "grows s s1 \<Longrightarrow> sv_bundles s' = sv_bundles s1 \<Longrightarrow> grows s s'"
  by (simp add: grows_def service_ok_def registered_def)

lemma do_call_bundles: "sv_bundles (snd (do_call y c s)) = sv_bundles s"
  by (simp add: do_call_eq)

text \<open>Storing and renaming the records of an installed bundle succeeds.\<close>

definition records_stored :: "'j system \<Rightarrow> bool" where
  "records_stored y \<longleftrightarrow>
     (\<forall>r p t. ir_bundleName r \<noteq> None \<longrightarrow> fst (BackUpUidAndGidInfo y r (Some p) t)) \<and>
     (\<forall>n rs t. fst (RenameJsonFile y (Some n) (Some rs) t))"

lemma Install_stored:
  assumes ok: "service_ok s" and st: "records_stored y" and f: "Install y (Some path) i s = Some (e, s')"
  shows "service_ok s' \<and>
     (if e = ERR_OK then \<exists>realPath n. y_realpath y (sv_trace s) path = Some realPath \<and>
        has_installed y (GetHapType (Some realPath)) (prepared i realPath s) realPath n s'
      else registered s' = registered s \<and> sv_uids s' = sv_uids s)"
  using f
proof (cases rule: Install_start)
  case refused
  with ok show ?thesis by simp
next
  case (processed realPath randStr e1 ow r s1 name)
  let ?s0 = "prepared i realPath s"
  have ok0: "service_ok ?s0" "registered ?s0 = registered s" "sv_uids ?s0 = sv_uids s"
    using ok prepared_same by (simp_all add: service_ok_def registered_def)
  note P = Process_step[OF ok0(1) processed(2)]
  show ?thesis
  proof (cases "e1 = ERR_OK")
    case True
    with P processed(3) obtain n where n: "ir_bundleName r = Some n" "name = Some n" by (auto simp: record_name_def)
    have "e = ERR_OK"
      using processed(4) True st n unfolding records_stored_def
      by (auto simp: Let_def split: if_splits prod.splits) (metis fst_conv option.distinct(1))+
    with Install_result[OF ok f] show ?thesis by simp
  next
    case False
    with processed(4) have e: "e = e1" "s' = s1\<lparr>sv_uids := RecycleUid name (sv_uids s1)\<rparr>" by simp_all
    show ?thesis
    proof (cases ow)
      case None
      with processed(3) have "name = None" by (simp add: record_name_def)
      with P False None ok0 e show ?thesis by (auto simp: RecycleUid_def service_ok_def registered_def)
    next
      case (Some p)
      with P False processed(3) show ?thesis by (simp add: record_name_def)
    qed
  qed
qed

lemma grows_Install [grow_rules]:
  assumes ok: "service_ok s" and st: "records_stored y" and f: "Install y path i s = Some (e, s')"
  shows "grows s s'"
proof (cases path)
  case None
  with f ok show ?thesis by (simp add: Install_def grows_refl)
next
  case (Some p)
  note I = Install_stored[OF ok st f[unfolded Some]]
  show ?thesis
  proof (cases "e = ERR_OK")
    case False
    with I show ?thesis by (simp add: grows_def same_identity_def)
  next
    case True
    with I obtain realPath n where
      h: "has_installed y (GetHapType (Some realPath)) (prepared i realPath s) realPath n s'" by auto
    from installed_keeps[OF h] prepared_same[of i realPath s] I show ?thesis
      unfolding grows_def same_identity_def registered_def by metis
  qed
qed

lemma grows_add:
  assumes ok: "service_ok s" and m: "new_info b (sv_bundles s) = (p, bm)" and a: "Add (Some p) bm = Some bm'"
  shows "grows s (s\<lparr>sv_bundles := bm'\<rparr>)"
proof -
  have 1: "bm_ok bm" "bm_look bm = bm_look (sv_bundles s)" "bm_heap bm p = Some b" "\<not> bm_held bm p"
    using bm.mk_law[OF _ m] ok by (simp_all add: service_ok_def)
  from bm.add_law[OF 1(1,3,4)] a have "bm_ok bm'" "bm_look bm' = spec_op (OpAdd b) (bm_look bm)" by auto
  with 1(2) show ?thesis
    by (auto simp: grows_def same_identity_def service_ok_def registered_def with_name_def split: option.splits)
qed

lemma grows_each_entry:
  assumes "\<And>n x x'. P x \<Longrightarrow> f n x = Some x' \<Longrightarrow> P x' \<and> grows (g x) (g x')" and "P x" and "service_ok (g x)"
    and "each_entry f ns x = Some x'"
  shows "P x' \<and> grows (g x) (g x')"
  using assms(2-4)
proof (induction ns arbitrary: x)
  case Nil
  then show ?case by (simp add: grows_refl)
next
  case (Cons n ns)
  show ?case
  proof (cases "n = ''.'' \<or> n = ''..''")
    case True
    with Cons show ?thesis by auto
  next
    case False
    with Cons.prems obtain x1 where x1: "f n x = Some x1" "each_entry f ns x1 = Some x'" by (auto simp: bind_Some_iff)
    from assms(1)[OF Cons.prems(1) x1(1)] have "P x1" "grows (g x) (g x1)" by auto
    with Cons.IH[of x1] x1(2) show ?thesis by (auto dest: grows_ok intro: grows_trans)
  qed
qed

text \<open>The loops, for a step on the service alone.\<close>

lemma grows_entries:
  assumes "\<And>n s s'. service_ok s \<Longrightarrow> f n s = Some s' \<Longrightarrow> grows s s'" and "service_ok s" and "each_entry f ns s = Some s'"
  shows "grows s s'"
  using grows_each_entry[of service_ok f "\<lambda>s. s" s ns s'] assms by (blast dest: grows_ok)

lemma grows_InstallSystemBundle [grow_rules]:
  "records_stored y \<Longrightarrow> service_ok s \<Longrightarrow> InstallSystemBundle y d n s = Some s' \<Longrightarrow> grows s s'"
  by (auto simp: InstallSystemBundle_def Let_def bind_Some_iff grows_refl intro: grows_Install split: if_splits)

lemma grows_InstallAllSystemBundle [grow_rules]:
  "records_stored y \<Longrightarrow> service_ok s \<Longrightarrow> InstallAllSystemBundle y k s = Some s' \<Longrightarrow> grows s s'"
  by (auto simp: InstallAllSystemBundle_def Let_def grows_refl split: option.splits
      intro: grows_entries[OF grows_InstallSystemBundle])

lemma grows_reload_entry [grow_rules]:
  assumes ok: "service_ok s" and f: "reload_entry y cp appId n sys uid d s = Some s'"
  shows "grows s s'"
proof -
  from f obtain parsed where p: "ParseHapProfile_dir y (sv_trace s) (Some (cp @ PATH_SEPARATOR @ d)) = Some parsed"
    by (auto simp: reload_entry_def Let_def bind_Some_iff)
  show ?thesis
  proof (cases parsed)
    case None
    with f p have "sv_bundles s' = sv_bundles s"
      by (auto simp: reload_entry_def Let_def do_call_eq)
    with ok show ?thesis by (rule grows_same)
  next
    case (Some b)
    show ?thesis
    proof (cases "Strdup (y_alloc y) appId")
      case None
      with f p Some ok show ?thesis by (simp add: reload_entry_def Let_def grows_refl)
    next
      case (Some a)
      let ?b = "b\<lparr>bi_isSystemApp := sys, bi_appId := Some a, bi_uid := uid, bi_gid := uid\<rparr>"
      obtain q bm where m: "new_info ?b (sv_bundles s) = (q, bm)" by fastforce
      with f p \<open>parsed = Some b\<close> Some obtain bm' where "Add (Some q) bm = Some bm'" "s' = s\<lparr>sv_bundles := bm'\<rparr>"
        by (auto simp: reload_entry_def Let_def bind_Some_iff)
      with grows_add[OF ok m] show ?thesis by simp
    qed
  qed
qed

lemma grows_ReloadBundleInfo [grow_rules]:
  "service_ok s \<Longrightarrow> ReloadBundleInfo y cp appId n sys s = Some s' \<Longrightarrow> grows s s'"
  by (auto simp: ReloadBundleInfo_def Let_def grows_refl bind_Some_iff split: if_splits option.splits
      intro: grows_entries[OF grows_reload_entry])

lemma grows_ReloadEntireBundleInfo [grow_rules]:
  assumes ok: "service_ok s" and st: "records_stored y"
    and f: "ReloadEntireBundleInfo y appPath bundleName versionCode scanFlag s = Some s'"
  shows "grows s s'"
proof (cases "appPath = None \<or> bundleName = None")
  case True
  with f ok show ?thesis by (auto simp: ReloadEntireBundleInfo_def grows_refl split: option.splits)
next
  case False
  then obtain ap n where an: "appPath = Some ap" "bundleName = Some n" by auto
  from f an obtain q where q: "QueryBundleInfo (Some n) s = Some q"
    by (auto simp: ReloadEntireBundleInfo_def bind_Some_iff)
  show ?thesis
  proof (cases q)
    case (Some p)
    with f an q ok show ?thesis by (simp add: ReloadEntireBundleInfo_def grows_refl)
  next
    case None
    with f an q obtain res cp ai old where
      c: "CheckBundleJsonIsValid y (sv_trace s) (Some n) None None (-1) = Some (res, cp, ai, old)"
      by (auto simp: ReloadEntireBundleInfo_def bind_Some_iff)
    have entire: "ReloadEntireBundleInfo y appPath bundleName versionCode scanFlag s =
        (let installParam = \<lparr>ip_installLocation = 1, ip_keepData = False\<rparr>;
             reload = ReloadBundleInfo y cp ai n (scanFlag = SYSTEM_APP_FLAG) s in
         if scanFlag \<noteq> THIRD_APP_FLAG then
           if \<not> res then do { (_, s) \<leftarrow> Install y (Some ap) installParam s; Some s }
           else if versionCode > old then do { s \<leftarrow> reload; (_, s) \<leftarrow> Install y (Some ap) installParam s; Some s }
           else reload
         else if \<not> res then Some s else reload)"
      by (simp add: ReloadEntireBundleInfo_def an q None c Let_def)
    consider (i) e where "Install y (Some ap) \<lparr>ip_installLocation = 1, ip_keepData = False\<rparr> s = Some (e, s')"
      | (ri) s1 e where "ReloadBundleInfo y cp ai n (scanFlag = SYSTEM_APP_FLAG) s = Some s1"
          "Install y (Some ap) \<lparr>ip_installLocation = 1, ip_keepData = False\<rparr> s1 = Some (e, s')"
      | (r) "ReloadBundleInfo y cp ai n (scanFlag = SYSTEM_APP_FLAG) s = Some s'"
      | (n) "s' = s"
      using f unfolding entire Let_def
      by (cases "scanFlag = THIRD_APP_FLAG"; cases res; cases "old < versionCode") (auto simp: bind_Some_iff)
    then show ?thesis
    proof cases
      case i
      with ok st show ?thesis by (auto intro: grow_rules)
    next
      case ri
      from grows_ReloadBundleInfo[OF ok ri(1)] have g: "grows s s1" .
      from grows_Install[OF grows_ok[OF g] st ri(2)] g show ?thesis by (auto intro: grows_trans)
    next
      case r
      with ok show ?thesis by (auto intro: grow_rules)
    qed (simp add: ok grows_refl)
  qed
qed

lemma grows_scan_entry:
  assumes ok: "service_ok (snd x)" and st: "records_stored y"
    and f: "scan_entry y appDir rec scanFlag d x = Some x'"
  shows "grows (snd x) (snd x')"
proof -
  obtain v s where x: "x = (v, s)" by fastforce
  from ok x have ok: "service_ok s" by simp
  show ?thesis
  proof (cases "snd x' = s")
    case True
    with x ok show ?thesis by (simp add: grows_refl)
  next
    case False
    with f x obtain ap n v' where "ReloadEntireBundleInfo y ap n v' scanFlag s = Some (snd x')"
      by (auto simp: scan_entry_def Let_def bind_Some_iff split: if_splits prod.splits)
    from grows_ReloadEntireBundleInfo[OF ok st this] x show ?thesis by simp
  qed
qed

lemma grows_ScanAppDir [grow_rules]:
  assumes ok: "service_ok s" and st: "records_stored y" and f: "ScanAppDir y dir rec k s = Some s'"
  shows "grows s s'"
proof (cases "y_readdir y (sv_trace s) dir")
  case None
  with f ok show ?thesis by (simp add: ScanAppDir_def grows_refl)
next
  case (Some ns)
  with f obtain x' where e: "each_entry (scan_entry y dir rec k) ns (-1, s) = Some x'" "s' = snd x'"
    by (auto simp: ScanAppDir_def)
  have "grows (snd (-1 :: int, s)) (snd x')"
    using grows_each_entry[of "\<lambda>x. service_ok (snd x)" "scan_entry y dir rec k" snd "(-1, s)" ns x'] grows_scan_entry[OF _ st]
      ok e(1) by (metis grows_ok snd_conv)
  with e(2) show ?thesis by simp
qed

lemma grows_ScanPackages [grow_rules]:
  assumes ok: "service_ok s" and st: "records_stored y" and f: "ScanPackages y s = Some s'"
  shows "grows s s'"
proof -
  from f obtain um where um: "RestoreUidAndGidMap (y_json y) (GetJsonStream y (sv_trace s) (Some uid_json_path)) (sv_uids s) = Some um"
    by (auto simp: ScanPackages_def bind_Some_iff)
  define s0 where "s0 = s\<lparr>sv_uids := um\<rparr>"
  have g0: "grows s s0" using ok by (auto simp: s0_def intro: grows_same)
  show ?thesis
  proof (cases "IsDir (y_posix y (sv_trace s0)) (Some JSON_PATH)")
    case False
    with f um obtain s1 where "InstallAllSystemBundle y SYSTEM_APP_FLAG s0 = Some s1"
      "InstallAllSystemBundle y THIRD_SYSTEM_APP_FLAG s1 = Some s'"
      by (auto simp: ScanPackages_def Let_def s0_def bind_Some_iff)
    with g0 st show ?thesis by (meson grows_InstallAllSystemBundle grows_ok grows_trans)
  next
    case True
    define rec where "rec = GetJsonStream y (sv_trace s0) (Some UNINSTALL_THIRD_SYSTEM_BUNDLE_JSON)"
    define s1 where "s1 = (if rec = None then snd (do_call y (RemoveFile UNINSTALL_THIRD_SYSTEM_BUNDLE_JSON) s0) else s0)"
    have g1: "grows s s1" using g0 by (auto simp: s1_def do_call_bundles intro: grows_same_right)
    have r: "ScanPackages y s = do {
        s2 \<leftarrow> ScanAppDir y SYSTEM_BUNDLE_PATH None SYSTEM_APP_FLAG s1;
        s3 \<leftarrow> ScanAppDir y THIRD_SYSTEM_BUNDLE_PATH rec THIRD_SYSTEM_APP_FLAG s2;
        s4 \<leftarrow> ScanAppDir y INSTALL_PATH None THIRD_APP_FLAG s3;
        if IsDir (y_posix y (sv_trace s4)) (Some EXTEANAL_INSTALL_PATH)
        then ScanAppDir y EXTEANAL_INSTALL_PATH None THIRD_APP_FLAG s4 else Some s4 }"
      unfolding ScanPackages_def um bind.bind_lunit Let_def s0_def[symmetric] rec_def[symmetric] s1_def[symmetric]
      using True by simp
    from f obtain s2 where s2: "ScanAppDir y SYSTEM_BUNDLE_PATH None SYSTEM_APP_FLAG s1 = Some s2"
      unfolding r bind_Some_iff by blast
    from f s2 obtain s3 where s3: "ScanAppDir y THIRD_SYSTEM_BUNDLE_PATH rec THIRD_SYSTEM_APP_FLAG s2 = Some s3"
      unfolding r s2 bind.bind_lunit bind_Some_iff by blast
    from f obtain s4 where s4: "ScanAppDir y INSTALL_PATH None THIRD_APP_FLAG s3 = Some s4"
      unfolding r s2 s3 bind.bind_lunit bind_Some_iff by blast
    from f have s5: "s' = s4 \<or> ScanAppDir y EXTEANAL_INSTALL_PATH None THIRD_APP_FLAG s4 = Some s'"
      unfolding r s2 s3 s4 bind.bind_lunit by (metis option.inject)
    note g2 = grows_trans[OF g1 grows_ScanAppDir[OF grows_ok[OF g1] st s2]]
    note g3 = grows_trans[OF g2 grows_ScanAppDir[OF grows_ok[OF g2] st s3]]
    note g4 = grows_trans[OF g3 grows_ScanAppDir[OF grows_ok[OF g3] st s4]]
    from s5 g4 grows_trans[OF g4 grows_ScanAppDir[OF grows_ok[OF g4] st]] show ?thesis by blast
  qed
qed

lemma share_libs_bundles: "share_libs y b s = Some s' \<Longrightarrow> sv_bundles s' = sv_bundles s"
  by (auto simp: bind_Some_iff share_libs_def Let_def do_call_eq split: if_splits)

lemma share_all_bundles: "share_all y bs s = Some s' \<Longrightarrow> sv_bundles s' = sv_bundles s"
  by (induction bs arbitrary: s) (auto simp: bind_Some_iff dest!: share_libs_bundles)

lemma ScanSharedLibPath_bundles: "ScanSharedLibPath y s = Some s' \<Longrightarrow> sv_bundles s' = sv_bundles s"
  by (auto simp: ScanSharedLibPath_def bind_Some_iff split: if_splits option.splits dest: share_all_bundles)

lemma grows_service_inited [grow_rules]:
  assumes ok: "service_ok s" and st: "records_stored y" and f: "service_inited y s = Some s'"
  shows "grows s s'"
proof -
  obtain b s0 where i: "do_call y Initialize s = (b, s0)" by fastforce
  have g0: "grows s s0" using do_call_bundles[of y Initialize s] i ok by (auto intro: grows_same)
  show ?thesis
  proof (cases b)
    case False
    with f i g0 show ?thesis by (simp add: service_inited_def)
  next
    case True
    with f i obtain s1 s2 where s: "ScanPackages y s0 = Some s1" "ScanSharedLibPath y s1 = Some s2" "sv_bundles s' = sv_bundles s2"
      by (auto simp: service_inited_def bind_Some_iff Let_def do_call_eq split: if_splits)
    from grows_ScanPackages[OF grows_ok[OF g0] st s(1)] g0 have "grows s s1" by (rule grows_trans[rotated])
    with s(3) ScanSharedLibPath_bundles[OF s(2)] show ?thesis by (auto intro: grows_same_right)
  qed
qed

section \<open>The answers\<close>

lemma transact_loop_same: "sv_bundles (transact_loop y svcs k e n s) = sv_bundles s \<and> sv_uids (transact_loop y svcs k e n s) = sv_uids s"
  by (induction y svcs k e n s rule: transact_loop.induct) (auto simp: do_call_eq Let_def)

lemma InnerTransact_same: "sv_bundles (mg_service (InnerTransact y k e n g)) = sv_bundles (mg_service g) \<and>
    sv_uids (mg_service (InnerTransact y k e n g)) = sv_uids (mg_service g) \<and>
    mg_svcIdentity (InnerTransact y k e n g) = mg_svcIdentity g"
  by (auto simp: InnerTransact_def transact_loop_same split: option.split)

lemma InnerSelfTransact_same: "sv_bundles (mg_service (InnerSelfTransact y k e svc g)) = sv_bundles (mg_service g) \<and>
    sv_uids (mg_service (InnerSelfTransact y k e svc g)) = sv_uids (mg_service g) \<and>
    mg_svcIdentity (InnerSelfTransact y k e svc g) = mg_svcIdentity g"
  by (simp add: InnerSelfTransact_def do_call_eq)

text \<open>What the observers are told: a request each, in their order, until one fails.\<close>

lemma transact_loop_trace:
  "\<exists>told. prefix told svcs \<and> sv_trace (transact_loop y svcs k e n s) = sv_trace s @ map (\<lambda>svc. SendRequest svc k e (Some n)) told \<and>
     ((\<forall>t c. y_ask y t c) \<longrightarrow> told = svcs)"
proof (induction svcs arbitrary: s)
  case Nil
  then show ?case by simp
next
  case (Cons svc svcs)
  let ?c = "SendRequest svc k e (Some n)"
  show ?case
  proof (cases "y_ask y (sv_trace s) ?c")
    case False
    then show ?thesis by (intro exI[of _ "[svc]"]) (auto simp: do_call_eq)
  next
    case True
    obtain told where "prefix told svcs"
      "sv_trace (transact_loop y svcs k e n (s\<lparr>sv_trace := sv_trace s @ [?c]\<rparr>)) =
         sv_trace s @ [?c] @ map (\<lambda>svc. SendRequest svc k e (Some n)) told"
      "(\<forall>t c. y_ask y t c) \<longrightarrow> told = svcs" using Cons.IH[of "s\<lparr>sv_trace := sv_trace s @ [?c]\<rparr>"] by auto
    with True show ?thesis by (intro exI[of _ "svc # told"]) (auto simp: do_call_eq)
  qed
qed

lemma answers_trace:
  "\<exists>told. sv_trace (mg_service (InnerTransact y k e n (InnerSelfTransact y k e svc g))) =
     sv_trace (mg_service g) @ [SendRequest svc k e None, ReleaseSvc svc] @ map (\<lambda>o'. SendRequest o' k e n) told \<and>
     prefix told (mg_svcIdentity g)"
proof (cases n)
  case None
  then show ?thesis by (intro exI[of _ "[]"]) (simp add: InnerTransact_def InnerSelfTransact_def do_call_eq)
next
  case (Some m)
  let ?s = "mg_service (InnerSelfTransact y k e svc g)"
  from transact_loop_trace[of "mg_svcIdentity g" y k e m ?s] obtain told where "prefix told (mg_svcIdentity g)"
    "sv_trace (transact_loop y (mg_svcIdentity g) k e m ?s) = sv_trace ?s @ map (\<lambda>svc. SendRequest svc k e (Some m)) told" by auto
  with Some InnerSelfTransact_same[of y k e svc g] show ?thesis
    by (intro exI[of _ told]) (simp add: InnerTransact_def InnerSelfTransact_def do_call_eq)
qed

section \<open>The steps of the service\<close>

definition svc_key :: "SvcIdentity \<Rightarrow> int \<times> nat" where
  "svc_key svc = (svc_handle svc, svc_token svc)"

lemma CompareServiceId_iff: "CompareServiceId a b \<longleftrightarrow> svc_key a = svc_key b"
  by (simp add: CompareServiceId_def svc_key_def)

definition mg_ok :: "manager \<Rightarrow> bool" where
  "mg_ok g \<longleftrightarrow> service_ok (mg_service g) \<and> distinct (map svc_key (mg_svcIdentity g))"

lemma erase_first_keys:
  "distinct (map svc_key xs) \<Longrightarrow>
     svc_key ` set (erase_first (\<lambda>it. CompareServiceId it svc) xs) = svc_key ` set xs - {svc_key svc} \<and>
     distinct (map svc_key (erase_first (\<lambda>it. CompareServiceId it svc) xs))"
  by (induction xs) (auto simp: CompareServiceId_iff)

lemma Add_keys:
  "svc_key ` set (mg_svcIdentity (AddCallbackServiceId svc g)) = insert (svc_key svc) (svc_key ` set (mg_svcIdentity g))"
  by (auto simp: AddCallbackServiceId_def list_ex_iff CompareServiceId_iff) (metis imageI)

lemma Add_distinct:
  "distinct (map svc_key (mg_svcIdentity g)) \<Longrightarrow> distinct (map svc_key (mg_svcIdentity (AddCallbackServiceId svc g)))"
  by (auto simp: AddCallbackServiceId_def list_ex_iff CompareServiceId_iff)

inductive serves :: "'j system \<Rightarrow> manager \<Rightarrow> manager \<Rightarrow> bool" for y where
  start: "serves y g g"
| step: "serves y g g1 \<Longrightarrow> ServiceMsgProcess y r g1 = Some g2 \<Longrightarrow> serves y g g2"

text \<open>What every step keeps of a bundle: a system bundle stays, with its identity.\<close>

definition keeps_system :: "service \<Rightarrow> service \<Rightarrow> bool" where
  "keeps_system s s' \<longleftrightarrow>
     (\<forall>n b. registered s n = Some b \<and> bi_isSystemApp b \<longrightarrow> (\<exists>b'. registered s' n = Some b' \<and> same_identity b b'))"

lemma grows_keeps: "grows s s' \<Longrightarrow> keeps_system s s'"
  by (auto simp: grows_def keeps_system_def)

lemma keeps_trans: "keeps_system s s1 \<Longrightarrow> keeps_system s1 s2 \<Longrightarrow> keeps_system s s2"
  unfolding keeps_system_def same_identity_def by metis

lemma keeps_same: "sv_bundles s' = sv_bundles s1 \<Longrightarrow> keeps_system s s' = keeps_system s s1 \<and> service_ok s' = service_ok s1"
  by (simp add: keeps_system_def registered_def service_ok_def)

lemma Uninstall_keeps:
  assumes ok: "service_ok s" and u: "Uninstall y (Some n) i s = Some (e, s')"
  shows "service_ok s' \<and> keeps_system s s'"
proof -
  have refl: "keeps_system s s" using grows_keeps[OF grows_refl[OF ok]] .
  show ?thesis
  proof (cases "removable s n")
    case False
    with Uninstall_refuses(1)[OF ok, of n y i] Uninstall_refuses(2)[OF ok, of n _ y i] u have "s' = s"
      by (cases "registered s n") (auto simp: removable_def)
    with ok refl show ?thesis by simp
  next
    case True
    then obtain b where b: "registered s n = Some b" "\<not> bi_isSystemApp b"
      by (auto simp: removable_def split: option.splits)
    show ?thesis
    proof (cases "y_ask y (sv_trace s) GetAmsInterface")
      case False
      with b u have "sv_bundles s' = sv_bundles s"
        by (auto simp: Uninstall_def query_info_look[OF ok] do_call_eq)
      with ok refl show ?thesis using keeps_same by metis
    next
      case a: True
      from Uninstall_removes[OF ok True a, of i] u have "service_ok s'" "registered s' = (registered s)(n := None)" by auto
      with b show ?thesis by (auto simp: keeps_system_def same_identity_def)
    qed
  qed
qed

lemma step_keeps:
  assumes ok: "mg_ok g" and st: "records_stored y" and f: "ServiceMsgProcess y r g = Some g'"
  shows "mg_ok g' \<and> keeps_system (mg_service g) (mg_service g')"
proof -
  let ?s = "mg_service g"
  from ok have oks: "service_ok ?s" and d: "distinct (map svc_key (mg_svcIdentity g))" by (simp_all add: mg_ok_def)
  have refl: "keeps_system ?s ?s" using grows_keeps[OF grows_refl[OF oks]] .
  have same: ?thesis if "sv_bundles (mg_service g') = sv_bundles s1" "mg_svcIdentity g' = mg_svcIdentity g"
    "service_ok s1" "keeps_system ?s s1" for s1
    using that d keeps_same[OF that(1)] by (simp add: mg_ok_def)
  have install: ?thesis if r: "install_request y info g = Some g'" for info
  proof (cases "g' = g")
    case True
    with ok refl show ?thesis by simp
  next
    case False
    with r obtain path svc loc where p: "InstallThirdBundle y (Some path) svc loc g = Some g'"
      by (auto simp: install_request_def split: option.splits)
    obtain ret n v where pb: "ParseBundleParam y (sv_trace ?s) (Some path) None (-1) = (ret, n, v)" using prod_cases3 by blast
    show ?thesis
    proof (cases "ret = ERR_OK")
      case False
      with p pb have "g' = InnerSelfTransact y INSTALL_CALLBACK ret svc g" by (simp add: InstallThirdBundle_def)
      with same[of ?s] oks refl InnerSelfTransact_same[of y INSTALL_CALLBACK ret svc g] show ?thesis by simp
    next
      case True
      with p pb obtain e s1 where i: "Install y (Some path) \<lparr>ip_installLocation = loc, ip_keepData = False\<rparr> ?s = Some (e, s1)"
        "g' = InnerTransact y INSTALL_CALLBACK e n (InnerSelfTransact y INSTALL_CALLBACK e svc (g\<lparr>mg_service := s1\<rparr>))"
        by (auto simp: InstallThirdBundle_def bind_Some_iff)
      from grows_Install[OF oks st i(1)] have "service_ok s1" "keeps_system ?s s1" by (auto dest: grows_ok grows_keeps)
      with same[of s1] i(2) show ?thesis by (simp add: InnerTransact_same InnerSelfTransact_same)
    qed
  qed
  show ?thesis
  proof (cases r)
    case BUNDLE_SERVICE_INITED
    with f obtain s1 where s1: "service_inited y ?s = Some s1" "g' = g\<lparr>mg_service := s1\<rparr>"
      by (auto simp: ServiceMsgProcess_def on_service_def bind_Some_iff)
    from grows_service_inited[OF oks st s1(1)] same[of s1] s1(2) show ?thesis by (simp add: grows_ok grows_keeps)
  next
    case (BUNDLE_INSTALLED info)
    with f install show ?thesis by (simp add: ServiceMsgProcess_def)
  next
    case (BUNDLE_UPDATED info)
    with f install show ?thesis by (simp add: ServiceMsgProcess_def)
  next
    case (BUNDLE_UNINSTALLED info)
    with f have u: "uninstall_request y info g = Some g'" by (simp add: ServiceMsgProcess_def)
    show ?thesis
    proof (cases "g' = g")
      case True
      with ok refl show ?thesis by simp
    next
      case False
      with u obtain n svc i e s1 where n: "Uninstall y (Some n) i ?s = Some (e, s1)"
        "sv_bundles (mg_service g') = sv_bundles s1 \<and> mg_svcIdentity g' = mg_svcIdentity g"
        by (auto simp: uninstall_request_def Let_def bind_Some_iff InnerTransact_same InnerSelfTransact_same
            split: option.splits if_splits)
      with same[of s1] Uninstall_keeps[OF oks n(1)] show ?thesis by simp
    qed
  next
    case (BUNDLE_CHANGE_CALLBACK svc add)
    show ?thesis
    proof (cases svc)
      case None
      with BUNDLE_CHANGE_CALLBACK f ok refl show ?thesis by (simp add: ServiceMsgProcess_def)
    next
      case (Some i)
      with BUNDLE_CHANGE_CALLBACK f have g': "g' = (if add then AddCallbackServiceId i g else RemoveCallbackServiceId y i g)"
        by (simp add: ServiceMsgProcess_def)
      then have "sv_bundles (mg_service g') = sv_bundles ?s"
        by (simp add: AddCallbackServiceId_def RemoveCallbackServiceId_def do_call_eq)
      moreover have "distinct (map svc_key (mg_svcIdentity g'))"
        using g' Add_distinct[OF d] erase_first_keys[OF d] by (simp add: RemoveCallbackServiceId_def)
      ultimately show ?thesis using keeps_same[of "mg_service g'" ?s ?s] oks refl by (simp add: mg_ok_def)
    qed
  next
    case OTHER_MESSAGE
    with f ok refl show ?thesis by (simp add: ServiceMsgProcess_def)
  qed
qed

lemma serves_keeps:
  assumes "serves y g g'" and "mg_ok g" and "records_stored y"
  shows "mg_ok g' \<and> keeps_system (mg_service g) (mg_service g')"
  using assms
proof (induction rule: serves.induct)
  case (start g)
  then show ?case using grows_keeps[OF grows_refl] by (simp add: mg_ok_def)
next
  case (step g g1 r g2)
  then have "mg_ok g1" "keeps_system (mg_service g) (mg_service g1)" by auto
  with step_keeps[OF _ step.prems(2) step.hyps(2)] show ?case by (auto intro: keeps_trans)
qed

section \<open>Properties\<close>

subsection \<open>A system with a system bundle\<close>

definition internal_shop :: "js system" where
  "internal_shop = js_system (\<lambda>p. if p = ''/system/internal/x.hap'' then Some small_hap else None)"

lemma js_records_stored:
  assumes "f uid_json_path = None"
  shows "records_stored (js_system f)"
proof -
  let ?y = "js_system f"
  have s: "GetJsonStream ?y t (Some uid_json_path) = None" for t
    using assms by (simp add: GetJsonStream_def js_system_def IsFile_def Let_def)
  have o1: "ObtainUidAndGidJson ?y t True = Some (JObj [(''size'', JNum 0), (''uid_and_gid'', JArr [])])" for t
    by (simp add: ObtainUidAndGidJson_def s) (simp add: js_system_def js_mk_def js_add_def)
  have "\<exists>ob. ConvertUidAndGidToJson ?y t r = Some ob" if r: "ir_bundleName r = Some n" for t r n
    unfolding ConvertUidAndGidToJson_def o1 r
    by (simp add: js_system_def js_mk_def js_add_def js_api_def js_is_def AddUidAndGidInfo_def r Let_def)
  then have "fst (BackUpUidAndGidInfo ?y r (Some p) t)" if "ir_bundleName r = Some n" for t r n p
  proof -
    from that \<open>\<And>t r n. ir_bundleName r = Some n \<Longrightarrow> \<exists>ob. ConvertUidAndGidToJson ?y t r = Some ob\<close> obtain ob
      where "ConvertUidAndGidToJson ?y t r = Some ob" by blast
    moreover have "k_Print (y_mk ?y) ob = Some ''{}''" "y_ask ?y = (\<lambda>_ _. True)" by (simp_all add: js_system_def js_mk_def)
    ultimately show ?thesis by (simp add: BackUpUidAndGidInfo_def print_and_store_def ask_def)
  qed
  then show ?thesis
    unfolding records_stored_def by (auto simp: RenameJsonFile_def ask_def js_system_def)
qed

definition observer :: SvcIdentity where
  "observer = \<lparr>svc_handle = 1, svc_token = 7\<rparr>"

definition sys_stocked :: manager where
  "sys_stocked = \<lparr>mg_service = state_of (Install internal_shop (Some ''/system/internal/x.hap'') internal new_service),
     mg_svcIdentity = [], mg_isDebugMode = False\<rparr>"

definition removal :: request where
  "removal = BUNDLE_UNINSTALLED (Some \<lparr>ri_path = None, ri_bundleName = Some ''com.a.b'', ri_svc = Some observer,
     ri_installLocation = 1, ri_keepData = False\<rparr>)"

lemma internal_shop_installs:
  "map_option fst (Install internal_shop (Some ''/system/internal/x.hap'') internal new_service) = Some ERR_OK \<and>
   map_option bi_isSystemApp (registered (mg_service sys_stocked) ''com.a.b'') = Some True \<and>
   ServiceMsgProcess internal_shop removal sys_stocked \<noteq> None"
  unfolding sys_stocked_def by code_simp

lemma internal_shop_stored: "records_stored internal_shop"
  unfolding internal_shop_def by (rule js_records_stored) (simp add: uid_json_path_def)

lemma sys_stocked_ok: "mg_ok sys_stocked"
proof -
  obtain s where s: "Install internal_shop (Some ''/system/internal/x.hap'') internal new_service = Some (ERR_OK, s)"
    using internal_shop_installs by auto
  from Install_result[OF new_service_ok(1) s] s show ?thesis by (simp add: mg_ok_def sys_stocked_def state_of_def)
qed

lemma has_installed_same:
  "registered s' = registered s1 \<Longrightarrow> sv_uids s' = sv_uids s1 \<Longrightarrow>
     has_installed y k s p n s' = has_installed y k s p n s1"
  by (simp add: has_installed_def)

subsection \<open>The properties\<close>




definition arrival :: SvcIdentityInfo where
  "arrival = \<lparr>ri_path = Some ''/x.hap'', ri_bundleName = None, ri_svc = Some observer, ri_installLocation = 1, ri_keepData = False\<rparr>"

definition started :: manager where
  "started = \<lparr>mg_service = new_service, mg_svcIdentity = [\<lparr>svc_handle = 2, svc_token = 9\<rparr>], mg_isDebugMode = False\<rparr>"

lemma arrival_processed: "ServiceMsgProcess shop (BUNDLE_INSTALLED (Some arrival)) started \<noteq> None"
  by code_simp


text \<open>A removal that is answered with \<open>ERR_OK\<close> has taken exactly the named bundle off the registry and given its
  uid back; any other answer leaves the uids alone.\<close>

theorem uninstall_request_effect:
  assumes "service_ok (mg_service g)" and "uninstall_request y (Some i) g = Some g'"
    and "ri_bundleName i = Some n" and "ri_svc i = Some svc"
  shows "\<exists>t e told. sv_trace (mg_service g') =
       t @ [SendRequest svc UNINSTALL_CALLBACK e None, ReleaseSvc svc] @ map (\<lambda>ob. SendRequest ob UNINSTALL_CALLBACK e (Some n)) told \<and>
     prefix told (mg_svcIdentity g) \<and>
     (if e = ERR_OK then registered (mg_service g') = (registered (mg_service g))(n := None) \<and>
          sv_uids (mg_service g') = RecycleUid (Some n) (sv_uids (mg_service g))
      else sv_uids (mg_service g') = sv_uids (mg_service g))"
proof -
  let ?s = "mg_service g" let ?ip = "\<lparr>ip_installLocation = 1, ip_keepData = ri_keepData i\<rparr>"
  from assms obtain e s1 where u: "Uninstall y (Some n) ?ip ?s = Some (e, s1)"
    by (auto simp: uninstall_request_def bind_Some_iff)
  let ?g1 = "InnerTransact y UNINSTALL_CALLBACK e (Some n) (InnerSelfTransact y UNINSTALL_CALLBACK e svc (g\<lparr>mg_service := s1\<rparr>))"
  have g': "g' = (if e = ERR_OK then ?g1\<lparr>mg_service := (mg_service ?g1)\<lparr>sv_uids := RecycleUid (Some n) (sv_uids (mg_service ?g1))\<rparr>\<rparr> else ?g1)"
    using assms u by (auto simp: uninstall_request_def Let_def)
  have t: "sv_trace (mg_service g') = sv_trace (mg_service ?g1)" by (simp add: g')
  have r1: "registered (mg_service g') = registered s1" by (simp add: g' registered_def InnerTransact_same InnerSelfTransact_same)
  have u1: "sv_uids (mg_service g') = (if e = ERR_OK then RecycleUid (Some n) (sv_uids s1) else sv_uids s1)"
    by (simp add: g' InnerTransact_same InnerSelfTransact_same)
  have us: "sv_uids s1 = sv_uids ?s \<and> (e = ERR_OK \<longrightarrow> registered s1 = (registered ?s)(n := None))"
  proof (cases "removable ?s n \<and> y_ask y (sv_trace ?s) GetAmsInterface")
    case True
    with Uninstall_removes[OF assms(1), of n y ?ip] u show ?thesis by auto
  next
    case False
    then have "e \<noteq> ERR_OK" using Uninstall_OK_only[OF assms(1), of y n ?ip s1] u by auto
    moreover have "sv_uids s1 = sv_uids ?s"
    proof (cases "removable ?s n")
      case True
      then obtain b where "registered ?s n = Some b" "\<not> bi_isSystemApp b" by (auto simp: removable_def split: option.splits)
      with True False u show ?thesis by (auto simp: Uninstall_def query_info_look[OF assms(1)] do_call_eq)
    next
      case False
      with Uninstall_refuses(1)[OF assms(1), of n y ?ip] Uninstall_refuses(2)[OF assms(1), of n _ y ?ip] u show ?thesis
        by (cases "registered ?s n") (auto simp: removable_def)
    qed
    ultimately show ?thesis by simp
  qed
  from answers_trace[of y UNINSTALL_CALLBACK e "Some n" svc "g\<lparr>mg_service := s1\<rparr>"] obtain told where
    "sv_trace (mg_service g') = sv_trace s1 @ [SendRequest svc UNINSTALL_CALLBACK e None, ReleaseSvc svc] @
       map (\<lambda>ob. SendRequest ob UNINSTALL_CALLBACK e (Some n)) told" "prefix told (mg_svcIdentity g)" using t by auto
  with r1 u1 us show ?thesis
    by (intro exI[of _ "sv_trace s1"] exI[of _ e] exI[of _ told]) auto
qed

theorem uninstall_request_effect_witness:
  "\<exists>g' e. uninstall_request shop (Some (arrival\<lparr>ri_bundleName := Some ''com.none''\<rparr>)) started = Some g' \<and>
     SendRequest observer UNINSTALL_CALLBACK e None \<in> set (sv_trace (mg_service g'))"
proof -
  let ?i = "arrival\<lparr>ri_bundleName := Some ''com.none''\<rparr>"
  have ok: "service_ok (mg_service started)" and r: "registered (mg_service started) ''com.none'' = None"
    by (simp_all add: started_def new_service_ok)
  have b: "ri_bundleName ?i = Some ''com.none''" "ri_svc ?i = Some observer" by (simp_all add: arrival_def)
  obtain g' where g': "uninstall_request shop (Some ?i) started = Some g'"
    by (simp add: uninstall_request_def Let_def b Uninstall_refuses(1)[OF ok r])
  from uninstall_request_effect[OF ok g' b] g' show ?thesis by auto
qed

text \<open>The observers are a set of identities: registering one adds it, once, and removing one takes it away.\<close>

theorem observers_are_a_set:
  assumes "distinct (map svc_key (mg_svcIdentity g))"
  shows "svc_key ` set (mg_svcIdentity (AddCallbackServiceId svc g)) = insert (svc_key svc) (svc_key ` set (mg_svcIdentity g)) \<and>
     distinct (map svc_key (mg_svcIdentity (AddCallbackServiceId svc g))) \<and>
     svc_key ` set (mg_svcIdentity (RemoveCallbackServiceId y svc g)) = svc_key ` set (mg_svcIdentity g) - {svc_key svc} \<and>
     distinct (map svc_key (mg_svcIdentity (RemoveCallbackServiceId y svc g)))"
  using Add_keys Add_distinct[OF assms] erase_first_keys[OF assms] by (simp add: RemoveCallbackServiceId_def)

theorem observers_are_a_set_witness:
  "svc_key ` set (mg_svcIdentity (AddCallbackServiceId observer started)) = {(2, 9), (1, 7)}"
proof -
  have "distinct (map svc_key (mg_svcIdentity started))" by (simp add: started_def)
  from observers_are_a_set[OF this, of observer shop] show ?thesis
    by (auto simp: started_def svc_key_def observer_def)
qed

lemma each_entry_skips: "each_entry f ns x = each_entry f (filter real_name ns) x"
proof (induction ns arbitrary: x)
  case (Cons n ns)
  then have "each_entry f ns = each_entry f (filter real_name ns)" by (intro ext)
  then show ?case by (cases "n = ''.'' \<or> n = ''..''") (auto simp: real_name_def[of n])
qed simp

lemma reload_entry_adds:
  assumes ok: "service_ok s" and p: "ParseHapProfile_dir y (sv_trace s) (Some (dir @ PATH_SEPARATOR @ d)) = Some (Some b)"
    and n: "bi_bundleName b = Some n" "registered s n = None" and a: "Strdup (y_alloc y) (Some a) = Some a"
  shows "\<exists>s'. reload_entry y dir (Some a) m sys u d s = Some s' \<and> service_ok s' \<and>
     registered s' = (registered s)(n \<mapsto> b\<lparr>bi_isSystemApp := sys, bi_appId := Some a, bi_uid := u, bi_gid := u\<rparr>)"
proof -
  let ?b = "b\<lparr>bi_isSystemApp := sys, bi_appId := Some a, bi_uid := u, bi_gid := u\<rparr>"
  obtain q bm where m: "new_info ?b (sv_bundles s) = (q, bm)" by fastforce
  have 1: "bm_ok bm" "bm_look bm = bm_look (sv_bundles s)" "bm_heap bm q = Some ?b" "\<not> bm_held bm q"
    using bm.mk_law[OF _ m] ok by (simp_all add: service_ok_def)
  from bm.add_law[OF 1(1,3,4)] obtain bm' where
    "Add (Some q) bm = Some bm'" "bm_ok bm'" "bm_look bm' = spec_op (OpAdd ?b) (bm_look bm)" by auto
  with 1(2) n p a m show ?thesis
    by (simp add: reload_entry_def Let_def service_ok_def registered_def with_name_def)
qed


text \<open>A disk with an installed bundle.\<close>

definition restarted :: "js system" where
  "restarted = (js_system (\<lambda>p. if p = ''/storage/app/run/com.a.b/m/config.json'' then Some small_hap
      else if p = ''/storage/app/etc/bundles/com.a.b.json''
      then Some (JObj [(''codePath'', JStr ''/storage/app/run/com.a.b''), (''appID'', JStr ''com.a.b_id''),
                       (''versionCode'', JNum 3), (''uid'', JNum 10000), (''gid'', JNum 10000)])
      else None))
     \<lparr>y_readdir := (\<lambda>_ p. if p = ''/storage/app/run/com.a.b'' then Some [''.'', ''..'', ''m''] else None)\<rparr>"

lemma restarted_stream:
  "GetJsonStream restarted t (Some ''/storage/app/run/com.a.b/m/config.json'') = Some small_hap"
  "GetJsonStream restarted t (Some ''/storage/app/etc/bundles/com.a.b.json'') =
     Some (JObj [(''codePath'', JStr ''/storage/app/run/com.a.b''), (''appID'', JStr ''com.a.b_id''),
                 (''versionCode'', JNum 3), (''uid'', JNum 10000), (''gid'', JNum 10000)])"
  by (simp_all add: GetJsonStream_def restarted_def js_system_def js_mk_def IsFile_def CheckRealPath_def plentiful_grants Let_def)

lemma restarted_uid: "GetValueFromBundleJson_int restarted t (Some ''com.a.b'') (Some JSON_SUB_KEY_UID) INVALID_UID = 10000"
  by (simp add: GetValueFromBundleJson_int_def bundle_json_path_def restarted_stream) (simp add: restarted_def js_system_def js_defs)

lemma restarted_profile:
  "map_option (map_option bi_bundleName) (ParseHapProfile_dir restarted [] (Some ''/storage/app/run/com.a.b/m'')) =
     Some (Some (Some ''com.a.b''))"
proof -
  have p: "the (Some ''/storage/app/run/com.a.b/m'') @ PATH_SEPARATOR @ PROFILE_NAME = ''/storage/app/run/com.a.b/m/config.json''"
    by simp
  show ?thesis unfolding ParseHapProfile_dir_def Let_def p restarted_stream by code_simp
qed


end
