(* ===== verification/Zip_File.thy ===== *)
theory Zip_File
  imports Prelude Errors
begin

unbundle bit_operations_syntax

text \<open>
  The archive reader: \<^verbatim>\<open>services/bundlemgr_lite/src/zip_file.cpp\<close>, \<^verbatim>\<open>extractor_util.cpp\<close> and
  \<^verbatim>\<open>bundle_extractor.cpp\<close>. A \<open>hap\<close> package is a zip archive; the daemon unpacks it and the parser reads its
  profile out of it.

  A file is the list of its bytes, and every read of the source comes right after a seek or another read, so the
  position is a number passed along. The widths are those of the 32 bit target: \<open>size_t\<close> and \<open>long\<close> have 32 bits,
  \<open>ZipPos\<close> has 64. The packed structures are read in place, in little-endian order. \<open>zlib\<close> is a parameter.
\<close>

section \<open>Bytes\<close>

fun le_nat :: "u8 list \<Rightarrow> nat" where
  "le_nat [] = 0"
| "le_nat (b # bs) = unat b + 256 * le_nat bs"

definition field :: "u8 list \<Rightarrow> nat \<Rightarrow> nat \<Rightarrow> nat" where
  "field bs o1 n = le_nat (take n (drop o1 bs))"

definition chars :: "u8 list \<Rightarrow> string" where
  "chars bs = map (\<lambda>b. char_of (unat b)) bs"

text \<open>
  \<open>fseek\<close> to an absolute position: the 64 bit position becomes a \<open>long\<close>, and a negative one is refused.
  \<open>fread\<close> of one item answers whether all of it was there.
\<close>

definition fseek :: "u64 \<Rightarrow> nat option" where
  "fseek pos = (let p = (ucast pos :: u32) in if sint p < 0 then None else Some (unat p))"

definition fread_item :: "u8 list \<Rightarrow> nat \<Rightarrow> nat \<Rightarrow> u8 list option" where
  "fread_item f pos n = (if n = 0 \<or> length f < pos + n then None else Some (take n (drop pos f)))"

section \<open>The structures\<close>

record LocalHeader =
  lh_signature :: u32
  lh_versionNeeded :: u16
  lh_flags :: u16
  lh_compressionMethod :: u16
  lh_modifiedTime :: u16
  lh_modifiedDate :: u16
  lh_crc :: u32
  lh_compressedSize :: u32
  lh_uncompressedSize :: u32
  lh_nameSize :: u16
  lh_extraSize :: u16

record CentralDirEntry =
  ce_signature :: u32
  ce_versionMade :: u16
  ce_versionNeeded :: u16
  ce_flags :: u16
  ce_compressionMethod :: u16
  ce_modifiedTime :: u16
  ce_modifiedDate :: u16
  ce_crc :: u32
  ce_compressedSize :: u32
  ce_uncompressedSize :: u32
  ce_nameSize :: u16
  ce_extraSize :: u16
  ce_commentSize :: u16
  ce_diskNumStart :: u16
  ce_internalAttr :: u16
  ce_externalAttr :: u32
  ce_localHeaderOffset :: u32

record EndDir =
  ed_signature :: u32
  ed_numDisk :: u16
  ed_startDiskOfCentralDir :: u16
  ed_totalEntriesInThisDisk :: u16
  ed_totalEntries :: u16
  ed_sizeOfCentralDir :: u32
  ed_offset :: u32
  ed_commentLen :: u16

record DataDesc =
  dd_signature :: u32
  dd_crc :: u32
  dd_compressedSize :: u32
  dd_uncompressedSize :: u32

record ZipEntry =
  ze_compressionMethod :: u16
  ze_uncompressedSize :: u32
  ze_compressedSize :: u32
  ze_localHeaderOffset :: u32
  ze_crc :: u32
  ze_flags :: u16
  ze_fileName :: string

text \<open>The sizes of the packed structures, and the structures as they lie in memory.\<close>

definition SIZEOF_LocalHeader :: nat where "SIZEOF_LocalHeader = 30"
definition SIZEOF_CentralDirEntry :: nat where "SIZEOF_CentralDirEntry = 46"
definition SIZEOF_EndDir :: nat where "SIZEOF_EndDir = 22"
definition SIZEOF_DataDesc :: nat where "SIZEOF_DataDesc = 16"

definition LocalHeader_of :: "u8 list \<Rightarrow> LocalHeader" where
  "LocalHeader_of bs =
     \<lparr>lh_signature = of_nat (field bs 0 4), lh_versionNeeded = of_nat (field bs 4 2), lh_flags = of_nat (field bs 6 2),
      lh_compressionMethod = of_nat (field bs 8 2), lh_modifiedTime = of_nat (field bs 10 2),
      lh_modifiedDate = of_nat (field bs 12 2), lh_crc = of_nat (field bs 14 4),
      lh_compressedSize = of_nat (field bs 18 4), lh_uncompressedSize = of_nat (field bs 22 4),
      lh_nameSize = of_nat (field bs 26 2), lh_extraSize = of_nat (field bs 28 2)\<rparr>"

definition CentralDirEntry_of :: "u8 list \<Rightarrow> CentralDirEntry" where
  "CentralDirEntry_of bs =
     \<lparr>ce_signature = of_nat (field bs 0 4), ce_versionMade = of_nat (field bs 4 2),
      ce_versionNeeded = of_nat (field bs 6 2), ce_flags = of_nat (field bs 8 2),
      ce_compressionMethod = of_nat (field bs 10 2), ce_modifiedTime = of_nat (field bs 12 2),
      ce_modifiedDate = of_nat (field bs 14 2), ce_crc = of_nat (field bs 16 4),
      ce_compressedSize = of_nat (field bs 20 4), ce_uncompressedSize = of_nat (field bs 24 4),
      ce_nameSize = of_nat (field bs 28 2), ce_extraSize = of_nat (field bs 30 2),
      ce_commentSize = of_nat (field bs 32 2), ce_diskNumStart = of_nat (field bs 34 2),
      ce_internalAttr = of_nat (field bs 36 2), ce_externalAttr = of_nat (field bs 38 4),
      ce_localHeaderOffset = of_nat (field bs 42 4)\<rparr>"

definition EndDir_of :: "u8 list \<Rightarrow> EndDir" where
  "EndDir_of bs =
     \<lparr>ed_signature = of_nat (field bs 0 4), ed_numDisk = of_nat (field bs 4 2),
      ed_startDiskOfCentralDir = of_nat (field bs 6 2), ed_totalEntriesInThisDisk = of_nat (field bs 8 2),
      ed_totalEntries = of_nat (field bs 10 2), ed_sizeOfCentralDir = of_nat (field bs 12 4),
      ed_offset = of_nat (field bs 16 4), ed_commentLen = of_nat (field bs 20 2)\<rparr>"

definition DataDesc_of :: "u8 list \<Rightarrow> DataDesc" where
  "DataDesc_of bs =
     \<lparr>dd_signature = of_nat (field bs 0 4), dd_crc = of_nat (field bs 4 4),
      dd_compressedSize = of_nat (field bs 8 4), dd_uncompressedSize = of_nat (field bs 12 4)\<rparr>"

definition ZipEntry_of :: "CentralDirEntry \<Rightarrow> ZipEntry" where
  "ZipEntry_of e =
     \<lparr>ze_compressionMethod = ce_compressionMethod e, ze_uncompressedSize = ce_uncompressedSize e,
      ze_compressedSize = ce_compressedSize e, ze_localHeaderOffset = ce_localHeaderOffset e,
      ze_crc = ce_crc e, ze_flags = ce_flags e, ze_fileName = []\<rparr>"

record ZipFile =
  zf_pathName :: string
  zf_file :: "u8 list option"
  zf_endDir :: EndDir
  zf_entriesMap :: "string \<Rightarrow> ZipEntry option"
  zf_centralDirPos :: u64
  zf_fileLength :: u64
  zf_fileNames :: "string list"
  zf_isOpen :: bool

definition ZipFile_new :: "string \<Rightarrow> ZipFile" where
  "ZipFile_new pathName =
     \<lparr>zf_pathName = pathName, zf_file = None, zf_endDir = EndDir_of [], zf_entriesMap = (\<lambda>_. None),
      zf_centralDirPos = 0, zf_fileLength = 0, zf_fileNames = [], zf_isOpen = False\<rparr>"

section \<open>Opening an archive\<close>

definition MAX_FILE_NAME :: nat where "MAX_FILE_NAME = 256"
definition UNZIP_BUF_IN_LEN :: nat where "UNZIP_BUF_IN_LEN = 2048"
definition UNZIP_BUF_OUT_LEN :: nat where "UNZIP_BUF_OUT_LEN = 4096"
definition LOCAL_HEADER_SIGNATURE :: u32 where "LOCAL_HEADER_SIGNATURE = 0x04034b50"
definition CENTRAL_SIGNATURE :: u32 where "CENTRAL_SIGNATURE = 0x02014b50"
definition EOCD_SIGNATURE :: u32 where "EOCD_SIGNATURE = 0x06054b50"
definition DATA_DESC_SIGNATURE :: u32 where "DATA_DESC_SIGNATURE = 0x08074b50"
definition FLAG_DATA_DESC :: u16 where "FLAG_DATA_DESC = 0x8"
definition INFLATE_ERROR_TIMES :: nat where "INFLATE_ERROR_TIMES = 5"
definition Z_DEFLATED :: u16 where "Z_DEFLATED = 8"
definition PATH_MAX :: nat where "PATH_MAX = 4096"

text \<open>The macro \<open>ZIPPOS_ADD_AND_CHECK_OVERFLOW\<close>: \<open>None\<close> is its \<open>return false\<close>.\<close>

definition zippos_add :: "u64 \<Rightarrow> u64 \<Rightarrow> u64 option" where
  "zippos_add a b = (if b > 0 \<and> a > - 1 - b then None else Some (a + b))"

text \<open>The sum of the offset, the size and the length of the structure has the 32 bits of its operands.\<close>

definition CheckEndDir :: "ZipFile \<Rightarrow> EndDir \<Rightarrow> bool" where
  "CheckEndDir z e =
     (\<not> (ed_numDisk e \<noteq> 0 \<or>
         ed_signature e \<noteq> EOCD_SIGNATURE \<or>
         ed_startDiskOfCentralDir e \<noteq> 0 \<or>
         ucast (ed_offset e) \<ge> zf_fileLength z \<or>
         ed_totalEntriesInThisDisk e \<noteq> ed_totalEntries e \<or>
         ed_commentLen e \<noteq> 0 \<or>
         ucast (ed_offset e + ed_sizeOfCentralDir e + of_nat SIZEOF_EndDir) > zf_fileLength z))"

definition ParseEndDirectory :: "u8 list \<Rightarrow> ZipFile \<Rightarrow> bool \<times> ZipFile" where
  "ParseEndDirectory f z =
     (if zf_fileLength z \<le> of_nat SIZEOF_EndDir then (False, z)
      else case fseek (zf_fileLength z - of_nat SIZEOF_EndDir) of
          None \<Rightarrow> (False, z)
        | Some pos \<Rightarrow> (case fread_item f pos SIZEOF_EndDir of
              None \<Rightarrow> (False, z)
            | Some bs \<Rightarrow> (let e = EndDir_of bs; z = z\<lparr>zf_endDir := e, zf_centralDirPos := ucast (ed_offset e)\<rparr> in
                (CheckEndDir z e, z))))"

text \<open>
  One round of the loop of \<open>ParseAllEntries\<close>: what it reads at the position of the entry, or \<open>None\<close> where it
  breaks off; then the position of the next entry, or \<open>None\<close> where the loop ends with \<open>false\<close>.
\<close>

definition read_entry :: "u8 list \<Rightarrow> u64 \<Rightarrow> (CentralDirEntry \<times> string) option" where
  "read_entry f currentPos = do {
     pos \<leftarrow> fseek currentPos;
     bs \<leftarrow> fread_item f pos SIZEOF_CentralDirEntry;
     let e = CentralDirEntry_of bs;
     if ce_signature e \<noteq> CENTRAL_SIGNATURE then None
     else do {
       let fileLength = (if unat (ce_nameSize e) \<ge> MAX_FILE_NAME then MAX_FILE_NAME - 1 else unat (ce_nameSize e));
       name \<leftarrow> fread_item f (pos + SIZEOF_CentralDirEntry) fileLength;
       Some (e, chars name) } }"

definition dir_entry :: "u8 list \<Rightarrow> u64 \<Rightarrow> ZipFile \<Rightarrow> u64 option \<times> ZipFile" where
  "dir_entry f currentPos z =
     (case read_entry f currentPos of
        None \<Rightarrow> (None, z)
      | Some (e, fileName) \<Rightarrow>
          (do { p \<leftarrow> zippos_add currentPos (of_nat SIZEOF_CentralDirEntry);
                p \<leftarrow> zippos_add p (ucast (ce_nameSize e));
                p \<leftarrow> zippos_add p (ucast (ce_extraSize e));
                zippos_add p (ucast (ce_commentSize e)) },
           z\<lparr>zf_entriesMap := (zf_entriesMap z)(fileName \<mapsto> (ZipEntry_of e)\<lparr>ze_fileName := fileName\<rparr>),
             zf_fileNames := zf_fileNames z @ [fileName]\<rparr>))"

fun dir_entries_loop :: "u8 list \<Rightarrow> nat \<Rightarrow> u64 \<Rightarrow> ZipFile \<Rightarrow> bool \<times> ZipFile" where
  "dir_entries_loop f 0 currentPos z = (True, z)"
| "dir_entries_loop f (Suc k) currentPos z =
     (case dir_entry f currentPos z of
        (None, z) \<Rightarrow> (False, z)
      | (Some currentPos, z) \<Rightarrow> dir_entries_loop f k currentPos z)"

definition ParseAllEntries :: "u8 list \<Rightarrow> ZipFile \<Rightarrow> bool \<times> ZipFile" where
  "ParseAllEntries f z = dir_entries_loop f (unat (ed_totalEntries (zf_endDir z))) (zf_centralDirPos z) z"

text \<open>
  What \<open>Open\<close> asks the file system: the real path, and the content of a file that can be opened. A file whose
  length is not a \<open>long\<close> cannot be sought to its end.
\<close>

record files =
  fs_realpath :: "string \<Rightarrow> string option"
  fs_fopen :: "string \<Rightarrow> u8 list option"

definition Open :: "files \<Rightarrow> ZipFile \<Rightarrow> bool \<times> ZipFile" where
  "Open fs z =
     (if zf_isOpen z then (True, z)
      else if length (zf_pathName z) > PATH_MAX then (False, z)
      else case fs_realpath fs (zf_pathName z) of
          None \<Rightarrow> (False, z)
        | Some realPath \<Rightarrow> (case fs_fopen fs realPath of
            None \<Rightarrow> (False, z)
          | Some f \<Rightarrow>
              if length f \<ge> 2 ^ 31 then (False, z)
              else let z = z\<lparr>zf_fileLength := if zf_fileLength z = 0 then of_nat (length f) else zf_fileLength z,
                             zf_file := Some f\<rparr>;
                       (result, z) = ParseEndDirectory f z;
                       (result, z) = (if result then ParseAllEntries f z else (result, z)) in
                (result, z\<lparr>zf_isOpen := True\<rparr>)))"

definition Close :: "ZipFile \<Rightarrow> ZipFile" where
  "Close z =
     (if \<not> zf_isOpen z \<or> zf_file z = None then z
      else z\<lparr>zf_entriesMap := (\<lambda>_. None), zf_fileNames := [], zf_pathName := [], zf_isOpen := False, zf_file := None\<rparr>)"

definition GetEntry :: "ZipFile \<Rightarrow> string \<Rightarrow> ZipEntry option" where
  "GetEntry z entryName = zf_entriesMap z entryName"

section \<open>Extracting a file\<close>

definition GetLocalHeaderSize :: "u16 \<Rightarrow> u16 \<Rightarrow> u32" where
  "GetLocalHeaderSize nameSize extraSize =
     (if of_nat SIZEOF_LocalHeader > - 1 - ucast nameSize - (ucast extraSize :: u32) then 0
      else of_nat SIZEOF_LocalHeader + ucast nameSize + ucast extraSize)"

definition CheckDataDesc :: "u8 list \<Rightarrow> ZipEntry \<Rightarrow> LocalHeader \<Rightarrow> bool" where
  "CheckDataDesc f zipEntry h =
     (let same = (\<lambda>crcLocal compressedLocal uncompressedLocal.
        \<not> (ze_crc zipEntry \<noteq> crcLocal \<or> ze_compressedSize zipEntry \<noteq> compressedLocal \<or>
           ze_uncompressedSize zipEntry \<noteq> uncompressedLocal)) in
      if lh_flags h AND FLAG_DATA_DESC \<noteq> 0
      then let localHeaderSize = GetLocalHeaderSize (lh_nameSize h) (lh_extraSize h) in
        if localHeaderSize = 0 then False
        else case do { p \<leftarrow> zippos_add (ucast (ze_localHeaderOffset zipEntry)) (ucast localHeaderSize);
                       p \<leftarrow> zippos_add p (ucast (ze_compressedSize zipEntry));
                       pos \<leftarrow> fseek p;
                       fread_item f pos SIZEOF_DataDesc } of
            None \<Rightarrow> False
          | Some bs \<Rightarrow> (let d = DataDesc_of bs in
              if dd_signature d \<noteq> DATA_DESC_SIGNATURE then False
              else same (dd_crc d) (dd_compressedSize d) (dd_uncompressedSize d))
      else same (lh_crc h) (lh_compressedSize h) (lh_uncompressedSize h))"

text \<open>The size of the extra field, or \<open>None\<close> where the source answers \<open>false\<close>.\<close>

definition CheckCoherencyLocalHeader :: "u8 list \<Rightarrow> ZipFile \<Rightarrow> ZipEntry \<Rightarrow> u16 option" where
  "CheckCoherencyLocalHeader f z zipEntry =
     (if ucast (ze_localHeaderOffset zipEntry) \<ge> zf_fileLength z then None
      else do {
        pos \<leftarrow> fseek (ucast (ze_localHeaderOffset zipEntry));
        bs \<leftarrow> fread_item f pos SIZEOF_LocalHeader;
        let h = LocalHeader_of bs;
        if lh_signature h \<noteq> LOCAL_HEADER_SIGNATURE \<or> ze_compressionMethod zipEntry \<noteq> lh_compressionMethod h then None
        else if ze_compressionMethod zipEntry \<noteq> Z_DEFLATED \<and> ze_compressionMethod zipEntry \<noteq> 0 then None
        else let fileLength = (if unat (lh_nameSize h) \<ge> MAX_FILE_NAME then MAX_FILE_NAME - 1 else unat (lh_nameSize h)) in
        if fileLength \<noteq> length (ze_fileName zipEntry) then None
        else do {
          name \<leftarrow> fread_item f (pos + SIZEOF_LocalHeader) fileLength;
          if ze_fileName zipEntry \<noteq> chars name then None
          else if \<not> CheckDataDesc f zipEntry h then None
          else Some (lh_extraSize h) } })"

definition SeekToEntryStart :: "ZipFile \<Rightarrow> ZipEntry \<Rightarrow> u16 \<Rightarrow> nat option" where
  "SeekToEntryStart z zipEntry extraSize =
     (let localHeaderSize = GetLocalHeaderSize (of_nat (length (ze_fileName zipEntry))) extraSize in
      if localHeaderSize = 0 then None
      else do {
        startOffset \<leftarrow> zippos_add (ucast (ze_localHeaderOffset zipEntry)) (ucast localHeaderSize);
        zipEntryPos \<leftarrow> zippos_add startOffset (ucast (ze_compressedSize zipEntry));
        if zipEntryPos > zf_fileLength z then None else fseek startOffset })"

text \<open>
  The loop of \<open>UnzipWithStore\<close>: \<open>out\<close> is what was written. The last byte of a full buffer lies where the string
  keeps its terminator, inside the space it has reserved.
\<close>

function store_loop :: "u8 list \<Rightarrow> nat \<Rightarrow> nat \<Rightarrow> u8 list \<Rightarrow> bool \<times> u8 list" where
  "store_loop f pos remainSize out =
     (if remainSize = 0 then (True, out)
      else let readLen = (if remainSize > UNZIP_BUF_OUT_LEN then UNZIP_BUF_OUT_LEN else remainSize);
               bs = take readLen (drop pos f) in
        if bs = [] then (False, out)
        else store_loop f (pos + length bs) (remainSize - length bs) (out @ bs))"
  by pat_completeness auto
termination by (relation "measure (\<lambda>(f, pos, remainSize, out). remainSize)") auto

declare store_loop.simps [simp del]

definition UnzipWithStore :: "u8 list \<Rightarrow> ZipFile \<Rightarrow> ZipEntry \<Rightarrow> u16 \<Rightarrow> bool \<times> u8 list" where
  "UnzipWithStore f z zipEntry extraSize =
     (case SeekToEntryStart z zipEntry extraSize of
        None \<Rightarrow> (False, [])
      | Some pos \<Rightarrow> store_loop f pos (unat (ze_compressedSize zipEntry)) [])"

text \<open>
  \<open>zlib\<close>: \<open>inflateInit2\<close>, \<open>inflate\<close> on the input that is available and an empty output buffer, with its code, the
  input that is left and what it put into the buffer, and \<open>inflateEnd\<close>.
\<close>

record 'z zlib =
  zl_init :: "'z option"
  zl_inflate :: "u8 list \<Rightarrow> 'z \<Rightarrow> int \<times> u8 list \<times> u8 list \<times> 'z"
  zl_end :: "'z \<Rightarrow> int"

definition ReadZStream :: "u8 list \<Rightarrow> nat \<Rightarrow> nat \<Rightarrow> u8 list \<Rightarrow> (nat \<times> nat \<times> u8 list) option" where
  "ReadZStream f pos remain inp =
     (if inp = []
      then let remainBytes = (if remain > UNZIP_BUF_IN_LEN then UNZIP_BUF_IN_LEN else remain);
               bs = take remainBytes (drop pos f) in
        if bs = [] then None else Some (pos + length bs, remain - length bs, bs)
      else Some (pos, remain, inp))"

partial_function (option) inflate_loop ::
    "'z zlib \<Rightarrow> u8 list \<Rightarrow> nat \<Rightarrow> nat \<Rightarrow> u8 list \<Rightarrow> 'z \<Rightarrow> nat \<Rightarrow> u8 list \<Rightarrow> (bool \<times> 'z \<times> u8 list) option" where
  "inflate_loop Z f pos remain inp zs errorTimes out =
     (if remain = 0 \<and> inp = [] then Some (True, zs, out)
      else case ReadZStream f pos remain inp of
          None \<Rightarrow> Some (False, zs, out)
        | Some (pos, remain, inp) \<Rightarrow>
            (let (zlibErr, inp, inflated, zs) = zl_inflate Z inp zs in
             if zlibErr < 0 then Some (False, zs, out)
             else let errorTimes = (if inflated \<noteq> [] then 0 else errorTimes + 1); out = out @ inflated in
             if errorTimes \<ge> INFLATE_ERROR_TIMES then Some (False, zs, out)
             else inflate_loop Z f pos remain inp zs errorTimes out))"

declare inflate_loop.simps [code]

definition UnzipWithInflated :: "'z zlib \<Rightarrow> u8 list \<Rightarrow> ZipFile \<Rightarrow> ZipEntry \<Rightarrow> u16 \<Rightarrow> (bool \<times> u8 list) option" where
  "UnzipWithInflated Z f z zipEntry extraSize =
     (case SeekToEntryStart z zipEntry extraSize of
        None \<Rightarrow> Some (False, [])
      | Some pos \<Rightarrow> (case zl_init Z of
          None \<Rightarrow> Some (False, [])
        | Some zs \<Rightarrow> do {
            (ret, zs, out) \<leftarrow> inflate_loop Z f pos (unat (ze_compressedSize zipEntry)) [] zs 0 [];
            Some (if zl_end Z zs \<noteq> 0 then (False, out) else (ret, out)) }))"

text \<open>An entry is only found while the file is open, so a missing file is an undefined access.\<close>

definition ExtractFile :: "'z zlib \<Rightarrow> ZipFile \<Rightarrow> string \<Rightarrow> (bool \<times> u8 list) option" where
  "ExtractFile Z z file =
     (case GetEntry z file of
        None \<Rightarrow> Some (False, [])
      | Some zipEntry \<Rightarrow> do {
          f \<leftarrow> zf_file z;
          case CheckCoherencyLocalHeader f z zipEntry of
            None \<Rightarrow> Some (False, [])
          | Some extraSize \<Rightarrow>
              if ze_compressionMethod zipEntry = 0 then Some (UnzipWithStore f z zipEntry extraSize)
              else UnzipWithInflated Z f z zipEntry extraSize })"

section \<open>The extractor\<close>

record ExtractorUtil =
  eu_zipFile :: ZipFile
  eu_initial :: bool

definition ExtractorUtil_new :: "string \<Rightarrow> ExtractorUtil" where
  "ExtractorUtil_new filePath = \<lparr>eu_zipFile = ZipFile_new filePath, eu_initial = False\<rparr>"

definition Init :: "files \<Rightarrow> ExtractorUtil \<Rightarrow> bool \<times> ExtractorUtil" where
  "Init fs u =
     (let (ok, z) = Open fs (eu_zipFile u) in
      if \<not> ok then (False, u\<lparr>eu_zipFile := z\<rparr>) else (True, u\<lparr>eu_zipFile := z, eu_initial := True\<rparr>))"

definition ExtractFileByName :: "'z zlib \<Rightarrow> ExtractorUtil \<Rightarrow> string \<Rightarrow> (bool \<times> u8 list) option" where
  "ExtractFileByName Z u fileName =
     (if \<not> eu_initial u then Some (False, [])
      else do { (ok, dest) \<leftarrow> ExtractFile Z (eu_zipFile u) fileName; Some (ok, dest) })"

definition GetZipFileNames :: "ExtractorUtil \<Rightarrow> string list" where
  "GetZipFileNames u = zf_fileNames (eu_zipFile u)"

definition ExtractHapProfile :: "'z zlib \<Rightarrow> files \<Rightarrow> string \<Rightarrow> (errcode \<times> string) option" where
  "ExtractHapProfile Z fs hapFile =
     (let (ok, u) = Init fs (ExtractorUtil_new hapFile) in
      if \<not> ok then Some (ERR_INSTALL_FAILED_EXTRACTOR_NOT_INIT, [])
      else do {
        (ok, profileStream) \<leftarrow> ExtractFileByName Z u ''config.json'';
        Some (if \<not> ok then ERR_INSTALL_FAILED_PARSE_PROFILE_ERROR else ERR_OK, chars profileStream) })"

end
