(* ===== verification/Zip_Correct.thy ===== *)
theory Zip_Correct
  imports Zip_File
begin

text \<open>
  The archive reader is correct: an archive laid out as the format says is read back, whatever an archive holds
  the entries that are listed are well formed and extraction stays inside the file, and the loop over a compressed
  entry ends.
\<close>

section \<open>Facts about bytes and positions\<close>

primrec le_bytes :: "nat \<Rightarrow> nat \<Rightarrow> u8 list" where
  "le_bytes 0 v = []"
| "le_bytes (Suc n) v = of_nat (v mod 256) # le_bytes n (v div 256)"

lemma length_le_bytes [simp]: "length (le_bytes n v) = n"
  by (induction n arbitrary: v) auto

lemma le_nat_bytes: "le_nat (le_bytes n v) = v mod 256 ^ n"
proof (induction n arbitrary: v)
  case 0
  then show ?case by simp
next
  case (Suc n)
  have "v mod (256 * 256 ^ n) = 256 * (v div 256 mod 256 ^ n) + v mod 256"
    by (rule mod_mult2_eq)
  then show ?case by (simp add: Suc.IH unat_of_nat)
qed

lemma zippos_add_nat:
  assumes "a + b < 2 ^ 64"
  shows "zippos_add (of_nat a) (of_nat b) = Some (of_nat (a + b))"
proof -
  have u: "unat (of_nat a :: u64) = a" "unat (of_nat b :: u64) = b"
    using assms by (simp_all add: unat_of_nat)
  have "unat (- 1 - of_nat b :: u64) = 2 ^ 64 - 1 - b"
    using assms by (simp add: unat_sub_if_size word_size unsigned_minus_1_eq_mask mask_eq_exp_minus_1 u)
  then have "\<not> (of_nat a :: u64) > - 1 - of_nat b"
    using assms by (simp add: word_less_nat_alt u)
  then show ?thesis by (simp add: zippos_add_def)
qed

lemma sint_neg32: "sint (w :: u32) < 0 \<longleftrightarrow> 2 ^ 31 \<le> unat w"
proof -
  have "unat w < 2 ^ 32" using unsigned_less[of w] by simp
  then have "unat w div 2 ^ 31 < 2" by simp
  then have "odd (unat w div 2 ^ 31) \<longleftrightarrow> 2 ^ 31 \<le> unat w"
    by (cases "unat w div 2 ^ 31 = 0") (auto simp: div_eq_0_iff less_2_cases_iff)
  moreover have "sint w < 0 \<longleftrightarrow> bit w 31" using bit_last_iff[of w] by simp
  moreover have "bit w 31 \<longleftrightarrow> odd (unat w div 2 ^ 31)"
    using bit_unsigned_iff[of w 31, where ?'a = nat] unfolding bit_iff_odd[of "unat w" 31] by simp
  ultimately show ?thesis by simp
qed

lemma fseek_nat: "p < 2 ^ 31 \<Longrightarrow> fseek (of_nat p) = Some p"
  by (simp add: fseek_def Let_def sint_neg32 unsigned_ucast_eq unat_of_nat take_bit_eq_mod)

lemma fseek_less: "fseek p = Some n \<Longrightarrow> n < 2 ^ 31"
  by (auto simp: fseek_def Let_def sint_neg32 split: if_splits)

lemma fread_item_Some: "fread_item f pos n = Some bs \<longleftrightarrow> 0 < n \<and> pos + n \<le> length f \<and> bs = take n (drop pos f)"
  by (auto simp: fread_item_def)

lemma fread_item_length: "fread_item f pos n = Some bs \<Longrightarrow> 0 < n \<and> length bs = n"
  by (auto simp: fread_item_Some)

lemma length_chars [simp]: "length (chars bs) = length bs"
  by (simp add: chars_def)

lemma chars_Nil [simp]: "chars bs = [] \<longleftrightarrow> bs = []"
  by (simp add: chars_def)

lemma chars_inject: "chars a = chars b \<longleftrightarrow> a = b"
proof
  have inj: "inj (\<lambda>b :: u8. char_of (unat b))"
  proof (rule injI)
    fix x y :: u8
    assume "char_of (unat x) = (char_of (unat y) :: char)"
    then have "unat x mod 256 = unat y mod 256"
      by (metis char_of_eq_iff of_char_of)
    then show "x = y"
      using unsigned_less[of x, where ?'a = nat] unsigned_less[of y, where ?'a = nat] by (simp add: word_unat_eq_iff)
  qed
  assume "chars a = chars b"
  then show "a = b" unfolding chars_def using inj by (metis inj_map_eq_map)
qed simp

section \<open>A writer for archives\<close>

text \<open>
  The layout of an archive whose files are stored without compression, field by field as the comments of
  \<^verbatim>\<open>zip_file.h\<close> list them: the local headers with their files, the central directory, the end of the directory.
\<close>

record member =
  mb_name :: "u8 list"
  mb_data :: "u8 list"
  mb_crc :: nat

definition local_header :: "member \<Rightarrow> u8 list" where
  "local_header e =
     le_bytes 4 0x04034b50 @ le_bytes 2 10 @ le_bytes 2 0 @ le_bytes 2 0 @ le_bytes 2 0 @ le_bytes 2 0 @
     le_bytes 4 (mb_crc e) @ le_bytes 4 (length (mb_data e)) @ le_bytes 4 (length (mb_data e)) @
     le_bytes 2 (length (mb_name e)) @ le_bytes 2 0"

definition local_file :: "member \<Rightarrow> u8 list" where
  "local_file e = local_header e @ mb_name e @ mb_data e"

definition central_header :: "nat \<Rightarrow> member \<Rightarrow> u8 list" where
  "central_header off e =
     le_bytes 4 0x02014b50 @ le_bytes 2 10 @ le_bytes 2 10 @ le_bytes 2 0 @ le_bytes 2 0 @ le_bytes 2 0 @ le_bytes 2 0 @
     le_bytes 4 (mb_crc e) @ le_bytes 4 (length (mb_data e)) @ le_bytes 4 (length (mb_data e)) @
     le_bytes 2 (length (mb_name e)) @ le_bytes 2 0 @ le_bytes 2 0 @ le_bytes 2 0 @ le_bytes 2 0 @ le_bytes 4 0 @
     le_bytes 4 off"

fun central_dir :: "nat \<Rightarrow> member list \<Rightarrow> u8 list" where
  "central_dir off [] = []"
| "central_dir off (e # es) = central_header off e @ mb_name e @ central_dir (off + length (local_file e)) es"

definition local_files :: "member list \<Rightarrow> u8 list" where
  "local_files es = concat (map local_file es)"

definition end_dir :: "member list \<Rightarrow> u8 list" where
  "end_dir es =
     le_bytes 4 0x06054b50 @ le_bytes 2 0 @ le_bytes 2 0 @ le_bytes 2 (length es) @ le_bytes 2 (length es) @
     le_bytes 4 (length (central_dir 0 es)) @ le_bytes 4 (length (local_files es)) @ le_bytes 2 0"

definition archive :: "member list \<Rightarrow> u8 list" where
  "archive es = local_files es @ central_dir 0 es @ end_dir es"

text \<open>The members an archive may have: names of 1 to 255 bytes, all different, and a file of less than 2 GiB.\<close>

definition members_ok :: "member list \<Rightarrow> bool" where
  "members_ok es \<longleftrightarrow>
     list_all (\<lambda>e. 0 < length (mb_name e) \<and> length (mb_name e) < MAX_FILE_NAME \<and> mb_crc e < 2 ^ 32) es \<and>
     distinct (map mb_name es) \<and> 0 < length es \<and> length es < 2 ^ 16 \<and> length (archive es) < 2 ^ 31"

section \<open>What the reader sees of a written structure\<close>

lemmas sizeof_defs = SIZEOF_LocalHeader_def SIZEOF_CentralDirEntry_def SIZEOF_EndDir_def SIZEOF_DataDesc_def

lemma length_local_header [simp]: "length (local_header e) = 30"
  by (simp add: local_header_def)

lemma length_central_header [simp]: "length (central_header off e) = 46"
  by (simp add: central_header_def)

lemma length_end_dir [simp]: "length (end_dir es) = 22"
  by (simp add: end_dir_def)

lemma length_central_dir: "length (central_dir off es) = (\<Sum>e\<leftarrow>es. 46 + length (mb_name e))"
  by (induction es arbitrary: off) auto

definition stored_entry :: "nat \<Rightarrow> member \<Rightarrow> ZipEntry" where
  "stored_entry off e =
     \<lparr>ze_compressionMethod = 0, ze_uncompressedSize = of_nat (length (mb_data e)),
      ze_compressedSize = of_nat (length (mb_data e)), ze_localHeaderOffset = of_nat off,
      ze_crc = of_nat (mb_crc e), ze_flags = 0, ze_fileName = chars (mb_name e)\<rparr>"

fun table :: "nat \<Rightarrow> member list \<Rightarrow> (string \<times> ZipEntry) list" where
  "table off [] = []"
| "table off (e # es) = (chars (mb_name e), stored_entry off e) # table (off + length (local_file e)) es"

lemma of_nat_mod_word32: "(of_nat (v mod 256 ^ 4) :: u32) = of_nat v"
  by (simp add: word_unat_eq_iff unat_of_nat take_bit_eq_mod)

lemma of_nat_mod_word16: "(of_nat (v mod 256 ^ 2) :: u16) = of_nat v"
  by (simp add: word_unat_eq_iff unat_of_nat take_bit_eq_mod)

lemma field_le:
  "length a = o1 \<Longrightarrow> field (a @ le_bytes n v @ b) o1 n = v mod 256 ^ n"
  by (simp add: field_def le_nat_bytes)

lemma LocalHeader_of_written:
  "LocalHeader_of (local_header e) =
     \<lparr>lh_signature = LOCAL_HEADER_SIGNATURE, lh_versionNeeded = 10, lh_flags = 0, lh_compressionMethod = 0,
      lh_modifiedTime = 0, lh_modifiedDate = 0, lh_crc = of_nat (mb_crc e),
      lh_compressedSize = of_nat (length (mb_data e)), lh_uncompressedSize = of_nat (length (mb_data e)),
      lh_nameSize = of_nat (length (mb_name e)), lh_extraSize = 0\<rparr>"
  by (simp add: LocalHeader_of_def local_header_def field_def le_nat_bytes LOCAL_HEADER_SIGNATURE_def
      of_nat_mod_word32[simplified] of_nat_mod_word16[simplified])

lemma CentralDirEntry_of_written:
  "CentralDirEntry_of (central_header off e) =
     \<lparr>ce_signature = CENTRAL_SIGNATURE, ce_versionMade = 10, ce_versionNeeded = 10, ce_flags = 0,
      ce_compressionMethod = 0, ce_modifiedTime = 0, ce_modifiedDate = 0, ce_crc = of_nat (mb_crc e),
      ce_compressedSize = of_nat (length (mb_data e)), ce_uncompressedSize = of_nat (length (mb_data e)),
      ce_nameSize = of_nat (length (mb_name e)), ce_extraSize = 0, ce_commentSize = 0, ce_diskNumStart = 0,
      ce_internalAttr = 0, ce_externalAttr = 0, ce_localHeaderOffset = of_nat off\<rparr>"
  by (simp add: CentralDirEntry_of_def central_header_def field_def le_nat_bytes CENTRAL_SIGNATURE_def
      of_nat_mod_word32[simplified] of_nat_mod_word16[simplified])

lemma EndDir_of_written:
  "EndDir_of (end_dir es) =
     \<lparr>ed_signature = EOCD_SIGNATURE, ed_numDisk = 0, ed_startDiskOfCentralDir = 0,
      ed_totalEntriesInThisDisk = of_nat (length es), ed_totalEntries = of_nat (length es),
      ed_sizeOfCentralDir = of_nat (length (central_dir 0 es)), ed_offset = of_nat (length (local_files es)),
      ed_commentLen = 0\<rparr>"
  by (simp add: EndDir_of_def end_dir_def field_def le_nat_bytes EOCD_SIGNATURE_def
      of_nat_mod_word32[simplified] of_nat_mod_word16[simplified])

lemma fread_item_at: "0 < length m \<Longrightarrow> length a = pos \<Longrightarrow> n = length m \<Longrightarrow> fread_item (a @ m @ b) pos n = Some m"
  by (simp add: fread_item_def)

lemma dir_entries_loop_written:
  assumes "\<forall>e \<in> set es. 0 < length (mb_name e) \<and> length (mb_name e) < MAX_FILE_NAME"
    and "length (a @ central_dir off es @ b) < 2 ^ 31"
  shows "dir_entries_loop (a @ central_dir off es @ b) (length es) (of_nat (length a)) z =
    (True, z\<lparr>zf_entriesMap := zf_entriesMap z ++ map_of (rev (table off es)),
             zf_fileNames := zf_fileNames z @ map (\<lambda>e. chars (mb_name e)) es\<rparr>)"
  using assms
proof (induction es arbitrary: a off z)
  case Nil
  then show ?case by simp
next
  case (Cons e es)
  let ?n = "length (mb_name e)" and ?off = "off + length (local_file e)"
  let ?a = "a @ central_header off e @ mb_name e"
  let ?f = "a @ central_dir off (e # es) @ b"
  have n: "0 < ?n" "?n < 256" using Cons.prems(1) by (simp_all add: MAX_FILE_NAME_def)
  then have nw: "unat (of_nat ?n :: u16) = ?n" by (simp add: unat_of_nat)
  have f: "?f = ?a @ central_dir ?off es @ b" by simp
  have len: "length a + 46 + ?n < 2 ^ 31" using Cons.prems(2) by simp
  have seek: "fseek (of_nat (length a)) = Some (length a)" using len by (intro fseek_nat) simp
  have head: "fread_item ?f (length a) SIZEOF_CentralDirEntry = Some (central_header off e)"
    by (simp add: sizeof_defs fread_item_def)
  have name: "fread_item ?f (length a + SIZEOF_CentralDirEntry) ?n = Some (mb_name e)"
    using n by (simp add: sizeof_defs fread_item_def)
  have wide: "ucast (of_nat ?n :: u16) = (of_nat ?n :: u64)"
    using n by (simp add: word_unat_eq_iff unat_of_nat unsigned_ucast_eq take_bit_eq_mod)
  have one: "zippos_add (of_nat (length a)) (of_nat 46) = Some (of_nat (length a + 46))"
    using len by (intro zippos_add_nat) simp
  have two: "zippos_add (of_nat (length a + 46)) (of_nat ?n) = Some (of_nat (length a + 46 + ?n))"
    using len by (intro zippos_add_nat) simp
  have nil: "zippos_add p (ucast (0 :: u16)) = Some p" for p by (simp add: zippos_add_def)
  have go: "do { p \<leftarrow> zippos_add (of_nat (length a)) (of_nat SIZEOF_CentralDirEntry);
                 p \<leftarrow> zippos_add p (ucast (of_nat ?n :: u16)); p \<leftarrow> zippos_add p (ucast (0 :: u16));
                 zippos_add p (ucast (0 :: u16)) } = Some (of_nat (length ?a))"
    unfolding sizeof_defs one wide by (simp add: two[simplified] nil[simplified] add.assoc)
  let ?z = "z\<lparr>zf_entriesMap := (zf_entriesMap z)(chars (mb_name e) \<mapsto> stored_entry off e),
             zf_fileNames := zf_fileNames z @ [chars (mb_name e)]\<rparr>"
  have entry: "(ZipEntry_of (CentralDirEntry_of (central_header off e)))\<lparr>ze_fileName := chars (mb_name e)\<rparr> = stored_entry off e"
    by (simp add: CentralDirEntry_of_written ZipEntry_of_def stored_entry_def)
  have "dir_entry ?f (of_nat (length a)) z = (Some (of_nat (length ?a)), ?z)"
    using n by (simp add: dir_entry_def read_entry_def seek head name nw MAX_FILE_NAME_def entry[simplified CentralDirEntry_of_written]
        CentralDirEntry_of_written Let_def go[simplified] del: central_dir.simps)
  then have "dir_entries_loop ?f (length (e # es)) (of_nat (length a)) z = dir_entries_loop ?f (length es) (of_nat (length ?a)) ?z"
    by simp
  also have "\<dots> = (True, ?z\<lparr>zf_entriesMap := zf_entriesMap ?z ++ map_of (rev (table ?off es)),
             zf_fileNames := zf_fileNames ?z @ map (\<lambda>e. chars (mb_name e)) es\<rparr>)"
    unfolding f using Cons.prems by (intro Cons.IH) simp_all
  finally show ?case by simp
qed

section \<open>Reading a written archive back\<close>

lemma of_nat_le_word64: "a < 2 ^ 64 \<Longrightarrow> b < 2 ^ 64 \<Longrightarrow> (of_nat a :: u64) \<le> of_nat b \<longleftrightarrow> a \<le> b"
  by (simp add: word_le_nat_alt unat_of_nat)

lemma of_nat_less_word64: "a < 2 ^ 64 \<Longrightarrow> b < 2 ^ 64 \<Longrightarrow> (of_nat a :: u64) < of_nat b \<longleftrightarrow> a < b"
  by (simp add: word_less_nat_alt unat_of_nat)

lemma ucast_of_nat_32_64: "a < 2 ^ 32 \<Longrightarrow> (ucast (of_nat a :: u32) :: u64) = of_nat a"
  by (simp add: word_unat_eq_iff unat_of_nat unsigned_ucast_eq take_bit_eq_mod)

lemma length_archive: "length (archive es) = length (local_files es) + length (central_dir 0 es) + 22"
  by (simp add: archive_def)

definition opened :: "string \<Rightarrow> member list \<Rightarrow> ZipFile" where
  "opened pathName es =
     \<lparr>zf_pathName = pathName, zf_file = Some (archive es), zf_endDir = EndDir_of (end_dir es),
      zf_entriesMap = map_of (rev (table 0 es)), zf_centralDirPos = of_nat (length (local_files es)),
      zf_fileLength = of_nat (length (archive es)), zf_fileNames = map (\<lambda>e. chars (mb_name e)) es, zf_isOpen = True\<rparr>"

lemma ParseEndDirectory_written:
  assumes "members_ok es" and "zf_fileLength z = of_nat (length (archive es))"
  shows "ParseEndDirectory (archive es) z =
    (True, z\<lparr>zf_endDir := EndDir_of (end_dir es), zf_centralDirPos := of_nat (length (local_files es))\<rparr>)"
proof -
  let ?l = "length (local_files es)" and ?c = "length (central_dir 0 es)"
  have total: "?l + ?c + 22 < 2 ^ 31" and some: "es \<noteq> []"
    using assms(1) by (auto simp: members_ok_def length_archive)
  have c: "0 < ?c" using some by (cases es) simp_all
  have long: "\<not> of_nat (length (archive es)) \<le> (of_nat SIZEOF_EndDir :: u64)"
    using total c by (subst of_nat_le_word64) (simp_all add: length_archive sizeof_defs)
  have pos: "of_nat (length (archive es)) - (of_nat SIZEOF_EndDir :: u64) = of_nat (?l + ?c)"
    by (simp add: length_archive sizeof_defs)
  have seek: "fseek (of_nat (?l + ?c)) = Some (?l + ?c)"
    using total by (intro fseek_nat) simp
  have read: "fread_item (archive es) (?l + ?c) SIZEOF_EndDir = Some (end_dir es)"
    by (simp add: fread_item_def archive_def sizeof_defs)
  have off: "(ucast (of_nat ?l :: u32) :: u64) = of_nat ?l"
    using total by (intro ucast_of_nat_32_64) simp
  have "(of_nat ?l + of_nat ?c + of_nat SIZEOF_EndDir :: u32) = of_nat (?l + ?c + 22)"
    by (simp add: sizeof_defs)
  then have sum: "(ucast (of_nat ?l + of_nat ?c + of_nat SIZEOF_EndDir :: u32) :: u64) = of_nat (length (archive es))"
    using total by (simp only: length_archive) (subst ucast_of_nat_32_64, simp_all)
  have below: "\<not> of_nat ?l \<ge> (of_nat (length (archive es)) :: u64)"
    using total by (subst of_nat_le_word64) (simp_all add: length_archive)
  have check: "CheckEndDir (z\<lparr>zf_endDir := e, zf_centralDirPos := p\<rparr>) (EndDir_of (end_dir es))" for e p
    using below by (simp add: CheckEndDir_def EndDir_of_written assms(2) off sum)
  show ?thesis
    unfolding ParseEndDirectory_def assms(2) if_not_P[OF long] pos seek option.case read
    by (simp add: Let_def check) (simp add: EndDir_of_written off)
qed

lemma Open_written:
  assumes "members_ok es" "length p \<le> PATH_MAX" "fs_realpath fs p = Some r" "fs_fopen fs r = Some (archive es)"
  shows "Open fs (ZipFile_new p) = (True, opened p es)"
proof -
  have total: "length (archive es) < 2 ^ 31" and n: "length es < 2 ^ 16"
    and names: "\<forall>e \<in> set es. 0 < length (mb_name e) \<and> length (mb_name e) < MAX_FILE_NAME"
    using assms(1) by (auto simp: members_ok_def list_all_iff)
  let ?z = "\<lparr>zf_pathName = p, zf_file = Some (archive es), zf_endDir = EndDir_of [], zf_entriesMap = (\<lambda>_. None),
      zf_centralDirPos = 0, zf_fileLength = of_nat (length (archive es)), zf_fileNames = [], zf_isOpen = False\<rparr>"
  have eod: "ParseEndDirectory (archive es) ?z =
    (True, ?z\<lparr>zf_endDir := EndDir_of (end_dir es), zf_centralDirPos := of_nat (length (local_files es))\<rparr>)"
    by (rule ParseEndDirectory_written[OF assms(1)]) simp
  have k: "unat (of_nat (length es) :: u16) = length es" using n by (simp add: unat_of_nat)
  have "dir_entries_loop (local_files es @ central_dir 0 es @ end_dir es) (length es) (of_nat (length (local_files es))) z' =
    (True, z'\<lparr>zf_entriesMap := zf_entriesMap z' ++ map_of (rev (table 0 es)),
             zf_fileNames := zf_fileNames z' @ map (\<lambda>e. chars (mb_name e)) es\<rparr>)" for z'
    using names total by (intro dir_entries_loop_written) (simp_all add: archive_def)
  then have all: "dir_entries_loop (archive es) (length es) (of_nat (length (local_files es))) z' =
    (True, z'\<lparr>zf_entriesMap := zf_entriesMap z' ++ map_of (rev (table 0 es)),
             zf_fileNames := zf_fileNames z' @ map (\<lambda>e. chars (mb_name e)) es\<rparr>)" for z'
    by (simp add: archive_def)
  have new: "\<not> zf_isOpen (ZipFile_new p)" "zf_pathName (ZipFile_new p) = p"
    "(ZipFile_new p)\<lparr>zf_fileLength := if zf_fileLength (ZipFile_new p) = 0 then of_nat (length (archive es))
       else zf_fileLength (ZipFile_new p), zf_file := Some (archive es)\<rparr> = ?z"
    by (simp_all add: ZipFile_new_def)
  have dir: "ParseAllEntries (archive es) (?z\<lparr>zf_endDir := EndDir_of (end_dir es),
      zf_centralDirPos := of_nat (length (local_files es))\<rparr>) = (True, (opened p es)\<lparr>zf_isOpen := False\<rparr>)"
    by (simp add: ParseAllEntries_def EndDir_of_written k all opened_def)
  show ?thesis
    unfolding Open_def new Let_def assms(3,4) option.case eod prod.case dir
    using assms(2) total by (simp add: new(1) opened_def)
qed

lemma table_append: "table off (es @ es') = table off es @ table (off + length (local_files es)) es'"
  by (induction es arbitrary: off) (auto simp: local_files_def add.assoc)

lemma map_fst_table: "map fst (table off es) = map (\<lambda>e. chars (mb_name e)) es"
  by (induction es arbitrary: off) auto

lemma table_lookup:
  assumes "distinct (map mb_name (pre @ e # post))"
  shows "map_of (rev (table 0 (pre @ e # post))) (chars (mb_name e)) = Some (stored_entry (length (local_files pre)) e)"
proof -
  let ?t = "table 0 (pre @ e # post)"
  have "map fst ?t = map chars (map mb_name (pre @ e # post))"
    by (simp add: map_fst_table del: map_append)
  then have d: "distinct (map fst (rev ?t))"
    using assms by (simp add: rev_map[symmetric] distinct_map inj_on_def chars_inject del: map_append map_map)
  have "(chars (mb_name e), stored_entry (length (local_files pre)) e) \<in> set (rev ?t)"
    by (simp add: table_append)
  with d show ?thesis by (rule map_of_is_SomeI)
qed

lemma store_loop_exact:
  "pos + n \<le> length f \<Longrightarrow> store_loop f pos n out = (True, out @ take n (drop pos f))"
proof (induction f pos n out rule: store_loop.induct)
  case (1 f pos n out)
  show ?case
  proof (cases "n = 0")
    case True
    then show ?thesis by (subst store_loop.simps) simp
  next
    case False
    let ?r = "if n > UNZIP_BUF_OUT_LEN then UNZIP_BUF_OUT_LEN else n"
    let ?bs = "take ?r (drop pos f)"
    have r: "0 < ?r" "?r \<le> n" using False by (auto simp: UNZIP_BUF_OUT_LEN_def)
    then have len: "length ?bs = ?r" using "1.prems" by (auto simp: min_def)
    with r have ne: "?bs \<noteq> []" by auto
    have "store_loop f pos n out = store_loop f (pos + length ?bs) (n - length ?bs) (out @ ?bs)"
      using False ne by (subst store_loop.simps) (simp only: Let_def if_False)
    also have "\<dots> = (True, (out @ ?bs) @ take (n - length ?bs) (drop (pos + length ?bs) f))"
      using False ne r len "1.prems" by (intro "1.IH"[OF _ refl refl]) simp_all
    finally have run: "store_loop f pos n out = (True, (out @ ?bs) @ take (n - length ?bs) (drop (pos + length ?bs) f))" .
    have "?bs @ take (n - length ?bs) (drop (pos + length ?bs) f) = take n (drop pos f)"
      unfolding len using r(2) by (metis add.commute drop_drop le_add_diff_inverse take_add)
    then show ?thesis by (simp only: run append_assoc)
  qed
qed

lemma GetLocalHeaderSize_nat:
  "n < 2 ^ 16 \<Longrightarrow> x < 2 ^ 16 \<Longrightarrow> GetLocalHeaderSize (of_nat n) (of_nat x) = of_nat (30 + n + x)"
proof -
  assume n: "n < 2 ^ 16" and x: "x < 2 ^ 16"
  have wn: "ucast (of_nat n :: u16) = (of_nat n :: u32)" and wx: "ucast (of_nat x :: u16) = (of_nat x :: u32)"
    using n x by (simp_all add: word_unat_eq_iff unat_of_nat unsigned_ucast_eq take_bit_eq_mod)
  obtain k where k: "n + x + k = 2 ^ 32 - 1"
    using n x by (intro that[of "2 ^ 32 - 1 - (n + x)"]) simp
  have "(of_nat (n + x + k) :: u32) = - 1" unfolding k by simp
  then have "(- 1 - of_nat n - of_nat x :: u32) = of_nat k" by (simp add: algebra_simps)
  moreover have "\<not> (of_nat SIZEOF_LocalHeader :: u32) > of_nat k"
    using n x k by (simp add: sizeof_defs word_less_nat_alt unat_of_nat)
  ultimately show ?thesis by (simp add: GetLocalHeaderSize_def wn wx sizeof_defs)
qed

lemma ExtractFile_written:
  assumes "members_ok es" "e \<in> set es"
  shows "ExtractFile Z (opened p es) (chars (mb_name e)) = Some (True, mb_data e)"
proof -
  obtain pre post where es: "es = pre @ e # post" using assms(2) by (metis split_list)
  let ?z = "opened p es" and ?off = "length (local_files pre)" and ?n = "length (mb_name e)" and ?d = "length (mb_data e)"
  define rest where "rest = local_files post @ central_dir 0 es @ end_dir es"
  have f: "archive es = local_files pre @ (local_header e @ mb_name e @ mb_data e) @ rest"
    by (simp add: archive_def es rest_def local_files_def local_file_def)
  have total: "?off + 30 + ?n + ?d < 2 ^ 31" and below: "?off + 30 + ?n + ?d < length (archive es)"
    using assms(1) f by (auto simp: members_ok_def rest_def)
  have n: "0 < ?n" "?n < 256" and crc: "mb_crc e < 2 ^ 32"
    using assms by (auto simp: members_ok_def list_all_iff MAX_FILE_NAME_def)
  have small: "length (archive es) < 2 ^ 31" using assms(1) by (simp add: members_ok_def)
  have entry: "GetEntry ?z (chars (mb_name e)) = Some (stored_entry ?off e)"
    using table_lookup[of pre e post] assms(1) by (simp add: GetEntry_def opened_def es members_ok_def)
  have off: "(ucast (of_nat ?off :: u32) :: u64) = of_nat ?off" and dw: "(ucast (of_nat ?d :: u32) :: u64) = of_nat ?d"
    using total by (simp_all add: ucast_of_nat_32_64)
  have hs: "GetLocalHeaderSize (of_nat ?n) 0 = of_nat (30 + ?n)"
    using GetLocalHeaderSize_nat[of ?n 0] n by simp
  have hw: "(ucast (of_nat (30 + ?n) :: u32) :: u64) = of_nat (30 + ?n)"
    using n by (intro ucast_of_nat_32_64) simp
  have nw: "unat (of_nat ?n :: u16) = ?n" using n by (simp add: unat_of_nat)
  have s1: "fseek (of_nat ?off) = Some ?off" and s2: "fseek (of_nat (?off + (30 + ?n))) = Some (?off + (30 + ?n))"
    using total by (intro fseek_nat, simp)+
  have r1: "fread_item (archive es) ?off SIZEOF_LocalHeader = Some (local_header e)"
    unfolding f by (simp add: fread_item_def sizeof_defs)
  have r2: "fread_item (archive es) (?off + SIZEOF_LocalHeader) ?n = Some (mb_name e)"
    unfolding f using n by (simp add: fread_item_def sizeof_defs)
  have inside: "\<not> of_nat ?off \<ge> (of_nat (length (archive es)) :: u64)"
    using below small by (subst of_nat_le_word64) simp_all
  have coherent: "CheckCoherencyLocalHeader (archive es) ?z (stored_entry ?off e) = Some 0"
    using n inside by (simp add: CheckCoherencyLocalHeader_def stored_entry_def opened_def off s1 r1 r2 nw
        LocalHeader_of_written CheckDataDesc_def MAX_FILE_NAME_def)
  have a1: "zippos_add (of_nat ?off) (of_nat (30 + ?n)) = Some (of_nat (?off + (30 + ?n)))"
    using total by (intro zippos_add_nat) simp
  have a2: "zippos_add (of_nat (?off + (30 + ?n))) (of_nat ?d) = Some (of_nat (?off + (30 + ?n) + ?d))"
    using total by (intro zippos_add_nat) simp
  have fits: "\<not> of_nat (?off + (30 + ?n) + ?d) > (of_nat (length (archive es)) :: u64)"
    using below small by (subst of_nat_less_word64) simp_all
  have hne: "GetLocalHeaderSize (of_nat ?n) 0 \<noteq> 0"
    unfolding hs using n by (simp add: word_unat_eq_iff unat_of_nat del: of_nat_add)
  have z: "ze_localHeaderOffset (stored_entry ?off e) = of_nat ?off" "ze_compressedSize (stored_entry ?off e) = of_nat ?d"
    "length (ze_fileName (stored_entry ?off e)) = ?n" "ze_compressionMethod (stored_entry ?off e) = 0"
    "zf_fileLength ?z = of_nat (length (archive es))" "zf_file ?z = Some (archive es)"
    by (simp_all add: stored_entry_def opened_def)
  have start: "SeekToEntryStart ?z (stored_entry ?off e) 0 = Some (?off + (30 + ?n))"
    unfolding SeekToEntryStart_def z Let_def hs hw off dw a1 bind.simps a2 if_not_P[OF fits] s2
    using hne[unfolded hs] by (simp only: if_False)
  have "unat (of_nat ?d :: u32) = ?d" using total by (simp add: unat_of_nat)
  moreover have "store_loop (archive es) (?off + (30 + ?n)) ?d [] = (True, mb_data e)"
    using below by (subst store_loop_exact) (simp_all add: f)
  ultimately have "UnzipWithStore (archive es) ?z (stored_entry ?off e) 0 = (True, mb_data e)"
    by (simp add: UnzipWithStore_def start z)
  then show ?thesis
    by (simp add: ExtractFile_def entry z coherent)
qed

text \<open>C22 An archive written as the zip format lays it out, with files stored as they are, distinct names of 1 to 255
bytes and less than 2 GiB, is opened; the reader lists its names in the order of the archive, and extracting a
file gives exactly the bytes that were stored under its name.\<close>

theorem archive_read_back:
  assumes "members_ok es" "length p \<le> PATH_MAX" "fs_realpath fs p = Some r" "fs_fopen fs r = Some (archive es)"
  shows "\<exists>u. Init fs (ExtractorUtil_new p) = (True, u) \<and> GetZipFileNames u = map (\<lambda>e. chars (mb_name e)) es \<and>
    (\<forall>e. e \<in> set es \<longrightarrow> ExtractFileByName Z u (chars (mb_name e)) = Some (True, mb_data e))"
proof -
  let ?u = "\<lparr>eu_zipFile = opened p es, eu_initial = True\<rparr>"
  have init: "Init fs (ExtractorUtil_new p) = (True, ?u)"
    by (simp add: Init_def ExtractorUtil_new_def Open_written[OF assms])
  have "ExtractFileByName Z ?u (chars (mb_name e)) = Some (True, mb_data e)" if "e \<in> set es" for e
    using that by (simp add: ExtractFileByName_def ExtractFile_written[OF assms(1)])
  with init show ?thesis by (intro exI[of _ ?u]) (simp add: GetZipFileNames_def opened_def)
qed

definition shop_member :: member where
  "shop_member = \<lparr>mb_name = [99, 46, 106], mb_data = [123, 125], mb_crc = 7\<rparr>"

lemma shop_name: "chars (mb_name shop_member) = ''c.j''" "mb_data shop_member = [123, 125]"
  by code_simp+

lemma shop_members_ok: "members_ok [shop_member]"
  by (simp add: members_ok_def shop_member_def MAX_FILE_NAME_def archive_def local_files_def local_file_def)

theorem archive_read_back_witness:
  "\<exists>u. Init \<lparr>fs_realpath = Some, fs_fopen = (\<lambda>_. Some (archive [shop_member]))\<rparr> (ExtractorUtil_new ''a.hap'') = (True, u) \<and>
     GetZipFileNames u = [''c.j''] \<and>
     ExtractFileByName \<lparr>zl_init = None, zl_inflate = (\<lambda>i z. (-1, i, [], ())), zl_end = (\<lambda>_. 0)\<rparr> u ''c.j'' = Some (True, [123, 125])"
proof -
  let ?fs = "\<lparr>fs_realpath = Some, fs_fopen = (\<lambda>_. Some (archive [shop_member]))\<rparr>"
  show ?thesis
    using archive_read_back[OF shop_members_ok, of "''a.hap''" ?fs "''a.hap''"
        "\<lparr>zl_init = None, zl_inflate = (\<lambda>i z. (-1, i, [], ())), zl_end = (\<lambda>_. 0)\<rparr>"]
    by (simp add: PATH_MAX_def shop_name)
qed

section \<open>Whatever the archive holds\<close>

text \<open>
  The names listed are exactly those that can be looked up, each of 1 to 255 characters and filed under itself.
\<close>

definition listed_ok :: "ZipFile \<Rightarrow> bool" where
  "listed_ok z \<longleftrightarrow>
     dom (zf_entriesMap z) = set (zf_fileNames z) \<and>
     (\<forall>n e. zf_entriesMap z n = Some e \<longrightarrow> ze_fileName e = n \<and> 0 < length n \<and> length n < MAX_FILE_NAME)"

lemma listed_ok_add:
  "listed_ok z \<Longrightarrow> 0 < length n \<Longrightarrow> length n < MAX_FILE_NAME \<Longrightarrow> ze_fileName e = n \<Longrightarrow>
   listed_ok (z\<lparr>zf_entriesMap := (zf_entriesMap z)(n \<mapsto> e), zf_fileNames := zf_fileNames z @ [n]\<rparr>)"
  by (auto simp: listed_ok_def)

definition same_source :: "ZipFile \<Rightarrow> ZipFile \<Rightarrow> bool" where
  "same_source z z' \<longleftrightarrow>
     zf_file z' = zf_file z \<and> zf_fileLength z' = zf_fileLength z \<and> zf_endDir z' = zf_endDir z"

lemma read_entry_name: "read_entry f p = Some (e, n) \<Longrightarrow> 0 < length n \<and> length n < MAX_FILE_NAME"
  by (auto simp: read_entry_def Let_def bind_Some_iff MAX_FILE_NAME_def dest!: fread_item_length split: if_splits)

lemma dir_entry_outcome:
  assumes "dir_entry f p z = (q, z')" "listed_ok z"
  shows "listed_ok z' \<and> same_source z z' \<and> (q \<noteq> None \<longrightarrow> length (zf_fileNames z') = Suc (length (zf_fileNames z)))"
proof (cases "read_entry f p")
  case None
  with assms show ?thesis by (auto simp: dir_entry_def same_source_def)
next
  case (Some en)
  obtain e n where en: "en = (e, n)" by fastforce
  from read_entry_name[of f p e n] Some assms show ?thesis
    by (auto simp: dir_entry_def en same_source_def intro!: listed_ok_add)
qed

lemma dir_entries_loop_listed:
  "dir_entries_loop f k p z = (ok, z') \<Longrightarrow> listed_ok z \<Longrightarrow>
   listed_ok z' \<and> same_source z z' \<and> (ok \<longrightarrow> length (zf_fileNames z') = length (zf_fileNames z) + k)"
proof (induction k arbitrary: p z)
  case 0
  then show ?case by (simp add: same_source_def)
next
  case (Suc k)
  obtain q z1 where one: "dir_entry f p z = (q, z1)" by fastforce
  note first = dir_entry_outcome[OF one Suc.prems(2)]
  show ?case
  proof (cases q)
    case None
    with one first Suc.prems(1) show ?thesis by simp
  next
    case (Some p1)
    with one Suc.prems(1) have "dir_entries_loop f k p1 z1 = (ok, z')" by simp
    from Suc.IH[OF this] first Some show ?thesis by (auto simp: same_source_def)
  qed
qed

lemma ParseEndDirectory_frame:
  assumes "ParseEndDirectory f z = (ok, z')"
  shows "zf_file z' = zf_file z \<and> zf_fileLength z' = zf_fileLength z \<and> zf_entriesMap z' = zf_entriesMap z \<and>
    zf_fileNames z' = zf_fileNames z \<and> (ok \<longrightarrow> CheckEndDir z' (zf_endDir z'))"
  using assms by (auto simp: ParseEndDirectory_def Let_def CheckEndDir_def split: if_splits option.splits)

lemma Open_new:
  assumes "Open fs (ZipFile_new p) = (ok, z)" "zf_isOpen z"
  obtains f where "zf_file z = Some f" "length f < 2 ^ 31" "zf_fileLength z = of_nat (length f)" "listed_ok z"
    "ok \<Longrightarrow> length (zf_fileNames z) = unat (ed_totalEntries (zf_endDir z))" "ok \<Longrightarrow> CheckEndDir z (zf_endDir z)"
proof -
  have closed: "\<not> zf_isOpen (ZipFile_new p)" by (simp add: ZipFile_new_def)
  obtain r where r: "length (zf_pathName (ZipFile_new p)) \<le> PATH_MAX" "fs_realpath fs (zf_pathName (ZipFile_new p)) = Some r"
    using assms closed by (auto simp: Open_def split: if_splits option.splits)
  obtain f where f: "fs_fopen fs r = Some f" "length f < 2 ^ 31"
    using assms closed r by (auto simp: Open_def not_le split: if_splits option.splits)
  let ?z = "(ZipFile_new p)\<lparr>zf_fileLength := of_nat (length f), zf_file := Some f\<rparr>"
  obtain ok1 z1 where one: "ParseEndDirectory f ?z = (ok1, z1)" by fastforce
  obtain ok2 z2 where two: "(if ok1 then ParseAllEntries f z1 else (ok1, z1)) = (ok2, z2)" by fastforce
  have "Open fs (ZipFile_new p) = (ok2, z2\<lparr>zf_isOpen := True\<rparr>)"
    using closed r f by (simp add: Open_def Let_def one two) (simp add: ZipFile_new_def one[unfolded ZipFile_new_def, simplified] two)
  with assms(1) have z: "ok = ok2" "z = z2\<lparr>zf_isOpen := True\<rparr>" by simp_all
  note frame = ParseEndDirectory_frame[OF one]
  have l1: "listed_ok z1" using frame by (simp add: listed_ok_def ZipFile_new_def)
  have two': "listed_ok z2 \<and> same_source z1 z2 \<and> (ok2 \<longrightarrow> ok1 \<and> length (zf_fileNames z2) = unat (ed_totalEntries (zf_endDir z1)))"
  proof (cases ok1)
    case True
    with two have "dir_entries_loop f (unat (ed_totalEntries (zf_endDir z1))) (zf_centralDirPos z1) z1 = (ok2, z2)"
      by (simp add: ParseAllEntries_def)
    from dir_entries_loop_listed[OF this l1] frame True show ?thesis by (simp add: ZipFile_new_def)
  next
    case False
    with two l1 show ?thesis by (simp add: same_source_def)
  qed
  show thesis
    by (rule that[of f]) (use two' frame f z in \<open>auto simp: same_source_def listed_ok_def CheckEndDir_def\<close>)
qed

lemma Open_True: "Open fs (ZipFile_new p) = (True, z) \<Longrightarrow> zf_isOpen z"
  by (auto simp: Open_def ZipFile_new_def split: if_splits option.splits prod.splits)

text \<open>C20 Whatever file is opened, once \<open>Open\<close> has succeeded the archive's state is well formed: it lists as many names
as the end of the directory announces, a name is listed exactly if it can be looked up, and each is an entry's own
name of 1 to 255 characters.\<close>

theorem Open_well_formed:
  assumes "Open fs (ZipFile_new p) = (True, z)"
  shows "listed_ok z \<and> length (zf_fileNames z) = unat (ed_totalEntries (zf_endDir z)) \<and>
    CheckEndDir z (zf_endDir z)"
  using Open_new[OF assms Open_True[OF assms]] by blast

theorem Open_well_formed_witness:
  "\<exists>z. Open \<lparr>fs_realpath = Some, fs_fopen = (\<lambda>_. Some (archive [shop_member]))\<rparr> (ZipFile_new ''a.hap'') = (True, z) \<and>
     listed_ok z \<and> length (zf_fileNames z) = 1"
proof -
  let ?fs = "\<lparr>fs_realpath = Some, fs_fopen = (\<lambda>_. Some (archive [shop_member]))\<rparr>"
  have o1: "Open ?fs (ZipFile_new ''a.hap'') = (True, opened ''a.hap'' [shop_member])"
    by (rule Open_written[OF shop_members_ok]) (simp_all add: PATH_MAX_def)
  from Open_well_formed[OF o1] o1 show ?thesis by (auto simp: opened_def)
qed

lemma zippos_add_Some:
  assumes "zippos_add a b = Some c"
  shows "unat c = unat a + unat b"
proof -
  have c: "c = a + b" and d: "\<not> (b > 0 \<and> a > - 1 - b)"
    using assms by (auto simp: zippos_add_def split: if_splits)
  have "unat (- 1 - b) = 2 ^ 64 - 1 - unat b"
    using unsigned_less[of b, where ?'a = nat]
    by (simp add: unat_sub_if_size word_size unsigned_minus_1_eq_mask mask_eq_exp_minus_1)
  then have "unat a + unat b < 2 ^ 64"
    using d unsigned_less[of a, where ?'a = nat] unsigned_less[of b, where ?'a = nat]
    by (cases "b = 0") (auto simp: word_less_nat_alt word_neq_0_conv)
  then show ?thesis by (simp add: c unat_plus_if_size word_size)
qed

lemma unat_ucast_32_64: "unat (ucast (w :: u32) :: u64) = unat w"
proof -
  have "unat w < 2 ^ 64" using unsigned_less[of w, where ?'a = nat] by simp
  then show ?thesis by (simp add: unsigned_ucast_eq take_bit_nat_eq_self)
qed

lemma fseek_small: "unat p < 2 ^ 31 \<Longrightarrow> fseek p = Some (unat p)"
  using fseek_nat[of "unat p"] by simp

text \<open>Where the data of an entry starts by the size of its own header, with the name the entry was listed under.\<close>

definition data_start :: "ZipEntry \<Rightarrow> u16 \<Rightarrow> nat" where
  "data_start e extraSize =
     unat (ze_localHeaderOffset e) + SIZEOF_LocalHeader + length (ze_fileName e) + unat extraSize"

lemma SeekToEntryStart_inside:
  assumes "SeekToEntryStart z e x = Some pos" "length (ze_fileName e) < MAX_FILE_NAME"
    and "zf_fileLength z = of_nat n" "n < 2 ^ 31"
  shows "pos = data_start e x \<and> data_start e x + unat (ze_compressedSize e) \<le> n"
proof -
  let ?l = "length (ze_fileName e)"
  have l: "?l < 2 ^ 16" "unat x < 2 ^ 16"
    using assms(2) unsigned_less[of x, where ?'a = nat] by (simp_all add: MAX_FILE_NAME_def)
  then have "unat (of_nat (30 + ?l + unat x) :: u32) = 30 + ?l + unat x"
    by (subst unat_of_nat) (simp add: take_bit_eq_mod)
  moreover have "GetLocalHeaderSize (of_nat ?l) x = of_nat (30 + ?l + unat x)"
    using GetLocalHeaderSize_nat[OF l] by simp
  ultimately have hs: "unat (GetLocalHeaderSize (of_nat ?l) x) = 30 + ?l + unat x" by simp
  obtain s e' where s: "zippos_add (ucast (ze_localHeaderOffset e)) (ucast (GetLocalHeaderSize (of_nat ?l) x)) = Some s"
    and e': "zippos_add s (ucast (ze_compressedSize e)) = Some e'" "\<not> e' > zf_fileLength z" "fseek s = Some pos"
    using assms(1) by (auto simp: SeekToEntryStart_def Let_def bind_Some_iff split: if_splits)
  have us: "unat s = data_start e x"
    using zippos_add_Some[OF s] by (simp add: unat_ucast_32_64 hs data_start_def sizeof_defs)
  then have "unat e' = data_start e x + unat (ze_compressedSize e)"
    using zippos_add_Some[OF e'(1)] by (simp add: unat_ucast_32_64)
  moreover have "unat e' \<le> n"
    using e'(2) assms(3,4) by (simp add: word_less_nat_alt unat_of_nat)
  ultimately have fits: "data_start e x + unat (ze_compressedSize e) \<le> n" by simp
  then have "fseek s = Some (unat s)" using us assms(4) by (intro fseek_small) simp
  with e'(3) us fits show ?thesis by simp
qed

text \<open>C23 Extracting an entry that is stored as it is, from any archive that was opened, is all or nothing: either
nothing is written and the answer is false, or exactly the compressed size of the entry is written, the bytes
that start after the entry's local header, and all of them lie in the file.\<close>

theorem ExtractFile_stored:
  assumes "Open fs (ZipFile_new p) = (True, z)" "zf_file z = Some f" "GetEntry z n = Some e"
    and "ze_compressionMethod e = 0"
  shows "ExtractFile Z z n = Some (False, []) \<or>
    (\<exists>x. data_start e x + unat (ze_compressedSize e) \<le> length f \<and>
         ExtractFile Z z n = Some (True, take (unat (ze_compressedSize e)) (drop (data_start e x) f)))"
proof (cases "CheckCoherencyLocalHeader f z e")
  case None
  with assms show ?thesis by (simp add: ExtractFile_def)
next
  case (Some x)
  obtain f' where f': "zf_file z = Some f'" "length f' < 2 ^ 31" "zf_fileLength z = of_nat (length f')" "listed_ok z"
    using Open_new[OF assms(1) Open_True[OF assms(1)]] by metis
  have short: "length (ze_fileName e) < MAX_FILE_NAME"
    using f'(4) assms(3) by (auto simp: listed_ok_def GetEntry_def)
  show ?thesis
  proof (cases "SeekToEntryStart z e x")
    case None
    with Some assms show ?thesis by (simp add: ExtractFile_def UnzipWithStore_def)
  next
    case start: (Some pos)
    from SeekToEntryStart_inside[OF start short f'(3,2)] f'(1) assms(2)
    have pos: "pos = data_start e x" "data_start e x + unat (ze_compressedSize e) \<le> length f" by simp_all
    then have "ExtractFile Z z n = Some (True, take (unat (ze_compressedSize e)) (drop (data_start e x) f))"
      using Some start assms by (simp add: ExtractFile_def UnzipWithStore_def store_loop_exact)
    with pos show ?thesis by blast
  qed
qed

theorem ExtractFile_stored_witness:
  "\<exists>z f e. Open \<lparr>fs_realpath = Some, fs_fopen = (\<lambda>_. Some (archive [shop_member]))\<rparr> (ZipFile_new ''a.hap'') = (True, z) \<and>
     zf_file z = Some f \<and> GetEntry z ''c.j'' = Some e \<and>
     (ExtractFile \<lparr>zl_init = None, zl_inflate = (\<lambda>i z. (-1, i, [], ())), zl_end = (\<lambda>_. 0)\<rparr> z ''c.j'' = Some (False, []) \<or>
      (\<exists>x. data_start e x + unat (ze_compressedSize e) \<le> length f))"
proof -
  let ?fs = "\<lparr>fs_realpath = Some, fs_fopen = (\<lambda>_. Some (archive [shop_member]))\<rparr>" and ?z = "opened ''a.hap'' [shop_member]"
  let ?Z = "\<lparr>zl_init = None, zl_inflate = (\<lambda>i z. (-1, i, [], ())), zl_end = (\<lambda>_. 0)\<rparr>"
  have o1: "Open ?fs (ZipFile_new ''a.hap'') = (True, ?z)"
    by (rule Open_written[OF shop_members_ok]) (simp_all add: PATH_MAX_def)
  have f: "zf_file ?z = Some (archive [shop_member])" by (simp add: opened_def)
  have e: "GetEntry ?z ''c.j'' = Some (stored_entry 0 shop_member)"
    using shop_name by (simp add: GetEntry_def opened_def)
  have m: "ze_compressionMethod (stored_entry 0 shop_member) = 0" by (simp add: stored_entry_def)
  from ExtractFile_stored[OF o1 f e m, of ?Z] o1 f e show ?thesis by blast
qed

section \<open>Compressed entries\<close>

text \<open>
  What the loop relies on in \<open>zlib\<close>: \<open>inflate\<close> takes its input from the front, and a call that takes none can
  only hand out what was pending in the stream, of which there is then less.
\<close>

definition zlib_ok :: "'z zlib \<Rightarrow> ('z \<Rightarrow> nat) \<Rightarrow> bool" where
  "zlib_ok Z pending \<longleftrightarrow>
     (\<forall>inp zs code inp' out zs'. zl_inflate Z inp zs = (code, inp', out, zs') \<longrightarrow>
        length inp' \<le> length inp \<and>
        (length inp' = length inp \<longrightarrow>
           pending zs' \<le> pending zs \<and> (out \<noteq> [] \<longrightarrow> pending zs' < pending zs)))"

lemma ReadZStream_keeps:
  "ReadZStream f pos remain inp = Some (pos', remain', inp') \<Longrightarrow>
   remain' + length inp' = remain + length inp \<and> inp' \<noteq> []"
  by (auto simp: ReadZStream_def Let_def split: if_splits)

lemma inflate_loop_ends:
  assumes "zlib_ok Z pending"
  shows "errorTimes < INFLATE_ERROR_TIMES \<Longrightarrow> \<exists>r. inflate_loop Z f pos remain inp zs errorTimes out = Some r"
proof (induction "(remain + length inp, pending zs, INFLATE_ERROR_TIMES - errorTimes)"
    arbitrary: pos remain inp zs errorTimes out
    rule: wf_induct_rule[OF wf_lex_prod[OF wf_less_than wf_lex_prod[OF wf_less_than wf_less_than]]])
  case (1 remain inp zs errorTimes pos out)
  show ?case
  proof (cases "remain = 0 \<and> inp = []")
    case True
    then show ?thesis by (subst inflate_loop.simps) (simp, blast)
  next
    case go: False
    show ?thesis
    proof (cases "ReadZStream f pos remain inp")
      case None
      with go show ?thesis by (subst inflate_loop.simps) auto
    next
      case (Some x)
      obtain pos1 remain1 inp1 where x: "x = (pos1, remain1, inp1)" by (cases x)
      obtain code inp2 o2 zs2 where inf: "zl_inflate Z inp1 zs = (code, inp2, o2, zs2)" by (cases "zl_inflate Z inp1 zs")
      let ?e = "if o2 \<noteq> [] then 0 else errorTimes + 1"
      have step: "inflate_loop Z f pos remain inp zs errorTimes out =
        (if code < 0 then Some (False, zs2, out)
         else if ?e \<ge> INFLATE_ERROR_TIMES then Some (False, zs2, out @ o2)
         else inflate_loop Z f pos1 remain1 inp2 zs2 ?e (out @ o2))"
        using go by (subst inflate_loop.simps) (simp only: Some x inf Let_def option.case prod.case if_False)
      show ?thesis
      proof (cases "code < 0 \<or> ?e \<ge> INFLATE_ERROR_TIMES")
        case True
        then show ?thesis unfolding step by auto
      next
        case False
        have sum: "remain1 + length inp1 = remain + length inp"
          using ReadZStream_keeps[of f pos remain inp] Some x by simp
        have z: "length inp2 \<le> length inp1"
          "length inp2 = length inp1 \<Longrightarrow> pending zs2 \<le> pending zs \<and> (o2 \<noteq> [] \<longrightarrow> pending zs2 < pending zs)"
          using assms inf by (auto simp: zlib_ok_def)
        have "((remain1 + length inp2, pending zs2, INFLATE_ERROR_TIMES - ?e),
               (remain + length inp, pending zs, INFLATE_ERROR_TIMES - errorTimes)) \<in>
              less_than <*lex*> less_than <*lex*> less_than"
          using z sum "1.prems" by (cases "length inp2 = length inp1") auto
        from "1.hyps"[OF this, of pos1 "out @ o2"] False show ?thesis unfolding step by auto
      qed
    qed
  qed
qed

text \<open>C24 Extracting any entry of any opened archive comes to an end, whatever the archive holds, provided only that
\<open>zlib\<close> does not hand out data for ever without taking input: the loop stops after five calls without output.\<close>

theorem ExtractFile_ends:
  assumes "zlib_ok Z pending" "zf_file z \<noteq> None"
  shows "\<exists>r. ExtractFile Z z n = Some r"
proof (cases "GetEntry z n")
  case None
  then show ?thesis by (simp add: ExtractFile_def) blast
next
  case (Some e)
  obtain f where f: "zf_file z = Some f" using assms(2) by auto
  have "\<exists>r. UnzipWithInflated Z f z e x = Some r" for x
  proof (cases "SeekToEntryStart z e x = None \<or> zl_init Z = None")
    case True
    then show ?thesis by (auto simp: UnzipWithInflated_def split: option.split)
  next
    case False
    then obtain pos zs where start: "SeekToEntryStart z e x = Some pos" "zl_init Z = Some zs" by auto
    have "\<exists>r. inflate_loop Z f pos (unat (ze_compressedSize e)) [] zs 0 [] = Some r"
      using assms(1) by (rule inflate_loop_ends) (simp add: INFLATE_ERROR_TIMES_def)
    then show ?thesis by (auto simp: UnzipWithInflated_def start)
  qed
  then show ?thesis using Some f by (auto simp: ExtractFile_def split: option.split)
qed

theorem ExtractFile_ends_witness:
  "\<exists>r. ExtractFile \<lparr>zl_init = Some (), zl_inflate = (\<lambda>i z. (0, tl i, take 1 i, z)), zl_end = (\<lambda>_. 0)\<rparr>
     (opened ''a.hap'' [shop_member]) ''c.j'' = Some r"
proof (rule ExtractFile_ends)
  have "length (tl i) = length i \<Longrightarrow> take 1 i = []" for i :: "u8 list"
    by (cases i) auto
  then show "zlib_ok \<lparr>zl_init = Some (), zl_inflate = (\<lambda>i z. (0, tl i, take 1 i, z)), zl_end = (\<lambda>_. 0)\<rparr> (\<lambda>_. 0)"
    by (auto simp: zlib_ok_def)
  show "zf_file (opened ''a.hap'' [shop_member]) \<noteq> None" by (simp add: opened_def)
qed

end
