(* ===== verification/Daemon_Files.thy ===== *)
theory Daemon_Files
  imports Zip_File
begin

text \<open>
  The file operations of the bundle daemon: \<^verbatim>\<open>services/bundlemgr_lite/bundle_daemon/src/bundle_file_utils.cpp\<close> and
  \<open>ExtractFileToPath\<close> of \<^verbatim>\<open>services/bundlemgr_lite/src/extractor_util.cpp\<close>. The daemon runs with the rights the
  service does not have.

  The file system is a parameter. A call that may change it is recorded in a trace, and whether it succeeds and
  what the file system then shows are functions of all the calls before. An access that C++ does not define is
  \<open>None\<close>.
\<close>

section \<open>The file system\<close>

datatype ftype = Directory | Regular | Special

datatype fs_call =
    Mkdir string bool
  | RemoveEntry string
  | RenameEntry string string
  | Chown string int int
  | CreateFile string
  | WriteBytes string string
  | SyncFile string

type_synonym fs_trace = "fs_call list"

text \<open>
  \<open>os_done\<close> is the success of a call; \<open>Mkdir\<close> carries whether others may read; \<open>os_readdir\<close> are the names in a
  directory that can be opened, the two that stand for itself and its parent among them.
\<close>

record os =
  os_done :: "fs_trace \<Rightarrow> fs_call \<Rightarrow> bool"
  os_stat :: "fs_trace \<Rightarrow> string \<Rightarrow> ftype option"
  os_readdir :: "fs_trace \<Rightarrow> string \<Rightarrow> string list option"
  os_realpath :: "fs_trace \<Rightarrow> string \<Rightarrow> string option"
  os_content :: "fs_trace \<Rightarrow> string \<Rightarrow> u8 list option"

definition fs_do :: "os \<Rightarrow> fs_call \<Rightarrow> fs_trace \<Rightarrow> bool \<times> fs_trace" where
  "fs_do sys c t = (os_done sys t c, t @ [c])"

text \<open>What a \<open>std::string\<close> is as a C string.\<close>

definition c_str :: "string \<Rightarrow> string" where
  "c_str s = takeWhile (\<lambda>c. c \<noteq> CHR 0x00) s"

section \<open>The operations\<close>

definition IsExistDir :: "os \<Rightarrow> fs_trace \<Rightarrow> cstr \<Rightarrow> bool" where
  "IsExistDir sys t path = (case path of None \<Rightarrow> False | Some p \<Rightarrow> os_stat sys t p = Some Directory)"

definition IsExistFile :: "os \<Rightarrow> fs_trace \<Rightarrow> cstr \<Rightarrow> bool" where
  "IsExistFile sys t path = (case path of None \<Rightarrow> False | Some p \<Rightarrow> os_stat sys t p = Some Regular)"

text \<open>
  The loop of \<open>MkRecursiveDir\<close>: the characters copied so far and those that are left. A path that fills the
  buffer of \<open>PATH_MAX\<close> characters is not terminated when it is looked up.
\<close>

fun mkdir_loop :: "os \<Rightarrow> bool \<Rightarrow> string \<Rightarrow> string \<Rightarrow> fs_trace \<Rightarrow> (bool \<times> fs_trace) option" where
  "mkdir_loop sys isReadOthers rootDir [] t = Some (True, t)"
| "mkdir_loop sys isReadOthers rootDir (c # cs) t =
     (let rootDir = rootDir @ [c] in
      if c = CHR ''/'' \<or> cs = []
      then if length rootDir \<ge> PATH_MAX then None
        else if IsExistDir sys t (Some rootDir) then mkdir_loop sys isReadOthers rootDir cs t
        else let (ok, t) = fs_do sys (Mkdir rootDir isReadOthers) t in
          if \<not> ok then Some (False, t) else mkdir_loop sys isReadOthers rootDir cs t
      else mkdir_loop sys isReadOthers rootDir cs t)"

definition MkRecursiveDir :: "os \<Rightarrow> cstr \<Rightarrow> bool \<Rightarrow> fs_trace \<Rightarrow> (bool \<times> fs_trace) option" where
  "MkRecursiveDir sys dir isReadOthers t =
     (case dir of
        None \<Rightarrow> Some (False, t)
      | Some d \<Rightarrow>
          if IsExistDir sys t dir then Some (True, t)
          else if length d = 0 \<or> length d > PATH_MAX then Some (False, t)
          else mkdir_loop sys isReadOthers [] d t)"

text \<open>\<open>RemoveFile\<close> and its loop over the names in a directory.\<close>

function (sequential) FU_RemoveFile :: "os \<Rightarrow> string \<Rightarrow> fs_trace \<Rightarrow> bool \<times> fs_trace"
  and remove_entries :: "os \<Rightarrow> string \<Rightarrow> string list \<Rightarrow> fs_trace \<Rightarrow> bool \<times> fs_trace" where
  "FU_RemoveFile sys path t =
     (if IsExistFile sys t (Some path) then fs_do sys (RemoveEntry path) t
      else if IsExistDir sys t (Some path)
      then (case os_readdir sys t path of
          None \<Rightarrow> (False, t)
        | Some ns \<Rightarrow>
            (case remove_entries sys path ns t of
               (ok, t') \<Rightarrow> if ok then fs_do sys (RemoveEntry path) t' else (False, t')))
      else (True, t))"
| "remove_entries sys path [] t = (True, t)"
| "remove_entries sys path (n # ns) t =
     (if n = ''.'' \<or> n = ''..'' then remove_entries sys path ns t
      else if length (path @ ''/'' @ n) \<ge> PATH_MAX then (False, t)
      else (case FU_RemoveFile sys (path @ ''/'' @ n) t of
          (ok, t') \<Rightarrow> if ok then remove_entries sys path ns t' else (False, t')))"
  by pat_completeness auto
termination
  by (relation "inv_image (less_than <*lex*> less_than <*lex*> less_than)
      (\<lambda>r. case r of Inl (sys, path, t) \<Rightarrow> (PATH_MAX - length path, 1 :: nat, 0 :: nat)
      | Inr (sys, path, ns, t) \<Rightarrow> (PATH_MAX - length path, 0, length ns))") (auto simp: diff_less_mono2)

declare FU_RemoveFile.simps [simp del] remove_entries.simps(2) [simp del]

definition FU_RenameFile :: "os \<Rightarrow> cstr \<Rightarrow> cstr \<Rightarrow> fs_trace \<Rightarrow> bool \<times> fs_trace" where
  "FU_RenameFile sys oldFile newFile t =
     (case (oldFile, newFile) of
        (Some old, Some new) \<Rightarrow>
          (let (ok, t) = FU_RemoveFile sys new t in
           if \<not> ok then (False, t) else fs_do sys (RenameEntry old new) t)
      | _ \<Rightarrow> (False, t))"

definition ChownFile :: "os \<Rightarrow> cstr \<Rightarrow> int \<Rightarrow> int \<Rightarrow> fs_trace \<Rightarrow> bool \<times> fs_trace" where
  "ChownFile sys file uid gid t =
     (case file of None \<Rightarrow> (False, t) | Some p \<Rightarrow> fs_do sys (Chown p uid gid) t)"

definition FU_WriteFile :: "os \<Rightarrow> cstr \<Rightarrow> cstr \<Rightarrow> nat \<Rightarrow> fs_trace \<Rightarrow> bool \<times> fs_trace" where
  "FU_WriteFile sys file buffer n t =
     (case (file, buffer) of
        (Some p, Some b) \<Rightarrow>
          if n = 0 then (False, t)
          else let (ok, t) = fs_do sys (CreateFile p) t in
            if \<not> ok then (False, t) else fs_do sys (WriteBytes p (take n b)) t
      | _ \<Rightarrow> (False, t))"

definition IsValidPath :: "string \<Rightarrow> string \<Rightarrow> bool" where
  "IsValidPath rootDir path =
     (if find_char (CHR ''/'') rootDir \<noteq> Some 0 \<or> rfind_char (CHR ''/'') rootDir \<noteq> Some (length rootDir - 1) \<or>
         contains rootDir ''..'' then False
      else if contains path ''..'' then False
      else take (length rootDir) path = rootDir)"

definition GetPathDir :: "string \<Rightarrow> string" where
  "GetPathDir path =
     (case rfind_char (CHR ''/'') path of None \<Rightarrow> [] | Some pos \<Rightarrow> take (pos + 1) path)"

text \<open>
  The stream has written what was extracted, also where extraction failed half way; \<open>SyncFile\<close> is the file opened
  once more and flushed to the disk.
\<close>

definition ExtractFileToPath ::
    "'z zlib \<Rightarrow> os \<Rightarrow> ExtractorUtil \<Rightarrow> string \<Rightarrow> string \<Rightarrow> fs_trace \<Rightarrow> (bool \<times> fs_trace) option" where
  "ExtractFileToPath Z sys u filePath fileName t =
     (let (ok, t) = fs_do sys (CreateFile (c_str filePath)) t in
      if \<not> ok then Some (False, t)
      else do {
        (ret, bytes) \<leftarrow> ExtractFile Z (eu_zipFile u) fileName;
        let (good, t) = fs_do sys (WriteBytes (c_str filePath) (chars bytes)) t;
        if \<not> ret \<or> \<not> good then Some (False, snd (fs_do sys (RemoveEntry (c_str filePath)) t))
        else Some (fs_do sys (SyncFile (c_str filePath)) t) })"

end
