(* ===== verification/Ipc.thy ===== *)
theory Ipc
  imports System
begin

text \<open>
  Messages of the IPC library, which the service, its clients and the bundle daemon exchange. A message holds values
  that are read in the order they were written. Reading a value of another kind, or past the end, fails; the sources
  do not look, and go on with whatever their variable held, the parameter \<open>stack\<close>. A value that does not fit the
  buffer of the message (the parameter \<open>space\<close>) is not written, and the sources do not look either.
\<close>

datatype ipc_val = IStr string | IU8 nat | IU16 u16 | IU32 u32 | II32 int | IBool bool | IRemote SvcIdentity

type_synonym ipc = "ipc_val list"

record stack =
  st_u8 :: nat
  st_u16 :: u16
  st_u32 :: u32
  st_int :: int
  st_bool :: bool

fun ReadString :: "ipc \<Rightarrow> cstr \<times> ipc" where
  "ReadString (IStr s # r) = (Some s, r)"
| "ReadString r = (None, r)"

fun ReadUint8 :: "stack \<Rightarrow> ipc \<Rightarrow> nat \<times> ipc" where
  "ReadUint8 k (IU8 n # r) = (n, r)"
| "ReadUint8 k r = (st_u8 k, r)"

fun ReadUint16 :: "stack \<Rightarrow> ipc \<Rightarrow> u16 \<times> ipc" where
  "ReadUint16 k (IU16 n # r) = (n, r)"
| "ReadUint16 k r = (st_u16 k, r)"

fun ReadUint32 :: "stack \<Rightarrow> ipc \<Rightarrow> u32 \<times> ipc" where
  "ReadUint32 k (IU32 n # r) = (n, r)"
| "ReadUint32 k r = (st_u32 k, r)"

fun ReadInt32 :: "stack \<Rightarrow> ipc \<Rightarrow> int \<times> ipc" where
  "ReadInt32 k (II32 n # r) = (n, r)"
| "ReadInt32 k r = (st_int k, r)"

fun ReadBool :: "stack \<Rightarrow> ipc \<Rightarrow> bool \<times> ipc" where
  "ReadBool k (IBool b # r) = (b, r)"
| "ReadBool k r = (st_bool k, r)"

fun ReadRemoteObject :: "ipc \<Rightarrow> SvcIdentity option \<times> ipc" where
  "ReadRemoteObject (IRemote svc # r) = (Some svc, r)"
| "ReadRemoteObject r = (None, r)"

type_synonym room_left = "ipc \<Rightarrow> ipc_val \<Rightarrow> bool"

definition io_write :: "room_left \<Rightarrow> ipc_val \<Rightarrow> ipc \<Rightarrow> ipc" where
  "io_write space v m = (if space m v then m @ [v] else m)"

text \<open>A byte is written of a code, whatever its type.\<close>

definition write_u8 :: "room_left \<Rightarrow> nat \<Rightarrow> ipc \<Rightarrow> ipc" where
  "write_u8 space n m = io_write space (IU8 (n mod 256)) m"

end
