(* ===== verification/Daemon.thy ===== *)
theory Daemon
  imports Daemon_Files Ipc
begin

text \<open>
  The bundle daemon: its handler \<^verbatim>\<open>services/bundlemgr_lite/bundle_daemon/src/bundle_daemon_handler.cpp\<close>, the
  requests it takes from the service (\<^verbatim>\<open>bundle_daemon.cpp\<close>), and the messages the service's client sends
  (\<^verbatim>\<open>services/bundlemgr_lite/src/bundle_daemon_client.cpp\<close>). The build is the one without \<open>__LINUX__\<close>.
\<close>

datatype ec = EC_SUCCESS | EC_FAILURE | EC_INVALID | EC_NOINIT | EC_NODIR | EC_NOFILE | EC_PERMISSION | EC_COMMU | EC_CANCELED

section \<open>The paths the daemon accepts\<close>

definition PERMISSIONS_PATH :: string where "PERMISSIONS_PATH = ''/storage/app/etc/permissions/''"
definition D_JSON_PATH :: string where "D_JSON_PATH = ''/app/etc/''"
definition HAP_CODE_PATH :: string where "HAP_CODE_PATH = ''/app/run/''"
definition HAP_DATA_PATH :: string where "HAP_DATA_PATH = ''/app/data/''"
definition SYSTEM_HAP_PATH :: string where "SYSTEM_HAP_PATH = ''/system/internal''"
definition THIRD_HAP_PATH :: string where "THIRD_HAP_PATH = ''/system/external''"
definition SDCARD :: string where "SDCARD = ''/sdcard''"
definition STORAGE :: string where "STORAGE = ''/storage''"
definition PMS_UID :: int where "PMS_UID = 7"
definition PMS_GID :: int where "PMS_GID = 7"

definition IsValideCodePath :: "cstr \<Rightarrow> bool" where
  "IsValideCodePath codePath =
     (case codePath of
        None \<Rightarrow> False
      | Some p \<Rightarrow> IsValidPath (STORAGE @ HAP_CODE_PATH) p \<or> IsValidPath (SDCARD @ HAP_CODE_PATH) p)"

definition IsValideDataPath :: "cstr \<Rightarrow> bool" where
  "IsValideDataPath dataPath =
     (case dataPath of
        None \<Rightarrow> False
      | Some p \<Rightarrow> IsValidPath (STORAGE @ HAP_DATA_PATH) p \<or> IsValidPath (SDCARD @ HAP_DATA_PATH) p)"

definition IsValideJsonPath :: "cstr \<Rightarrow> bool" where
  "IsValideJsonPath jsonPath =
     (case jsonPath of None \<Rightarrow> False | Some p \<Rightarrow> IsValidPath (STORAGE @ D_JSON_PATH) p)"

definition IsValideSystemPath :: "cstr \<Rightarrow> bool" where
  "IsValideSystemPath path =
     (case path of None \<Rightarrow> False | Some p \<Rightarrow> IsValidPath SYSTEM_HAP_PATH p \<or> IsValidPath THIRD_HAP_PATH p)"

section \<open>The handler\<close>

definition with_separator :: "string \<Rightarrow> string" where
  "with_separator d = (if d \<noteq> [] \<and> last d \<noteq> CHR ''/'' then d @ ''/'' else d)"

text \<open>The loop over the names of the archive; a directory's own entry is passed over.\<close>

fun unzip_loop ::
    "'z zlib \<Rightarrow> os \<Rightarrow> ExtractorUtil \<Rightarrow> string \<Rightarrow> string list \<Rightarrow> fs_trace \<Rightarrow> (ec \<times> fs_trace) option" where
  "unzip_loop Z sys u codeDir [] t = Some (EC_SUCCESS, t)"
| "unzip_loop Z sys u codeDir (fileName # ns) t =
     (if contains fileName ''..'' then Some (EC_NODIR, t)
      else if fileName \<noteq> [] \<and> last fileName = CHR ''/'' then unzip_loop Z sys u codeDir ns t
      else do {
        let dir = GetPathDir fileName;
        (ok, t) \<leftarrow> (if dir \<noteq> [] then MkRecursiveDir sys (Some (c_str (codeDir @ dir))) False t else Some (True, t));
        if \<not> ok then Some (EC_NODIR, t)
        else do {
          (ok, t) \<leftarrow> ExtractFileToPath Z sys u (codeDir @ fileName) fileName t;
          if \<not> ok then Some (EC_NODIR, t) else unzip_loop Z sys u codeDir ns t } })"

definition D_ExtractHap :: "'z zlib \<Rightarrow> os \<Rightarrow> cstr \<Rightarrow> cstr \<Rightarrow> fs_trace \<Rightarrow> (ec \<times> fs_trace) option" where
  "D_ExtractHap Z sys hapPath codePath t =
     (case Option.bind hapPath (os_realpath sys t) of
        None \<Rightarrow> Some (EC_INVALID, t)
      | Some realHapPath \<Rightarrow>
          (let (ok, u) = Init \<lparr>fs_realpath = os_realpath sys t, fs_fopen = os_content sys t\<rparr> (ExtractorUtil_new realHapPath) in
           if \<not> ok then Some (EC_NOINIT, t)
           else if \<not> IsValideCodePath codePath then Some (EC_INVALID, t)
           else let (ok, t) = FU_RemoveFile sys (the codePath) t in
           if \<not> ok then Some (EC_NODIR, t)
           else let codeDir = with_separator (the codePath) in do {
             (ok, t) \<leftarrow> MkRecursiveDir sys (Some codeDir) True t;
             if \<not> ok then Some (EC_NODIR, t)
             else unzip_loop Z sys u codeDir (GetZipFileNames u) t }))"

definition D_RenameFile :: "os \<Rightarrow> cstr \<Rightarrow> cstr \<Rightarrow> fs_trace \<Rightarrow> ec \<times> fs_trace" where
  "D_RenameFile sys oldFile newFile t =
     (case Option.bind oldFile (os_realpath sys t) of
        None \<Rightarrow> (EC_INVALID, t)
      | Some realOldPath \<Rightarrow>
          if \<not> (IsValideCodePath (Some realOldPath) \<and> IsValideCodePath newFile) \<and>
             \<not> (IsValideJsonPath (Some realOldPath) \<and> IsValideJsonPath newFile)
          then (EC_INVALID, t)
          else let (ok, t) = FU_RenameFile sys (Some realOldPath) newFile t in
            (if \<not> ok then EC_NODIR else EC_SUCCESS, t))"

definition D_CreatePermissionDir :: "os \<Rightarrow> fs_trace \<Rightarrow> (ec \<times> fs_trace) option" where
  "D_CreatePermissionDir sys t = do {
     (ok, t) \<leftarrow> MkRecursiveDir sys (Some PERMISSIONS_PATH) False t;
     if \<not> ok then Some (EC_NODIR, t)
     else let (ok, t) = ChownFile sys (Some PERMISSIONS_PATH) PMS_UID PMS_GID t in
       Some (if \<not> ok then EC_PERMISSION else EC_SUCCESS, t) }"

definition D_CreateDataDirectory :: "os \<Rightarrow> cstr \<Rightarrow> int \<Rightarrow> int \<Rightarrow> bool \<Rightarrow> fs_trace \<Rightarrow> (ec \<times> fs_trace) option" where
  "D_CreateDataDirectory sys dataPath uid gid isChown t =
     (if \<not> IsValideDataPath dataPath then Some (EC_INVALID, t)
      else let dataDir = with_separator (the dataPath) in do {
        (ok, t) \<leftarrow> (if \<not> IsExistDir sys t (Some dataDir) then MkRecursiveDir sys (Some dataDir) False t else Some (True, t));
        if \<not> ok then Some (EC_NODIR, t)
        else if \<not> isChown then Some (EC_SUCCESS, t)
        else let (ok, t) = ChownFile sys (Some dataDir) uid gid t in
          Some (if \<not> ok then EC_NOFILE else EC_SUCCESS, t) })"

definition D_RemoveInstallDirectory :: "os \<Rightarrow> cstr \<Rightarrow> cstr \<Rightarrow> bool \<Rightarrow> fs_trace \<Rightarrow> ec \<times> fs_trace" where
  "D_RemoveInstallDirectory sys codePath dataPath keepData t =
     (let (result, t) = (if IsValideCodePath codePath then FU_RemoveFile sys (the codePath) t else (False, t));
          (result, t) = (if keepData then (result, t)
            else if IsValideDataPath dataPath
            then (let (ok, t) = FU_RemoveFile sys (the dataPath) t in (ok \<and> result, t))
            else (False, t))
      in (if result then EC_SUCCESS else EC_NODIR, t))"

definition D_StoreContentToFile :: "os \<Rightarrow> cstr \<Rightarrow> cstr \<Rightarrow> nat \<Rightarrow> fs_trace \<Rightarrow> (ec \<times> fs_trace) option" where
  "D_StoreContentToFile sys filePath buffer n t =
     (if \<not> IsValideJsonPath filePath then Some (EC_NOFILE, t)
      else let dir = GetPathDir (the filePath) in
        if dir = [] then Some (EC_NODIR, t)
        else do {
          (ok, t) \<leftarrow> (if \<not> IsExistDir sys t (Some dir) then MkRecursiveDir sys (Some dir) True t else Some (True, t));
          if \<not> ok then Some (EC_NODIR, t)
          else let (ok, t) = FU_WriteFile sys filePath buffer n t in
            if \<not> ok then Some (EC_NODIR, snd (FU_RemoveFile sys (the filePath) t))
            else Some (EC_SUCCESS, t) })"

text \<open>The loop of \<open>MoveFile\<close> over the names in the old directory; a file that cannot be renamed is only logged.\<close>

fun move_loop :: "os \<Rightarrow> string \<Rightarrow> string \<Rightarrow> string list \<Rightarrow> fs_trace \<Rightarrow> fs_trace" where
  "move_loop sys realOldPath newFile [] t = t"
| "move_loop sys realOldPath newFile (n # ns) t =
     (if n = ''.'' \<or> n = ''..'' then move_loop sys realOldPath newFile ns t
      else let oldFileName = realOldPath @ ''/'' @ n in
        if IsExistDir sys t (Some oldFileName) then move_loop sys realOldPath newFile ns t
        else move_loop sys realOldPath newFile ns
          (snd (FU_RenameFile sys (Some oldFileName) (Some (newFile @ ''/'' @ n)) t)))"

text \<open>The message handler has made sure that \<open>newFile\<close> is not null.\<close>

definition D_MoveFile :: "os \<Rightarrow> cstr \<Rightarrow> string \<Rightarrow> fs_trace \<Rightarrow> (ec \<times> fs_trace) option" where
  "D_MoveFile sys oldFile newFile t =
     (case Option.bind oldFile (os_realpath sys t) of
        None \<Rightarrow> Some (EC_INVALID, t)
      | Some realOldPath \<Rightarrow>
          if IsExistFile sys t (Some realOldPath)
          then let (ok, t) = FU_RenameFile sys (Some realOldPath) (Some newFile) t in
            Some (if \<not> ok then EC_FAILURE else EC_SUCCESS, t)
          else if IsExistFile sys t (Some newFile) then Some (EC_INVALID, t)
          else do {
            (ok, t) \<leftarrow> (if \<not> IsExistDir sys t (Some newFile) then MkRecursiveDir sys (Some newFile) True t else Some (True, t));
            case os_readdir sys t realOldPath of
              None \<Rightarrow> Some (EC_FAILURE, t)
            | Some ns \<Rightarrow> Some (EC_SUCCESS, snd (FU_RemoveFile sys realOldPath (move_loop sys realOldPath newFile ns t))) })"

definition D_RemoveFile :: "os \<Rightarrow> cstr \<Rightarrow> fs_trace \<Rightarrow> ec \<times> fs_trace" where
  "D_RemoveFile sys filePath t =
     (case Option.bind filePath (os_realpath sys t) of
        None \<Rightarrow> (EC_INVALID, t)
      | Some realFilePath \<Rightarrow>
          if \<not> IsValideJsonPath (Some realFilePath) \<and> \<not> IsValideSystemPath (Some realFilePath) \<and>
             \<not> IsValideCodePath (Some realFilePath)
          then (EC_INVALID, t)
          else let (ok, t) = FU_RemoveFile sys realFilePath t in
            (if \<not> ok then EC_NODIR else EC_SUCCESS, t))"

section \<open>Messages\<close>

text \<open>The result of \<open>ObtainStringFromIpc\<close>, the two strings and the rest of the message, in \<open>Inr\<close>.\<close>

definition ObtainStringFromIpc :: "stack \<Rightarrow> ipc \<Rightarrow> (ec + string \<times> string \<times> ipc) option" where
  "ObtainStringFromIpc k req = do {
     let (s, req) = ReadString req;
     innerStr \<leftarrow> s;
     let (len, req) = ReadUint16 k req;
     if length innerStr \<le> unat len then Some (Inl EC_INVALID)
     else Some (Inr (take (unat len) innerStr, drop (unat len) innerStr, req)) }"

definition ExtractHapInvoke :: "'z zlib \<Rightarrow> os \<Rightarrow> stack \<Rightarrow> ipc \<Rightarrow> fs_trace \<Rightarrow> (ec \<times> fs_trace) option" where
  "ExtractHapInvoke Z sys k req t = do {
     r \<leftarrow> ObtainStringFromIpc k req;
     case r of Inl e \<Rightarrow> Some (e, t)
     | Inr (hapPath, codePath, _) \<Rightarrow> D_ExtractHap Z sys (Some hapPath) (Some codePath) t }"

definition RenameFileInvoke :: "os \<Rightarrow> stack \<Rightarrow> ipc \<Rightarrow> fs_trace \<Rightarrow> (ec \<times> fs_trace) option" where
  "RenameFileInvoke sys k req t = do {
     r \<leftarrow> ObtainStringFromIpc k req;
     case r of Inl e \<Rightarrow> Some (e, t)
     | Inr (oldFile, newFile, _) \<Rightarrow> Some (D_RenameFile sys (Some oldFile) (Some newFile) t) }"

definition CreatePermissionInvoke :: "os \<Rightarrow> fs_trace \<Rightarrow> (ec \<times> fs_trace) option" where
  "CreatePermissionInvoke sys t = D_CreatePermissionDir sys t"

definition CreateDataDirectoryInvoke :: "os \<Rightarrow> stack \<Rightarrow> ipc \<Rightarrow> fs_trace \<Rightarrow> (ec \<times> fs_trace) option" where
  "CreateDataDirectoryInvoke sys k req t =
     (let (dataPath, req) = ReadString req in
      if dataPath = None \<or> length (the dataPath) = 0 then Some (EC_INVALID, t)
      else let (uid, req) = ReadInt32 k req; (gid, req) = ReadInt32 k req; (isChown, req) = ReadBool k req in
        D_CreateDataDirectory sys dataPath uid gid isChown t)"

definition StoreContentToFileInvoke :: "os \<Rightarrow> ipc \<Rightarrow> fs_trace \<Rightarrow> (ec \<times> fs_trace) option" where
  "StoreContentToFileInvoke sys req t =
     (let (path, req) = ReadString req in
      if path = None \<or> length (the path) = 0 then Some (EC_INVALID, t)
      else let (buff, req) = ReadString req in
        if buff = None \<or> length (the buff) = 0 then Some (EC_INVALID, t)
        else D_StoreContentToFile sys path buff (length (the buff)) t)"

definition MoveFileInvoke :: "os \<Rightarrow> ipc \<Rightarrow> fs_trace \<Rightarrow> (ec \<times> fs_trace) option" where
  "MoveFileInvoke sys req t =
     (let (oldFile, req) = ReadString req in
      if oldFile = None \<or> length (the oldFile) = 0 then Some (EC_INVALID, t)
      else let (newFile, req) = ReadString req in
        if newFile = None \<or> length (the newFile) = 0 then Some (EC_INVALID, t)
        else D_MoveFile sys oldFile (the newFile) t)"

definition RemoveFileInvoke :: "os \<Rightarrow> ipc \<Rightarrow> fs_trace \<Rightarrow> (ec \<times> fs_trace) option" where
  "RemoveFileInvoke sys req t =
     (let (path, req) = ReadString req in
      if path = None \<or> length (the path) = 0 then Some (EC_INVALID, t)
      else Some (D_RemoveFile sys path t))"

definition RemoveInstallDirectoryInvoke :: "os \<Rightarrow> stack \<Rightarrow> ipc \<Rightarrow> fs_trace \<Rightarrow> (ec \<times> fs_trace) option" where
  "RemoveInstallDirectoryInvoke sys k req t = do {
     r \<leftarrow> ObtainStringFromIpc k req;
     case r of Inl e \<Rightarrow> Some (e, t)
     | Inr (codePath, dataPath, req) \<Rightarrow>
         Some (D_RemoveInstallDirectory sys (Some codePath) (Some dataPath) (fst (ReadBool k req)) t) }"

text \<open>The functions of the interface, numbered as the two sides number them.\<close>

definition EXTRACT_HAP :: int where "EXTRACT_HAP = 0"
definition RENAME_DIR :: int where "RENAME_DIR = 1"
definition CREATE_PERMISSION_DIR :: int where "CREATE_PERMISSION_DIR = 2"
definition CREATE_DATA_DIRECTORY :: int where "CREATE_DATA_DIRECTORY = 3"
definition STORE_CONTENT_TO_FILE :: int where "STORE_CONTENT_TO_FILE = 4"
definition MOVE_FILE :: int where "MOVE_FILE = 5"
definition REMOVE_FILE :: int where "REMOVE_FILE = 6"
definition REMOVE_INSTALL_DIRECTORY :: int where "REMOVE_INSTALL_DIRECTORY = 7"
definition BDS_CMD_END :: int where "BDS_CMD_END = 8"
definition REGISTER_CALLBACK :: int where "REGISTER_CALLBACK = 9"
definition BMS_UID :: int where "BMS_UID = 7"

lemmas cmd_defs = EXTRACT_HAP_def RENAME_DIR_def CREATE_PERMISSION_DIR_def CREATE_DATA_DIRECTORY_def
  STORE_CONTENT_TO_FILE_def MOVE_FILE_def REMOVE_FILE_def REMOVE_INSTALL_DIRECTORY_def BDS_CMD_END_def REGISTER_CALLBACK_def

definition invokeFuncs :: "'z zlib \<Rightarrow> os \<Rightarrow> stack \<Rightarrow> int \<Rightarrow> ipc \<Rightarrow> fs_trace \<Rightarrow> (ec \<times> fs_trace) option" where
  "invokeFuncs Z sys k funcId req t =
     [ExtractHapInvoke Z sys k req t, RenameFileInvoke sys k req t, CreatePermissionInvoke sys t,
      CreateDataDirectoryInvoke sys k req t, StoreContentToFileInvoke sys req t, MoveFileInvoke sys req t,
      RemoveFileInvoke sys req t, RemoveInstallDirectoryInvoke sys k req t] ! nat funcId"

text \<open>
  The daemon remembers whom to answer. A request is refused at once, or its result is sent to the client.
\<close>

datatype answer = Refused ec | Replied SvcIdentity ec

record bundle_daemon =
  dm_client :: "SvcIdentity option"
  dm_trace :: fs_trace

definition RegisterCallbackInvoke :: "ipc \<Rightarrow> bundle_daemon \<Rightarrow> answer \<times> bundle_daemon" where
  "RegisterCallbackInvoke req d =
     (case req of
        IRemote svcIdentity # _ \<Rightarrow> (Replied svcIdentity EC_SUCCESS, d\<lparr>dm_client := Some svcIdentity\<rparr>)
      | _ \<Rightarrow> (Refused EC_INVALID, d))"

definition Invoke ::
    "'z zlib \<Rightarrow> os \<Rightarrow> stack \<Rightarrow> int \<Rightarrow> int \<Rightarrow> ipc option \<Rightarrow> bundle_daemon \<Rightarrow> (answer \<times> bundle_daemon) option" where
  "Invoke Z sys k uid funcId req d =
     (case req of
        None \<Rightarrow> Some (Refused EC_INVALID, d)
      | Some m \<Rightarrow>
          if uid \<noteq> BMS_UID then Some (Refused EC_PERMISSION, d)
          else if funcId = REGISTER_CALLBACK then Some (RegisterCallbackInvoke m d)
          else (case dm_client d of
              None \<Rightarrow> Some (Refused EC_NOINIT, d)
            | Some c \<Rightarrow>
                if funcId \<ge> EXTRACT_HAP \<and> funcId < BDS_CMD_END
                then do {
                  (ret, t) \<leftarrow> invokeFuncs Z sys k funcId m (dm_trace d);
                  Some (Replied c ret, d\<lparr>dm_trace := t\<rparr>) }
                else Some (Replied c EC_COMMU, d)))"

section \<open>The client's messages\<close>

text \<open>
  What each operation of the client sends: an error it answers at once, or the function and the message. A string
  ends at its first NUL.
\<close>

definition CallClientInvoke :: "room_left \<Rightarrow> int \<Rightarrow> string \<Rightarrow> string \<Rightarrow> int \<times> ipc" where
  "CallClientInvoke space funcId firstPath secondPath =
     (funcId, io_write space (IU16 (of_nat (length firstPath))) (io_write space (IStr (firstPath @ secondPath)) []))"

type_synonym sent = "ec + int \<times> ipc"

definition C_ExtractHap :: "room_left \<Rightarrow> bool \<Rightarrow> cstr \<Rightarrow> cstr \<Rightarrow> sent" where
  "C_ExtractHap space initialized hapFile codePath =
     (if \<not> initialized then Inl EC_NOINIT
      else case (hapFile, codePath) of
          (Some h, Some c) \<Rightarrow> Inr (CallClientInvoke space EXTRACT_HAP h c)
        | _ \<Rightarrow> Inl EC_INVALID)"

definition C_RenameFile :: "room_left \<Rightarrow> bool \<Rightarrow> cstr \<Rightarrow> cstr \<Rightarrow> sent" where
  "C_RenameFile space initialized oldFile newFile =
     (if \<not> initialized then Inl EC_NOINIT
      else case (oldFile, newFile) of
          (Some p, Some q) \<Rightarrow> Inr (CallClientInvoke space RENAME_DIR p q)
        | _ \<Rightarrow> Inl EC_INVALID)"

definition C_CreatePermissionDir :: "bool \<Rightarrow> sent" where
  "C_CreatePermissionDir initialized =
     (if \<not> initialized then Inl EC_NOINIT else Inr (CREATE_PERMISSION_DIR, []))"

definition C_CreateDataDirectory :: "room_left \<Rightarrow> bool \<Rightarrow> cstr \<Rightarrow> int \<Rightarrow> int \<Rightarrow> bool \<Rightarrow> sent" where
  "C_CreateDataDirectory space initialized dataPath uid gid isChown =
     (if \<not> initialized then Inl EC_NOINIT
      else case dataPath of
          None \<Rightarrow> Inl EC_INVALID
        | Some p \<Rightarrow> Inr (CREATE_DATA_DIRECTORY,
            io_write space (IBool isChown) (io_write space (II32 gid) (io_write space (II32 uid) (io_write space (IStr p) [])))))"

definition C_StoreContentToFile :: "room_left \<Rightarrow> bool \<Rightarrow> cstr \<Rightarrow> cstr \<Rightarrow> nat \<Rightarrow> sent" where
  "C_StoreContentToFile space initialized file buffer n =
     (if \<not> initialized then Inl EC_NOINIT
      else case (file, buffer) of
          (Some p, Some b) \<Rightarrow>
            if n = 0 then Inl EC_INVALID
            else Inr (STORE_CONTENT_TO_FILE, io_write space (IStr (c_str b)) (io_write space (IStr p) []))
        | _ \<Rightarrow> Inl EC_INVALID)"

definition C_MoveFile :: "room_left \<Rightarrow> bool \<Rightarrow> cstr \<Rightarrow> cstr \<Rightarrow> sent" where
  "C_MoveFile space initialized oldFile newFile =
     (if \<not> initialized then Inl EC_NOINIT
      else case (oldFile, newFile) of
          (Some p, Some q) \<Rightarrow> Inr (MOVE_FILE, io_write space (IStr q) (io_write space (IStr p) []))
        | _ \<Rightarrow> Inl EC_INVALID)"

definition C_RemoveFile :: "room_left \<Rightarrow> bool \<Rightarrow> cstr \<Rightarrow> sent" where
  "C_RemoveFile space initialized file =
     (if \<not> initialized then Inl EC_NOINIT
      else case file of None \<Rightarrow> Inl EC_INVALID | Some p \<Rightarrow> Inr (REMOVE_FILE, io_write space (IStr p) []))"

definition C_RemoveInstallDirectory :: "room_left \<Rightarrow> bool \<Rightarrow> cstr \<Rightarrow> cstr \<Rightarrow> bool \<Rightarrow> sent" where
  "C_RemoveInstallDirectory space initialized codePath dataPath keepData =
     (if \<not> initialized then Inl EC_NOINIT
      else case (codePath, dataPath) of
          (Some c, Some d) \<Rightarrow> Inr (CallClientInvoke space REMOVE_INSTALL_DIRECTORY c d)
        | _ \<Rightarrow> Inl EC_INVALID)"

end
