(* ===== verification/Daemon_Correct.thy ===== *)
theory Daemon_Correct
  imports Daemon Zip_Correct
begin

text \<open>
  What the bundle daemon may touch, what unpacking a package leaves behind, and that a request of the service's
  client reaches the operation it names.
\<close>

section \<open>Paths\<close>

text \<open>The components of a path, and a path that lies below a directory whatever its components are called.\<close>

fun components :: "string \<Rightarrow> string list" where
  "components [] = [[]]"
| "components (c # cs) =
     (if c = CHR ''/'' then [] # components cs
      else case components cs of [] \<Rightarrow> [[c]] | n # ns \<Rightarrow> (c # n) # ns)"

definition below :: "string \<Rightarrow> string \<Rightarrow> bool" where
  "below dir p \<longleftrightarrow> prefix dir p \<and> ''..'' \<notin> set (components p)"

lemma components_not_Nil: "components p \<noteq> []"
  by (induction p) (auto split: list.split)

lemma components_append: "components (p @ CHR ''/'' # q) = components p @ components q"
  by (induction p) (auto split: list.splits simp: components_not_Nil)

lemma components_name: "CHR ''/'' \<notin> set n \<Longrightarrow> components n = [n]"
  by (induction n) auto

lemma component_sublist: "n \<in> set (components p) \<Longrightarrow> sublist n p"
proof (induction p arbitrary: n)
  case Nil
  then show ?case by simp
next
  case (Cons c cs)
  have first: "prefix (hd (components cs)) cs"
    by (induction cs) (auto split: list.split simp: components_not_Nil)
  obtain m ms where cs: "components cs = m # ms" using components_not_Nil by (metis neq_Nil_conv)
  show ?case
  proof (cases "c = CHR ''/''")
    case True
    with Cons show ?thesis by (auto simp: sublist_Cons_right)
  next
    case False
    with Cons.prems cs consider "n = c # m" | "n \<in> set ms" by auto
    then show ?thesis
    proof cases
      case 1
      with first cs show ?thesis by (metis list.sel(1) prefix_imp_sublist Cons_prefix_Cons)
    next
      case 2
      with Cons.IH cs show ?thesis by (auto simp: sublist_Cons_right)
    qed
  qed
qed

lemma below_valid: "prefix dir p \<Longrightarrow> \<not> contains p ''..'' \<Longrightarrow> below dir p"
  using component_sublist by (auto simp: below_def contains_sublist)

lemma below_entry:
  "below dir p \<Longrightarrow> CHR ''/'' \<notin> set n \<Longrightarrow> n \<noteq> ''..'' \<Longrightarrow> below dir (p @ CHR ''/'' # n)"
  by (auto simp: below_def components_append components_name)

lemma contains_prefix: "prefix q p \<Longrightarrow> contains q s \<Longrightarrow> contains p s"
  using contains_mono[of q s "[]"] by (auto simp: prefix_def)

lemma not_contains_join:
  assumes "\<not> contains a ''..''" "\<not> contains b ''..''" "a \<noteq> []" "last a = CHR ''/''"
  shows "\<not> contains (a @ b) ''..''"
proof
  assume "contains (a @ b) ''..''"
  then have "sublist ''..'' (a @ b)" by (simp add: contains_sublist)
  with assms(1,2) obtain x y where xy: "''..'' = x @ y" "suffix x a" "prefix y b" "x \<noteq> []" "y \<noteq> []"
    by (auto simp: contains_sublist sublist_append) (metis append_Nil append_Nil2 prefix_imp_sublist suffix_imp_sublist)
  then have "last a = last x" by (auto simp: suffix_def)
  moreover have "x = ''.''" using xy(1,4,5) by (cases x; cases "tl x") auto
  ultimately show False using assms(4) by simp
qed

lemma c_str_append: "CHR 0x00 \<notin> set a \<Longrightarrow> c_str (a @ b) = a @ c_str b"
  by (induction a) (auto simp: c_str_def)

lemma prefix_c_str: "CHR 0x00 \<notin> set dir \<Longrightarrow> prefix dir p \<Longrightarrow> prefix dir (c_str p)"
  by (auto simp: prefix_def c_str_append)

lemma c_str_prefix: "prefix (c_str p) p"
  by (simp add: c_str_def takeWhile_is_prefix)

lemma IsValidPath_below: "IsValidPath dir p \<Longrightarrow> prefix dir p \<and> \<not> contains p ''..''"
  by (auto simp: IsValidPath_def prefix_def split: if_splits) (metis append_take_drop_id)

lemma IsValideSystemPath_never: "\<not> IsValideSystemPath p"
  by (auto simp: IsValideSystemPath_def IsValidPath_def SYSTEM_HAP_PATH_def THIRD_HAP_PATH_def split: option.split)

section \<open>What an operation adds to the trace\<close>

text \<open>The calls that may be made for the directories \<open>roots\<close>: below one of them, or creating a directory above one.\<close>

definition within :: "string list \<Rightarrow> string \<Rightarrow> bool" where
  "within roots p \<longleftrightarrow> list_ex (\<lambda>dir. below dir p) roots"

fun call_within :: "string list \<Rightarrow> fs_call \<Rightarrow> bool" where
  "call_within roots (Mkdir p _) = (within roots p \<or> list_ex (\<lambda>dir. prefix p dir) roots)"
| "call_within roots (RemoveEntry p) = within roots p"
| "call_within roots (RenameEntry p q) = (within roots p \<and> within roots q)"
| "call_within roots (Chown p _ _) = within roots p"
| "call_within roots (CreateFile p) = within roots p"
| "call_within roots (WriteBytes p _) = within roots p"
| "call_within roots (SyncFile p) = within roots p"

definition adds :: "(fs_call \<Rightarrow> bool) \<Rightarrow> fs_trace \<Rightarrow> fs_trace \<Rightarrow> bool" where
  "adds P t t' \<longleftrightarrow> (\<exists>cs. t' = t @ cs \<and> list_all P cs)"

lemma adds_refl [simp]: "adds P t t"
  by (simp add: adds_def)

lemma adds_trans: "adds P t t1 \<Longrightarrow> adds P t1 t2 \<Longrightarrow> adds P t t2"
  by (auto simp: adds_def)

lemma adds_do: "fs_do sys c t = (ok, t') \<Longrightarrow> P c \<Longrightarrow> adds P t t'"
  by (auto simp: fs_do_def adds_def)

lemma adds_do_snd: "P c \<Longrightarrow> adds P t (snd (fs_do sys c t))"
  by (auto simp: fs_do_def adds_def)

text \<open>\<open>readdir\<close> never shows a name with a separator in it.\<close>

definition names_ok :: "os \<Rightarrow> bool" where
  "names_ok sys \<longleftrightarrow> (\<forall>t p ns n. os_readdir sys t p = Some ns \<longrightarrow> n \<in> set ns \<longrightarrow> CHR ''/'' \<notin> set n)"

lemma within_entry:
  "within roots p \<Longrightarrow> CHR ''/'' \<notin> set n \<Longrightarrow> n \<noteq> ''..'' \<Longrightarrow> within roots (p @ ''/'' @ n)"
  by (auto simp: within_def list_ex_iff intro: below_entry)

lemma FU_RemoveFile_adds:
  shows "names_ok sys \<Longrightarrow> within roots p \<Longrightarrow> adds (call_within roots) t (snd (FU_RemoveFile sys p t))"
    and "names_ok sys \<Longrightarrow> within roots p \<Longrightarrow> \<forall>n \<in> set ns. CHR ''/'' \<notin> set n \<Longrightarrow>
      adds (call_within roots) t (snd (remove_entries sys p ns t))"
proof (induction sys p t and sys p ns t rule: FU_RemoveFile_remove_entries.induct)
  case (1 sys p t)
  show ?case
  proof (cases "os_readdir sys t p")
    case None
    with "1.prems" show ?thesis by (subst FU_RemoveFile.simps) (auto intro: adds_do_snd)
  next
    case (Some ns)
    obtain ok t1 where r: "remove_entries sys p ns t = (ok, t1)" by fastforce
    show ?thesis
    proof (cases "IsExistFile sys t (Some p) \<or> \<not> IsExistDir sys t (Some p)")
      case True
      with "1.prems" show ?thesis by (subst FU_RemoveFile.simps) (auto intro: adds_do_snd)
    next
      case False
      have "\<forall>n \<in> set ns. CHR ''/'' \<notin> set n" using "1.prems"(1) Some unfolding names_ok_def by blast
      with "1.IH" Some "1.prems" r False have t1: "adds (call_within roots) t t1" by auto
      have "adds (call_within roots) t (snd (fs_do sys (RemoveEntry p) t1))"
        using t1 by (rule adds_trans) (rule adds_do_snd, simp add: "1.prems")
      with t1 False Some r show ?thesis by (subst FU_RemoveFile.simps) auto
    qed
  qed
next
  case (2 sys p t)
  then show ?case by simp
next
  case (3 sys p n ns t)
  show ?case
  proof (cases "n = ''.'' \<or> n = ''..'' \<or> length (p @ ''/'' @ n) \<ge> PATH_MAX")
    case True
    with 3 show ?thesis by (subst remove_entries.simps) auto
  next
    case False
    obtain ok t1 where r: "FU_RemoveFile sys (p @ ''/'' @ n) t = (ok, t1)" by fastforce
    have "within roots (p @ ''/'' @ n)" using "3.prems" False by (intro within_entry) auto
    with "3.IH"(2) False r "3.prems"(1) have t1: "adds (call_within roots) t t1" by auto
    show ?thesis
    proof (cases ok)
      case True
      with "3.IH"(3)[OF _ _ r[symmetric] True] False "3.prems"
      have "adds (call_within roots) t1 (snd (remove_entries sys p ns t1))" by auto
      with t1 True False r show ?thesis by (subst remove_entries.simps) (auto intro: adds_trans[OF t1])
    next
      case nok: False
      with False r t1 show ?thesis by (subst remove_entries.simps) auto
    qed
  qed
qed

lemma FU_RemoveFile_within:
  "names_ok sys \<Longrightarrow> within roots p \<Longrightarrow> FU_RemoveFile sys p t = (ok, t') \<Longrightarrow> adds (call_within roots) t t'"
  using FU_RemoveFile_adds(1)[of sys roots p t] by simp

lemma mkdir_loop_adds:
  assumes "mkdir_loop sys ro done1 rest t = Some (ok, t')"
    and "\<And>q. prefix q (done1 @ rest) \<Longrightarrow> P (Mkdir q ro)"
  shows "adds P t t'"
  using assms
proof (induction sys ro done1 rest t rule: mkdir_loop.induct)
  case (1 sys ro done1 t)
  then show ?case by simp
next
  case (2 sys ro done1 c cs t)
  let ?r = "done1 @ [c]"
  obtain ok1 t1 where r: "fs_do sys (Mkdir ?r ro) t = (ok1, t1)" by fastforce
  have "prefix ?r (done1 @ c # cs)" by (simp add: prefix_def)
  with "2.prems"(2) r have t1: "adds P t t1" by (blast intro: adds_do)
  have P: "\<And>q. prefix q (?r @ cs) \<Longrightarrow> P (Mkdir q ro)" using "2.prems"(2) by simp
  consider "mkdir_loop sys ro ?r cs t = Some (ok, t')" "\<not> (c = CHR ''/'' \<or> cs = []) \<or> IsExistDir sys t (Some ?r)"
    | "t' = t1" | "mkdir_loop sys ro ?r cs t1 = Some (ok, t')" "ok1" "\<not> IsExistDir sys t (Some ?r)" "c = CHR ''/'' \<or> cs = []"
      "\<not> length ?r \<ge> PATH_MAX"
    using "2.prems"(1) r by (auto simp: Let_def split: if_splits)
  then show ?case
  proof cases
    case 1
    have "\<not> (c = CHR ''/'' \<or> cs = []) \<or> (c = CHR ''/'' \<or> cs = []) \<and> \<not> length ?r \<ge> PATH_MAX \<and> IsExistDir sys t (Some ?r)"
      using 1(2) "2.prems"(1) by (auto simp: Let_def split: if_splits)
    with "2.IH" 1(1) P show ?thesis by (metis (no_types, lifting))
  next
    case 2
    with t1 show ?thesis by simp
  next
    case 3
    with "2.IH"(2)[OF refl _ _ _ refl r[symmetric] _ 3(1) P] have "adds P t1 t'" by auto
    with t1 show ?thesis by (rule adds_trans)
  qed
qed

lemma MkRecursiveDir_adds:
  assumes "MkRecursiveDir sys (Some d) ro t = Some (ok, t')" "\<And>q. prefix q d \<Longrightarrow> P (Mkdir q ro)"
  shows "adds P t t'"
  using assms mkdir_loop_adds[of sys ro "[]" d t ok t' P] by (auto simp: MkRecursiveDir_def split: if_splits)

text \<open>Every directory \<open>MkRecursiveDir\<close> creates for a valid path lies below the root or leads to it.\<close>

lemma mkdir_within:
  assumes "dir \<in> set roots" "prefix dir d" "\<not> contains d ''..''" "prefix q d"
  shows "call_within roots (Mkdir q ro)"
proof -
  have "\<not> contains q ''..''" using assms(3,4) contains_prefix by blast
  moreover have "prefix dir q \<or> prefix q dir" using assms(2,4) prefix_same_cases by blast
  ultimately show ?thesis using assms(1) below_valid by (auto simp: within_def list_ex_iff)
qed

lemma within_valid: "dir \<in> set roots \<Longrightarrow> prefix dir p \<Longrightarrow> \<not> contains p ''..'' \<Longrightarrow> within roots p"
  using below_valid by (auto simp: within_def list_ex_iff)

lemma MkRecursiveDir_within:
  "dir \<in> set roots \<Longrightarrow> prefix dir d \<Longrightarrow> \<not> contains d ''..'' \<Longrightarrow> MkRecursiveDir sys (Some d) ro t = Some (ok, t') \<Longrightarrow>
   adds (call_within roots) t t'"
  by (rule MkRecursiveDir_adds) (auto intro: mkdir_within simp del: call_within.simps)

lemma FU_RenameFile_within:
  assumes "names_ok sys" "within roots p" "within roots q" "FU_RenameFile sys (Some p) (Some q) t = (ok, t')"
  shows "adds (call_within roots) t t'"
proof -
  obtain ok1 t1 where r: "FU_RemoveFile sys q t = (ok1, t1)" by fastforce
  have t1: "adds (call_within roots) t t1" using FU_RemoveFile_within[OF assms(1,3) r] .
  show ?thesis
  proof (cases ok1)
    case True
    with assms(4) r have "fs_do sys (RenameEntry p q) t1 = (ok, t')" by (simp add: FU_RenameFile_def)
    then have "adds (call_within roots) t1 t'" by (rule adds_do) (simp add: assms(2,3))
    with t1 show ?thesis by (rule adds_trans)
  next
    case False
    with assms(4) r t1 show ?thesis by (simp add: FU_RenameFile_def)
  qed
qed

lemma ExtractFileToPath_within:
  assumes "within roots (c_str p)" "ExtractFileToPath Z sys u p n t = Some (ok, t')"
  shows "adds (call_within roots) t t'"
proof -
  obtain ok1 t1 where c: "fs_do sys (CreateFile (c_str p)) t = (ok1, t1)" by fastforce
  have t1: "adds (call_within roots) t t1" by (rule adds_do[OF c]) (simp add: assms(1))
  show ?thesis
  proof (cases ok1)
    case False
    with assms(2) c t1 show ?thesis by (simp add: ExtractFileToPath_def)
  next
    case True
    then obtain ret bytes where x: "ExtractFile Z (eu_zipFile u) n = Some (ret, bytes)"
      using assms(2) c by (auto simp: ExtractFileToPath_def bind_Some_iff)
    obtain good t2 where w: "fs_do sys (WriteBytes (c_str p) (chars bytes)) t1 = (good, t2)" by fastforce
    have t2: "adds (call_within roots) t t2"
      by (rule adds_trans[OF t1]) (rule adds_do[OF w], simp add: assms(1))
    have "t' = snd (fs_do sys (RemoveEntry (c_str p)) t2) \<or> t' = snd (fs_do sys (SyncFile (c_str p)) t2)"
      using assms(2) True c x w by (auto simp: ExtractFileToPath_def Let_def split: if_splits prod.splits)
    then show ?thesis
    proof
      assume t': "t' = snd (fs_do sys (RemoveEntry (c_str p)) t2)"
      show ?thesis unfolding t' by (rule adds_trans[OF t2]) (rule adds_do_snd, simp add: assms(1))
    next
      assume t': "t' = snd (fs_do sys (SyncFile (c_str p)) t2)"
      show ?thesis unfolding t' by (rule adds_trans[OF t2]) (rule adds_do_snd, simp add: assms(1))
    qed
  qed
qed

text \<open>A name of the archive, joined to the directory the package is unpacked in.\<close>

lemma join_within:
  assumes "dir \<in> set roots" "CHR 0x00 \<notin> set dir" "prefix dir codeDir" "\<not> contains codeDir ''..''"
    "codeDir \<noteq> []" "last codeDir = CHR ''/''" "\<not> contains n ''..''"
  shows "prefix dir (c_str (codeDir @ n)) \<and> \<not> contains (c_str (codeDir @ n)) ''..''"
proof -
  have "\<not> contains (codeDir @ n) ''..''" using assms by (intro not_contains_join)
  then have "\<not> contains (c_str (codeDir @ n)) ''..''" using contains_prefix[OF c_str_prefix] by blast
  moreover have "prefix dir (codeDir @ n)" using assms(3) by (auto simp: prefix_def)
  ultimately show ?thesis using prefix_c_str assms(2) by blast
qed

lemma not_contains_GetPathDir: "\<not> contains n s \<Longrightarrow> \<not> contains (GetPathDir n) s"
  using contains_prefix[of "GetPathDir n" n s] by (auto simp: GetPathDir_def take_is_prefix split: option.splits)

lemma unzip_loop_within:
  assumes "dir \<in> set roots" "CHR 0x00 \<notin> set dir" "prefix dir codeDir" "\<not> contains codeDir ''..''"
    "codeDir \<noteq> []" "last codeDir = CHR ''/''"
  shows "unzip_loop Z sys u codeDir ns t = Some (e, t') \<Longrightarrow> adds (call_within roots) t t'"
proof (induction ns arbitrary: t)
  case Nil
  then show ?case by simp
next
  case (Cons n ns)
  note join = join_within[OF assms]
  show ?case
  proof (cases "contains n ''..'' \<or> n \<noteq> [] \<and> last n = CHR ''/''")
    case True
    with Cons show ?thesis by (auto split: if_splits)
  next
    case False
    then have nn: "\<not> contains n ''..''" by simp
    let ?mk = "if GetPathDir n \<noteq> [] then MkRecursiveDir sys (Some (c_str (codeDir @ GetPathDir n))) False t else Some (True, t)"
    obtain ok1 t1 where mk: "?mk = Some (ok1, t1)"
      using Cons.prems False by (auto simp: bind_Some_iff Let_def split: if_splits)
    have t1: "adds (call_within roots) t t1"
    proof (cases "GetPathDir n = []")
      case True
      with mk show ?thesis by simp
    next
      case dirs: False
      with mk have "MkRecursiveDir sys (Some (c_str (codeDir @ GetPathDir n))) False t = Some (ok1, t1)" by simp
      then show ?thesis
        using join[OF not_contains_GetPathDir[OF nn]] assms(1) by (intro MkRecursiveDir_within[of dir]) auto
    qed
    have rest: "(if \<not> ok1 then Some (EC_NODIR, t1)
        else do {
          (ok, t) \<leftarrow> ExtractFileToPath Z sys u (codeDir @ n) n t1;
          if \<not> ok then Some (EC_NODIR, t) else unzip_loop Z sys u codeDir ns t }) = Some (e, t')"
      using Cons.prems False by (simp only: unzip_loop.simps Let_def mk bind.simps prod.case de_Morgan_disj if_False)
    show ?thesis
    proof (cases ok1)
      case False
      with rest t1 show ?thesis by simp
    next
      case True
      with rest obtain ok2 t2 where x: "ExtractFileToPath Z sys u (codeDir @ n) n t1 = Some (ok2, t2)"
        and go: "(if \<not> ok2 then Some (EC_NODIR, t2) else unzip_loop Z sys u codeDir ns t2) = Some (e, t')"
        by (auto simp: bind_Some_iff)
      have "within roots (c_str (codeDir @ n))" using join[OF nn] assms(1) within_valid by blast
      then have t2: "adds (call_within roots) t t2"
        using ExtractFileToPath_within[OF _ x] t1 adds_trans by blast
      show ?thesis
      proof (cases ok2)
        case True
        with go Cons.IH have "adds (call_within roots) t2 t'" by simp
        with t2 show ?thesis by (rule adds_trans)
      next
        case False
        with go t2 show ?thesis by simp
      qed
    qed
  qed
qed

section \<open>Every operation keeps to its directories\<close>

definition code_roots :: "string list" where "code_roots = [STORAGE @ HAP_CODE_PATH, SDCARD @ HAP_CODE_PATH]"
definition data_roots :: "string list" where "data_roots = [STORAGE @ HAP_DATA_PATH, SDCARD @ HAP_DATA_PATH]"
definition json_roots :: "string list" where "json_roots = [STORAGE @ D_JSON_PATH]"

lemmas root_defs = code_roots_def data_roots_def json_roots_def STORAGE_def SDCARD_def HAP_CODE_PATH_def
  HAP_DATA_PATH_def D_JSON_PATH_def

lemma roots_plain: "dir \<in> set (code_roots @ data_roots @ json_roots) \<Longrightarrow> CHR 0x00 \<notin> set dir"
  by (auto simp: root_defs)

lemma valid_code: "IsValideCodePath (Some p) \<Longrightarrow> \<exists>dir \<in> set code_roots. prefix dir p \<and> \<not> contains p ''..''"
  using IsValidPath_below by (auto simp: IsValideCodePath_def code_roots_def)

lemma valid_data: "IsValideDataPath (Some p) \<Longrightarrow> \<exists>dir \<in> set data_roots. prefix dir p \<and> \<not> contains p ''..''"
  using IsValidPath_below by (auto simp: IsValideDataPath_def data_roots_def)

lemma valid_json: "IsValideJsonPath (Some p) \<Longrightarrow> \<exists>dir \<in> set json_roots. prefix dir p \<and> \<not> contains p ''..''"
  using IsValidPath_below by (auto simp: IsValideJsonPath_def json_roots_def)

lemma valid_Some: "IsValideCodePath q \<Longrightarrow> \<exists>p. q = Some p" "IsValideDataPath q \<Longrightarrow> \<exists>p. q = Some p" "IsValideJsonPath q \<Longrightarrow> \<exists>p. q = Some p"
  by (auto simp: IsValideCodePath_def IsValideDataPath_def IsValideJsonPath_def split: option.splits)

lemma valid_within:
  "IsValideCodePath (Some p) \<Longrightarrow> set code_roots \<subseteq> set roots \<Longrightarrow> within roots p"
  "IsValideDataPath (Some p) \<Longrightarrow> set data_roots \<subseteq> set roots \<Longrightarrow> within roots p"
  "IsValideJsonPath (Some p) \<Longrightarrow> set json_roots \<subseteq> set roots \<Longrightarrow> within roots p"
  by (blast dest: valid_code valid_data valid_json intro: within_valid)+

lemma with_separator_ok:
  assumes "prefix dir p" "\<not> contains p ''..''" "dir \<noteq> []"
  shows "prefix dir (with_separator p) \<and> \<not> contains (with_separator p) ''..'' \<and> with_separator p \<noteq> [] \<and>
    last (with_separator p) = CHR ''/''"
proof (cases "last p = CHR ''/''")
  case True
  with assms show ?thesis by (auto simp: with_separator_def)
next
  case False
  have p: "p \<noteq> []" using assms(1,3) by auto
  have "\<not> contains (p @ ''/'') ''..''"
  proof
    assume "contains (p @ ''/'') ''..''"
    then have "sublist ''..'' p \<or> suffix ''..'' (p @ ''/'') \<or> sublist ''..'' ''/''"
      unfolding contains_sublist by (auto simp: sublist_append prefix_Cons suffix_def)
    with assms(2) show False by (auto simp: contains_sublist suffix_def sublist_Cons_right)
  qed
  with False assms p show ?thesis by (auto simp: with_separator_def prefix_def)
qed

lemma D_ExtractHap_within:
  assumes "names_ok sys" "D_ExtractHap Z sys h c t = Some (e, t')"
  shows "adds (call_within code_roots) t t'"
proof -
  consider "t' = t" | p u ok1 t1 where "c = Some p" "IsValideCodePath (Some p)" "FU_RemoveFile sys p t = (ok1, t1)"
    "(if \<not> ok1 then Some (EC_NODIR, t1) else do {
        (ok, t) \<leftarrow> MkRecursiveDir sys (Some (with_separator p)) True t1;
        if \<not> ok then Some (EC_NODIR, t)
        else unzip_loop Z sys u (with_separator p) (GetZipFileNames u) t }) = Some (e, t')"
    using assms(2) valid_Some(1)[of c]
    by (cases "IsValideCodePath c") (auto simp: D_ExtractHap_def Let_def split: option.splits prod.splits if_splits)
  then show ?thesis
  proof cases
    case 1
    then show ?thesis by simp
  next
    case 2
    obtain dir where dir: "dir \<in> set code_roots" "prefix dir p" "\<not> contains p ''..''" using valid_code[OF 2(2)] by blast
    have ne: "dir \<noteq> []" "CHR 0x00 \<notin> set dir" using dir(1) by (auto simp: root_defs)
    note sep = with_separator_ok[OF dir(2,3) ne(1)]
    have t1: "adds (call_within code_roots) t t1"
      by (rule FU_RemoveFile_within[OF assms(1) _ 2(3)]) (rule within_valid[OF dir])
    show ?thesis
    proof (cases ok1)
      case False
      with 2(4) t1 show ?thesis by simp
    next
      case True
      with 2(4) obtain ok2 t2 where mk: "MkRecursiveDir sys (Some (with_separator p)) True t1 = Some (ok2, t2)"
        and go: "(if \<not> ok2 then Some (EC_NODIR, t2) else unzip_loop Z sys u (with_separator p) (GetZipFileNames u) t2) = Some (e, t')"
        by (auto simp: bind_Some_iff)
      have t2: "adds (call_within code_roots) t t2"
        using adds_trans[OF t1] MkRecursiveDir_within[OF dir(1) _ _ mk] sep by blast
      show ?thesis
      proof (cases ok2)
        case False
        with go t2 show ?thesis by simp
      next
        case True
        with go have "unzip_loop Z sys u (with_separator p) (GetZipFileNames u) t2 = Some (e, t')" by simp
        with unzip_loop_within[OF dir(1) ne(2)] sep have "adds (call_within code_roots) t2 t'" by blast
        with t2 show ?thesis by (rule adds_trans)
      qed
    qed
  qed
qed

lemma D_RenameFile_within:
  assumes "names_ok sys" "D_RenameFile sys q n t = (e, t')"
  shows "adds (call_within (code_roots @ json_roots)) t t'"
proof (cases "Option.bind q (os_realpath sys t)")
  case None
  with assms(2) show ?thesis by (simp add: D_RenameFile_def)
next
  case (Some p)
  show ?thesis
  proof (cases "IsValideCodePath (Some p) \<and> IsValideCodePath n \<or> IsValideJsonPath (Some p) \<and> IsValideJsonPath n")
    case True
    then obtain p' where n: "n = Some p'" using valid_Some by blast
    with True have w: "within (code_roots @ json_roots) p" "within (code_roots @ json_roots) p'"
      using valid_within(1,3)[of _ "code_roots @ json_roots"] by auto
    obtain ok where "FU_RenameFile sys (Some p) (Some p') t = (ok, t')"
      using assms(2) Some True n by (auto simp: D_RenameFile_def split: prod.splits if_splits)
    with FU_RenameFile_within[OF assms(1) w] show ?thesis by blast
  next
    case False
    with assms(2) Some show ?thesis by (auto simp: D_RenameFile_def split: if_splits)
  qed
qed

lemma D_CreatePermissionDir_within:
  assumes "D_CreatePermissionDir sys t = Some (e, t')"
  shows "adds (call_within json_roots) t t'"
proof -
  have dir: "STORAGE @ D_JSON_PATH \<in> set json_roots" "prefix (STORAGE @ D_JSON_PATH) PERMISSIONS_PATH"
    "\<not> contains PERMISSIONS_PATH ''..''"
    by (simp add: json_roots_def) (simp add: root_defs PERMISSIONS_PATH_def, code_simp)
  obtain ok1 t1 where mk: "MkRecursiveDir sys (Some PERMISSIONS_PATH) False t = Some (ok1, t1)"
    and go: "(if \<not> ok1 then Some (EC_NODIR, t1) else let (ok, t) = ChownFile sys (Some PERMISSIONS_PATH) PMS_UID PMS_GID t1 in
       Some (if \<not> ok then EC_PERMISSION else EC_SUCCESS, t)) = Some (e, t')"
    using assms by (auto simp: D_CreatePermissionDir_def bind_Some_iff)
  have t1: "adds (call_within json_roots) t t1" using MkRecursiveDir_within[OF dir mk] .
  have "t' = t1 \<or> t' = snd (fs_do sys (Chown PERMISSIONS_PATH PMS_UID PMS_GID) t1)"
    using go by (auto simp: ChownFile_def split: if_splits prod.splits)
  moreover have "adds (call_within json_roots) t (snd (fs_do sys (Chown PERMISSIONS_PATH PMS_UID PMS_GID) t1))"
    by (rule adds_trans[OF t1]) (rule adds_do_snd, simp add: within_valid[OF dir])
  ultimately show ?thesis using t1 by auto
qed

lemma D_CreateDataDirectory_within:
  assumes "D_CreateDataDirectory sys d uid gid own t = Some (e, t')"
  shows "adds (call_within data_roots) t t'"
proof (cases "IsValideDataPath d")
  case False
  with assms show ?thesis by (simp add: D_CreateDataDirectory_def)
next
  case True
  then obtain p where p: "d = Some p" "IsValideDataPath (Some p)" using valid_Some(2) by blast
  obtain dir where dir: "dir \<in> set data_roots" "prefix dir p" "\<not> contains p ''..''" using valid_data[OF p(2)] by blast
  have "dir \<noteq> []" using dir(1) by (auto simp: root_defs)
  note sep = with_separator_ok[OF dir(2,3) this]
  obtain ok1 t1 where mk: "(if \<not> IsExistDir sys t (Some (with_separator p)) then MkRecursiveDir sys (Some (with_separator p)) False t
      else Some (True, t)) = Some (ok1, t1)"
    and go: "(if \<not> ok1 then Some (EC_NODIR, t1) else if \<not> own then Some (EC_SUCCESS, t1)
        else let (ok, t) = ChownFile sys (Some (with_separator p)) uid gid t1 in
          Some (if \<not> ok then EC_NOFILE else EC_SUCCESS, t)) = Some (e, t')"
    using assms p by (auto simp: D_CreateDataDirectory_def bind_Some_iff Let_def)
  have t1: "adds (call_within data_roots) t t1"
    using mk MkRecursiveDir_within[OF dir(1)] sep by (auto split: if_splits)
  have "t' = t1 \<or> t' = snd (fs_do sys (Chown (with_separator p) uid gid) t1)"
    using go by (auto simp: ChownFile_def split: if_splits prod.splits)
  moreover have "adds (call_within data_roots) t (snd (fs_do sys (Chown (with_separator p) uid gid) t1))"
    by (rule adds_trans[OF t1]) (rule adds_do_snd, use within_valid[OF dir(1)] sep in simp)
  ultimately show ?thesis using t1 by auto
qed

lemma FU_RemoveFile_snd_within:
  "names_ok sys \<Longrightarrow> within roots p \<Longrightarrow> adds (call_within roots) t (snd (FU_RemoveFile sys p t))"
  by (rule FU_RemoveFile_adds(1))

lemma D_RemoveInstallDirectory_within:
  assumes "names_ok sys"
  shows "adds (call_within (code_roots @ data_roots)) t (snd (D_RemoveInstallDirectory sys c d keep t))"
proof -
  let ?P = "call_within (code_roots @ data_roots)"
  obtain r1 t1 where one: "(if IsValideCodePath c then FU_RemoveFile sys (the c) t else (False, t)) = (r1, t1)" by fastforce
  have t1: "adds ?P t t1"
  proof (cases "IsValideCodePath c")
    case True
    then obtain p where p: "c = Some p" using valid_Some(1) by blast
    with True have "within (code_roots @ data_roots) p" by (intro valid_within(1)) auto
    with one True p FU_RemoveFile_within[OF assms] show ?thesis by auto
  next
    case False
    with one show ?thesis by auto
  qed
  obtain r2 t2 where two: "(if keep then (r1, t1) else if IsValideDataPath d
            then (let (ok, t) = FU_RemoveFile sys (the d) t1 in (ok \<and> r1, t)) else (False, t1)) = (r2, t2)" by fastforce
  have "adds ?P t1 t2"
  proof (cases "\<not> keep \<and> IsValideDataPath d")
    case True
    then obtain p where p: "d = Some p" using valid_Some(2) by blast
    with True have "within (code_roots @ data_roots) p" by (intro valid_within(2)) auto
    from FU_RemoveFile_snd_within[OF assms this, of t1] two True p show ?thesis by (auto split: prod.splits)
  next
    case False
    with two show ?thesis by (auto split: if_splits)
  qed
  then have "adds ?P t t2" by (rule adds_trans[OF t1])
  then show ?thesis by (simp add: D_RemoveInstallDirectory_def one two)
qed

lemma D_RemoveFile_within:
  assumes "names_ok sys"
  shows "adds (call_within (code_roots @ json_roots)) t (snd (D_RemoveFile sys q t))"
proof (cases "Option.bind q (os_realpath sys t)")
  case None
  then show ?thesis by (simp add: D_RemoveFile_def)
next
  case (Some p)
  show ?thesis
  proof (cases "IsValideJsonPath (Some p) \<or> IsValideCodePath (Some p)")
    case True
    then have "within (code_roots @ json_roots) p"
      using valid_within(1,3)[of p "code_roots @ json_roots"] by auto
    from FU_RemoveFile_snd_within[OF assms this, of t] Some True show ?thesis
      by (auto simp: D_RemoveFile_def IsValideSystemPath_never split: prod.splits)
  next
    case False
    with Some show ?thesis by (auto simp: D_RemoveFile_def IsValideSystemPath_never)
  qed
qed

lemma GetPathDir_prefix: "prefix (GetPathDir p) p"
  by (auto simp: GetPathDir_def take_is_prefix split: option.splits)

lemma GetPathDir_below:
  assumes "prefix dir p" "dir \<noteq> []" "last dir = CHR ''/''"
  shows "prefix dir (GetPathDir p)"
proof -
  obtain x where p: "p = dir @ x" using assms(1) by (auto simp: prefix_def)
  have mem: "CHR ''/'' \<in> set p" using assms(2,3) p by (metis Un_iff last_in_set set_append)
  then obtain i where i: "rfind_char (CHR ''/'') p = Some i" by (metis not_None_eq rfind_char_None)
  have "length dir \<le> Suc i"
  proof (rule ccontr)
    assume "\<not> length dir \<le> Suc i"
    then have "last dir \<in> set (drop (Suc i) dir)" by (metis last_drop last_in_set drop_eq_Nil not_le le_eq_less_or_eq)
    moreover have "set (drop (Suc i) dir) \<subseteq> set (drop (Suc i) p)" by (simp add: p)
    ultimately show False using rfind_char_Some[OF i] assms(3) by auto
  qed
  then have "prefix dir (take (Suc i) (dir @ x))" by (simp add: prefix_def)
  then show ?thesis by (simp add: GetPathDir_def i p[symmetric])
qed

lemma D_StoreContentToFile_within:
  assumes "names_ok sys" "D_StoreContentToFile sys f b n t = Some (e, t')"
  shows "adds (call_within json_roots) t t'"
proof (cases "IsValideJsonPath f")
  case False
  with assms show ?thesis by (simp add: D_StoreContentToFile_def)
next
  case True
  then obtain p where p: "f = Some p" "IsValideJsonPath (Some p)" using valid_Some(3) by blast
  obtain dir where dir: "dir \<in> set json_roots" "prefix dir p" "\<not> contains p ''..''" using valid_json[OF p(2)] by blast
  have wp: "within json_roots p" using within_valid[OF dir] .
  have ends: "dir \<noteq> []" "last dir = CHR ''/''" using dir(1) by (auto simp: root_defs)
  have pd: "prefix dir (GetPathDir p)" "\<not> contains (GetPathDir p) ''..''"
    using GetPathDir_below[OF dir(2) ends] not_contains_GetPathDir[OF dir(3)] by auto
  have ne: "GetPathDir p \<noteq> []" using pd(1) ends(1) by auto
  let ?mk = "if \<not> IsExistDir sys t (Some (GetPathDir p)) then MkRecursiveDir sys (Some (GetPathDir p)) True t else Some (True, t)"
  have eq: "D_StoreContentToFile sys (Some p) b n t = do {
      (ok, t) \<leftarrow> ?mk;
      if \<not> ok then Some (EC_NODIR, t)
      else let (ok, t) = FU_WriteFile sys (Some p) b n t in
        if \<not> ok then Some (EC_NODIR, snd (FU_RemoveFile sys p t)) else Some (EC_SUCCESS, t) }"
    unfolding D_StoreContentToFile_def Let_def option.sel using p(2) ne by simp
  obtain x where x: "?mk = Some x" "(case x of (ok, t) \<Rightarrow> if \<not> ok then Some (EC_NODIR, t)
      else let (ok, t) = FU_WriteFile sys (Some p) b n t in
        if \<not> ok then Some (EC_NODIR, snd (FU_RemoveFile sys p t)) else Some (EC_SUCCESS, t)) = Some (e, t')"
    using assms(2) unfolding p(1) eq bind_Some_iff by (elim exE conjE) (rule that)
  obtain ok1 t1 where "x = (ok1, t1)" by (cases x)
  note mk = x(1)[unfolded this] and go = x(2)[unfolded this prod.case]
  have t1: "adds (call_within json_roots) t t1"
    using mk MkRecursiveDir_within[OF dir(1) pd] by (auto split: if_splits)
  show ?thesis
  proof (cases ok1)
    case False
    with go t1 show ?thesis by simp
  next
    case True
    obtain ok2 t2 where w: "FU_WriteFile sys (Some p) b n t1 = (ok2, t2)" by fastforce
    have "adds (call_within json_roots) t1 t2"
    proof (cases "b = None \<or> n = 0")
      case True
      with w show ?thesis by (cases b) (auto simp: FU_WriteFile_def)
    next
      case False
      obtain ok3 t3 where c: "fs_do sys (CreateFile p) t1 = (ok3, t3)" by fastforce
      have t3: "adds (call_within json_roots) t1 t3" by (rule adds_do[OF c]) (simp add: wp)
      have "t2 = t3 \<or> t2 = snd (fs_do sys (WriteBytes p (take n (the b))) t3)"
        using w c False by (auto simp: FU_WriteFile_def split: if_splits)
      moreover have "adds (call_within json_roots) t1 (snd (fs_do sys (WriteBytes p (take n (the b))) t3))"
        by (rule adds_trans[OF t3]) (rule adds_do_snd, simp add: wp)
      ultimately show ?thesis using t3 by auto
    qed
    then have t2: "adds (call_within json_roots) t t2" by (rule adds_trans[OF t1])
    have "t' = t2 \<or> t' = snd (FU_RemoveFile sys p t2)" using go True w by (auto split: if_splits)
    moreover have "adds (call_within json_roots) t (snd (FU_RemoveFile sys p t2))"
      by (rule adds_trans[OF t2]) (rule FU_RemoveFile_snd_within[OF assms(1) wp])
    ultimately show ?thesis using t2 by auto
  qed
qed

text \<open>The directories of each function of the interface; \<open>MOVE_FILE\<close> has none.\<close>

definition roots_of :: "int \<Rightarrow> string list" where
  "roots_of funcId =
     (if funcId = EXTRACT_HAP then code_roots
      else if funcId = RENAME_DIR \<or> funcId = REMOVE_FILE then code_roots @ json_roots
      else if funcId = CREATE_PERMISSION_DIR \<or> funcId = STORE_CONTENT_TO_FILE then json_roots
      else if funcId = CREATE_DATA_DIRECTORY then data_roots
      else if funcId = REMOVE_INSTALL_DIRECTORY then code_roots @ data_roots
      else [])"

lemma funcId_cases:
  assumes "EXTRACT_HAP \<le> funcId" "funcId < BDS_CMD_END"
  obtains "funcId = EXTRACT_HAP" | "funcId = RENAME_DIR" | "funcId = CREATE_PERMISSION_DIR" | "funcId = CREATE_DATA_DIRECTORY"
    | "funcId = STORE_CONTENT_TO_FILE" | "funcId = MOVE_FILE" | "funcId = REMOVE_FILE" | "funcId = REMOVE_INSTALL_DIRECTORY"
  using assms unfolding cmd_defs by linarith

lemmas invokeFuncs_simps =
  invokeFuncs_def[of _ _ _ EXTRACT_HAP, simplified cmd_defs, simplified]
  invokeFuncs_def[of _ _ _ RENAME_DIR, simplified cmd_defs, simplified]
  invokeFuncs_def[of _ _ _ CREATE_PERMISSION_DIR, simplified cmd_defs, simplified]
  invokeFuncs_def[of _ _ _ CREATE_DATA_DIRECTORY, simplified cmd_defs, simplified]
  invokeFuncs_def[of _ _ _ STORE_CONTENT_TO_FILE, simplified cmd_defs, simplified]
  invokeFuncs_def[of _ _ _ MOVE_FILE, simplified cmd_defs, simplified]
  invokeFuncs_def[of _ _ _ REMOVE_FILE, simplified cmd_defs, simplified]
  invokeFuncs_def[of _ _ _ REMOVE_INSTALL_DIRECTORY, simplified cmd_defs, simplified]

lemma invokeFuncs_within:
  assumes "names_ok sys" "EXTRACT_HAP \<le> funcId" "funcId < BDS_CMD_END" "funcId \<noteq> MOVE_FILE"
    and "invokeFuncs Z sys k funcId m t = Some (e, t')"
  shows "adds (call_within (roots_of funcId)) t t'"
  using assms(2,3)
proof (cases rule: funcId_cases)
  case 1
  with assms(5) have "ExtractHapInvoke Z sys k m t = Some (e, t')" by (simp add: invokeFuncs_simps cmd_defs)
  then have "t' = t \<or> (\<exists>h c. D_ExtractHap Z sys (Some h) (Some c) t = Some (e, t'))"
    by (auto simp: ExtractHapInvoke_def ObtainStringFromIpc_def bind_Some_iff Let_def split: if_splits prod.splits sum.splits)
  with D_ExtractHap_within[OF assms(1)] 1 show ?thesis by (auto simp: roots_of_def)
next
  case 2
  with assms(5) have "RenameFileInvoke sys k m t = Some (e, t')" by (simp add: invokeFuncs_simps cmd_defs)
  then have "t' = t \<or> (\<exists>p q. D_RenameFile sys (Some p) (Some q) t = (e, t'))"
    by (auto simp: RenameFileInvoke_def ObtainStringFromIpc_def bind_Some_iff Let_def split: if_splits prod.splits sum.splits)
  with D_RenameFile_within[OF assms(1)] 2 show ?thesis by (auto simp: roots_of_def cmd_defs)
next
  case 3
  with assms(5) show ?thesis
    using D_CreatePermissionDir_within by (auto simp: invokeFuncs_simps cmd_defs roots_of_def CreatePermissionInvoke_def)
next
  case 4
  with assms(5) have "CreateDataDirectoryInvoke sys k m t = Some (e, t')" by (simp add: invokeFuncs_simps cmd_defs)
  then have "t' = t \<or> (\<exists>p u g b. D_CreateDataDirectory sys p u g b t = Some (e, t'))"
    by (auto simp: CreateDataDirectoryInvoke_def Let_def split: if_splits prod.splits sum.splits)
  with D_CreateDataDirectory_within 4 show ?thesis by (auto simp: roots_of_def cmd_defs)
next
  case 5
  with assms(5) have "StoreContentToFileInvoke sys m t = Some (e, t')" by (simp add: invokeFuncs_simps cmd_defs)
  then have "t' = t \<or> (\<exists>p b n. D_StoreContentToFile sys p b n t = Some (e, t'))"
    by (auto simp: StoreContentToFileInvoke_def Let_def split: if_splits prod.splits sum.splits)
  with D_StoreContentToFile_within[OF assms(1)] 5 show ?thesis by (auto simp: roots_of_def cmd_defs)
next
  case 6
  with assms(4) show ?thesis by simp
next
  case 7
  with assms(5) have "RemoveFileInvoke sys m t = Some (e, t')" by (simp add: invokeFuncs_simps cmd_defs)
  then have "t' = t \<or> (\<exists>p. t' = snd (D_RemoveFile sys p t))"
    by (auto simp: RemoveFileInvoke_def Let_def split: if_splits prod.splits sum.splits) (metis snd_conv)
  with D_RemoveFile_within[OF assms(1)] 7 show ?thesis by (auto simp: roots_of_def cmd_defs)
next
  case 8
  with assms(5) have "RemoveInstallDirectoryInvoke sys k m t = Some (e, t')" by (simp add: invokeFuncs_simps cmd_defs)
  then have "t' = t \<or> (\<exists>c d b. t' = snd (D_RemoveInstallDirectory sys c d b t))"
    by (auto simp: RemoveInstallDirectoryInvoke_def ObtainStringFromIpc_def bind_Some_iff Let_def split: if_splits prod.splits sum.splits)
      (metis snd_conv)
  with D_RemoveInstallDirectory_within[OF assms(1)] 8 show ?thesis by (auto simp: roots_of_def cmd_defs)
qed

text \<open>C10 Whatever message arrives, from whatever caller, every call the daemon makes on the file system in answer to
it stays inside the directories of the function that was asked for: no path leaves them by its name. The one
function without this guard is \<open>MOVE_FILE\<close>. A caller other than the bundle manager changes nothing.\<close>

theorem daemon_stays_inside:
  assumes "names_ok sys" "funcId \<noteq> MOVE_FILE" "Invoke Z sys k uid funcId req d = Some (a, d')"
  shows "\<exists>cs. dm_trace d' = dm_trace d @ cs \<and> list_all (call_within (roots_of funcId)) cs \<and>
    (cs = [] \<or> uid = BMS_UID)"
proof -
  consider "dm_trace d' = dm_trace d" | m e where "uid = BMS_UID" "EXTRACT_HAP \<le> funcId" "funcId < BDS_CMD_END"
    "invokeFuncs Z sys k funcId m (dm_trace d) = Some (e, dm_trace d')"
    using assms(3) by (auto simp: Invoke_def RegisterCallbackInvoke_def bind_Some_iff
        split: option.splits if_splits list.splits ipc_val.splits)
  then show ?thesis
  proof cases
    case 1
    then show ?thesis by auto
  next
    case 2
    from invokeFuncs_within[OF assms(1) 2(2,3) assms(2) 2(4)] 2(1) show ?thesis by (auto simp: adds_def)
  qed
qed

text \<open>A file system that shows nothing and allows everything, and a decompressor without streams.\<close>

definition empty_os :: "(string \<Rightarrow> u8 list option) \<Rightarrow> os" where
  "empty_os content =
     \<lparr>os_done = (\<lambda>_ _. True), os_stat = (\<lambda>_ _. None), os_readdir = (\<lambda>_ _. None), os_realpath = (\<lambda>_. Some),
      os_content = (\<lambda>_. content)\<rparr>"

definition no_zlib :: "unit zlib" where
  "no_zlib = \<lparr>zl_init = None, zl_inflate = (\<lambda>i z. (-1, i, [], z)), zl_end = (\<lambda>_. 0)\<rparr>"

definition no_stack :: stack where
  "no_stack = \<lparr>st_u8 = 0, st_u16 = 0, st_u32 = 0, st_int = 0, st_bool = False\<rparr>"

definition client_id :: SvcIdentity where
  "client_id = \<lparr>svc_handle = 1, svc_token = 1\<rparr>"

theorem daemon_stays_inside_witness:
  "\<exists>a d'. Invoke no_zlib (empty_os (\<lambda>_. None)) no_stack 7 REMOVE_FILE (Some [IStr ''/storage/app/etc/a.json''])
       \<lparr>dm_client = Some client_id, dm_trace = []\<rparr> = Some (a, d') \<and>
     (\<exists>cs. dm_trace d' = cs \<and> list_all (call_within (roots_of REMOVE_FILE)) cs)"
proof -
  let ?s = "empty_os (\<lambda>_. None)" and ?d = "\<lparr>dm_client = Some client_id, dm_trace = []\<rparr>"
  have ok: "names_ok ?s" by (simp add: names_ok_def empty_os_def)
  have ne: "REMOVE_FILE \<noteq> MOVE_FILE" by (simp add: cmd_defs)
  obtain e1 t1 where r: "D_RemoveFile ?s (Some ''/storage/app/etc/a.json'') [] = (e1, t1)" by fastforce
  have run: "Invoke no_zlib ?s no_stack 7 REMOVE_FILE (Some [IStr ''/storage/app/etc/a.json'']) ?d =
      Some (Replied client_id e1, \<lparr>dm_client = Some client_id, dm_trace = t1\<rparr>)"
    by (simp add: Invoke_def BMS_UID_def cmd_defs invokeFuncs_simps RemoveFileInvoke_def r)
  from daemon_stays_inside[OF ok ne run] run show ?thesis by auto
qed

text \<open>What \<open>MOVE_FILE\<close> lets through: a file anywhere is moved anywhere.\<close>

lemma MoveFile_unguarded:
  assumes "os_stat sys t p = Some Regular" "os_realpath sys t p = Some p" "os_stat sys t q = None"
    "os_done sys t (RenameEntry p q)"
  shows "D_MoveFile sys (Some p) q t = Some (EC_SUCCESS, t @ [RenameEntry p q])"
  using assms by (simp add: D_MoveFile_def IsExistFile_def IsExistDir_def FU_RenameFile_def FU_RemoveFile.simps fs_do_def)

section \<open>Unpacking a package\<close>

lemma adds_mem: "adds P t t' \<Longrightarrow> c \<in> set t \<Longrightarrow> c \<in> set t'"
  by (auto simp: adds_def)

lemma adds_any: "adds P t t' \<Longrightarrow> adds (\<lambda>_. True) t t'"
  by (auto simp: adds_def list.pred_True)

lemma ExtractFileToPath_writes:
  assumes "ExtractFileToPath Z sys u p n t = Some (True, t')" "ExtractFile Z (eu_zipFile u) n = Some (ok, bytes)"
  shows "ok \<and> WriteBytes (c_str p) (chars bytes) \<in> set t' \<and> adds (\<lambda>_. True) t t'"
  using assms by (auto simp: ExtractFileToPath_def fs_do_def adds_def Let_def list.pred_True split: if_splits)

lemma unzip_loop_writes:
  assumes "\<forall>n \<in> set ns. ExtractFile Z (eu_zipFile u) n \<noteq> None"
  shows "unzip_loop Z sys u codeDir ns t = Some (EC_SUCCESS, t') \<Longrightarrow>
    adds (\<lambda>_. True) t t' \<and>
    (\<forall>n \<in> set ns. \<not> contains n ''..'' \<and>
      (n \<noteq> [] \<and> last n = CHR ''/'' \<or>
       (\<exists>bytes. ExtractFile Z (eu_zipFile u) n = Some (True, bytes) \<and> WriteBytes (c_str (codeDir @ n)) (chars bytes) \<in> set t')))"
  using assms
proof (induction ns arbitrary: t)
  case Nil
  then show ?case by simp
next
  case (Cons n ns)
  have dots: "\<not> contains n ''..''" using Cons.prems(1) by (auto split: if_splits)
  show ?case
  proof (cases "n \<noteq> [] \<and> last n = CHR ''/''")
    case True
    with Cons dots show ?thesis by auto
  next
    case plain: False
    let ?mk = "if GetPathDir n \<noteq> [] then MkRecursiveDir sys (Some (c_str (codeDir @ GetPathDir n))) False t else Some (True, t)"
    have "do { (ok, t) \<leftarrow> ?mk;
        if \<not> ok then Some (EC_NODIR, t)
        else do { (ok, t) \<leftarrow> ExtractFileToPath Z sys u (codeDir @ n) n t;
          if \<not> ok then Some (EC_NODIR, t) else unzip_loop Z sys u codeDir ns t } } = Some (EC_SUCCESS, t')"
      using Cons.prems(1) dots plain by (simp only: unzip_loop.simps Let_def if_False)
    then obtain t1 t2 where mk: "?mk = Some (True, t1)"
      and x: "ExtractFileToPath Z sys u (codeDir @ n) n t1 = Some (True, t2)"
      and go: "unzip_loop Z sys u codeDir ns t2 = Some (EC_SUCCESS, t')"
      by (auto simp: bind_Some_iff split: if_splits)
    obtain ok bytes where e: "ExtractFile Z (eu_zipFile u) n = Some (ok, bytes)" using Cons.prems(2) by auto
    have t1: "adds (\<lambda>_. True) t t1"
      using mk MkRecursiveDir_adds[of sys "c_str (codeDir @ GetPathDir n)" False t True t1 "\<lambda>_. True"] by (auto split: if_splits)
    note w = ExtractFileToPath_writes[OF x e]
    have rest: "adds (\<lambda>_. True) t2 t' \<and> (\<forall>n \<in> set ns. \<not> contains n ''..'' \<and> (n \<noteq> [] \<and> last n = CHR ''/'' \<or>
       (\<exists>bytes. ExtractFile Z (eu_zipFile u) n = Some (True, bytes) \<and> WriteBytes (c_str (codeDir @ n)) (chars bytes) \<in> set t')))"
      using Cons.IH[OF go] Cons.prems(2) by simp
    have all: "adds (\<lambda>_. True) t t'"
      using adds_trans[OF adds_trans[OF t1 conjunct2[OF conjunct2[OF w]]] conjunct1[OF rest]] .
    have "WriteBytes (c_str (codeDir @ n)) (chars bytes) \<in> set t'"
      using w rest adds_mem by blast
    with all rest w e dots show ?thesis by auto
  qed
qed

lemma FU_RemoveFile_adds_any:
  "adds (\<lambda>_. True) t (snd (FU_RemoveFile sys p t))" "adds (\<lambda>_. True) t (snd (remove_entries sys p ns t))"
proof (induction sys p t and sys p ns t rule: FU_RemoveFile_remove_entries.induct)
  case (1 sys p t)
  show ?case
  proof (cases "\<not> IsExistFile sys t (Some p) \<and> IsExistDir sys t (Some p) \<and> os_readdir sys t p \<noteq> None")
    case True
    then obtain ns where ns: "os_readdir sys t p = Some ns" by auto
    obtain ok t1 where r: "remove_entries sys p ns t = (ok, t1)" by fastforce
    with "1.IH" ns True have "adds (\<lambda>_. True) t t1" by auto
    from adds_trans[OF this adds_do_snd] this True ns r show ?thesis by (subst FU_RemoveFile.simps) auto
  next
    case False
    then show ?thesis by (subst FU_RemoveFile.simps) (auto intro: adds_do_snd split: option.split)
  qed
next
  case (2 sys p t)
  then show ?case by simp
next
  case (3 sys p n ns t)
  show ?case
  proof (cases "n = ''.'' \<or> n = ''..'' \<or> length (p @ ''/'' @ n) \<ge> PATH_MAX")
    case True
    with 3 show ?thesis by (subst remove_entries.simps) auto
  next
    case False
    obtain ok t1 where r: "FU_RemoveFile sys (p @ ''/'' @ n) t = (ok, t1)" by fastforce
    with "3.IH"(2) False have t1: "adds (\<lambda>_. True) t t1" by auto
    have "ok \<Longrightarrow> adds (\<lambda>_. True) t1 (snd (remove_entries sys p ns t1))"
      using "3.IH"(3)[OF _ _ r[symmetric]] False by auto
    with t1 False r show ?thesis by (subst remove_entries.simps) (auto intro: adds_trans[OF t1])
  qed
qed


lemma empty_os_simps:
  "fs_do (empty_os content) c t = (True, t @ [c])" "\<not> IsExistDir (empty_os content) t p"
  "\<not> IsExistFile (empty_os content) t p" "FU_RemoveFile (empty_os content) q t = (True, t)"
  "os_realpath (empty_os content) t q = Some q" "os_content (empty_os content) t = content"
proof -
  show a: "\<not> IsExistDir (empty_os content) t p" "\<not> IsExistFile (empty_os content) t p" for p
    by (simp_all add: empty_os_def IsExistDir_def IsExistFile_def split: option.split)
  show "FU_RemoveFile (empty_os content) q t = (True, t)" by (simp add: FU_RemoveFile.simps a)
qed (simp_all add: empty_os_def fs_do_def)

lemma mkdir_loop_empty:
  "length a + length b < PATH_MAX \<Longrightarrow> \<exists>t'. mkdir_loop (empty_os content) ro a b t = Some (True, t')"
proof (induction b arbitrary: a t)
  case Nil
  then show ?case by simp
next
  case (Cons c cs)
  then have "\<exists>t'. mkdir_loop (empty_os content) ro (a @ [c]) cs t1 = Some (True, t')" for t1 by simp
  note go = this
  show ?case
  proof (cases "c = CHR ''/'' \<or> cs = []")
    case True
    with Cons.prems go show ?thesis by (simp only: mkdir_loop.simps Let_def) (simp add: empty_os_simps)
  next
    case False
    with go show ?thesis by (simp only: mkdir_loop.simps Let_def if_False)
  qed
qed


section \<open>A request reaches its operation\<close>

text \<open>What comes of what the client sent.\<close>

definition answered :: "'z zlib \<Rightarrow> os \<Rightarrow> stack \<Rightarrow> sent \<Rightarrow> fs_trace \<Rightarrow> (ec \<times> fs_trace) option" where
  "answered Z sys k s t = (case s of Inl e \<Rightarrow> Some (e, t) | Inr (funcId, m) \<Rightarrow> invokeFuncs Z sys k funcId m t)"

lemma CallClientInvoke_read:
  assumes "\<forall>m v. space m v" "length a < 2 ^ 16" "b \<noteq> []"
  shows "\<exists>m. CallClientInvoke space f a b = (f, m) \<and> ObtainStringFromIpc k m = Some (Inr (a, b, []))"
  using assms by (simp add: CallClientInvoke_def io_write_def ObtainStringFromIpc_def unat_of_nat take_bit_eq_mod)

text \<open>Each request of the client reaches the operation of the daemon it names, with the arguments it was made with:
the encoding of the client and the decoding of the daemon agree. The two paths sent in one string must be shorter
than 65536 characters and not empty, strings are not empty, contents hold no NUL, and everything fits the
message.\<close>

theorem request_reaches_daemon:
  assumes fits: "\<forall>m v. space m v"
    and p: "p \<noteq> []" "length p < 2 ^ 16" and q: "q \<noteq> []" and content: "b \<noteq> []" "CHR 0x00 \<notin> set b"
  shows "(answered Z sys k (C_ExtractHap space True (Some p) (Some q)) t = D_ExtractHap Z sys (Some p) (Some q) t) \<and>
    (answered Z sys k (C_RenameFile space True (Some p) (Some q)) t = Some (D_RenameFile sys (Some p) (Some q) t)) \<and>
    (answered Z sys k (C_CreatePermissionDir True) t = D_CreatePermissionDir sys t) \<and>
    (answered Z sys k (C_CreateDataDirectory space True (Some p) uid gid isChown) t =
      D_CreateDataDirectory sys (Some p) uid gid isChown t) \<and>
    (answered Z sys k (C_StoreContentToFile space True (Some p) (Some b) (length b)) t =
      D_StoreContentToFile sys (Some p) (Some b) (length b) t) \<and>
    (answered Z sys k (C_MoveFile space True (Some p) (Some q)) t = D_MoveFile sys (Some p) q t) \<and>
    (answered Z sys k (C_RemoveFile space True (Some p)) t = Some (D_RemoveFile sys (Some p) t))"
proof -
  have read: "\<exists>m. CallClientInvoke space f p q = (f, m) \<and> ObtainStringFromIpc k m = Some (Inr (p, q, []))" for f
    using CallClientInvoke_read[OF fits p(2) q] .
  note w = io_write_def fits[rule_format]
  have c1: "answered Z sys k (C_ExtractHap space True (Some p) (Some q)) t = D_ExtractHap Z sys (Some p) (Some q) t"
    using read[of EXTRACT_HAP] by (auto simp: answered_def C_ExtractHap_def cmd_defs invokeFuncs_simps ExtractHapInvoke_def)
  have c2: "answered Z sys k (C_RenameFile space True (Some p) (Some q)) t = Some (D_RenameFile sys (Some p) (Some q) t)"
    using read[of RENAME_DIR] by (auto simp: answered_def C_RenameFile_def cmd_defs invokeFuncs_simps RenameFileInvoke_def)
  have c3: "answered Z sys k (C_CreatePermissionDir True) t = D_CreatePermissionDir sys t"
    by (simp add: answered_def C_CreatePermissionDir_def cmd_defs invokeFuncs_simps CreatePermissionInvoke_def)
  have c4: "answered Z sys k (C_CreateDataDirectory space True (Some p) uid gid isChown) t =
      D_CreateDataDirectory sys (Some p) uid gid isChown t"
    using p by (simp add: answered_def C_CreateDataDirectory_def w cmd_defs invokeFuncs_simps CreateDataDirectoryInvoke_def)
  have "c_str b = b" using content(2) by (induction b) (auto simp: c_str_def)
  then have c5: "answered Z sys k (C_StoreContentToFile space True (Some p) (Some b) (length b)) t =
      D_StoreContentToFile sys (Some p) (Some b) (length b) t"
    using p content by (simp add: answered_def C_StoreContentToFile_def w cmd_defs invokeFuncs_simps StoreContentToFileInvoke_def)
  have c6: "answered Z sys k (C_MoveFile space True (Some p) (Some q)) t = D_MoveFile sys (Some p) q t"
    using p q by (simp add: answered_def C_MoveFile_def w cmd_defs invokeFuncs_simps MoveFileInvoke_def)
  have c7: "answered Z sys k (C_RemoveFile space True (Some p)) t = Some (D_RemoveFile sys (Some p) t)"
    using p by (simp add: answered_def C_RemoveFile_def w cmd_defs invokeFuncs_simps RemoveFileInvoke_def)
  show ?thesis using c1 c2 c3 c4 c5 c6 c7 by blast
qed

theorem request_reaches_daemon_witness:
  "answered no_zlib (empty_os (\<lambda>_. None)) no_stack (C_RenameFile (\<lambda>_ _. True) True (Some ''a'') (Some ''b'')) [] =
   Some (D_RenameFile (empty_os (\<lambda>_. None)) (Some ''a'') (Some ''b'') [])"
  by (rule request_reaches_daemon[of _ _ _ "''x''", THEN conjunct2, THEN conjunct1]) auto

text \<open>Whether the data of an uninstalled bundle is kept is not decided by the request: the client does not send
\<open>keepData\<close>, and the daemon goes on with whatever its uninitialised variable holds. So with a false there, a
request to keep the data removes it.\<close>

theorem keepData_not_sent:
  assumes "\<forall>m v. space m v" "length c < 2 ^ 16" "d \<noteq> []"
  shows "answered Z sys k (C_RemoveInstallDirectory space True (Some c) (Some d) keepData) t =
    Some (D_RemoveInstallDirectory sys (Some c) (Some d) (st_bool k) t)"
proof -
  obtain m where "CallClientInvoke space REMOVE_INSTALL_DIRECTORY c d = (REMOVE_INSTALL_DIRECTORY, m)"
    "ObtainStringFromIpc k m = Some (Inr (c, d, []))"
    using CallClientInvoke_read[OF assms] by blast
  then show ?thesis
    by (simp add: answered_def C_RemoveInstallDirectory_def cmd_defs invokeFuncs_simps RemoveInstallDirectoryInvoke_def)
qed

theorem keepData_not_sent_witness:
  "answered no_zlib (empty_os (\<lambda>_. None)) no_stack
     (C_RemoveInstallDirectory (\<lambda>_ _. True) True (Some ''/storage/app/run/a'') (Some ''/storage/app/data/a'') True) [] =
   Some (D_RemoveInstallDirectory (empty_os (\<lambda>_. None)) (Some ''/storage/app/run/a'') (Some ''/storage/app/data/a'') False [])"
proof -
  have "st_bool no_stack = False" by (simp add: no_stack_def)
  then show ?thesis
    using keepData_not_sent[of "\<lambda>_ _. True" "''/storage/app/run/a''" "''/storage/app/data/a''" no_zlib "empty_os (\<lambda>_. None)" no_stack True "[]"]
    by simp
qed

end
