(* ===== verification/Convert_Utils.thy ===== *)
theory Convert_Utils
  imports Info_Utils System
begin

text \<open>
  \<^verbatim>\<open>frameworks/bundle_lite/src/convert_utils.cpp\<close>: the bundles and abilities the service answers a query with
  travel as JSON text. The functions that build a document return it, or \<open>None\<close> for the null pointer they answer
  on an error after deleting what they built; the functions that read one return the structure they filled, or
  \<open>None\<close> for \<open>false\<close>, after which their callers free what was filled. Around them a further \<open>option\<close> marks the
  accesses C++ does not define. The build is the one with \<open>OHOS_APPEXECFWK_BMS_BUNDLEMANAGER\<close>.
\<close>

section \<open>What more of cJSON is used\<close>

record 'j cjson_io =
  io_AddBoolToObject :: "'j \<Rightarrow> string \<Rightarrow> bool \<Rightarrow> 'j option"
  io_PrintUnformatted :: "'j \<Rightarrow> cstr"
  io_ParseWithLength :: "string \<Rightarrow> nat \<Rightarrow> 'j option"

text \<open>
  The enumerators as the integers they are, and back; an integer without an enumerator becomes what the compiler
  makes of it, the parameters \<open>junk\<close>.
\<close>

fun AbilityType_int :: "AbilityType \<Rightarrow> int" where
  "AbilityType_int UNKNOWN = 0"
| "AbilityType_int PAGE = 1"
| "AbilityType_int SERVICE = 2"

fun LaunchMode_int :: "LaunchMode \<Rightarrow> int" where
  "LaunchMode_int SINGLETON = 0"
| "LaunchMode_int STANDARD = 1"

record casts =
  junk_AbilityType :: "int \<Rightarrow> AbilityType"
  junk_LaunchMode :: "int \<Rightarrow> LaunchMode"

definition int_AbilityType :: "casts \<Rightarrow> int \<Rightarrow> AbilityType" where
  "int_AbilityType c v = (if v = 0 then UNKNOWN else if v = 1 then PAGE else if v = 2 then SERVICE else junk_AbilityType c v)"

definition int_LaunchMode :: "casts \<Rightarrow> int \<Rightarrow> LaunchMode" where
  "int_LaunchMode c v = (if v = 0 then SINGLETON else if v = 1 then STANDARD else junk_LaunchMode c v)"

text \<open>A null pointer inside, an undefined access outside.\<close>

definition bind_ptr :: "'a option option \<Rightarrow> ('a \<Rightarrow> 'b option option) \<Rightarrow> 'b option option" where
  "bind_ptr r f = (case r of None \<Rightarrow> None | Some None \<Rightarrow> Some None | Some (Some x) \<Rightarrow> f x)"

section \<open>Building documents\<close>

definition add_opt :: "'j cjson_mk \<Rightarrow> 'j \<Rightarrow> string \<Rightarrow> cstr \<Rightarrow> 'j option" where
  "add_opt K root key s = (if s = None then Some root else k_AddStringToObject K root key s)"

definition GetJsonAbilityInfo :: "'j cjson_mk \<Rightarrow> 'j cjson_io \<Rightarrow> AbilityInfo \<Rightarrow> 'j option" where
  "GetJsonAbilityInfo K X a = do {
     root \<leftarrow> k_CreateObject K;
     root \<leftarrow> io_AddBoolToObject X root ''isVisible'' (ai_isVisible a);
     root \<leftarrow> k_AddNumberToObject K root ''abilityType'' (AbilityType_int (ai_abilityType a));
     root \<leftarrow> k_AddNumberToObject K root ''launchMode'' (LaunchMode_int (ai_launchMode a));
     root \<leftarrow> k_AddStringToObject K root ''bundleName'' (ai_bundleName a);
     root \<leftarrow> k_AddStringToObject K root ''moduleName'' (ai_moduleName a);
     root \<leftarrow> k_AddStringToObject K root ''name'' (ai_name a);
     root \<leftarrow> add_opt K root ''description'' (ai_description a);
     root \<leftarrow> add_opt K root ''iconPath'' (ai_iconPath a);
     root \<leftarrow> add_opt K root ''label'' (ai_label a);
     add_opt K root ''deviceId'' (ai_deviceId a) }"

fun add_abilities :: "'j cjson_mk \<Rightarrow> 'j cjson_io \<Rightarrow> 'j \<Rightarrow> AbilityInfo list \<Rightarrow> 'j option" where
  "add_abilities K X jsonAbilityInfos [] = Some jsonAbilityInfos"
| "add_abilities K X jsonAbilityInfos (a # as1) = do {
     item \<leftarrow> GetJsonAbilityInfo K X a;
     jsonAbilityInfos \<leftarrow> k_AddItemToArray K jsonAbilityInfos item;
     add_abilities K X jsonAbilityInfos as1 }"

definition GetJsonAbilityInfos ::
    "'j cjson_mk \<Rightarrow> 'j cjson_io \<Rightarrow> AbilityInfo list option \<Rightarrow> nat \<Rightarrow> 'j option option" where
  "GetJsonAbilityInfos K X abilityInfos n =
     (case k_CreateArray K of
        None \<Rightarrow> Some None
      | Some jsonAbilityInfos \<Rightarrow>
          if n = 0 then Some (Some jsonAbilityInfos)
          else (case abilityInfos of
              None \<Rightarrow> None
            | Some as1 \<Rightarrow> if length as1 < n then None else Some (add_abilities K X jsonAbilityInfos (take n as1))))"

fun add_metadata :: "'j cjson_mk \<Rightarrow> 'j \<Rightarrow> MetaData option list \<Rightarrow> 'j option" where
  "add_metadata K jsonMetaData [] = Some jsonMetaData"
| "add_metadata K jsonMetaData (None # ms) = Some jsonMetaData"
| "add_metadata K jsonMetaData (Some d # ms) = do {
     item \<leftarrow> k_CreateObject K;
     item \<leftarrow> add_opt K item ''name'' (md_name d);
     item \<leftarrow> add_opt K item ''value'' (md_value d);
     item \<leftarrow> add_opt K item ''extra'' (md_extra d);
     jsonMetaData \<leftarrow> k_AddItemToArray K jsonMetaData item;
     add_metadata K jsonMetaData ms }"

definition GetJsonModuleInfoMetaData :: "'j cjson_mk \<Rightarrow> ModuleInfo \<Rightarrow> 'j option" where
  "GetJsonModuleInfoMetaData K mi = do {
     jsonMetaData \<leftarrow> k_CreateArray K;
     add_metadata K jsonMetaData (take METADATA_SIZE (mi_metaData mi)) }"

fun add_device_types :: "'j cjson_mk \<Rightarrow> 'j \<Rightarrow> cstr list \<Rightarrow> 'j option" where
  "add_device_types K jsonDeviceType [] = Some jsonDeviceType"
| "add_device_types K jsonDeviceType (None # ds) = Some jsonDeviceType"
| "add_device_types K jsonDeviceType (Some d # ds) = do {
     object \<leftarrow> k_CreateString K d;
     jsonDeviceType \<leftarrow> k_AddItemToArray K jsonDeviceType object;
     add_device_types K jsonDeviceType ds }"

definition GetJsonModuleInfoDeviceType :: "'j cjson_mk \<Rightarrow> ModuleInfo \<Rightarrow> 'j option" where
  "GetJsonModuleInfoDeviceType K mi = do {
     jsonDeviceType \<leftarrow> k_CreateArray K;
     add_device_types K jsonDeviceType (take DEVICE_TYPE_SIZE (mi_deviceType mi)) }"

text \<open>The first entry of an inline array.\<close>

definition first :: "'a option list \<Rightarrow> 'a option" where
  "first xs = (case xs of [] \<Rightarrow> None | x # _ \<Rightarrow> x)"

definition ConvertModuleInfoMetaDataToJson :: "'j cjson_mk \<Rightarrow> ModuleInfo \<Rightarrow> 'j \<Rightarrow> 'j option" where
  "ConvertModuleInfoMetaDataToJson K mi item =
     (if first (mi_metaData mi) = None then Some item
      else do {
        metaDataJson \<leftarrow> GetJsonModuleInfoMetaData K mi;
        k_AddItemToObject K item ''metaData'' metaDataJson })"

definition ConvertModuleInfoDeviceTypeToJson :: "'j cjson_mk \<Rightarrow> ModuleInfo \<Rightarrow> 'j \<Rightarrow> 'j option" where
  "ConvertModuleInfoDeviceTypeToJson K mi item =
     (if first (mi_deviceType mi) = None then None
      else do {
        deviceTypeJson \<leftarrow> GetJsonModuleInfoDeviceType K mi;
        k_AddItemToObject K item ''deviceType'' deviceTypeJson })"

definition module_item :: "'j cjson_mk \<Rightarrow> 'j cjson_io \<Rightarrow> ModuleInfo \<Rightarrow> 'j option" where
  "module_item K X mi = do {
     item \<leftarrow> k_CreateObject K;
     item \<leftarrow> k_AddStringToObject K item ''moduleName'' (mi_moduleName mi);
     item \<leftarrow> k_AddStringToObject K item ''moduleType'' (mi_moduleType mi);
     item \<leftarrow> io_AddBoolToObject X item ''isDeliveryInstall'' (mi_isDeliveryInstall mi);
     item \<leftarrow> add_opt K item ''name'' (mi_name mi);
     item \<leftarrow> add_opt K item ''description'' (mi_description mi);
     item \<leftarrow> ConvertModuleInfoMetaDataToJson K mi item;
     ConvertModuleInfoDeviceTypeToJson K mi item }"

fun add_modules :: "'j cjson_mk \<Rightarrow> 'j cjson_io \<Rightarrow> 'j \<Rightarrow> ModuleInfo list \<Rightarrow> 'j option" where
  "add_modules K X jsonModuleInfos [] = Some jsonModuleInfos"
| "add_modules K X jsonModuleInfos (mi # mis) = do {
     item \<leftarrow> module_item K X mi;
     jsonModuleInfos \<leftarrow> k_AddItemToArray K jsonModuleInfos item;
     add_modules K X jsonModuleInfos mis }"

definition GetJsonModuleInfos ::
    "'j cjson_mk \<Rightarrow> 'j cjson_io \<Rightarrow> ModuleInfo list option \<Rightarrow> nat \<Rightarrow> 'j option option" where
  "GetJsonModuleInfos K X moduleInfos n =
     (case moduleInfos of
        None \<Rightarrow> Some None
      | Some mis \<Rightarrow> (case k_CreateArray K of
            None \<Rightarrow> Some None
          | Some jsonModuleInfos \<Rightarrow>
              if length mis < n then None else Some (add_modules K X jsonModuleInfos (take n mis))))"

definition ConvertBundleInfoPartToJson :: "'j cjson_mk \<Rightarrow> 'j cjson_io \<Rightarrow> BundleInfo \<Rightarrow> 'j \<Rightarrow> 'j option" where
  "ConvertBundleInfoPartToJson K X b root = do {
     root \<leftarrow> io_AddBoolToObject X root ''isSystemApp'' (bi_isSystemApp b);
     root \<leftarrow> io_AddBoolToObject X root ''isNativeApp'' (bi_isNativeApp b);
     root \<leftarrow> io_AddBoolToObject X root ''isKeepAlive'' (bi_isKeepAlive b);
     root \<leftarrow> k_AddNumberToObject K root ''versionCode'' (bi_versionCode b);
     root \<leftarrow> k_AddNumberToObject K root ''uid'' (bi_uid b);
     root \<leftarrow> k_AddNumberToObject K root ''gid'' (bi_gid b);
     root \<leftarrow> k_AddStringToObject K root ''versionName'' (bi_versionName b);
     root \<leftarrow> k_AddStringToObject K root ''bundleName'' (bi_bundleName b);
     root \<leftarrow> k_AddStringToObject K root ''codePath'' (bi_codePath b);
     root \<leftarrow> k_AddStringToObject K root ''dataPath'' (bi_dataPath b);
     root \<leftarrow> k_AddNumberToObject K root ''compatibleApi'' (bi_compatibleApi b);
     root \<leftarrow> k_AddNumberToObject K root ''targetApi'' (bi_targetApi b);
     root \<leftarrow> k_AddStringToObject K root ''appId'' (bi_appId b);
     root \<leftarrow> add_opt K root ''label'' (bi_label b);
     root \<leftarrow> add_opt K root ''iconPath'' (bi_bigIconPath b);
     add_opt K root ''vendor'' (bi_vendor b) }"

definition ConvertModuleInfosToJson :: "'j cjson_mk \<Rightarrow> 'j cjson_io \<Rightarrow> BundleInfo \<Rightarrow> 'j \<Rightarrow> 'j option option" where
  "ConvertModuleInfosToJson K X b root =
     (if bi_numOfModule b = 0 then Some None
      else bind_ptr (GetJsonModuleInfos K X (bi_moduleInfos b) (bi_numOfModule b)) (\<lambda>moduleInfosJson. Some (do {
        root \<leftarrow> k_AddNumberToObject K root ''numOfModule'' (int (bi_numOfModule b));
        k_AddItemToObject K root ''moduleInfos'' moduleInfosJson })))"

definition ConvertAbilityInfosToJson :: "'j cjson_mk \<Rightarrow> 'j cjson_io \<Rightarrow> BundleInfo \<Rightarrow> 'j \<Rightarrow> 'j option option" where
  "ConvertAbilityInfosToJson K X b root =
     (if bi_numOfAbility b = 0 then Some (Some root)
      else bind_ptr (GetJsonAbilityInfos K X (bi_abilityInfos b) (bi_numOfAbility b)) (\<lambda>abilitysJson. Some (do {
        root \<leftarrow> k_AddNumberToObject K root ''numOfAbility'' (int (bi_numOfAbility b));
        k_AddItemToObject K root ''abilityInfos'' abilitysJson })))"

definition GetJsonBundleInfo :: "'j cjson_mk \<Rightarrow> 'j cjson_io \<Rightarrow> BundleInfo \<Rightarrow> 'j option option" where
  "GetJsonBundleInfo K X b =
     bind_ptr (Some (k_CreateObject K)) (\<lambda>root.
     bind_ptr (Some (ConvertBundleInfoPartToJson K X b root)) (\<lambda>root.
     bind_ptr (ConvertModuleInfosToJson K X b root) (\<lambda>root.
     ConvertAbilityInfosToJson K X b root)))"

fun add_bundles :: "'j cjson_mk \<Rightarrow> 'j cjson_io \<Rightarrow> 'j \<Rightarrow> BundleInfo list \<Rightarrow> 'j option option" where
  "add_bundles K X roots [] = Some (Some roots)"
| "add_bundles K X roots (b # bs) =
     bind_ptr (GetJsonBundleInfo K X b) (\<lambda>item.
     bind_ptr (Some (k_AddItemToArray K roots item)) (\<lambda>roots. add_bundles K X roots bs))"

definition GetJsonBundleInfos :: "'j cjson_mk \<Rightarrow> 'j cjson_io \<Rightarrow> BundleInfo list \<Rightarrow> 'j option option" where
  "GetJsonBundleInfos K X bs = bind_ptr (Some (k_CreateArray K)) (\<lambda>roots. add_bundles K X roots bs)"

text \<open>Texts; the array of bundles has \<open>numOfBundleInfo\<close> entries.\<close>

definition ConvertAbilityInfoToString :: "'j cjson_mk \<Rightarrow> 'j cjson_io \<Rightarrow> AbilityInfo option \<Rightarrow> cstr" where
  "ConvertAbilityInfoToString K X abilityInfo = do {
     a \<leftarrow> abilityInfo;
     root \<leftarrow> GetJsonAbilityInfo K X a;
     io_PrintUnformatted X root }"

definition ConvertBundleInfoToString :: "'j cjson_mk \<Rightarrow> 'j cjson_io \<Rightarrow> BundleInfo option \<Rightarrow> cstr option" where
  "ConvertBundleInfoToString K X bundleInfo =
     bind_ptr (Some bundleInfo) (\<lambda>b.
     bind_ptr (GetJsonBundleInfo K X b) (\<lambda>root. Some (io_PrintUnformatted X root)))"

definition ConvertBundleInfosToString :: "'j cjson_mk \<Rightarrow> 'j cjson_io \<Rightarrow> BundleInfo list option \<Rightarrow> cstr option" where
  "ConvertBundleInfosToString K X bundleInfo =
     bind_ptr (Some bundleInfo) (\<lambda>bs.
       if bs = [] then Some None
       else bind_ptr (GetJsonBundleInfos K X bs) (\<lambda>roots. Some (io_PrintUnformatted X roots)))"

section \<open>Reading documents\<close>

text \<open>A member that is a string is handed to a setter; one that must be a string fails the reading if it is not.\<close>

definition read_str ::
    "'j cjson \<Rightarrow> 'j option \<Rightarrow> string \<Rightarrow> bool \<Rightarrow> ('r option \<Rightarrow> cstr \<Rightarrow> bool \<times> 'r option) \<Rightarrow> 'r \<Rightarrow> 'r option" where
  "read_str J root key mandatory setter r =
     (case j_GetObjectItem J root key of
        Some item \<Rightarrow>
          if j_IsString J (Some item)
          then (case setter (Some r) (j_valuestring J item) of (True, r') \<Rightarrow> r' | (False, _) \<Rightarrow> None)
          else if mandatory then None else Some r
      | None \<Rightarrow> if mandatory then None else Some r)"

definition read_int :: "'j cjson \<Rightarrow> 'j option \<Rightarrow> string \<Rightarrow> (int \<Rightarrow> 'r \<Rightarrow> 'r) \<Rightarrow> 'r \<Rightarrow> 'r" where
  "read_int J root key put r =
     (case j_GetObjectItem J root key of
        Some item \<Rightarrow> if j_IsNumber J (Some item) then put (j_valueint J item) r else r
      | None \<Rightarrow> r)"

definition read_bool :: "'j cjson \<Rightarrow> 'j option \<Rightarrow> string \<Rightarrow> (bool \<Rightarrow> 'r \<Rightarrow> 'r) \<Rightarrow> 'r \<Rightarrow> 'r" where
  "read_bool J root key put r =
     (let item = j_GetObjectItem J root key in if j_IsBool J item then put (j_IsTrue J item) r else r)"

definition ConvertJsonToAbilityInfo ::
    "allocator \<Rightarrow> 'j cjson \<Rightarrow> casts \<Rightarrow> 'j option \<Rightarrow> AbilityInfo \<Rightarrow> AbilityInfo option" where
  "ConvertJsonToAbilityInfo m J c root a =
     (if root = None then None
      else do {
        a \<leftarrow> read_str J root ''bundleName'' True (SetAbilityInfoBundleName m) a;
        a \<leftarrow> read_str J root ''name'' True (SetAbilityInfoName m) a;
        let a = read_int J root ''abilityType'' (\<lambda>v a. a\<lparr>ai_abilityType := int_AbilityType c v\<rparr>) a;
        let a = read_int J root ''launchMode'' (\<lambda>v a. a\<lparr>ai_launchMode := int_LaunchMode c v\<rparr>) a;
        let a = a\<lparr>ai_isVisible := j_IsTrue J (j_GetObjectItem J root ''isVisible'')\<rparr>;
        a \<leftarrow> read_str J root ''moduleName'' True (SetAbilityInfoModuleName m) a;
        a \<leftarrow> read_str J root ''description'' False (SetAbilityInfoDescription m) a;
        a \<leftarrow> read_str J root ''iconPath'' False (SetAbilityInfoIconPath m) a;
        a \<leftarrow> read_str J root ''deviceId'' False (SetAbilityInfoDeviceId m) a;
        read_str J root ''label'' False (SetAbilityInfoLabel m) a })"

fun ability_loop :: "allocator \<Rightarrow> 'j cjson \<Rightarrow> casts \<Rightarrow> 'j list \<Rightarrow> AbilityInfo list option" where
  "ability_loop m J c [] = Some []"
| "ability_loop m J c (item # items) = do {
     a \<leftarrow> ConvertJsonToAbilityInfo m J c (Some item) zero_AbilityInfo;
     as1 \<leftarrow> ability_loop m J c items;
     Some (a # as1) }"

definition ConvertJsonToAbilityInfos ::
    "allocator \<Rightarrow> 'j cjson \<Rightarrow> casts \<Rightarrow> 'j option \<Rightarrow> nat \<Rightarrow> AbilityInfo list option" where
  "ConvertJsonToAbilityInfos m J c abilityArray n =
     (if \<not> j_IsArray J abilityArray \<or> n = 0 \<or> j_GetArraySize J abilityArray \<noteq> int n then None
      else if \<not> m (Objects ''AbilityInfo'' n) then None
      else ability_loop m J c (j_elems J abilityArray))"

text \<open>One string of the metadata; the structure was cleared.\<close>

definition read_md :: "allocator \<Rightarrow> 'j cjson \<Rightarrow> 'j \<Rightarrow> string \<Rightarrow> cstr option" where
  "read_md m J metaDataItem key =
     (case j_GetObjectItem J (Some metaDataItem) key of
        Some item \<Rightarrow>
          if j_IsString J (Some item)
          then (case Strdup m (j_valuestring J item) of None \<Rightarrow> None | s \<Rightarrow> Some s)
          else Some None
      | None \<Rightarrow> Some None)"

fun metadata_items :: "allocator \<Rightarrow> 'j cjson \<Rightarrow> 'j list \<Rightarrow> MetaData option list option" where
  "metadata_items m J [] = Some []"
| "metadata_items m J (item # items) =
     (if \<not> m (Objects ''MetaData'' 1) then None
      else do {
        n \<leftarrow> read_md m J item ''name'';
        v \<leftarrow> read_md m J item ''value'';
        x \<leftarrow> read_md m J item ''extra'';
        ms \<leftarrow> metadata_items m J items;
        Some (Some \<lparr>md_name = n, md_value = v, md_extra = x\<rparr> # ms) })"

definition ConvertJsonToMetaData :: "allocator \<Rightarrow> 'j cjson \<Rightarrow> 'j option \<Rightarrow> MetaData option list option" where
  "ConvertJsonToMetaData m J metaDataArray =
     (if \<not> j_IsArray J metaDataArray \<or> j_GetArraySize J metaDataArray > int METADATA_SIZE then None
      else do {
        ms \<leftarrow> metadata_items m J (j_elems J metaDataArray);
        Some (ms @ drop (length ms) (replicate METADATA_SIZE None)) })"

fun device_type_items :: "allocator \<Rightarrow> 'j cjson \<Rightarrow> 'j list \<Rightarrow> cstr list option" where
  "device_type_items m J [] = Some []"
| "device_type_items m J (item # items) =
     (if \<not> j_IsString J (Some item) then None
      else case Strdup m (j_valuestring J item) of
          None \<Rightarrow> None
        | d \<Rightarrow> do { ds \<leftarrow> device_type_items m J items; Some (d # ds) })"

definition ConvertJsonToDeviceType :: "allocator \<Rightarrow> 'j cjson \<Rightarrow> 'j option \<Rightarrow> cstr list option" where
  "ConvertJsonToDeviceType m J deviceTypeArray =
     (if \<not> j_IsArray J deviceTypeArray \<or> j_GetArraySize J deviceTypeArray > int DEVICE_TYPE_SIZE then None
      else do {
        ds \<leftarrow> device_type_items m J (j_elems J deviceTypeArray);
        Some (ds @ drop (length ds) (replicate DEVICE_TYPE_SIZE None)) })"

text \<open>
  The loop over the modules reads every module into the entry at \<open>index\<close>, which it never advances: the
  structure is the one the module before has left.
\<close>

fun module_loop :: "allocator \<Rightarrow> 'j cjson \<Rightarrow> 'j list \<Rightarrow> ModuleInfo \<Rightarrow> ModuleInfo option" where
  "module_loop m J [] mi = Some mi"
| "module_loop m J (moduleItem # items) mi = do {
     mi \<leftarrow> read_str J (Some moduleItem) ''name'' False (SetModuleInfoName m) mi;
     mi \<leftarrow> read_str J (Some moduleItem) ''description'' False (SetModuleInfoDescription m) mi;
     mi \<leftarrow> read_str J (Some moduleItem) ''moduleName'' True (SetModuleInfoModuleName m) mi;
     mi \<leftarrow> read_str J (Some moduleItem) ''moduleType'' True (SetModuleInfoModuleType m) mi;
     let mi = read_bool J (Some moduleItem) ''isDeliveryInstall'' (\<lambda>v mi. mi\<lparr>mi_isDeliveryInstall := v\<rparr>) mi;
     let item = j_GetObjectItem J (Some moduleItem) ''metaData'';
     mi \<leftarrow> (if j_IsArray J item
            then do { ms \<leftarrow> ConvertJsonToMetaData m J item; Some (mi\<lparr>mi_metaData := ms\<rparr>) } else Some mi);
     let item = j_GetObjectItem J (Some moduleItem) ''deviceType'';
     ds \<leftarrow> (if j_IsArray J item then ConvertJsonToDeviceType m J item else None);
     module_loop m J items (mi\<lparr>mi_deviceType := ds\<rparr>) }"

definition ConvertJsonToModuleInfos :: "allocator \<Rightarrow> 'j cjson \<Rightarrow> 'j option \<Rightarrow> nat \<Rightarrow> ModuleInfo list option" where
  "ConvertJsonToModuleInfos m J moduleArray n =
     (if \<not> j_IsArray J moduleArray \<or> n = 0 \<or> j_GetArraySize J moduleArray \<noteq> int n then None
      else if \<not> m (Objects ''ModuleInfo'' n) then None
      else do {
        mi \<leftarrow> module_loop m J (j_elems J moduleArray) zero_ModuleInfo;
        Some ((replicate n zero_ModuleInfo)[0 := mi]) })"

text \<open>A count that is a positive number, and the array it counts.\<close>

definition counted :: "'j cjson \<Rightarrow> 'j option \<Rightarrow> string \<Rightarrow> nat option" where
  "counted J root key =
     (case j_GetObjectItem J root key of
        Some item \<Rightarrow> if j_IsNumber J (Some item) \<and> j_valueint J item > 0 then Some (nat (j_valueint J item)) else None
      | None \<Rightarrow> None)"

definition ConvertJsonToBundleInfo ::
    "allocator \<Rightarrow> 'j cjson \<Rightarrow> casts \<Rightarrow> 'j option \<Rightarrow> BundleInfo \<Rightarrow> BundleInfo option" where
  "ConvertJsonToBundleInfo m J c root b =
     (if root = None then None
      else do {
        let b = read_bool J root ''isSystemApp'' (\<lambda>v b. b\<lparr>bi_isSystemApp := v\<rparr>) b;
        let b = read_bool J root ''isNativeApp'' (\<lambda>v b. b\<lparr>bi_isNativeApp := v\<rparr>) b;
        let b = read_bool J root ''isKeepAlive'' (\<lambda>v b. b\<lparr>bi_isKeepAlive := v\<rparr>) b;
        let b = read_int J root ''versionCode'' (\<lambda>v b. b\<lparr>bi_versionCode := v\<rparr>) b;
        let b = read_int J root ''uid'' (\<lambda>v b. b\<lparr>bi_uid := v\<rparr>) b;
        let b = read_int J root ''gid'' (\<lambda>v b. b\<lparr>bi_gid := v\<rparr>) b;
        let b = read_int J root ''compatibleApi'' (\<lambda>v b. b\<lparr>bi_compatibleApi := v\<rparr>) b;
        let b = read_int J root ''targetApi'' (\<lambda>v b. b\<lparr>bi_targetApi := v\<rparr>) b;
        b \<leftarrow> read_str J root ''versionName'' True (SetBundleInfoVersionName m) b;
        b \<leftarrow> read_str J root ''bundleName'' True (SetBundleInfoBundleName m) b;
        b \<leftarrow> read_str J root ''label'' False (SetBundleInfoLabel m) b;
        b \<leftarrow> read_str J root ''iconPath'' False (SetBundleInfoBigIconPath m) b;
        b \<leftarrow> read_str J root ''codePath'' True (SetBundleInfoCodePath m) b;
        b \<leftarrow> read_str J root ''dataPath'' True (SetBundleInfoDataPath m) b;
        b \<leftarrow> read_str J root ''vendor'' False (SetBundleInfoVendor m) b;
        b \<leftarrow> read_str J root ''appId'' True (SetBundleInfoAppId m) b;
        b \<leftarrow> (case counted J root ''numOfModule'' of
            None \<Rightarrow> Some b
          | Some n \<Rightarrow> do {
              mis \<leftarrow> ConvertJsonToModuleInfos m J (j_GetObjectItem J root ''moduleInfos'') n;
              Some (b\<lparr>bi_numOfModule := n, bi_moduleInfos := Some mis\<rparr>) });
        case counted J root ''numOfAbility'' of
          None \<Rightarrow> Some b
        | Some n \<Rightarrow> do {
            as1 \<leftarrow> ConvertJsonToAbilityInfos m J c (j_GetObjectItem J root ''abilityInfos'') n;
            Some (b\<lparr>bi_numOfAbility := n, bi_abilityInfos := Some as1\<rparr>) } })"

definition ConvertStringToAbilityInfo ::
    "allocator \<Rightarrow> 'j cjson \<Rightarrow> 'j cjson_io \<Rightarrow> casts \<Rightarrow> cstr \<Rightarrow> nat \<Rightarrow> AbilityInfo option" where
  "ConvertStringToAbilityInfo m J X c str buffSize = do {
     s \<leftarrow> str;
     if \<not> m (Objects ''AbilityInfo'' 1) then None
     else do {
       root \<leftarrow> io_ParseWithLength X s buffSize;
       ConvertJsonToAbilityInfo m J c (Some root) zero_AbilityInfo } }"

definition ConvertStringToBundleInfo ::
    "allocator \<Rightarrow> 'j cjson \<Rightarrow> 'j cjson_io \<Rightarrow> casts \<Rightarrow> cstr \<Rightarrow> nat \<Rightarrow> BundleInfo option" where
  "ConvertStringToBundleInfo m J X c str buffSize = do {
     s \<leftarrow> str;
     if \<not> m (Objects ''BundleInfo'' 1) then None
     else do {
       root \<leftarrow> io_ParseWithLength X s buffSize;
       ConvertJsonToBundleInfo m J c (Some root) zero_BundleInfo } }"

fun bundle_loop :: "allocator \<Rightarrow> 'j cjson \<Rightarrow> casts \<Rightarrow> 'j list \<Rightarrow> BundleInfo list option" where
  "bundle_loop m J c [] = Some []"
| "bundle_loop m J c (item # items) = do {
     b \<leftarrow> ConvertJsonToBundleInfo m J c (Some item) zero_BundleInfo;
     bs \<leftarrow> bundle_loop m J c items;
     Some (b # bs) }"

definition ConvertStringToBundleInfos ::
    "allocator \<Rightarrow> 'j cjson \<Rightarrow> 'j cjson_io \<Rightarrow> casts \<Rightarrow> cstr \<Rightarrow> nat \<Rightarrow> nat \<Rightarrow> BundleInfo list option" where
  "ConvertStringToBundleInfos m J X c strs numOfBundleInfo buffSize = do {
     s \<leftarrow> strs;
     if numOfBundleInfo = 0 then None
     else do {
       roots \<leftarrow> io_ParseWithLength X s buffSize;
       if \<not> j_IsArray J (Some roots) \<or> j_GetArraySize J (Some roots) \<noteq> int numOfBundleInfo then None
       else if \<not> m (Objects ''BundleInfo'' numOfBundleInfo) then None
       else bundle_loop m J c (j_elems J (Some roots)) } }"

end
