(* ===== verification/Convert_Correct.thy ===== *)
theory Convert_Correct
  imports Convert_Utils
begin

text \<open>
  The text form of a bundle. A bundle with one module read back from the document made of it is the bundle itself,
  but for the device capabilities of its abilities, which are not written. Of several modules only one arrives.
\<close>

section \<open>Documented behaviour of cJSON used by the codec\<close>

definition is_flag :: "'j cjson \<Rightarrow> bool \<Rightarrow> 'j \<Rightarrow> bool" where
  "is_flag J b x \<longleftrightarrow> j_IsBool J (Some x) \<and> j_IsTrue J (Some x) = b"

definition cjson_io_ok :: "'j cjson \<Rightarrow> 'j cjson_mk \<Rightarrow> 'j cjson_io \<Rightarrow> bool" where
  "cjson_io_ok J K X \<longleftrightarrow> cjson_ok J \<and> cjson_mk_ok J K \<and>
     (\<forall>ob k b ob'. j_GetObjectItem J (Some ob) k = None \<longrightarrow> io_AddBoolToObject X ob k b = Some ob' \<longrightarrow>
        adds_item_ci J ob k ob' (is_flag J b)) \<and>
     (\<forall>ob k x ob'. j_GetObjectItem J (Some ob) k = None \<longrightarrow> k_AddItemToObject K ob k x = Some ob' \<longrightarrow>
        adds_item_ci J ob k ob' (\<lambda>z. z = x)) \<and>
     (\<forall>ob k. k_AddStringToObject K ob k None = None) \<and>
     (\<forall>s x. k_CreateString K s = Some x \<longrightarrow> is_str J s x)"

lemma cjson_io_okD:
  assumes "cjson_io_ok J K X"
  shows "cjson_ok J" "cjson_mk_ok J K"
    and "j_GetObjectItem J (Some ob) k = None \<Longrightarrow> io_AddBoolToObject X ob k b = Some ob' \<Longrightarrow>
      adds_item_ci J ob k ob' (is_flag J b)"
    and "j_GetObjectItem J (Some ob) k = None \<Longrightarrow> k_AddItemToObject K ob k x = Some ob' \<Longrightarrow>
      adds_item_ci J ob k ob' (\<lambda>z. z = x)"
    and "k_AddStringToObject K ob k None = None"
    and "k_CreateString K s = Some y \<Longrightarrow> is_str J s y"
  using assms by (auto simp: cjson_io_ok_def)

text \<open>The same of the trees; texts are not modelled, so that the printer and the parser are parameters.\<close>

definition js_io :: "(js \<Rightarrow> cstr) \<Rightarrow> (string \<Rightarrow> nat \<Rightarrow> js option) \<Rightarrow> js cjson_io" where
  "js_io pr pa = \<lparr>io_AddBoolToObject = (\<lambda>ob k b. js_add ob k (JBool b)), io_PrintUnformatted = pr, io_ParseWithLength = pa\<rparr>"

lemma js_io_ok: "cjson_io_ok js_api (js_mk pr' pa') (js_io pr pa)"
proof -
  have "is_flag js_api b (JBool b)" "is_str js_api s (JStr s)" for b s
    by (simp_all add: is_flag_def is_str_def js_api_def js_is_def)
  moreover have "j_GetObjectItem js_api = js_find (map to_lower)"
    by (simp add: js_api_def)
  ultimately show ?thesis
    unfolding cjson_io_ok_def using js_api_ok js_mk_ok
    by (auto simp: js_mk_def js_io_def intro: js_add_adds_ci)
qed

section \<open>The fields of a document\<close>

type_synonym 'j fields = "(string \<times> ('j option \<Rightarrow> bool)) list"

text \<open>What a lookup finds under each of some keys, and nothing under any other key.\<close>

definition lower_keys :: "'j fields \<Rightarrow> string set" where
  "lower_keys F = set (map (\<lambda>(k, P). map to_lower k) F)"

definition has_fields :: "'j cjson \<Rightarrow> 'j \<Rightarrow> 'j fields \<Rightarrow> bool" where
  "has_fields J ob F \<longleftrightarrow> list_all (\<lambda>(k, P). P (j_GetObjectItem J (Some ob) k)) F \<and>
     (\<forall>k. map to_lower k \<notin> lower_keys F \<longrightarrow> j_GetObjectItem J (Some ob) k = None)"

definition holds :: "('j \<Rightarrow> bool) \<Rightarrow> 'j option \<Rightarrow> bool" where
  "holds Q p \<longleftrightarrow> (\<exists>x. p = Some x \<and> Q x)"

definition holds_str :: "'j cjson \<Rightarrow> cstr \<Rightarrow> 'j option \<Rightarrow> bool" where
  "holds_str J s p \<longleftrightarrow> (\<exists>t. s = Some t \<and> holds (is_str J t) p)"

definition holds_opt :: "'j cjson \<Rightarrow> cstr \<Rightarrow> 'j option \<Rightarrow> bool" where
  "holds_opt J s p \<longleftrightarrow> (case s of None \<Rightarrow> p = None | Some t \<Rightarrow> holds (is_str J t) p)"

lemma has_fields_add:
  assumes F: "has_fields J ob F" and "adds_item_ci J ob k ob' Q" and k: "map to_lower k \<notin> lower_keys F"
    and Q: "\<And>x. Q x \<Longrightarrow> P (Some x)"
  shows "has_fields J ob' ((k, P) # F)"
proof -
  from assms have new: "\<exists>x. j_GetObjectItem J (Some ob') k = Some x \<and> Q x"
    and old: "map to_lower k' \<noteq> map to_lower k \<Longrightarrow> j_GetObjectItem J (Some ob') k' = j_GetObjectItem J (Some ob) k'" for k'
    by (auto simp: adds_item_ci_def)
  have "P (j_GetObjectItem J (Some ob') k)" using new Q by auto
  moreover have "list_all (\<lambda>(k, P). P (j_GetObjectItem J (Some ob') k)) F"
    unfolding list_all_iff
  proof (clarify)
    fix k1 P1
    assume m: "(k1, P1) \<in> set F"
    then have "map to_lower k1 \<noteq> map to_lower k" using k by (force simp: lower_keys_def)
    with m F show "P1 (j_GetObjectItem J (Some ob') k1)" by (auto simp: has_fields_def list_all_iff old)
  qed
  ultimately show ?thesis
    using F k old by (auto simp: has_fields_def lower_keys_def)
qed

lemma has_fieldsD: "has_fields J ob F \<Longrightarrow> list_all (\<lambda>(k, P). P (j_GetObjectItem J (Some ob) k)) F"
  by (simp add: has_fields_def)

lemma has_fields_free: "has_fields J ob F \<Longrightarrow> map to_lower k \<notin> lower_keys F \<Longrightarrow> j_GetObjectItem J (Some ob) k = None"
  by (simp add: has_fields_def)

lemma has_fields_absent:
  "has_fields J ob F \<Longrightarrow> map to_lower k \<notin> lower_keys F \<Longrightarrow> P None \<Longrightarrow> has_fields J ob ((k, P) # F)"
  by (auto simp: has_fields_def lower_keys_def)

lemma fields_empty: "cjson_io_ok J K X \<Longrightarrow> k_CreateObject K = Some ob \<Longrightarrow> has_fields J ob []"
  by (auto simp: has_fields_def lower_keys_def mk_create_object_ci[OF cjson_io_okD(2)])

lemma fields_flag:
  "cjson_io_ok J K X \<Longrightarrow> io_AddBoolToObject X ob k b = Some ob' \<Longrightarrow> has_fields J ob F \<Longrightarrow> map to_lower k \<notin> lower_keys F \<Longrightarrow>
   has_fields J ob' ((k, holds (is_flag J b)) # F)"
  by (rule has_fields_add[OF _ cjson_io_okD(3)]) (auto simp: holds_def dest: has_fields_free)

lemma fields_int:
  "cjson_io_ok J K X \<Longrightarrow> k_AddNumberToObject K ob k v = Some ob' \<Longrightarrow> has_fields J ob F \<Longrightarrow> map to_lower k \<notin> lower_keys F \<Longrightarrow>
   in_range32 v \<Longrightarrow> has_fields J ob' ((k, holds (is_int J v)) # F)"
  by (rule has_fields_add[OF _ mk_add_number_ci[OF cjson_io_okD(2)]]) (auto simp: holds_def dest: has_fields_free)

lemma fields_item:
  "cjson_io_ok J K X \<Longrightarrow> k_AddItemToObject K ob k x = Some ob' \<Longrightarrow> has_fields J ob F \<Longrightarrow> map to_lower k \<notin> lower_keys F \<Longrightarrow>
   Q x \<Longrightarrow> has_fields J ob' ((k, holds Q) # F)"
  by (rule has_fields_add[OF _ cjson_io_okD(4)]) (auto simp: holds_def dest: has_fields_free)

lemma fields_str:
  assumes ok: "cjson_io_ok J K X" and "k_AddStringToObject K ob k s = Some ob'" "has_fields J ob F" "map to_lower k \<notin> lower_keys F"
  shows "has_fields J ob' ((k, holds_str J s) # F)"
proof -
  from assms(2) obtain t where "s = Some t" using cjson_io_okD(5)[OF ok] by (cases s) auto
  with assms show ?thesis
    by (intro has_fields_add[OF _ mk_add_string_ci[OF cjson_io_okD(2)[OF ok]]])
      (auto simp: holds_str_def holds_def dest: has_fields_free)
qed

lemma fields_opt:
  assumes "cjson_io_ok J K X" "add_opt K ob k s = Some ob'" "has_fields J ob F" "map to_lower k \<notin> lower_keys F"
  shows "has_fields J ob' ((k, holds_opt J s) # F)"
proof (cases s)
  case None
  with assms show ?thesis by (auto simp: add_opt_def holds_opt_def intro: has_fields_absent)
next
  case (Some t)
  with assms fields_str[of J K X ob k s ob' F] show ?thesis
    by (auto simp: add_opt_def holds_opt_def holds_str_def has_fields_def lower_keys_def)
qed

lemmas fields_steps = fields_flag fields_int fields_item fields_str fields_opt

text \<open>Reading a field.\<close>

lemma read_str_holds:
  assumes "holds_str J s (j_GetObjectItem J root k)" "fits s"
  shows "read_str J root k mandatory (set_str plentiful field) r = Some (field (\<lambda>_. s) r)"
  using assms by (auto simp: read_str_def holds_str_def holds_def is_str_def set_str_plentiful)

lemma read_str_opt:
  assumes "holds_opt J s (j_GetObjectItem J root k)" "fits s" "field (\<lambda>_. None) r = r"
  shows "read_str J root k False (set_str plentiful field) r = Some (field (\<lambda>_. s) r)"
  using assms by (auto simp: read_str_def holds_opt_def holds_def is_str_def set_str_plentiful split: option.splits)

lemma setter_fields:
  "SetAbilityInfoBundleName m = set_str m ai_bundleName_update" "SetAbilityInfoModuleName m = set_str m ai_moduleName_update"
  "SetAbilityInfoName m = set_str m ai_name_update" "SetAbilityInfoDescription m = set_str m ai_description_update"
  "SetAbilityInfoIconPath m = set_str m ai_iconPath_update" "SetAbilityInfoDeviceId m = set_str m ai_deviceId_update"
  "SetAbilityInfoLabel m = set_str m ai_label_update"
  "SetModuleInfoModuleName m = set_str m mi_moduleName_update" "SetModuleInfoName m = set_str m mi_name_update"
  "SetModuleInfoDescription m = set_str m mi_description_update" "SetModuleInfoModuleType m = set_str m mi_moduleType_update"
  "SetBundleInfoBundleName m = set_str m bi_bundleName_update" "SetBundleInfoVendor m = set_str m bi_vendor_update"
  "SetBundleInfoLabel m = set_str m bi_label_update" "SetBundleInfoVersionName m = set_str m bi_versionName_update"
  "SetBundleInfoBigIconPath m = set_str m bi_bigIconPath_update" "SetBundleInfoCodePath m = set_str m bi_codePath_update"
  "SetBundleInfoDataPath m = set_str m bi_dataPath_update" "SetBundleInfoAppId m = set_str m bi_appId_update"
  by (rule ext; rule ext; simp add: ability_setters module_setters bundle_setters)+

lemma read_int_holds:
  "holds (is_int J v) (j_GetObjectItem J root k) \<Longrightarrow> read_int J root k put r = put v r"
  by (auto simp: read_int_def holds_def is_int_def)

lemma read_bool_holds:
  "holds (is_flag J b) (j_GetObjectItem J root k) \<Longrightarrow> read_bool J root k put r = put b r"
  by (auto simp: read_bool_def holds_def is_flag_def Let_def)

section \<open>One ability\<close>

definition ability_fields :: "'j cjson \<Rightarrow> AbilityInfo \<Rightarrow> 'j fields" where
  "ability_fields J a =
     [(''deviceId'', holds_opt J (ai_deviceId a)), (''label'', holds_opt J (ai_label a)),
      (''iconPath'', holds_opt J (ai_iconPath a)), (''description'', holds_opt J (ai_description a)),
      (''name'', holds_str J (ai_name a)), (''moduleName'', holds_str J (ai_moduleName a)),
      (''bundleName'', holds_str J (ai_bundleName a)),
      (''launchMode'', holds (is_int J (LaunchMode_int (ai_launchMode a)))),
      (''abilityType'', holds (is_int J (AbilityType_int (ai_abilityType a)))),
      (''isVisible'', holds (is_flag J (ai_isVisible a)))]"

lemma lower_ability_keys:
  "map to_lower ''deviceId'' = ''deviceid''" "map to_lower ''label'' = ''label''"
  "map to_lower ''iconPath'' = ''iconpath''" "map to_lower ''description'' = ''description''"
  "map to_lower ''name'' = ''name''" "map to_lower ''moduleName'' = ''modulename''"
  "map to_lower ''bundleName'' = ''bundlename''" "map to_lower ''launchMode'' = ''launchmode''"
  "map to_lower ''abilityType'' = ''abilitytype''" "map to_lower ''isVisible'' = ''isvisible''"
  by code_simp+

lemma in_range_enum: "in_range32 (AbilityType_int x)" "in_range32 (LaunchMode_int y)"
  by (cases x; simp add: in_range32_def) (cases y; simp add: in_range32_def)

lemma GetJsonAbilityInfo_fields:
  assumes ok: "cjson_io_ok J K X" and "GetJsonAbilityInfo K X a = Some root"
  shows "has_fields J root (ability_fields J a)"
  using assms(2) unfolding GetJsonAbilityInfo_def bind_eq_Some_conv
  apply (elim exE conjE)
  unfolding ability_fields_def
  apply (rule fields_steps[OF ok], assumption)+
   apply (rule fields_empty[OF ok], assumption)
  by (simp_all add: lower_keys_def lower_ability_keys in_range_enum del: list.map)

lemma int_enum: "int_AbilityType c (AbilityType_int x) = x" "int_LaunchMode c (LaunchMode_int y) = y"
  by (cases x; simp add: int_AbilityType_def) (cases y; simp add: int_LaunchMode_def)

lemma ConvertJsonToAbilityInfo_reads:
  assumes f: "has_fields J root (ability_fields J a)" and a: "AbilityInfo_ok a"
  shows "ConvertJsonToAbilityInfo plentiful J c (Some root) zero_AbilityInfo = Some (without_deviceCap a)"
proof -
  let ?g = "\<lambda>k. j_GetObjectItem J (Some root) k"
  from f have h: "holds_opt J (ai_deviceId a) (?g ''deviceId'')" "holds_opt J (ai_label a) (?g ''label'')"
    "holds_opt J (ai_iconPath a) (?g ''iconPath'')" "holds_opt J (ai_description a) (?g ''description'')"
    "holds_str J (ai_name a) (?g ''name'')" "holds_str J (ai_moduleName a) (?g ''moduleName'')"
    "holds_str J (ai_bundleName a) (?g ''bundleName'')"
    "holds (is_int J (LaunchMode_int (ai_launchMode a))) (?g ''launchMode'')"
    "holds (is_int J (AbilityType_int (ai_abilityType a))) (?g ''abilityType'')"
    "holds (is_flag J (ai_isVisible a)) (?g ''isVisible'')"
    by (simp_all add: has_fields_def ability_fields_def)
  from h(10) have v: "j_IsTrue J (?g ''isVisible'') = ai_isVisible a"
    by (auto simp: holds_def is_flag_def)
  have s: "fits (ai_bundleName a)" "fits (ai_moduleName a)" "fits (ai_name a)" "fits (ai_description a)"
    "fits (ai_iconPath a)" "fits (ai_deviceId a)" "fits (ai_label a)"
    using a by (auto simp: AbilityInfo_ok_def)
  show ?thesis
    by (cases a) (use s h v in \<open>simp add: ConvertJsonToAbilityInfo_def Let_def setter_fields read_str_holds[OF h(5)]
      read_str_holds[OF h(6)] read_str_holds[OF h(7)] read_str_opt[OF h(1)] read_str_opt[OF h(2)] read_str_opt[OF h(3)]
      read_str_opt[OF h(4)] read_int_holds[OF h(8)] read_int_holds[OF h(9)] int_enum zero_AbilityInfo_def
      without_deviceCap_def\<close>)
qed

section \<open>Arrays\<close>

text \<open>An array whose items are of the given values, one by one.\<close>

definition array_of :: "'j cjson \<Rightarrow> ('a \<Rightarrow> 'j \<Rightarrow> bool) \<Rightarrow> 'a list \<Rightarrow> 'j \<Rightarrow> bool" where
  "array_of J P as1 x \<longleftrightarrow> (\<exists>xs. is_arr J xs x \<and> list_all2 P as1 xs)"

lemma array_of_empty: "cjson_io_ok J K X \<Longrightarrow> k_CreateArray K = Some x \<Longrightarrow> array_of J P [] x"
  using mk_create_array[OF cjson_io_okD(2)] by (fastforce simp: array_of_def)

lemma array_of_snoc:
  assumes "cjson_io_ok J K X" "k_AddItemToArray K x y = Some x'" "array_of J P as1 x" "P a y"
  shows "array_of J P (as1 @ [a]) x'"
proof -
  from assms(3) obtain xs where xs: "is_arr J xs x" "list_all2 P as1 xs" by (auto simp: array_of_def)
  then have "is_arr J (xs @ [y]) x'" using mk_add_to_array[OF cjson_io_okD(2)[OF assms(1)]] assms(2) by blast
  with xs assms(4) show ?thesis unfolding array_of_def by (blast intro: list_all2_appendI list_all2_Cons[THEN iffD2] list_all2_Nil)
qed

lemma array_of_size:
  "cjson_ok J \<Longrightarrow> array_of J P as1 x \<Longrightarrow> j_IsArray J (Some x) \<and> j_GetArraySize J (Some x) = int (length as1)"
  by (auto simp: array_of_def is_arr_def cjson_okD(1) dest: list_all2_lengthD)

lemma array_of_elems: "array_of J P as1 x \<Longrightarrow> list_all2 P as1 (j_elems J (Some x))"
  by (auto simp: array_of_def is_arr_def)

section \<open>Several abilities\<close>

abbreviation (input) is_ability :: "'j cjson \<Rightarrow> AbilityInfo \<Rightarrow> 'j \<Rightarrow> bool" where
  "is_ability J a x \<equiv> has_fields J x (ability_fields J a)"

lemma add_abilities_array:
  assumes ok: "cjson_io_ok J K X"
  shows "add_abilities K X x as1 = Some x' \<Longrightarrow> array_of J (is_ability J) as0 x \<Longrightarrow> array_of J (is_ability J) (as0 @ as1) x'"
proof (induction as1 arbitrary: x as0)
  case Nil
  then show ?case by simp
next
  case (Cons a as1)
  then show ?case
    by (auto simp: bind_eq_Some_conv dest!: GetJsonAbilityInfo_fields[OF ok] array_of_snoc[OF ok, where a = a] dest: Cons.IH)
qed

lemma GetJsonAbilityInfos_array:
  assumes ok: "cjson_io_ok J K X" and "GetJsonAbilityInfos K X (Some as1) (length as1) = Some (Some x)"
  shows "array_of J (is_ability J) as1 x"
  using assms(2) add_abilities_array[OF ok, of _ as1 x "[]"] array_of_empty[OF ok]
  by (auto simp: GetJsonAbilityInfos_def split: option.splits if_splits)

lemma ability_loop_reads:
  "list_all2 (is_ability J) as1 xs \<Longrightarrow> list_all AbilityInfo_ok as1 \<Longrightarrow>
   ability_loop plentiful J c xs = Some (map without_deviceCap as1)"
  by (induction rule: list_all2_induct) (auto simp: ConvertJsonToAbilityInfo_reads)

lemma ConvertJsonToAbilityInfos_reads:
  assumes "cjson_ok J" "array_of J (is_ability J) as1 x" "list_all AbilityInfo_ok as1" "as1 \<noteq> []"
  shows "ConvertJsonToAbilityInfos plentiful J c (Some x) (length as1) = Some (map without_deviceCap as1)"
  using assms array_of_size[OF assms(1,2)] ability_loop_reads[OF array_of_elems[OF assms(2)]]
  by (simp add: ConvertJsonToAbilityInfos_def plentiful_grants)

section \<open>One module\<close>

text \<open>The inline arrays as they are filled: the null pointers at the end.\<close>

definition packed :: "'a option list \<Rightarrow> bool" where
  "packed xs \<longleftrightarrow> list_all (\<lambda>x. x = None) (dropWhile (\<lambda>x. x \<noteq> None) xs)"

definition entries :: "'a option list \<Rightarrow> 'a list" where
  "entries xs = map the (takeWhile (\<lambda>x. x \<noteq> None) xs)"

lemma packed_entries:
  assumes "packed xs" "length xs = n"
  shows "map Some (entries xs) @ drop (length (entries xs)) (replicate n None) = xs"
proof -
  have t: "map Some (entries xs) = takeWhile (\<lambda>x. x \<noteq> None) xs"
    by (auto simp: entries_def intro!: map_idI dest: set_takeWhileD)
  have "dropWhile (\<lambda>x. x \<noteq> None) xs = replicate (length (dropWhile (\<lambda>x. x \<noteq> None) xs)) None"
    using assms(1) by (intro replicate_eqI) (auto simp: packed_def list_all_iff)
  moreover have "length (dropWhile (\<lambda>x. x \<noteq> None) xs) = n - length (entries xs)"
    using assms(2) by (simp add: entries_def dropWhile_eq_drop)
  ultimately have d: "drop (length (entries xs)) (replicate n None) = dropWhile (\<lambda>x. x \<noteq> None) xs"
    by simp
  show ?thesis unfolding t d by (rule takeWhile_dropWhile_id)
qed

definition md_fields :: "'j cjson \<Rightarrow> MetaData \<Rightarrow> 'j fields" where
  "md_fields J d = [(''extra'', holds_opt J (md_extra d)), (''value'', holds_opt J (md_value d)), (''name'', holds_opt J (md_name d))]"

abbreviation (input) is_md :: "'j cjson \<Rightarrow> MetaData \<Rightarrow> 'j \<Rightarrow> bool" where
  "is_md J d x \<equiv> has_fields J x (md_fields J d)"

lemma lower_md_keys:
  "map to_lower ''name'' = ''name''" "map to_lower ''value'' = ''value''" "map to_lower ''extra'' = ''extra''"
  by code_simp+

lemma add_metadata_array:
  assumes ok: "cjson_io_ok J K X"
  shows "add_metadata K x ms = Some x' \<Longrightarrow> array_of J (is_md J) ds x \<Longrightarrow> array_of J (is_md J) (ds @ entries ms) x'"
proof (induction ms arbitrary: x ds)
  case Nil
  then show ?case by (simp add: entries_def)
next
  case (Cons e ms)
  show ?case
  proof (cases e)
    case None
    with Cons.prems show ?thesis by (simp add: entries_def)
  next
    case (Some d)
    with Cons.prems(1) obtain y0 y1 y2 y x2 where y: "k_CreateObject K = Some y0" "add_opt K y0 ''name'' (md_name d) = Some y1"
      "add_opt K y1 ''value'' (md_value d) = Some y2" "add_opt K y2 ''extra'' (md_extra d) = Some y"
      "k_AddItemToArray K x y = Some x2" "add_metadata K x2 ms = Some x'"
      by (auto simp: bind_eq_Some_conv)
    have "is_md J d y"
      unfolding md_fields_def
      by (rule fields_opt[OF ok y(4)], rule fields_opt[OF ok y(3)], rule fields_opt[OF ok y(2)], rule fields_empty[OF ok y(1)])
        (simp_all add: lower_keys_def lower_md_keys del: list.map)
    from array_of_snoc[where P = "is_md J", OF ok y(5) Cons.prems(2) this] y(6)
    have "array_of J (is_md J) ((ds @ [d]) @ entries ms) x'" by (rule Cons.IH[rotated])
    with Some show ?thesis by (simp add: entries_def)
  qed
qed

lemma add_device_types_array:
  assumes ok: "cjson_io_ok J K X"
  shows "add_device_types K x ds = Some x' \<Longrightarrow> array_of J (is_str J) ss x \<Longrightarrow> array_of J (is_str J) (ss @ entries ds) x'"
proof (induction ds arbitrary: x ss)
  case Nil
  then show ?case by (simp add: entries_def)
next
  case (Cons e ds)
  show ?case
  proof (cases e)
    case None
    with Cons.prems show ?thesis by (simp add: entries_def)
  next
    case (Some d)
    with Cons.prems(1) obtain y x2 where y: "k_CreateString K d = Some y" "k_AddItemToArray K x y = Some x2"
        "add_device_types K x2 ds = Some x'"
      by (auto simp: bind_eq_Some_conv)
    from array_of_snoc[where P = "is_str J", OF ok y(2) Cons.prems(2) cjson_io_okD(6)[OF ok y(1)]] y(3)
    have "array_of J (is_str J) ((ss @ [d]) @ entries ds) x'" by (rule Cons.IH[rotated])
    with Some show ?thesis by (simp add: entries_def)
  qed
qed

lemma read_md_reads:
  "holds_opt J s (j_GetObjectItem J (Some x) k) \<Longrightarrow> fits s \<Longrightarrow> \<not> j_IsString J None \<Longrightarrow> read_md plentiful J x k = Some s"
  by (auto simp: read_md_def holds_opt_def holds_def is_str_def Strdup_plentiful split: option.splits)

lemma metadata_items_reads:
  assumes ok: "cjson_ok J"
  shows "list_all2 (is_md J) ds xs \<Longrightarrow> list_all MetaData_ok ds \<Longrightarrow> metadata_items plentiful J xs = Some (map Some ds)"
proof (induction rule: list_all2_induct)
  case Nil
  then show ?case by simp
next
  case (Cons d ds x xs)
  then have "read_md plentiful J x ''name'' = Some (md_name d)" "read_md plentiful J x ''value'' = Some (md_value d)"
    "read_md plentiful J x ''extra'' = Some (md_extra d)"
    using cjson_okD(5)[OF ok] by (auto simp: has_fields_def md_fields_def MetaData_ok_def intro: read_md_reads)
  with Cons show ?case by (simp add: plentiful_grants[of "Objects ''MetaData'' (Suc 0)"])
qed

lemma device_type_items_reads:
  "list_all2 (is_str J) ds xs \<Longrightarrow> list_all (\<lambda>d. fits (Some d)) ds \<Longrightarrow> device_type_items plentiful J xs = Some (map Some ds)"
  by (induction rule: list_all2_induct) (auto simp: is_str_def Strdup_plentiful)

definition module_fields :: "'j cjson \<Rightarrow> ModuleInfo \<Rightarrow> 'j fields" where
  "module_fields J mi =
     [(''deviceType'', holds (array_of J (is_str J) (entries (mi_deviceType mi)))),
      (''metaData'', \<lambda>p. if first (mi_metaData mi) = None then p = None
                       else holds (array_of J (is_md J) (entries (mi_metaData mi))) p),
      (''description'', holds_opt J (mi_description mi)), (''name'', holds_opt J (mi_name mi)),
      (''isDeliveryInstall'', holds (is_flag J (mi_isDeliveryInstall mi))),
      (''moduleType'', holds_str J (mi_moduleType mi)), (''moduleName'', holds_str J (mi_moduleName mi))]"

abbreviation (input) is_module :: "'j cjson \<Rightarrow> ModuleInfo \<Rightarrow> 'j \<Rightarrow> bool" where
  "is_module J mi x \<equiv> has_fields J x (module_fields J mi)"

lemma lower_module_keys:
  "map to_lower ''deviceType'' = ''devicetype''" "map to_lower ''metaData'' = ''metadata''"
  "map to_lower ''isDeliveryInstall'' = ''isdeliveryinstall''" "map to_lower ''moduleType'' = ''moduletype''"
  by code_simp+

lemmas lower_keys_simps = lower_keys_def lower_ability_keys lower_md_keys lower_module_keys

text \<open>A module as the service keeps it.\<close>

definition ModuleInfo_packed :: "ModuleInfo \<Rightarrow> bool" where
  "ModuleInfo_packed mi \<longleftrightarrow> ModuleInfo_ok mi \<and> packed (mi_deviceType mi) \<and> packed (mi_metaData mi)"

lemma module_item_fields:
  assumes ok: "cjson_io_ok J K X" and len: "length (mi_deviceType mi) = DEVICE_TYPE_SIZE" "length (mi_metaData mi) = METADATA_SIZE"
    and "module_item K X mi = Some y"
  shows "is_module J mi y"
proof -
  from assms(4) obtain y0 y1 y2 y3 y4 y5 y6 where y: "k_CreateObject K = Some y0"
    "k_AddStringToObject K y0 ''moduleName'' (mi_moduleName mi) = Some y1"
    "k_AddStringToObject K y1 ''moduleType'' (mi_moduleType mi) = Some y2"
    "io_AddBoolToObject X y2 ''isDeliveryInstall'' (mi_isDeliveryInstall mi) = Some y3"
    "add_opt K y3 ''name'' (mi_name mi) = Some y4" "add_opt K y4 ''description'' (mi_description mi) = Some y5"
    "ConvertModuleInfoMetaDataToJson K mi y5 = Some y6" "ConvertModuleInfoDeviceTypeToJson K mi y6 = Some y"
    unfolding module_item_def bind_eq_Some_conv by (elim exE conjE) (rule that)
  have 5: "has_fields J y5 (drop 2 (module_fields J mi))"
    unfolding module_fields_def
    by (simp del: list.map, rule fields_opt[OF ok y(6)], rule fields_opt[OF ok y(5)], rule fields_flag[OF ok y(4)],
        rule fields_str[OF ok y(3)], rule fields_str[OF ok y(2)], rule fields_empty[OF ok y(1)])
      (simp_all add: lower_keys_simps del: list.map)
  have 6: "has_fields J y6 (drop 1 (module_fields J mi))"
  proof (cases "first (mi_metaData mi) = None")
    case True
    with y(7) have "y6 = y5" by (simp add: ConvertModuleInfoMetaDataToJson_def)
    with 5 True show ?thesis
      by (simp add: module_fields_def has_fields_absent lower_keys_simps del: list.map)
  next
    case False
    with y(7) obtain x0 x where x: "k_CreateArray K = Some x0" "add_metadata K x0 (mi_metaData mi) = Some x"
        "k_AddItemToObject K y5 ''metaData'' x = Some y6"
      using len by (auto simp: ConvertModuleInfoMetaDataToJson_def GetJsonModuleInfoMetaData_def bind_eq_Some_conv)
    have "array_of J (is_md J) (entries (mi_metaData mi)) x"
      using add_metadata_array[OF ok x(2) array_of_empty[OF ok x(1)]] by simp
    from fields_item[where Q = "array_of J (is_md J) (entries (mi_metaData mi))", OF ok x(3) 5 _ this]
    show ?thesis unfolding module_fields_def if_not_P[OF False] by (simp add: lower_keys_simps del: list.map)
  qed
  from y(8) obtain x0 x where x: "k_CreateArray K = Some x0" "add_device_types K x0 (mi_deviceType mi) = Some x"
      "k_AddItemToObject K y6 ''deviceType'' x = Some y"
    using len by (auto simp: ConvertModuleInfoDeviceTypeToJson_def GetJsonModuleInfoDeviceType_def bind_eq_Some_conv split: if_splits)
  have "array_of J (is_str J) (entries (mi_deviceType mi)) x"
    using add_device_types_array[OF ok x(2) array_of_empty[OF ok x(1)]] by simp
  from fields_item[where Q = "array_of J (is_str J) (entries (mi_deviceType mi))", OF ok x(3) 6 _ this]
  show ?thesis by (simp add: module_fields_def lower_keys_simps del: list.map)
qed

lemma list_all_entries: "list_all (\<lambda>d. case d of None \<Rightarrow> True | Some x \<Rightarrow> P x) xs \<Longrightarrow> list_all P (entries xs)"
  by (auto simp: list_all_iff entries_def dest!: set_takeWhileD)

lemma entries_length: "length (entries xs) \<le> length xs"
  by (simp add: entries_def length_takeWhile_le)

lemma ConvertJsonToMetaData_reads:
  assumes ok: "cjson_ok J" and x: "array_of J (is_md J) (entries (mi_metaData mi)) x" and mi: "ModuleInfo_packed mi"
  shows "ConvertJsonToMetaData plentiful J (Some x) = Some (mi_metaData mi)"
proof -
  have l: "length (mi_metaData mi) = METADATA_SIZE" "list_all MetaData_ok (entries (mi_metaData mi))" "packed (mi_metaData mi)"
    using mi by (auto simp: ModuleInfo_packed_def ModuleInfo_ok_def intro!: list_all_entries)
  have "metadata_items plentiful J (j_elems J (Some x)) = Some (map Some (entries (mi_metaData mi)))"
    by (rule metadata_items_reads[OF ok array_of_elems[OF x] l(2)])
  with packed_entries[OF l(3,1)] array_of_size[OF ok x] entries_length[of "mi_metaData mi"] l(1) show ?thesis
    by (simp add: ConvertJsonToMetaData_def)
qed

lemma ConvertJsonToDeviceType_reads:
  assumes ok: "cjson_ok J" and x: "array_of J (is_str J) (entries (mi_deviceType mi)) x" and mi: "ModuleInfo_packed mi"
  shows "ConvertJsonToDeviceType plentiful J (Some x) = Some (mi_deviceType mi)"
proof -
  have l: "length (mi_deviceType mi) = DEVICE_TYPE_SIZE" "packed (mi_deviceType mi)" "list_all fits (mi_deviceType mi)"
    using mi by (auto simp: ModuleInfo_packed_def ModuleInfo_ok_def)
  have "list_all (\<lambda>d. fits (Some d)) (entries (mi_deviceType mi))"
    using l(3) by (intro list_all_entries) (auto simp: list_all_iff split: option.split)
  from device_type_items_reads[OF array_of_elems[OF x] this]
  have "device_type_items plentiful J (j_elems J (Some x)) = Some (map Some (entries (mi_deviceType mi)))" .
  with packed_entries[OF l(2,1)] array_of_size[OF ok x] entries_length[of "mi_deviceType mi"] l(1) show ?thesis
    by (simp add: ConvertJsonToDeviceType_def)
qed

lemma packed_first: "packed xs \<Longrightarrow> first xs = None \<Longrightarrow> xs = replicate (length xs) None"
  by (cases xs) (auto simp: packed_def first_def list_all_iff intro!: replicate_eqI)

lemma module_loop_reads:
  assumes ok: "cjson_ok J" and f: "is_module J mi x" and mi: "ModuleInfo_packed mi"
  shows "module_loop plentiful J [x] zero_ModuleInfo = Some mi"
proof -
  let ?g = "\<lambda>k. j_GetObjectItem J (Some x) k"
  from has_fieldsD[OF f] have h: "holds (array_of J (is_str J) (entries (mi_deviceType mi))) (?g ''deviceType'')"
    "if first (mi_metaData mi) = None then ?g ''metaData'' = None
     else holds (array_of J (is_md J) (entries (mi_metaData mi))) (?g ''metaData'')"
    "holds_opt J (mi_description mi) (?g ''description'')" "holds_opt J (mi_name mi) (?g ''name'')"
    "holds (is_flag J (mi_isDeliveryInstall mi)) (?g ''isDeliveryInstall'')"
    "holds_str J (mi_moduleType mi) (?g ''moduleType'')" "holds_str J (mi_moduleName mi) (?g ''moduleName'')"
    by (simp_all add: module_fields_def)
  from h(1) ok mi have d: "j_IsArray J (?g ''deviceType'')"
    "ConvertJsonToDeviceType plentiful J (?g ''deviceType'') = Some (mi_deviceType mi)"
    by (auto simp: holds_def dest: array_of_size ConvertJsonToDeviceType_reads)
  have md: "j_IsArray J (?g ''metaData'') \<Longrightarrow> ConvertJsonToMetaData plentiful J (?g ''metaData'') = Some (mi_metaData mi)"
    "\<not> j_IsArray J (?g ''metaData'') \<Longrightarrow> mi_metaData mi = replicate METADATA_SIZE None"
  proof -
    show "ConvertJsonToMetaData plentiful J (?g ''metaData'') = Some (mi_metaData mi)" if "j_IsArray J (?g ''metaData'')"
      using that h(2) cjson_okD(8)[OF ok] ConvertJsonToMetaData_reads[OF ok _ mi] by (auto simp: holds_def split: if_splits)
    show "mi_metaData mi = replicate METADATA_SIZE None" if "\<not> j_IsArray J (?g ''metaData'')"
    proof -
      have "first (mi_metaData mi) = None"
        using that h(2) by (auto simp: holds_def split: if_splits dest!: array_of_size[OF ok])
      with mi packed_first[of "mi_metaData mi"] show ?thesis by (simp add: ModuleInfo_packed_def ModuleInfo_ok_def)
    qed
  qed
  have s: "fits (mi_moduleName mi)" "fits (mi_name mi)" "fits (mi_description mi)" "fits (mi_moduleType mi)"
    using mi by (auto simp: ModuleInfo_packed_def ModuleInfo_ok_def)
  show ?thesis
    by (cases mi) (use s h(3-7) d md in \<open>simp add: Let_def setter_fields read_str_holds[OF h(6)] read_str_holds[OF h(7)]
      read_str_opt[OF h(3)] read_str_opt[OF h(4)] read_bool_holds[OF h(5)] zero_ModuleInfo_def\<close>)
qed

section \<open>A bundle\<close>

lemma GetJsonModuleInfos_array:
  assumes ok: "cjson_io_ok J K X" and "GetJsonModuleInfos K X (Some mis) (length mis) = Some (Some x)"
    and "list_all (\<lambda>mi. length (mi_deviceType mi) = DEVICE_TYPE_SIZE \<and> length (mi_metaData mi) = METADATA_SIZE) mis"
  shows "array_of J (is_module J) mis x"
proof -
  have "array_of J (is_module J) (mis0 @ mis) x'"
    if "add_modules K X y mis = Some x'" "array_of J (is_module J) mis0 y" for y mis0 x'
    using that assms(3)
  proof (induction mis arbitrary: y mis0)
    case Nil
    then show ?case by simp
  next
    case (Cons mi mis)
    from Cons.prems(1) obtain i y2 where y: "module_item K X mi = Some i" "k_AddItemToArray K y i = Some y2"
        "add_modules K X y2 mis = Some x'"
      by (auto simp: bind_eq_Some_conv)
    have "is_module J mi i" using module_item_fields[OF ok _ _ y(1)] Cons.prems(3) by simp
    from y(3) array_of_snoc[where P = "is_module J", OF ok y(2) Cons.prems(2) this]
    have "array_of J (is_module J) ((mis0 @ [mi]) @ mis) x'" by (rule Cons.IH) (use Cons.prems(3) in simp)
    then show ?case by simp
  qed
  then show ?thesis
    using assms(2) array_of_empty[OF ok] by (fastforce simp: GetJsonModuleInfos_def split: option.splits if_splits)
qed

definition bundle_fields :: "'j cjson \<Rightarrow> BundleInfo \<Rightarrow> 'j fields" where
  "bundle_fields J b =
     [(''vendor'', holds_opt J (bi_vendor b)), (''iconPath'', holds_opt J (bi_bigIconPath b)),
      (''label'', holds_opt J (bi_label b)), (''appId'', holds_str J (bi_appId b)),
      (''targetApi'', holds (is_int J (bi_targetApi b))), (''compatibleApi'', holds (is_int J (bi_compatibleApi b))),
      (''dataPath'', holds_str J (bi_dataPath b)), (''codePath'', holds_str J (bi_codePath b)),
      (''bundleName'', holds_str J (bi_bundleName b)), (''versionName'', holds_str J (bi_versionName b)),
      (''gid'', holds (is_int J (bi_gid b))), (''uid'', holds (is_int J (bi_uid b))),
      (''versionCode'', holds (is_int J (bi_versionCode b))),
      (''isKeepAlive'', holds (is_flag J (bi_isKeepAlive b))), (''isNativeApp'', holds (is_flag J (bi_isNativeApp b))),
      (''isSystemApp'', holds (is_flag J (bi_isSystemApp b)))]"

definition module_part :: "'j cjson \<Rightarrow> BundleInfo \<Rightarrow> 'j fields" where
  "module_part J b =
     [(''moduleInfos'', holds (array_of J (is_module J) (the (bi_moduleInfos b)))),
      (''numOfModule'', holds (is_int J (int (bi_numOfModule b))))]"

definition ability_part :: "'j cjson \<Rightarrow> BundleInfo \<Rightarrow> 'j fields" where
  "ability_part J b =
     [(''abilityInfos'', \<lambda>p. if bi_numOfAbility b = 0 then p = None
                          else holds (array_of J (is_ability J) (the (bi_abilityInfos b))) p),
      (''numOfAbility'', \<lambda>p. if bi_numOfAbility b = 0 then p = None else holds (is_int J (int (bi_numOfAbility b))) p)]"

lemma lower_bundle_keys:
  "map to_lower ''vendor'' = ''vendor''" "map to_lower ''appId'' = ''appid''" "map to_lower ''targetApi'' = ''targetapi''"
  "map to_lower ''compatibleApi'' = ''compatibleapi''" "map to_lower ''dataPath'' = ''datapath''"
  "map to_lower ''codePath'' = ''codepath''" "map to_lower ''versionName'' = ''versionname''"
  "map to_lower ''gid'' = ''gid''" "map to_lower ''uid'' = ''uid''" "map to_lower ''versionCode'' = ''versioncode''"
  "map to_lower ''isKeepAlive'' = ''iskeepalive''" "map to_lower ''isNativeApp'' = ''isnativeapp''"
  "map to_lower ''isSystemApp'' = ''issystemapp''" "map to_lower ''moduleInfos'' = ''moduleinfos''"
  "map to_lower ''numOfModule'' = ''numofmodule''" "map to_lower ''abilityInfos'' = ''abilityinfos''"
  "map to_lower ''numOfAbility'' = ''numofability''"
  by code_simp+

text \<open>The numbers fit the 32-bit fields they come from.\<close>

definition BundleInfo_ints :: "BundleInfo \<Rightarrow> bool" where
  "BundleInfo_ints b \<longleftrightarrow> list_all in_range32 [bi_versionCode b, bi_uid b, bi_gid b, bi_compatibleApi b, bi_targetApi b,
     int (bi_numOfModule b), int (bi_numOfAbility b)]"

lemma ConvertBundleInfoPartToJson_fields:
  assumes ok: "cjson_io_ok J K X" and "k_CreateObject K = Some r0" and "BundleInfo_ints b"
    and "ConvertBundleInfoPartToJson K X b r0 = Some root"
  shows "has_fields J root (bundle_fields J b)"
  using assms(4) unfolding ConvertBundleInfoPartToJson_def bind_eq_Some_conv
  apply (elim exE conjE)
  unfolding bundle_fields_def
  apply (rule fields_steps[OF ok], assumption)+
   apply (rule fields_empty[OF ok assms(2)])
  by (use assms(3) in \<open>simp_all add: BundleInfo_ints_def lower_keys_simps lower_bundle_keys del: list.map\<close>)

lemma ConvertModuleInfosToJson_fields:
  assumes ok: "cjson_io_ok J K X" and b: "BundleInfo_ok b" "BundleInfo_ints b"
    and F: "has_fields J r0 (bundle_fields J b)"
    and r: "ConvertModuleInfosToJson K X b r0 = Some (Some root)"
  shows "has_fields J root (module_part J b @ bundle_fields J b) \<and> bi_moduleInfos b \<noteq> None"
proof -
  from r obtain x r1 where x: "bi_numOfModule b \<noteq> 0" "GetJsonModuleInfos K X (bi_moduleInfos b) (bi_numOfModule b) = Some (Some x)"
      "k_AddNumberToObject K r0 ''numOfModule'' (int (bi_numOfModule b)) = Some r1"
      "k_AddItemToObject K r1 ''moduleInfos'' x = Some root"
    by (auto simp: ConvertModuleInfosToJson_def bind_ptr_def bind_eq_Some_conv split: if_splits option.splits)
  with b(1) obtain mis where mis: "bi_moduleInfos b = Some mis" "bi_numOfModule b = length mis" "list_all ModuleInfo_ok mis"
    by (auto simp: BundleInfo_ok_def array_ok_def split: option.splits)
  have "array_of J (is_module J) mis x"
    by (rule GetJsonModuleInfos_array[OF ok])
      (use x(2) mis in \<open>auto simp: ModuleInfo_ok_def elim!: list.pred_mono_strong\<close>)
  with mis have m: "array_of J (is_module J) (the (bi_moduleInfos b)) x" by simp
  have "has_fields J root (module_part J b @ bundle_fields J b)"
    unfolding module_part_def append_Cons append_Nil
    by (rule fields_item[where Q = "array_of J (is_module J) (the (bi_moduleInfos b))", OF ok x(4)
          fields_int[OF ok x(3) F] _ m])
      (use b(2) in \<open>simp_all add: BundleInfo_ints_def bundle_fields_def lower_keys_simps lower_bundle_keys del: list.map\<close>)
  with mis show ?thesis by simp
qed

lemma ConvertAbilityInfosToJson_fields:
  assumes ok: "cjson_io_ok J K X" and b: "BundleInfo_ok b" "BundleInfo_ints b"
    and F: "has_fields J r0 (module_part J b @ bundle_fields J b)"
    and r: "ConvertAbilityInfosToJson K X b r0 = Some (Some root)"
  shows "has_fields J root (ability_part J b @ module_part J b @ bundle_fields J b)"
proof (cases "bi_numOfAbility b = 0")
  case True
  with r have "root = r0" by (simp add: ConvertAbilityInfosToJson_def)
  then show ?thesis
    using F unfolding ability_part_def append_Cons append_Nil if_P[OF True]
    by (intro has_fields_absent)
      (simp_all add: module_part_def bundle_fields_def lower_keys_simps lower_bundle_keys del: list.map)
next
  case False
  with r obtain x r1 where x: "GetJsonAbilityInfos K X (bi_abilityInfos b) (bi_numOfAbility b) = Some (Some x)"
      "k_AddNumberToObject K r0 ''numOfAbility'' (int (bi_numOfAbility b)) = Some r1"
      "k_AddItemToObject K r1 ''abilityInfos'' x = Some root"
    by (auto simp: ConvertAbilityInfosToJson_def bind_ptr_def bind_eq_Some_conv split: if_splits option.splits)
  from False b(1) obtain as1 where as1: "bi_abilityInfos b = Some as1" "bi_numOfAbility b = length as1"
    by (auto simp: BundleInfo_ok_def array_ok_def split: option.splits)
  have m: "array_of J (is_ability J) (the (bi_abilityInfos b)) x"
    using GetJsonAbilityInfos_array[OF ok] x(1) as1 by simp
  show ?thesis
    unfolding ability_part_def append_Cons append_Nil if_not_P[OF False]
    by (rule fields_item[where Q = "array_of J (is_ability J) (the (bi_abilityInfos b))", OF ok x(3)
          fields_int[OF ok x(2) F] _ m])
      (use b(2) in \<open>simp_all add: BundleInfo_ints_def module_part_def bundle_fields_def lower_keys_simps lower_bundle_keys
         del: list.map\<close>)
qed

lemma GetJsonBundleInfo_fields:
  assumes ok: "cjson_io_ok J K X" and b: "BundleInfo_ok b" "BundleInfo_ints b"
    and r: "GetJsonBundleInfo K X b = Some (Some root)"
  shows "has_fields J root (ability_part J b @ module_part J b @ bundle_fields J b) \<and> bi_moduleInfos b \<noteq> None"
proof -
  from r obtain r0 r1 r2 where r: "k_CreateObject K = Some r0" "ConvertBundleInfoPartToJson K X b r0 = Some r1"
      "ConvertModuleInfosToJson K X b r1 = Some (Some r2)" "ConvertAbilityInfosToJson K X b r2 = Some (Some root)"
    by (auto simp: GetJsonBundleInfo_def bind_ptr_def split: option.splits)
  note F1 = ConvertBundleInfoPartToJson_fields[OF ok r(1) b(2) r(2)]
  note F2 = ConvertModuleInfosToJson_fields[OF ok b F1 r(3)]
  show ?thesis using F2 ConvertAbilityInfosToJson_fields[OF ok b conjunct1[OF F2] r(4)] by simp
qed

lemma counted_holds:
  "holds (is_int J v) (j_GetObjectItem J root k) \<Longrightarrow> counted J root k = (if v > 0 then Some (nat v) else None)"
  by (auto simp: counted_def holds_def is_int_def)

text \<open>What arrives of a bundle with one module.\<close>

definition as_read :: "BundleInfo \<Rightarrow> BundleInfo" where
  "as_read b = b\<lparr>bi_abilityInfos := map_option (map without_deviceCap) (bi_abilityInfos b)\<rparr>"

lemma ConvertJsonToBundleInfo_reads:
  assumes ok: "cjson_ok J" and F: "has_fields J root (ability_part J b @ module_part J b @ bundle_fields J b)"
    and b: "BundleInfo_ok b" and mi: "bi_moduleInfos b = Some [mi]" "ModuleInfo_packed mi"
  shows "ConvertJsonToBundleInfo plentiful J c (Some root) zero_BundleInfo = Some (as_read b)"
proof -
  let ?g = "\<lambda>k. j_GetObjectItem J (Some root) k"
  from has_fieldsD[OF F] have part: "list_all (\<lambda>(k, P). P (?g k)) (bundle_fields J b)"
    "list_all (\<lambda>(k, P). P (?g k)) (module_part J b)" "list_all (\<lambda>(k, P). P (?g k)) (ability_part J b)"
    by simp_all
  from part(1) have h: "holds_opt J (bi_vendor b) (?g ''vendor'')" "holds_opt J (bi_bigIconPath b) (?g ''iconPath'')"
    "holds_opt J (bi_label b) (?g ''label'')" "holds_str J (bi_appId b) (?g ''appId'')"
    "holds_str J (bi_dataPath b) (?g ''dataPath'')" "holds_str J (bi_codePath b) (?g ''codePath'')"
    "holds_str J (bi_bundleName b) (?g ''bundleName'')" "holds_str J (bi_versionName b) (?g ''versionName'')"
    and n: "holds (is_int J (bi_targetApi b)) (?g ''targetApi'')" "holds (is_int J (bi_compatibleApi b)) (?g ''compatibleApi'')"
    "holds (is_int J (bi_gid b)) (?g ''gid'')" "holds (is_int J (bi_uid b)) (?g ''uid'')"
    "holds (is_int J (bi_versionCode b)) (?g ''versionCode'')"
    and f: "holds (is_flag J (bi_isKeepAlive b)) (?g ''isKeepAlive'')" "holds (is_flag J (bi_isNativeApp b)) (?g ''isNativeApp'')"
    "holds (is_flag J (bi_isSystemApp b)) (?g ''isSystemApp'')"
    by (simp_all add: bundle_fields_def)
  have nm: "bi_numOfModule b = Suc 0" using b mi(1) by (simp add: BundleInfo_ok_def array_ok_def)
  from part(2) mi(1) nm obtain x where x: "?g ''moduleInfos'' = Some x" "array_of J (is_module J) [mi] x"
    and cm: "counted J (Some root) ''numOfModule'' = Some (Suc 0)"
    by (auto simp: module_part_def counted_holds holds_def)
  from array_of_elems[OF x(2)] obtain y where y: "j_elems J (Some x) = [y]" "is_module J mi y"
    by (auto simp: list_all2_Cons1)
  have mods: "ConvertJsonToModuleInfos plentiful J (?g ''moduleInfos'') (Suc 0) = Some [mi]"
    using array_of_size[OF ok x(2)] module_loop_reads[OF ok y(2) mi(2)] x(1) y(1)
    by (simp add: ConvertJsonToModuleInfos_def plentiful_grants[of "Objects ''ModuleInfo'' (Suc 0)"] del: module_loop.simps)
  have abs: "(case counted J (Some root) ''numOfAbility'' of None \<Rightarrow> Some r
      | Some n \<Rightarrow> do {
          as1 \<leftarrow> ConvertJsonToAbilityInfos plentiful J c (?g ''abilityInfos'') n;
          Some (r\<lparr>bi_numOfAbility := n, bi_abilityInfos := Some as1\<rparr>) })
    = Some (r\<lparr>bi_numOfAbility := bi_numOfAbility b, bi_abilityInfos := map_option (map without_deviceCap) (bi_abilityInfos b)\<rparr>)"
    if r: "bi_numOfAbility r = 0" "bi_abilityInfos r = None" for r
  proof (cases "bi_abilityInfos b")
    case None
    with b have "bi_numOfAbility b = 0" by (simp add: BundleInfo_ok_def array_ok_def)
    moreover from this part(3) have "counted J (Some root) ''numOfAbility'' = None" by (simp add: ability_part_def counted_def)
    ultimately show ?thesis using None r by simp
  next
    case (Some as1)
    with b have as1: "bi_numOfAbility b = length as1" "as1 \<noteq> []" "list_all AbilityInfo_ok as1"
      by (auto simp: BundleInfo_ok_def array_ok_def)
    with part(3) Some obtain z where z: "?g ''abilityInfos'' = Some z" "array_of J (is_ability J) as1 z"
      and "counted J (Some root) ''numOfAbility'' = Some (length as1)"
      by (auto simp: ability_part_def counted_holds holds_def)
    with Some as1 ConvertJsonToAbilityInfos_reads[OF ok z(2) as1(3,2)] show ?thesis by simp
  qed
  have s: "fits (bi_bundleName b)" "fits (bi_label b)" "fits (bi_versionName b)" "fits (bi_bigIconPath b)"
    "fits (bi_codePath b)" "fits (bi_dataPath b)" "fits (bi_vendor b)" "fits (bi_appId b)"
    using b by (auto simp: BundleInfo_ok_def)
  note reads = read_str_holds[OF h(4)] read_str_holds[OF h(5)] read_str_holds[OF h(6)] read_str_holds[OF h(7)]
    read_str_holds[OF h(8)] read_str_opt[OF h(1)] read_str_opt[OF h(2)] read_str_opt[OF h(3)] n[THEN read_int_holds]
    f[THEN read_bool_holds]
  show ?thesis
    by (cases b) (use s nm mi(1) in \<open>simp add: ConvertJsonToBundleInfo_def Let_def setter_fields reads cm mods abs
      zero_BundleInfo_def as_read_def\<close>)
qed

section \<open>Texts\<close>

lemma bundle_text_back:
  assumes "cjson_io_ok J K X" "BundleInfo_ok b" "BundleInfo_ints b"
    and "bi_moduleInfos b = Some [mi]" "ModuleInfo_packed mi"
    and "ConvertBundleInfoToString K X (Some b) = Some (Some s)"
    and "\<And>root t. io_PrintUnformatted X root = Some t \<Longrightarrow> io_ParseWithLength X t (length t) = Some root"
  shows "ConvertStringToBundleInfo plentiful J X c (Some s) (length s) = Some (as_read b)"
proof -
  from assms(6) obtain root where r: "GetJsonBundleInfo K X b = Some (Some root)" "io_PrintUnformatted X root = Some s"
    by (auto simp: ConvertBundleInfoToString_def bind_ptr_def split: option.splits)
  note F = conjunct1[OF GetJsonBundleInfo_fields[OF assms(1-3) r(1)]]
  show ?thesis
    using ConvertJsonToBundleInfo_reads[OF cjson_io_okD(1)[OF assms(1)] F assms(2,4,5)] assms(7)[OF r(2)]
    by (simp add: ConvertStringToBundleInfo_def plentiful_grants[of "Objects ''BundleInfo'' (Suc 0)"])
qed

text \<open>C34 A bundle with one module whose strings are no longer than the copies can be and whose numbers are 32-bit: if the
  printer made a text of it, and the parser reads the document back from that text, the bundle read is the one written
  but for the device capabilities.
\<close>

theorem ConvertBundleInfo_roundtrip:
  assumes "cjson_io_ok J K X" "BundleInfo_ok b" "BundleInfo_ints b"
    and "bi_moduleInfos b = Some [mi]" "ModuleInfo_packed mi"
    and "ConvertBundleInfoToString K X (Some b) = Some (Some s)"
    and "\<And>root t. io_PrintUnformatted X root = Some t \<Longrightarrow> io_ParseWithLength X t (length t) = Some root"
  shows "ConvertStringToBundleInfo plentiful J X c (Some s) (length s) = Some (as_read b)"
  using assms by (rule bundle_text_back)

text \<open>Of a document with several modules, every entry after the first of the array read is as the allocation has
  cleared it.
\<close>

theorem ConvertJsonToModuleInfos_loses:
  assumes "ConvertJsonToModuleInfos m J moduleArray n = Some mis" "0 < i" "i < n"
  shows "length mis = n \<and> mis ! i = zero_ModuleInfo"
proof -
  from assms(1) obtain mi where "mis = (replicate n zero_ModuleInfo)[0 := mi]"
    by (auto simp: ConvertJsonToModuleInfos_def bind_eq_Some_conv split: if_splits)
  with assms(2,3) show ?thesis by simp
qed

section \<open>On concrete bundles\<close>

definition module1 :: ModuleInfo where
  "module1 = zero_ModuleInfo\<lparr>mi_moduleName := Some ''m'', mi_moduleType := Some ''e'',
     mi_deviceType := Some ''tv'' # replicate 15 None,
     mi_metaData := Some \<lparr>md_name = Some ''k'', md_value = None, md_extra = None\<rparr> # replicate 15 None\<rparr>"

definition bundle1 :: BundleInfo where
  "bundle1 = zero_BundleInfo\<lparr>bi_versionName := Some ''1'', bi_bundleName := Some ''b'', bi_codePath := Some ''c'',
     bi_dataPath := Some ''d'', bi_appId := Some ''a'', bi_uid := 7, bi_isKeepAlive := True,
     bi_numOfModule := 1, bi_moduleInfos := Some [module1], bi_numOfAbility := 1,
     bi_abilityInfos := Some [zero_AbilityInfo\<lparr>ai_bundleName := Some ''b'', ai_moduleName := Some ''m'', ai_name := Some ''n''\<rparr>]\<rparr>"

definition doc1 :: js where
  "doc1 = the (the (GetJsonBundleInfo (js_mk (\<lambda>_. None) (\<lambda>_. None)) (js_io (\<lambda>_. None) (\<lambda>_ _. None)) bundle1))"

definition io1 :: "js cjson_io" where
  "io1 = js_io (\<lambda>j. if j = doc1 then Some ''t'' else None) (\<lambda>t n. if t = ''t'' \<and> n = 1 then Some doc1 else None)"

definition casts0 :: casts where
  "casts0 = \<lparr>junk_AbilityType = (\<lambda>_. UNKNOWN), junk_LaunchMode = (\<lambda>_. SINGLETON)\<rparr>"

theorem ConvertBundleInfo_roundtrip_witness:
  "ConvertBundleInfoToString (js_mk (\<lambda>_. None) (\<lambda>_. None)) io1 (Some bundle1) = Some (Some ''t'') \<and>
   ConvertStringToBundleInfo plentiful js_api io1 casts0 (Some ''t'') 1 = Some (as_read bundle1)"
proof -
  have d: "GetJsonBundleInfo (js_mk (\<lambda>_. None) (\<lambda>_. None)) io1 bundle1 = Some (Some doc1)"
    unfolding doc1_def io1_def by code_simp
  then have t: "ConvertBundleInfoToString (js_mk (\<lambda>_. None) (\<lambda>_. None)) io1 (Some bundle1) = Some (Some ''t'')"
    by (simp add: ConvertBundleInfoToString_def bind_ptr_def) (simp add: io1_def js_io_def)
  have b: "BundleInfo_ok bundle1" "BundleInfo_ints bundle1" "bi_moduleInfos bundle1 = Some [module1]" "ModuleInfo_packed module1"
    by code_simp+
  have io: "cjson_io_ok js_api (js_mk (\<lambda>_. None) (\<lambda>_. None)) io1"
    unfolding io1_def by (rule js_io_ok)
  have p: "io_ParseWithLength io1 t (length t) = Some root" if "io_PrintUnformatted io1 root = Some t" for root t
    using that by (simp add: io1_def js_io_def split: if_splits)
  from ConvertBundleInfo_roundtrip[OF io b t p, of casts0] t show ?thesis by simp
qed

theorem ConvertJsonToModuleInfos_loses_witness:
  "let module = (\<lambda>n. JObj [(''moduleName'', JStr n), (''moduleType'', JStr ''t''), (''deviceType'', JArr [JStr ''tv''])]);
       mis = ConvertJsonToModuleInfos plentiful js_api (Some (JArr [module ''a'', module ''b''])) 2
   in map_option (map mi_moduleName) mis = Some [Some ''b'', None] \<and> the mis ! 1 = zero_ModuleInfo"
proof -
  let ?module = "\<lambda>n. JObj [(''moduleName'', JStr n), (''moduleType'', JStr ''t''), (''deviceType'', JArr [JStr ''tv''])]"
  let ?mis = "ConvertJsonToModuleInfos plentiful js_api (Some (JArr [?module ''a'', ?module ''b''])) 2"
  have e: "map_option (map mi_moduleName) ?mis = Some [Some ''b'', None]" by code_simp
  then obtain mis where "?mis = Some mis" by auto
  with e ConvertJsonToModuleInfos_loses[of plentiful js_api "Some (JArr [?module ''a'', ?module ''b''])" 2 mis 1]
  show ?thesis by (simp add: Let_def)
qed

end
