(* ===== verification/Element_Name.thy ===== *)
theory Element_Name
  imports Info_Utils Ipc
begin

text \<open>
  \<^verbatim>\<open>frameworks/bundle_lite/src/element_name.cpp\<close>: the name of an ability (device, bundle, ability), its setters, and
  its form in a message, in the build with \<open>OHOS_APPEXECFWK_BMS_BUNDLEMANAGER\<close>. Null arguments are \<open>None\<close>.
\<close>

record ElementName =
  el_deviceId :: cstr
  el_bundleName :: cstr
  el_abilityName :: cstr

definition zero_ElementName :: ElementName where
  "zero_ElementName = \<lparr>el_deviceId = None, el_bundleName = None, el_abilityName = None\<rparr>"

definition ClearElement :: "ElementName option \<Rightarrow> ElementName option" where
  "ClearElement element = map_option (\<lambda>e. e\<lparr>el_deviceId := None, el_bundleName := None, el_abilityName := None\<rparr>) element"

text \<open>Unlike the setters of the other structures these free the field even when there is nothing to copy.\<close>

definition set_element ::
    "allocator \<Rightarrow> ((cstr \<Rightarrow> cstr) \<Rightarrow> ElementName \<Rightarrow> ElementName) \<Rightarrow> ElementName option \<Rightarrow> cstr \<Rightarrow> bool \<times> ElementName option" where
  "set_element m field element s =
     (case element of
        None \<Rightarrow> (False, None)
      | Some e \<Rightarrow> (let p = Strdup m s in (p \<noteq> None, Some (field (\<lambda>_. p) e))))"

definition SetElementDeviceID :: "allocator \<Rightarrow> ElementName option \<Rightarrow> cstr \<Rightarrow> bool \<times> ElementName option" where
  "SetElementDeviceID m element deviceId = set_element m el_deviceId_update element deviceId"

definition SetElementBundleName :: "allocator \<Rightarrow> ElementName option \<Rightarrow> cstr \<Rightarrow> bool \<times> ElementName option" where
  "SetElementBundleName m element bundleName = set_element m el_bundleName_update element bundleName"

definition SetElementAbilityName :: "allocator \<Rightarrow> ElementName option \<Rightarrow> cstr \<Rightarrow> bool \<times> ElementName option" where
  "SetElementAbilityName m element abilityName = set_element m el_abilityName_update element abilityName"

abbreviation (input) "VALUE_NULL \<equiv> 0 :: int"
abbreviation (input) "VALUE_OBJECT \<equiv> 1 :: int"
abbreviation (input) "MAX_BUNDLE_NAME \<equiv> 127 :: nat"
abbreviation (input) "MAX_ABILITY_NAME \<equiv> 127 :: nat"
abbreviation (input) "MAX_DEVICE_ID \<equiv> 1024 :: nat"

text \<open>One of the three strings: written with a tag, or refused.\<close>

definition write_part :: "room_left \<Rightarrow> nat \<Rightarrow> cstr \<Rightarrow> ipc \<Rightarrow> bool \<times> ipc" where
  "write_part space limit s io =
     (case s of
        None \<Rightarrow> (True, io_write space (II32 VALUE_NULL) io)
      | Some t \<Rightarrow>
          if length t = 0 then (True, io_write space (II32 VALUE_NULL) io)
          else if length t > limit then (False, io)
          else (True, io_write space (IStr t) (io_write space (II32 VALUE_OBJECT) io)))"

definition SerializeElement :: "room_left \<Rightarrow> ipc option \<Rightarrow> ElementName option \<Rightarrow> bool \<times> ipc option" where
  "SerializeElement space io element =
     (case (io, element) of
        (Some m, Some e) \<Rightarrow>
          (let (ok, m) = write_part space MAX_DEVICE_ID (el_deviceId e) m in
           if \<not> ok then (False, Some m)
           else let (ok, m) = write_part space MAX_BUNDLE_NAME (el_bundleName e) m in
           if \<not> ok then (False, Some m)
           else let (ok, m) = write_part space MAX_ABILITY_NAME (el_abilityName e) m in (ok, Some m))
      | _ \<Rightarrow> (False, io))"

text \<open>
  One of the three strings read: a tag, which keeps the value of the tag before when it cannot be read, and a
  string, which is null when it cannot be.
\<close>

definition read_part ::
    "allocator \<Rightarrow> (allocator \<Rightarrow> ElementName option \<Rightarrow> cstr \<Rightarrow> bool \<times> ElementName option) \<Rightarrow> stack \<Rightarrow> ElementName \<Rightarrow> ipc
     \<Rightarrow> bool \<times> int \<times> ElementName \<times> ipc" where
  "read_part m setter k e io =
     (let (naspac, io) = ReadInt32 k io in
      if naspac = VALUE_OBJECT
      then (let (s, io) = ReadString io; (ok, e') = setter m (Some e) s in (ok, naspac, the e', io))
      else (True, naspac, e, io))"

definition DeserializeElement :: "allocator \<Rightarrow> stack \<Rightarrow> ElementName option \<Rightarrow> ipc option \<Rightarrow> bool \<times> ElementName option \<times> ipc option" where
  "DeserializeElement m k element io =
     (case (io, element) of
        (Some r, Some e) \<Rightarrow>
          (let (ok, n, e, r) = read_part m SetElementDeviceID k e r in
           if \<not> ok then (False, Some e, Some r)
           else let (ok, n, e, r) = read_part m SetElementBundleName (k\<lparr>st_int := n\<rparr>) e r in
           if \<not> ok then (False, ClearElement (Some e), Some r)
           else let (ok, n, e, r) = read_part m SetElementAbilityName (k\<lparr>st_int := n\<rparr>) e r in
           if \<not> ok then (False, ClearElement (Some e), Some r) else (True, Some e, Some r))
      | _ \<Rightarrow> (False, element, io))"

section \<open>Reading back what was written\<close>

text \<open>An empty string travels as the null pointer.\<close>

definition as_sent :: "cstr \<Rightarrow> cstr" where
  "as_sent s = (if s = Some [] then None else s)"

definition element_as_sent :: "ElementName \<Rightarrow> ElementName" where
  "element_as_sent e = \<lparr>el_deviceId = as_sent (el_deviceId e), el_bundleName = as_sent (el_bundleName e),
     el_abilityName = as_sent (el_abilityName e)\<rparr>"

definition Element_fits :: "ElementName \<Rightarrow> bool" where
  "Element_fits e \<longleftrightarrow> (case el_deviceId e of None \<Rightarrow> True | Some s \<Rightarrow> length s \<le> MAX_DEVICE_ID) \<and>
     (case el_bundleName e of None \<Rightarrow> True | Some s \<Rightarrow> length s \<le> MAX_BUNDLE_NAME) \<and>
     (case el_abilityName e of None \<Rightarrow> True | Some s \<Rightarrow> length s \<le> MAX_ABILITY_NAME)"

definition plenty :: room_left where
  "plenty = (\<lambda>_ _. True)"

text \<open>The values one string becomes.\<close>

definition part_of :: "cstr \<Rightarrow> ipc" where
  "part_of s = (case s of None \<Rightarrow> [II32 VALUE_NULL] | Some t \<Rightarrow> if t = [] then [II32 VALUE_NULL] else [II32 VALUE_OBJECT, IStr t])"

lemma write_part_plenty:
  "(case s of None \<Rightarrow> True | Some t \<Rightarrow> length t \<le> limit) \<Longrightarrow> write_part plenty limit s io = (True, io @ part_of s)"
  by (auto simp: write_part_def part_of_def io_write_def plenty_def split: option.splits)

lemma write_part_refused: "s = Some t \<Longrightarrow> limit < length t \<Longrightarrow> \<not> fst (write_part space limit s io)"
  by (auto simp: write_part_def)

lemma read_part_of:
  assumes "fits s" "\<And>e s. setter plentiful (Some e) s = set_element plentiful field (Some e) s" "field (\<lambda>_. None) e = e"
  shows "\<exists>n. read_part plentiful setter k e (part_of s @ r) = (True, n, field (\<lambda>_. as_sent s) e, r)"
  using assms
  by (auto simp: part_of_def read_part_def set_element_def Strdup_plentiful as_sent_def split: option.splits)

lemma SerializeElement_exact:
  "SerializeElement space (Some io) (Some e) = (True, m) \<Longrightarrow> Element_fits e"
  by (auto simp: SerializeElement_def Element_fits_def write_part_def split: option.splits if_splits)

theorem Element_roundtrip:
  "Element_fits e \<Longrightarrow>
   \<exists>m. SerializeElement plenty (Some io) (Some e) = (True, Some (io @ m)) \<and>
       DeserializeElement plentiful k (Some zero_ElementName) (Some (m @ rest)) = (True, Some (element_as_sent e), Some rest)"
proof -
  assume e: "Element_fits e"
  define a b c where "a = el_deviceId e" and "b = el_bundleName e" and "c = el_abilityName e"
  have f: "fits a" "fits b" "fits c"
    using e by (auto simp: a_def b_def c_def Element_fits_def fits_def split: option.splits)
  have s: "SerializeElement plenty (Some io) (Some e) = (True, Some (io @ part_of a @ part_of b @ part_of c))"
    using e by (simp add: SerializeElement_def Element_fits_def write_part_plenty a_def b_def c_def)
  obtain n1 where 1: "read_part plentiful SetElementDeviceID k zero_ElementName (part_of a @ part_of b @ part_of c @ rest) =
      (True, n1, zero_ElementName\<lparr>el_deviceId := as_sent a\<rparr>, part_of b @ part_of c @ rest)"
    using read_part_of[OF f(1), of SetElementDeviceID el_deviceId_update zero_ElementName k "part_of b @ part_of c @ rest"]
    by (auto simp: SetElementDeviceID_def zero_ElementName_def)
  obtain n2 where 2: "read_part plentiful SetElementBundleName (k\<lparr>st_int := n1\<rparr>) (zero_ElementName\<lparr>el_deviceId := as_sent a\<rparr>)
      (part_of b @ part_of c @ rest) =
      (True, n2, zero_ElementName\<lparr>el_deviceId := as_sent a, el_bundleName := as_sent b\<rparr>, part_of c @ rest)"
    using read_part_of[OF f(2), of SetElementBundleName el_bundleName_update "zero_ElementName\<lparr>el_deviceId := as_sent a\<rparr>"
      "k\<lparr>st_int := n1\<rparr>" "part_of c @ rest"]
    by (auto simp: SetElementBundleName_def zero_ElementName_def)
  obtain n3 where 3: "read_part plentiful SetElementAbilityName (k\<lparr>st_int := n2\<rparr>)
      (zero_ElementName\<lparr>el_deviceId := as_sent a, el_bundleName := as_sent b\<rparr>) (part_of c @ rest) =
      (True, n3, zero_ElementName\<lparr>el_deviceId := as_sent a, el_bundleName := as_sent b, el_abilityName := as_sent c\<rparr>, rest)"
    using read_part_of[OF f(3), of SetElementAbilityName el_abilityName_update
      "zero_ElementName\<lparr>el_deviceId := as_sent a, el_bundleName := as_sent b\<rparr>" "k\<lparr>st_int := n2\<rparr>" rest]
    by (auto simp: SetElementAbilityName_def zero_ElementName_def)
  have "DeserializeElement plentiful k (Some zero_ElementName) (Some ((part_of a @ part_of b @ part_of c) @ rest)) =
      (True, Some (element_as_sent e), Some rest)"
    using 1 2 3 by (simp add: DeserializeElement_def element_as_sent_def a_def b_def c_def zero_ElementName_def)
  with s show ?thesis by blast
qed

end
