(* ===== verification/Ms_Feature.thy ===== *)
theory Ms_Feature
  imports Manager_Service Element_Name Convert_Utils
begin

text \<open>
  The service as its clients reach it: \<^verbatim>\<open>services/bundlemgr_lite/src/bundle_ms_feature.cpp\<close> answers queries from the
  state of the service, \<^verbatim>\<open>bundle_inner_feature.cpp\<close> turns requests to install and to remove into messages for the
  task of the service. A handler returns its code, the reply and the messages sent so far, or \<open>None\<close> for an
  undefined access. The build is the release build without \<open>__LINUX__\<close>.

  \<open>ft_want\<close> is \<open>DeserializeWant\<close> of the ability kit, of which only the element is used; \<open>ft_hasCap\<close> and \<open>ft_caps\<close>
  are the service manager's answers about capabilities, and \<open>ft_send\<close> tells whether it takes a message.
\<close>

record 'j feature =
  ft_sys :: "'j system"
  ft_io :: "'j cjson_io"
  ft_space :: room_left
  ft_want :: "ipc \<Rightarrow> ElementName option option"
  ft_hasCap :: "string \<Rightarrow> bool"
  ft_caps :: "int \<times> string list"
  ft_send :: "request \<Rightarrow> bool"

type_synonym handled = "(errcode \<times> ipc option \<times> request list) option"

abbreviation (input) "OHOS_SUCCESS \<equiv> 0 :: errcode"

abbreviation (input) "QUERY_ABILITY_INFO \<equiv> 0 :: nat"
abbreviation (input) "GET_BUNDLE_INFO \<equiv> 1 :: nat"
abbreviation (input) "CHANGE_CALLBACK_SERVICE_IDENTITY \<equiv> 2 :: nat"
abbreviation (input) "GET_BUNDLENAME_FOR_UID \<equiv> 3 :: nat"
abbreviation (input) "GET_BUNDLE_INFOS \<equiv> 4 :: nat"
abbreviation (input) "QUERY_KEEPALIVE_BUNDLE_INFOS \<equiv> 5 :: nat"
abbreviation (input) "GET_BUNDLE_INFOS_BY_METADATA \<equiv> 6 :: nat"
abbreviation (input) "CHECK_SYS_CAP \<equiv> 7 :: nat"
abbreviation (input) "GET_BUNDLE_SIZE \<equiv> 8 :: nat"
abbreviation (input) "GET_SYS_CAP \<equiv> 9 :: nat"
abbreviation (input) "BMS_INNER_BEGIN \<equiv> 10 :: nat"
abbreviation (input) "INSTALL \<equiv> 10 :: nat"
abbreviation (input) "UNINSTALL \<equiv> 11 :: nat"

text \<open>Writing to the reply, and sending a message.\<close>

definition put_u8 :: "'j feature \<Rightarrow> nat \<Rightarrow> ipc option \<Rightarrow> ipc option" where
  "put_u8 F n reply = map_option (write_u8 (ft_space F) n) reply"

definition put :: "'j feature \<Rightarrow> ipc_val \<Rightarrow> ipc option \<Rightarrow> ipc option" where
  "put F v reply = map_option (io_write (ft_space F) v) reply"

definition SAMGR_SendRequest :: "'j feature \<Rightarrow> request \<Rightarrow> request list \<Rightarrow> bool \<times> request list" where
  "SAMGR_SendRequest F r q = (if ft_send F r then (True, q @ [r]) else (False, q))"

section \<open>Queries of the service\<close>

text \<open>The loop over the abilities reads past the array when it is shorter than the count says.\<close>

definition F_QueryAbilityInfo :: "'j feature \<Rightarrow> ElementName option \<Rightarrow> service \<Rightarrow> (errcode \<times> AbilityInfo) option" where
  "F_QueryAbilityInfo F element s =
     (case element of
        None \<Rightarrow> Some (ERR_OBJECT_NULL, zero_AbilityInfo)
      | Some e \<Rightarrow> do {
          bundleInfo \<leftarrow> query_info (el_bundleName e) s;
          case bundleInfo of
            None \<Rightarrow> Some (ERR_QUERY_NO_INFOS, zero_AbilityInfo)
          | Some b \<Rightarrow> (case bi_abilityInfos b of
                None \<Rightarrow> Some (ERR_QUERY_NO_INFOS, zero_AbilityInfo)
              | Some as1 \<Rightarrow>
                  if bi_numOfAbility b = 0 then Some (ERR_QUERY_NO_INFOS, zero_AbilityInfo)
                  else (case List.find (\<lambda>a. el_abilityName e \<noteq> None \<and> ai_name a \<noteq> None \<and> el_abilityName e = ai_name a)
                            (take (bi_numOfAbility b) as1) of
                      Some a \<Rightarrow> Some (OHOS_SUCCESS, the (CopyAbilityInfo (y_alloc (ft_sys F)) (Some zero_AbilityInfo) a))
                    | None \<Rightarrow> if length as1 < bi_numOfAbility b then None else Some (ERR_QUERY_NO_INFOS, zero_AbilityInfo))) })"

text \<open>The bundles a test selects, copied with their abilities.\<close>

fun filter_opt :: "('a \<Rightarrow> bool option) \<Rightarrow> 'a list \<Rightarrow> 'a list option" where
  "filter_opt P [] = Some []"
| "filter_opt P (x # xs) = do { b \<leftarrow> P x; ys \<leftarrow> filter_opt P xs; Some (if b then x # ys else ys) }"

definition select_infos ::
    "'j feature \<Rightarrow> (BundleInfo \<Rightarrow> bool option) \<Rightarrow> service \<Rightarrow> (errcode \<times> BundleInfo list option) option" where
  "select_infos F P s = do {
     (errorCode, all) \<leftarrow> MS_GetBundleInfos (ft_sys F) 1 False s;
     if errorCode \<noteq> OHOS_SUCCESS then Some (errorCode, None)
     else do {
       chosen \<leftarrow> filter_opt P (case all of None \<Rightarrow> [] | Some bs \<Rightarrow> bs);
       if chosen = [] then Some (ERR_QUERY_NO_INFOS, None)
       else if \<not> y_alloc (ft_sys F) (Objects ''BundleInfo'' (length chosen)) then Some (ERR_QUERY_INFOS_INIT_ERROR, None)
       else Some (OHOS_SUCCESS, Some (map (\<lambda>b. the (CopyBundleInfo (y_alloc (ft_sys F)) 1 (Some zero_BundleInfo) b)) chosen)) } }"

definition F_QueryKeepAliveBundleInfos :: "'j feature \<Rightarrow> service \<Rightarrow> (errcode \<times> BundleInfo list option) option" where
  "F_QueryKeepAliveBundleInfos F s = select_infos F (\<lambda>b. Some (bi_isKeepAlive b \<and> bi_isSystemApp b)) s"

definition module_has :: "string \<Rightarrow> ModuleInfo \<Rightarrow> bool" where
  "module_has metaDataKey mi =
     list_ex (\<lambda>d. case d of None \<Rightarrow> False | Some md \<Rightarrow> md_name md = Some metaDataKey) (take METADATA_SIZE (mi_metaData mi))"

definition CheckBundleInfoWithSpecialMetaData :: "BundleInfo \<Rightarrow> cstr \<Rightarrow> bool option" where
  "CheckBundleInfoWithSpecialMetaData b metaDataKey =
     (case metaDataKey of
        None \<Rightarrow> Some False
      | Some k \<Rightarrow>
          if bi_numOfModule b = 0 then Some False
          else do {
            mis \<leftarrow> bi_moduleInfos b;
            if list_ex (module_has k) (take (bi_numOfModule b) mis) then Some True
            else if length mis < bi_numOfModule b then None else Some False })"

definition F_GetBundleInfosByMetaData :: "'j feature \<Rightarrow> cstr \<Rightarrow> service \<Rightarrow> (errcode \<times> BundleInfo list option) option" where
  "F_GetBundleInfosByMetaData F metaDataKey s =
     (if metaDataKey = None then Some (ERR_OBJECT_NULL, None)
      else select_infos F (\<lambda>b. CheckBundleInfoWithSpecialMetaData b metaDataKey) s)"

definition F_GetBundleNameForUid :: "'j feature \<Rightarrow> int \<Rightarrow> service \<Rightarrow> (errcode \<times> cstr) option" where
  "F_GetBundleNameForUid F uid s = do {
     (errorCode, infos) \<leftarrow> MS_GetBundleInfos (ft_sys F) 0 False s;
     if errorCode \<noteq> OHOS_SUCCESS then Some (errorCode, None)
     else let bundleName = (case List.find (\<lambda>b. bi_uid b = uid) (case infos of None \<Rightarrow> [] | Some bs \<Rightarrow> bs) of
                  None \<Rightarrow> None
                | Some b \<Rightarrow> Strdup (y_alloc (ft_sys F)) (bi_bundleName b)) in
       Some (if bundleName = None then (ERR_NO_BUNDLENAME_FOR_UID, None) else (OHOS_SUCCESS, bundleName)) }"

section \<open>Handlers of queries\<close>

type_synonym 'j handler = "'j feature \<Rightarrow> stack \<Rightarrow> nat \<Rightarrow> ipc option \<Rightarrow> ipc option \<Rightarrow> service \<Rightarrow> request list \<Rightarrow> handled"

definition F_HasSystemCapability :: "'j handler" where
  "F_HasSystemCapability F k funcId req reply s q =
     (case (req, reply) of
        (Some r, Some _) \<Rightarrow> (case fst (ReadString r) of
            None \<Rightarrow> Some (ERR_DESERIALIZATION_FAILED, reply, q)
          | sysCapName \<Rightarrow>
              if HasSystemCapability (ft_hasCap F) sysCapName then Some (OHOS_SUCCESS, put_u8 F OHOS_SUCCESS reply, q)
              else Some (ERR_OBJECT_NULL, reply, q))
      | _ \<Rightarrow> Some (ERR_OBJECT_NULL, reply, q))"

definition F_GetSystemAvailableCapabilities :: "'j handler" where
  "F_GetSystemAvailableCapabilities F k funcId req reply s q =
     (case (req, reply) of
        (Some r, Some _) \<Rightarrow>
          (let (errorCode, sysCaps) = GetSystemAvailableCapabilities (ft_caps F) False in
           if errorCode \<noteq> OHOS_SUCCESS then Some (errorCode, reply, q)
           else let reply = put F (II32 (int (length sysCaps))) (put_u8 F OHOS_SUCCESS reply) in
             Some (errorCode, fold (\<lambda>c. put F (IStr c)) sysCaps reply, q))
      | _ \<Rightarrow> Some (ERR_OBJECT_NULL, reply, q))"

definition QueryInnerAbilityInfo :: "'j handler" where
  "QueryInnerAbilityInfo F k funcId req reply s q =
     (case (req, reply) of
        (Some r, Some _) \<Rightarrow> (case ft_want F r of
            None \<Rightarrow> Some (ERR_SYSTEM_INTERNAL_ERROR, reply, q)
          | Some want \<Rightarrow> do {
              (errorCode, abilityInfo) \<leftarrow> F_QueryAbilityInfo F want s;
              if errorCode \<noteq> OHOS_SUCCESS then Some (errorCode, reply, q)
              else case ConvertAbilityInfoToString (y_mk (ft_sys F)) (ft_io F) (Some abilityInfo) of
                  None \<Rightarrow> Some (ERR_SERIALIZATION_FAILED, reply, q)
                | Some str \<Rightarrow> Some (OHOS_SUCCESS, put F (IStr str) (put_u8 F OHOS_SUCCESS reply), q) })
      | _ \<Rightarrow> Some (ERR_OBJECT_NULL, reply, q))"

definition GetInnerBundleInfo :: "'j handler" where
  "GetInnerBundleInfo F k funcId req reply s q =
     (case (req, reply) of
        (Some r, Some _) \<Rightarrow>
          (let (bundleName, r) = ReadString r in
           if bundleName = None then Some (ERR_DESERIALIZATION_FAILED, reply, q)
           else let (flag, r) = ReadInt32 k r in do {
             (errorCode, bundleInfo) \<leftarrow> MS_GetBundleInfo bundleName flag zero_BundleInfo s;
             if errorCode \<noteq> OHOS_SUCCESS then Some (errorCode, reply, q)
             else do {
               str \<leftarrow> ConvertBundleInfoToString (y_mk (ft_sys F)) (ft_io F) (Some bundleInfo);
               case str of
                 None \<Rightarrow> Some (ERR_SERIALIZATION_FAILED, reply, q)
               | Some t \<Rightarrow> Some (OHOS_SUCCESS, put F (IStr t) (put_u8 F OHOS_SUCCESS reply), q) } })
      | _ \<Rightarrow> Some (ERR_OBJECT_NULL, reply, q))"

definition GetInnerBundleSize :: "'j handler" where
  "GetInnerBundleSize F k funcId req reply s q =
     (case (req, reply) of
        (Some r, Some _) \<Rightarrow> (case fst (ReadString r) of
            None \<Rightarrow> Some (OHOS_SUCCESS, put F (IU32 0) (put_u8 F OHOS_SUCCESS reply), q)
          | bundleName \<Rightarrow> do {
              bundleSize \<leftarrow> GetBundleSize (ft_sys F) bundleName s;
              Some (OHOS_SUCCESS, put F (IU32 bundleSize) (put_u8 F OHOS_SUCCESS reply), q) })
      | _ \<Rightarrow> Some (ERR_OBJECT_NULL, reply, q))"

definition HandleGetBundleInfos :: "'j handler" where
  "HandleGetBundleInfos F k funcId req reply s q =
     (case (req, reply) of
        (Some r, Some _) \<Rightarrow>
          (let answer = (\<lambda>(errorCode, infos).
                 if errorCode \<noteq> OHOS_SUCCESS then Some (errorCode, reply, q)
                 else do {
                   strs \<leftarrow> ConvertBundleInfosToString (y_mk (ft_sys F)) (ft_io F) infos;
                   case strs of
                     None \<Rightarrow> Some (ERR_SERIALIZATION_FAILED, reply, q)
                   | Some t \<Rightarrow> Some (OHOS_SUCCESS,
                       put F (IStr t) (put F (II32 (int (length (the infos)))) (put_u8 F OHOS_SUCCESS reply)), q) })
           in if funcId = GET_BUNDLE_INFOS
              then do { e \<leftarrow> MS_GetBundleInfos (ft_sys F) (fst (ReadInt32 k r)) False s; answer e }
              else if funcId = QUERY_KEEPALIVE_BUNDLE_INFOS
              then do { e \<leftarrow> F_QueryKeepAliveBundleInfos F s; answer e }
              else if funcId = GET_BUNDLE_INFOS_BY_METADATA
              then (case fst (ReadString r) of
                  None \<Rightarrow> Some (ERR_DESERIALIZATION_FAILED, reply, q)
                | metaDataKey \<Rightarrow> do { e \<leftarrow> F_GetBundleInfosByMetaData F metaDataKey s; answer e })
              else Some (ERR_COMMAND_ERROR, reply, q))
      | _ \<Rightarrow> Some (ERR_OBJECT_NULL, reply, q))"

definition GetInnerBundleNameForUid :: "'j handler" where
  "GetInnerBundleNameForUid F k funcId req reply s q =
     (case (req, reply) of
        (Some r, Some _) \<Rightarrow> do {
          (errorCode, bundleName) \<leftarrow> F_GetBundleNameForUid F (fst (ReadInt32 k r)) s;
          if errorCode \<noteq> OHOS_SUCCESS then Some (errorCode, reply, q)
          else Some (errorCode, put F (IStr (the bundleName)) (put_u8 F OHOS_SUCCESS reply), q) }
      | _ \<Rightarrow> Some (ERR_OBJECT_NULL, reply, q))"

definition ChangeInnerCallbackServiceId :: "'j handler" where
  "ChangeInnerCallbackServiceId F k funcId req reply s q =
     (case (req, reply) of
        (Some r, Some _) \<Rightarrow>
          (let (flag, r) = ReadBool k r in
           case fst (ReadRemoteObject r) of
             None \<Rightarrow> Some (ERR_DESERIALIZATION_FAILED, reply, q)
           | Some svc \<Rightarrow>
               if \<not> y_alloc (ft_sys F) (Objects ''SvcIdentity'' 1) then Some (ERR_SYSTEM_INTERNAL_ERROR, reply, q)
               else let (ok, q) = SAMGR_SendRequest F (BUNDLE_CHANGE_CALLBACK (Some svc) flag) q in
                 Some (if \<not> ok then ERR_UNINSTALL_FAILED_SEND_REQUEST_ERROR else ERR_OK, reply, q))
      | _ \<Rightarrow> Some (ERR_OBJECT_NULL, reply, q))"

text \<open>The table of the handlers and the dispatch.\<close>

definition BundleMsInvokeFuc :: "nat \<Rightarrow> 'j handler" where
  "BundleMsInvokeFuc i =
     [QueryInnerAbilityInfo, GetInnerBundleInfo, ChangeInnerCallbackServiceId, GetInnerBundleNameForUid,
      HandleGetBundleInfos, HandleGetBundleInfos, HandleGetBundleInfos, F_HasSystemCapability, GetInnerBundleSize,
      F_GetSystemAvailableCapabilities] ! i"

definition dispatch_end :: "'j feature \<Rightarrow> handled \<Rightarrow> handled" where
  "dispatch_end F h = do {
     (ret, reply, q) \<leftarrow> h;
     Some (ret, if ret \<noteq> OHOS_SUCCESS then put_u8 F ret reply else reply, q) }"

definition F_Invoke :: "'j feature \<Rightarrow> stack \<Rightarrow> nat \<Rightarrow> ipc option \<Rightarrow> ipc option \<Rightarrow> service \<Rightarrow> request list \<Rightarrow> handled" where
  "F_Invoke F k funcId req reply s q =
     (if req = None then Some (ERR_OBJECT_NULL, reply, q)
      else let reply = put_u8 F funcId reply in
        dispatch_end F
          (if funcId \<ge> GET_BUNDLE_INFOS \<and> funcId \<le> GET_BUNDLE_INFOS_BY_METADATA
           then BundleMsInvokeFuc GET_BUNDLE_INFOS F k funcId req reply s q
           else if funcId \<ge> QUERY_ABILITY_INFO \<and> funcId \<le> GET_BUNDLENAME_FOR_UID
           then BundleMsInvokeFuc funcId F k funcId req reply s q
           else if funcId \<ge> CHECK_SYS_CAP \<and> funcId \<le> GET_SYS_CAP
           then BundleMsInvokeFuc funcId F k funcId req reply s q
           else Some (ERR_COMMAND_ERROR, reply, q)))"

section \<open>Requests to install and to remove\<close>

definition GetSvcIdentityInfo ::
    "'j feature \<Rightarrow> stack \<Rightarrow> SvcIdentity \<Rightarrow> cstr \<Rightarrow> ipc \<Rightarrow> errcode \<times> SvcIdentityInfo option" where
  "GetSvcIdentityInfo F k svc reqPath req =
     (let m = y_alloc (ft_sys F); path = Strdup m reqPath in
      if path = None then (ERR_SYSTEM_INTERNAL_ERROR, None)
      else if \<not> m (Objects ''SvcIdentity'' 1) then (ERR_SYSTEM_INTERNAL_ERROR, None)
      else (ERR_OK, Some \<lparr>ri_path = path, ri_bundleName = None, ri_svc = Some svc,
              ri_installLocation = fst (ReadInt32 k req), ri_keepData = False\<rparr>))"

definition InstallInnerBundle :: "'j handler" where
  "InstallInnerBundle F k funcId req reply s q =
     (case (req, reply) of
        (Some r, Some _) \<Rightarrow>
          (let (reqPath, r) = ReadString r; (svc, r) = ReadRemoteObject r in
           case svc of
             None \<Rightarrow> Some (ERR_DESERIALIZATION_FAILED, reply, q)
           | Some svc \<Rightarrow>
               if \<not> y_alloc (ft_sys F) (Objects ''SvcIdentityInfo'' 1) then Some (ERR_SYSTEM_INTERNAL_ERROR, reply, q)
               else let (svcIdentityInfoRsp, info) = GetSvcIdentityInfo F k svc reqPath r in
                 if svcIdentityInfoRsp \<noteq> ERR_OK then Some (svcIdentityInfoRsp, reply, q)
                 else let (ok, q) = SAMGR_SendRequest F (BUNDLE_INSTALLED info) q in
                   Some (if \<not> ok then ERR_INSTALL_FAILED_SEND_REQUEST_ERROR else ERR_OK, reply, q))
      | _ \<Rightarrow> Some (ERR_OBJECT_NULL, reply, q))"

text \<open>The copy of the bundle name is not tested.\<close>

definition UninstallInnerBundle :: "'j handler" where
  "UninstallInnerBundle F k funcId req reply s q =
     (case (req, reply) of
        (Some r, Some _) \<Rightarrow>
          (let (bundleName, r) = ReadString r in
           if bundleName = None then Some (ERR_DESERIALIZATION_FAILED, reply, q)
           else let (svc, r) = ReadRemoteObject r; m = y_alloc (ft_sys F) in
           case svc of
             None \<Rightarrow> Some (ERR_DESERIALIZATION_FAILED, reply, q)
           | Some svc \<Rightarrow>
               if \<not> m (Objects ''SvcIdentityInfo'' 1) then Some (ERR_SYSTEM_INTERNAL_ERROR, reply, q)
               else if \<not> m (Objects ''SvcIdentity'' 1) then Some (ERR_SYSTEM_INTERNAL_ERROR, reply, q)
               else let (ok, q) = SAMGR_SendRequest F (BUNDLE_UNINSTALLED (Some \<lparr>ri_path = None, ri_bundleName = Strdup m bundleName,
                          ri_svc = Some svc, ri_installLocation = 0, ri_keepData = fst (ReadBool k r)\<rparr>)) q in
                 Some (if \<not> ok then ERR_UNINSTALL_FAILED_SEND_REQUEST_ERROR else ERR_OK, reply, q))
      | _ \<Rightarrow> Some (ERR_OBJECT_NULL, reply, q))"

definition InnerInvokeFuc :: "nat \<Rightarrow> 'j handler" where
  "InnerInvokeFuc i = [InstallInnerBundle, UninstallInnerBundle] ! i"

definition Inner_Invoke :: "'j feature \<Rightarrow> stack \<Rightarrow> nat \<Rightarrow> ipc option \<Rightarrow> ipc option \<Rightarrow> service \<Rightarrow> request list \<Rightarrow> handled" where
  "Inner_Invoke F k funcId req reply s q =
     (if req = None then Some (ERR_OBJECT_NULL, reply, q)
      else let reply = put_u8 F funcId reply in
        dispatch_end F
          (if funcId \<ge> BMS_INNER_BEGIN \<and> funcId \<le> UNINSTALL
           then InnerInvokeFuc (funcId - BMS_INNER_BEGIN) F k funcId req reply s q
           else Some (ERR_COMMAND_ERROR, reply, q)))"

section \<open>Messages of the task\<close>

definition OnFeatureMessage :: "'j system \<Rightarrow> bool \<Rightarrow> request option \<Rightarrow> manager \<Rightarrow> (bool \<times> manager) option" where
  "OnFeatureMessage y feature req g =
     (case req of
        None \<Rightarrow> Some (False, g)
      | Some r \<Rightarrow> if \<not> feature then Some (False, g) else do { g \<leftarrow> ServiceMsgProcess y r g; Some (True, g) })"

definition BundleServiceTaskInit :: "'j feature \<Rightarrow> request list \<Rightarrow> bool \<times> request list" where
  "BundleServiceTaskInit F q = SAMGR_SendRequest F BUNDLE_SERVICE_INITED q"

end
