(* ===== verification/Callbacks.thy ===== *)
theory Callbacks
  imports Manager_Service Ipc
begin

text \<open>
  How a client learns of installations: \<^verbatim>\<open>frameworks/bundle_lite/src/bundle_callback.cpp\<close> keeps the functions of
  an observer, \<^verbatim>\<open>bundle_self_callback.cpp\<close> the one of a client that asked for an installation, and
  \<^verbatim>\<open>bundle_callback_utils.cpp\<close> the texts of the codes. Functions and their data are of any types; a call is the
  tuple of its arguments. Function pointers and data may be null.
\<close>

section \<open>Texts\<close>

definition INSTALL_SUCCESS :: string where "INSTALL_SUCCESS = ''install success !''"
definition UNINSTALL_SUCCESS :: string where "UNINSTALL_SUCCESS = ''uninstall success !''"

definition ObtainErrorMessage :: "errcode \<Rightarrow> string" where
  "ObtainErrorMessage errorCode =
     (case map_of
     [(ERR_OBJECT_NULL, ''ERR_APPEXECFWK_OBJECT_NULL''),
      (ERR_INSTALL_FAILED_INTERNAL_ERROR, ''ERR_APPEXECFWK_INSTALL_FAILED_INTERNAL_ERROR''),
      (ERR_INSTALL_FAILED_PARAM_ERROR, ''ERR_APPEXECFWK_INSTALL_FAILED_PARAM_ERROR''),
      (ERR_INSTALL_FAILED_FILE_PATH_INVALID, ''ERR_APPEXECFWK_INSTALL_FAILED_FILE_PATH_INVALID''),
      (ERR_INSTALL_FAILED_FILE_NOT_EXISTS, ''ERR_APPEXECFWK_INSTALL_FAILED_FILE_NOT_EXISTS''),
      (ERR_INSTALL_FAILED_INVALID_FILE_NAME, ''ERR_APPEXECFWK_INSTALL_FAILED_INVALID_FILE_NAME''),
      (ERR_INSTALL_FAILED_BAD_FILE, ''ERR_APPEXECFWK_INSTALL_FAILED_BAD_FILE''),
      (ERR_INSTALL_FAILED_CREATE_FILE_ERROR, ''ERR_APPEXECFWK_INSTALL_FAILED_CREATE_FILE_ERROR''),
      (ERR_INSTALL_FAILED_CREATE_PERMISSIONS_DIR_ERROR, ''ERR_APPEXECFWK_INSTALL_FAILED_CREATE_PERMISSIONS_DIR_ERROR''),
      (ERR_INSTALL_FAILED_RENAME_DIR_ERROR, ''ERR_APPEXECFWK_INSTALL_FAILED_RENAME_DIR_ERROR''),
      (ERR_INSTALL_FAILED_RENAME_FILE_ERROR, ''ERR_APPEXECFWK_INSTALL_FAILED_RENAME_FILE_ERROR''),
      (ERR_INSTALL_FAILED_CREATE_DATA_DIR_ERROR, ''ERR_APPEXECFWK_INSTALL_FAILED_CREATE_DATA_DIR_ERROR''),
      (ERR_INSTALL_FAILED_RECORD_INFO_ERROR, ''ERR_APPEXECFWK_INSTALL_FAILED_RECORD_INFO_ERROR''),
      (ERR_INSTALL_FAILED_UID_AND_GID_BACKUP_ERROR, ''ERR_APPEXECFWK_INSTALL_FAILED_UID_AND_GID_BACKUP_ERROR''),
      (ERR_INSTALL_FAILED_VERSION_DOWNGRADE, ''ERR_APPEXECFWK_INSTALL_FAILED_VERSION_DOWNGRADE''),
      (ERR_INSTALL_FAILED_STORE_PERMISSIONS_ERROR, ''ERR_APPEXECFWK_INSTALL_FAILED_STORE_PERMISSIONS_ERROR''),
      (ERR_INSTALL_FAILED_INCOMPATIBLE_SIGNATURE, ''ERR_APPEXECFWK_INSTALL_FAILED_INCOMPATIBLE_SIGNATURE''),
      (ERR_INSTALL_FAILED_INVALID_PROVISIONINFO, ''ERR_APPEXECFWK_INSTALL_FAILED_INVALID_PROVISIONINFO''),
      (ERR_INSTALL_FAILED_OPERATE_SIGNED_FILE_ERROR, ''ERR_APPEXECFWK_INSTALL_FAILED_OPERATE_SIGNED_FILE_ERROR''),
      (ERR_INSTALL_FAILED_PARSE_APP_SIGNATURE_ERROR, ''ERR_APPEXECFWK_INSTALL_FAILED_PARSE_APP_SIGNATURE_ERROR''),
      (ERR_INSTALL_FAILED_PARSE_PROFILE_SIGNATURE_ERROR, ''ERR_APPEXECFWK_INSTALL_FAILED_PARSE_PROFILE_SIGNATURE_ERROR''),
      (ERR_INSTALL_FAILED_INTERNAL_SIGNATURE_ERROR, ''ERR_APPEXECFWK_INSTALL_FAILED_INTERNAL_SIGNATURE_ERROR''),
      (ERR_INSTALL_FAILED_PARSE_PROFILE_ERROR, ''ERR_APPEXECFWK_INSTALL_FAILED_PARSE_PROFILE_ERROR''),
      (ERR_INSTALL_FAILED_PARSE_BUNDLENAME_ERROR, ''ERR_APPEXECFWK_INSTALL_FAILED_PARSE_BUNDLENAME_ERROR''),
      (ERR_INSTALL_FAILED_PARSE_INVALID_BUNDLENAME, ''ERR_APPEXECFWK_INSTALL_FAILED_PARSE_INVALID_BUNDLENAME''),
      (ERR_INSTALL_FAILED_PARSE_VENDOR_ERROR, ''ERR_APPEXECFWK_INSTALL_FAILED_PARSE_VENDOR_ERROR''),
      (ERR_INSTALL_FAILED_PARSE_VERSIONCODE_ERROR, ''ERR_APPEXECFWK_INSTALL_FAILED_PARSE_VERSIONCODE_ERROR''),
      (ERR_INSTALL_FAILED_PARSE_VERSIONNAME_ERROR, ''ERR_APPEXECFWK_INSTALL_FAILED_PARSE_VERSIONNAME_ERROR''),
      (ERR_INSTALL_FAILED_PARSE_PERMISSIONS_ERROR, ''ERR_APPEXECFWK_INSTALL_FAILED_PARSE_PERMISSIONS_ERROR''),
      (ERR_INSTALL_FAILED_PARSE_DEVICE_CONFIG_ERROR, ''ERR_APPEXECFWK_INSTALL_FAILED_PARSE_DEVICE_CONFIG_ERROR''),
      (ERR_INSTALL_FAILED_PARSE_KEEPALIVE_ERROR, ''ERR_APPEXECFWK_INSTALL_FAILED_PARSE_KEEPALIVE_ERROR''),
      (ERR_INSTALL_FAILED_PARSE_MODULENAME_ERROR, ''ERR_APPEXECFWK_INSTALL_FAILED_PARSE_MODULENAME_ERROR''),
      (ERR_INSTALL_FAILED_PARSE_INVALID_MODULENAME, ''ERR_APPEXECFWK_INSTALL_FAILED_PARSE_INVALID_MODULENAME''),
      (ERR_INSTALL_FAILED_PARSE_MODULE_DESCRIPTION_ERROR, ''ERR_APPEXECFWK_INSTALL_FAILED_PARSE_MODULE_DESCRIPTION_ERROR''),
      (ERR_INSTALL_FAILED_PARSE_DEVICETYPE_ERROR, ''ERR_APPEXECFWK_INSTALL_FAILED_PARSE_DEVICETYPE_ERROR''),
      (ERR_INSTALL_FAILED_PARSE_DISTRO_ERROR, ''ERR_APPEXECFWK_INSTALL_FAILED_PARSE_DISTRO_ERROR''),
      (ERR_INSTALL_FAILED_PARSE_DISTRO_MODULENAME_ERROR, ''ERR_APPEXECFWK_INSTALL_FAILED_PARSE_DISTRO_MODULENAME_ERROR''),
      (ERR_INSTALL_FAILED_PARSE_DISTRO_MODULETYPE_ERROR, ''ERR_APPEXECFWK_INSTALL_FAILED_PARSE_DISTRO_MODULETYPE_ERROR''),
      (ERR_INSTALL_FAILED_PARSE_DISTRO_DELIVERY_ERROR, ''ERR_APPEXECFWK_INSTALL_FAILED_PARSE_DISTRO_DELIVERY_ERROR''),
      (ERR_INSTALL_FAILED_PARSE_METADATA_ERROR, ''ERR_APPEXECFWK_INSTALL_FAILED_PARSE_METADATA_ERROR''),
      (ERR_INSTALL_FAILED_PARSE_ABILITIES_ERROR, ''ERR_APPEXECFWK_INSTALL_FAILED_PARSE_ABILITIES_ERROR''),
      (ERR_INSTALL_FAILED_PARSE_ABILITY_NAME_ERROR, ''ERR_APPEXECFWK_INSTALL_FAILED_PARSE_ABILITY_NAME_ERROR''),
      (ERR_INSTALL_FAILED_PARSE_ABILITY_TYPE_ERROR, ''ERR_APPEXECFWK_INSTALL_FAILED_PARSE_ABILITY_TYPE_ERROR''),
      (ERR_INSTALL_FAILED_PARSE_ABILITY_ICONPATH_ERROR, ''ERR_APPEXECFWK_INSTALL_FAILED_PARSE_ABILITY_ICONPATH_ERROR''),
      (ERR_INSTALL_FAILED_PARSE_ABILITY_LABEL_ERROR, ''ERR_APPEXECFWK_INSTALL_FAILED_PARSE_ABILITY_LABEL_ERROR''),
      (ERR_INSTALL_FAILED_PARSE_ABILITY_DESCRIPTION_ERROR, ''ERR_APPEXECFWK_INSTALL_FAILED_PARSE_ABILITY_DESCRIPTION_ERROR''),
      (ERR_INSTALL_FAILED_PARSE_ABILITY_LAUNCHTYPE_ERROR, ''ERR_APPEXECFWK_INSTALL_FAILED_PARSE_ABILITY_LAUNCHTYPE_ERROR''),
      (ERR_INSTALL_FAILED_PARSE_ABILITY_VISIBLE_ERROR, ''ERR_APPEXECFWK_INSTALL_FAILED_PARSE_ABILITY_VISIBLE_ERROR''),
      (ERR_INSTALL_FAILED_PARSE_INVALID_BUNDLENAME_LENGTH, ''ERR_APPEXECFWK_INSTALL_FAILED_PARSE_INVALID_BUNDLENAME_LENGTH''),
      (ERR_INSTALL_FAILED_EXCEED_MAX_LABEL_LENGTH_ERROR, ''ERR_APPEXECFWK_INSTALL_FAILED_EXCEED_MAX_LABEL_LENGTH_ERROR''),
      (ERR_INSTALL_FAILED_EXCEED_MAX_VERSIONNAME_LENGTH_ERROR, ''ERR_APPEXECFWK_INSTALL_FAILED_EXCEED_MAX_VERSIONNAME_LENGTH_ERROR''),
      (ERR_INSTALL_FAILED_EXCEED_MAX_METADATA_NAME_LENGTH_ERROR, ''ERR_APPEXECFWK_INSTALL_FAILED_EXCEED_MAX_METADATA_NAME_LENGTH_ERROR''),
      (ERR_INSTALL_FAILED_EXCEED_MAX_METADATA_VALUE_LENGTH_ERROR, ''ERR_APPEXECFWK_INSTALL_FAILED_EXCEED_MAX_METADATA_VALUE_LENGTH_ERROR''),
      (ERR_INSTALL_FAILED_EXCEED_MAX_VENDOR_LENGTH_ERROR, ''ERR_APPEXECFWK_INSTALL_FAILED_EXCEED_MAX_VENDOR_LENGTH_ERROR''),
      (ERR_INSTALL_FAILED_EXCEED_MAX_MODULENAME_LENGTH_ERROR, ''ERR_APPEXECFWK_INSTALL_FAILED_EXCEED_MAX_MODULENAME_LENGTH_ERROR''),
      (ERR_INSTALL_FAILED_EXCEED_MAX_ABILITYNAME_LENGTH_ERROR, ''ERR_APPEXECFWK_INSTALL_FAILED_EXCEED_MAX_ABILITYNAME_LENGTH_ERROR''),
      (ERR_INSTALL_FAILED_EXCEED_MAX_ABILITY_DESCRIPTION_LENGTH_ERROR, ''ERR_APPEXECFWK_INSTALL_FAILED_EXCEED_MAX_ABILITY_DESCRIPTION_LENGTH_ERROR''),
      (ERR_INSTALL_FAILED_EXCEED_MAX_ABILITY_LABEL_LENGTH_ERROR, ''ERR_APPEXECFWK_INSTALL_FAILED_EXCEED_MAX_ABILITY_LABEL_LENGTH_ERROR''),
      (ERR_INSTALL_FAILED_EXTRACTOR_NOT_INIT, ''ERR_APPEXECFWK_INSTALL_FAILED_EXTRACTOR_NOT_INIT''),
      (ERR_INSTALL_FAILED_EXTRACT_HAP_ERROR, ''ERR_APPEXECFWK_INSTALL_FAILED_EXTRACT_HAP_ERROR''),
      (ERR_INSTALL_FAILED_RESOURCE_INDEX_NOT_EXISTS, ''ERR_APPEXECFWK_INSTALL_FAILED_RESOURCE_INDEX_NOT_EXISTS''),
      (ERR_INSTALL_FAILED_PARSE_LABEL_RES_ERROR, ''ERR_APPEXECFWK_INSTALL_FAILED_PARSE_LABEL_RES_ERROR''),
      (ERR_INSTALL_FAILED_PARSE_ICON_RES_ERROR, ''ERR_APPEXECFWK_INSTALL_FAILED_PARSE_ICON_RES_ERROR''),
      (ERR_INSTALL_FAILED_PARSE_DESCRIPTION_RES_ERROR, ''ERR_APPEXECFWK_INSTALL_FAILED_PARSE_DESCRIPTION_RES_ERROR''),
      (ERR_INSTALL_FAILED_PARSE_API_VERSION_ERROR, ''ERR_APPEXECFWK_INSTALL_FAILED_PARSE_API_VERSION_ERROR''),
      (ERR_UNINSTALL_FAILED_INTERNAL_ERROR, ''ERR_APPEXECFWK_UNINSTALL_FAILED_INTERNAL_ERROR''),
      (ERR_UNINSTALL_FAILED_BUNDLE_NOT_EXISTS, ''ERR_APPEXECFWK_UNINSTALL_FAILED_BUNDLE_NOT_EXISTS''),
      (ERR_UNINSTALL_FAILED_DELETE_DIRS_ERROR, ''ERR_APPEXECFWK_UNINSTALL_FAILED_DELETE_DIRS_ERROR''),
      (ERR_UNINSTALL_FAILED_DELETE_RECORD_INFO_ERROR, ''ERR_APPEXECFWK_UNINSTALL_FAILED_DELETE_RECORD_INFO_ERROR''),
      (ERR_UNINSTALL_FAILED_DELETE_PERMISSIONS_ERROR, ''ERR_APPEXECFWK_UNINSTALL_FAILED_DELETE_PERMISSIONS_ERROR''),
      (ERR_UNINSTALL_FAILED_BUNDLE_NOT_UNINSTALLABLE, ''ERR_APPEXECFWK_UNINSTALL_FAILED_BUNDLE_NOT_UNINSTALLABLE''),
      (ERR_UNINSTALL_FAILED_DELETE_UID_INFO_ERROR, ''ERR_APPEXECFWK_UNINSTALL_FAILED_DELETE_UID_INFO_ERROR''),
      (ERR_UNINSTALL_FAILED_SEND_REQUEST_ERROR, ''ERR_APPEXECFWK_UNINSTALL_FAILED_SEND_REQUEST_ERROR''),
      (ERR_CALLBACK_REGISTER_FAILED, ''ERR_APPEXECFWK_CALLBACK_REGISTER_FAILED''),
      (ERR_CALLBACK_UNREGISTER_FAILED, ''ERR_APPEXECFWK_CALLBACK_UNREGISTER_FAILED''),
      (ERR_CALLBACK_GENERATE_LOCAL_SERVICEID_FAILED, ''ERR_APPEXECFWK_CALLBACK_GENERATE_LOCAL_SERVICEID_FAILED''),
      (ERR_CALLBACK_SERVICEID_TRANSMITTED_FAILED, ''ERR_APPEXECFWK_CALLBACK_SERVICEID_TRANSMITTED_FAILED''),
      (ERR_CALLBACK_NEVER_REGISTERED, ''ERR_APPEXECFWK_CALLBACK_NEVER_REGISTERED''),
      (ERR_CALLBACK_OBTAIN_ALL_BUNDLE_FAILED, ''ERR_APPEXECFWK_CALLBACK_OBTAIN_ALL_BUNDLE_FAILED''),
      (ERR_CALLBACK_NULL_CORRESPONDING_CALLBACK, ''ERR_APPEXECFWK_CALLBACK_NULL_CORRESPONDING_CALLBACK''),
      (ERR_CALLBACK_GET_INSTALLTYPE_FAILED, ''ERR_APPEXECFWK_CALLBACK_GET_INSTALLTYPE_FAILED''),
      (ERR_CALLBACK_GET_ERROR_INSTALLTYPE, ''ERR_APPEXECFWK_CALLBACK_GET_ERROR_INSTALLTYPE''),
      (ERR_SERIALIZATION_FAILED, ''ERR_APPEXECFWK_SERIALIZATION_FAILED''),
      (ERR_DESERIALIZATION_FAILED, ''ERR_APPEXECFWK_DESERIALIZATION_FAILED''),
      (ERR_SYSTEM_INTERNAL_ERROR, ''ERR_APPEXECFWK_SYSTEM_INTERNAL_ERROR'')] errorCode
      of None \<Rightarrow> [] | Some m \<Rightarrow> m)"

section \<open>The observer's functions\<close>

text \<open>
  \<open>ce_client\<close> tells whether the service is reached, \<open>ce_invoke\<close> gives the result of a request and the reply that is
  handed on; \<open>ce_self\<close> is the identity of the local stub. \<open>bc_sent\<close> records the messages sent to the service.
\<close>

record callback_env =
  ce_alloc :: allocator
  ce_space :: room_left
  ce_client :: bool
  ce_invoke :: "nat \<Rightarrow> ipc \<Rightarrow> bool \<times> ipc option"
  ce_self :: SvcIdentity

record ('f, 'd) callback_info =
  cb_callback :: "'f option"
  cb_data :: "'d option"

record ('f, 'd) bundle_callback =
  bc_callback :: "'f option"
  bc_data :: "'d option"
  bc_svc :: "SvcIdentity option"
  bc_map :: "string \<rightharpoonup> ('f, 'd) callback_info"
  bc_sent :: "ipc list"

definition BundleCallback_new :: "('f, 'd) bundle_callback" where
  "BundleCallback_new = \<lparr>bc_callback = None, bc_data = None, bc_svc = None, bc_map = Map.empty, bc_sent = []\<rparr>"

text \<open>The result the owner holds after the reply was looked at.\<close>

definition callback_Notify :: "stack \<Rightarrow> ipc option \<Rightarrow> nat \<Rightarrow> nat" where
  "callback_Notify k reply result =
     (case reply of
        None \<Rightarrow> result
      | Some r \<Rightarrow>
          (let (cmd, r) = ReadUint8 k r in
           if cmd \<noteq> 2 then result else fst (ReadUint8 (k\<lparr>st_u8 := result\<rparr>) r)))"

definition TransmitServiceId ::
    "callback_env \<Rightarrow> stack \<Rightarrow> SvcIdentity \<Rightarrow> bool \<Rightarrow> ('f, 'd) bundle_callback \<Rightarrow> errcode \<times> ('f, 'd) bundle_callback" where
  "TransmitServiceId E k svc flag c =
     (if \<not> ce_client E then (ERR_CALLBACK_SERVICEID_TRANSMITTED_FAILED, c)
      else let io = io_write (ce_space E) (IBool flag) [] in
        if \<not> ce_space E io (IRemote svc) then (ERR_IPCIO_UNAVAILABLED, c)
        else let io = io @ [IRemote svc]; (ret, reply) = ce_invoke E 2 io; errorCode = callback_Notify k reply 0 in
          (if \<not> ret then ERR_INVOKE_ERROR else errorCode, c\<lparr>bc_sent := bc_sent c @ [io]\<rparr>))"

definition GenerateLocalServiceId :: "callback_env \<Rightarrow> stack \<Rightarrow> ('f, 'd) bundle_callback \<Rightarrow> errcode \<times> ('f, 'd) bundle_callback" where
  "GenerateLocalServiceId E k c =
     (if bc_svc c \<noteq> None then (ERR_OK, c)
      else if \<not> ce_alloc E (Objects ''SvcIdentity'' 1) then (ERR_CALLBACK_GENERATE_LOCAL_SERVICEID_FAILED, c)
      else let (ret, c) = TransmitServiceId E k (ce_self E) True (c\<lparr>bc_svc := Some (ce_self E)\<rparr>) in
        if ret \<noteq> ERR_OK then (ERR_CALLBACK_SERVICEID_TRANSMITTED_FAILED, c\<lparr>bc_svc := None\<rparr>) else (ERR_OK, c))"

definition RegisterBundleStateCallback ::
    "callback_env \<Rightarrow> stack \<Rightarrow> 'f option \<Rightarrow> cstr \<Rightarrow> 'd option \<Rightarrow> ('f, 'd) bundle_callback \<Rightarrow> errcode \<times> ('f, 'd) bundle_callback" where
  "RegisterBundleStateCallback E k callback bundleName data c =
     (let (ret, c) = GenerateLocalServiceId E k c in
      if ret \<noteq> ERR_OK then (ERR_CALLBACK_GENERATE_LOCAL_SERVICEID_FAILED, c)
      else if bundleName = None \<or> bundleName = Some []
      then (ERR_OK, c\<lparr>bc_callback := callback, bc_data := data, bc_map := Map.empty\<rparr>)
      else if bc_callback c \<noteq> None then (ERR_OK, c)
      else (ERR_OK, c\<lparr>bc_map := (bc_map c)(the bundleName \<mapsto> \<lparr>cb_callback = callback, cb_data = data\<rparr>)\<rparr>))"

definition UnregisterBundleStateCallback ::
    "callback_env \<Rightarrow> stack \<Rightarrow> ('f, 'd) bundle_callback \<Rightarrow> errcode \<times> ('f, 'd) bundle_callback" where
  "UnregisterBundleStateCallback E k c =
     (case bc_svc c of
        None \<Rightarrow> (ERR_CALLBACK_UNREGISTER_FAILED, c)
      | Some svc \<Rightarrow>
          (let c = c\<lparr>bc_callback := None, bc_data := None, bc_map := Map.empty\<rparr>;
               c = snd (TransmitServiceId E k svc False c)
           in (ERR_OK, c\<lparr>bc_svc := None\<rparr>)))"

definition BundleCallback_delete :: "callback_env \<Rightarrow> stack \<Rightarrow> ('f, 'd) bundle_callback \<Rightarrow> ('f, 'd) bundle_callback" where
  "BundleCallback_delete E k c =
     (let c = (case bc_svc c of
            None \<Rightarrow> c
          | Some svc \<Rightarrow> (snd (TransmitServiceId E k svc False c))\<lparr>bc_svc := None\<rparr>)
      in c\<lparr>bc_map := Map.empty\<rparr>)"

definition GetCallbackInfoByName :: "('f, 'd) bundle_callback \<Rightarrow> cstr \<Rightarrow> ('f, 'd) callback_info" where
  "GetCallbackInfoByName c bundleName =
     (let innerCallbackInfo = \<lparr>cb_callback = None, cb_data = None\<rparr> in
      if bundleName = None \<or> bundleName = Some [] then innerCallbackInfo
      else if bc_callback c \<noteq> None then \<lparr>cb_callback = bc_callback c, cb_data = bc_data c\<rparr>
      else (case bc_map c (the bundleName) of None \<Rightarrow> innerCallbackInfo | Some it \<Rightarrow> it))"

type_synonym ('f, 'd) state_call = "'f \<times> nat \<times> errcode \<times> string \<times> string \<times> 'd option"

definition InnerCallback :: "('f, 'd) bundle_callback \<Rightarrow> nat \<Rightarrow> errcode \<Rightarrow> cstr \<Rightarrow> errcode \<times> ('f, 'd) state_call option" where
  "InnerCallback c installType resultCode bundleName =
     (case bundleName of
        None \<Rightarrow> (ERR_OBJECT_NULL, None)
      | Some n \<Rightarrow>
          (let callbackInfo = GetCallbackInfoByName c bundleName in
           case cb_callback callbackInfo of
             None \<Rightarrow> (ERR_CALLBACK_NULL_CORRESPONDING_CALLBACK, None)
           | Some f \<Rightarrow>
               if resultCode \<noteq> ERR_OK
               then (ERR_OK, Some (f, installType, resultCode, ObtainErrorMessage resultCode, n, cb_data callbackInfo))
               else if installType = INSTALL_CALLBACK
               then (ERR_OK, Some (f, installType, resultCode, INSTALL_SUCCESS, n, cb_data callbackInfo))
               else if installType = UNINSTALL_CALLBACK
               then (ERR_OK, Some (f, installType, resultCode, UNINSTALL_SUCCESS, n, cb_data callbackInfo))
               else (ERR_CALLBACK_GET_ERROR_INSTALLTYPE, None)))"

definition state_Callback ::
    "('f, 'd) bundle_callback \<Rightarrow> stack \<Rightarrow> nat \<Rightarrow> ipc option \<Rightarrow> errcode \<times> ('f, 'd) state_call option" where
  "state_Callback c k code data =
     (case data of
        None \<Rightarrow> (ERR_OBJECT_NULL, None)
      | Some d \<Rightarrow>
          if code = INSTALL_CALLBACK \<or> code = UNINSTALL_CALLBACK
          then (let (readCode, d) = ReadInt32 k d; resultCode = nat (readCode mod 256) in
            InnerCallback c code resultCode (fst (ReadString d)))
          else (ERR_CALLBACK_GET_ERROR_INSTALLTYPE, None))"

section \<open>The function of a client that asks\<close>

record 'f self_callback =
  sc_callback :: "'f option"
  sc_svc :: "SvcIdentity option"

definition BundleSelfCallback_new :: "'f self_callback" where
  "BundleSelfCallback_new = \<lparr>sc_callback = None, sc_svc = None\<rparr>"

definition self_GenerateLocalServiceId :: "callback_env \<Rightarrow> 'f self_callback \<Rightarrow> errcode \<times> 'f self_callback" where
  "self_GenerateLocalServiceId E c =
     (if \<not> ce_alloc E (Objects ''SvcIdentity'' 1) then (ERR_CALLBACK_GENERATE_LOCAL_SERVICEID_FAILED, c)
      else (ERR_OK, c\<lparr>sc_svc := Some (ce_self E)\<rparr>))"

definition RegisterBundleSelfCallback ::
    "callback_env \<Rightarrow> 'f option \<Rightarrow> 'f self_callback \<Rightarrow> SvcIdentity option \<times> 'f self_callback" where
  "RegisterBundleSelfCallback E installerCallback c =
     (if installerCallback = None then (None, c)
      else let (ret, c) = (if sc_svc c = None then self_GenerateLocalServiceId E c else (ERR_OK, c)) in
        if ret \<noteq> ERR_OK then (None, c)
        else (sc_svc c, c\<lparr>sc_callback := installerCallback\<rparr>))"

definition self_InnerCallback :: "string \<Rightarrow> errcode \<Rightarrow> 'f \<Rightarrow> errcode \<times> ('f \<times> errcode \<times> string) option" where
  "self_InnerCallback resultMessage resultCode installerCallback =
     (ERR_OK, Some (installerCallback, resultCode,
        if resultCode = ERR_OK then resultMessage else ObtainErrorMessage resultCode))"

definition self_Callback :: "'f self_callback \<Rightarrow> stack \<Rightarrow> nat \<Rightarrow> ipc option \<Rightarrow> errcode \<times> ('f \<times> errcode \<times> string) option" where
  "self_Callback c k code data =
     (case (data, sc_callback c) of
        (Some d, Some f) \<Rightarrow>
          (let (readCode, d) = ReadInt32 k d; resultCode = nat (readCode mod 256) in
           if code = INSTALL_CALLBACK then self_InnerCallback INSTALL_SUCCESS resultCode f
           else if code = UNINSTALL_CALLBACK then self_InnerCallback UNINSTALL_SUCCESS resultCode f
           else (ERR_CALLBACK_GET_ERROR_INSTALLTYPE, None))
      | _ \<Rightarrow> (ERR_OBJECT_NULL, None))"

end
