(* ===== verification/Bundle_Client.thy ===== *)
theory Bundle_Client
  imports Ms_Feature Callbacks
begin

text \<open>
  \<^verbatim>\<open>frameworks/bundle_lite/src/bundle_manager.cpp\<close>: the interface applications call. An operation checks its arguments
  and the caller's permission, sends a request, and reads the reply. \<open>cl_invoke\<close> gives the result of sending a request
  to the service (the flag tells which of its two features) and the reply handed to \<open>Notify\<close>; \<open>cl_want\<close> is
  \<open>SerializeWant\<close> of the ability kit. \<open>cl_stack\<close> is what a variable holds that was not written. The build is the
  release build without \<open>__LINUX__\<close>. \<open>None\<close> is an undefined access.
\<close>

record 'j client =
  cl_alloc :: allocator
  cl_json :: "'j cjson"
  cl_io :: "'j cjson_io"
  cl_casts :: casts
  cl_stack :: stack
  cl_space :: room_left
  cl_granted :: "string \<Rightarrow> bool"
  cl_bms :: bool
  cl_inner :: bool
  cl_invoke :: "bool \<Rightarrow> nat \<Rightarrow> ipc \<Rightarrow> bool \<times> ipc option"
  cl_want :: "ElementName option \<Rightarrow> ipc \<Rightarrow> ipc option"

abbreviation (input) "PERMISSION_INSTALL_BUNDLE \<equiv> ''ohos.permission.INSTALL_BUNDLE''"
abbreviation (input) "PERMISSION_GET_BUNDLE_INFO \<equiv> ''ohos.permission.GET_BUNDLE_INFO''"
abbreviation (input) "PERMISSION_LISTEN_BUNDLE_CHANGE \<equiv> ''ohos.permission.LISTEN_BUNDLE_CHANGE''"
abbreviation (input) "API_MAX_BUNDLE_NAME \<equiv> 128 :: nat"

section \<open>Observers\<close>

definition RegisterCallback ::
    "'j client \<Rightarrow> callback_env \<Rightarrow> ('f option \<times> cstr \<times> 'd option) option \<Rightarrow> ('f, 'd) bundle_callback
     \<Rightarrow> errcode \<times> ('f, 'd) bundle_callback" where
  "RegisterCallback C E bundleStatusCallback c =
     (case bundleStatusCallback of
        Some (Some f, bundleName, data) \<Rightarrow>
          if \<not> cl_granted C PERMISSION_LISTEN_BUNDLE_CHANGE then (ERR_PERMISSION_DENIED, c)
          else RegisterBundleStateCallback E (cl_stack C) (Some f) bundleName data c
      | _ \<Rightarrow> (ERR_OBJECT_NULL, c))"

definition UnregisterCallback :: "'j client \<Rightarrow> callback_env \<Rightarrow> ('f, 'd) bundle_callback \<Rightarrow> errcode \<times> ('f, 'd) bundle_callback" where
  "UnregisterCallback C E c = UnregisterBundleStateCallback E (cl_stack C) c"

section \<open>Reading replies\<close>

text \<open>What the owner of a reply points to, one constructor for each structure.\<close>

datatype owner =
    Byte nat
  | ResultOfQueryAbilityInfo errcode "AbilityInfo option"
  | ResultOfGetBundleInfo errcode "BundleInfo option"
  | ResultOfGetBundleInfos errcode int "BundleInfo list option"
  | ResultOfGetBundleNameForUid errcode cstr int
  | ResultOfGetBundleSize errcode u32
  | ResultOfGetSysCap errcode SystemCapability

definition DeserializeInnerAbilityInfo :: "'j client \<Rightarrow> owner \<Rightarrow> ipc \<Rightarrow> owner option" where
  "DeserializeInnerAbilityInfo C info reply =
     (case info of
        ResultOfQueryAbilityInfo _ a \<Rightarrow>
          (let (resultCode, reply) = ReadUint8 (cl_stack C) reply in
           if resultCode \<noteq> ERR_OK then Some (ResultOfQueryAbilityInfo resultCode a)
           else case fst (ReadString reply) of
               None \<Rightarrow> Some (ResultOfQueryAbilityInfo ERR_DESERIALIZATION_FAILED a)
             | Some jsonStr \<Rightarrow>
                 (case ConvertStringToAbilityInfo (cl_alloc C) (cl_json C) (cl_io C) (cl_casts C) (Some jsonStr) (length jsonStr) of
                    None \<Rightarrow> Some (ResultOfQueryAbilityInfo ERR_DESERIALIZATION_FAILED None)
                  | Some a \<Rightarrow> Some (ResultOfQueryAbilityInfo resultCode (Some a))))
      | _ \<Rightarrow> None)"

definition DeserializeInnerBundleInfo :: "'j client \<Rightarrow> owner \<Rightarrow> ipc \<Rightarrow> owner option" where
  "DeserializeInnerBundleInfo C info reply =
     (case info of
        ResultOfGetBundleInfo _ b \<Rightarrow>
          (let (resultCode, reply) = ReadUint8 (cl_stack C) reply in
           if resultCode \<noteq> ERR_OK then Some (ResultOfGetBundleInfo resultCode b)
           else case fst (ReadString reply) of
               None \<Rightarrow> Some (ResultOfGetBundleInfo ERR_DESERIALIZATION_FAILED b)
             | Some jsonStr \<Rightarrow>
                 (case ConvertStringToBundleInfo (cl_alloc C) (cl_json C) (cl_io C) (cl_casts C) (Some jsonStr) (length jsonStr) of
                    None \<Rightarrow> Some (ResultOfGetBundleInfo ERR_DESERIALIZATION_FAILED None)
                  | Some b \<Rightarrow> Some (ResultOfGetBundleInfo resultCode (Some b))))
      | _ \<Rightarrow> None)"

definition DeserializeInnerBundleInfos :: "'j client \<Rightarrow> owner \<Rightarrow> ipc \<Rightarrow> owner option" where
  "DeserializeInnerBundleInfos C info reply =
     (case info of
        ResultOfGetBundleInfos _ len bs \<Rightarrow>
          (let (resultCode, reply) = ReadUint8 (cl_stack C) reply in
           if resultCode \<noteq> ERR_OK then Some (ResultOfGetBundleInfos resultCode len bs)
           else let (len, reply) = ReadInt32 ((cl_stack C)\<lparr>st_int := len\<rparr>) reply in
           case fst (ReadString reply) of
             None \<Rightarrow> Some (ResultOfGetBundleInfos ERR_DESERIALIZATION_FAILED len bs)
           | Some jsonStr \<Rightarrow>
               (case ConvertStringToBundleInfos (cl_alloc C) (cl_json C) (cl_io C) (cl_casts C) (Some jsonStr)
                       (nat (len mod 2 ^ 32)) (length jsonStr) of
                  None \<Rightarrow> Some (ResultOfGetBundleInfos ERR_DESERIALIZATION_FAILED len None)
                | Some bs \<Rightarrow> Some (ResultOfGetBundleInfos resultCode len (Some bs))))
      | _ \<Rightarrow> None)"

definition DeserializeInnerBundleName :: "'j client \<Rightarrow> owner \<Rightarrow> ipc \<Rightarrow> owner option" where
  "DeserializeInnerBundleName C info reply =
     (case info of
        ResultOfGetBundleNameForUid _ n len \<Rightarrow>
          (let (resultCode, reply) = ReadUint8 (cl_stack C) reply in
           if resultCode \<noteq> ERR_OK then Some (ResultOfGetBundleNameForUid resultCode n len)
           else case fst (ReadString reply) of
               None \<Rightarrow> Some (ResultOfGetBundleNameForUid ERR_DESERIALIZATION_FAILED n len)
             | Some bundleName \<Rightarrow>
                 if length bundleName > API_MAX_BUNDLE_NAME
                 then Some (ResultOfGetBundleNameForUid ERR_DESERIALIZATION_FAILED n len)
                 else if \<not> cl_alloc C (Chars (length bundleName + 1))
                 then Some (ResultOfGetBundleNameForUid ERR_OBJECT_NULL None len)
                 else Some (ResultOfGetBundleNameForUid resultCode (Some bundleName) (int (length bundleName))))
      | _ \<Rightarrow> None)"

definition DeserializeBundleSize :: "'j client \<Rightarrow> owner \<Rightarrow> ipc \<Rightarrow> owner option" where
  "DeserializeBundleSize C info reply =
     (case info of
        ResultOfGetBundleSize _ n \<Rightarrow>
          (let (resultCode, reply) = ReadUint8 (cl_stack C) reply in
           if resultCode \<noteq> ERR_OK then Some (ResultOfGetBundleSize resultCode n)
           else Some (ResultOfGetBundleSize resultCode (fst (ReadUint32 ((cl_stack C)\<lparr>st_u32 := n\<rparr>) reply))))
      | _ \<Rightarrow> None)"

text \<open>The loop over the names; a missing or too long name fails the copy.\<close>

fun read_caps :: "nat \<Rightarrow> ipc \<Rightarrow> string list option" where
  "read_caps 0 reply = Some []"
| "read_caps (Suc n) reply = do {
     let (sysCapName, reply) = ReadString reply;
     c \<leftarrow> sysCapName;
     if length c \<ge> MAX_SYSCAP_NAME_LEN then None
     else do { cs \<leftarrow> read_caps n reply; Some (c # cs) } }"

text \<open>An array of no names cannot be cleared, and one of a negative number neither allocated nor cleared.\<close>

definition DeserializeSystemCapabilities :: "'j client \<Rightarrow> owner \<Rightarrow> ipc \<Rightarrow> owner option" where
  "DeserializeSystemCapabilities C info reply =
     (case info of
        ResultOfGetSysCap _ c \<Rightarrow>
          (let (resultCode, reply) = ReadUint8 (cl_stack C) reply in
           if resultCode \<noteq> ERR_OK then Some (ResultOfGetSysCap resultCode c)
           else let (sysCapCount, reply) = ReadInt32 (cl_stack C) reply;
                    failed = Some (ResultOfGetSysCap ERR_SYSTEM_INTERNAL_ERROR (c\<lparr>sc_systemCapName := None\<rparr>)) in
             if sysCapCount \<le> 0 \<or> \<not> cl_alloc C (Objects ''SystemCapName'' (nat sysCapCount)) then failed
             else case read_caps (nat sysCapCount) reply of
                 None \<Rightarrow> failed
               | Some cs \<Rightarrow> Some (ResultOfGetSysCap resultCode \<lparr>sc_systemCapNum = sysCapCount, sc_systemCapName = Some cs\<rparr>))
      | _ \<Rightarrow> None)"

text \<open>A reply to another command than the owner waits for would be written through a pointer of the wrong type.\<close>

definition C_Notify :: "'j client \<Rightarrow> owner \<Rightarrow> ipc option \<Rightarrow> owner option" where
  "C_Notify C owner reply =
     (case reply of
        None \<Rightarrow> Some owner
      | Some r \<Rightarrow>
          (let (resultCode, r) = ReadUint8 (cl_stack C) r in
           if resultCode = INSTALL \<or> resultCode = UNINSTALL \<or> resultCode = CHECK_SYS_CAP
           then (case owner of Byte ret \<Rightarrow> Some (Byte (fst (ReadUint8 ((cl_stack C)\<lparr>st_u8 := ret\<rparr>) r))) | _ \<Rightarrow> None)
           else if resultCode = QUERY_ABILITY_INFO then DeserializeInnerAbilityInfo C owner r
           else if resultCode = GET_BUNDLE_INFO then DeserializeInnerBundleInfo C owner r
           else if resultCode = GET_BUNDLE_INFOS \<or> resultCode = QUERY_KEEPALIVE_BUNDLE_INFOS \<or>
                   resultCode = GET_BUNDLE_INFOS_BY_METADATA
           then DeserializeInnerBundleInfos C owner r
           else if resultCode = GET_BUNDLENAME_FOR_UID then DeserializeInnerBundleName C owner r
           else if resultCode = GET_BUNDLE_SIZE then DeserializeBundleSize C owner r
           else if resultCode = GET_SYS_CAP then DeserializeSystemCapabilities C owner r
           else Some owner))"

text \<open>Sending a request: whether it was delivered, and the owner afterwards.\<close>

definition client_invoke :: "'j client \<Rightarrow> bool \<Rightarrow> nat \<Rightarrow> ipc \<Rightarrow> owner \<Rightarrow> (bool \<times> owner) option" where
  "client_invoke C inner funcId io owner =
     (let (ret, reply) = cl_invoke C inner funcId io in do {
        owner \<leftarrow> C_Notify C owner reply;
        Some (ret, owner) })"

section \<open>Installing and removing\<close>

text \<open>
  The result, and the function that is told. The name of the package is written before the identity of the local
  stub is made.
\<close>

definition C_Install ::
    "'j client \<Rightarrow> callback_env \<Rightarrow> cstr \<Rightarrow> InstallParam option \<Rightarrow> 'f option \<Rightarrow> 'f self_callback \<Rightarrow> (bool \<times> 'f self_callback) option" where
  "C_Install C E hapPath installParam installerCallback c =
     (case (hapPath, installParam) of
        (Some p, Some ip) \<Rightarrow>
          if installerCallback = None \<or> \<not> cl_granted C PERMISSION_INSTALL_BUNDLE \<or> \<not> cl_inner C then Some (False, c)
          else let io = io_write (cl_space C) (IStr p) []; (svc, c) = RegisterBundleSelfCallback E installerCallback c in
            (case svc of
               None \<Rightarrow> Some (False, c)
             | Some svc \<Rightarrow>
                 if \<not> cl_space C io (IRemote svc) then Some (False, c)
                 else do {
                   (ret, result) \<leftarrow> client_invoke C True INSTALL
                     (io_write (cl_space C) (II32 (ip_installLocation ip)) (io @ [IRemote svc])) (Byte 0);
                   Some (ret \<and> result = Byte OHOS_SUCCESS, c) })
      | _ \<Rightarrow> Some (False, c))"

definition C_Uninstall ::
    "'j client \<Rightarrow> callback_env \<Rightarrow> cstr \<Rightarrow> InstallParam option \<Rightarrow> 'f option \<Rightarrow> 'f self_callback \<Rightarrow> (bool \<times> 'f self_callback) option" where
  "C_Uninstall C E bundleName installParam installerCallback c =
     (case (bundleName, installParam) of
        (Some n, Some ip) \<Rightarrow>
          if installerCallback = None \<or> length n \<ge> API_MAX_BUNDLE_NAME \<or> \<not> cl_granted C PERMISSION_INSTALL_BUNDLE \<or>
             \<not> cl_inner C then Some (False, c)
          else let (svc, c) = RegisterBundleSelfCallback E installerCallback c in
            (case svc of
               None \<Rightarrow> Some (False, c)
             | Some svc \<Rightarrow>
                 let io = io_write (cl_space C) (IStr n) [] in
                 if \<not> cl_space C io (IRemote svc) then Some (False, c)
                 else do {
                   (ret, result) \<leftarrow> client_invoke C True UNINSTALL
                     (io_write (cl_space C) (IBool (ip_keepData ip)) (io @ [IRemote svc])) (Byte 0);
                   Some (ret \<and> result = Byte OHOS_SUCCESS, c) })
      | _ \<Rightarrow> Some (False, c))"

section \<open>Queries\<close>

text \<open>
  The code, and the structure of the caller, \<open>out\<close>, as the operation leaves it. A result code that was never
  written is the one on the stack.
\<close>

definition C_QueryAbilityInfo ::
    "'j client \<Rightarrow> ElementName option option \<Rightarrow> AbilityInfo option \<Rightarrow> (errcode \<times> AbilityInfo option) option" where
  "C_QueryAbilityInfo C want out =
     (case (want, out) of
        (Some w, Some _) \<Rightarrow>
          if \<not> cl_granted C PERMISSION_GET_BUNDLE_INFO then Some (ERR_PERMISSION_DENIED, out)
          else if \<not> cl_bms C then Some (ERR_OBJECT_NULL, out)
          else (case cl_want C w [] of
              None \<Rightarrow> Some (ERR_SERIALIZATION_FAILED, out)
            | Some io \<Rightarrow> do {
                (ret, owner) \<leftarrow> client_invoke C False QUERY_ABILITY_INFO io (ResultOfQueryAbilityInfo 0 None);
                if \<not> ret then Some (ERR_INVOKE_ERROR, out)
                else case owner of
                    ResultOfQueryAbilityInfo resultCode (Some a) \<Rightarrow>
                      Some (resultCode, if resultCode = ERR_OK then CopyAbilityInfo (cl_alloc C) out a else out)
                  | ResultOfQueryAbilityInfo resultCode None \<Rightarrow> Some (resultCode, out)
                  | _ \<Rightarrow> None })
      | _ \<Rightarrow> Some (ERR_OBJECT_NULL, out))"

definition C_GetBundleInfo ::
    "'j client \<Rightarrow> cstr \<Rightarrow> int \<Rightarrow> BundleInfo option \<Rightarrow> (errcode \<times> BundleInfo option) option" where
  "C_GetBundleInfo C bundleName flags out =
     (case (bundleName, out) of
        (Some n, Some _) \<Rightarrow>
          if flags < 0 \<or> flags > 1 \<or> length n \<ge> API_MAX_BUNDLE_NAME then Some (ERR_QUERY_PARAMETER_ERROR, out)
          else if \<not> cl_granted C PERMISSION_GET_BUNDLE_INFO then Some (ERR_PERMISSION_DENIED, out)
          else if \<not> cl_bms C then Some (ERR_OBJECT_NULL, out)
          else do {
            let io = io_write (cl_space C) (II32 flags) (io_write (cl_space C) (IStr n) []);
            (ret, owner) \<leftarrow> client_invoke C False GET_BUNDLE_INFO io (ResultOfGetBundleInfo (st_u8 (cl_stack C)) None);
            if \<not> ret then Some (ERR_INVOKE_ERROR, out)
            else case owner of
                ResultOfGetBundleInfo resultCode (Some b) \<Rightarrow>
                  Some (resultCode, if resultCode = ERR_OK then CopyBundleInfo (cl_alloc C) flags out b else out)
              | ResultOfGetBundleInfo resultCode None \<Rightarrow> Some (resultCode, out)
              | _ \<Rightarrow> None }
      | _ \<Rightarrow> Some (ERR_OBJECT_NULL, out))"

text \<open>
  The code, and the bundles and their number where they were assigned (\<open>None\<close> as the second component leaves the
  caller's variables alone; the number is only assigned with bundles).
\<close>

type_synonym infos_result = "(errcode \<times> BundleInfo list option option) option"

definition ObtainInnerBundleInfos :: "'j client \<Rightarrow> int \<Rightarrow> nat \<Rightarrow> ipc \<Rightarrow> infos_result" where
  "ObtainInnerBundleInfos C flags code io =
     (if \<not> cl_granted C PERMISSION_GET_BUNDLE_INFO then Some (ERR_PERMISSION_DENIED, None)
      else if \<not> cl_bms C then Some (ERR_OBJECT_NULL, None)
      else do {
        (ret, owner) \<leftarrow> client_invoke C False code io (ResultOfGetBundleInfos (st_u8 (cl_stack C)) 0 None);
        if \<not> ret then Some (ERR_INVOKE_ERROR, None)
        else case owner of
            ResultOfGetBundleInfos resultCode len bundleInfo \<Rightarrow>
              if len = 0 \<or> resultCode \<noteq> ERR_OK then Some (resultCode, Some None)
              else if \<not> cl_alloc C (Objects ''BundleInfo'' (nat len)) then Some (ERR_OBJECT_NULL, Some None)
              else do {
                bs \<leftarrow> bundleInfo;
                if length bs < nat len then None
                else Some (resultCode, Some (Some (map (\<lambda>b. the (CopyBundleInfo (cl_alloc C) flags (Some zero_BundleInfo) b))
                                                       (take (nat len) bs)))) }
          | _ \<Rightarrow> None })"

text \<open>\<open>null_out\<close> is a null pointer for the bundles or for their number.\<close>

definition C_GetBundleInfos :: "'j client \<Rightarrow> int \<Rightarrow> bool \<Rightarrow> infos_result" where
  "C_GetBundleInfos C flags null_out =
     (if null_out then Some (ERR_OBJECT_NULL, None)
      else if flags < 0 \<or> flags > 1 then Some (ERR_QUERY_PARAMETER_ERROR, None)
      else ObtainInnerBundleInfos C flags GET_BUNDLE_INFOS (io_write (cl_space C) (II32 flags) []))"

definition C_QueryKeepAliveBundleInfos :: "'j client \<Rightarrow> bool \<Rightarrow> infos_result" where
  "C_QueryKeepAliveBundleInfos C null_out =
     (if null_out then Some (ERR_OBJECT_NULL, None)
      else ObtainInnerBundleInfos C 0 QUERY_KEEPALIVE_BUNDLE_INFOS [])"

definition C_GetBundleInfosByMetaData :: "'j client \<Rightarrow> cstr \<Rightarrow> bool \<Rightarrow> infos_result" where
  "C_GetBundleInfosByMetaData C metaDataKey null_out =
     (case metaDataKey of
        None \<Rightarrow> Some (ERR_OBJECT_NULL, None)
      | Some key \<Rightarrow>
          if null_out then Some (ERR_OBJECT_NULL, None)
          else ObtainInnerBundleInfos C 0 GET_BUNDLE_INFOS_BY_METADATA (io_write (cl_space C) (IStr key) []))"

definition C_GetBundleSize :: "'j client \<Rightarrow> cstr \<Rightarrow> u32 option" where
  "C_GetBundleSize C bundleName =
     (case bundleName of
        None \<Rightarrow> Some 0
      | Some n \<Rightarrow>
          if length n \<ge> API_MAX_BUNDLE_NAME then Some 0
          else if \<not> cl_granted C PERMISSION_GET_BUNDLE_INFO then Some 0
          else if \<not> cl_bms C then Some 0
          else do {
            (ret, owner) \<leftarrow> client_invoke C False GET_BUNDLE_SIZE (io_write (cl_space C) (IStr n) [])
              (ResultOfGetBundleSize (st_u8 (cl_stack C)) (st_u32 (cl_stack C)));
            if \<not> ret then Some 0
            else case owner of ResultOfGetBundleSize _ bundleSize \<Rightarrow> Some bundleSize | _ \<Rightarrow> None })"

definition C_GetBundleNameForUid :: "'j client \<Rightarrow> int \<Rightarrow> bool \<Rightarrow> (errcode \<times> cstr) option" where
  "C_GetBundleNameForUid C uid null_out =
     (if null_out then Some (ERR_OBJECT_NULL, None)
      else if \<not> cl_granted C PERMISSION_GET_BUNDLE_INFO then Some (ERR_PERMISSION_DENIED, None)
      else if \<not> cl_bms C then Some (ERR_OBJECT_NULL, None)
      else do {
        (ret, owner) \<leftarrow> client_invoke C False GET_BUNDLENAME_FOR_UID (io_write (cl_space C) (II32 uid) [])
          (ResultOfGetBundleNameForUid (st_u8 (cl_stack C)) None 0);
        if \<not> ret then Some (ERR_INVOKE_ERROR, None)
        else case owner of
            ResultOfGetBundleNameForUid resultCode n len \<Rightarrow>
              if n = None \<or> len = 0 then Some (resultCode, None)
              else if \<not> cl_alloc C (Chars (nat len + 1)) then Some (ERR_OBJECT_NULL, None)
              else Some (resultCode, map_option (take (nat len)) n)
          | _ \<Rightarrow> None })"

definition C_HasSystemCapability :: "'j client \<Rightarrow> cstr \<Rightarrow> bool option" where
  "C_HasSystemCapability C sysCapName =
     (case sysCapName of
        None \<Rightarrow> Some False
      | Some n \<Rightarrow>
          if length n > MAX_SYSCAP_NAME_LEN \<or> \<not> cl_bms C then Some False
          else do {
            (ret, result) \<leftarrow> client_invoke C False CHECK_SYS_CAP (io_write (cl_space C) (IStr n) []) (Byte 0);
            Some (ret \<and> result = Byte OHOS_SUCCESS) })"

text \<open>The copy of the names fails when one is too long for its field.\<close>

definition C_GetSystemAvailableCapabilities :: "'j client \<Rightarrow> SystemCapability option option" where
  "C_GetSystemAvailableCapabilities C =
     (if \<not> cl_bms C then Some None
      else do {
        (ret, owner) \<leftarrow> client_invoke C False GET_SYS_CAP []
          (ResultOfGetSysCap (st_u8 (cl_stack C)) zero_SystemCapability);
        if \<not> ret then Some None
        else case owner of
            ResultOfGetSysCap resultCode c \<Rightarrow>
              if sc_systemCapNum c = 0 \<or> resultCode \<noteq> ERR_OK then Some None
              else (case sc_systemCapName c of
                  None \<Rightarrow> Some None
                | Some names \<Rightarrow>
                    if \<not> cl_alloc C (Objects ''SystemCapability'' 1) \<or>
                       \<not> cl_alloc C (Objects ''SystemCapName'' (nat (sc_systemCapNum c))) then Some None
                    else if list_ex (\<lambda>n. length n \<ge> MAX_SYSCAP_NAME_LEN) names then Some None
                    else Some (Some c))
          | _ \<Rightarrow> None })"

end
