(* ===== verification/Api_Correct.thy ===== *)
theory Api_Correct
  imports Bundle_Client Convert_Correct
begin

text \<open>
  The application interface and the service joined: what a client asks for is what the service does and answers, and
  what an observer registered is what is called.
\<close>

section \<open>A client and the service it reaches\<close>

text \<open>
  The client has the permission and reaches both features; memory and room in the messages suffice; both sides use
  the same cJSON, whose parser reads back what its printer wrote. A request of the client gets the reply the service's
  dispatch makes in the state \<open>s\<close>.
\<close>

definition answer :: "handled \<Rightarrow> bool \<times> ipc option" where
  "answer h = (case h of None \<Rightarrow> (False, None) | Some (_, reply, _) \<Rightarrow> (True, reply))"

definition connected :: "'j client \<Rightarrow> 'j feature \<Rightarrow> stack \<Rightarrow> service \<Rightarrow> bool" where
  "connected C F k s \<longleftrightarrow>
     cl_alloc C = plentiful \<and> y_alloc (ft_sys F) = plentiful \<and> cl_space C = plenty \<and> ft_space F = plenty \<and>
     cl_granted C = (\<lambda>_. True) \<and> cl_bms C \<and> cl_inner C \<and> cl_io C = ft_io F \<and>
     cjson_io_ok (cl_json C) (y_mk (ft_sys F)) (ft_io F) \<and>
     (\<forall>root t. io_PrintUnformatted (ft_io F) root = Some t \<longrightarrow> io_ParseWithLength (ft_io F) t (length t) = Some root) \<and>
     cl_invoke C False = (\<lambda>f m. answer (F_Invoke F k f (Some m) (Some []) s []))"

lemma io_plenty [simp]: "io_write plenty v m = m @ [v]" "write_u8 plenty n m = m @ [IU8 (n mod 256)]"
  by (simp_all add: io_write_def write_u8_def plenty_def)

lemma MS_GetBundleInfo_registered:
  "registered s n = Some b \<Longrightarrow> MS_GetBundleInfo (Some n) flags out s = Some (ERR_OK, GetCopyBundleInfo flags b)"
  by (auto simp: registered_def bm_look_def MS_GetBundleInfo_def GetBundleInfo_def split: option.splits)

lemma MS_GetBundleInfo_unregistered:
  assumes "service_ok s" "registered s n = None"
  shows "MS_GetBundleInfo (Some n) flags out s = Some (ERR_QUERY_NO_INFOS, out)"
proof -
  from assms(1) obtain as ps bs where inv: "bm_inv as ps bs (sv_bundles s)" by (auto simp: service_ok_def bm_ok_def)
  from assms(2) bm_look_None[OF inv] have "Get (Some n) (sv_bundles s) = Some None"
    by (simp add: registered_def Get_absent[OF inv])
  then show ?thesis by (simp add: MS_GetBundleInfo_def GetBundleInfo_def)
qed

lemma AbilityInfo_ok_without: "AbilityInfo_ok (without_deviceCap a) = AbilityInfo_ok a"
  by (simp add: AbilityInfo_ok_def without_deviceCap_def)

lemma as_read_ok: "BundleInfo_ok b \<Longrightarrow> BundleInfo_ok (as_read b)"
  by (auto simp: BundleInfo_ok_def as_read_def array_ok_def list_all_iff AbilityInfo_ok_without split: option.splits)

lemma seen_ok: "BundleInfo_ok b \<Longrightarrow> BundleInfo_ok (GetCopyBundleInfo flags b)"
  by (auto simp: BundleInfo_ok_def GetCopyBundleInfo_def array_ok_def split: option.splits)

lemma seen_ints: "BundleInfo_ints b \<Longrightarrow> BundleInfo_ints (GetCopyBundleInfo flags b)"
  by (auto simp: BundleInfo_ints_def GetCopyBundleInfo_def in_range32_def)

lemma without_twice: "without_deviceCap (without_deviceCap a) = without_deviceCap a"
  by (simp add: without_deviceCap_def)

lemma copy_as_read:
  assumes "BundleInfo_ok b" "flags = 0 \<or> flags = 1"
  shows "CopyBundleInfo plentiful flags (Some zero_BundleInfo) (as_read (GetCopyBundleInfo flags b)) =
    Some (as_read (GetCopyBundleInfo flags b))"
  using assms(2) CopyBundleInfo_faithful[OF as_read_ok[OF seen_ok[OF assms(1)]], of flags flags]
  by (cases b) (auto simp: as_read_def GetCopyBundleInfo_def option.map_comp comp_def without_twice)

text \<open>C6 A query for one bundle: the client's structure becomes the bundle of the registry.\<close>

theorem GetBundleInfo_end_to_end:
  assumes C: "connected C F k s" and reg: "registered s n = Some b" and n: "length n < 128"
    and flags: "flags = 0 \<or> flags = 1"
    and b: "BundleInfo_ok b" "BundleInfo_ints b" "bi_moduleInfos b = Some [mi]" "ModuleInfo_packed mi"
    and pr: "ConvertBundleInfoToString (y_mk (ft_sys F)) (ft_io F) (Some (GetCopyBundleInfo flags b)) = Some (Some t)"
  shows "C_GetBundleInfo C (Some n) flags (Some zero_BundleInfo) =
    Some (ERR_OK, Some (as_read (GetCopyBundleInfo flags b)))"
proof -
  let ?b = "GetCopyBundleInfo flags b"
  have r: "F_Invoke F k 1 (Some [IStr n, II32 flags]) (Some []) s [] = Some (0, Some [IU8 1, IU8 0, IStr t], [])"
    using C by (simp add: connected_def F_Invoke_def BundleMsInvokeFuc_def GetInnerBundleInfo_def
        MS_GetBundleInfo_registered[OF reg] pr put_u8_def put_def dispatch_end_def)
  have mi: "bi_moduleInfos ?b = Some [mi]" using b(3) by (simp add: GetCopyBundleInfo_def)
  have p: "io_ParseWithLength (ft_io F) u (length u) = Some root" if "io_PrintUnformatted (ft_io F) root = Some u" for root u
    using C that by (simp add: connected_def)
  have io: "cjson_io_ok (cl_json C) (y_mk (ft_sys F)) (ft_io F)" using C by (simp add: connected_def)
  have rd: "ConvertStringToBundleInfo plentiful (cl_json C) (ft_io F) (cl_casts C) (Some t) (length t) = Some (as_read ?b)"
    by (rule bundle_text_back[OF io seen_ok[OF b(1)] seen_ints[OF b(2)] mi b(4) pr p])
  have fl: "\<not> flags < 0" "\<not> 1 < flags" using flags by auto
  show ?thesis
    using C fl n rd r copy_as_read[OF b(1) flags]
    by (simp add: C_GetBundleInfo_def connected_def client_invoke_def answer_def C_Notify_def DeserializeInnerBundleInfo_def)
qed

lemma GetBundleInfo_unknown:
  assumes C: "connected C F k s" and "service_ok s" "registered s n = None" and n: "length n < 128"
    and flags: "flags = 0 \<or> flags = 1"
  shows "C_GetBundleInfo C (Some n) flags (Some out) = Some (ERR_QUERY_NO_INFOS, Some out)"
proof -
  have r: "F_Invoke F k 1 (Some [IStr n, II32 flags]) (Some []) s [] = Some (2, Some [IU8 1, IU8 2], [])"
    using C by (simp add: connected_def F_Invoke_def BundleMsInvokeFuc_def GetInnerBundleInfo_def
        MS_GetBundleInfo_unregistered[OF assms(2,3)] put_u8_def dispatch_end_def)
  have fl: "\<not> flags < 0" "\<not> 1 < flags" using flags by auto
  show ?thesis
    using C fl n r
    by (simp add: C_GetBundleInfo_def connected_def client_invoke_def answer_def C_Notify_def DeserializeInnerBundleInfo_def)
qed

section \<open>Requests to install and to remove\<close>

text \<open>
  The service that answers one message with the reply to the command; every other request fails.
\<close>

definition only :: "nat \<Rightarrow> ipc \<Rightarrow> bool \<Rightarrow> nat \<Rightarrow> ipc \<Rightarrow> bool \<times> ipc option" where
  "only f m = (\<lambda>inner f' m'. if inner \<and> f' = f \<and> m' = m then (True, Some [IU8 f]) else (False, None))"

text \<open>C9 A client that asks for an installation and a removal sends exactly the messages from which the service makes the
  requests with that package or bundle, that location or that choice about the data, and the client's identity; it is told
  that the request was taken.
\<close>

theorem requests_reach_service:
  assumes C: "cl_space C = plenty" "cl_granted C PERMISSION_INSTALL_BUNDLE" "cl_inner C"
    and E: "ce_alloc E = plentiful"
    and F: "ft_space F = plenty" "y_alloc (ft_sys F) = plentiful" "ft_send F = (\<lambda>_. True)"
    and args: "length path \<le> MAX_STR_SIZE" "length name < 128" "sc_svc c = None \<or> sc_svc c = Some (ce_self E)"
  shows "(let m = [IStr path, IRemote (ce_self E), II32 (ip_installLocation ip)] in
      C_Install (C\<lparr>cl_invoke := only INSTALL m\<rparr>) E (Some path) (Some ip) (Some f) c =
        Some (True, c\<lparr>sc_callback := Some f, sc_svc := Some (ce_self E)\<rparr>) \<and>
      Inner_Invoke F k INSTALL (Some m) (Some []) s q = Some (ERR_OK, Some [IU8 INSTALL],
        q @ [BUNDLE_INSTALLED (Some \<lparr>ri_path = Some path, ri_bundleName = None, ri_svc = Some (ce_self E),
               ri_installLocation = ip_installLocation ip, ri_keepData = False\<rparr>)])) \<and>
    (let m = [IStr name, IRemote (ce_self E), IBool (ip_keepData ip)] in
      C_Uninstall (C\<lparr>cl_invoke := only UNINSTALL m\<rparr>) E (Some name) (Some ip) (Some f) c =
        Some (True, c\<lparr>sc_callback := Some f, sc_svc := Some (ce_self E)\<rparr>) \<and>
      Inner_Invoke F k UNINSTALL (Some m) (Some []) s q = Some (ERR_OK, Some [IU8 UNINSTALL],
        q @ [BUNDLE_UNINSTALLED (Some \<lparr>ri_path = None, ri_bundleName = Some name, ri_svc = Some (ce_self E),
               ri_installLocation = 0, ri_keepData = ip_keepData ip\<rparr>)]))"
proof -
  have reg: "RegisterBundleSelfCallback E (Some f) c =
      (Some (ce_self E), c\<lparr>sc_callback := Some f, sc_svc := Some (ce_self E)\<rparr>)"
    using E args(3) by (cases c) (auto simp: RegisterBundleSelfCallback_def self_GenerateLocalServiceId_def plentiful_def Let_def)
  have "Strdup plentiful (Some path) = Some path" "Strdup plentiful (Some name) = Some name"
    using args(1,2) by (simp_all add: Strdup_plentiful fits_def)
  moreover have "\<not> 128 \<le> length name" using args(2) by simp
  ultimately show ?thesis
    using C F by (simp add: C_Install_def C_Uninstall_def reg client_invoke_def only_def C_Notify_def Inner_Invoke_def
        InnerInvokeFuc_def InstallInnerBundle_def UninstallInnerBundle_def GetSvcIdentityInfo_def SAMGR_SendRequest_def
        put_u8_def dispatch_end_def plenty_def plentiful_def Let_def io_write_def write_u8_def)
qed

section \<open>Observers\<close>

lemma transact_loop_all:
  "(\<And>t svc. y_ask y t (SendRequest svc code e (Some n))) \<Longrightarrow>
   sv_trace (transact_loop y svcs code e n s) = sv_trace s @ map (\<lambda>svc. SendRequest svc code e (Some n)) svcs"
  by (induction svcs arbitrary: s) (auto simp: do_call_def)

lemma AddCallbackServiceId_listed:
  "\<exists>ob \<in> set (mg_svcIdentity (AddCallbackServiceId svc g)). CompareServiceId ob svc"
  by (auto simp: AddCallbackServiceId_def list_ex_iff CompareServiceId_def)

lemma registered_callback_called:
  assumes "bc_callback c = None" "bundleName = None \<or> bundleName = Some n" "n \<noteq> []" "e < 256" "code = INSTALL_CALLBACK \<or> code = UNINSTALL_CALLBACK"
    and "RegisterBundleStateCallback E k (Some f) bundleName data c = (ERR_OK, c')"
  shows "state_Callback c' k' code (Some [II32 (int e), IStr n]) =
     (ERR_OK, Some (f, code, e, if e \<noteq> ERR_OK then ObtainErrorMessage e
                                 else if code = INSTALL_CALLBACK then INSTALL_SUCCESS else UNINSTALL_SUCCESS, n, data))"
proof -
  obtain ret c1 where g: "GenerateLocalServiceId E k c = (ret, c1)" by fastforce
  have "nat (int e mod 256) = e" using assms(4) by simp
  moreover have "bc_callback c1 = None"
    using g assms(1) by (auto simp: GenerateLocalServiceId_def TransmitServiceId_def Let_def split: if_splits prod.splits)
  ultimately show ?thesis
    using assms g
    by (auto simp: RegisterBundleStateCallback_def state_Callback_def InnerCallback_def GetCallbackInfoByName_def split: if_splits)
qed


end
