(* ===== verification/Api_Answers.thy ===== *)
theory Api_Answers
  imports Api_Correct
begin

text \<open>
  Every query gets a reply: with enough memory no request, whatever it holds, makes the service follow a null or a
  dangling pointer, read past an array or answer nothing.
\<close>

definition service_ready :: "service \<Rightarrow> bool" where
  "service_ready s \<longleftrightarrow> service_ok s \<and> (\<forall>b \<in> ran (registered s). BundleInfo_ok b) \<and> count_of (bm_list (sv_bundles s)) < 2 ^ 32"

section \<open>The registry read by a query\<close>

lemma query_info_ready:
  assumes "service_ready s"
  shows "\<exists>r. query_info n s = Some r \<and> (\<forall>b. r = Some b \<longrightarrow> BundleInfo_ok b)"
proof (cases n)
  case None
  then show ?thesis by (simp add: query_info_def QueryBundleInfo_def)
next
  case (Some m)
  from assms obtain as ps bs where inv: "bm_inv as ps bs (sv_bundles s)" by (auto simp: service_ready_def service_ok_def bm_ok_def)
  show ?thesis
  proof (cases "registered s m")
    case None
    with bm_look_None[OF inv] have "Get (Some m) (sv_bundles s) = Some None"
      by (simp add: registered_def Get_absent[OF inv])
    with Some show ?thesis by (simp add: query_info_def QueryBundleInfo_def)
  next
    case r: (Some b)
    then have "BundleInfo_ok b" using assms by (auto simp: service_ready_def intro: ranI)
    with Some r show ?thesis
      by (auto simp: registered_def bm_look_def query_info_def QueryBundleInfo_def info_at_def split: option.splits)
  qed
qed

lemma copy_ok:
  "BundleInfo_ok b \<Longrightarrow> BundleInfo_ok (the (CopyBundleInfo plentiful flags (Some zero_BundleInfo) b))"
  using seen_ok[of b 0] as_read_ok[of b] by (auto simp: CopyBundleInfo_faithful as_read_def GetCopyBundleInfo_def)

lemma GetBundleInfos_ready:
  assumes "service_ready s" "y_alloc y = plentiful"
  shows "\<exists>e infos. MS_GetBundleInfos y flags False s = Some (e, infos) \<and> (e = ERR_OK \<longrightarrow> infos \<noteq> None) \<and>
    (\<forall>bs. infos = Some bs \<longrightarrow> list_all BundleInfo_ok bs)"
proof -
  from assms(1) obtain as ps bs where inv: "bm_inv as ps bs (sv_bundles s)" by (auto simp: service_ready_def service_ok_def bm_ok_def)
  let ?copy = "\<lambda>b. the (CopyBundleInfo plentiful flags (Some zero_BundleInfo) b)"
  note len = place_length[OF inv]
  show ?thesis
  proof (cases "bs = []")
    case True
    have "dll (bm_list (sv_bundles s)) as (map Some ps)" using inv by (simp add: bm_inv_def)
    from IsEmpty_refines[OF this] True len have "IsEmpty (bm_list (sv_bundles s))" by auto
    with assms(2) show ?thesis by (simp add: MS_GetBundleInfos_def GetBundleInfos_def copy_all_def)
  next
    case False
    have "count_of (bm_list (sv_bundles s)) = int (length bs)" using inv len by (simp add: bm_inv_def dll_iff)
    with assms(1) have few: "length bs < 2 ^ 32" by (simp add: service_ready_def)
    have "ran (registered s) = set bs" using bm_look_ran[OF inv] by (simp add: registered_def)
    with assms(1) have "list_all BundleInfo_ok (map ?copy bs)"
      by (auto simp: list_all_iff service_ready_def copy_ok)
    with assms(2) copy_all_lists[OF inv False few, of ?copy] show ?thesis
      by (simp add: MS_GetBundleInfos_def GetBundleInfos_def)
  qed
qed

section \<open>Texts are made\<close>

lemma bind_ptr_defined: "\<exists>r. q = Some r \<Longrightarrow> (\<And>x. q = Some (Some x) \<Longrightarrow> \<exists>r. f x = Some r) \<Longrightarrow> \<exists>r. bind_ptr q f = Some r"
  by (auto simp: bind_ptr_def split: option.splits)

lemma GetJsonBundleInfo_defined:
  assumes "BundleInfo_ok b" shows "\<exists>r. GetJsonBundleInfo K X b = Some r"
proof -
  have m: "\<exists>r. ConvertModuleInfosToJson K X b x = Some r" for x
    using assms unfolding ConvertModuleInfosToJson_def
    by (auto simp: BundleInfo_ok_def array_ok_def GetJsonModuleInfos_def split: option.splits intro!: bind_ptr_defined)
  have a: "\<exists>r. ConvertAbilityInfosToJson K X b x = Some r" for x
    using assms unfolding ConvertAbilityInfosToJson_def
    by (auto simp: BundleInfo_ok_def array_ok_def GetJsonAbilityInfos_def split: option.splits intro!: bind_ptr_defined)
  show ?thesis
    unfolding GetJsonBundleInfo_def by (intro bind_ptr_defined m a) auto
qed

lemma ConvertBundleInfoToString_defined: "BundleInfo_ok b \<Longrightarrow> \<exists>r. ConvertBundleInfoToString K X (Some b) = Some r"
  unfolding ConvertBundleInfoToString_def by (intro bind_ptr_defined) (auto intro: GetJsonBundleInfo_defined)

lemma add_bundles_defined: "list_all BundleInfo_ok bs \<Longrightarrow> \<exists>r. add_bundles K X x bs = Some r"
proof (induction bs arbitrary: x)
  case (Cons b bs)
  then show ?case
    by (simp, intro bind_ptr_defined) (auto intro: GetJsonBundleInfo_defined)
qed simp

lemma ConvertBundleInfosToString_defined:
  assumes "list_all BundleInfo_ok bs" shows "\<exists>r. ConvertBundleInfosToString K X (Some bs) = Some r"
proof -
  have "\<exists>r. GetJsonBundleInfos K X bs = Some r"
    unfolding GetJsonBundleInfos_def by (intro bind_ptr_defined) (auto intro: add_bundles_defined[OF assms])
  then have "\<exists>r. bind_ptr (GetJsonBundleInfos K X bs) (\<lambda>roots. Some (io_PrintUnformatted X roots)) = Some r"
    by (intro bind_ptr_defined) auto
  then show ?thesis by (simp add: ConvertBundleInfosToString_def bind_ptr_def)
qed

section \<open>Selections\<close>

lemma filter_opt_defined:
  "(\<And>x. x \<in> set xs \<Longrightarrow> \<exists>b. P x = Some b) \<Longrightarrow> \<exists>ys. filter_opt P xs = Some ys \<and> set ys \<subseteq> set xs"
proof (induction xs)
  case (Cons x xs)
  then obtain b ys where "P x = Some b" "filter_opt P xs = Some ys" "set ys \<subseteq> set xs" by fastforce
  then show ?case by auto
qed simp

lemma CheckBundleInfo_defined: "BundleInfo_ok b \<Longrightarrow> \<exists>r. CheckBundleInfoWithSpecialMetaData b key = Some r"
  by (auto simp: CheckBundleInfoWithSpecialMetaData_def BundleInfo_ok_def array_ok_def split: option.splits)

lemma select_infos_ready:
  assumes "service_ready s" "y_alloc (ft_sys F) = plentiful" "\<And>b. BundleInfo_ok b \<Longrightarrow> \<exists>r. P b = Some r"
  shows "\<exists>e infos. select_infos F P s = Some (e, infos) \<and> (e = ERR_OK \<longrightarrow> infos \<noteq> None) \<and>
    (\<forall>bs. infos = Some bs \<longrightarrow> list_all BundleInfo_ok bs)"
proof -
  from GetBundleInfos_ready[OF assms(1,2), of 1] obtain e infos where
    q: "MS_GetBundleInfos (ft_sys F) 1 False s = Some (e, infos)" "\<And>bs. infos = Some bs \<Longrightarrow> list_all BundleInfo_ok bs" by blast
  define all where "all = (case infos of None \<Rightarrow> [] | Some bs \<Rightarrow> bs)"
  have "list_all BundleInfo_ok all" using q(2) by (simp add: all_def split: option.split)
  then obtain ys where ys: "filter_opt P all = Some ys" "set ys \<subseteq> set all"
    using filter_opt_defined[of all P] assms(3) by (auto simp: list_all_iff)
  have "list_all BundleInfo_ok (map (\<lambda>b. the (CopyBundleInfo plentiful 1 (Some zero_BundleInfo) b)) ys)"
    using ys(2) \<open>list_all BundleInfo_ok all\<close> by (auto simp: list_all_iff copy_ok)
  with q(1) ys(1) assms(2) show ?thesis
    by (auto simp: select_infos_def all_def[symmetric])
qed

section \<open>Handlers\<close>

text \<open>A handler is defined; on an error it has written nothing.\<close>

definition replies :: "ipc \<Rightarrow> handled \<Rightarrow> bool" where
  "replies r h \<longleftrightarrow> (\<exists>ret rest q. h = Some (ret, Some (r @ rest), q) \<and> (ret \<noteq> OHOS_SUCCESS \<longrightarrow> rest = []))"

lemma replies_error: "replies r (Some (ret, Some r, q))"
  by (auto simp: replies_def)

lemma replies_ok: "replies r (Some (OHOS_SUCCESS, Some (r @ rest), q))"
  by (auto simp: replies_def)

lemma fold_put: "ft_space F = plenty \<Longrightarrow> fold (\<lambda>c. put F (IStr c)) cs (Some r) = Some (r @ map IStr cs)"
  by (induction cs arbitrary: r) (auto simp: put_def)

lemma HandleGetBundleInfos_replies:
  assumes F: "ft_space F = plenty" "y_alloc (ft_sys F) = plentiful" and s: "service_ready s"
  shows "replies r (HandleGetBundleInfos F k f (Some m) (Some r) s q)"
proof -
  have made: "replies r (if e \<noteq> OHOS_SUCCESS then Some (e, Some r, q)
      else do {
        strs \<leftarrow> ConvertBundleInfosToString (y_mk (ft_sys F)) (ft_io F) infos;
        case strs of
          None \<Rightarrow> Some (ERR_SERIALIZATION_FAILED, Some r, q)
        | Some t \<Rightarrow> Some (OHOS_SUCCESS, put F (IStr t) (put F (II32 (int (length (the infos)))) (put_u8 F OHOS_SUCCESS (Some r))), q) })"
    if i: "e = ERR_OK \<longrightarrow> infos \<noteq> None" "\<forall>bs. infos = Some bs \<longrightarrow> list_all BundleInfo_ok bs" for e infos
  proof (cases "e = ERR_OK")
    case True
    with i obtain bs where bs: "infos = Some bs" "list_all BundleInfo_ok bs" by auto
    from ConvertBundleInfosToString_defined[OF bs(2)] obtain strs where
      "ConvertBundleInfosToString (y_mk (ft_sys F)) (ft_io F) (Some bs) = Some strs" by blast
    with True bs(1) F(1) show ?thesis
      by (cases strs) (auto simp: replies_error put_def put_u8_def replies_def)
  qed (simp add: replies_error)
  obtain e1 i1 where g1: "MS_GetBundleInfos (ft_sys F) (fst (ReadInt32 k m)) False s = Some (e1, i1)"
    "e1 = ERR_OK \<longrightarrow> i1 \<noteq> None" "\<forall>bs. i1 = Some bs \<longrightarrow> list_all BundleInfo_ok bs"
    using GetBundleInfos_ready[OF s F(2)] by blast
  obtain e2 i2 where g2: "F_QueryKeepAliveBundleInfos F s = Some (e2, i2)"
    "e2 = ERR_OK \<longrightarrow> i2 \<noteq> None" "\<forall>bs. i2 = Some bs \<longrightarrow> list_all BundleInfo_ok bs"
    unfolding F_QueryKeepAliveBundleInfos_def
    using select_infos_ready[OF s F(2), of "\<lambda>b. Some (bi_isKeepAlive b \<and> bi_isSystemApp b)"] by blast
  obtain e3 i3 where g3: "F_GetBundleInfosByMetaData F (fst (ReadString m)) s = Some (e3, i3)"
    "e3 = ERR_OK \<longrightarrow> i3 \<noteq> None" "\<forall>bs. i3 = Some bs \<longrightarrow> list_all BundleInfo_ok bs"
    unfolding F_GetBundleInfosByMetaData_def
    using select_infos_ready[OF s F(2), of "\<lambda>b. CheckBundleInfoWithSpecialMetaData b (fst (ReadString m))"]
    by (cases "fst (ReadString m) = None") (auto simp: CheckBundleInfo_defined)
  note m1 = made[OF g1(2,3)] and m2 = made[OF g2(2,3)] and m3 = made[OF g3(2,3)]
  have c3: "replies r (case fst (ReadString m) of None \<Rightarrow> Some (ERR_DESERIALIZATION_FAILED, Some r, q)
      | metaDataKey \<Rightarrow> Option.bind (F_GetBundleInfosByMetaData F metaDataKey s) (\<lambda>(errorCode, infos).
          if errorCode \<noteq> OHOS_SUCCESS then Some (errorCode, Some r, q)
          else do {
            strs \<leftarrow> ConvertBundleInfosToString (y_mk (ft_sys F)) (ft_io F) infos;
            case strs of
              None \<Rightarrow> Some (ERR_SERIALIZATION_FAILED, Some r, q)
            | Some t \<Rightarrow> Some (OHOS_SUCCESS,
                put F (IStr t) (put F (II32 (int (length (the infos)))) (put_u8 F OHOS_SUCCESS (Some r))), q) }))"
    using g3(1) m3 by (cases "fst (ReadString m)") (simp_all add: replies_error)
  show ?thesis
    unfolding HandleGetBundleInfos_def Let_def
    using m1 m2 c3 by (simp add: g1(1) g2(1) replies_error)
qed

lemma F_QueryAbilityInfo_defined:
  assumes "service_ready s" shows "\<exists>r. F_QueryAbilityInfo F e s = Some r"
proof (cases e)
  case None
  then show ?thesis by (simp add: F_QueryAbilityInfo_def)
next
  case (Some el)
  from query_info_ready[OF assms, of "el_bundleName el"] obtain r where
    r: "query_info (el_bundleName el) s = Some r" "\<And>b. r = Some b \<Longrightarrow> BundleInfo_ok b" by blast
  then show ?thesis
    using Some by (auto simp: F_QueryAbilityInfo_def BundleInfo_ok_def array_ok_def split: option.splits)
qed

lemma QueryInnerAbilityInfo_replies:
  assumes "ft_space F = plenty" "service_ready s"
  shows "replies r (QueryInnerAbilityInfo F k f (Some m) (Some r) s q)"
proof (cases "ft_want F m")
  case None
  then show ?thesis by (simp add: QueryInnerAbilityInfo_def replies_error)
next
  case (Some w)
  obtain e a where "F_QueryAbilityInfo F w s = Some (e, a)" using F_QueryAbilityInfo_defined[OF assms(2)] by fastforce
  with Some assms(1) show ?thesis
    by (auto simp: QueryInnerAbilityInfo_def put_def put_u8_def replies_def split: option.split)
qed

lemma GetInnerBundleInfo_replies:
  assumes "ft_space F = plenty" "service_ready s"
  shows "replies r (GetInnerBundleInfo F k f (Some m) (Some r) s q)"
proof (cases "fst (ReadString m)")
  case None
  then show ?thesis by (cases "ReadString m") (simp add: GetInnerBundleInfo_def replies_error)
next
  case (Some n)
  obtain fl m' where fl: "ReadInt32 k (snd (ReadString m)) = (fl, m')" by fastforce
  obtain e b where g: "MS_GetBundleInfo (Some n) fl zero_BundleInfo s = Some (e, b)" "BundleInfo_ok b \<or> e \<noteq> ERR_OK"
  proof (cases "registered s n")
    case None
    with that[of ERR_QUERY_NO_INFOS zero_BundleInfo] MS_GetBundleInfo_unregistered assms(2) show ?thesis
      by (simp add: service_ready_def)
  next
    case r: (Some b)
    then have "BundleInfo_ok b" using assms(2) by (auto simp: service_ready_def intro: ranI)
    with that[of ERR_OK "GetCopyBundleInfo fl b"] MS_GetBundleInfo_registered[OF r] seen_ok show ?thesis by simp
  qed
  have "\<exists>t. ConvertBundleInfoToString (y_mk (ft_sys F)) (ft_io F) (Some b) = Some t \<or> e \<noteq> ERR_OK"
    using g(2) ConvertBundleInfoToString_defined by blast
  with Some fl g(1) assms(1) show ?thesis
    by (cases "ReadString m") (auto simp: GetInnerBundleInfo_def put_def put_u8_def replies_def split: option.split)
qed

lemma GetInnerBundleSize_replies:
  assumes "ft_space F = plenty" "service_ready s"
  shows "replies r (GetInnerBundleSize F k f (Some m) (Some r) s q)"
proof -
  have folder: "\<exists>n. GetFileFolderSize a px dirs p = Some n" for a px dirs p
    using folder_loop_ends by (auto simp: GetFileFolderSize_def)
  have "\<exists>n. GetBundleSize (ft_sys F) name s = Some n" for name
  proof -
    from query_info_ready[OF assms(2), of name] obtain i where i: "query_info name s = Some i" by blast
    show ?thesis
    proof (cases i)
      case None
      with i show ?thesis by (simp add: GetBundleSize_def)
    next
      case (Some b)
      let ?folder = "GetFileFolderSize (y_alloc (ft_sys F)) (y_posix (ft_sys F) (sv_trace s)) (y_readdir (ft_sys F) (sv_trace s))"
      obtain c d where "?folder (bi_codePath b) = Some c" "?folder (bi_dataPath b) = Some d" using folder by meson
      with i Some show ?thesis by (auto simp: GetBundleSize_def Let_def)
    qed
  qed
  then obtain n where "\<And>name. GetBundleSize (ft_sys F) name s = Some (n name)" by metis
  with assms(1) show ?thesis
    by (auto simp: GetInnerBundleSize_def put_def put_u8_def replies_def split: option.split)
qed

lemma GetInnerBundleNameForUid_replies:
  assumes F: "ft_space F = plenty" "y_alloc (ft_sys F) = plentiful" and s: "service_ready s"
  shows "replies r (GetInnerBundleNameForUid F k f (Some m) (Some r) s q)"
proof -
  obtain e i where "MS_GetBundleInfos (ft_sys F) 0 False s = Some (e, i)"
    using GetBundleInfos_ready[OF s F(2), of 0] by blast
  then have "\<exists>x. F_GetBundleNameForUid F (fst (ReadInt32 k m)) s = Some x"
    by (cases "e = 0") (simp_all add: F_GetBundleNameForUid_def Let_def)
  then obtain e' n where "F_GetBundleNameForUid F (fst (ReadInt32 k m)) s = Some (e', n)" by auto
  with F(1) show ?thesis by (auto simp: GetInnerBundleNameForUid_def put_def put_u8_def replies_def)
qed

lemma small_handlers_reply:
  assumes F: "ft_space F = plenty"
  shows "replies r (ChangeInnerCallbackServiceId F k f (Some m) (Some r) s q)"
    and "replies r (F_HasSystemCapability F k f (Some m) (Some r) s q)"
    and "replies r (F_GetSystemAvailableCapabilities F k f (Some m) (Some r) s q)"
proof -
  show "replies r (ChangeInnerCallbackServiceId F k f (Some m) (Some r) s q)"
    by (auto simp: ChangeInnerCallbackServiceId_def replies_def Let_def split: prod.split option.split)
  show "replies r (F_HasSystemCapability F k f (Some m) (Some r) s q)"
    using F by (auto simp: F_HasSystemCapability_def put_u8_def replies_def split: option.split)
  show "replies r (F_GetSystemAvailableCapabilities F k f (Some m) (Some r) s q)"
    using F by (auto simp: F_GetSystemAvailableCapabilities_def put_u8_def replies_def put_def[of F] fold_put Let_def split: prod.split)
qed

lemma InvokeFuc_replies:
  assumes F: "ft_space F = plenty" "y_alloc (ft_sys F) = plentiful" and s: "service_ready s" and i: "i < 10"
  shows "replies r (BundleMsInvokeFuc i F k f (Some m) (Some r) s q)"
proof -
  from i have "i = 0 \<or> i = 1 \<or> i = 2 \<or> i = 3 \<or> i = 4 \<or> i = 5 \<or> i = 6 \<or> i = 7 \<or> i = 8 \<or> i = 9" by presburger
  then show ?thesis
    by (elim disjE) (simp_all add: BundleMsInvokeFuc_def HandleGetBundleInfos_replies[OF F s] QueryInnerAbilityInfo_replies[OF F(1) s]
        GetInnerBundleInfo_replies[OF F(1) s] GetInnerBundleSize_replies[OF F(1) s] GetInnerBundleNameForUid_replies[OF F s]
        small_handlers_reply[OF F(1)])
qed

text \<open>C8 Whatever function is asked for with whatever message, the reply begins with the number of the function; on an error
  only the code follows it.
\<close>

theorem queries_answered:
  assumes "ft_space F = plenty" "y_alloc (ft_sys F) = plentiful" "service_ready s"
  shows "\<exists>ret rest q'. F_Invoke F k funcId (Some m) (Some r) s q = Some (ret, Some (r @ IU8 (funcId mod 256) # rest), q') \<and>
    (ret \<noteq> OHOS_SUCCESS \<longrightarrow> rest = [IU8 (ret mod 256)])"
proof -
  let ?r = "r @ [IU8 (funcId mod 256)]"
  have fin: "\<exists>ret rest q'. dispatch_end F h = Some (ret, Some (?r @ rest), q') \<and> (ret \<noteq> OHOS_SUCCESS \<longrightarrow> rest = [IU8 (ret mod 256)])"
    if "replies ?r h" for h
    using that assms(1) by (auto simp: replies_def dispatch_end_def put_u8_def)
  define h where "h = (if funcId \<ge> 4 \<and> funcId \<le> 6 then BundleMsInvokeFuc 4 F k funcId (Some m) (Some ?r) s q
    else if funcId \<ge> 0 \<and> funcId \<le> 3 then BundleMsInvokeFuc funcId F k funcId (Some m) (Some ?r) s q
    else if funcId \<ge> 7 \<and> funcId \<le> 9 then BundleMsInvokeFuc funcId F k funcId (Some m) (Some ?r) s q
    else Some (ERR_COMMAND_ERROR, Some ?r, q))"
  have "F_Invoke F k funcId (Some m) (Some r) s q = dispatch_end F h"
    using assms(1) unfolding F_Invoke_def Let_def h_def by (simp only: put_u8_def io_plenty option.map option.simps if_False)
  moreover have "replies ?r h"
    unfolding h_def using InvokeFuc_replies[OF assms] by (auto simp: replies_error)
  ultimately have "\<exists>ret rest q'. F_Invoke F k funcId (Some m) (Some r) s q = Some (ret, Some (?r @ rest), q') \<and>
      (ret \<noteq> OHOS_SUCCESS \<longrightarrow> rest = [IU8 (ret mod 256)])"
    using fin[of h] by (simp only:)
  then show ?thesis by simp
qed

section \<open>On a concrete service\<close>

definition registry1 :: bundle_map where
  "registry1 = the (exec_ops new_info Add Update Erase [OpAdd bundle1] BundleMap_new)"

lemma registry1_facts:
  "bm_ok registry1" "bm_look registry1 = (\<lambda>_. None)(''b'' \<mapsto> bundle1)" "count_of (bm_list registry1) = 1"
proof -
  obtain bm where bm: "exec_ops new_info Add Update Erase [OpAdd bundle1] BundleMap_new = Some bm"
    "bm_ok bm" "bm_look bm = spec_ops [OpAdd bundle1] (bm_look BundleMap_new)"
    using bm.ops_refine[OF bm_ok_new] by blast
  then show ok: "bm_ok registry1" "bm_look registry1 = (\<lambda>_. None)(''b'' \<mapsto> bundle1)"
    by (simp_all add: registry1_def bm_look_new spec_ops_def with_name_def bundle1_def)
  obtain as ps bs where inv: "bm_inv as ps bs registry1" using ok(1) by (auto simp: bm_ok_def)
  have "set bs = {bundle1}" using bm_look_ran[OF inv] ok(2) by simp
  moreover have "distinct bs" using inv by (auto simp: bm_inv_def distinct_map)
  ultimately have "length bs = 1" by (metis distinct_card card_1_singleton_iff One_nat_def)
  then show "count_of (bm_list registry1) = 1"
    using inv place_length[OF inv] by (simp add: bm_inv_def dll_iff)
qed

definition service1 :: service where
  "service1 = new_service\<lparr>sv_bundles := registry1\<rparr>"

definition feature1 :: "js feature" where
  "feature1 = \<lparr>ft_sys = js_system (\<lambda>_. None), ft_io = io1, ft_space = plenty, ft_want = (\<lambda>_. None),
     ft_hasCap = (\<lambda>_. True), ft_caps = (0, []), ft_send = (\<lambda>_. True)\<rparr>"

definition stack0 :: stack where
  "stack0 = \<lparr>st_u8 = 0, st_u16 = 0, st_u32 = 0, st_int = 0, st_bool = False\<rparr>"

definition client1 :: "js client" where
  "client1 = \<lparr>cl_alloc = plentiful, cl_json = js_api, cl_io = io1, cl_casts = casts0, cl_stack = stack0, cl_space = plenty,
     cl_granted = (\<lambda>_. True), cl_bms = True, cl_inner = True,
     cl_invoke = (\<lambda>_ f m. answer (F_Invoke feature1 stack0 f (Some m) (Some []) service1 [])), cl_want = (\<lambda>_ _. None)\<rparr>"

definition stub1 :: SvcIdentity where
  "stub1 = \<lparr>svc_handle = -1, svc_token = 7\<rparr>"

definition callbacks1 :: callback_env where
  "callbacks1 = \<lparr>ce_alloc = plentiful, ce_space = plenty, ce_client = True,
     ce_invoke = (\<lambda>f m. answer (F_Invoke feature1 stack0 f (Some m) (Some []) service1 [])), ce_self = stub1\<rparr>"

lemma registered1: "registered service1 ''b'' = Some bundle1"
  by (simp add: registered_def service1_def registry1_facts)

lemma bundle1_ok: "BundleInfo_ok bundle1" "BundleInfo_ints bundle1" "bi_moduleInfos bundle1 = Some [module1]"
  "ModuleInfo_packed module1"
  by code_simp+

lemma connected1: "connected client1 feature1 stack0 service1"
proof -
  have "cjson_io_ok js_api (js_mk (\<lambda>_. Some ''{}'') (\<lambda>_. None)) io1" unfolding io1_def by (rule js_io_ok)
  then show ?thesis
    by (simp add: connected_def client1_def feature1_def js_system_def) (simp add: io1_def js_io_def)
qed

theorem GetBundleInfo_end_to_end_witness:
  "C_GetBundleInfo client1 (Some ''b'') 1 (Some zero_BundleInfo) = Some (ERR_OK, Some (as_read bundle1))"
proof -
  have "GetJsonBundleInfo (js_mk (\<lambda>_. Some ''{}'') (\<lambda>_. None)) io1 bundle1 = Some (Some doc1)"
    unfolding doc1_def io1_def by code_simp
  then have t: "ConvertBundleInfoToString (y_mk (ft_sys feature1)) (ft_io feature1) (Some (GetCopyBundleInfo 1 bundle1)) = Some (Some ''t'')"
    by (simp add: ConvertBundleInfoToString_def bind_ptr_def feature1_def js_system_def GetCopyBundleInfo_def)
      (simp add: io1_def js_io_def)
  from GetBundleInfo_end_to_end[OF connected1 registered1 _ _ bundle1_ok t] show ?thesis
    by (simp add: GetCopyBundleInfo_def)
qed

theorem requests_reach_service_witness:
  "Inner_Invoke feature1 stack0 INSTALL (Some [IStr ''/a.hap'', IRemote stub1, II32 1]) (Some []) service1 [] =
     Some (ERR_OK, Some [IU8 INSTALL],
       [BUNDLE_INSTALLED (Some \<lparr>ri_path = Some ''/a.hap'', ri_bundleName = None, ri_svc = Some stub1,
          ri_installLocation = 1, ri_keepData = False\<rparr>)])"
  using requests_reach_service[of client1 callbacks1 feature1 "''/a.hap''" "''b''" BundleSelfCallback_new
      "\<lparr>ip_installLocation = 1, ip_keepData = False\<rparr>" "()" stack0 service1 "[]"]
  by (simp add: client1_def callbacks1_def feature1_def js_system_def BundleSelfCallback_new_def Let_def)


theorem queries_answered_witness:
  "\<exists>ret rest q'. F_Invoke feature1 stack0 6 (Some [IBool True]) (Some []) service1 [] = Some (ret, Some (IU8 6 # rest), q')"
proof -
  have "BundleInfo_ok bundle1" by (rule bundle1_ok)
  then have "service_ready service1"
    by (simp add: service_ready_def service_ok_def service1_def registry1_facts registered_def)
  from queries_answered[OF _ _ this, of feature1 stack0 6 "[IBool True]" "[]" "[]"] show ?thesis
    by (auto simp: feature1_def js_system_def)
qed

text \<open>
  A client has one stub and one function for all its requests: once a second request gave another function, that one
  is also called with the result of the first.
\<close>

theorem second_request_takes_over:
  assumes "RegisterBundleSelfCallback E (Some f1) c = (Some svc1, c1)" "RegisterBundleSelfCallback E (Some f2) c1 = (r2, c2)"
  shows "r2 = Some svc1 \<and> (\<forall>k code d. case snd (self_Callback c2 k code d) of None \<Rightarrow> True | Some (f, _) \<Rightarrow> f = f2)"
proof -
  from assms have "r2 = Some svc1 \<and> sc_callback c2 = Some f2"
    by (auto simp: RegisterBundleSelfCallback_def self_GenerateLocalServiceId_def Let_def split: if_splits prod.splits)
  then show ?thesis
    by (auto simp: self_Callback_def self_InnerCallback_def Let_def split: option.split prod.split)
qed

theorem second_request_takes_over_witness:
  "\<exists>c1 c2. RegisterBundleSelfCallback callbacks1 (Some ''f1'') BundleSelfCallback_new = (Some stub1, c1) \<and>
     RegisterBundleSelfCallback callbacks1 (Some ''f2'') c1 = (Some stub1, c2) \<and>
     self_Callback c2 stack0 INSTALL_CALLBACK (Some [II32 0]) = (ERR_OK, Some (''f2'', ERR_OK, INSTALL_SUCCESS))"
proof -
  let ?c1 = "\<lparr>sc_callback = Some ''f1'', sc_svc = Some stub1\<rparr>"
  have 1: "RegisterBundleSelfCallback callbacks1 (Some ''f1'') BundleSelfCallback_new = (Some stub1, ?c1)"
    by (simp add: RegisterBundleSelfCallback_def BundleSelfCallback_new_def self_GenerateLocalServiceId_def callbacks1_def plentiful_def)
  obtain r2 c2 where 2: "RegisterBundleSelfCallback callbacks1 (Some ''f2'') ?c1 = (r2, c2)" by fastforce
  from second_request_takes_over[OF 1 2] have "r2 = Some stub1" by simp
  moreover have "self_Callback c2 stack0 INSTALL_CALLBACK (Some [II32 0]) = (ERR_OK, Some (''f2'', ERR_OK, INSTALL_SUCCESS))"
    using 2 by (auto simp: RegisterBundleSelfCallback_def self_Callback_def self_InnerCallback_def)
  ultimately show ?thesis using 1 2 by blast
qed

end
