(* ===== verification/Daemon_Client.thy ===== *)
theory Daemon_Client
  imports Daemon
begin

text \<open>
  How the service waits for the bundle daemon: the part of \<^verbatim>\<open>services/bundlemgr_lite/src/bundle_daemon_client.cpp\<close> that is
  concurrent (build without \<open>__LINUX__\<close>). A call sends its request under the mutex and waits for the semaphore, which the
  daemon's answer posts from another thread; the death of the daemon posts it too, and starts a thread that registers
  the client with the new daemon.

  The interleavings are the steps of a relation. A request is a function call with a number, or the registration; the
  daemon takes requests in their order, answers a call with \<open>ans\<close> of its number if it knows the client, and drops it
  otherwise (\<^verbatim>\<open>bundle_daemon.cpp\<close> returns without a reply). \<open>sem_getvalue\<close> with \<open>sem_post\<close> is one step. A request the IPC
  library does not deliver never reaches the daemon.
\<close>

section \<open>The client's state\<close>

datatype bds_request = Register | Function nat

text \<open>The holder of the mutex: waiting, past the semaphore, or with the result read.\<close>

datatype wait = Waiting bds_request | Woken bds_request | Took bds_request ec

record daemon_client =
  dc_sem :: nat
  dc_result :: ec
  dc_holder :: "wait option"
  dc_inflight :: "bds_request list"
  dc_known :: bool
  dc_notices :: nat
  dc_threads :: nat
  dc_log :: "(bds_request \<times> ec) list"

text \<open>\<open>result_\<close> is written and the semaphore raised unless it is up.\<close>

definition post_result :: "ec \<Rightarrow> daemon_client \<Rightarrow> daemon_client" where
  "post_result e d = d\<lparr>dc_result := e, dc_sem := (if dc_sem d = 0 then 1 else dc_sem d)\<rparr>"

definition BundleDaemonCallback :: "ec \<Rightarrow> daemon_client \<Rightarrow> daemon_client" where
  "BundleDaemonCallback e d = post_result e d"

text \<open>The two parts of the death callback: with a thread, which will register again, and without.\<close>

definition DeathCallback :: "bool \<Rightarrow> daemon_client \<Rightarrow> daemon_client" where
  "DeathCallback created d =
     (if created then d\<lparr>dc_notices := dc_notices d + 1\<rparr> else post_result EC_CANCELED d)"

definition death_notice :: "daemon_client \<Rightarrow> daemon_client" where
  "death_notice d = post_result EC_CANCELED (d\<lparr>dc_notices := dc_notices d - 1, dc_threads := dc_threads d + 1\<rparr>)"

text \<open>Sending, and the three parts of \<open>WaitResultSync\<close> after a delivery.\<close>

definition deliver :: "bds_request \<Rightarrow> daemon_client \<Rightarrow> daemon_client" where
  "deliver r d = d\<lparr>dc_inflight := dc_inflight d @ [r], dc_holder := Some (Waiting r)\<rparr>"

definition wait_sem :: "bds_request \<Rightarrow> daemon_client \<Rightarrow> daemon_client" where
  "wait_sem r d = d\<lparr>dc_sem := dc_sem d - 1, dc_holder := Some (Woken r)\<rparr>"

definition read_result :: "bds_request \<Rightarrow> daemon_client \<Rightarrow> daemon_client" where
  "read_result r d = d\<lparr>dc_holder := Some (Took r (dc_result d))\<rparr>"

definition return_result :: "bds_request \<Rightarrow> ec \<Rightarrow> daemon_client \<Rightarrow> daemon_client" where
  "return_result r e d = d\<lparr>dc_result := EC_FAILURE, dc_holder := None, dc_log := dc_log d @ [(r, e)]\<rparr>"

text \<open>After \<open>Initialize\<close> has registered the client.\<close>

definition initialized :: daemon_client where
  "initialized = \<lparr>dc_sem = 0, dc_result = EC_FAILURE, dc_holder = None, dc_inflight = [], dc_known = True,
     dc_notices = 0, dc_threads = 0, dc_log = []\<rparr>"

section \<open>Steps\<close>

inductive calm_step :: "(nat \<Rightarrow> ec) \<Rightarrow> daemon_client \<Rightarrow> daemon_client \<Rightarrow> bool" for ans where
  call: "dc_holder d = None \<Longrightarrow> calm_step ans d (deliver (Function n) d)"
| answer_call: "dc_inflight d = Function n # rs \<Longrightarrow> dc_known d \<Longrightarrow>
    calm_step ans d (BundleDaemonCallback (ans n) (d\<lparr>dc_inflight := rs\<rparr>))"
| wake: "dc_holder d = Some (Waiting r) \<Longrightarrow> dc_sem d > 0 \<Longrightarrow> calm_step ans d (wait_sem r d)"
| take_result: "dc_holder d = Some (Woken r) \<Longrightarrow> calm_step ans d (read_result r d)"
| return: "dc_holder d = Some (Took r e) \<Longrightarrow> calm_step ans d (return_result r e d)"

text \<open>The daemon dies, its requests with it; later the client hears of it and registers with the next one.\<close>

inductive step :: "(nat \<Rightarrow> ec) \<Rightarrow> daemon_client \<Rightarrow> daemon_client \<Rightarrow> bool" for ans where
  calm: "calm_step ans d d' \<Longrightarrow> step ans d d'"
| die: "step ans d (DeathCallback created (d\<lparr>dc_inflight := [], dc_known := False\<rparr>))"
| notice: "dc_notices d > 0 \<Longrightarrow> step ans d (death_notice d)"
| register: "dc_threads d > 0 \<Longrightarrow> dc_holder d = None \<Longrightarrow> step ans d (deliver Register (d\<lparr>dc_threads := dc_threads d - 1\<rparr>))"
| answer_register: "dc_inflight d = Register # rs \<Longrightarrow>
    step ans d (BundleDaemonCallback EC_SUCCESS (d\<lparr>dc_inflight := rs, dc_known := True\<rparr>))"
| drop: "dc_inflight d = Function n # rs \<Longrightarrow> \<not> dc_known d \<Longrightarrow> step ans d (d\<lparr>dc_inflight := rs\<rparr>)"

inductive_cases calm_stepE: "calm_step ans d d'"

definition calm_run :: "(nat \<Rightarrow> ec) \<Rightarrow> daemon_client \<Rightarrow> daemon_client \<Rightarrow> bool" where
  "calm_run ans = (calm_step ans)\<^sup>*\<^sup>*"

definition run :: "(nat \<Rightarrow> ec) \<Rightarrow> daemon_client \<Rightarrow> daemon_client \<Rightarrow> bool" where
  "run ans = (step ans)\<^sup>*\<^sup>*"

section \<open>While the daemon lives\<close>

text \<open>The semaphore is up exactly while an answer waits to be fetched.\<close>

definition dc_inv :: "(nat \<Rightarrow> ec) \<Rightarrow> daemon_client \<Rightarrow> bool" where
  "dc_inv ans d \<longleftrightarrow> dc_known d \<and>
     (case dc_holder d of
        None \<Rightarrow> dc_sem d = 0 \<and> dc_inflight d = []
      | Some (Waiting r) \<Rightarrow> (\<exists>n. r = Function n \<and>
          (dc_sem d = 0 \<and> dc_inflight d = [r] \<or> dc_sem d = 1 \<and> dc_inflight d = [] \<and> dc_result d = ans n))
      | Some (Woken r) \<Rightarrow> (\<exists>n. r = Function n \<and> dc_sem d = 0 \<and> dc_inflight d = [] \<and> dc_result d = ans n)
      | Some (Took r e) \<Rightarrow> (\<exists>n. r = Function n \<and> dc_sem d = 0 \<and> dc_inflight d = [] \<and> e = ans n)) \<and>
     (\<forall>(r, e) \<in> set (dc_log d). \<exists>n. r = Function n \<and> e = ans n)"

lemma dc_inv_step: "calm_step ans d d' \<Longrightarrow> dc_inv ans d \<Longrightarrow> dc_inv ans d'"
  by (erule calm_stepE)
    (auto simp: dc_inv_def deliver_def BundleDaemonCallback_def post_result_def wait_sem_def read_result_def
      return_result_def split: option.splits wait.splits)

lemma dc_inv_run:
  assumes "calm_run ans initialized d" shows "dc_inv ans d"
  using assms unfolding calm_run_def
proof (induction rule: rtranclp_induct)
  case base
  show ?case by (simp add: dc_inv_def initialized_def)
next
  case (step d d')
  then show ?case by (blast intro: dc_inv_step)
qed

text \<open>C17 As long as the daemon lives, every call returns the daemon's answer to that call, the semaphore is at most 1, and a
  call in progress can always go on: to the answer, past the semaphore, or to its return.
\<close>

theorem calls_get_their_answers:
  assumes "calm_run ans initialized d"
  shows "list_all (\<lambda>(r, e). \<exists>n. r = Function n \<and> e = ans n) (dc_log d) \<and> dc_sem d \<le> 1 \<and> Ex (calm_step ans d)"
proof -
  have i: "dc_inv ans d" using assms by (rule dc_inv_run)
  have "Ex (calm_step ans d)"
  proof (cases "dc_holder d")
    case None
    then show ?thesis by (blast intro: calm_step.call)
  next
    case (Some w)
    show ?thesis
    proof (cases w)
      case (Waiting r)
      with Some i obtain n where n: "r = Function n"
        and or: "dc_sem d = 0 \<and> dc_inflight d = [r] \<or> dc_sem d = 1" "dc_known d"
        by (auto simp: dc_inv_def)
      from or(1) show ?thesis
      proof
        assume a: "dc_sem d = 0 \<and> dc_inflight d = [r]"
        show ?thesis by (rule exI, rule calm_step.answer_call[of d n "[]"]) (use a n or in simp_all)
      next
        assume "dc_sem d = 1"
        then show ?thesis using Some Waiting by (intro exI[of _ "wait_sem r d"] calm_step.wake) simp_all
      qed
    next
      case (Woken r)
      then show ?thesis using Some by (intro exI[of _ "read_result r d"] calm_step.take_result) simp
    next
      case (Took r e)
      then show ?thesis using Some by (intro exI[of _ "return_result r e d"] calm_step.return) simp
    qed
  qed
  with i show ?thesis
    by (auto simp: dc_inv_def list_all_iff split: option.splits wait.splits)
qed

text \<open>Each call can come to its end, with its answer.\<close>

lemma one_call:
  assumes "dc_inv ans d" "dc_holder d = None"
  shows "calm_run ans d (d\<lparr>dc_result := EC_FAILURE, dc_log := dc_log d @ [(Function n, ans n)]\<rparr>)"
proof -
  have s: "dc_sem d = 0" "dc_inflight d = []" "dc_known d" using assms by (auto simp: dc_inv_def)
  let ?d1 = "deliver (Function n) d" let ?d2 = "BundleDaemonCallback (ans n) (?d1\<lparr>dc_inflight := []\<rparr>)"
  let ?d3 = "wait_sem (Function n) ?d2" let ?d4 = "read_result (Function n) ?d3"
  let ?d5 = "return_result (Function n) (ans n) ?d4"
  have "calm_step ans d ?d1" by (rule calm_step.call[OF assms(2)])
  moreover have "calm_step ans ?d1 ?d2" by (rule calm_step.answer_call) (simp_all add: deliver_def s)
  moreover have "calm_step ans ?d2 ?d3"
    by (rule calm_step.wake) (simp_all add: deliver_def BundleDaemonCallback_def post_result_def s)
  moreover have "calm_step ans ?d3 ?d4" by (rule calm_step.take_result) (simp add: wait_sem_def)
  moreover have "calm_step ans ?d4 ?d5"
    by (rule calm_step.return) (simp add: read_result_def wait_sem_def BundleDaemonCallback_def post_result_def)
  ultimately have "calm_run ans d ?d5"
    unfolding calm_run_def by (meson rtranclp.rtrancl_into_rtrancl rtranclp.rtrancl_refl)
  moreover have "?d5 = d\<lparr>dc_result := EC_FAILURE, dc_log := dc_log d @ [(Function n, ans n)]\<rparr>"
    by (simp add: return_result_def read_result_def wait_sem_def BundleDaemonCallback_def post_result_def deliver_def s
      assms(2)[symmetric])
  ultimately show ?thesis by simp
qed

lemma calls_get_their_answers_witness:
  "\<exists>d. dc_log d = [(Function 7, EC_NODIR)] \<and>
     list_all (\<lambda>(r, e). \<exists>n. r = Function n \<and> e = EC_NODIR) (dc_log d) \<and> dc_sem d \<le> 1 \<and> Ex (calm_step (\<lambda>n. EC_NODIR) d)"
proof -
  let ?d = "initialized\<lparr>dc_result := EC_FAILURE, dc_log := [(Function 7, EC_NODIR)]\<rparr>"
  have "dc_inv (\<lambda>n. EC_NODIR) initialized" "dc_holder initialized = None" "dc_log initialized = []"
    by (simp_all add: dc_inv_def initialized_def)
  from one_call[OF this(1,2), of 7] this(3) have "calm_run (\<lambda>n. EC_NODIR) initialized ?d" by simp
  from calls_get_their_answers[OF this] show ?thesis by (intro exI[of _ ?d]) simp
qed

section \<open>After the daemon has died\<close>

lemmas client_defs = deliver_def wait_sem_def read_result_def return_result_def BundleDaemonCallback_def
  post_result_def DeathCallback_def death_notice_def

text \<open>A client between two calls, with the semaphore up for the answer \<open>e\<close>, which no one waits for.\<close>

definition late :: "ec \<Rightarrow> (bds_request \<times> ec) list \<Rightarrow> daemon_client \<Rightarrow> bool" where
  "late e l d \<longleftrightarrow> dc_holder d = None \<and> dc_sem d = 1 \<and> dc_result d = e \<and> dc_inflight d = [] \<and> dc_known d \<and>
     dc_log d = l"

lemma run_step: "step ans d d' \<Longrightarrow> run ans d' d'' \<Longrightarrow> run ans d d''"
  unfolding run_def by (rule converse_rtranclp_into_rtranclp)

lemma run_refl: "run ans d d"
  unfolding run_def by simp

lemma run_trans: "run ans d d' \<Longrightarrow> run ans d' d'' \<Longrightarrow> run ans d d''"
  unfolding run_def by (rule rtranclp_trans)

text \<open>A call that finds the semaphore up returns before the daemon has taken its request.\<close>

lemma late_call:
  assumes "late e l d"
  shows "\<exists>d'. run ans d d' \<and> late (ans n) (l @ [(Function n, e)]) d'"
proof -
  let ?d1 = "deliver (Function n) d" let ?d2 = "wait_sem (Function n) ?d1" let ?d3 = "read_result (Function n) ?d2"
  let ?d4 = "return_result (Function n) e ?d3" let ?d5 = "BundleDaemonCallback (ans n) (?d4\<lparr>dc_inflight := []\<rparr>)"
  note l = assms[unfolded late_def]
  have "step ans d ?d1" by (intro step.calm calm_step.call) (use l in simp)
  moreover have "step ans ?d1 ?d2" by (intro step.calm calm_step.wake) (use l in \<open>simp_all add: client_defs\<close>)
  moreover have "step ans ?d2 ?d3" by (intro step.calm calm_step.take_result) (simp add: client_defs)
  moreover have "step ans ?d3 ?d4" by (intro step.calm calm_step.return) (use l in \<open>simp add: client_defs\<close>)
  moreover have "step ans ?d4 ?d5" by (intro step.calm calm_step.answer_call) (use l in \<open>simp_all add: client_defs\<close>)
  ultimately have "run ans d ?d5" by (blast intro: run_step run_refl)
  moreover have "late (ans n) (l @ [(Function n, e)]) ?d5" using l by (simp add: late_def client_defs)
  ultimately show ?thesis by blast
qed

text \<open>The daemon dies while no call waits: the notice leaves the semaphore up, and the registration takes it.\<close>

lemma death_between_calls:
  "\<exists>d. run ans initialized d \<and> late EC_SUCCESS [(Register, EC_CANCELED)] d"
proof -
  let ?d1 = "DeathCallback True (initialized\<lparr>dc_inflight := [], dc_known := False\<rparr>)" let ?d2 = "death_notice ?d1"
  let ?d3 = "deliver Register (?d2\<lparr>dc_threads := dc_threads ?d2 - 1\<rparr>)" let ?d4 = "wait_sem Register ?d3"
  let ?d5 = "read_result Register ?d4" let ?d6 = "return_result Register EC_CANCELED ?d5"
  let ?d7 = "BundleDaemonCallback EC_SUCCESS (?d6\<lparr>dc_inflight := [], dc_known := True\<rparr>)"
  note defs = client_defs initialized_def
  have "step ans initialized ?d1" by (rule step.die)
  moreover have "step ans ?d1 ?d2" by (rule step.notice) (simp add: defs)
  moreover have "step ans ?d2 ?d3" by (rule step.register) (simp_all add: defs)
  moreover have "step ans ?d3 ?d4" by (intro step.calm calm_step.wake) (simp_all add: defs)
  moreover have "step ans ?d4 ?d5" by (intro step.calm calm_step.take_result) (simp add: defs)
  moreover have "step ans ?d5 ?d6" by (intro step.calm calm_step.return) (simp add: defs)
  moreover have "step ans ?d6 ?d7" by (rule step.answer_register) (simp add: defs)
  ultimately have "run ans initialized ?d7" by (blast intro: run_step run_refl)
  moreover have "late EC_SUCCESS [(Register, EC_CANCELED)] ?d7" by (simp add: late_def defs)
  ultimately show ?thesis by blast
qed

lemma late_calls:
  "late e l d \<Longrightarrow> \<exists>d'. run ans d d' \<and> dc_holder d' = None \<and> dc_log d' = l @ zip (map Function ns) (e # map ans ns)"
proof (induction ns arbitrary: e l d)
  case Nil
  then show ?case by (intro exI[of _ d]) (simp add: run_refl late_def)
next
  case (Cons n ns)
  obtain d1 where 1: "run ans d d1" "late (ans n) (l @ [(Function n, e)]) d1" using late_call[OF Cons.prems] by blast
  obtain d2 where "run ans d1 d2" "dc_holder d2 = None"
      "dc_log d2 = (l @ [(Function n, e)]) @ zip (map Function ns) (ans n # map ans ns)"
    using Cons.IH[OF 1(2)] by blast
  with 1(1) show ?case by (intro exI[of _ d2]) (auto intro: run_trans)
qed

text \<open>The daemon dies between two calls and the client registers again. There is an interleaving, for any calls that follow, in which
  the registration is told \<open>EC_CANCELED\<close>, and each call returns the answer to the request before it.
\<close>

theorem answers_late_after_death:
  "\<exists>d. run ans initialized d \<and> dc_holder d = None \<and>
     dc_log d = (Register, EC_CANCELED) # zip (map Function ns) (EC_SUCCESS # map ans ns)"
proof -
  obtain d where d: "run ans initialized d" "late EC_SUCCESS [(Register, EC_CANCELED)] d"
    using death_between_calls by blast
  with late_calls[OF d(2), of ans ns] show ?thesis by (auto intro: run_trans)
qed

end
