(* ===== verification/Command_Parser.thy ===== *)
theory Command_Parser
  imports Bundle_Client
begin

text \<open>
  \<^verbatim>\<open>services/bundlemgr_lite/tools/src/command_parser.cpp\<close>: the tool \<open>bm\<close>, which parses its command line, asks the service
  through the interface of \<^verbatim>\<open>bundle_manager.cpp\<close> and prints what it gets. The parameters are the libraries: \<open>tl_getopt\<close> is
  the options \<open>getopt_long_only\<close> returns one after the other, with their arguments, for a table of options and a command
  line; \<open>tl_answer\<close> is the request the service makes of the tool's function, if any, after a request for a package or bundle.
  The build is the release build, which has no command \<open>set\<close>. Strings are shorter than \<open>2 ^ 31\<close>. \<open>None\<close> is an undefined
  access.
\<close>

type_synonym option_table = "(string \<times> bool \<times> char) list"

record 'j tool =
  tl_client :: "'j client"
  tl_mk :: "'j cjson_mk"
  tl_callbacks :: callback_env
  tl_api :: bool
  tl_interface :: bool
  tl_getopt :: "string \<Rightarrow> option_table \<Rightarrow> string list \<Rightarrow> (char \<times> cstr) list"
  tl_realpath :: "string \<Rightarrow> cstr"
  tl_sem_init :: bool
  tl_recipient :: bool
  tl_answer :: "cstr \<Rightarrow> (nat \<times> ipc option) option"
  tl_udid :: "int \<times> string"

text \<open>What has been printed, whether a wait for the semaphore did not end, and the function that is told.\<close>

record tool_run =
  tr_out :: string
  tr_stuck :: bool
  tr_self :: "string self_callback"

abbreviation (input) "MIN_ARGUMENT_NUMBER \<equiv> 2 :: nat"
abbreviation (input) "MAX_ARGUMENT_NUMBER \<equiv> 4 :: nat"
abbreviation (input) "MAX_LOG_LEN \<equiv> 1024 :: nat"
abbreviation (input) "MAX_DUMP_LIST_NUMBER \<equiv> 3 :: nat"

section \<open>Texts\<close>

abbreviation (input) "NL \<equiv> CHR 0x0A"
abbreviation (input) "TAB \<equiv> CHR 0x09"

definition INSTALL_HELP_MESSAGE :: string where
  "INSTALL_HELP_MESSAGE = ''Usage: install hap-path [options]'' @ NL # ''Description:'' @ NL #
     TAB # ''--help|-h                   help menu'' @ NL #
     TAB # ''--happath|-p           location of the hap to install'' @ [NL]"

definition UNINSTALL_HELP_MESSAGE :: string where
  "UNINSTALL_HELP_MESSAGE = ''Usage: uninstall bundle-name [options]'' @ NL # ''Description:'' @ NL #
     TAB # ''--help|-h                   help menu'' @ NL #
     TAB # ''--bundlename|-n           name of the bundle to uninstall'' @ [NL]"

definition DUMP_HELP_MESSAGE :: string where
  "DUMP_HELP_MESSAGE = ''Usage: dump [options]'' @ NL # ''Option Description:'' @ NL #
     TAB # ''--help|-h                   help menu'' @ NL #
     TAB # ''--list|-l                   app list'' @ NL #
     TAB # ''--bundlename|-n           dump installed hap's info'' @ NL #
     TAB # ''--metadatakey|-m           dump bundleNames match metaData key'' @ [NL]"

definition ENABLE_HELP_MESSAGE :: string where
  "ENABLE_HELP_MESSAGE = ''Usage: set [options]'' @ NL # ''Option Description:'' @ NL #
     TAB # ''--externalmode|-e status    enable externalmode'' @ NL #
     TAB # ''--debugmode|-d  status      enable debugmode'' @ NL #
     TAB # ''--signmode|-s  status      enable signmode'' @ [NL]"

definition HELP_MESSAGE :: string where
  "HELP_MESSAGE = INSTALL_HELP_MESSAGE @ UNINSTALL_HELP_MESSAGE @ DUMP_HELP_MESSAGE @ ENABLE_HELP_MESSAGE"

definition ERROR_COMMAND :: string where "ERROR_COMMAND = ''error command!'' @ [NL]"
definition ERROR_OPTION :: string where "ERROR_OPTION = ''error option!'' @ [NL]"
definition ERROR_INSTALL_PATH :: string where "ERROR_INSTALL_PATH = ''invalid path!'' @ [NL]"
definition ERROR_EXTRA_PARAMETER :: string where "ERROR_EXTRA_PARAMETER = ''extra parameter!'' @ [NL]"
definition ERROR_SEM_ERROR :: string where "ERROR_SEM_ERROR = ''sem init failed!'' @ [NL]"
definition ERROR_DUMP_FAIL :: string where "ERROR_DUMP_FAIL = ''no bundle info!'' @ [NL]"
definition ERROR_DUMP_ERROR :: string where "ERROR_DUMP_ERROR = ''dump info error!'' @ [NL]"

definition SHORT_OPTIONS :: string where "SHORT_OPTIONS = ''n:hlp:m:''"

text \<open>Name, whether it needs an argument, and the character it stands for.\<close>

definition LONG_OPTIONS :: option_table where
  "LONG_OPTIONS = [(''help'', False, CHR ''h''), (''list'', False, CHR ''l''), (''bundlename'', True, CHR ''n''),
     (''happath'', True, CHR ''p''), (''metadatakey'', True, CHR ''m'')]"

definition g_installParam :: InstallParam where
  "g_installParam = \<lparr>ip_installLocation = 1, ip_keepData = False\<rparr>"

text \<open>\<open>printf\<close> with \<open>%s\<close> and a line end, with an error, and of a number.\<close>

definition print_text :: "string \<Rightarrow> tool_run \<Rightarrow> tool_run" where
  "print_text t r = r\<lparr>tr_out := tr_out r @ t\<rparr>"

definition println :: "string \<Rightarrow> tool_run \<Rightarrow> tool_run" where
  "println t = print_text (t @ [NL])"

definition print_error :: "string \<Rightarrow> tool_run \<Rightarrow> tool_run" where
  "print_error t = println (''error message: '' @ t)"

fun decimal :: "nat \<Rightarrow> string" where
  "decimal n = (if n < 10 then [char_of (48 + n)] else decimal (n div 10) @ [char_of (48 + n mod 10)])"

declare decimal.simps [simp del]

definition decimal_int :: "int \<Rightarrow> string" where
  "decimal_int i = (if i < 0 then CHR ''-'' # decimal (nat (- i)) else decimal (nat i))"

section \<open>Installing and removing\<close>

text \<open>
  The tool's function prints the message it is told and posts the semaphore; nothing else does. The tool does not look at
  the result of its request before it waits.
\<close>

definition ReceiveCallback :: "string \<Rightarrow> tool_run \<Rightarrow> tool_run" where
  "ReceiveCallback resultMessage r =
     (if resultMessage \<noteq> [] then println (''resultMessage is '' @ resultMessage) r else r)"

definition wait_told :: "'j tool \<Rightarrow> cstr \<Rightarrow> tool_run \<Rightarrow> tool_run" where
  "wait_told T asked r =
     (case tl_answer T asked of
        None \<Rightarrow> r\<lparr>tr_stuck := True\<rparr>
      | Some (code, data) \<Rightarrow>
          (case snd (self_Callback (tr_self r) (cl_stack (tl_client T)) code data) of
             None \<Rightarrow> r\<lparr>tr_stuck := True\<rparr>
           | Some (_, _, resultMessage) \<Rightarrow> ReceiveCallback resultMessage r))"

text \<open>An option that ends the command is the pair with \<open>True\<close>.\<close>

definition install_option :: "'j tool \<Rightarrow> char \<times> cstr \<Rightarrow> tool_run \<Rightarrow> (bool \<times> tool_run) option" where
  "install_option T = (\<lambda>(option, optarg) r.
     if option = CHR ''h'' then Some (False, println INSTALL_HELP_MESSAGE r)
     else if option = CHR ''p'' then
       if \<not> tl_sem_init T then Some (True, print_error ERROR_SEM_ERROR r)
       else (case optarg of
           None \<Rightarrow> Some (True, print_error ERROR_INSTALL_PATH r)
         | Some arg \<Rightarrow>
             if length arg > PATH_MAX then Some (True, print_error ERROR_INSTALL_PATH r)
             else (case tl_realpath T arg of
                 None \<Rightarrow> Some (True, print_error ERROR_INSTALL_PATH r)
               | Some realPath \<Rightarrow>
                   if \<not> tl_recipient T then Some (True, print_error ''death callback is registered unsuccessfully'' r)
                   else do {
                     (_, c) \<leftarrow> C_Install (tl_client T) (tl_callbacks T) (Some realPath) (Some g_installParam)
                       (Some ''ReceiveCallback'') (tr_self r);
                     let r = wait_told T (Some realPath) (r\<lparr>tr_self := c\<rparr>);
                     Some (tr_stuck r, r) }))
     else Some (False, println (ERROR_OPTION @ INSTALL_HELP_MESSAGE) r))"

definition uninstall_option :: "'j tool \<Rightarrow> char \<times> cstr \<Rightarrow> tool_run \<Rightarrow> (bool \<times> tool_run) option" where
  "uninstall_option T = (\<lambda>(option, optarg) r.
     if option = CHR ''h'' then Some (False, println UNINSTALL_HELP_MESSAGE r)
     else if option = CHR ''n'' then
       if \<not> tl_sem_init T then Some (True, print_error ERROR_SEM_ERROR r)
       else if \<not> tl_recipient T then Some (True, print_error ''death callback is registered unsuccessfully'' r)
       else do {
         (_, c) \<leftarrow> C_Uninstall (tl_client T) (tl_callbacks T) optarg (Some g_installParam)
           (Some ''ReceiveCallback'') (tr_self r);
         let r = wait_told T optarg (r\<lparr>tr_self := c\<rparr>);
         Some (tr_stuck r, r) }
     else Some (False, println (ERROR_OPTION @ UNINSTALL_HELP_MESSAGE) r))"

fun each_option ::
    "(char \<times> cstr \<Rightarrow> tool_run \<Rightarrow> (bool \<times> tool_run) option) \<Rightarrow> (char \<times> cstr) list \<Rightarrow> tool_run \<Rightarrow> tool_run option" where
  "each_option f [] r = Some r"
| "each_option f (opt # opts) r = do { (stop, r) \<leftarrow> f opt r; if stop then Some r else each_option f opts r }"

definition RunAsInstallCommand :: "'j tool \<Rightarrow> string list \<Rightarrow> tool_run \<Rightarrow> tool_run option" where
  "RunAsInstallCommand T argv r =
     (if length argv > MAX_ARGUMENT_NUMBER then Some (println (ERROR_EXTRA_PARAMETER @ INSTALL_HELP_MESSAGE) r)
      else each_option (install_option T) (tl_getopt T SHORT_OPTIONS LONG_OPTIONS argv) r)"

definition RunAsUninstallCommand :: "'j tool \<Rightarrow> string list \<Rightarrow> tool_run \<Rightarrow> tool_run option" where
  "RunAsUninstallCommand T argv r =
     (if length argv > MAX_ARGUMENT_NUMBER then Some (println (ERROR_EXTRA_PARAMETER @ UNINSTALL_HELP_MESSAGE) r)
      else each_option (uninstall_option T) (tl_getopt T SHORT_OPTIONS LONG_OPTIONS argv) r)"

section \<open>Showing bundles\<close>

text \<open>The text in lines of \<open>MAX_LOG_LEN\<close> characters, the last one with what remains.\<close>

definition InfoPrint :: "string \<Rightarrow> tool_run \<Rightarrow> tool_run" where
  "InfoPrint str r =
     (if length str = 0 then r
      else let times = length str div MAX_LOG_LEN; remains = length str mod MAX_LOG_LEN;
               r = fold (\<lambda>i. println (take MAX_LOG_LEN (drop (i * MAX_LOG_LEN) str))) [0..<times] r in
        println (take remains (drop (times * MAX_LOG_LEN) str)) r)"

definition print_document :: "'j tool \<Rightarrow> 'j option \<Rightarrow> tool_run \<Rightarrow> tool_run" where
  "print_document T root r =
     (case root of
        None \<Rightarrow> print_error ERROR_DUMP_ERROR r
      | Some root \<Rightarrow>
          (case io_PrintUnformatted (cl_io (tl_client T)) root of
             Some str \<Rightarrow> InfoPrint str r
           | None \<Rightarrow> print_error ERROR_DUMP_ERROR r))"

definition GetInstallBundleInfo :: "'j tool \<Rightarrow> cstr \<Rightarrow> tool_run \<Rightarrow> tool_run option" where
  "GetInstallBundleInfo T optarg r = do {
     bundleName \<leftarrow> optarg;
     (ret, bundleInfo) \<leftarrow> C_GetBundleInfo (tl_client T) (Some bundleName) 1 (Some zero_BundleInfo);
     if ret \<noteq> OHOS_SUCCESS then Some (print_error ERROR_DUMP_FAIL r)
     else do {
       b \<leftarrow> bundleInfo;
       root \<leftarrow> GetJsonBundleInfo (tl_mk T) (cl_io (tl_client T)) b;
       Some (print_document T root r) } }"

definition GetInstallBundleInfos :: "'j tool \<Rightarrow> nat \<Rightarrow> tool_run \<Rightarrow> tool_run option" where
  "GetInstallBundleInfos T argc r =
     (if argc > MAX_DUMP_LIST_NUMBER then Some (print_error ERROR_OPTION r)
      else do {
        (ret, infos) \<leftarrow> C_GetBundleInfos (tl_client T) 1 False;
        if ret \<noteq> OHOS_SUCCESS then Some (print_error ERROR_DUMP_FAIL r)
        else do {
          let bs = (case infos of Some (Some bs) \<Rightarrow> bs | _ \<Rightarrow> []);
          root \<leftarrow> GetJsonBundleInfos (tl_mk T) (cl_io (tl_client T)) bs;
          Some (print_document T root r) } })"

fun print_names :: "BundleInfo list \<Rightarrow> tool_run \<Rightarrow> tool_run option" where
  "print_names [] r = Some r"
| "print_names (b # bs) r = do {
     n \<leftarrow> bi_bundleName b;
     print_names bs (println (if bs \<noteq> [] then ''; '' else [NL]) (print_text (''bundleName: '' @ n) r)) }"

definition GetBundleInfosByMetaDataKey :: "'j tool \<Rightarrow> cstr \<Rightarrow> tool_run \<Rightarrow> tool_run option" where
  "GetBundleInfosByMetaDataKey T optarg r = do {
     metaDataKey \<leftarrow> optarg;
     if metaDataKey = [] then Some (println ''query param is invalid!'' r)
     else do {
       (ret, infos) \<leftarrow> C_GetBundleInfosByMetaData (tl_client T) (Some metaDataKey) False;
       if ret \<noteq> OHOS_SUCCESS then Some (print_error ERROR_DUMP_FAIL r)
       else let bs = (case infos of Some (Some bs) \<Rightarrow> bs | _ \<Rightarrow> []) in
         print_names bs (println (''bundleNames match metaData key, len: '' @ decimal (length bs)) r) } }"

text \<open>Only the first option counts.\<close>

definition RunAsDumpCommand :: "'j tool \<Rightarrow> string list \<Rightarrow> tool_run \<Rightarrow> tool_run option" where
  "RunAsDumpCommand T argv r =
     (if length argv > MAX_ARGUMENT_NUMBER then Some (println (ERROR_EXTRA_PARAMETER @ DUMP_HELP_MESSAGE) r)
      else let wrong = Some (println (ERROR_OPTION @ DUMP_HELP_MESSAGE) r) in
        case tl_getopt T SHORT_OPTIONS LONG_OPTIONS argv of
          [] \<Rightarrow> wrong
        | (option, optarg) # _ \<Rightarrow>
            if option = CHR ''h'' then Some (println DUMP_HELP_MESSAGE r)
            else if option = CHR ''n'' then GetInstallBundleInfo T optarg r
            else if option = CHR ''l'' then GetInstallBundleInfos T (length argv) r
            else if option = CHR ''m'' then GetBundleInfosByMetaDataKey T optarg r
            else wrong)"

definition RunAsGetUdidCommand :: "'j tool \<Rightarrow> string list \<Rightarrow> tool_run \<Rightarrow> tool_run" where
  "RunAsGetUdidCommand T argv r =
     (if length argv > MAX_ARGUMENT_NUMBER then println (ERROR_EXTRA_PARAMETER @ DUMP_HELP_MESSAGE) r
      else let (ret, devUdid) = tl_udid T in
        if ret = 0 then println devUdid r
        else println (''Get Udid error ret = '' @ decimal_int ret) r)"

section \<open>Commands\<close>

definition GetBmsInnerClient :: "'j tool \<Rightarrow> tool_run \<Rightarrow> tool_run" where
  "GetBmsInnerClient T r =
     (if \<not> tl_api T then println ''get feature api fail!'' r
      else if \<not> tl_interface T then println ''query interface fail!'' r
      else r)"

definition HandleCommands :: "'j tool \<Rightarrow> string list \<Rightarrow> tool_run \<Rightarrow> tool_run option" where
  "HandleCommands T argv r =
     (if length argv < MIN_ARGUMENT_NUMBER then Some (println HELP_MESSAGE r)
      else let r = GetBmsInnerClient T r; cmd = argv ! 1 in
        if cmd = ''install'' then RunAsInstallCommand T argv r
        else if cmd = ''uninstall'' then RunAsUninstallCommand T argv r
        else if cmd = ''dump'' then RunAsDumpCommand T argv r
        else if cmd = ''getudid'' then Some (RunAsGetUdidCommand T argv r)
        else Some (println (ERROR_COMMAND @ HELP_MESSAGE) r))"

end
