(* ===== verification/Command_Correct.thy ===== *)
theory Command_Correct
  imports Command_Parser Api_Answers
begin

text \<open>
  The tool \<open>bm\<close>: what it prints of a text and of a registered bundle, and when its requests to install and remove end.
\<close>

section \<open>Printing\<close>

lemma print_text_out [simp]: "print_text t r = r\<lparr>tr_out := tr_out r @ t\<rparr>"
  by (simp add: print_text_def)

definition in_lines :: "string list \<Rightarrow> string" where
  "in_lines ls = concat (map (\<lambda>l. l @ [CHR 0x0A]) ls)"

lemma fold_println: "fold println ls r = r\<lparr>tr_out := tr_out r @ in_lines ls\<rparr>"
  by (induction ls arbitrary: r) (simp_all add: in_lines_def println_def)

definition info_lines :: "string \<Rightarrow> string list" where
  "info_lines str = (if str = [] then [] else
     map (\<lambda>i. take MAX_LOG_LEN (drop (i * MAX_LOG_LEN) str)) [0..<length str div MAX_LOG_LEN] @
     [drop (length str div MAX_LOG_LEN * MAX_LOG_LEN) str])"

lemma InfoPrint_lines: "InfoPrint str r = r\<lparr>tr_out := tr_out r @ in_lines (info_lines str)\<rparr>"
proof (cases "str = []")
  case True
  then show ?thesis by (simp add: InfoPrint_def info_lines_def in_lines_def)
next
  case False
  have "take (length str mod 1024) (drop (length str div 1024 * 1024) str) = drop (length str div 1024 * 1024) str"
    by (simp add: minus_div_mult_eq_mod)
  moreover have "fold (\<lambda>i. println (f i)) is r = fold println (map f is) r" for f :: "nat \<Rightarrow> string" and "is" r
    by (induction "is" arbitrary: r) simp_all
  ultimately show ?thesis
    using False by (simp add: InfoPrint_def info_lines_def Let_def fold_println del: fold_map)
      (simp add: println_def in_lines_def)
qed

lemma chunks_take: "concat (map (\<lambda>i. take m (drop (i * m) xs)) [0..<k]) = take (k * m) xs"
proof (induction k)
  case (Suc k)
  have "Suc k * m = k * m + m" by simp
  then show ?case using Suc by (simp only: take_add) simp
qed simp

lemma info_lines_text: "concat (info_lines str) = str"
  by (simp add: info_lines_def chunks_take)

definition lines_of :: "string \<Rightarrow> string list \<Rightarrow> bool" where
  "lines_of str ls \<longleftrightarrow> concat ls = str \<and> list_all (\<lambda>l. length l = 1024) (butlast ls) \<and> list_all (\<lambda>l. length l \<le> 1024) ls"

lemma info_lines_of: "lines_of str (info_lines str)"
proof (cases "str = []")
  case True
  then show ?thesis by (simp add: lines_of_def info_lines_def)
next
  case False
  let ?n = "length str div 1024"
  let ?f = "\<lambda>i. take 1024 (drop (i * 1024) str)"
  have ls: "info_lines str = map ?f [0..<?n] @ [drop (?n * 1024) str]" using False by (simp add: info_lines_def)
  have f: "length (?f i) = 1024" if "i < ?n" for i
  proof -
    have "Suc i * 1024 \<le> ?n * 1024" using that by (intro mult_le_mono1) simp
    also have "\<dots> \<le> length str" by (rule div_times_less_eq_dividend)
    finally show ?thesis by simp
  qed
  then have full: "list_all (\<lambda>l. length l = 1024) (map ?f [0..<?n])" by (auto simp: list_all_iff)
  moreover have "length (drop (?n * 1024) str) < 1024" by (simp add: minus_div_mult_eq_mod)
  moreover have "list_all (\<lambda>l. length l \<le> 1024) (map ?f [0..<?n])" by (simp add: list_all_iff)
  ultimately show ?thesis using info_lines_text[of str] unfolding lines_of_def ls by simp
qed

text \<open>What is printed of a text: the text, in lines of 1024 characters, the last with what remains.\<close>

lemma InfoPrint_text: "\<exists>ls. tr_out (InfoPrint str r) = tr_out r @ in_lines ls \<and> lines_of str ls"
  by (intro exI[of _ "info_lines str"]) (simp add: InfoPrint_lines info_lines_of)

section \<open>Showing a bundle\<close>

text \<open>C32 \<open>bm dump -n\<close> of a registered bundle.\<close>

theorem dump_shows_bundle:
  assumes T: "tl_client T = C" "tl_mk T = y_mk (ft_sys F)" "tl_api T" "tl_interface T"
    and opts: "tl_getopt T SHORT_OPTIONS LONG_OPTIONS [bm, ''dump'', ''-n'', n] = [(CHR ''n'', Some n)]"
    and C: "connected C F k s" and reg: "registered s n = Some b" and n: "length n < 128"
    and b: "BundleInfo_ok b" "BundleInfo_ints b" "bi_moduleInfos b = Some [mi]" "ModuleInfo_packed mi"
    and pr: "ConvertBundleInfoToString (tl_mk T) (cl_io C) (Some (GetCopyBundleInfo 1 b)) = Some (Some t)"
    and doc: "GetJsonBundleInfo (tl_mk T) (cl_io C) (as_read (GetCopyBundleInfo 1 b)) = Some (Some root)"
      "io_PrintUnformatted (cl_io C) root = Some u"
  shows "\<exists>ls r'. HandleCommands T [bm, ''dump'', ''-n'', n] r = Some r' \<and> tr_out r' = tr_out r @ in_lines ls \<and>
    lines_of u ls"
proof -
  have io: "cl_io C = ft_io F" using C by (simp add: connected_def)
  have "C_GetBundleInfo C (Some n) 1 (Some zero_BundleInfo) = Some (ERR_OK, Some (as_read (GetCopyBundleInfo 1 b)))"
    by (rule GetBundleInfo_end_to_end[OF C reg n _ b]) (use pr T(2) io in simp_all)
  then have "HandleCommands T [bm, ''dump'', ''-n'', n] r = Some (InfoPrint u r)"
    using T(1,3,4) opts doc
    by (simp add: HandleCommands_def GetBmsInnerClient_def RunAsDumpCommand_def GetInstallBundleInfo_def print_document_def)
  with InfoPrint_text[of u r] show ?thesis by auto
qed

section \<open>Waiting for the service\<close>

lemma tool_installs:
  assumes "cl_space C = plenty" "cl_granted C PERMISSION_INSTALL_BUNDLE" "cl_inner C" "ce_alloc E = plentiful"
    and "sc_svc c = None \<or> sc_svc c = Some (ce_self E)"
    and "cl_invoke C True INSTALL [IStr p, IRemote (ce_self E), II32 1] = (ret, Some [IU8 INSTALL])"
  shows "\<exists>ok. C_Install C E (Some p) (Some g_installParam) (Some f) c =
    Some (ok, c\<lparr>sc_callback := Some f, sc_svc := Some (ce_self E)\<rparr>)"
proof -
  have reg: "RegisterBundleSelfCallback E (Some f) c =
      (Some (ce_self E), c\<lparr>sc_callback := Some f, sc_svc := Some (ce_self E)\<rparr>)"
    using assms(4,5) by (cases c) (auto simp: RegisterBundleSelfCallback_def self_GenerateLocalServiceId_def plentiful_def Let_def)
  show ?thesis
    using assms by (simp add: C_Install_def reg client_invoke_def C_Notify_def plenty_def io_write_def g_installParam_def)
qed

lemma told_message:
  assumes "e < 256" "sc_callback c = Some f"
  shows "snd (self_Callback c k INSTALL_CALLBACK (Some [II32 (int e)])) =
    Some (f, e, if e = ERR_OK then INSTALL_SUCCESS else ObtainErrorMessage e)"
  using assms by (simp add: self_Callback_def self_InnerCallback_def)

text \<open>\<open>bm install -p\<close> when the service takes the request and answers it with the code \<open>e\<close>.\<close>

theorem install_told:
  assumes T: "tl_client T = C" "tl_callbacks T = E" "tl_api T" "tl_interface T" "tl_sem_init T" "tl_recipient T"
    and opts: "tl_getopt T SHORT_OPTIONS LONG_OPTIONS [bm, ''install'', ''-p'', p] = [(CHR ''p'', Some p)]"
    and path: "length p \<le> PATH_MAX" "tl_realpath T p = Some q"
    and C: "cl_space C = plenty" "cl_granted C PERMISSION_INSTALL_BUNDLE" "cl_inner C" "ce_alloc E = plentiful"
    and self: "sc_svc (tr_self r) = None \<or> sc_svc (tr_self r) = Some (ce_self E)"
    and sent: "cl_invoke C True INSTALL [IStr q, IRemote (ce_self E), II32 1] = (True, Some [IU8 INSTALL])"
    and told: "tl_answer T (Some q) = Some (INSTALL_CALLBACK, Some [II32 (int e)])" "e < 256"
  shows "\<exists>r'. HandleCommands T [bm, ''install'', ''-p'', p] r = Some r' \<and> tr_stuck r' = tr_stuck r \<and>
    (let t = if e = ERR_OK then INSTALL_SUCCESS else ObtainErrorMessage e in
     tr_out r' = tr_out r @ (if t = [] then [] else ''resultMessage is '' @ t @ [CHR 0x0A]))"
proof -
  let ?c = "(tr_self r)\<lparr>sc_callback := Some ''ReceiveCallback'', sc_svc := Some (ce_self E)\<rparr>"
  obtain ok where i: "C_Install C E (Some q) (Some g_installParam) (Some ''ReceiveCallback'') (tr_self r) = Some (ok, ?c)"
    using tool_installs[OF C self sent] by blast
  have "snd (self_Callback ?c (cl_stack (tl_client T)) INSTALL_CALLBACK (Some [II32 (int e)])) =
      Some (''ReceiveCallback'', e, if e = ERR_OK then INSTALL_SUCCESS else ObtainErrorMessage e)"
    by (rule told_message[OF told(2)]) simp
  then have w: "wait_told T (Some q) (r\<lparr>tr_self := ?c\<rparr>) =
      ReceiveCallback (if e = ERR_OK then INSTALL_SUCCESS else ObtainErrorMessage e) (r\<lparr>tr_self := ?c\<rparr>)"
    using told(1) by (simp add: wait_told_def)
  show ?thesis
    using T opts path i w
    by (simp add: HandleCommands_def GetBmsInnerClient_def RunAsInstallCommand_def install_option_def Let_def
        ReceiveCallback_def println_def)
qed

text \<open>
  When the tool lacks the permission or does not reach the service, no request is sent and none comes back; the tool waits
  all the same.
\<close>

theorem refused_install_waits:
  assumes T: "tl_api T" "tl_interface T" "tl_sem_init T" "tl_recipient T"
    and opts: "tl_getopt T SHORT_OPTIONS LONG_OPTIONS [bm, ''install'', ''-p'', p] = [(CHR ''p'', Some p)]"
    and path: "length p \<le> PATH_MAX" "tl_realpath T p = Some q"
    and C: "\<not> cl_granted (tl_client T) PERMISSION_INSTALL_BUNDLE \<or> \<not> cl_inner (tl_client T)"
    and told: "tl_answer T (Some q) = None"
  shows "HandleCommands T [bm, ''install'', ''-p'', p] r = Some (r\<lparr>tr_stuck := True\<rparr>)"
proof -
  have "C_Install (tl_client T) (tl_callbacks T) (Some q) (Some g_installParam) (Some ''ReceiveCallback'') (tr_self r) =
      Some (False, tr_self r)"
    using C by (auto simp: C_Install_def g_installParam_def)
  then show ?thesis
    using T opts path told
    by (simp add: HandleCommands_def GetBmsInnerClient_def RunAsInstallCommand_def install_option_def Let_def wait_told_def)
qed

section \<open>On a concrete service\<close>

text \<open>A command line of two words and an option with its argument.\<close>

definition getopt1 :: "string \<Rightarrow> option_table \<Rightarrow> string list \<Rightarrow> (char \<times> cstr) list" where
  "getopt1 short_options long_options argv =
     (case argv of [_, _, [CHR ''-'', c], arg] \<Rightarrow> [(c, Some arg)] | _ \<Rightarrow> [])"

definition tool1 :: "js client \<Rightarrow> errcode option \<Rightarrow> js tool" where
  "tool1 C e = \<lparr>tl_client = C, tl_mk = y_mk (ft_sys feature1), tl_callbacks = callbacks1, tl_api = True,
     tl_interface = True, tl_getopt = getopt1, tl_realpath = Some, tl_sem_init = True, tl_recipient = True,
     tl_answer = (\<lambda>_. map_option (\<lambda>e. (INSTALL_CALLBACK, Some [II32 (int e)])) e), tl_udid = (0, ''u'')\<rparr>"

definition run0 :: tool_run where
  "run0 = \<lparr>tr_out = [], tr_stuck = False, tr_self = BundleSelfCallback_new\<rparr>"

lemma as_read_bundle1: "as_read bundle1 = bundle1"
  by (simp add: as_read_def bundle1_def without_deviceCap_def zero_BundleInfo_def zero_AbilityInfo_def)

lemma text1: "GetJsonBundleInfo (y_mk (ft_sys feature1)) io1 bundle1 = Some (Some doc1)"
  "io_PrintUnformatted io1 doc1 = Some ''t''"
proof -
  have "GetJsonBundleInfo (js_mk (\<lambda>_. Some ''{}'') (\<lambda>_. None)) io1 bundle1 = Some (Some doc1)"
    unfolding doc1_def io1_def by code_simp
  then show "GetJsonBundleInfo (y_mk (ft_sys feature1)) io1 bundle1 = Some (Some doc1)"
    by (simp add: feature1_def js_system_def)
qed (simp add: io1_def js_io_def)

theorem dump_shows_bundle_witness:
  "\<exists>ls r'. HandleCommands (tool1 client1 None) [''bm'', ''dump'', ''-n'', ''b''] run0 = Some r' \<and>
     tr_out r' = tr_out run0 @ in_lines ls \<and> lines_of ''t'' ls"
proof -
  have io: "cl_io client1 = io1" by (simp add: client1_def)
  show ?thesis
    by (rule dump_shows_bundle[OF _ _ _ _ _ connected1 registered1 _ bundle1_ok, where t = "''t''" and root = doc1])
      (use text1 in \<open>simp_all add: tool1_def getopt1_def io ConvertBundleInfoToString_def bind_ptr_def
        GetCopyBundleInfo_def as_read_bundle1\<close>)
qed

text \<open>A service that takes every request to install.\<close>

definition taking :: "js client" where
  "taking = client1\<lparr>cl_invoke := (\<lambda>_ f m. (True, Some [IU8 f]))\<rparr>"

theorem install_told_witness:
  "\<exists>r'. HandleCommands (tool1 taking (Some 0)) [''bm'', ''install'', ''-p'', ''/a.hap''] run0 = Some r' \<and>
     tr_stuck r' = tr_stuck run0 \<and> tr_out r' = ''resultMessage is install success !'' @ [CHR 0x0A]"
  using install_told[of "tool1 taking (Some 0)" taking callbacks1 "''bm''" "''/a.hap''" "''/a.hap''" run0 0]
  by (simp add: tool1_def getopt1_def taking_def client1_def callbacks1_def run0_def BundleSelfCallback_new_def
      INSTALL_SUCCESS_def)

theorem refused_install_waits_witness:
  "HandleCommands (tool1 (client1\<lparr>cl_inner := False\<rparr>) None) [''bm'', ''install'', ''-p'', ''/a.hap''] run0 =
     Some (run0\<lparr>tr_stuck := True\<rparr>)"
  by (rule refused_install_waits) (simp_all add: tool1_def getopt1_def)

end
