(* ===== verification/Gt_System.thy ===== *)
theory Gt_System
  imports Bundle_Records
begin

text \<open>
  The mini system. Here the service has no daemon: it works on the files itself, with the operations of
  \<^verbatim>\<open>services/bundlemgr_lite/src/bundle_util.cpp\<close> this theory holds (those outside \<open>OHOS_APPEXECFWK_BMS_BUNDLEMANAGER\<close>). Its
  definitions bear the prefix \<open>GT_\<close> where the small system has a function of that name.

  As in \<open>System\<close>, what surrounds the service is a parameter: a call with an effect is recorded in a trace, and whether
  it succeeds, and what the file system then shows, may depend on all the calls before. The service tells the installation's
  progress to the caller's function; that is a call too.
\<close>

section \<open>Constants\<close>

abbreviation (input) "GT_DEFAULT_DEVICE_TYPE \<equiv> ''fitnessWatch''"
abbreviation (input) "GT_INSTALL_PATH \<equiv> ''/data/user/ace/run''"
abbreviation (input) "GT_DATA_PATH \<equiv> ''/data/user/ace/data''"
abbreviation (input) "GT_SYSTEM_BUNDLE_PATH \<equiv> ''/data/system/ace/sys''"
abbreviation (input) "GT_THIRD_SYSTEM_BUNDLE_PATH \<equiv> ''/data/system/ace/vendor''"
abbreviation (input) "GT_UNINSTALL_THIRD_SYSTEM_BUNDLE_JSON \<equiv> ''/data/user/ace/etc/uninstalled_delbundle.json''"
abbreviation (input) "GT_THIRD_SYSTEM_BUNDLE_JSON \<equiv> ''/data/user/ace/etc/third_system_bundle.json''"
abbreviation (input) "GT_JSON_PATH \<equiv> ''/data/user/ace/etc/bundles/''"
abbreviation (input) "JSON_PATH_NO_SLASH_END \<equiv> ''/data/user/ace/etc/bundles''"
abbreviation (input) "GT_PERMISSIONS_PATH \<equiv> ''/data/user/ace/etc/permissions''"
abbreviation (input) "ASSET_JS_PATH \<equiv> ''/assets/js/default''"
abbreviation (input) "ICON_NAME \<equiv> ''/icon.bin''"
abbreviation (input) "SMALL_ICON_NAME \<equiv> ''/icon_small.bin''"
abbreviation (input) "DEFAULT_ICON_SETTING \<equiv> ''$media:icon''"
abbreviation (input) "GT_INSTALL_FILE_SUFFIX \<equiv> ''.bin''"
abbreviation (input) "TMP_RESOURCE_DIR \<equiv> ''/data/user/ace/run/tmpResource''"
abbreviation (input) "RESOURCES_RAW_FILE \<equiv> ''/resources/rawfile''"
abbreviation (input) "RAW_FILE \<equiv> ''/rawfile''"
abbreviation (input) "READ_SIZE \<equiv> 4096 :: nat"
abbreviation (input) "MAX_INT \<equiv> 256 :: u32"
abbreviation (input) "GT_MAX_VERSION_NAME_LEN \<equiv> 20 :: nat"
abbreviation (input) "GT_MAX_LABLE_LEN \<equiv> 30 :: nat"
abbreviation (input) "MAX_THIRD_BUNDLE_NUMBER \<equiv> 50 :: u32"

section \<open>The surroundings\<close>

text \<open>
  \<open>Create\<close> opens a file for writing, which does not cut off what it held. \<open>Report\<close> is the call of the installer's function,
  a number, with a code, a state, the progress and the bundle's name. \<open>Transform\<close> and \<open>Remove_bytecode\<close> are the engine's
  \<open>walk_directory\<close> and \<open>walk_del_bytecode\<close> on a directory of scripts.
\<close>

datatype gt_call =
    Make_dir string
  | Unlink string
  | Rmdir string
  | Rename string string
  | Create string
  | Write string "u8 list"
  | Report nat nat nat nat cstr
  | Transform string
  | Remove_bytecode string
  | Save_permissions string bool
  | Delete_permissions cstr

type_synonym gt_trace = "gt_call list"

text \<open>
  \<open>gt_content\<close> is the content of a file that can be opened, \<open>gt_readdir\<close> the names in a directory that can be
  opened; \<open>gt_verify\<close> is the signature library, \<open>gt_length\<close> the length of a package without its signature, \<open>gt_global\<close> the
  resource library, \<open>gt_replace\<close> is \<open>cJSON_ReplaceItemInObject\<close>, \<open>gt_send\<close> whether a
  message is taken by a queue that holds others. \<open>gt_liteos_m\<close> tells the build for the LiteOS-M kernel
  (\<open>__LITEOS_M__\<close>) from the other one, \<open>gt_bc\<close> the one that compiles the scripts (\<open>BC_TRANS_ENABLE\<close>), with the engine's
  version \<open>gt_jerry\<close>.
\<close>

record verified =
  ve_appid :: cstr
  ve_bundleName :: cstr
  ve_restricPermission :: "string list"

record 'j gt_system =
  gt_alloc :: allocator
  gt_done :: "gt_trace \<Rightarrow> gt_call \<Rightarrow> bool"
  gt_stat :: "gt_trace \<Rightarrow> string \<Rightarrow> (bool \<times> int) option"
  gt_content :: "gt_trace \<Rightarrow> string \<Rightarrow> u8 list option"
  gt_readdir :: "gt_trace \<Rightarrow> string \<Rightarrow> string list option"
  gt_json :: "'j cjson"
  gt_mk :: "'j cjson_mk"
  gt_global :: "gt_trace \<Rightarrow> u32 \<Rightarrow> string \<Rightarrow> cstr option"
  gt_deviceType :: cstr
  gt_nameLen :: nat
  gt_descLen :: nat
  gt_verify :: "string \<Rightarrow> u32 \<times> verified"
  gt_codes :: verify_codes
  gt_length :: "string \<Rightarrow> u32"
  gt_rand :: "gt_trace \<Rightarrow> nat \<Rightarrow> nat"
  gt_replace :: "'j \<Rightarrow> string \<Rightarrow> 'j \<Rightarrow> 'j option"
  gt_send :: "nat list \<Rightarrow> nat \<Rightarrow> bool"
  gt_liteos_m :: bool
  gt_bc :: bool
  gt_jerry :: cstr

definition gt_do :: "'j gt_system \<Rightarrow> gt_call \<Rightarrow> gt_trace \<Rightarrow> bool \<times> gt_trace" where
  "gt_do G c t = (gt_done G t c, t @ [c])"

definition gt_chars :: "u8 list \<Rightarrow> string" where
  "gt_chars bs = map (\<lambda>b. char_of (unat b)) bs"

definition gt_bytes :: "string \<Rightarrow> u8 list" where
  "gt_bytes s = map (\<lambda>c. word_of_nat (of_char c)) s"

definition gt_posix :: "'j gt_system \<Rightarrow> gt_trace \<Rightarrow> posix" where
  "gt_posix G t = \<lparr>px_stat = gt_stat G t, px_open = (\<lambda>p. gt_content G t p \<noteq> None),
     px_read = (\<lambda>p. case gt_content G t p of None \<Rightarrow> [] | Some bs \<Rightarrow> gt_chars bs)\<rparr>"

abbreviation GT_IsFile :: "'j gt_system \<Rightarrow> gt_trace \<Rightarrow> cstr \<Rightarrow> bool" where
  "GT_IsFile G t \<equiv> IsFile (gt_posix G t)"

abbreviation GT_IsDir :: "'j gt_system \<Rightarrow> gt_trace \<Rightarrow> cstr \<Rightarrow> bool" where
  "GT_IsDir G t \<equiv> IsDir (gt_posix G t)"

section \<open>Directories\<close>

text \<open>
  \<open>GetRootDir\<close>, and the loop of \<open>MkDirs\<close> at the index \<open>i\<close>; \<open>exists\<close> is \<open>isRootDirExists\<close>, and \<open>n\<close> the
  number of characters left.
\<close>

definition GetRootDir :: "'j gt_system \<Rightarrow> string \<Rightarrow> nat \<Rightarrow> cstr" where
  "GetRootDir G dir index = (if \<not> gt_alloc G (Chars (index + 1)) then None else Some (take index dir))"

fun mkdirs_loop :: "'j gt_system \<Rightarrow> string \<Rightarrow> nat \<Rightarrow> nat \<Rightarrow> bool \<Rightarrow> gt_trace \<Rightarrow> bool \<times> gt_trace" where
  "mkdirs_loop G dir i 0 exists t = gt_do G (Make_dir dir) t"
| "mkdirs_loop G dir i (Suc n) exists t =
     (if dir ! i \<noteq> CHR ''/'' then mkdirs_loop G dir (i + 1) n exists t
      else case GetRootDir G dir i of
          None \<Rightarrow> (False, t)
        | Some rootDir \<Rightarrow>
            if exists \<and> GT_IsDir G t (Some rootDir) then mkdirs_loop G dir (i + 1) n True t
            else let (ok, t) = gt_do G (Make_dir rootDir) t in
              if \<not> ok then (False, t) else mkdirs_loop G dir (i + 1) n False t)"

definition MkDirs :: "'j gt_system \<Rightarrow> string \<Rightarrow> gt_trace \<Rightarrow> bool \<times> gt_trace" where
  "MkDirs G dir t =
     (if GT_IsDir G t (Some dir) then (True, t)
      else if length dir > PATH_LENGTH then (False, t)
      else mkdirs_loop G dir 1 (length dir - 1) True t)"

text \<open>
  \<open>CheckDirIsEmpty\<close>: the names of a directory; files are removed, directories put in front of the list. A path that does not fit
  the buffer is passed over.
\<close>

fun dir_entries :: "'j gt_system \<Rightarrow> string \<Rightarrow> string list \<Rightarrow> bool \<Rightarrow> cstr list \<Rightarrow> gt_trace \<Rightarrow> bool \<times> cstr list \<times> gt_trace" where
  "dir_entries G dirPath [] isEmptyDir list t = (isEmptyDir, list, t)"
| "dir_entries G dirPath (n # ns) isEmptyDir list t =
     (let filePath = dirPath @ ''/'' @ n in
      if n = ''.'' \<or> n = ''..'' \<or> length filePath \<ge> PATH_LENGTH then dir_entries G dirPath ns isEmptyDir list t
      else if GT_IsDir G t (Some filePath)
      then dir_entries G dirPath ns False (Strdup (gt_alloc G) (Some filePath) # list) t
      else dir_entries G dirPath ns isEmptyDir list (snd (gt_do G (Unlink filePath) t)))"

definition CheckDirIsEmpty :: "'j gt_system \<Rightarrow> string \<Rightarrow> cstr list \<Rightarrow> gt_trace \<Rightarrow> bool \<times> cstr list \<times> gt_trace" where
  "CheckDirIsEmpty G dirPath list t =
     (case gt_readdir G t dirPath of
        None \<Rightarrow> (False, list, t)
      | Some ns \<Rightarrow> dir_entries G dirPath ns True list t)"

text \<open>The loop of \<open>RemoveDir\<close>. Its value is whether the list is empty at the end; \<open>None\<close> is not ending.\<close>

partial_function (option) remove_loop :: "'j gt_system \<Rightarrow> cstr list \<Rightarrow> gt_trace \<Rightarrow> (bool \<times> gt_trace) option" where
  "remove_loop G list t =
     (case list of
        [] \<Rightarrow> Some (True, t)
      | None # _ \<Rightarrow> Some (False, t)
      | Some curPath # rest \<Rightarrow>
          (let (isEmptyDir, list, t) = CheckDirIsEmpty G curPath list t in
           if isEmptyDir
           then let (ok, t) = gt_do G (Rmdir curPath) t in
             if \<not> ok then Some (rest = [], t) else remove_loop G rest t
           else remove_loop G list t))"

definition RemoveDir :: "'j gt_system \<Rightarrow> string \<Rightarrow> gt_trace \<Rightarrow> (bool \<times> gt_trace) option" where
  "RemoveDir G path t =
     (if \<not> GT_IsDir G t (Some path) then Some (True, snd (gt_do G (Unlink path) t))
      else if \<not> gt_alloc G (Objects ''List'' 1) then Some (False, t)
      else remove_loop G [Strdup (gt_alloc G) (Some path)] t)"

definition RenameDir :: "'j gt_system \<Rightarrow> cstr \<Rightarrow> cstr \<Rightarrow> gt_trace \<Rightarrow> (bool \<times> gt_trace) option" where
  "RenameDir G oldDir newDir t =
     (case (oldDir, newDir) of
        (Some old, Some new) \<Rightarrow> do {
          (ok, t) \<leftarrow> (if GT_IsDir G t newDir then RemoveDir G new t else Some (True, t));
          if \<not> ok then Some (False, t) else Some (gt_do G (Rename old new) t) }
      | _ \<Rightarrow> Some (False, t))"

definition GT_RenameFile :: "'j gt_system \<Rightarrow> cstr \<Rightarrow> cstr \<Rightarrow> gt_trace \<Rightarrow> bool \<times> gt_trace" where
  "GT_RenameFile G oldFile newFile t =
     (case (oldFile, newFile) of
        (Some old, Some new) \<Rightarrow>
          (let (ok, t) = (if GT_IsFile G t newFile then gt_do G (Unlink new) t else (True, t)) in
           if \<not> ok then (False, t) else gt_do G (Rename old new) t)
      | _ \<Rightarrow> (False, t))"

section \<open>Records\<close>

definition StoreJsonContentToFile :: "'j gt_system \<Rightarrow> string \<Rightarrow> 'j option \<Rightarrow> gt_trace \<Rightarrow> bool \<times> gt_trace" where
  "StoreJsonContentToFile G packageJson object t =
     (case Option.bind object (k_Print (gt_mk G)) of
        None \<Rightarrow> (False, t)
      | Some out \<Rightarrow>
          if \<not> CheckRealPath (Some packageJson) then (False, t)
          else let (ok, t) = (if GT_IsFile G t (Some packageJson) then gt_do G (Unlink packageJson) t else (True, t)) in
            if \<not> ok then (False, t)
            else let (ok, t) = gt_do G (Create packageJson) t in
              if \<not> ok then (False, t) else gt_do G (Write packageJson (gt_bytes out)) t)"

definition GT_GetJsonStream :: "'j gt_system \<Rightarrow> gt_trace \<Rightarrow> cstr \<Rightarrow> 'j option" where
  "GT_GetJsonStream G t path =
     (let px = gt_posix G t in
      if \<not> IsFile px path then None
      else case px_stat px (the path) of
          None \<Rightarrow> None
        | Some (_, st_size) \<Rightarrow>
            (let size = sint (word_of_int st_size :: u32) in
             if size \<le> 0 then None
             else if size > int MAX_JSON_SIZE then None
             else if \<not> px_open px (the path) then None
             else if \<not> gt_alloc G (Chars (nat size)) then None
             else if length (px_read px (the path)) < nat size then None
             else k_Parse (gt_mk G) (take (nat size) (px_read px (the path)))))"

end
