(* ===== verification/Gt_Types.thy ===== *)
theory Gt_Types
  imports Info_Utils
begin

text \<open>
  The structures and the registry of the mini system: \<^verbatim>\<open>bundle_info.h\<close>, \<^verbatim>\<open>ability_info.h\<close>, \<^verbatim>\<open>module_info.h\<close>,
  \<^verbatim>\<open>bundle_info_utils.cpp\<close> and \<^verbatim>\<open>services/bundlemgr_lite/src/bundle_map.cpp\<close> outside
  \<open>OHOS_APPEXECFWK_BMS_BUNDLEMANAGER\<close>. A bundle has one ability, with the path of its scripts, and a small icon.

  The registry is its list of pointers, a sequence (\<open>List_is_a_sequence\<close>), and the objects they point to. A pointer to an
  object that has been freed is followed nowhere: \<open>None\<close>.
\<close>

section \<open>Structures\<close>

record GtAbilityInfo =
  ga_srcPath :: cstr
  ga_bundleName :: cstr

record GtModuleInfo =
  gm_moduleName :: cstr
  gm_metaData :: "MetaData option list"

record GtBundleInfo =
  gb_isSystemApp :: bool
  gb_compatibleApi :: int
  gb_targetApi :: int
  gb_versionCode :: int
  gb_versionName :: cstr
  gb_bundleName :: cstr
  gb_label :: cstr
  gb_bigIconPath :: cstr
  gb_codePath :: cstr
  gb_dataPath :: cstr
  gb_vendor :: cstr
  gb_moduleInfos :: "GtModuleInfo list option"
  gb_numOfModule :: nat
  gb_appId :: cstr
  gb_smallIconPath :: cstr
  gb_abilityInfo :: "GtAbilityInfo option"

record GtAbilityRes =
  gr_iconId :: u32
  gr_labelId :: u32

record GtBundleProfile =
  gp_bundleName :: cstr
  gp_vendor :: cstr
  gp_label :: cstr
  gp_iconPath :: cstr
  gp_versionCode :: int
  gp_versionName :: cstr
  gp_minApiVersion :: int
  gp_maxApiVersion :: int
  gp_moduleInfo :: GtModuleInfo

definition zero_GtModuleInfo :: GtModuleInfo where
  "zero_GtModuleInfo = \<lparr>gm_moduleName = None, gm_metaData = replicate METADATA_SIZE None\<rparr>"

definition zero_GtBundleInfo :: GtBundleInfo where
  "zero_GtBundleInfo =
     \<lparr>gb_isSystemApp = False, gb_compatibleApi = 0, gb_targetApi = 0, gb_versionCode = 0, gb_versionName = None,
      gb_bundleName = None, gb_label = None, gb_bigIconPath = None, gb_codePath = None, gb_dataPath = None,
      gb_vendor = None, gb_moduleInfos = None, gb_numOfModule = 0, gb_appId = None, gb_smallIconPath = None,
      gb_abilityInfo = None\<rparr>"

definition zero_GtBundleProfile :: GtBundleProfile where
  "zero_GtBundleProfile =
     \<lparr>gp_bundleName = None, gp_vendor = None, gp_label = None, gp_iconPath = None, gp_versionCode = 0,
      gp_versionName = None, gp_minApiVersion = 0, gp_maxApiVersion = 0, gp_moduleInfo = zero_GtModuleInfo\<rparr>"

section \<open>Setting and copying\<close>

text \<open>A setter of a member that is a string: whether it is set afterwards, and the structure.\<close>

definition gt_set :: "allocator \<Rightarrow> ((cstr \<Rightarrow> cstr) \<Rightarrow> 'r \<Rightarrow> 'r) \<Rightarrow> cstr \<Rightarrow> 'r \<Rightarrow> bool \<times> 'r" where
  "gt_set m field s r = (if s = None then (False, r) else let v = Strdup m s in (v \<noteq> None, field (\<lambda>_. v) r))"

definition GT_CopyAbilityInfo :: "allocator \<Rightarrow> GtAbilityInfo \<Rightarrow> GtAbilityInfo" where
  "GT_CopyAbilityInfo m src =
     (let d = \<lparr>ga_srcPath = None, ga_bundleName = None\<rparr>;
          d = snd (gt_set m ga_bundleName_update (ga_bundleName src) d)
      in snd (gt_set m ga_srcPath_update (ga_srcPath src) d))"

definition SetBundleInfoAbilityInfo :: "allocator \<Rightarrow> GtAbilityInfo \<Rightarrow> GtBundleInfo \<Rightarrow> bool \<times> GtBundleInfo" where
  "SetBundleInfoAbilityInfo m a b =
     (if \<not> m (Objects ''AbilityInfo'' 1) then (False, b\<lparr>gb_abilityInfo := None\<rparr>)
      else (True, b\<lparr>gb_abilityInfo := Some (GT_CopyAbilityInfo m a)\<rparr>))"

definition GT_SetModuleInfoMetaData :: "allocator \<Rightarrow> MetaData option list \<Rightarrow> GtModuleInfo \<Rightarrow> bool \<times> GtModuleInfo" where
  "GT_SetModuleInfoMetaData m md mi =
     (let (ok, ds) = copy_metadata m (take METADATA_SIZE md)
      in (ok, mi\<lparr>gm_metaData := ds @ drop (length ds) (replicate METADATA_SIZE None)\<rparr>))"

definition GT_CopyModuleInfo :: "allocator \<Rightarrow> GtModuleInfo \<Rightarrow> GtModuleInfo" where
  "GT_CopyModuleInfo m src =
     (let d = snd (gt_set m gm_moduleName_update (gm_moduleName src) zero_GtModuleInfo)
      in snd (GT_SetModuleInfoMetaData m (gm_metaData src) d))"

definition GT_SetBundleInfoModuleInfos ::
    "allocator \<Rightarrow> GtModuleInfo list option \<Rightarrow> nat \<Rightarrow> GtBundleInfo \<Rightarrow> GtBundleInfo" where
  "GT_SetBundleInfoModuleInfos m moduleInfos n b =
     (if n = 0 then b
      else case moduleInfos of
          None \<Rightarrow> b
        | Some ms \<Rightarrow>
            if \<not> m (Objects ''ModuleInfo'' n) then b\<lparr>gb_numOfModule := n, gb_moduleInfos := None\<rparr>
            else b\<lparr>gb_numOfModule := n, gb_moduleInfos := Some (map (GT_CopyModuleInfo m) ms)\<rparr>)"

definition GT_CopyBundleInfo :: "allocator \<Rightarrow> int \<Rightarrow> GtBundleInfo \<Rightarrow> GtBundleInfo" where
  "GT_CopyBundleInfo m flags src =
     (let put = (\<lambda>field s b. snd (gt_set m field s b));
          d = put gb_bundleName_update (gb_bundleName src) zero_GtBundleInfo;
          d = put gb_label_update (gb_label src) d;
          d = put gb_versionName_update (gb_versionName src) d;
          d = put gb_bigIconPath_update (gb_bigIconPath src) d;
          d = put gb_codePath_update (gb_codePath src) d;
          d = put gb_dataPath_update (gb_dataPath src) d;
          d = put gb_vendor_update (gb_vendor src) d;
          d = GT_SetBundleInfoModuleInfos m (gb_moduleInfos src) (gb_numOfModule src) d;
          d = d\<lparr>gb_isSystemApp := gb_isSystemApp src, gb_versionCode := gb_versionCode src,
               gb_compatibleApi := gb_compatibleApi src, gb_targetApi := gb_targetApi src\<rparr>;
          d = put gb_appId_update (gb_appId src) d;
          d = put gb_smallIconPath_update (gb_smallIconPath src) d
      in if flags = GET_BUNDLE_WITH_ABILITIES
         then (case gb_abilityInfo src of None \<Rightarrow> d | Some a \<Rightarrow> snd (SetBundleInfoAbilityInfo m a d))
         else d\<lparr>gb_abilityInfo := None\<rparr>)"

text \<open>Copies that share the strings of the original.\<close>

definition GT_GetCopyBundleInfo :: "int \<Rightarrow> GtBundleInfo \<Rightarrow> GtBundleInfo" where
  "GT_GetCopyBundleInfo flags src = (if flags = GET_BUNDLE_WITH_ABILITIES then src else src\<lparr>gb_abilityInfo := None\<rparr>)"

definition GT_CopyBundleInfoNoReplication :: "int \<Rightarrow> GtBundleInfo \<Rightarrow> GtBundleInfo" where
  "GT_CopyBundleInfoNoReplication flags src =
     (let d = src\<lparr>gb_moduleInfos := (if gb_numOfModule src \<noteq> 0 then gb_moduleInfos src else None)\<rparr>
      in if flags = GET_BUNDLE_WITH_ABILITIES then d else d\<lparr>gb_abilityInfo := None\<rparr>)"

section \<open>The registry\<close>

record gt_map =
  gt_infos :: "nat list"
  gt_heap :: "nat \<Rightarrow> GtBundleInfo option"
  gt_next :: nat

definition gt_map_new :: gt_map where
  "gt_map_new = \<lparr>gt_infos = [], gt_heap = (\<lambda>_. None), gt_next = 0\<rparr>"

text \<open>Allocation of a structure, the change of one through its pointer, and \<open>FreeBundleInfo\<close>, undefined if it is not live.\<close>

definition gt_alloc_info :: "GtBundleInfo \<Rightarrow> gt_map \<Rightarrow> nat \<times> gt_map" where
  "gt_alloc_info b g = (gt_next g, g\<lparr>gt_heap := (gt_heap g)(gt_next g := Some b), gt_next := gt_next g + 1\<rparr>)"

definition gt_put :: "nat \<Rightarrow> GtBundleInfo \<Rightarrow> gt_map \<Rightarrow> gt_map option" where
  "gt_put a b g = (case gt_heap g a of None \<Rightarrow> None | Some _ \<Rightarrow> Some (g\<lparr>gt_heap := (gt_heap g)(a := Some b)\<rparr>))"

definition gt_free :: "nat \<Rightarrow> gt_map \<Rightarrow> gt_map option" where
  "gt_free a g = (case gt_heap g a of None \<Rightarrow> None | Some _ \<Rightarrow> Some (g\<lparr>gt_heap := (gt_heap g)(a := None)\<rparr>))"

fun find_info :: "(nat \<Rightarrow> GtBundleInfo option) \<Rightarrow> string \<Rightarrow> nat list \<Rightarrow> nat option option" where
  "find_info h n [] = Some None"
| "find_info h n (a # as) = do { b \<leftarrow> h a; if gb_bundleName b = Some n then Some (Some a) else find_info h n as }"

definition GT_Get :: "cstr \<Rightarrow> gt_map \<Rightarrow> nat option option" where
  "GT_Get bundleName g = (case bundleName of None \<Rightarrow> Some None | Some n \<Rightarrow> find_info (gt_heap g) n (gt_infos g))"

definition GT_Add :: "nat \<Rightarrow> gt_map \<Rightarrow> gt_map option" where
  "GT_Add a g = do {
     b \<leftarrow> gt_heap g a;
     case gb_bundleName b of
       None \<Rightarrow> Some g
     | Some n \<Rightarrow> do {
         found \<leftarrow> find_info (gt_heap g) n (gt_infos g);
         if found \<noteq> None then Some g else Some (g\<lparr>gt_infos := a # gt_infos g\<rparr>) } }"

definition GT_Update :: "nat \<Rightarrow> gt_map \<Rightarrow> (bool \<times> gt_map) option" where
  "GT_Update a g = do {
     b \<leftarrow> gt_heap g a;
     case gb_bundleName b of
       None \<Rightarrow> Some (False, g)
     | Some n \<Rightarrow> do {
         found \<leftarrow> find_info (gt_heap g) n (gt_infos g);
         case found of
           None \<Rightarrow> Some (True, g\<lparr>gt_infos := a # gt_infos g\<rparr>)
         | Some old \<Rightarrow> do {
             g \<leftarrow> gt_free old (g\<lparr>gt_infos := map (\<lambda>x. if x = old then a else x) (gt_infos g)\<rparr>);
             Some (True, g) } } }"

definition GT_Erase :: "cstr \<Rightarrow> gt_map \<Rightarrow> gt_map option" where
  "GT_Erase bundleName g =
     (case bundleName of
        None \<Rightarrow> Some g
      | Some n \<Rightarrow> do {
          found \<leftarrow> find_info (gt_heap g) n (gt_infos g);
          case found of
            None \<Rightarrow> Some g
          | Some a \<Rightarrow> gt_free a (g\<lparr>gt_infos := remove1 a (gt_infos g)\<rparr>) })"

definition GT_GetBundleInfo :: "cstr \<Rightarrow> int \<Rightarrow> gt_map \<Rightarrow> (errcode \<times> GtBundleInfo option) option" where
  "GT_GetBundleInfo bundleName flags g =
     (case bundleName of
        None \<Rightarrow> Some (ERR_QUERY_PARAMETER_ERROR, None)
      | Some n \<Rightarrow> do {
          found \<leftarrow> GT_Get (Some n) g;
          case found of
            None \<Rightarrow> Some (ERR_QUERY_NO_INFOS, None)
          | Some a \<Rightarrow> do { b \<leftarrow> gt_heap g a; Some (ERR_OK, Some (GT_GetCopyBundleInfo flags b)) } })"

fun all_infos :: "(nat \<Rightarrow> GtBundleInfo option) \<Rightarrow> nat list \<Rightarrow> GtBundleInfo list option" where
  "all_infos h [] = Some []"
| "all_infos h (a # as) = do { b \<leftarrow> h a; bs \<leftarrow> all_infos h as; Some (b # bs) }"

definition gt_get_infos ::
    "allocator \<Rightarrow> (GtBundleInfo \<Rightarrow> GtBundleInfo) \<Rightarrow> gt_map \<Rightarrow> (errcode \<times> GtBundleInfo list) option" where
  "gt_get_infos m copy g =
     (if gt_infos g = [] then Some (ERR_QUERY_NO_INFOS, [])
      else if \<not> m (Objects ''BundleInfo'' (length (gt_infos g))) then Some (ERR_QUERY_INFOS_INIT_ERROR, [])
      else do { bs \<leftarrow> all_infos (gt_heap g) (gt_infos g); Some (ERR_OK, map copy bs) })"

definition GT_GetBundleInfos :: "allocator \<Rightarrow> int \<Rightarrow> gt_map \<Rightarrow> (errcode \<times> GtBundleInfo list) option" where
  "GT_GetBundleInfos m flags g = gt_get_infos m (GT_CopyBundleInfo m flags) g"

definition GT_GetBundleInfosNoReplication :: "allocator \<Rightarrow> int \<Rightarrow> gt_map \<Rightarrow> (errcode \<times> GtBundleInfo list) option" where
  "GT_GetBundleInfosNoReplication m flags g = gt_get_infos m (GT_CopyBundleInfoNoReplication flags) g"

end
