(* ===== verification/Gt_Records.thy ===== *)
theory Gt_Records
  imports Gt_System
begin

text \<open>
  The records of the mini system: the file of each installed bundle and the lists of third-party system bundles, as
  \<^verbatim>\<open>services/bundlemgr_lite/src/bundle_util.cpp\<close> reads them and \<^verbatim>\<open>gt_bundle_installer.cpp\<close> writes them. A record has no
  uid; it has the engine's version where the scripts are compiled.
\<close>

abbreviation (input) "JSON_SUB_KEY_JSENGINE_VERSION \<equiv> ''JsEngineVersion''"
abbreviation (input) "JSON_SUB_KEY_TRANSFORM_RESULT \<equiv> ''transformResult''"

record GtInstallRecord =
  gi_bundleName :: cstr
  gi_codePath :: cstr
  gi_appId :: cstr
  gi_jsEngineVersion :: cstr
  gi_transformResult :: int
  gi_versionCode :: int

definition gt_bundle_json_path :: "string \<Rightarrow> string option" where
  "gt_bundle_json_path bundleName =
     (let path = GT_JSON_PATH @ bundleName @ JSON_SUFFIX in
      if length path \<ge> PATH_LENGTH then None else Some path)"

section \<open>Reading\<close>

text \<open>The outputs are returned as they are left, whatever the result.\<close>

definition GT_CheckBundleJsonIsValid ::
    "'j gt_system \<Rightarrow> gt_trace \<Rightarrow> cstr \<Rightarrow> cstr \<Rightarrow> cstr \<Rightarrow> int \<Rightarrow> (bool \<times> cstr \<times> cstr \<times> int) option" where
  "GT_CheckBundleJsonIsValid G t bundleName codePath appId versionCode =
     (let J = gt_json G; fail = (\<lambda>cp ai v. Some (False, cp, ai, v)) in
      case Option.bind bundleName gt_bundle_json_path of
        None \<Rightarrow> fail codePath appId versionCode
      | Some path \<Rightarrow>
          let object = GT_GetJsonStream G t (Some path) in
          if object = None then fail codePath appId versionCode
          else let item = j_GetObjectItem J object JSON_SUB_KEY_CODEPATH in
          if \<not> j_IsString J item then fail codePath appId versionCode
          else do {
            i \<leftarrow> item;
            let codePath = Strdup (gt_alloc G) (j_valuestring J i);
            if codePath = None then fail codePath appId versionCode
            else if \<not> GT_IsDir G t codePath then fail codePath appId versionCode
            else if \<not> EndWith codePath bundleName then fail codePath appId versionCode
            else let item = j_GetObjectItem J object JSON_SUB_KEY_APPID in
            if \<not> j_IsString J item then fail codePath appId versionCode
            else do {
              i \<leftarrow> item;
              let appId = Strdup (gt_alloc G) (j_valuestring J i);
              if appId = None then fail codePath appId versionCode
              else let item = j_GetObjectItem J object JSON_SUB_KEY_VERSIONCODE in
              if \<not> j_IsNumber J item then fail codePath appId versionCode
              else do {
                i \<leftarrow> item;
                Some (\<not> j_valueint J i < 0, codePath, appId, j_valueint J i) } } })"

definition GT_GetValueFromBundleJson :: "'j gt_system \<Rightarrow> gt_trace \<Rightarrow> cstr \<Rightarrow> cstr \<Rightarrow> cstr" where
  "GT_GetValueFromBundleJson G t bundleName key = do {
     n \<leftarrow> bundleName; k \<leftarrow> key;
     path \<leftarrow> gt_bundle_json_path n;
     object \<leftarrow> GT_GetJsonStream G t (Some path);
     let item = j_GetObjectItem (gt_json G) (Some object) k;
     if \<not> j_IsString (gt_json G) item then None
     else do { i \<leftarrow> item; Strdup (gt_alloc G) (j_valuestring (gt_json G) i) } }"

section \<open>Writing\<close>

definition GT_ConvertInstallRecordToJson :: "'j gt_system \<Rightarrow> GtInstallRecord \<Rightarrow> 'j option" where
  "GT_ConvertInstallRecordToJson G r = (let K = gt_mk G in do {
     root \<leftarrow> k_CreateObject K;
     root \<leftarrow> k_AddStringToObject K root JSON_SUB_KEY_PACKAGE (gi_bundleName r);
     root \<leftarrow> k_AddStringToObject K root JSON_SUB_KEY_APPID (gi_appId r);
     root \<leftarrow> (if gt_bc G then k_AddStringToObject K root JSON_SUB_KEY_JSENGINE_VERSION (gi_jsEngineVersion r)
              else Some root);
     root \<leftarrow> (if gt_bc G then k_AddNumberToObject K root JSON_SUB_KEY_TRANSFORM_RESULT (gi_transformResult r)
              else Some root);
     root \<leftarrow> k_AddNumberToObject K root JSON_SUB_KEY_VERSIONCODE (gi_versionCode r);
     k_AddStringToObject K root JSON_SUB_KEY_CODEPATH (gi_codePath r) })"

definition GT_BackUpInstallRecord :: "'j gt_system \<Rightarrow> GtInstallRecord \<Rightarrow> cstr \<Rightarrow> gt_trace \<Rightarrow> bool \<times> gt_trace" where
  "GT_BackUpInstallRecord G r jsonPath t =
     (case jsonPath of
        None \<Rightarrow> (False, t)
      | Some path \<Rightarrow>
          (case GT_ConvertInstallRecordToJson G r of
             None \<Rightarrow> (False, t)
           | Some object \<Rightarrow> StoreJsonContentToFile G path (Some object) t))"

text \<open>The temporary record if it is there, else the record.\<close>

definition GT_DeleteJsonFile :: "'j gt_system \<Rightarrow> cstr \<Rightarrow> cstr \<Rightarrow> gt_trace \<Rightarrow> gt_trace" where
  "GT_DeleteJsonFile G bundleName randStr t =
     (if bundleName = None \<or> randStr = None then t
      else case Strscat (gt_alloc G) [Some GT_JSON_PATH, bundleName, randStr, Some JSON_SUFFIX] of
          None \<Rightarrow> t
        | Some tmp \<Rightarrow>
            if GT_IsFile G t (Some tmp) then snd (gt_do G (Unlink tmp) t)
            else (case Strscat (gt_alloc G) [Some GT_JSON_PATH, bundleName, Some JSON_SUFFIX] of
                None \<Rightarrow> t
              | Some path \<Rightarrow> if GT_IsFile G t (Some path) then snd (gt_do G (Unlink path) t) else t))"

definition GT_RenameJsonFile :: "'j gt_system \<Rightarrow> cstr \<Rightarrow> cstr \<Rightarrow> gt_trace \<Rightarrow> bool \<times> gt_trace" where
  "GT_RenameJsonFile G fileName randStr t =
     (if fileName = None \<or> randStr = None then (False, t)
      else case Strscat (gt_alloc G) [Some GT_JSON_PATH, fileName, randStr, Some JSON_SUFFIX] of
          None \<Rightarrow> (False, t)
        | Some tmpJsonPath \<Rightarrow>
            if \<not> GT_IsFile G t (Some tmpJsonPath) then (False, t)
            else (case Strscat (gt_alloc G) [Some GT_JSON_PATH, fileName, Some JSON_SUFFIX] of
                None \<Rightarrow> (False, t)
              | Some jsonPath \<Rightarrow> GT_RenameFile G (Some tmpJsonPath) (Some jsonPath) t))"

section \<open>Third-party system bundles\<close>

definition GT_CheckIsThirdSystemBundle :: "'j gt_system \<Rightarrow> cstr \<Rightarrow> gt_trace \<Rightarrow> bool \<times> gt_trace" where
  "GT_CheckIsThirdSystemBundle G bundleName t =
     (let J = gt_json G in
      case bundleName of
        None \<Rightarrow> (False, t)
      | Some n \<Rightarrow>
          (case GT_GetJsonStream G t (Some GT_THIRD_SYSTEM_BUNDLE_JSON) of
             None \<Rightarrow> (False, t)
           | Some root \<Rightarrow>
               (let son = j_GetObjectItem J (Some root) JSON_MAIN_KEY in
                if \<not> j_IsArray J son then (False, snd (gt_do G (Unlink GT_THIRD_SYSTEM_BUNDLE_JSON) t))
                else (lists_bundle J n (j_elems J son), t))))"

definition GT_InitThirdSystemBundleRecord :: "'j gt_system \<Rightarrow> cstr \<Rightarrow> cstr \<Rightarrow> gt_trace \<Rightarrow> gt_trace" where
  "GT_InitThirdSystemBundleRecord G bundleName path t =
     (let K = gt_mk G in
      case do {
        n \<leftarrow> bundleName; p \<leftarrow> path;
        root \<leftarrow> k_CreateObject K;
        son \<leftarrow> k_CreateArray K;
        root \<leftarrow> k_AddItemToObject K root JSON_MAIN_KEY son;
        str \<leftarrow> k_CreateString K n;
        son \<leftarrow> k_AddItemToArray K son str;
        Some (p, k_put K False root JSON_MAIN_KEY son) } of
        None \<Rightarrow> t
      | Some (p, root) \<Rightarrow> snd (StoreJsonContentToFile G p (Some root) t))"

text \<open>Here a string that does not get into the array is no reason not to store it.\<close>

definition GT_RecordThirdSystemBundle :: "'j gt_system \<Rightarrow> cstr \<Rightarrow> cstr \<Rightarrow> gt_trace \<Rightarrow> gt_trace" where
  "GT_RecordThirdSystemBundle G bundleName path t =
     (let J = gt_json G; K = gt_mk G in
      case (bundleName, path) of
        (Some n, Some p) \<Rightarrow>
          if \<not> GT_IsFile G t path then GT_InitThirdSystemBundleRecord G bundleName path t
          else (case GT_GetJsonStream G t path of
              None \<Rightarrow> t
            | Some root \<Rightarrow>
                (let son = j_GetObjectItem J (Some root) JSON_MAIN_KEY in
                 if \<not> j_IsArray J son
                 then GT_InitThirdSystemBundleRecord G bundleName path (snd (gt_do G (Unlink p) t))
                 else case do { s \<leftarrow> son; str \<leftarrow> k_CreateString K n; Some (s, str) } of
                     None \<Rightarrow> t
                   | Some (s, str) \<Rightarrow>
                       (let root = (case k_AddItemToArray K s str of
                                      None \<Rightarrow> root | Some s \<Rightarrow> k_put K False root JSON_MAIN_KEY s) in
                        snd (StoreJsonContentToFile G p (Some root) t))))
      | _ \<Rightarrow> t)"

definition GT_CheckThirdSystemBundleHasUninstalled :: "'j cjson \<Rightarrow> cstr \<Rightarrow> 'j option \<Rightarrow> bool" where
  "GT_CheckThirdSystemBundleHasUninstalled J bundleName object =
     (case (object, bundleName) of
        (Some ob, Some n) \<Rightarrow>
          (let array = j_GetObjectItem J object JSON_MAIN_KEY in
           if \<not> j_IsArray J array then False else lists_bundle J n (j_elems J array))
      | _ \<Rightarrow> False)"

section \<open>Compiling the scripts\<close>

text \<open>Of a package that is being installed: whether it can go on, and what becomes of the record.\<close>

definition TransformJsToBc_install ::
    "'j gt_system \<Rightarrow> cstr \<Rightarrow> GtInstallRecord \<Rightarrow> gt_trace \<Rightarrow> errcode \<times> GtInstallRecord \<times> gt_trace" where
  "TransformJsToBc_install G codePath r t =
     (if codePath = None then (ERR_INSTALL_FAILED_INTERNAL_ERROR, r, t)
      else case Strscat (gt_alloc G) [codePath, Some ASSET_JS_PATH] of
          None \<Rightarrow> (ERR_INSTALL_FAILED_INTERNAL_ERROR, r, t)
        | Some jsPath \<Rightarrow>
            (let (ok, t) = gt_do G (Transform jsPath) t in
             if \<not> ok then (ERR_INSTALL_FAILED_TRANSFORM_BC_FILE_ERROR, r, t)
             else (ERR_OK, r\<lparr>gi_transformResult := 0\<rparr>, t)))"

text \<open>Of an installed bundle, when the service starts: the record holds the result.\<close>

definition set_item :: "'j gt_system \<Rightarrow> 'j \<Rightarrow> string \<Rightarrow> 'j \<Rightarrow> 'j option" where
  "set_item G object key item =
     (if j_GetObjectItem (gt_json G) (Some object) key = None then k_AddItemToObject (gt_mk G) object key item
      else gt_replace G object key item)"

definition TransformJsToBc_restart :: "'j gt_system \<Rightarrow> cstr \<Rightarrow> string \<Rightarrow> 'j \<Rightarrow> gt_trace \<Rightarrow> gt_trace" where
  "TransformJsToBc_restart G codePath bundleJsonPath installRecordObj t =
     (case Strscat (gt_alloc G) [codePath, Some ASSET_JS_PATH] of
        None \<Rightarrow> t
      | Some jsPath \<Rightarrow>
          (let (ok, t) = gt_do G (Transform jsPath) t in
           if \<not> ok then snd (gt_do G (Remove_bytecode jsPath) t)
           else case do { resultObj \<leftarrow> k_CreateNumber (gt_mk G) 0;
                          set_item G installRecordObj JSON_SUB_KEY_TRANSFORM_RESULT resultObj } of
               None \<Rightarrow> t
             | Some ob \<Rightarrow> snd (StoreJsonContentToFile G bundleJsonPath (Some ob) t)))"

text \<open>
  With the same version and a result of zero nothing is done. The version in the record is only read when it is a string, and
  an engine without a version makes no string.
\<close>

definition TransformJsToBcWhenRestart :: "'j gt_system \<Rightarrow> cstr \<Rightarrow> cstr \<Rightarrow> gt_trace \<Rightarrow> gt_trace" where
  "TransformJsToBcWhenRestart G codePath bundleName t =
     (let J = gt_json G in
      case do {
        _ \<leftarrow> codePath;
        bundleJsonPath \<leftarrow> Strscat (gt_alloc G) [Some GT_JSON_PATH, bundleName, Some JSON_SUFFIX];
        ob \<leftarrow> GT_GetJsonStream G t (Some bundleJsonPath);
        ver \<leftarrow> gt_jerry G;
        verObj \<leftarrow> k_CreateString (gt_mk G) ver;
        let old = j_GetObjectItem J (Some ob) JSON_SUB_KEY_JSENGINE_VERSION;
        if j_IsString J old \<and> j_valuestring J (the old) = Some ver
        then let result = j_GetObjectItem J (Some ob) JSON_SUB_KEY_TRANSFORM_RESULT in
          if j_IsNumber J result \<and> j_valueint J (the result) = 0 then None else Some (bundleJsonPath, ob)
        else do { ob \<leftarrow> set_item G ob JSON_SUB_KEY_JSENGINE_VERSION verObj; Some (bundleJsonPath, ob) } } of
        None \<Rightarrow> t
      | Some (bundleJsonPath, ob) \<Rightarrow> TransformJsToBc_restart G codePath bundleJsonPath ob t)"

end
