(* ===== verification/Gt_Extract.thy ===== *)
theory Gt_Extract
  imports Gt_System
begin

text \<open>
  The packages of the mini system: \<^verbatim>\<open>services/bundlemgr_lite/src/gt_extractor_util.cpp\<close> and the part of
  \<^verbatim>\<open>gt_bundle_extractor.cpp\<close> that reads them. A package is a magic byte, the name of the bundle with its length, and
  one after the other the files: the length and the characters of the name and of the directory, the size, and the bytes.

  An open file is its bytes and a position. \<open>char\<close> is unsigned, as on the target, whose \<open>long\<close> and \<open>off_t\<close> have 32
  bits. Strings are read with their length and used up to the first NUL. The position in the package that the loops count,
  \<open>index\<close>, stays below \<open>2 ^ 33\<close> and is a number.
\<close>

abbreviation (input) "MAGIC_NUMBER_VALUE \<equiv> 190 :: u8"
abbreviation (input) "MAGIC_NUMBER_LEN \<equiv> 1 :: nat"
abbreviation (input) "INT_LENGTH \<equiv> 4 :: nat"
abbreviation (input) "LONG_LENGTH \<equiv> 8 :: nat"
abbreviation (input) "UINT_MAX \<equiv> 4294967295 :: u32"
abbreviation (input) "LONG_MAX \<equiv> 2147483647 :: u64"

section \<open>Reading\<close>

definition read_bytes :: "u8 list \<Rightarrow> nat \<Rightarrow> nat \<Rightarrow> u8 list \<times> nat" where
  "read_bytes f pos n = (let buf = take n (drop pos f) in (buf, pos + length buf))"

definition lseek_cur :: "nat \<Rightarrow> nat \<Rightarrow> nat option" where
  "lseek_cur pos n = (if pos + n < 2 ^ 31 then Some (pos + n) else None)"

fun int_loop :: "u8 list \<Rightarrow> u32 \<Rightarrow> u32" where
  "int_loop [] result = result"
| "int_loop (b # bs) result =
     (if result > MAX_INT then UINT_MAX else int_loop bs (result + push_bit (8 * length bs) (ucast b)))"

definition ReadInt :: "u8 list \<Rightarrow> nat \<Rightarrow> u32 \<times> nat" where
  "ReadInt f pos =
     (let (buf, pos) = read_bytes f pos INT_LENGTH in
      (if length buf \<noteq> INT_LENGTH then UINT_MAX else int_loop buf 0, pos))"

definition CheckMagicNumber :: "u8 list \<Rightarrow> nat \<Rightarrow> bool \<times> nat" where
  "CheckMagicNumber f pos =
     (let (buf, pos) = read_bytes f pos MAGIC_NUMBER_LEN in
      (length buf = MAGIC_NUMBER_LEN \<and> last buf = MAGIC_NUMBER_VALUE, pos))"

fun long_loop :: "u8 list \<Rightarrow> u64 \<Rightarrow> u64" where
  "long_loop [] result = result"
| "long_loop (b # bs) result =
     (if result > LONG_MAX then 0 else long_loop bs (result + push_bit (8 * length bs) (ucast b)))"

definition ReadLong :: "u8 list \<Rightarrow> nat \<Rightarrow> u64 \<times> nat" where
  "ReadLong f pos =
     (let (buf, pos) = read_bytes f pos LONG_LENGTH in
      (if length buf \<noteq> LONG_LENGTH then 0 else long_loop buf 0, pos))"

definition as_string :: "u8 list \<Rightarrow> string" where
  "as_string buf = gt_chars (takeWhile (\<lambda>b. b \<noteq> 0) buf)"

definition GT_ReadString :: "'j gt_system \<Rightarrow> u8 list \<Rightarrow> nat \<Rightarrow> u32 \<Rightarrow> cstr \<times> nat" where
  "GT_ReadString G f pos len =
     (if \<not> gt_alloc G (Chars (unat (len + 1))) then (None, pos)
      else if len = 0 then (Some [], pos)
      else let (buf, pos) = read_bytes f pos (unat len) in
        (if length buf \<noteq> unat len then None else Some (as_string buf), pos))"

section \<open>Headers\<close>

definition ExtractFileHeaderInfo :: "'j gt_system \<Rightarrow> u8 list \<Rightarrow> nat \<Rightarrow> errcode \<times> cstr \<times> nat" where
  "ExtractFileHeaderInfo G f pos =
     (let (ok, pos) = CheckMagicNumber f pos in
      if \<not> ok then (ERR_INSTALL_FAILED_FILE_DATA_INVALID, None, pos)
      else let (bundleNameLen, pos) = ReadInt f pos in
        if bundleNameLen = UINT_MAX then (ERR_INSTALL_FAILED_FILE_DATA_INVALID, None, pos)
        else let (bundleName, pos) = GT_ReadString G f pos bundleNameLen in
          (if bundleName = None then ERR_INSTALL_FAILED_FILE_DATA_INVALID else ERR_OK, bundleName, pos))"

text \<open>Name, directory and size of the next file. An error leaves nothing that is used.\<close>

definition ExtractFileAttr :: "'j gt_system \<Rightarrow> u8 list \<Rightarrow> nat \<Rightarrow> (string \<times> string \<times> u64 \<times> nat) option" where
  "ExtractFileAttr G f pos =
     (let (nameLen, pos) = ReadInt f pos in
      if nameLen = UINT_MAX then None
      else let (fileName, pos) = GT_ReadString G f pos nameLen in
        case fileName of None \<Rightarrow> None | Some fileName \<Rightarrow>
          (let (pathLen, pos) = ReadInt f pos in
           if pathLen = UINT_MAX then None
           else let (relativeFilePath, pos) = GT_ReadString G f pos pathLen in
             case relativeFilePath of None \<Rightarrow> None | Some relativeFilePath \<Rightarrow>
               (let (fileSize, pos) = ReadLong f pos in
                if fileSize = 0 then None else Some (fileName, relativeFilePath, fileSize, pos))))"

text \<open>The same with the directory passed over.\<close>

definition ExtractFileAttr_len :: "'j gt_system \<Rightarrow> u8 list \<Rightarrow> nat \<Rightarrow> (string \<times> u32 \<times> u64 \<times> nat) option" where
  "ExtractFileAttr_len G f pos =
     (let (nameLen, pos) = ReadInt f pos in
      if nameLen = UINT_MAX then None
      else let (fileName, pos) = GT_ReadString G f pos nameLen in
        case fileName of None \<Rightarrow> None | Some fileName \<Rightarrow>
          (let (pathLen, pos) = ReadInt f pos in
           if pathLen = UINT_MAX then None
           else case lseek_cur pos (unat pathLen) of None \<Rightarrow> None | Some pos \<Rightarrow>
             (let (fileSize, pos) = ReadLong f pos in
              if fileSize = 0 then None else Some (fileName, pathLen, fileSize, pos))))"

section \<open>Writing a file\<close>

function gt_copy_loop :: "'j gt_system \<Rightarrow> u8 list \<Rightarrow> string \<Rightarrow> nat \<Rightarrow> nat \<Rightarrow> gt_trace \<Rightarrow> bool \<times> nat \<times> gt_trace" where
  "gt_copy_loop G f filePath remain pos t =
     (if remain = 0 then (True, pos, t)
      else let reading = min remain READ_SIZE; (buf, pos) = read_bytes f pos reading in
        if length buf \<noteq> reading then (False, pos, t)
        else let (ok, t) = gt_do G (Write filePath buf) t in
          if \<not> ok then (False, pos, t) else gt_copy_loop G f filePath (remain - reading) pos t)"
  by pat_completeness auto
termination by (relation "measure (\<lambda>(G, f, filePath, remain, pos, t). remain)") (auto simp: min_def)

declare gt_copy_loop.simps [simp del]

definition HasCopiedData :: "'j gt_system \<Rightarrow> u8 list \<Rightarrow> string \<Rightarrow> nat \<Rightarrow> u64 \<Rightarrow> gt_trace \<Rightarrow> bool \<times> nat \<times> gt_trace" where
  "HasCopiedData G f filePath pos n t =
     (if \<not> CheckRealPath (Some filePath) then (False, pos, t)
      else let (ok, t) = gt_do G (Create filePath) t in
        if \<not> ok then (False, pos, t)
        else if \<not> gt_alloc G (Chars (min (unat n) READ_SIZE)) then (False, pos, t)
        else gt_copy_loop G f filePath (unat n) pos t)"

definition HasWrittenFile ::
    "'j gt_system \<Rightarrow> u8 list \<Rightarrow> string \<Rightarrow> string \<Rightarrow> string \<Rightarrow> nat \<Rightarrow> u64 \<Rightarrow> gt_trace \<Rightarrow> bool \<times> nat \<times> gt_trace" where
  "HasWrittenFile G f installPath path filename pos n t =
     (if \<not> gt_alloc G (Chars (length installPath + length path + 1)) then (False, pos, t)
      else let (ok, t) = MkDirs G (installPath @ path) t in
        if \<not> ok then (False, pos, t)
        else let destName = installPath @ path @ ''/'' @ filename in
          if length destName \<ge> PATH_LENGTH then (False, pos, t)
          else HasCopiedData G f destName pos n t)"

section \<open>Whole packages\<close>

definition ExtractFileDataPos :: "'j gt_system \<Rightarrow> u8 list \<Rightarrow> (errcode \<times> nat \<times> nat)" where
  "ExtractFileDataPos G f =
     (let (errorCode, bundleName, pos) = ExtractFileHeaderInfo G f 0 in
      case bundleName of
        None \<Rightarrow> (errorCode, 0, pos)
      | Some n \<Rightarrow> (errorCode, MAGIC_NUMBER_LEN + INT_LENGTH + length n, pos))"

text \<open>How far \<open>index\<close> moves: over the two lengths, the two strings as they are used, the size, and the bytes.\<close>

definition entry_length :: "nat \<Rightarrow> nat \<Rightarrow> u64 \<Rightarrow> nat" where
  "entry_length nameLen pathLen fileSize = INT_LENGTH + nameLen + INT_LENGTH + pathLen + LONG_LENGTH + unat fileSize"

function extract_loop :: "'j gt_system \<Rightarrow> u8 list \<Rightarrow> string \<Rightarrow> nat \<Rightarrow> nat \<Rightarrow> nat \<Rightarrow> gt_trace \<Rightarrow> errcode \<times> gt_trace" where
  "extract_loop G f codePath totalSize index pos t =
     (if \<not> index < totalSize then (ERR_OK, t)
      else case ExtractFileAttr G f pos of
          None \<Rightarrow> (ERR_INSTALL_FAILED_FILE_DATA_INVALID, t)
        | Some (fileName, relativeFilePath, fileSize, pos) \<Rightarrow>
            (let (ok, pos, t) = HasWrittenFile G f codePath relativeFilePath fileName pos fileSize t in
             if \<not> ok then (ERR_INSTALL_FAILED_CREATE_FILE_ERROR, t)
             else extract_loop G f codePath totalSize
               (index + entry_length (length fileName) (length relativeFilePath) fileSize) pos t))"
  by pat_completeness auto
termination
  by (relation "measure (\<lambda>(G, f, codePath, totalSize, index, pos, t). totalSize - index)") (auto simp: entry_length_def)

declare extract_loop.simps [simp del]

definition GT_ExtractHap ::
    "'j gt_system \<Rightarrow> cstr \<Rightarrow> cstr \<Rightarrow> u8 list \<Rightarrow> u32 \<Rightarrow> gt_trace \<Rightarrow> errcode \<times> gt_trace" where
  "GT_ExtractHap G codePath bundleName f totalFileSize t =
     (case (codePath, bundleName) of
        (Some codePath, Some _) \<Rightarrow>
          (let (errorCode, index, pos) = ExtractFileDataPos G f in
           if errorCode \<noteq> ERR_OK then (errorCode, t)
           else extract_loop G f codePath (unat totalFileSize) index pos t)
      | _ \<Rightarrow> (ERR_INSTALL_FAILED_INTERNAL_ERROR, t))"

text \<open>The bytes of \<open>config.json\<close> in the package's root.\<close>

function profile_loop :: "'j gt_system \<Rightarrow> u8 list \<Rightarrow> nat \<Rightarrow> nat \<Rightarrow> nat \<Rightarrow> u8 list option" where
  "profile_loop G f totalSize index pos =
     (if \<not> index < totalSize then None
      else case ExtractFileAttr_len G f pos of
          None \<Rightarrow> None
        | Some (fileName, pathLen, fileSize, pos) \<Rightarrow>
            if pathLen = 0 \<and> fileName = PROFILE_NAME
            then if \<not> gt_alloc G (Chars (unat fileSize)) then None
              else let (fileData, pos) = read_bytes f pos (unat fileSize) in
                if length fileData \<noteq> unat fileSize then None else Some fileData
            else (case lseek_cur pos (unat fileSize) of
                None \<Rightarrow> None
              | Some pos \<Rightarrow>
                  profile_loop G f totalSize (index + entry_length (length fileName) (unat pathLen) fileSize) pos))"
  by pat_completeness auto
termination
  by (relation "measure (\<lambda>(G, f, totalSize, index, pos). totalSize - index)") (auto simp: entry_length_def)

declare profile_loop.simps [simp del]

definition GT_ExtractHapProfile :: "'j gt_system \<Rightarrow> u8 list \<Rightarrow> u32 \<Rightarrow> u8 list option" where
  "GT_ExtractHapProfile G f totalFileSize =
     (let (errorCode, index, pos) = ExtractFileDataPos G f in
      if errorCode \<noteq> ERR_OK then None else profile_loop G f (unat totalFileSize) index pos)"

text \<open>Everything but the scripts.\<close>

function resource_loop :: "'j gt_system \<Rightarrow> u8 list \<Rightarrow> string \<Rightarrow> nat \<Rightarrow> nat \<Rightarrow> nat \<Rightarrow> gt_trace \<Rightarrow> bool \<times> gt_trace" where
  "resource_loop G f path totalSize index pos t =
     (if \<not> index < totalSize then (True, t)
      else case ExtractFileAttr G f pos of
          None \<Rightarrow> (False, t)
        | Some (fileName, relativeFilePath, fileSize, pos) \<Rightarrow>
            (let written =
                 (if relativeFilePath = [] \<and> fileName = PROFILE_NAME \<or>
                     \<not> StartWith (Some relativeFilePath) (Some ASSET_JS_PATH)
                  then let (ok, pos, t) = HasWrittenFile G f path relativeFilePath fileName pos fileSize t in
                    (if ok then Some pos else None, t)
                  else (lseek_cur pos (unat fileSize), t))
             in case written of
               (None, t) \<Rightarrow> (False, t)
             | (Some pos, t) \<Rightarrow> resource_loop G f path totalSize
                 (index + entry_length (length fileName) (length relativeFilePath) fileSize) pos t))"
  by pat_completeness auto
termination
  by (relation "measure (\<lambda>(G, f, path, totalSize, index, pos, t). totalSize - index)") (auto simp: entry_length_def)

declare resource_loop.simps [simp del]

definition ExtractResourceFile :: "'j gt_system \<Rightarrow> string \<Rightarrow> u8 list \<Rightarrow> u32 \<Rightarrow> gt_trace \<Rightarrow> bool \<times> gt_trace" where
  "ExtractResourceFile G path f totalFileSize t =
     (let (errorCode, index, pos) = ExtractFileDataPos G f in
      if errorCode \<noteq> ERR_OK then (False, t) else resource_loop G f path (unat totalFileSize) index pos t)"

text \<open>The file opened, the name of the bundle in it, and what is wrong with it.\<close>

definition ExtractBundleParam :: "'j gt_system \<Rightarrow> gt_trace \<Rightarrow> string \<Rightarrow> errcode \<times> u8 list option \<times> cstr" where
  "ExtractBundleParam G t path =
     (if \<not> CheckRealPath (Some path) then (ERR_INSTALL_FAILED_PARAM_ERROR, None, None)
      else case gt_content G t path of
          None \<Rightarrow> (ERR_INSTALL_FAILED_FILE_NOT_EXISTS, None, None)
        | Some f \<Rightarrow>
            (let (errorCode, bundleName, _) = ExtractFileHeaderInfo G f 0 in
             case bundleName of
               None \<Rightarrow> (errorCode, Some f, None)
             | Some n \<Rightarrow>
                 if length n > MAX_BUNDLE_NAME_LEN \<or> length n < MIN_BUNDLE_NAME_LEN
                 then (ERR_INSTALL_FAILED_PARSE_INVALID_BUNDLENAME_LENGTH, Some f, bundleName)
                 else if contains n ''../'' then (ERR_INSTALL_FAILED_PARSE_INVALID_BUNDLENAME, Some f, bundleName)
                 else (ERR_OK, Some f, bundleName)))"

end
