(* ===== verification/Gt_Parser.thy ===== *)
theory Gt_Parser
  imports Gt_Extract Gt_Types
begin

text \<open>
  \<^verbatim>\<open>services/bundlemgr_lite/src/gt_bundle_parser.cpp\<close>, and \<open>ExtractInstallMsg\<close> of \<^verbatim>\<open>gt_bundle_extractor.cpp\<close>, which uses
  it: the profile of a package or of an installed bundle, and the \<open>BundleInfo\<close> made of it. Reading a value, the
  entries of the metadata and the permissions are as in the small system. \<open>None\<close> is an undefined access.
\<close>

abbreviation (input) "BASE_API_VERSION \<equiv> 3 :: int"

type_synonym gt_profile = "GtBundleProfile \<times> GtAbilityRes option"

section \<open>The profile\<close>

definition parse_first_ability :: "'j cjson \<Rightarrow> 'j option \<Rightarrow> gt_profile \<Rightarrow> GtAbilityRes \<Rightarrow> gt_profile parsed" where
  "parse_first_ability J first = (\<lambda>(p, _) r.
     let label = the (gp_label p) in
     let labelId = ParseValue_int J first LABEL_ID (-1) in
     if StartWith (gp_label p) (Some DEFAULT_LABEL_SETTING) \<and> labelId < 0
     then Some (ERR_INSTALL_FAILED_PARSE_ABILITY_LABEL_ERROR, (p, Some r))
     else let r = (if StartWith (gp_label p) (Some DEFAULT_LABEL_SETTING) then r\<lparr>gr_labelId := word_of_int labelId\<rparr> else r) in
     if length label > GT_MAX_LABLE_LEN then Some (ERR_INSTALL_FAILED_EXCEED_MAX_LABEL_LENGTH_ERROR, (p, Some r))
     else let p = p\<lparr>gp_iconPath := ParseValue_str J first ''icon''\<rparr> in
     if gp_iconPath p \<noteq> Some DEFAULT_ICON_SETTING then Some (ERR_INSTALL_FAILED_PARSE_ABILITY_ICONPATH_ERROR, (p, Some r))
     else let iconId = ParseValue_int J first ICON_ID (-1) in
       if iconId < 0 then Some (ERR_INSTALL_FAILED_PARSE_ABILITY_ICONPATH_ERROR, (p, Some r))
       else Some (ERR_OK, (p, Some (r\<lparr>gr_iconId := word_of_int iconId\<rparr>))))"

definition GT_ParseAbilityInfo :: "'j cjson \<Rightarrow> allocator \<Rightarrow> 'j option \<Rightarrow> gt_profile \<Rightarrow> gt_profile parsed" where
  "GT_ParseAbilityInfo J m abilityInfoObjects = (\<lambda>(p, r).
     let first = j_GetArrayItem J abilityInfoObjects 0;
         p = p\<lparr>gp_label := ParseValue_str J first ''label''\<rparr> in
     if gp_label p = None then Some (ERR_INSTALL_FAILED_PARSE_ABILITY_LABEL_ERROR, (p, r))
     else if \<not> m (Objects ''AbilityRes'' 1) then Some (ERR_INSTALL_FAILED_INTERNAL_ERROR, (p, None))
     else parse_first_ability J first (p, r) \<lparr>gr_iconId = 0, gr_labelId = 0\<rparr>)"

fun device_loop :: "'j cjson \<Rightarrow> string \<Rightarrow> 'j list \<Rightarrow> bool" where
  "device_loop J deviceType [] = False"
| "device_loop J deviceType (object # os) =
     (if j_type J object \<noteq> cJSON_String then False
      else if j_valuestring J object = Some deviceType \<or> j_valuestring J object = Some GT_DEFAULT_DEVICE_TYPE then True
      else device_loop J deviceType os)"

definition CheckDeviceTypeIsValid :: "'j cjson \<Rightarrow> cstr \<Rightarrow> 'j option \<Rightarrow> bool" where
  "CheckDeviceTypeIsValid J deviceType deviceTypeObject =
     (if \<not> j_IsArray J deviceTypeObject then False
      else case deviceType of None \<Rightarrow> False | Some d \<Rightarrow> device_loop J d (j_elems J deviceTypeObject))"

definition GT_ParseModuleMetaData :: "'j cjson \<Rightarrow> allocator \<Rightarrow> 'j option \<Rightarrow> gt_profile \<Rightarrow> gt_profile parsed" where
  "GT_ParseModuleMetaData J m moduleObject = (\<lambda>(p, r).
     let object = ParseValue_obj J moduleObject ''metaData'' None in
     if is_null_item J object then Some (ERR_OK, (p, r))
     else let object = j_GetObjectItem J object ''customizeData'' in
     if is_null_item J object then Some (ERR_OK, (p, r))
     else if j_type J (the object) \<noteq> cJSON_Array \<or> j_GetArraySize J object > int METADATA_SIZE
     then Some (ERR_INSTALL_FAILED_PARSE_METADATA_ERROR, (p, r))
     else do {
       (e, ms) \<leftarrow> metadata_loop J m (j_elems J object) 0 (gm_metaData (gp_moduleInfo p));
       Some (e, (p\<lparr>gp_moduleInfo := (gp_moduleInfo p)\<lparr>gm_metaData := ms\<rparr>\<rparr>, r)) })"

definition parse_module_rest :: "'j cjson \<Rightarrow> allocator \<Rightarrow> 'j option \<Rightarrow> 'j option \<Rightarrow> gt_profile \<Rightarrow> gt_profile parsed" where
  "parse_module_rest J m moduleObject distro s =
     ok_then (GT_ParseModuleMetaData J m moduleObject s) (\<lambda>s.
     case ParseValue_str J distro ''moduleType'' of
       None \<Rightarrow> Some (ERR_INSTALL_FAILED_PARSE_DISTRO_MODULETYPE_ERROR, s)
     | Some moduleType \<Rightarrow>
         if \<not> (moduleType = MODULE_ENTRY \<or> moduleType = MODULE_FEATURE)
         then Some (ERR_INSTALL_FAILED_PARSE_DISTRO_MODULETYPE_ERROR, s)
         else (case ParseValue_obj J moduleObject ''abilities'' None of
             None \<Rightarrow> Some (ERR_INSTALL_FAILED_PARSE_ABILITIES_ERROR, s)
           | Some abilityObjects \<Rightarrow>
               if j_type J abilityObjects \<noteq> cJSON_Array \<or> j_GetArraySize J (Some abilityObjects) = 0
               then Some (ERR_INSTALL_FAILED_PARSE_ABILITIES_ERROR, s)
               else GT_ParseAbilityInfo J m (Some abilityObjects) s))"

definition GT_ParseModuleInfo :: "'j cjson \<Rightarrow> allocator \<Rightarrow> cstr \<Rightarrow> 'j option \<Rightarrow> gt_profile \<Rightarrow> gt_profile parsed" where
  "GT_ParseModuleInfo J m deviceType moduleObject = (\<lambda>(p, r).
     if \<not> CheckDeviceTypeIsValid J deviceType (ParseValue_obj J moduleObject ''deviceType'' None)
     then Some (ERR_INSTALL_FAILED_PARSE_DEVICETYPE_ERROR, (p, r))
     else let object = ParseValue_obj J moduleObject ''distro'' None in
     if object = None then Some (ERR_INSTALL_FAILED_PARSE_DISTRO_ERROR, (p, r))
     else if \<not> j_IsBool J (j_GetObjectItem J object ''deliveryWithInstall'')
     then Some (ERR_INSTALL_FAILED_PARSE_DISTRO_DELIVERY_ERROR, (p, r))
     else let p = p\<lparr>gp_moduleInfo := (gp_moduleInfo p)\<lparr>gm_moduleName := ParseValue_str J object ''moduleName''\<rparr>\<rparr> in
       case gm_moduleName (gp_moduleInfo p) of
         None \<Rightarrow> Some (ERR_INSTALL_FAILED_PARSE_DISTRO_MODULENAME_ERROR, (p, r))
       | Some moduleName \<Rightarrow>
           if contains moduleName ''../'' then Some (ERR_INSTALL_FAILED_PARSE_INVALID_MODULENAME, (p, r))
           else parse_module_rest J m moduleObject object (p, r))"

definition GT_parse_version :: "'j cjson \<Rightarrow> 'j option \<Rightarrow> gt_profile \<Rightarrow> gt_profile parsed" where
  "GT_parse_version J appObject = (\<lambda>(p, r).
     let object = ParseValue_obj J appObject ''version'' None;
         p = p\<lparr>gp_versionName := ParseValue_str J object ''name''\<rparr> in
     case gp_versionName p of
       None \<Rightarrow> Some (ERR_INSTALL_FAILED_PARSE_VERSIONNAME_ERROR, (p, r))
     | Some versionName \<Rightarrow>
         if length versionName > GT_MAX_VERSION_NAME_LEN
         then Some (ERR_INSTALL_FAILED_EXCEED_MAX_VERSIONNAME_LENGTH_ERROR, (p, r))
         else let p = p\<lparr>gp_versionCode := ParseValue_int J object ''code'' (-1)\<rparr> in
           if gp_versionCode p = -1 then Some (ERR_INSTALL_FAILED_PARSE_VERSIONCODE_ERROR, (p, r))
           else Some (ERR_OK, (p, r)))"

definition GT_parse_apiVersion :: "'j cjson \<Rightarrow> 'j option \<Rightarrow> gt_profile \<Rightarrow> gt_profile parsed" where
  "GT_parse_apiVersion J appObject = (\<lambda>(p, r).
     if \<not> j_HasObjectItem J appObject ''apiVersion''
     then Some (ERR_OK, (p\<lparr>gp_minApiVersion := BASE_API_VERSION, gp_maxApiVersion := BASE_API_VERSION\<rparr>, r))
     else let object = ParseValue_obj J appObject ''apiVersion'' None in
     if object = None then Some (ERR_INSTALL_FAILED_PARSE_API_VERSION_ERROR, (p, r))
     else let p = p\<lparr>gp_minApiVersion := ParseValue_int J object ''compatible'' (-1)\<rparr> in
     if \<not> j_HasObjectItem J object ''target'' then Some (ERR_OK, (p, r))
     else let p = p\<lparr>gp_maxApiVersion := ParseValue_int J object ''target'' (-1)\<rparr> in
       if \<not> gp_maxApiVersion p \<ge> gp_minApiVersion p then Some (ERR_INSTALL_FAILED_PARSE_API_VERSION_ERROR, (p, r))
       else Some (ERR_OK, (p, r)))"

definition GT_ParseJsonInfo ::
    "'j cjson \<Rightarrow> allocator \<Rightarrow> cstr \<Rightarrow> 'j option \<Rightarrow> 'j option \<Rightarrow> gt_profile \<Rightarrow> gt_profile parsed" where
  "GT_ParseJsonInfo J m deviceType appObject moduleObject = (\<lambda>(p, r).
     let p = p\<lparr>gp_bundleName := ParseValue_str J appObject ''bundleName''\<rparr> in
     case gp_bundleName p of
       None \<Rightarrow> Some (ERR_INSTALL_FAILED_PARSE_BUNDLENAME_ERROR, (p, r))
     | Some bundleName \<Rightarrow>
         if \<not> (length bundleName \<ge> MIN_BUNDLE_NAME_LEN \<and> length bundleName \<le> MAX_BUNDLE_NAME_LEN)
         then Some (ERR_INSTALL_FAILED_PARSE_INVALID_BUNDLENAME_LENGTH, (p, r))
         else let vendor = j_HasObjectItem J appObject ''vendor'';
                  p = (if vendor then p\<lparr>gp_vendor := ParseValue_str J appObject ''vendor''\<rparr> else p) in
         if vendor \<and> gp_vendor p = None then Some (ERR_INSTALL_FAILED_PARSE_VENDOR_ERROR, (p, r))
         else ok_then (GT_parse_version J appObject (p, r)) (\<lambda>s.
              ok_then (GT_parse_apiVersion J appObject s) (\<lambda>s.
              GT_ParseModuleInfo J m deviceType moduleObject s)))"

section \<open>The bundle\<close>

definition GT_SetModuleInfos :: "allocator \<Rightarrow> GtBundleProfile \<Rightarrow> GtBundleInfo \<Rightarrow> bool \<times> GtBundleInfo" where
  "GT_SetModuleInfos m p b =
     (if \<not> m (Objects ''ModuleInfo'' 1) then (False, b\<lparr>gb_moduleInfos := None\<rparr>)
      else let b = b\<lparr>gb_numOfModule := 1\<rparr>;
               (ok, mi) = GT_SetModuleInfoMetaData m (gm_metaData (gp_moduleInfo p)) zero_GtModuleInfo in
        if \<not> ok then (False, b\<lparr>gb_moduleInfos := Some [mi]\<rparr>)
        else let (ok, mi) = gt_set m gm_moduleName_update (gm_moduleName (gp_moduleInfo p)) mi in
          (ok, b\<lparr>gb_moduleInfos := Some [mi]\<rparr>))"

definition GT_SetBundleInfo ::
    "allocator \<Rightarrow> cstr \<Rightarrow> GtBundleProfile \<Rightarrow> GtAbilityRes option \<Rightarrow> GtBundleInfo \<Rightarrow> (bool \<times> GtBundleInfo) option" where
  "GT_SetBundleInfo m installedPath p abilityRes b =
     (case (abilityRes, installedPath) of
        (Some res, Some _) \<Rightarrow> do {
          let b = b\<lparr>gb_versionCode := gp_versionCode p, gb_compatibleApi := gp_minApiVersion p,
                    gb_targetApi := gp_maxApiVersion p, gb_codePath := installedPath\<rparr>;
          bundleName \<leftarrow> gp_bundleName p;
          let dataPath = GT_DATA_PATH @ ''/'' @ bundleName;
          if \<not> m (Chars (length dataPath + 1)) then Some (False, b)
          else let b = b\<lparr>gb_dataPath := Strdup m (Some dataPath)\<rparr> in
          if gb_dataPath b = None then Some (False, b)
          else let (ok, b) = (if gp_vendor p \<noteq> None then gt_set m gb_vendor_update (gp_vendor p) b else (True, b)) in
          if \<not> ok then Some (False, b)
          else let (ok, b) = (if gr_labelId res = 0 \<and> gp_label p \<noteq> None
                              then gt_set m gb_label_update (gp_label p) b else (True, b)) in
          if \<not> ok then Some (False, b)
          else let (ok, b) = gt_set m gb_bundleName_update (gp_bundleName p) b in
          if \<not> ok then Some (False, b)
          else let (ok, b) = gt_set m gb_versionName_update (gp_versionName p) b in
          if \<not> ok then Some (False, b) else Some (GT_SetModuleInfos m p b) }
      | _ \<Rightarrow> Some (False, b))"

text \<open>
  The icons lie beside the file the resource library names; a name without a slash is searched past its beginning.
\<close>

definition GT_ConvertIconResToBundleInfo ::
    "'j gt_system \<Rightarrow> gt_trace \<Rightarrow> string \<Rightarrow> u32 \<Rightarrow> GtBundleInfo \<Rightarrow> (bool \<times> GtBundleInfo) option" where
  "GT_ConvertIconResToBundleInfo G t resPath iconId b =
     (if iconId = 0 then Some (False, b)
      else case gt_global G t iconId resPath of
          None \<Rightarrow> Some (False, b)
        | Some None \<Rightarrow> Some (False, b)
        | Some (Some relativeIconPath) \<Rightarrow> do {
            pos \<leftarrow> rfind_char (CHR ''/'') relativeIconPath;
            let dir = Some (take pos relativeIconPath);
            let bigIconPath = Strscat (gt_alloc G) [gb_codePath b, Some ASSETS, dir, Some ICON_NAME];
            let smallIconPath = Strscat (gt_alloc G) [gb_codePath b, Some ASSETS, dir, Some SMALL_ICON_NAME];
            if bigIconPath = None \<or> smallIconPath = None then Some (False, b)
            else if \<not> GT_IsFile G t bigIconPath \<or> \<not> GT_IsFile G t smallIconPath then Some (False, b)
            else Some (True, b\<lparr>gb_bigIconPath := bigIconPath, gb_smallIconPath := smallIconPath\<rparr>) })"

definition GT_ConvertResInfoToBundleInfo ::
    "'j gt_system \<Rightarrow> gt_trace \<Rightarrow> cstr \<Rightarrow> u32 \<Rightarrow> u32 \<Rightarrow> GtBundleInfo \<Rightarrow> (errcode \<times> GtBundleInfo) option" where
  "GT_ConvertResInfoToBundleInfo G t path labelId iconId b =
     (if path = None then Some (ERR_INSTALL_FAILED_INTERNAL_ERROR, b)
      else do {
        mis \<leftarrow> gb_moduleInfos b;
        mi \<leftarrow> (case mis of [] \<Rightarrow> None | mi # _ \<Rightarrow> Some mi);
        case Strscat (gt_alloc G) [path, Some ASSETS, gm_moduleName mi, Some RESOURCES_INDEX] of
          None \<Rightarrow> Some (ERR_INSTALL_FAILED_INTERNAL_ERROR, b)
        | Some resPath \<Rightarrow>
            if \<not> GT_IsFile G t (Some resPath) then Some (ERR_INSTALL_FAILED_RESOURCE_INDEX_NOT_EXISTS, b)
            else let (e, b) =
                (if labelId = 0 then (ERR_OK, b)
                 else case gt_global G t labelId resPath of
                     None \<Rightarrow> (ERR_INSTALL_FAILED_PARSE_LABEL_RES_ERROR, b)
                   | Some label \<Rightarrow>
                       (let b = b\<lparr>gb_label := Strdup (gt_alloc G) label\<rparr> in
                        (if gb_label b = None then ERR_INSTALL_FAILED_INTERNAL_ERROR else ERR_OK, b)))
              in if e \<noteq> ERR_OK then Some (e, b)
                 else do {
                   (ok, b) \<leftarrow> GT_ConvertIconResToBundleInfo G t resPath iconId b;
                   Some (if ok then ERR_OK else ERR_INSTALL_FAILED_PARSE_ICON_RES_ERROR, b) } })"

text \<open>The ability of a bundle, whose scripts lie in \<open>jsPath\<close>.\<close>

definition set_ability :: "allocator \<Rightarrow> cstr \<Rightarrow> GtBundleInfo \<Rightarrow> bool \<times> GtBundleInfo" where
  "set_ability m jsPath b = SetBundleInfoAbilityInfo m \<lparr>ga_srcPath = jsPath, ga_bundleName = gb_bundleName b\<rparr> b"

definition GT_CreateBundleInfo ::
    "'j gt_system \<Rightarrow> gt_trace \<Rightarrow> string \<Rightarrow> GtBundleProfile \<Rightarrow> GtAbilityRes option \<Rightarrow> GtBundleInfo option option" where
  "GT_CreateBundleInfo G t path p abilityRes =
     (let m = gt_alloc G in
      if \<not> m (Objects ''BundleInfo'' 1) then Some None
      else do {
        (ok, b) \<leftarrow> GT_SetBundleInfo m (Strdup m (Some path)) p abilityRes zero_GtBundleInfo;
        if \<not> ok then Some None
        else do {
          res \<leftarrow> abilityRes;
          (errorCode, b) \<leftarrow> GT_ConvertResInfoToBundleInfo G t (Some path) (gr_labelId res) (gr_iconId res) b;
          if errorCode \<noteq> ERR_OK then Some None
          else let jsPath = Strscat m [gb_codePath b, Some ASSET_JS_PATH] in
          if jsPath = None \<or> \<not> GT_IsDir G t jsPath then Some None
          else let (ok, b) = set_ability m jsPath b in Some (if ok then Some b else None) } })"

text \<open>
  The bundle that is installed in a directory, and what its ability needs of the resources, which is given back whatever
  comes of the bundle.
\<close>

definition GT_ParseHapProfile_dir ::
    "'j gt_system \<Rightarrow> gt_trace \<Rightarrow> string \<Rightarrow> (GtBundleInfo option \<times> GtAbilityRes option) option" where
  "GT_ParseHapProfile_dir G t path =
     (let J = gt_json G in
      if \<not> CheckRealPath (Some path) \<or> length (path @ ''/'' @ PROFILE_NAME) \<ge> PATH_LENGTH then Some (None, None)
      else case GT_GetJsonStream G t (Some (path @ ''/'' @ PROFILE_NAME)) of
          None \<Rightarrow> Some (None, None)
        | root \<Rightarrow>
            (let appObject = j_GetObjectItem J root ''app''; moduleObject = j_GetObjectItem J root ''module'' in
             if appObject = None \<or> moduleObject = None then Some (None, None)
             else do {
               (e, p, res) \<leftarrow> GT_ParseJsonInfo J (gt_alloc G) (gt_deviceType G) appObject moduleObject
                                (zero_GtBundleProfile, None);
               if e \<noteq> ERR_OK then Some (None, res)
               else do { b \<leftarrow> GT_CreateBundleInfo G t path p res; Some (b, res) } }))"

definition GT_SaveBundleInfo ::
    "allocator \<Rightarrow> GtBundleProfile \<Rightarrow> GtAbilityRes option \<Rightarrow> (errcode \<times> GtBundleInfo option) option" where
  "GT_SaveBundleInfo m p abilityRes = do {
     bundleName \<leftarrow> gp_bundleName p;
     let installedPath = GT_INSTALL_PATH @ ''/'' @ bundleName;
     if \<not> m (Chars (length installedPath + 1)) \<or> \<not> m (Objects ''BundleInfo'' 1)
     then Some (ERR_INSTALL_FAILED_INTERNAL_ERROR, None)
     else do {
       (ok, b) \<leftarrow> GT_SetBundleInfo m (Some installedPath) p abilityRes zero_GtBundleInfo;
       if \<not> ok then Some (ERR_INSTALL_FAILED_INTERNAL_ERROR, None)
       else let jsPath = Strscat m [gb_codePath b, Some ASSET_JS_PATH] in
       if jsPath = None then Some (ERR_INSTALL_FAILED_INTERNAL_ERROR, None)
       else let (ok, b) = set_ability m jsPath b in
         Some (if ok then (ERR_OK, Some b) else (ERR_INSTALL_FAILED_INTERNAL_ERROR, None)) } }"

definition GT_ParsePermissions :: "'j cjson \<Rightarrow> nat \<Rightarrow> nat \<Rightarrow> allocator \<Rightarrow> 'j option \<Rightarrow> errcode \<times> PermissionTrans list" where
  "GT_ParsePermissions J nameLen descLen m object = ParsePermissions J (\<lambda>_. 0) nameLen descLen m object"

text \<open>
  The bundle a package is of, with its permissions and what its ability needs of the resources. No NUL follows the bytes
  of the profile in memory: \<open>k_Parse\<close> is given these bytes alone, which is what \<open>cJSON_Parse\<close> sees if it stops at
  the end of the first value and the file holds a whole one.
\<close>

definition ParseHapProfile_fp ::
    "'j gt_system \<Rightarrow> u8 list \<Rightarrow> u32
     \<Rightarrow> (errcode \<times> (GtBundleInfo \<times> PermissionTrans list \<times> GtAbilityRes option) option) option" where
  "ParseHapProfile_fp G f fileSize =
     (let J = gt_json G in
      case GT_ExtractHapProfile G f fileSize of
        None \<Rightarrow> Some (ERR_INSTALL_FAILED_PARSE_PROFILE_ERROR, None)
      | Some profileStr \<Rightarrow>
          (case k_Parse (gt_mk G) (gt_chars profileStr) of
             None \<Rightarrow> Some (ERR_INSTALL_FAILED_PARSE_PROFILE_ERROR, None)
           | root \<Rightarrow>
               (let appObject = j_GetObjectItem J root ''app''; moduleObject = j_GetObjectItem J root ''module'' in
                if appObject = None \<or> moduleObject = None then Some (ERR_INSTALL_FAILED_PARSE_PROFILE_ERROR, None)
                else do {
                  (e, p, res) \<leftarrow> GT_ParseJsonInfo J (gt_alloc G) (gt_deviceType G) appObject moduleObject
                                   (zero_GtBundleProfile, None);
                  if e \<noteq> ERR_OK then Some (e, None)
                  else let (e, perms) = GT_ParsePermissions J (gt_nameLen G) (gt_descLen G) (gt_alloc G)
                                          (ParseValue_obj J moduleObject ''reqPermissions'' None) in
                  if e \<noteq> ERR_OK then Some (e, None)
                  else do {
                    (e, b) \<leftarrow> GT_SaveBundleInfo (gt_alloc G) p res;
                    Some (e, case b of None \<Rightarrow> None | Some b \<Rightarrow> if e = ERR_OK then Some (b, perms, res) else None) } })))"

text \<open>Name and version of a package, as far as they were read.\<close>

definition ParseBundleAttr :: "'j gt_system \<Rightarrow> gt_trace \<Rightarrow> string \<Rightarrow> cstr \<Rightarrow> int \<Rightarrow> bool \<times> cstr \<times> int" where
  "ParseBundleAttr G t path bundleName versionCode =
     (let J = gt_json G; fail = (False, bundleName, versionCode) in
      if \<not> CheckRealPath (Some path) then fail
      else case gt_content G t path of
          None \<Rightarrow> fail
        | Some f \<Rightarrow>
            (case Option.bind (GT_ExtractHapProfile G f (GetFileSize (gt_posix G t) (Some path)))
                    (\<lambda>s. k_Parse (gt_mk G) (gt_chars s)) of
               None \<Rightarrow> fail
             | root \<Rightarrow>
                 (let appObject = j_GetObjectItem J root ''app'' in
                  if appObject = None then fail
                  else let bundleName = Strdup (gt_alloc G) (ParseValue_str J appObject ''bundleName'') in
                  if bundleName = None then (False, None, versionCode)
                  else let object = ParseValue_obj J appObject ''version'' None in
                  if object = None then (False, bundleName, versionCode)
                  else let versionCode = ParseValue_int J object ''code'' (-1) in
                    (versionCode \<noteq> -1, bundleName, versionCode))))"

section \<open>What an installation is announced with\<close>

record BundleInstallMsg =
  bm_bundleName :: cstr
  bm_label :: cstr
  bm_smallIconPath :: cstr
  bm_bigIconPath :: cstr
  bm_installState :: nat
  bm_installProcess :: nat

text \<open>In the build for LiteOS-M no length is known, and nothing of the package is unpacked.\<close>

definition ExtractInstallMsg ::
    "'j gt_system \<Rightarrow> string \<Rightarrow> BundleInstallMsg \<Rightarrow> gt_trace \<Rightarrow> (errcode \<times> BundleInstallMsg \<times> gt_trace) option" where
  "ExtractInstallMsg G path msg t =
     (let m = gt_alloc G in
      if \<not> CheckRealPath (Some path) then Some (ERR_INSTALL_FAILED_PARAM_ERROR, msg, t)
      else let totalFileSize = (if gt_liteos_m G then 0 else gt_length G path) in
      if \<not> gt_liteos_m G \<and> totalFileSize = V_ERR (gt_codes G) then Some (ERR_INSTALL_FAILED_INTERNAL_ERROR, msg, t)
      else case Strscat m [Some TMP_RESOURCE_DIR, Some ASSET_JS_PATH] of
        None \<Rightarrow> Some (ERR_INSTALL_FAILED_INTERNAL_ERROR, msg, t)
      | Some emptyJsPath \<Rightarrow>
          (let (ok, t) = MkDirs G emptyJsPath t in
           if \<not> ok then Some (ERR_INSTALL_FAILED_CREATE_DATA_DIR_ERROR, msg, t)
           else case gt_content G t path of
               None \<Rightarrow> Some (ERR_INSTALL_FAILED_FILE_NOT_EXISTS, msg, t)
             | Some f \<Rightarrow>
                 (let (ok, t) = ExtractResourceFile G TMP_RESOURCE_DIR f totalFileSize t in
                  if \<not> ok then Some (ERR_INSTALL_FAILED_PARSE_PROFILE_ERROR, msg, t)
                  else do {
                    (b, _) \<leftarrow> GT_ParseHapProfile_dir G t TMP_RESOURCE_DIR;
                    case b of
                      None \<Rightarrow> Some (ERR_INSTALL_FAILED_PARSE_PROFILE_ERROR, msg, t)
                    | Some b \<Rightarrow>
                        (let msg = msg\<lparr>bm_bundleName := Strdup m (gb_bundleName b), bm_label := Strdup m (gb_label b),
                               bm_smallIconPath := Strdup m (gb_smallIconPath b),
                               bm_bigIconPath := Strdup m (gb_bigIconPath b)\<rparr> in
                         Some (if bm_bundleName msg = None \<or> bm_label msg = None \<or> bm_smallIconPath msg = None \<or>
                                  bm_bigIconPath msg = None
                               then ERR_INSTALL_FAILED_PARSE_ABILITIES_ERROR else ERR_OK, msg, t)) })))"

end
