(* ===== verification/Gt_Installer.thy ===== *)
theory Gt_Installer
  imports Gt_Parser Gt_Records Installer
begin

text \<open>
  \<^verbatim>\<open>services/bundlemgr_lite/src/gt_bundle_installer.cpp\<close>, with the operations of \<^verbatim>\<open>gt_bundle_manager_service.cpp\<close> it
  calls: the list of the bundles with resources, the number of third-party bundles, the reports of the progress. \<open>None\<close> is
  an undefined access, or the removal of a directory that does not end.

  \<open>installRecord\<close> and the list of resources keep pointers into the \<open>BundleInfo\<close>. The list outlives it, so an entry
  holds the address of the object whose name it points to.
\<close>

section \<open>The state of the service\<close>

text \<open>
  \<open>gs_paths\<close> is \<open>systemPathList_\<close>, and \<open>None\<close> when its nodes have been freed; \<open>gs_current\<close> is the global
  \<open>g_currentBundle\<close>.
\<close>

record ToBeInstalledApp =
  ta_isSystemApp :: bool
  ta_isUpdated :: bool
  ta_path :: cstr
  ta_installedPath :: cstr
  ta_appId :: cstr

record gt_res =
  br_owner :: nat
  br_abilityRes :: GtAbilityRes

record gt_service =
  gs_map :: gt_map
  gs_res :: "gt_res list"
  gs_msg :: "BundleInstallMsg option"
  gs_third :: u32
  gs_paths :: "ToBeInstalledApp list option"
  gs_current :: cstr
  gs_trace :: gt_trace

definition gs_new :: gt_service where
  "gs_new = \<lparr>gs_map = gt_map_new, gs_res = [], gs_msg = None, gs_third = 0, gs_paths = Some [], gs_current = None,
             gs_trace = []\<rparr>"

text \<open>A part of the state changed by an operation on it.\<close>

definition on_trace :: "(gt_trace \<Rightarrow> 'a \<times> gt_trace) \<Rightarrow> gt_service \<Rightarrow> 'a \<times> gt_service" where
  "on_trace f s = (let (x, t) = f (gs_trace s) in (x, s\<lparr>gs_trace := t\<rparr>))"

definition on_trace_opt :: "(gt_trace \<Rightarrow> ('a \<times> gt_trace) option) \<Rightarrow> gt_service \<Rightarrow> ('a \<times> gt_service) option" where
  "on_trace_opt f s = do { (x, t) \<leftarrow> f (gs_trace s); Some (x, s\<lparr>gs_trace := t\<rparr>) }"

definition on_map :: "(gt_map \<Rightarrow> gt_map option) \<Rightarrow> gt_service \<Rightarrow> gt_service option" where
  "on_map f s = do { g \<leftarrow> f (gs_map s); Some (s\<lparr>gs_map := g\<rparr>) }"

definition gs_do :: "'j gt_system \<Rightarrow> gt_call \<Rightarrow> gt_service \<Rightarrow> bool \<times> gt_service" where
  "gs_do G c = on_trace (gt_do G c)"

definition gs_info :: "nat \<Rightarrow> gt_service \<Rightarrow> GtBundleInfo option" where
  "gs_info a s = gt_heap (gs_map s) a"

definition gs_query :: "cstr \<Rightarrow> gt_service \<Rightarrow> nat option option" where
  "gs_query bundleName s = GT_Get bundleName (gs_map s)"

definition SetCurrentBundle :: "'j gt_system \<Rightarrow> cstr \<Rightarrow> gt_service \<Rightarrow> gt_service" where
  "SetCurrentBundle G name s =
     s\<lparr>gs_current := (case name of
        None \<Rightarrow> None
      | Some n \<Rightarrow> if gt_alloc G (Chars (length n + 1)) then Some n else None)\<rparr>"

definition GetCurrentBundle :: "'j gt_system \<Rightarrow> gt_service \<Rightarrow> cstr" where
  "GetCurrentBundle G s =
     (case gs_current s of
        None \<Rightarrow> None
      | Some n \<Rightarrow> if gt_alloc G (Chars (length n + 1)) then Some n else None)"

text \<open>\<open>cb\<close> is the function that was given.\<close>

definition ReportInstallCallback :: "'j gt_system \<Rightarrow> nat \<Rightarrow> nat \<Rightarrow> nat \<Rightarrow> nat option \<Rightarrow> gt_service \<Rightarrow> gt_service" where
  "ReportInstallCallback G errCode installState process cb s =
     (case (gs_msg s, cb) of
        (Some msg, Some f) \<Rightarrow>
          if \<not> gt_alloc G (Objects ''BundleInstallMsg'' 1) then s
          else let msg = msg\<lparr>bm_installState := installState, bm_installProcess := process\<rparr> in
            snd (gs_do G (Report f errCode installState process (bm_bundleName msg)) (s\<lparr>gs_msg := Some msg\<rparr>))
      | _ \<Rightarrow> s)"

definition ReportUninstallCallback ::
    "'j gt_system \<Rightarrow> nat \<Rightarrow> nat \<Rightarrow> cstr \<Rightarrow> nat \<Rightarrow> nat option \<Rightarrow> gt_service \<Rightarrow> gt_service" where
  "ReportUninstallCallback G errCode installState bundleName process cb s =
     (case cb of
        None \<Rightarrow> s
      | Some f \<Rightarrow>
          if \<not> gt_alloc G (Objects ''BundleInstallMsg'' 1) then s
          else snd (gs_do G (Report f errCode installState process bundleName) s))"

section \<open>The bundles with resources\<close>

text \<open>The entry whose bundle has the name; the names before it are read through their objects.\<close>

fun find_res :: "(nat \<Rightarrow> GtBundleInfo option) \<Rightarrow> string \<Rightarrow> gt_res list \<Rightarrow> gt_res option option" where
  "find_res h n [] = Some None"
| "find_res h n (r # rs) = do {
     b \<leftarrow> h (br_owner r);
     if gb_bundleName b = Some n then Some (Some r) else find_res h n rs }"

text \<open>The owner of \<open>r\<close> has a name.\<close>

definition GT_AddBundleResList :: "gt_res \<Rightarrow> gt_service \<Rightarrow> gt_service option" where
  "GT_AddBundleResList r s = do {
     b \<leftarrow> gs_info (br_owner r) s;
     case gb_bundleName b of
       None \<Rightarrow> Some s
     | Some n \<Rightarrow> do {
         found \<leftarrow> find_res (gt_heap (gs_map s)) n (gs_res s);
         Some (if found \<noteq> None then s else s\<lparr>gs_res := r # gs_res s\<rparr>) } }"

definition RemoveBundleResList :: "cstr \<Rightarrow> gt_service \<Rightarrow> gt_service option" where
  "RemoveBundleResList bundleName s =
     (case bundleName of
        None \<Rightarrow> Some s
      | Some n \<Rightarrow> do {
          found \<leftarrow> find_res (gt_heap (gs_map s)) n (gs_res s);
          Some (case found of None \<Rightarrow> s | Some r \<Rightarrow> s\<lparr>gs_res := remove1 r (gs_res s)\<rparr>) })"
section \<open>Checking the package\<close>

record GtSignature =
  sg_bundleName :: cstr
  sg_appId :: cstr
  sg_restricPermission :: "string list"

definition no_signature :: GtSignature where
  "no_signature = \<lparr>sg_bundleName = None, sg_appId = None, sg_restricPermission = []\<rparr>"

definition GT_SwitchErrorCode :: "'j gt_system \<Rightarrow> u32 \<Rightarrow> errcode" where
  "GT_SwitchErrorCode G ret = SwitchErrorCode (gt_codes G) (sint ret)"

text \<open>
  The result with the signature and the length of the package. When a string of the array cannot be copied, the array is freed
  here and again by the caller.
\<close>

definition GT_VerifySignature :: "'j gt_system \<Rightarrow> string \<Rightarrow> (errcode \<times> GtSignature \<times> u32) option" where
  "GT_VerifySignature G path =
     (if gt_liteos_m G then Some (ERR_OK, no_signature, 0)
      else let m = gt_alloc G; (ret, v) = gt_verify G path; errorCode = GT_SwitchErrorCode G ret in
      if errorCode \<noteq> ERR_OK then Some (errorCode, no_signature, 0)
      else let fileSize = gt_length G path;
               sig = \<lparr>sg_bundleName = Strdup m (ve_bundleName v), sg_appId = Strdup m (ve_appid v),
                      sg_restricPermission = []\<rparr>; ps = ve_restricPermission v in
      if sg_appId sig = None \<or> sg_bundleName sig = None
      then Some (ERR_INSTALL_FAILED_INTERNAL_ERROR, no_signature, fileSize)
      else if ps = [] then Some (ERR_OK, sig, fileSize)
      else if \<not> m (Objects ''char *'' (length ps)) then Some (ERR_INSTALL_FAILED_INTERNAL_ERROR, no_signature, fileSize)
      else if \<exists>p \<in> set ps. Strdup m (Some p) = None then None
      else Some (ERR_OK, sig\<lparr>sg_restricPermission := ps\<rparr>, fileSize))"

definition GT_ReshapeAppId :: "allocator \<Rightarrow> cstr \<Rightarrow> cstr \<Rightarrow> cstr" where
  "GT_ReshapeAppId m bundleName appId =
     (if appId = None \<or> bundleName = None then None
      else Strscat m [bundleName, Some (dropWhile (\<lambda>c. c \<noteq> CHR ''_'') (the appId))])"

text \<open>The package opened, its signature and its length; a name that is read is not null.\<close>

definition GT_PreCheckBundle ::
    "'j gt_system \<Rightarrow> string \<Rightarrow> nat \<Rightarrow> gt_service \<Rightarrow> (errcode \<times> u8 list option \<times> GtSignature \<times> u32) option" where
  "GT_PreCheckBundle G path bundleStyle s =
     (let t = gs_trace s in
      if \<not> GT_IsFile G t (Some path) then Some (ERR_INSTALL_FAILED_FILE_NOT_EXISTS, None, no_signature, 0)
      else if GetFileSize (gt_posix G t) (Some path) = 0 then Some (ERR_INSTALL_FAILED_BAD_FILE, None, no_signature, 0)
      else let (errorCode, fp, bundleName) = ExtractBundleParam G t path in
      if errorCode \<noteq> ERR_OK then Some (errorCode, fp, no_signature, 0)
      else do {
        n \<leftarrow> bundleName;
        (errorCode, sig, fileSize) \<leftarrow> GT_VerifySignature G path;
        if errorCode \<noteq> ERR_OK then Some (errorCode, fp, sig, fileSize)
        else if sg_appId sig \<noteq> None \<and> \<not> contains (the (sg_appId sig)) MATCHED_ALL_STR \<and>
                \<not> StartWith (sg_appId sig) bundleName
        then Some (ERR_INSTALL_FAILED_INVALID_PROVISIONINFO, fp, sig, fileSize)
        else let reshape = (sg_appId sig \<noteq> None \<and> \<not> contains (the (sg_appId sig)) n);
                 sig = (if reshape then sig\<lparr>sg_appId := GT_ReshapeAppId (gt_alloc G) bundleName (sg_appId sig)\<rparr> else sig) in
        if reshape \<and> sg_appId sig = None then Some (ERR_INSTALL_FAILED_INTERNAL_ERROR, fp, sig, fileSize)
        else do {
          q \<leftarrow> gs_query bundleName s;
          Some (if bundleStyle = THIRD_APP_FLAG \<and> q = None \<and> gs_third s \<ge> MAX_THIRD_BUNDLE_NUMBER
                then ERR_INSTALL_FAILED_EXCEED_MAX_BUNDLE_NUMBER else ERR_OK, fp, sig, fileSize) } })"

definition GT_CheckProvisionInfoIsValid :: "GtSignature \<Rightarrow> cstr \<Rightarrow> errcode" where
  "GT_CheckProvisionInfoIsValid sig bundleName =
     (if bundleName = None then ERR_INSTALL_FAILED_INTERNAL_ERROR
      else if \<not> MatchBundleName bundleName (sg_bundleName sig) then ERR_INSTALL_FAILED_INVALID_PROVISIONINFO
      else ERR_OK)"

text \<open>Which is called nowhere.\<close>

definition GT_MatchPermissions :: "string list \<Rightarrow> PermissionTrans list \<Rightarrow> bool" where
  "GT_MatchPermissions restrictedPermissions permissionsTrans =
     (if permissionsTrans = [] then True
      else if restrictedPermissions = [] then False
      else list_all (\<lambda>p. list_ex (\<lambda>q. q = pt_name p) restrictedPermissions) permissionsTrans)"

definition GT_CheckVersionAndSignature ::
    "'j gt_system \<Rightarrow> cstr \<Rightarrow> cstr \<Rightarrow> GtBundleInfo \<Rightarrow> gt_service \<Rightarrow> errcode option" where
  "GT_CheckVersionAndSignature G bundleName appId b s =
     (if bundleName = None \<or> appId = None then Some ERR_INSTALL_FAILED_INTERNAL_ERROR
      else do {
        q \<leftarrow> gs_query bundleName s;
        case q of
          None \<Rightarrow> Some ERR_OK
        | Some old \<Rightarrow> do {
            ob \<leftarrow> gs_info old s;
            if gb_versionCode ob > gb_versionCode b then Some ERR_INSTALL_FAILED_VERSION_DOWNGRADE
            else case GT_GetValueFromBundleJson G (gs_trace s) bundleName (Some JSON_SUB_KEY_APPID) of
                None \<Rightarrow> Some ERR_INSTALL_FAILED_INTERNAL_ERROR
              | oldAppId \<Rightarrow> Some (if oldAppId \<noteq> appId then ERR_INSTALL_FAILED_INCOMPATIBLE_SIGNATURE else ERR_OK) } })"

section \<open>What is undone\<close>

text \<open>
  \<open>FREE_PRO_RESOURCE\<close>, \<open>CHECK_PRO_PART_ROLLBACK\<close>, \<open>CLEAR_INSTALL_ENV\<close> and \<open>CHECK_PRO_ROLLBACK\<close>, for a
  \<open>bundleInfo\<close> that is not null.
\<close>

definition FREE_PRO :: "nat \<Rightarrow> gt_service \<Rightarrow> gt_service option" where
  "FREE_PRO a = on_map (gt_free a)"

definition PART_ROLLBACK :: "'j gt_system \<Rightarrow> string \<Rightarrow> nat \<Rightarrow> gt_service \<Rightarrow> gt_service option" where
  "PART_ROLLBACK G path a s = do { (_, s) \<leftarrow> on_trace_opt (RemoveDir G path) s; FREE_PRO a s }"

definition GT_CLEAR_INSTALL_ENV :: "'j gt_system \<Rightarrow> nat \<Rightarrow> gt_service \<Rightarrow> gt_service option" where
  "GT_CLEAR_INSTALL_ENV G a s = do {
     b \<leftarrow> gs_info a s;
     codePath \<leftarrow> gb_codePath b;
     dataPath \<leftarrow> gb_dataPath b;
     (_, s) \<leftarrow> on_trace_opt (RemoveDir G codePath) s;
     (_, s) \<leftarrow> on_trace_opt (RemoveDir G dataPath) s;
     FREE_PRO a s }"

definition ROLLBACK :: "'j gt_system \<Rightarrow> nat \<Rightarrow> cstr \<Rightarrow> gt_service \<Rightarrow> gt_service option" where
  "ROLLBACK G a randStr s = do {
     b \<leftarrow> gs_info a s;
     s \<leftarrow> on_map (GT_Erase (gb_bundleName b)) s;
     b \<leftarrow> gs_info a s;
     GT_CLEAR_INSTALL_ENV G a (s\<lparr>gs_trace := GT_DeleteJsonFile G (gb_bundleName b) randStr (gs_trace s)\<rparr>) }"

section \<open>The steps of an installation\<close>

definition GT_HandleFileAndBackUpRecord ::
    "'j gt_system \<Rightarrow> GtInstallRecord \<Rightarrow> string \<Rightarrow> string \<Rightarrow> cstr \<Rightarrow> bool \<Rightarrow> gt_service
     \<Rightarrow> (errcode \<times> gt_service) option" where
  "GT_HandleFileAndBackUpRecord G r tmpPath randStr dataPath isUpdate s =
     (case dataPath of
        None \<Rightarrow> Some (ERR_INSTALL_FAILED_INTERNAL_ERROR, s)
      | Some dataPath \<Rightarrow> do {
          s \<leftarrow> RemoveBundleResList (gi_bundleName r) s;
          (ok, s) \<leftarrow> on_trace_opt (RenameDir G (Some tmpPath) (gi_codePath r)) s;
          if \<not> ok then do {
            (_, s) \<leftarrow> on_trace_opt (RemoveDir G tmpPath) s;
            Some (ERR_INSTALL_FAILED_RENAME_DIR_ERROR, s) }
          else case Strscat (gt_alloc G) [Some GT_JSON_PATH, gi_bundleName r, Some randStr, Some JSON_SUFFIX] of
              None \<Rightarrow> Some (ERR_INSTALL_FAILED_RECORD_INFO_ERROR, s)
            | Some bundleTmpJsonPath \<Rightarrow>
                let (ok, s) = on_trace (GT_BackUpInstallRecord G r (Some bundleTmpJsonPath)) s in
                if \<not> ok then Some (ERR_INSTALL_FAILED_RECORD_INFO_ERROR, snd (gs_do G (Unlink bundleTmpJsonPath) s))
                else if isUpdate then Some (ERR_OK, s)
                else do {
                  (_, s) \<leftarrow> on_trace_opt (RemoveDir G dataPath) s;
                  let (ok, s) = on_trace (MkDirs G dataPath) s;
                  Some (if ok then ERR_OK else ERR_INSTALL_FAILED_CREATE_DATA_DIR_ERROR, s) } })"

text \<open>The first module's name is read without asking for a module.\<close>

definition MoveRawFileToDataPath :: "'j gt_system \<Rightarrow> GtBundleInfo \<Rightarrow> gt_service \<Rightarrow> (errcode \<times> gt_service) option" where
  "MoveRawFileToDataPath G b s = do {
     mis \<leftarrow> gb_moduleInfos b;
     mi \<leftarrow> (case mis of [] \<Rightarrow> None | mi # _ \<Rightarrow> Some mi);
     case Strscat (gt_alloc G) [gb_codePath b, Some ASSETS, gm_moduleName mi, Some RESOURCES_RAW_FILE] of
       None \<Rightarrow> Some (ERR_INSTALL_FAILED_INTERNAL_ERROR, s)
     | src \<Rightarrow>
         if \<not> GT_IsDir G (gs_trace s) src then Some (ERR_OK, s)
         else (case Strscat (gt_alloc G) [gb_dataPath b, Some RAW_FILE] of
             None \<Rightarrow> Some (ERR_INSTALL_FAILED_INTERNAL_ERROR, s)
           | dst \<Rightarrow> do {
               (ok, s) \<leftarrow> on_trace_opt (RenameDir G src dst) s;
               Some (if ok then ERR_OK else ERR_INSTALL_FAILED_RENAME_DIR_ERROR, s) }) }"

definition GT_StorePermissions ::
    "'j gt_system \<Rightarrow> cstr \<Rightarrow> PermissionTrans list \<Rightarrow> bool \<Rightarrow> gt_service \<Rightarrow> errcode \<times> gt_service" where
  "GT_StorePermissions G bundleName permissions isUpdate s =
     (if permissions = []
      then (ERR_OK, if \<not> gt_liteos_m G \<and> isUpdate then snd (gs_do G (Delete_permissions bundleName) s) else s)
      else case bundleName of
          None \<Rightarrow> (ERR_INSTALL_FAILED_INTERNAL_ERROR, s)
        | Some n \<Rightarrow>
            (let s = (if \<not> GT_IsDir G (gs_trace s) (Some GT_PERMISSIONS_PATH)
                      then snd (on_trace (MkDirs G GT_PERMISSIONS_PATH) s) else s) in
             if gt_liteos_m G then (ERR_OK, s)
             else let (ok, s) = gs_do G (Save_permissions n isUpdate) s in
               (if ok then ERR_OK else ERR_INSTALL_FAILED_STORE_PERMISSIONS_ERROR, s)))"

definition GT_AddBundleRes :: "'j gt_system \<Rightarrow> nat \<Rightarrow> u32 \<Rightarrow> u32 \<Rightarrow> gt_service \<Rightarrow> (errcode \<times> gt_service) option" where
  "GT_AddBundleRes G a labelId iconId s =
     (if labelId = 0 \<and> iconId = 0 then Some (ERR_OK, s)
      else do {
        b \<leftarrow> gs_info a s;
        if gb_bundleName b = None then Some (ERR_INSTALL_FAILED_INTERNAL_ERROR, s)
        else if \<not> gt_alloc G (Objects ''BundleRes'' 1) \<or> \<not> gt_alloc G (Objects ''AbilityRes'' 1)
        then Some (ERR_INSTALL_FAILED_INTERNAL_ERROR, s)
        else do {
          s \<leftarrow> GT_AddBundleResList \<lparr>br_owner = a, br_abilityRes = \<lparr>gr_iconId = iconId, gr_labelId = labelId\<rparr>\<rparr> s;
          Some (ERR_OK, s) } })"

definition GT_UpdateBundleInfo ::
    "'j gt_system \<Rightarrow> nat \<Rightarrow> u32 \<Rightarrow> u32 \<Rightarrow> nat \<Rightarrow> bool \<Rightarrow> gt_service \<Rightarrow> (errcode \<times> gt_service) option" where
  "GT_UpdateBundleInfo G bundleStyle labelId iconId a isUpdate s = do {
     b \<leftarrow> gs_info a s;
     case gb_abilityInfo b of
       None \<Rightarrow> Some (ERR_INSTALL_FAILED_INTERNAL_ERROR, s)
     | Some ab \<Rightarrow>
         if \<not> GT_IsDir G (gs_trace s) (ga_srcPath ab) then Some (ERR_INSTALL_FAILED_PARSE_JS_DIR_ERROR, s)
         else do {
           (e, b) \<leftarrow> GT_ConvertResInfoToBundleInfo G (gs_trace s) (gb_codePath b) labelId iconId b;
           s \<leftarrow> on_map (gt_put a b) s;
           if e \<noteq> ERR_OK then Some (e, s)
           else if \<not> isUpdate then do {
             s \<leftarrow> on_map (gt_put a (b\<lparr>gb_isSystemApp := (bundleStyle = SYSTEM_APP_FLAG)\<rparr>)) s;
             s \<leftarrow> on_map (GT_Add a) s;
             GT_AddBundleRes G a labelId iconId s }
           else do {
             q \<leftarrow> gs_query (gb_bundleName b) s;
             case q of
               None \<Rightarrow> Some (ERR_INSTALL_FAILED_INTERNAL_ERROR, s)
             | Some old \<Rightarrow> do {
                 ob \<leftarrow> gs_info old s;
                 s \<leftarrow> on_map (gt_put a (b\<lparr>gb_isSystemApp := gb_isSystemApp ob\<rparr>)) s;
                 (ok, g) \<leftarrow> GT_Update a (gs_map s);
                 let s = s\<lparr>gs_map := g\<rparr>;
                 if \<not> ok then Some (ERR_INSTALL_FAILED_INTERNAL_ERROR, s)
                 else GT_AddBundleRes G a labelId iconId s } } } }"
section \<open>Installing\<close>

abbreviation (input) "OPERATION_DOING \<equiv> 200 :: nat"
abbreviation (input) "INSTALL_STARTED \<equiv> 0 :: nat"

definition gt_progress :: "'j gt_system \<Rightarrow> nat \<Rightarrow> nat option \<Rightarrow> gt_service \<Rightarrow> gt_service" where
  "gt_progress G process cb = ReportInstallCallback G OPERATION_DOING INSTALL_STARTED process cb"

definition install_style :: "cstr \<Rightarrow> nat" where
  "install_style path =
     (if StartWith path (Some GT_SYSTEM_BUNDLE_PATH) then SYSTEM_APP_FLAG
      else if StartWith path (Some GT_THIRD_SYSTEM_BUNDLE_PATH) then THIRD_SYSTEM_APP_FLAG
      else THIRD_APP_FLAG)"

type_synonym gt_step = "(errcode \<times> GtInstallRecord \<times> gt_service) option"

definition or_rollback :: "'j gt_system \<Rightarrow> nat \<Rightarrow> cstr \<Rightarrow> GtInstallRecord \<Rightarrow> errcode \<times> gt_service \<Rightarrow> (gt_service \<Rightarrow> gt_step) \<Rightarrow> gt_step" where
  "or_rollback G a randStr r = (\<lambda>(e, s) next.
     if e \<noteq> ERR_OK then do { s \<leftarrow> ROLLBACK G a randStr s; Some (e, r, s) } else next s)"

text \<open>The files moved to their place, the record stored, the bundle registered.\<close>

definition gt_register ::
    "'j gt_system \<Rightarrow> string \<Rightarrow> nat \<Rightarrow> nat option \<Rightarrow> nat \<Rightarrow> PermissionTrans list \<Rightarrow> u32 \<Rightarrow> u32 \<Rightarrow> string \<Rightarrow> GtInstallRecord
     \<Rightarrow> gt_service \<Rightarrow> gt_step" where
  "gt_register G randStr bundleStyle cb a permissions labelId iconId tmpCodePath r s = do {
     q \<leftarrow> gs_query (gi_bundleName r) s;
     let isUpdate = (q \<noteq> None);
     b \<leftarrow> gs_info a s;
     x \<leftarrow> GT_HandleFileAndBackUpRecord G r tmpCodePath randStr (gb_dataPath b) isUpdate s;
     or_rollback G a (Some randStr) r x (\<lambda>s. do {
     b \<leftarrow> gs_info a s;
     x \<leftarrow> MoveRawFileToDataPath G b s;
     or_rollback G a (Some randStr) r x (\<lambda>s.
     let s = gt_progress G 80 cb s in
     or_rollback G a (Some randStr) r (GT_StorePermissions G (gi_bundleName r) permissions isUpdate s) (\<lambda>s. do {
     x \<leftarrow> GT_UpdateBundleInfo G bundleStyle labelId iconId a isUpdate s;
     or_rollback G a (Some randStr) r x (\<lambda>s. Some (ERR_OK, r, s)) })) }) }"

text \<open>The package unpacked into a directory of its own, and its scripts compiled where they are.\<close>

definition gt_unpack ::
    "'j gt_system \<Rightarrow> string \<Rightarrow> nat \<Rightarrow> nat option \<Rightarrow> u8 list \<Rightarrow> u32 \<Rightarrow> nat \<Rightarrow> PermissionTrans list \<Rightarrow> u32 \<Rightarrow> u32 \<Rightarrow> GtInstallRecord
     \<Rightarrow> gt_service \<Rightarrow> gt_step" where
  "gt_unpack G randStr bundleStyle cb f fileSize a permissions labelId iconId r s =
     (case Strscat (gt_alloc G) [gi_codePath r, Some randStr] of
        None \<Rightarrow> do { s \<leftarrow> FREE_PRO a s; Some (ERR_INSTALL_FAILED_INTERNAL_ERROR, r, s) }
      | Some tmpCodePath \<Rightarrow>
          let (e, s) = on_trace (GT_ExtractHap G (Some tmpCodePath) (gi_bundleName r) f fileSize) s in
          if e \<noteq> ERR_OK then do { s \<leftarrow> PART_ROLLBACK G tmpCodePath a s; Some (e, r, s) }
          else let s = gt_progress G 60 cb s in
          if gt_bc G \<and> gt_jerry G = None
          then do { s \<leftarrow> PART_ROLLBACK G tmpCodePath a s; Some (ERR_INSTALL_FAILED_GET_JS_ENGINE_VERSION_ERROR, r, s) }
          else let r = (if gt_bc G then r\<lparr>gi_jsEngineVersion := gt_jerry G\<rparr> else r);
                   (e, r, t) = (if gt_bc G then TransformJsToBc_install G (Some tmpCodePath) r (gs_trace s)
                                else (ERR_OK, r, gs_trace s));
                   s = s\<lparr>gs_trace := t\<rparr> in
          if e \<noteq> ERR_OK then do { s \<leftarrow> PART_ROLLBACK G tmpCodePath a s; Some (e, r, s) }
          else gt_register G randStr bundleStyle cb a permissions labelId iconId tmpCodePath r (gt_progress G 70 cb s))"

text \<open>
  The record's strings are those of the \<open>BundleInfo\<close>, which lives as long as they are used, and of the signature. What is read
  through the pointer to a \<open>BundleRes\<close> without resources is zero.
\<close>

definition GT_ProcessBundleInstall ::
    "'j gt_system \<Rightarrow> string \<Rightarrow> string \<Rightarrow> GtInstallRecord \<Rightarrow> nat \<Rightarrow> nat option \<Rightarrow> gt_service \<Rightarrow> gt_step" where
  "GT_ProcessBundleInstall G path randStr r bundleStyle cb s =
     (let s = gt_progress G 10 cb s in do {
        (e, fp, sig, fileSize) \<leftarrow> GT_PreCheckBundle G path bundleStyle s;
        if e \<noteq> ERR_OK then Some (e, r, s)
        else let s = gt_progress G 50 cb s; fp = (if gt_liteos_m G then gt_content G (gs_trace s) path else fp) in
        case fp of
          None \<Rightarrow> Some (ERR_INSTALL_FAILED_FILE_NOT_EXISTS, r, s)
        | Some f \<Rightarrow> do {
            (e, h) \<leftarrow> ParseHapProfile_fp G f fileSize;
            if e \<noteq> ERR_OK then Some (e, r, s)
            else do {
              (b, permissions, res) \<leftarrow> h;
              let (a, g) = gt_alloc_info b (gs_map s);
              let s = SetCurrentBundle G (gb_bundleName b) (s\<lparr>gs_map := g\<rparr>);
              let labelId = (case res of None \<Rightarrow> 0 | Some x \<Rightarrow> gr_labelId x);
              let iconId = (case res of None \<Rightarrow> 0 | Some x \<Rightarrow> gr_iconId x);
              let e = GT_CheckProvisionInfoIsValid sig (gb_bundleName b);
              if e \<noteq> ERR_OK then do { s \<leftarrow> FREE_PRO a s; Some (e, r, s) }
              else do {
                let r = r\<lparr>gi_codePath := gb_codePath b, gi_bundleName := gb_bundleName b, gi_appId := sg_appId sig,
                          gi_versionCode := gb_versionCode b\<rparr>;
                let b = b\<lparr>gb_appId := Strdup (gt_alloc G) (sg_appId sig)\<rparr>;
                s \<leftarrow> on_map (gt_put a b) s;
                e \<leftarrow> GT_CheckVersionAndSignature G (gi_bundleName r) (gi_appId r) b s;
                if e \<noteq> ERR_OK then do { s \<leftarrow> FREE_PRO a s; Some (e, r, s) }
                else gt_unpack G randStr bundleStyle cb f fileSize a permissions labelId iconId r s } } } })"

definition empty_gt_record :: GtInstallRecord where
  "empty_gt_record = \<lparr>gi_bundleName = None, gi_codePath = None, gi_appId = None, gi_jsEngineVersion = None,
                      gi_transformResult = -1, gi_versionCode = -1\<rparr>"

definition GT_Install :: "'j gt_system \<Rightarrow> cstr \<Rightarrow> nat option \<Rightarrow> gt_service \<Rightarrow> (errcode \<times> gt_service) option" where
  "GT_Install G path cb s =
     (case path of
        None \<Rightarrow> Some (ERR_INSTALL_FAILED_PARAM_ERROR, s)
      | Some p \<Rightarrow> do {
          let bundleStyle = install_style path;
          str \<leftarrow> CreateRandStr (gt_rand G (gs_trace s)) (Some 16) 16;
          randStr \<leftarrow> str;
          if randStr = [] then Some (ERR_INSTALL_FAILED_INTERNAL_ERROR, s)
          else do {
            (e, r, s) \<leftarrow> GT_ProcessBundleInstall G p randStr empty_gt_record bundleStyle cb s;
            if e \<noteq> ERR_OK then Some (e, s)
            else let s = gt_progress G 90 cb s;
                     (ok, s) = on_trace (GT_RenameJsonFile G (gi_bundleName r) (Some randStr)) s in
            if \<not> ok then do {
              q \<leftarrow> gs_query (gi_bundleName r) s;
              s \<leftarrow> (case q of None \<Rightarrow> Some s | Some a \<Rightarrow> GT_CLEAR_INSTALL_ENV G a s);
              Some (ERR_INSTALL_FAILED_RENAME_FILE_ERROR, s) }
            else let t = (if bundleStyle = THIRD_SYSTEM_APP_FLAG then
                            let (known, t) = GT_CheckIsThirdSystemBundle G (gi_bundleName r) (gs_trace s) in
                            if known then t else GT_RecordThirdSystemBundle G (gi_bundleName r) (Some GT_THIRD_SYSTEM_BUNDLE_JSON) t
                          else gs_trace s) in
              Some (ERR_OK, s\<lparr>gs_trace := t, gs_third := (if bundleStyle = THIRD_APP_FLAG then gs_third s + 1 else gs_third s)\<rparr>)
          } })"

section \<open>Uninstalling\<close>

text \<open>The bundle out of the registry and out of the list of resources, and one less if it was a third party's.\<close>

definition gt_forget :: "string \<Rightarrow> bool \<Rightarrow> gt_service \<Rightarrow> gt_service option" where
  "gt_forget n third_system s = do {
     s \<leftarrow> on_map (GT_Erase (Some n)) s;
     s \<leftarrow> RemoveBundleResList (Some n) s;
     Some (if third_system then s else s\<lparr>gs_third := gs_third s - 1\<rparr>) }"

definition GT_Uninstall :: "'j gt_system \<Rightarrow> cstr \<Rightarrow> gt_service \<Rightarrow> (errcode \<times> gt_service) option" where
  "GT_Uninstall G bundleName s =
     (case bundleName of
        None \<Rightarrow> Some (ERR_UNINSTALL_FAILED_PARAM_ERROR, s)
      | Some n \<Rightarrow> do {
          q \<leftarrow> gs_query bundleName s;
          case q of
            None \<Rightarrow> Some (ERR_UNINSTALL_FAILED_BUNDLE_NOT_EXISTS, s)
          | Some a \<Rightarrow> do {
              b \<leftarrow> gs_info a s;
              if gb_isSystemApp b then Some (ERR_UNINSTALL_FAILED_BUNDLE_NOT_UNINSTALLABLE, s)
              else case gt_bundle_json_path n of
                  None \<Rightarrow> Some (ERR_UNINSTALL_FAILED_INTERNAL_ERROR, s)
                | Some bundleJsonPath \<Rightarrow>
                    let (ok, s) = (if gt_liteos_m G then (True, s) else gs_do G (Delete_permissions bundleName) s) in
                    if \<not> ok then Some (ERR_UNINSTALL_FAILED_DELETE_PERMISSIONS_ERROR, s)
                    else let (res, s) = on_trace (GT_CheckIsThirdSystemBundle G bundleName) s in do {
                      codePath \<leftarrow> gb_codePath b;
                      (ok, s) \<leftarrow> on_trace_opt (RemoveDir G codePath) s;
                      (ok, s) \<leftarrow> (if ok then do { dataPath \<leftarrow> gb_dataPath b; on_trace_opt (RemoveDir G dataPath) s }
                                 else Some (False, s));
                      s \<leftarrow> gt_forget n res s;
                      if \<not> ok then Some (ERR_UNINSTALL_FAILED_DELETE_DIRS_ERROR, s)
                      else let (ok, s) = gs_do G (Unlink bundleJsonPath) s in
                      if \<not> ok then Some (ERR_UNINSTALL_FAILED_DELETE_RECORD_INFO_ERROR, s)
                      else Some (ERR_OK,
                        if res then s\<lparr>gs_trace := GT_RecordThirdSystemBundle G bundleName
                                         (Some GT_UNINSTALL_THIRD_SYSTEM_BUNDLE_JSON) (gs_trace s)\<rparr> else s) } } })"

end
