(* ===== verification/Gt_Service.thy ===== *)
theory Gt_Service
  imports Gt_Installer Folder_Size
begin

text \<open>
  \<^verbatim>\<open>services/bundlemgr_lite/src/gt_bundle_manager_service.cpp\<close>: the bundles found when the service starts, the
  packages that are installed then, and the requests of the applications. \<open>None\<close> is an undefined access, or not ending.

  The names of a directory are those it has when it is opened.
\<close>

abbreviation (input) "BUNDLE_INSTALL_OK \<equiv> 1 :: nat"
abbreviation (input) "BUNDLE_INSTALL_FAIL \<equiv> 2 :: nat"
abbreviation (input) "BUNDLE_UNINSTALL_DOING \<equiv> 3 :: nat"
abbreviation (input) "BUNDLE_UNINSTALL_OK \<equiv> 4 :: nat"
abbreviation (input) "BUNDLE_UNINSTALL_FAIL \<equiv> 5 :: nat"
abbreviation (input) "MAX_APP_FILE_PATH_LEN \<equiv> 100 :: nat"

section \<open>Requests\<close>

text \<open>\<open>ClearSystemBundleInstallMsg\<close> frees what \<open>bundleInstallMsg_\<close> holds.\<close>

definition ClearSystemBundleInstallMsg :: "gt_service \<Rightarrow> gt_service" where
  "ClearSystemBundleInstallMsg s = s\<lparr>gs_msg := None\<rparr>"

definition zero_msg :: BundleInstallMsg where
  "zero_msg = \<lparr>bm_bundleName = None, bm_label = None, bm_smallIconPath = None, bm_bigIconPath = None,
               bm_installState = 0, bm_installProcess = 0\<rparr>"

definition remove_tmp :: "'j gt_system \<Rightarrow> gt_service \<Rightarrow> gt_service option" where
  "remove_tmp G s = do { (_, s) \<leftarrow> on_trace_opt (RemoveDir G TMP_RESOURCE_DIR) s; Some s }"

text \<open>
  A package that cannot be announced is named after the first slash of its path, which has to have one.
\<close>

definition Gt_Install :: "'j gt_system \<Rightarrow> cstr \<Rightarrow> nat option \<Rightarrow> gt_service \<Rightarrow> (bool \<times> gt_service) option" where
  "Gt_Install G hapPath cb s =
     (let m = gt_alloc G in
      case hapPath of
        None \<Rightarrow> Some (False, s)
      | Some path \<Rightarrow>
          if \<not> gt_liteos_m G \<and> cb = None then Some (False, s)
          else if \<not> m (Chars (length path + 1)) then Some (False, s)
          else if gt_liteos_m G then do {
            (_, s) \<leftarrow> GT_Install G hapPath cb s;
            s \<leftarrow> remove_tmp G s;
            Some (True, s) }
          else do {
            s \<leftarrow> remove_tmp G s;
            if \<not> m (Objects ''BundleInstallMsg'' 1) then Some (False, s\<lparr>gs_msg := None\<rparr>)
            else do {
              (ret, msg, t) \<leftarrow> ExtractInstallMsg G path zero_msg (gs_trace s);
              let s = s\<lparr>gs_msg := Some msg, gs_trace := t\<rparr>;
              if ret \<noteq> ERR_OK then do {
                pos \<leftarrow> find_char (CHR ''/'') path;
                let s = s\<lparr>gs_msg := Some (msg\<lparr>bm_bundleName := Strdup m (Some (drop (pos + 1) path))\<rparr>)\<rparr>;
                let s = ReportInstallCallback G ret BUNDLE_INSTALL_FAIL 100 cb s;
                s \<leftarrow> remove_tmp G (ClearSystemBundleInstallMsg s);
                Some (False, s) }
              else do {
                let s = SetCurrentBundle G (bm_bundleName msg) s;
                let s = ReportInstallCallback G OPERATION_DOING 0 101 cb s;
                (ret, s) \<leftarrow> GT_Install G hapPath cb s;
                let s = ReportInstallCallback G ret (if ret = 0 then BUNDLE_INSTALL_OK else BUNDLE_INSTALL_FAIL) 100 cb s;
                s \<leftarrow> remove_tmp G (ClearSystemBundleInstallMsg (SetCurrentBundle G None s));
                Some (True, s) } } })"

definition Gt_Uninstall :: "'j gt_system \<Rightarrow> cstr \<Rightarrow> nat option \<Rightarrow> gt_service \<Rightarrow> (bool \<times> gt_service) option" where
  "Gt_Uninstall G bundleName cb s =
     (case bundleName of
        None \<Rightarrow> Some (False, s)
      | Some n \<Rightarrow>
          if \<not> gt_liteos_m G \<and> cb = None then Some (False, s)
          else if \<not> gt_alloc G (Chars (length n + 1)) then Some (False, s)
          else do {
            let s = SetCurrentBundle G bundleName s;
            let s = ReportUninstallCallback G OPERATION_DOING BUNDLE_UNINSTALL_DOING bundleName 104 cb s;
            (ret, s) \<leftarrow> GT_Uninstall G bundleName s;
            let s = ReportUninstallCallback G ret (if ret = 0 then BUNDLE_UNINSTALL_OK else BUNDLE_UNINSTALL_FAIL)
                      bundleName 100 cb s;
            Some (True, SetCurrentBundle G None s) })"

text \<open>The state and the progress, unless no name was given.\<close>

definition GT_GetInstallState :: "cstr \<Rightarrow> gt_service \<Rightarrow> (nat \<times> nat) option option" where
  "GT_GetInstallState bundleName s =
     (case bundleName of
        None \<Rightarrow> Some None
      | Some n \<Rightarrow> do {
          q \<leftarrow> gs_query bundleName s;
          Some (Some (if q \<noteq> None then (BUNDLE_INSTALL_OK, 100)
            else case gs_msg s of
                None \<Rightarrow> (BUNDLE_INSTALL_FAIL, 0)
              | Some msg \<Rightarrow>
                  if bm_bundleName msg = bundleName then (bm_installState msg, bm_installProcess msg)
                  else (BUNDLE_INSTALL_FAIL, 0))) })"

definition GT_GetBundleSize :: "'j gt_system \<Rightarrow> cstr \<Rightarrow> gt_service \<Rightarrow> u32 option" where
  "GT_GetBundleSize G bundleName s =
     (let folder = GetFileFolderSize (gt_alloc G) (gt_posix G (gs_trace s)) (gt_readdir G (gs_trace s)) in
      if bundleName = None then Some 0
      else do {
        q \<leftarrow> gs_query bundleName s;
        case q of
          None \<Rightarrow> Some 0
        | Some a \<Rightarrow> do {
            b \<leftarrow> gs_info a s;
            codeBundleSize \<leftarrow> folder (gb_codePath b);
            if codeBundleSize = 0 then Some 0
            else do { dataBundleSize \<leftarrow> folder (gb_dataPath b); Some (codeBundleSize + dataBundleSize) } } })"

text \<open>\<open>element\<close> is the bundle name of the wanted element, if there is one; the caller's structure is changed.\<close>

definition GT_QueryAbilityInfo ::
    "'j gt_system \<Rightarrow> cstr option \<Rightarrow> GtAbilityInfo \<Rightarrow> gt_service \<Rightarrow> (nat \<times> GtAbilityInfo) option" where
  "GT_QueryAbilityInfo G element out s =
     (let m = gt_alloc G in
      case element of
        None \<Rightarrow> Some (0, out)
      | Some bundleName \<Rightarrow> do {
          q \<leftarrow> gs_query bundleName s;
          case q of
            None \<Rightarrow> Some (0, out)
          | Some a \<Rightarrow> do {
              b \<leftarrow> gs_info a s;
              Some (case gb_abilityInfo b of
                  None \<Rightarrow> (0, out)
                | Some ability \<Rightarrow>
                    (let out = snd (gt_set m ga_bundleName_update bundleName out);
                         out = snd (gt_set m ga_srcPath_update (ga_srcPath ability) out) in (1, out))) } })"

section \<open>Bundles that are there\<close>

definition GT_ReloadBundleInfo ::
    "'j gt_system \<Rightarrow> cstr \<Rightarrow> cstr \<Rightarrow> bool \<Rightarrow> gt_service \<Rightarrow> (bool \<times> gt_service) option" where
  "GT_ReloadBundleInfo G profileDir appId isSystemApp s =
     (case profileDir of
        None \<Rightarrow> Some (False, s)
      | Some dir \<Rightarrow>
          if \<not> gt_alloc G (Objects ''BundleRes'' 1) then Some (False, s)
          else do {
            (b, res) \<leftarrow> GT_ParseHapProfile_dir G (gs_trace s) dir;
            case b of
              None \<Rightarrow> do { (_, s) \<leftarrow> on_trace_opt (RemoveDir G dir) s; Some (False, s) }
            | Some b \<Rightarrow>
                let b = b\<lparr>gb_isSystemApp := isSystemApp, gb_appId := Strdup (gt_alloc G) appId\<rparr> in
                if gb_appId b = None then Some (False, s)
                else do {
                  let (a, g) = gt_alloc_info b (gs_map s);
                  s \<leftarrow> on_map (GT_Add a) (s\<lparr>gs_map := g\<rparr>);
                  case res of
                    None \<Rightarrow> Some (True, s)
                  | Some r \<Rightarrow>
                      if gr_labelId r = 0 \<and> gr_iconId r = 0 then Some (True, s)
                      else do { s \<leftarrow> GT_AddBundleResList \<lparr>br_owner = a, br_abilityRes = r\<rparr> s; Some (True, s) } } })"

text \<open>At the end of \<open>systemPathList_\<close>.\<close>

definition AddSystemAppPathList ::
    "'j gt_system \<Rightarrow> cstr \<Rightarrow> cstr \<Rightarrow> bool \<Rightarrow> bool \<Rightarrow> cstr \<Rightarrow> gt_service \<Rightarrow> gt_service option" where
  "AddSystemAppPathList G installedPath path isSystemApp isUpdated appId s =
     (let m = gt_alloc G in
      if path = None then Some s
      else if \<not> m (Objects ''ToBeInstalledApp'' 1) then Some s
      else do {
        l \<leftarrow> gs_paths s;
        Some (s\<lparr>gs_paths := Some (l @ [\<lparr>ta_isSystemApp = isSystemApp, ta_isUpdated = isUpdated, ta_path = Strdup m path,
                                       ta_installedPath = Strdup m installedPath, ta_appId = Strdup m appId\<rparr>])\<rparr>) })"

text \<open>
  \<open>GT_ReloadEntireBundleInfo\<close>. A system bundle without a record, or with a newer package, is put on the list; a third
  party's record is looked at twice.
\<close>

definition GT_ReloadEntireBundleInfo ::
    "'j gt_system \<Rightarrow> cstr \<Rightarrow> cstr \<Rightarrow> int \<Rightarrow> nat \<Rightarrow> gt_service \<Rightarrow> gt_service option" where
  "GT_ReloadEntireBundleInfo G appPath bundleName versionCode scanFlag s =
     (if appPath = None \<or> bundleName = None then Some s
      else do {
        q \<leftarrow> gs_query bundleName s;
        if q \<noteq> None then Some s
        else do {
          (res, codePath, appId, oldVersionCode) \<leftarrow> GT_CheckBundleJsonIsValid G (gs_trace s) bundleName None None (-1);
          let isSystemApp = (scanFlag = SYSTEM_APP_FLAG);
          if scanFlag \<noteq> THIRD_APP_FLAG \<and> \<not> res then AddSystemAppPathList G None appPath isSystemApp False appId s
          else if scanFlag \<noteq> THIRD_APP_FLAG \<and> oldVersionCode < versionCode
          then AddSystemAppPathList G codePath appPath isSystemApp True appId s
          else do {
            (res, codePath, appId, oldVersionCode) \<leftarrow>
              (if scanFlag = THIRD_APP_FLAG \<and> \<not> res
               then GT_CheckBundleJsonIsValid G (gs_trace s) bundleName codePath appId oldVersionCode
               else Some (res, codePath, appId, oldVersionCode));
            if \<not> res then Some s
            else do {
              let s = (if gt_bc G then s\<lparr>gs_trace := TransformJsToBcWhenRestart G codePath bundleName (gs_trace s)\<rparr> else s);
              (ret, s) \<leftarrow> GT_ReloadBundleInfo G codePath appId isSystemApp s;
              Some (if ret \<and> scanFlag = THIRD_APP_FLAG then s\<lparr>gs_third := gs_third s + 1\<rparr> else s) } } } })"

text \<open>The names are shown again when the resources change; the first that cannot be shown ends the loop.\<close>

fun update_infos :: "'j gt_system \<Rightarrow> gt_res list \<Rightarrow> gt_service \<Rightarrow> gt_service option" where
  "update_infos G [] s = Some s"
| "update_infos G (r # rs) s = do {
     b \<leftarrow> gs_info (br_owner r) s;
     case gb_bundleName b of
       None \<Rightarrow> update_infos G rs s
     | Some n \<Rightarrow> do {
         q \<leftarrow> gs_query (Some n) s;
         case q of
           None \<Rightarrow> update_infos G rs s
         | Some a \<Rightarrow>
             let path = GT_INSTALL_PATH @ ''/'' @ n in
             if \<not> gt_alloc G (Chars (length path + 1)) then update_infos G rs s
             else do {
               b \<leftarrow> gs_info a s;
               (e, b) \<leftarrow> GT_ConvertResInfoToBundleInfo G (gs_trace s) (Some path) (gr_labelId (br_abilityRes r))
                           (gr_iconId (br_abilityRes r)) b;
               s \<leftarrow> on_map (gt_put a b) s;
               if e \<noteq> ERR_OK then Some s else update_infos G rs s } } }"

definition UpdateBundleInfoList :: "'j gt_system \<Rightarrow> gt_service \<Rightarrow> gt_service option" where
  "UpdateBundleInfoList G s = update_infos G (gs_res s) s"

end
