(* ===== verification/Gt_Startup.thy ===== *)
theory Gt_Startup
  imports Gt_Service
begin

text \<open>
  What \<^verbatim>\<open>services/bundlemgr_lite/src/gt_bundle_manager_service.cpp\<close> does when the service starts: the directories of the
  packages that come with the system are listed, the bundles whose records are there reloaded, and the packages that are new
  or newer put on \<open>systemPathList_\<close>, to be installed when the installer's function is registered.
\<close>

section \<open>The packages that come with the system\<close>

text \<open>
  An \<open>AppInfoList\<close> node holds a path of fewer than 100 characters; a longer one fills the array without a NUL, and is not a
  string: \<open>None\<close>. A name that is too long, or a failed allocation, ends the loop.
\<close>

fun query_loop :: "'j gt_system \<Rightarrow> gt_trace \<Rightarrow> string \<Rightarrow> string list \<Rightarrow> cstr list \<Rightarrow> cstr list" where
  "query_loop G t appDir [] list = list"
| "query_loop G t appDir (n # ns) list =
     (let m = gt_alloc G; appPath = appDir @ ''/'' @ n in
      if \<not> m (Chars 256) \<or> length n > 255 then list
      else if n = ''.'' \<or> n = ''..'' then query_loop G t appDir ns list
      else if \<not> m (Chars (length appPath + 1)) then list
      else if \<not> GT_IsFile G t (Some appPath) then query_loop G t appDir ns list
      else if \<not> m (Objects ''AppInfoList'' 1) then query_loop G t appDir ns list
      else query_loop G t appDir ns
             (list @ [if length appPath < MAX_APP_FILE_PATH_LEN then Some appPath else None]))"

definition APP_QueryAppInfo :: "'j gt_system \<Rightarrow> gt_trace \<Rightarrow> string \<Rightarrow> cstr list \<Rightarrow> cstr list" where
  "APP_QueryAppInfo G t appDir list =
     (case gt_readdir G t appDir of None \<Rightarrow> list | Some ns \<Rightarrow> query_loop G t appDir ns list)"

definition APP_InitAllAppInfo :: "'j gt_system \<Rightarrow> gt_trace \<Rightarrow> cstr list option" where
  "APP_InitAllAppInfo G t =
     (if \<not> gt_alloc G (Objects ''AppInfoList'' 1) then None
      else Some (APP_QueryAppInfo G t GT_THIRD_SYSTEM_BUNDLE_PATH (APP_QueryAppInfo G t GT_SYSTEM_BUNDLE_PATH [])))"

definition GT_CheckSystemBundleIsValid ::
    "'j gt_system \<Rightarrow> gt_trace \<Rightarrow> string \<Rightarrow> cstr \<Rightarrow> int \<Rightarrow> bool \<times> cstr \<times> int" where
  "GT_CheckSystemBundleIsValid G t appPath bundleName versionCode =
     (if \<not> EndWith (Some appPath) (Some GT_INSTALL_FILE_SUFFIX) then (False, bundleName, versionCode)
      else let (ok, bundleName, versionCode) = ParseBundleAttr G t appPath bundleName versionCode in
      if \<not> ok then (False, bundleName, versionCode)
      else (\<not> (bundleName \<noteq> None \<and> length (the bundleName) \<ge> MAX_BUNDLE_NAME_LEN), bundleName, versionCode))"

text \<open>\<open>versionCode\<close> is what the package before left in it.\<close>

fun scan_loop ::
    "'j gt_system \<Rightarrow> 'j option \<Rightarrow> cstr list \<Rightarrow> int \<Rightarrow> gt_service \<Rightarrow> gt_service option" where
  "scan_loop G uninstallRecord [] versionCode s = Some s"
| "scan_loop G uninstallRecord (e # es) versionCode s = do {
     p \<leftarrow> e;
     if p = ''.'' \<or> p = ''..'' then scan_loop G uninstallRecord es versionCode s
     else let scanFlag = (if StartWith (Some p) (Some GT_SYSTEM_BUNDLE_PATH) then SYSTEM_APP_FLAG
                          else if StartWith (Some p) (Some GT_THIRD_SYSTEM_BUNDLE_PATH) then THIRD_SYSTEM_APP_FLAG
                          else THIRD_APP_FLAG) in
     if scanFlag = THIRD_APP_FLAG then scan_loop G uninstallRecord es versionCode s
     else let (ok, bundleName, versionCode) = GT_CheckSystemBundleIsValid G (gs_trace s) p None versionCode in
     if \<not> ok then scan_loop G uninstallRecord es versionCode s
     else if scanFlag = THIRD_SYSTEM_APP_FLAG \<and>
             GT_CheckThirdSystemBundleHasUninstalled (gt_json G) bundleName uninstallRecord
     then scan_loop G uninstallRecord es versionCode s
     else do {
       s \<leftarrow> GT_ReloadEntireBundleInfo G (Some p) bundleName versionCode scanFlag s;
       scan_loop G uninstallRecord es versionCode s } }"

definition ScanSystemApp :: "'j gt_system \<Rightarrow> 'j option \<Rightarrow> gt_service \<Rightarrow> gt_service option" where
  "ScanSystemApp G uninstallRecord s =
     (case APP_InitAllAppInfo G (gs_trace s) of
        None \<Rightarrow> Some s
      | Some list \<Rightarrow> scan_loop G uninstallRecord list (-1) s)"

section \<open>The bundles of third parties\<close>

definition IsSystemBundleInstalledPath :: "string \<Rightarrow> ToBeInstalledApp list \<Rightarrow> bool" where
  "IsSystemBundleInstalledPath appPath systemPathList = list_ex (\<lambda>x. ta_installedPath x = Some appPath) systemPathList"

fun third_loop :: "'j gt_system \<Rightarrow> string \<Rightarrow> string list \<Rightarrow> gt_service \<Rightarrow> gt_service option" where
  "third_loop G appDir [] s = Some s"
| "third_loop G appDir (n # ns) s =
     (let appPath = appDir @ ''/'' @ n in
      if n = ''.'' \<or> n = ''..'' then third_loop G appDir ns s
      else if \<not> gt_alloc G (Chars (length appPath + 1)) then Some s
      else if \<not> GT_IsDir G (gs_trace s) (Some appPath) then third_loop G appDir ns s
      else do {
        systemPathList \<leftarrow> gs_paths s;
        if IsSystemBundleInstalledPath appPath systemPathList then third_loop G appDir ns s
        else if gs_third s \<ge> MAX_THIRD_BUNDLE_NUMBER then third_loop G appDir ns s
        else do {
          s \<leftarrow> GT_ReloadEntireBundleInfo G (Some appPath) (Some n) (-1) THIRD_APP_FLAG s;
          third_loop G appDir ns s } })"

definition ScanThirdApp :: "'j gt_system \<Rightarrow> string \<Rightarrow> gt_service \<Rightarrow> gt_service option" where
  "ScanThirdApp G appDir s =
     (case gt_readdir G (gs_trace s) appDir of None \<Rightarrow> Some s | Some ns \<Rightarrow> third_loop G appDir ns s)"

section \<open>Installing what is on the list\<close>

text \<open>A file that is no package ends the loop.\<close>

fun install_all_loop :: "'j gt_system \<Rightarrow> nat option \<Rightarrow> cstr list \<Rightarrow> gt_service \<Rightarrow> gt_service option" where
  "install_all_loop G cb [] s = Some s"
| "install_all_loop G cb (e # es) s = do {
     p \<leftarrow> e;
     if p = ''.'' \<or> p = ''..'' then install_all_loop G cb es s
     else if \<not> GT_IsFile G (gs_trace s) (Some p) \<or> \<not> EndWith (Some p) (Some GT_INSTALL_FILE_SUFFIX) then Some s
     else do { (_, s) \<leftarrow> Gt_Install G (Some p) cb s; install_all_loop G cb es s } }"

definition GT_InstallAllSystemBundle :: "'j gt_system \<Rightarrow> nat option \<Rightarrow> gt_service \<Rightarrow> gt_service option" where
  "GT_InstallAllSystemBundle G cb s =
     (case APP_InitAllAppInfo G (gs_trace s) of
        None \<Rightarrow> Some s
      | Some list \<Rightarrow> install_all_loop G cb list s)"

fun pre_loop :: "'j gt_system \<Rightarrow> nat option \<Rightarrow> ToBeInstalledApp list \<Rightarrow> gt_service \<Rightarrow> gt_service option" where
  "pre_loop G cb [] s = Some s"
| "pre_loop G cb (x # xs) s = do {
     (_, s) \<leftarrow> (if ta_isUpdated x then GT_ReloadBundleInfo G (ta_installedPath x) (ta_appId x) (ta_isSystemApp x) s
               else Some (True, s));
     if \<not> GT_IsFile G (gs_trace s) (ta_path x) \<or> \<not> EndWith (ta_path x) (Some GT_INSTALL_FILE_SUFFIX) then Some s
     else do { (_, s) \<leftarrow> Gt_Install G (ta_path x) cb s; pre_loop G cb xs s } }"

text \<open>
  The list is passed by value: the copy has the nodes of \<open>systemPathList_\<close>, and its destructor frees them, whether or not
  \<open>RemoveSystemAppPathList\<close> has freed what they hold.
\<close>

definition InstallPreBundle ::
    "'j gt_system \<Rightarrow> ToBeInstalledApp list \<Rightarrow> nat option \<Rightarrow> gt_service \<Rightarrow> gt_service option" where
  "InstallPreBundle G systemPathList cb s =
     (if \<not> gt_liteos_m G \<and> \<not> GT_IsDir G (gs_trace s) (Some JSON_PATH_NO_SLASH_END)
      then GT_InstallAllSystemBundle G cb (snd (on_trace (MkDirs G JSON_PATH_NO_SLASH_END) s))
      else pre_loop G cb systemPathList s)"

definition GT_RegisterInstallerCallback :: "'j gt_system \<Rightarrow> nat option \<Rightarrow> gt_service \<Rightarrow> (bool \<times> gt_service) option" where
  "GT_RegisterInstallerCallback G cb s =
     (if \<not> gt_liteos_m G \<and> cb = None then Some (False, s)
      else do {
        systemPathList \<leftarrow> gs_paths s;
        s \<leftarrow> InstallPreBundle G systemPathList cb s;
        Some (True, s\<lparr>gs_paths := None\<rparr>) })"

section \<open>Starting\<close>

definition make_dirs :: "'j gt_system \<Rightarrow> gt_service \<Rightarrow> gt_service" where
  "make_dirs G s =
     (let (ok, s) = on_trace (MkDirs G GT_INSTALL_PATH) s;
          (ok, s) = (if ok then on_trace (MkDirs G GT_DATA_PATH) s else (False, s))
      in if ok then snd (on_trace (MkDirs G GT_JSON_PATH) s) else s)"

definition GT_ScanPackages :: "'j gt_system \<Rightarrow> gt_service \<Rightarrow> gt_service option" where
  "GT_ScanPackages G s =
     (let s = (if gt_liteos_m G then make_dirs G s else s);
          uninstallRecord = GT_GetJsonStream G (gs_trace s) (Some GT_UNINSTALL_THIRD_SYSTEM_BUNDLE_JSON);
          s = (if uninstallRecord = None then snd (gs_do G (Unlink GT_UNINSTALL_THIRD_SYSTEM_BUNDLE_JSON) s) else s)
      in do {
        s \<leftarrow> ScanSystemApp G uninstallRecord s;
        s \<leftarrow> ScanThirdApp G GT_INSTALL_PATH s;
        if gt_liteos_m G then do { (_, s) \<leftarrow> GT_RegisterInstallerCallback G None s; Some s } else Some s })"

end
