(* ===== verification/Gt_Host.thy ===== *)
theory Gt_Host
  imports Gt_Startup
begin

text \<open>
  How the applications of the mini system reach the service: \<^verbatim>\<open>frameworks/bundle_lite/src/slite/bundlems_slite_client.cpp\<close>,
  \<^verbatim>\<open>services/bundlemgr_lite/src/bundle_mgr_slite_feature.cpp\<close> and \<^verbatim>\<open>bundle_mgr_service.cpp\<close>. They are in one
  address space: a query is a call, and a request to change something a message, whose parameters lie in the one global
  buffer \<open>g_bmsbuff\<close>. \<open>None\<close> is an undefined access, or not ending.
\<close>

abbreviation (input) "MAX_PATH_LEN \<equiv> 256 :: nat"
abbreviation (input) "BMS_INSTALL_MSG \<equiv> 100 :: nat"
abbreviation (input) "BMS_UNINSTALL_MSG \<equiv> 101 :: nat"
abbreviation (input) "BMS_SCAN_PACKAGE_MSG \<equiv> 102 :: nat"
abbreviation (input) "BMS_REGISTER_CALLBACK_MSG \<equiv> 103 :: nat"
abbreviation (input) "SLITE_RETRY_TIMES \<equiv> 10 :: nat"

section \<open>State\<close>

text \<open>
  What memory from \<open>OhosMalloc\<close> holds is not known; \<open>bundleParameter\<close> is \<open>None\<close> until a string is written to it.
  A message that the queue of the service takes is handled after those before it.
\<close>

record Bmsbuff =
  bb_parameter :: cstr
  bb_callback :: "nat option option"

record gt_host =
  gh_service :: gt_service
  gh_buff :: "Bmsbuff option"
  gh_queue :: "nat list"

definition gh_new :: gt_host where
  "gh_new = \<lparr>gh_service = gs_new, gh_buff = None, gh_queue = []\<rparr>"

definition gh_send :: "'j gt_system \<Rightarrow> nat \<Rightarrow> gt_host \<Rightarrow> bool \<times> gt_host" where
  "gh_send G msgId h = (if gt_send G (gh_queue h) msgId then (True, h\<lparr>gh_queue := gh_queue h @ [msgId]\<rparr>) else (False, h))"

section \<open>The client\<close>

definition slite_buffer :: "'j gt_system \<Rightarrow> gt_host \<Rightarrow> gt_host" where
  "slite_buffer G h =
     (if gh_buff h \<noteq> None then h
      else if \<not> gt_alloc G (Objects ''Bmsbuff'' 1) then h
      else h\<lparr>gh_buff := Some \<lparr>bb_parameter = None, bb_callback = None\<rparr>\<rparr>)"

text \<open>
  The part \<open>Install\<close> and \<open>Uninstall\<close> have in common. The buffer is written to without asking whether it was got, and is
  cleared before the string is known to fit.
\<close>

definition slite_request :: "'j gt_system \<Rightarrow> nat \<Rightarrow> string \<Rightarrow> nat option \<Rightarrow> gt_host \<Rightarrow> (bool \<times> gt_host) option" where
  "slite_request G msgId parameter cb h = do {
     buf \<leftarrow> gh_buff h;
     if length parameter \<ge> MAX_PATH_LEN then Some (False, h\<lparr>gh_buff := Some (buf\<lparr>bb_parameter := Some []\<rparr>)\<rparr>)
     else Some (gh_send G msgId (h\<lparr>gh_buff := Some \<lparr>bb_parameter = Some parameter, bb_callback = Some cb\<rparr>\<rparr>)) }"

definition Slite_Install :: "'j gt_system \<Rightarrow> cstr \<Rightarrow> nat option \<Rightarrow> gt_host \<Rightarrow> (bool \<times> gt_host) option" where
  "Slite_Install G hapPath cb h =
     (let h = slite_buffer G h in
      case hapPath of None \<Rightarrow> Some (False, h) | Some p \<Rightarrow> slite_request G BMS_INSTALL_MSG p cb h)"

definition Slite_Uninstall :: "'j gt_system \<Rightarrow> cstr \<Rightarrow> nat option \<Rightarrow> gt_host \<Rightarrow> (bool \<times> gt_host) option" where
  "Slite_Uninstall G bundleName cb h =
     (case bundleName of
        None \<Rightarrow> Some (False, h)
      | Some n \<Rightarrow> slite_request G BMS_UNINSTALL_MSG n cb (slite_buffer G h))"

definition Slite_RegisterInstallerCallback ::
    "'j gt_system \<Rightarrow> nat option \<Rightarrow> gt_host \<Rightarrow> (bool \<times> gt_host) option" where
  "Slite_RegisterInstallerCallback G cb h =
     (if cb = None then Some (False, h)
      else let h = slite_buffer G h in do {
        buf \<leftarrow> gh_buff h;
        Some (gh_send G BMS_REGISTER_CALLBACK_MSG (h\<lparr>gh_buff := Some (buf\<lparr>bb_callback := Some cb\<rparr>)\<rparr>)) })"

text \<open>
  \<open>Initialize\<close> with a proxy or without; \<open>api k\<close> tells whether the \<open>k\<close>-th attempt to get one succeeds. The queries, whose
  errors are the values \<open>-1\<close> has in their types.
\<close>

fun slite_connect :: "(nat \<Rightarrow> bool) \<Rightarrow> nat \<Rightarrow> bool" where
  "slite_connect api 0 = False"
| "slite_connect api (Suc retry) = (api retry \<or> slite_connect api retry)"

definition Slite_Initialize :: "bool \<Rightarrow> (nat \<Rightarrow> bool) \<Rightarrow> bool" where
  "Slite_Initialize proxy api = (proxy \<or> slite_connect api SLITE_RETRY_TIMES)"

definition Slite_QueryAbilityInfo ::
    "'j gt_system \<Rightarrow> bool \<Rightarrow> cstr option \<Rightarrow> GtAbilityInfo \<Rightarrow> gt_host \<Rightarrow> (nat \<times> GtAbilityInfo) option" where
  "Slite_QueryAbilityInfo G ready element out h =
     (if \<not> ready then Some (255, out) else GT_QueryAbilityInfo G element out (gh_service h))"

definition Slite_GetBundleInfo :: "bool \<Rightarrow> cstr \<Rightarrow> int \<Rightarrow> gt_host \<Rightarrow> (errcode \<times> GtBundleInfo option) option" where
  "Slite_GetBundleInfo ready bundleName flags h =
     (if \<not> ready then Some (255, None) else GT_GetBundleInfo bundleName flags (gs_map (gh_service h)))"

definition Slite_GetBundleInfos ::
    "'j gt_system \<Rightarrow> bool \<Rightarrow> int \<Rightarrow> gt_host \<Rightarrow> (errcode \<times> GtBundleInfo list) option" where
  "Slite_GetBundleInfos G ready flags h =
     (if \<not> ready then Some (255, []) else GT_GetBundleInfos (gt_alloc G) flags (gs_map (gh_service h)))"

definition Slite_GetBundleInfosNoReplication ::
    "'j gt_system \<Rightarrow> bool \<Rightarrow> int \<Rightarrow> gt_host \<Rightarrow> (errcode \<times> GtBundleInfo list) option" where
  "Slite_GetBundleInfosNoReplication G ready flags h =
     (if \<not> ready then Some (255, []) else GT_GetBundleInfosNoReplication (gt_alloc G) flags (gs_map (gh_service h)))"

definition Slite_GetInstallState :: "bool \<Rightarrow> cstr \<Rightarrow> gt_host \<Rightarrow> (nat \<times> nat) option option" where
  "Slite_GetInstallState ready bundleName h =
     (if \<not> ready then Some None else GT_GetInstallState bundleName (gh_service h))"

definition Slite_GetBundleSize :: "'j gt_system \<Rightarrow> bool \<Rightarrow> cstr \<Rightarrow> gt_host \<Rightarrow> u32 option" where
  "Slite_GetBundleSize G ready bundleName h =
     (if \<not> ready then Some (-1) else GT_GetBundleSize G bundleName (gh_service h))"

definition Slite_UpdateBundleInfoList :: "'j gt_system \<Rightarrow> bool \<Rightarrow> gt_host \<Rightarrow> gt_host option" where
  "Slite_UpdateBundleInfoList G ready h =
     (if \<not> ready then Some h
      else do { s \<leftarrow> UpdateBundleInfoList G (gh_service h); Some (h\<lparr>gh_service := s\<rparr>) })"

section \<open>The service\<close>

text \<open>\<open>ServiceInitialize\<close> sends the first message.\<close>

definition ServiceInitialize :: "'j gt_system \<Rightarrow> gt_host \<Rightarrow> gt_host" where
  "ServiceInitialize G h = snd (gh_send G BMS_SCAN_PACKAGE_MSG h)"

text \<open>
  \<open>ServiceMessageHandle\<close>: the buffer is read when the message is handled. Reading a string or a function that was never
  written there is undefined.
\<close>

definition with_service :: "gt_host \<Rightarrow> ('a \<times> gt_service) option \<Rightarrow> (bool \<times> gt_host) option" where
  "with_service h r = do { (_, s) \<leftarrow> r; Some (True, h\<lparr>gh_service := s\<rparr>) }"

definition ServiceMessageHandle :: "'j gt_system \<Rightarrow> nat \<Rightarrow> gt_host \<Rightarrow> (bool \<times> gt_host) option" where
  "ServiceMessageHandle G msgId h =
     (let s = gh_service h in
      if msgId = BMS_INSTALL_MSG \<and> gh_buff h \<noteq> None
      then do { buf \<leftarrow> gh_buff h; p \<leftarrow> bb_parameter buf; cb \<leftarrow> bb_callback buf; with_service h (Gt_Install G (Some p) cb s) }
      else if msgId = BMS_UNINSTALL_MSG \<and> gh_buff h \<noteq> None
      then do { buf \<leftarrow> gh_buff h; p \<leftarrow> bb_parameter buf; cb \<leftarrow> bb_callback buf; with_service h (Gt_Uninstall G (Some p) cb s) }
      else if msgId = BMS_SCAN_PACKAGE_MSG then do { s \<leftarrow> GT_ScanPackages G s; Some (True, h\<lparr>gh_service := s\<rparr>) }
      else if msgId = BMS_REGISTER_CALLBACK_MSG \<and> gh_buff h \<noteq> None
      then do { buf \<leftarrow> gh_buff h; cb \<leftarrow> bb_callback buf; with_service h (GT_RegisterInstallerCallback G cb s) }
      else Some (False, h))"

text \<open>The task takes the first message of its queue; the feature's own handler is never sent one.\<close>

definition gh_step :: "'j gt_system \<Rightarrow> gt_host \<Rightarrow> gt_host option" where
  "gh_step G h =
     (case gh_queue h of
        [] \<Rightarrow> Some h
      | m # ms \<Rightarrow> do { (_, h) \<leftarrow> ServiceMessageHandle G m (h\<lparr>gh_queue := ms\<rparr>); Some h })"

fun gh_run :: "'j gt_system \<Rightarrow> nat \<Rightarrow> gt_host \<Rightarrow> gt_host option" where
  "gh_run G 0 h = Some h"
| "gh_run G (Suc n) h = do { h \<leftarrow> gh_step G h; gh_run G n h }"

end
