(* ===== verification/Gt_Unpacked.thy ===== *)
theory Gt_Unpacked
  imports Gt_Parser
begin

text \<open>
  What unpacking does: numbers and packages are read as they are written, every file comes out as it went in, and nothing is
  written outside the directory of the bundle.
\<close>

section \<open>Numbers\<close>

text \<open>The number that bytes stand for, the first the most significant, and the bytes of a number.\<close>

fun big_endian :: "u8 list \<Rightarrow> nat" where
  "big_endian [] = 0"
| "big_endian (b # bs) = unat b * 256 ^ length bs + big_endian bs"

fun number_bytes :: "nat \<Rightarrow> nat \<Rightarrow> u8 list" where
  "number_bytes 0 n = []"
| "number_bytes (Suc k) n = word_of_nat (n div 256 ^ k) # number_bytes k n"

lemma unat_u8_less: "unat (b :: u8) < 256"
  using unsigned_less[of b] by simp

lemma big_endian_less: "big_endian bs < 256 ^ length bs"
proof (induction bs)
  case Nil
  then show ?case by simp
next
  case (Cons b bs)
  have "unat b * 256 ^ length bs + big_endian bs < unat b * 256 ^ length bs + 256 ^ length bs"
    using Cons by simp
  also have "\<dots> = (unat b + 1) * 256 ^ length bs" by simp
  also have "\<dots> \<le> 256 * 256 ^ length bs"
    by (rule mult_le_mono1) (use unat_u8_less[of b] in simp)
  finally show ?case by simp
qed

lemma length_number_bytes [simp]: "length (number_bytes k n) = k"
  by (induction k) auto

lemma big_endian_number_bytes: "big_endian (number_bytes k n) = n mod 256 ^ k"
proof (induction k)
  case 0
  then show ?case by simp
next
  case (Suc k)
  have "unat (word_of_nat (n div 256 ^ k) :: u8) = n div 256 ^ k mod 256"
    by (simp add: unat_of_nat)
  then have "big_endian (number_bytes (Suc k) n) = (n div 256 ^ k mod 256) * 256 ^ k + n mod 256 ^ k"
    using Suc by simp
  also have "\<dots> = n mod (256 ^ k * 256)"
    by (simp add: mod_mult2_eq)
  finally show ?case by (simp add: mult.commute)
qed

lemma unat_shifted:
  assumes "unat (b :: u8) * 2 ^ n < 2 ^ LENGTH('a :: len)" "8 \<le> LENGTH('a)"
  shows "unat (push_bit n (ucast b) :: 'a word) = unat b * 2 ^ n"
proof -
  have "unat (ucast b :: 'a word) = unat b"
    using assms(2) unat_u8_less[of b] order.strict_trans2[of "unat b" 256 "2 ^ LENGTH('a)"] power_increasing[of 8 "LENGTH('a)" "2::nat"]
    by (simp add: unsigned_ucast_eq take_bit_nat_eq_self)
  then have "unat (push_bit n (ucast b) :: 'a word) = take_bit LENGTH('a) (push_bit n (unat b))"
    by (simp only: unsigned_push_bit_eq)
  also have "push_bit n (unat b) = unat b * 2 ^ n"
    by (rule push_bit_eq_mult)
  finally show ?thesis
    using assms(1) by (simp only: take_bit_nat_eq_self)
qed

text \<open>What a loop over the bytes gives, as long as the number fits.\<close>

lemma int_loop_number:
  assumes "bs \<noteq> []" "length bs \<le> 4" "unat r + big_endian bs < 2 ^ 32"
  shows "int_loop bs r =
    (if unat r + (big_endian bs - unat (last bs)) > 256 then UINT_MAX else r + word_of_nat (big_endian bs))"
  using assms
proof (induction bs arbitrary: r rule: list_nonempty_induct)
  case (single b)
  have "(ucast b :: u32) = word_of_nat (unat b)"
    by (metis of_nat_unat)
  then show ?case using single by (simp add: word_less_nat_alt)
next
  case (cons b bs)
  let ?p = "push_bit (8 * length bs) (ucast b) :: u32"
  have fit: "unat r + (unat b * 256 ^ length bs + big_endian bs) < 2 ^ 32" using cons by simp
  have p: "unat ?p = unat b * 256 ^ length bs"
    using fit unat_shifted[of b "8 * length bs", where ?'a = 32] by (simp add: power_mult)
  have r: "unat (r + ?p) = unat r + unat b * 256 ^ length bs"
    using fit p by (simp add: unat_word_ariths)
  have last: "unat (last bs) \<le> big_endian bs"
    using cons.hyps(1) by (induction bs rule: list_nonempty_induct) auto
  show ?case
  proof (cases "unat r > 256")
    case True
    then show ?thesis by (simp add: word_less_nat_alt)
  next
    case False
    then have "int_loop (b # bs) r = int_loop bs (r + ?p)" by (simp add: word_less_nat_alt)
    also have "\<dots> = (if unat (r + ?p) + (big_endian bs - unat (last bs)) > 256 then UINT_MAX
                    else r + ?p + word_of_nat (big_endian bs))"
      using cons fit r by auto
    also have "?p = word_of_nat (unat b * 256 ^ length bs)"
      using p by (metis of_nat_unat ucast_id)
    ultimately show ?thesis using r last cons.hyps(1) by (simp add: add.assoc)
  qed
qed

lemma big_endian_mod: "bs \<noteq> [] \<Longrightarrow> unat (last bs) = big_endian bs mod 256"
proof (induction bs rule: list_nonempty_induct)
  case (single b)
  then show ?case using unat_u8_less[of b] by simp
next
  case (cons b bs)
  then obtain k where "length bs = Suc k" by (cases bs) auto
  then have "unat b * 256 ^ length bs = 256 * (unat b * 256 ^ k)" by simp
  then show ?case using cons by (simp only: last.simps if_False big_endian.simps mod_mult_self4)
qed

lemma top_256: "(256 * k < (x::nat) - x mod 256) = (256 * (k + 1) \<le> x)"
proof -
  have "x - x mod 256 = 256 * (x div 256)" by (simp add: minus_mod_eq_mult_div)
  moreover have "(k < x div 256) = (256 * (k + 1) \<le> x)"
    using less_eq_div_iff_mult_less_eq[of 256 "k + 1" x] by (simp add: Suc_le_eq mult.commute)
  ultimately show ?thesis by simp
qed

text \<open>\<open>ReadInt\<close> gives the number in the next four bytes when it is less than 512, and otherwise the error.\<close>

lemma ReadInt_eq:
  "ReadInt f pos =
     (let buf = take 4 (drop pos f) in
      (if length buf = 4 \<and> big_endian buf < 512 then word_of_nat (big_endian buf) else UINT_MAX, pos + length buf))"
proof -
  let ?buf = "take 4 (drop pos f)"
  have "int_loop ?buf 0 = (if big_endian ?buf < 512 then word_of_nat (big_endian ?buf) else UINT_MAX)"
    if l: "length ?buf = 4"
  proof -
    have ne: "?buf \<noteq> []" using l by (metis list.size(3) zero_neq_numeral)
    have "big_endian ?buf < 2 ^ 32" using big_endian_less[of ?buf] l by simp
    then have "int_loop ?buf 0 = (if big_endian ?buf - big_endian ?buf mod 256 > 256 then UINT_MAX
                                  else word_of_nat (big_endian ?buf))"
      using int_loop_number[OF ne, of 0] l big_endian_mod[OF ne] by simp
    moreover have "(256 < big_endian ?buf - big_endian ?buf mod 256) = (\<not> big_endian ?buf < 512)"
      using top_256[of 1 "big_endian ?buf"] by (simp add: not_less)
    ultimately show ?thesis by simp
  qed
  then show ?thesis by (auto simp: ReadInt_def read_bytes_def Let_def)
qed


lemma long_loop_number:
  assumes "bs \<noteq> []" "length bs \<le> 8" "unat r + big_endian bs < 2 ^ 64"
  shows "long_loop bs r =
    (if unat r + (big_endian bs - unat (last bs)) > 2147483647 then 0 else r + word_of_nat (big_endian bs))"
  using assms
proof (induction bs arbitrary: r rule: list_nonempty_induct)
  case (single b)
  have "(ucast b :: u64) = word_of_nat (unat b)"
    by (metis of_nat_unat)
  then show ?case using single by (simp add: word_less_nat_alt)
next
  case (cons b bs)
  let ?p = "push_bit (8 * length bs) (ucast b) :: u64"
  have fit: "unat r + (unat b * 256 ^ length bs + big_endian bs) < 2 ^ 64" using cons by simp
  have p: "unat ?p = unat b * 256 ^ length bs"
    using fit unat_shifted[of b "8 * length bs", where ?'a = 64] by (simp add: power_mult)
  have r: "unat (r + ?p) = unat r + unat b * 256 ^ length bs"
    using fit p by (simp add: unat_word_ariths)
  have last: "unat (last bs) \<le> big_endian bs"
    using cons.hyps(1) by (induction bs rule: list_nonempty_induct) auto
  show ?case
  proof (cases "unat r > 2147483647")
    case True
    then show ?thesis by (simp add: word_less_nat_alt)
  next
    case False
    then have "long_loop (b # bs) r = long_loop bs (r + ?p)" by (simp add: word_less_nat_alt)
    also have "\<dots> = (if unat (r + ?p) + (big_endian bs - unat (last bs)) > 2147483647 then 0
                    else r + ?p + word_of_nat (big_endian bs))"
      using cons fit r by auto
    also have "?p = word_of_nat (unat b * 256 ^ length bs)"
      using p by (metis of_nat_unat ucast_id)
    ultimately show ?thesis using r last cons.hyps(1) by (simp add: add.assoc)
  qed
qed

text \<open>\<open>ReadLong\<close> the number in the next eight when it is less than \<open>2 ^ 31\<close>, and otherwise 0.\<close>

lemma ReadLong_eq:
  "ReadLong f pos =
     (let buf = take 8 (drop pos f) in
      (if length buf = 8 \<and> big_endian buf < 2 ^ 31 then word_of_nat (big_endian buf) else 0, pos + length buf))"
proof -
  let ?buf = "take 8 (drop pos f)"
  have "long_loop ?buf 0 = (if big_endian ?buf < 2 ^ 31 then word_of_nat (big_endian ?buf) else 0)"
    if l: "length ?buf = 8"
  proof -
    have ne: "?buf \<noteq> []" using l by (metis list.size(3) zero_neq_numeral)
    have "big_endian ?buf < 2 ^ 64" using big_endian_less[of ?buf] l by simp
    then have "long_loop ?buf 0 = (if big_endian ?buf - big_endian ?buf mod 256 > 2147483647 then 0
                                  else word_of_nat (big_endian ?buf))"
      using long_loop_number[OF ne, of 0] l big_endian_mod[OF ne] by simp
    moreover have "(2147483647 < x - x mod 256) = (\<not> x < 2 ^ 31)" for x :: nat
    proof -
      have "x - x mod 256 = 256 * (x div 256)" by (simp add: minus_mod_eq_mult_div)
      moreover have "(8388608 \<le> x div 256) = (8388608 * 256 \<le> x)" by (rule less_eq_div_iff_mult_less_eq) simp
      ultimately show ?thesis by auto
    qed
    ultimately show ?thesis by simp
  qed
  then show ?thesis by (auto simp: ReadLong_def read_bytes_def Let_def)
qed


section \<open>Nothing outside\<close>

text \<open>
  Directories are made on the way to a file, \<open>mkdir\<close> being called for each part of its path; a file is opened and written
  only below the directory and by a path that does not lead upwards.
\<close>

definition inside :: "string \<Rightarrow> gt_call \<Rightarrow> bool" where
  "inside dir c \<longleftrightarrow>
     (case c of Make_dir d \<Rightarrow> prefix d dir \<or> prefix dir d
      | Create p \<Rightarrow> prefix dir p \<and> no_parent p
      | Write p _ \<Rightarrow> prefix dir p \<and> no_parent p
      | _ \<Rightarrow> False)"

definition adds :: "(gt_call \<Rightarrow> bool) \<Rightarrow> gt_trace \<Rightarrow> gt_trace \<Rightarrow> bool" where
  "adds P t t' \<longleftrightarrow> (\<exists>cs. t' = t @ cs \<and> list_all P cs)"

lemma gt_adds_refl [simp, intro]: "adds P t t"
  by (simp add: adds_def)

lemma adds_one [simp]: "adds P t (t @ [c]) \<longleftrightarrow> P c"
  by (simp add: adds_def)

lemma gt_adds_trans: "adds P t u \<Longrightarrow> adds P u v \<Longrightarrow> adds P t v"
  by (fastforce simp: adds_def)

lemma adds_mono: "adds P t u \<Longrightarrow> (\<And>c. P c \<Longrightarrow> Q c) \<Longrightarrow> adds Q t u"
  by (auto simp: adds_def list_all_iff)

lemma gt_do_adds [simp]: "adds P t (snd (gt_do G c t)) \<longleftrightarrow> P c"
  by (simp add: gt_do_def)

lemma mkdirs_adds: "adds (\<lambda>c. \<exists>d. c = Make_dir d \<and> prefix d dir) t (snd (mkdirs_loop G dir i n ex t))"
proof (induction G dir i n ex t rule: mkdirs_loop.induct)
  case (1 G dir i ex t)
  then show ?case by simp
next
  case (2 G dir i n ex t)
  let ?P = "\<lambda>c. \<exists>d. c = Make_dir d \<and> prefix d dir"
  show ?case
  proof (cases "dir ! i = CHR ''/'' \<and> GetRootDir G dir i \<noteq> None")
    case False
    then show ?thesis using 2(1) by (auto split: option.splits)
  next
    case True
    then obtain root where root: "GetRootDir G dir i = Some root" "prefix root dir"
      by (auto simp: GetRootDir_def take_is_prefix split: if_splits)
    show ?thesis
    proof (cases "ex \<and> GT_IsDir G t (Some root)")
      case known: True
      then show ?thesis using 2(2)[OF _ root(1)] True root(1) by simp
    next
      case no: False
      have step: "adds ?P t (snd (gt_do G (Make_dir root) t))" using root(2) by simp
      show ?thesis
      proof (cases "fst (gt_do G (Make_dir root) t)")
        case False
        then show ?thesis using True no root(1) step by (auto simp: case_prod_beta)
      next
        case ok: True
        have "adds ?P (snd (gt_do G (Make_dir root) t)) (snd (mkdirs_loop G dir (i + 1) n False (snd (gt_do G (Make_dir root) t))))"
          using 2(3)[OF _ root(1) no _ prod.collapse] ok True by simp
        from gt_adds_trans[OF step this] show ?thesis using True no root(1) ok by (auto simp: case_prod_beta)
      qed
    qed
  qed
qed

lemma MkDirs_adds: "adds (\<lambda>c. \<exists>d. c = Make_dir d \<and> prefix d dir) t (snd (MkDirs G dir t))"
  by (simp add: MkDirs_def mkdirs_adds)

lemma copy_adds: "adds (\<lambda>c. \<exists>bs. c = Write p bs) t (snd (snd (gt_copy_loop G f p n pos t)))"
proof (induction G f p n pos t rule: gt_copy_loop.induct)
  case (1 G f p n pos t)
  let ?P = "\<lambda>c. \<exists>bs. c = Write p bs"
  define k where "k = min n READ_SIZE"
  obtain b q where b: "read_bytes f pos k = (b, q)" by force
  obtain ok u where w: "gt_do G (Write p b) t = (ok, u)" by force
  have step: "adds ?P t u" using w by (auto simp: gt_do_def)
  have eq: "gt_copy_loop G f p n pos t =
      (if n = 0 then (True, pos, t) else if length b \<noteq> k then (False, q, t)
       else if \<not> ok then (False, q, u) else gt_copy_loop G f p (n - k) q u)"
    by (subst gt_copy_loop.simps) (simp add: Let_def k_def[symmetric] b w)
  show ?case
  proof (cases "n \<noteq> 0 \<and> length b = k \<and> ok")
    case True
    then have "adds ?P u (snd (snd (gt_copy_loop G f p (n - k) q u)))"
      using 1[of k "(b, q)" b q "(ok, u)" ok u] b w by (simp add: k_def)
    with step True show ?thesis unfolding eq by (auto intro: gt_adds_trans)
  next
    case False
    then show ?thesis using step unfolding eq by auto
  qed
qed

lemma CheckRealPath_no_parent: "CheckRealPath (Some p) \<Longrightarrow> no_parent p"
  by (simp add: CheckRealPath_iff)

lemma HasCopiedData_adds:
  assumes "prefix dir p"
  shows "adds (inside dir) t (snd (snd (HasCopiedData G f p pos n t)))"
proof (cases "CheckRealPath (Some p)")
  case True
  define w where "w = gt_do G (Create p) t"
  have p: "prefix dir p \<and> no_parent p" using assms CheckRealPath_no_parent[OF True] by simp
  then have 1: "adds (inside dir) t (snd w)" by (simp add: w_def inside_def)
  have 2: "adds (inside dir) (snd w) (snd (snd (gt_copy_loop G f p (unat n) pos (snd w))))"
    by (rule adds_mono[OF copy_adds]) (use p in \<open>auto simp: inside_def\<close>)
  show ?thesis
    using True 1 gt_adds_trans[OF 1 2] by (auto simp: HasCopiedData_def w_def case_prod_beta Let_def)
qed (simp add: HasCopiedData_def)

lemma HasWrittenFile_adds: "adds (inside dir) t (snd (snd (HasWrittenFile G f dir rel name pos n t)))"
proof -
  define w where "w = MkDirs G (dir @ rel) t"
  have 1: "adds (inside dir) t (snd w)"
    unfolding w_def by (rule adds_mono[OF MkDirs_adds]) (auto simp: inside_def prefix_append)
  have 2: "adds (inside dir) (snd w) (snd (snd (HasCopiedData G f (dir @ rel @ ''/'' @ name) pos n (snd w))))"
    by (rule HasCopiedData_adds) simp
  show ?thesis
    using 1 gt_adds_trans[OF 1 2] by (auto simp: HasWrittenFile_def w_def case_prod_beta Let_def)
qed

lemma extract_loop_adds: "adds (inside dir) t (snd (extract_loop G f dir len index pos t))"
proof (induction G f dir len index pos t rule: extract_loop.induct)
  case (1 G f dir len index pos t)
  show ?case
  proof (cases "index < len \<and> ExtractFileAttr G f pos \<noteq> None")
    case True
    then obtain name rel n pos1 where a: "ExtractFileAttr G f pos = Some (name, rel, n, pos1)" by auto
    obtain ok q u where w: "HasWrittenFile G f dir rel name pos1 n t = (ok, q, u)" by (cases "HasWrittenFile G f dir rel name pos1 n t") auto
    have step: "adds (inside dir) t u" using HasWrittenFile_adds[of dir t G f rel name pos1 n] w by simp
    have eq: "extract_loop G f dir len index pos t =
        (if ok then extract_loop G f dir len (index + entry_length (length name) (length rel) n) q u
         else (ERR_INSTALL_FAILED_CREATE_FILE_ERROR, u))"
      using True a by (subst extract_loop.simps) (simp add: w)
    have "ok \<Longrightarrow> adds (inside dir) u (snd (extract_loop G f dir len (index + entry_length (length name) (length rel) n) q u))"
      using 1[OF _ a refl refl refl, of "(ok, q, u)" ok "(q, u)" q u] True w by simp
    with step show ?thesis unfolding eq by (auto intro: gt_adds_trans)
  next
    case False
    then show ?thesis by (subst extract_loop.simps) (auto split: option.splits)
  qed
qed


section \<open>What a package holds\<close>

text \<open>
  The format: the magic byte, the name of the bundle with its length, and for each file the lengths and the characters of its
  name and its directory, its size and its bytes.
\<close>

type_synonym packed_file = "string \<times> string \<times> u8 list"

fun file_bytes :: "packed_file \<Rightarrow> u8 list" where
  "file_bytes (name, dir, data) =
     number_bytes 4 (length name) @ gt_bytes name @ number_bytes 4 (length dir) @ gt_bytes dir @
     number_bytes 8 (length data) @ data"

definition package_bytes :: "string \<Rightarrow> packed_file list \<Rightarrow> u8 list" where
  "package_bytes bundleName files =
     190 # number_bytes 4 (length bundleName) @ gt_bytes bundleName @ concat (map file_bytes files)"

text \<open>A string with a length that can be read; a file that is not empty and not too long.\<close>

definition packable_string :: "string \<Rightarrow> bool" where
  "packable_string s \<longleftrightarrow> length s < 512 \<and> CHR 0x00 \<notin> set s"

fun packable :: "packed_file \<Rightarrow> bool" where
  "packable (name, dir, data) \<longleftrightarrow>
     packable_string name \<and> packable_string dir \<and> data \<noteq> [] \<and> length data < 2 ^ 31"

lemma length_gt_bytes [simp]: "length (gt_bytes s) = length s"
  by (simp add: gt_bytes_def)

lemma gt_chars_bytes: "gt_chars (gt_bytes s) = s"
  by (simp add: gt_chars_def gt_bytes_def o_def unat_of_nat)

lemma as_string_bytes: "CHR 0x00 \<notin> set s \<Longrightarrow> as_string (gt_bytes s) = s"
proof -
  assume "CHR 0x00 \<notin> set s"
  moreover have "c = CHR 0x00" if "(word_of_nat (of_char c) :: u8) = 0" for c
  proof -
    have "(of_char c :: nat) mod 256 = 0" using that by (simp add: word_unat_eq_iff unat_of_nat)
    then have "(of_char c :: nat) = of_char (CHR 0x00)" by simp
    then show ?thesis by (rule of_char_eqI)
  qed
  ultimately have "\<forall>b \<in> set (gt_bytes s). b \<noteq> 0"
    by (auto simp: gt_bytes_def)
  then show ?thesis by (simp add: as_string_def takeWhile_eq_all_conv[THEN iffD2] gt_chars_bytes)
qed

lemma drop_past: "drop pos f = xs @ rest \<Longrightarrow> drop (pos + length xs) f = rest"
  by (metis add.commute append_eq_conv_conj drop_drop)

lemma ReadInt_bytes:
  "drop pos f = number_bytes 4 n @ rest \<Longrightarrow> n < 512 \<Longrightarrow> ReadInt f pos = (word_of_nat n, pos + 4)"
  by (simp add: ReadInt_eq Let_def big_endian_number_bytes)

lemma ReadLong_bytes:
  "drop pos f = number_bytes 8 n @ rest \<Longrightarrow> n < 2 ^ 31 \<Longrightarrow> ReadLong f pos = (word_of_nat n, pos + 8)"
  by (simp add: ReadLong_eq Let_def big_endian_number_bytes)

lemma small_u32: "n < 2 ^ 32 \<Longrightarrow> unat (word_of_nat n :: u32) = n"
  by (simp add: unat_of_nat)

lemma small_neq_max: "n < 2 ^ 31 \<Longrightarrow> (word_of_nat n :: u32) \<noteq> UINT_MAX"
  using small_u32[of n] by force

lemma small_u64: "n < 2 ^ 31 \<Longrightarrow> unat (word_of_nat n :: u64) = n"
  by (simp add: unat_of_nat)

lemma GT_ReadString_bytes:
  assumes "gt_alloc G = plentiful" "drop pos f = gt_bytes s @ rest" "packable_string s"
  shows "GT_ReadString G f pos (word_of_nat (length s)) = (Some s, pos + length s)"
proof -
  have l: "unat (word_of_nat (length s) :: u32) = length s"
    using assms(3) by (intro small_u32) (simp add: packable_string_def)
  show ?thesis
  proof (cases "s = []")
    case True
    then show ?thesis by (simp add: GT_ReadString_def assms(1) plentiful_grants)
  next
    case False
    then have "(word_of_nat (length s) :: u32) \<noteq> 0" using l by force
    then show ?thesis
      using assms l by (simp add: GT_ReadString_def plentiful_grants read_bytes_def packable_string_def as_string_bytes)
  qed
qed


lemma ExtractFileAttr_bytes:
  assumes G: "gt_alloc G = plentiful" and f: "drop pos f = file_bytes (name, dir, data) @ rest"
    and ok: "packable (name, dir, data)"
  shows "\<exists>q. ExtractFileAttr G f pos = Some (name, dir, word_of_nat (length data), q) \<and> drop q f = data @ rest"
    and "length f < 2 ^ 31 \<Longrightarrow>
      \<exists>q. ExtractFileAttr_len G f pos = Some (name, word_of_nat (length dir), word_of_nat (length data), q) \<and>
          drop q f = data @ rest"
proof -
  have l: "length name < 512" "length dir < 512" "packable_string name" "packable_string dir" "length data < 2 ^ 31"
    "0 < length data" using ok by (auto simp: packable_string_def)
  define p1 where "p1 = pos + 4"
  define p2 where "p2 = p1 + length name"
  define p3 where "p3 = p2 + 4"
  define p4 where "p4 = p3 + length dir"
  define p5 where "p5 = p4 + 8"
  have 1: "drop pos f = number_bytes 4 (length name) @ gt_bytes name @ number_bytes 4 (length dir) @ gt_bytes dir @
      number_bytes 8 (length data) @ data @ rest" using f by simp
  have 2: "drop p1 f = gt_bytes name @ number_bytes 4 (length dir) @ gt_bytes dir @
      number_bytes 8 (length data) @ data @ rest" using drop_past[OF 1] by (simp add: p1_def)
  have 3: "drop p2 f = number_bytes 4 (length dir) @ gt_bytes dir @ number_bytes 8 (length data) @ data @ rest"
    using drop_past[OF 2] by (simp add: p2_def)
  have 4: "drop p3 f = gt_bytes dir @ number_bytes 8 (length data) @ data @ rest"
    using drop_past[OF 3] by (simp add: p3_def)
  have 5: "drop p4 f = number_bytes 8 (length data) @ data @ rest"
    using drop_past[OF 4] by (simp add: p4_def)
  have 6: "drop p5 f = data @ rest"
    using drop_past[OF 5] by (simp add: p5_def)
  note reads = ReadInt_bytes[OF 1 l(1), folded p1_def] GT_ReadString_bytes[OF G 2 l(3), folded p2_def]
    ReadInt_bytes[OF 3 l(2), folded p3_def] GT_ReadString_bytes[OF G 4 l(4), folded p4_def]
    ReadLong_bytes[OF 5 l(5), folded p5_def]
  have ne: "(word_of_nat (length name) :: u32) \<noteq> UINT_MAX" "(word_of_nat (length dir) :: u32) \<noteq> UINT_MAX"
    using l(1,2) by (simp_all add: small_neq_max)
  have nz: "(word_of_nat (length data) :: u64) \<noteq> 0" using small_u64[OF l(5)] l(6) by force
  show "\<exists>q. ExtractFileAttr G f pos = Some (name, dir, word_of_nat (length data), q) \<and> drop q f = data @ rest"
    using 6 ne nz by (simp add: ExtractFileAttr_def reads)
  have dir: "unat (word_of_nat (length dir) :: u32) = length dir" using l(2) by (simp add: small_u32)
  have "length (drop p4 f) \<noteq> 0" unfolding 5 by simp
  then have "p3 + length dir < length f" by (simp add: p4_def)
  then show "\<exists>q. ExtractFileAttr_len G f pos = Some (name, word_of_nat (length dir), word_of_nat (length data), q) \<and>
          drop q f = data @ rest" if "length f < 2 ^ 31"
    using 6 ne nz that reads dir by (simp add: ExtractFileAttr_len_def lseek_cur_def p4_def)
qed


section \<open>Every file comes out\<close>

text \<open>The bytes a sequence of calls writes to a file.\<close>

definition written :: "string \<Rightarrow> gt_trace \<Rightarrow> u8 list" where
  "written p t = concat (map (\<lambda>c. case c of Write q bs \<Rightarrow> if q = p then bs else [] | _ \<Rightarrow> []) t)"

text \<open>A system that does everything it is asked for.\<close>

definition obedient :: "'j gt_system \<Rightarrow> bool" where
  "obedient G \<longleftrightarrow> gt_alloc G = plentiful \<and> (\<forall>t c. gt_done G t c)"

fun unpacked_path :: "string \<Rightarrow> packed_file \<Rightarrow> string" where
  "unpacked_path dir (name, rel, data) = dir @ rel @ ''/'' @ name"

definition unpackable :: "string \<Rightarrow> packed_file \<Rightarrow> bool" where
  "unpackable dir x \<longleftrightarrow> packable x \<and> length (unpacked_path dir x) < PATH_LENGTH \<and> no_parent (unpacked_path dir x)"

lemma written_append [simp]: "written p (t @ u) = written p t @ written p u"
  by (simp add: written_def)

lemma written_nil [simp]: "written p [] = []"
  by (simp add: written_def)

lemma written_other: "list_all (\<lambda>c. \<exists>d. c = Make_dir d \<and> P d) cs \<Longrightarrow> written p cs = []"
  by (induction cs) (auto simp: written_def)

lemma obedient_do [simp]: "obedient G \<Longrightarrow> gt_do G c t = (True, t @ [c])"
  by (simp add: gt_do_def obedient_def)

lemma obedient_alloc [simp]: "obedient G \<Longrightarrow> gt_alloc G r"
  by (simp add: obedient_def plentiful_grants)

lemma mkdirs_loop_obedient: "obedient G \<Longrightarrow> fst (mkdirs_loop G dir i n ex t)"
  by (induction n arbitrary: i ex t) (auto simp: GetRootDir_def)

lemma MkDirs_obedient:
  assumes "obedient G" "length dir \<le> PATH_LENGTH"
  shows "\<exists>cs. MkDirs G dir t = (True, t @ cs) \<and> (\<forall>p. written p cs = [])"
proof -
  from MkDirs_adds[of dir t G] obtain cs where "snd (MkDirs G dir t) = t @ cs"
    "list_all (\<lambda>c. \<exists>d. c = Make_dir d \<and> prefix d dir) cs" by (auto simp: adds_def)
  moreover have "fst (MkDirs G dir t)"
    using assms mkdirs_loop_obedient[OF assms(1)] by (auto simp: MkDirs_def)
  ultimately show ?thesis using written_other by (cases "MkDirs G dir t") auto
qed

lemma copy_obedient:
  assumes "obedient G" "n \<le> length (drop pos f)"
  shows "\<exists>cs. gt_copy_loop G f p n pos t = (True, pos + n, t @ cs) \<and>
           (\<forall>q. written q cs = (if q = p then take n (drop pos f) else []))"
  using assms
proof (induction n arbitrary: pos t rule: less_induct)
  case (less n)
  define k where "k = min n READ_SIZE"
  show ?case
  proof (cases "n = 0")
    case True
    then show ?thesis by (subst gt_copy_loop.simps) simp
  next
    case False
    define b where "b = take k (drop pos f)"
    have b: "read_bytes f pos k = (b, pos + k)" "length b = k"
      using less.prems(2) by (auto simp: read_bytes_def b_def k_def)
    have n: "n = k + (n - k)" "n - k < n" using False by (auto simp: k_def)
    have eq: "gt_copy_loop G f p n pos t = gt_copy_loop G f p (n - k) (pos + k) (t @ [Write p b])"
      using False less.prems(1) b by (subst gt_copy_loop.simps) (simp add: Let_def k_def[symmetric])
    have le: "n - k \<le> length (drop (pos + k) f)" using less.prems(2) n(1) by simp
    obtain cs where cs: "gt_copy_loop G f p (n - k) (pos + k) (t @ [Write p b]) = (True, pos + k + (n - k), (t @ [Write p b]) @ cs)"
      "\<forall>q. written q cs = (if q = p then take (n - k) (drop (pos + k) f) else [])"
      using less.IH[OF n(2) less.prems(1) le, of "t @ [Write p b]"] by blast
    have "take n (drop pos f) = b @ take (n - k) (drop (pos + k) f)"
      using n(1) by (metis add.commute b_def drop_drop take_add)
    then have "\<forall>q. written q ([Write p b] @ cs) = (if q = p then take n (drop pos f) else [])"
      using cs(2) by (auto simp: written_def)
    then show ?thesis using cs(1) n(1) unfolding eq by (intro exI[of _ "[Write p b] @ cs"]) auto
  qed
qed

lemma HasWrittenFile_obedient:
  assumes G: "obedient G" and f: "drop pos f = data @ rest" and x: "unpackable dir (name, rel, data)"
  shows "\<exists>cs. HasWrittenFile G f dir rel name pos (word_of_nat (length data)) t = (True, pos + length data, t @ cs) \<and>
           (\<forall>q. written q cs = (if q = unpacked_path dir (name, rel, data) then data else []))"
proof -
  let ?p = "dir @ rel @ ''/'' @ name"
  have x: "length ?p < PATH_LENGTH" "CheckRealPath (Some ?p)" "length data < 2 ^ 31" "data \<noteq> []"
    using x by (auto simp: unpackable_def CheckRealPath_iff)
  then obtain ds where ds: "MkDirs G (dir @ rel) t = (True, t @ ds)" "\<forall>p. written p ds = []"
    using MkDirs_obedient[OF G, of "dir @ rel" t] by auto
  have n: "unat (word_of_nat (length data) :: u64) = length data" by (rule small_u64[OF x(3)])
  obtain cs where cs: "gt_copy_loop G f ?p (length data) pos ((t @ ds) @ [Create ?p]) =
      (True, pos + length data, ((t @ ds) @ [Create ?p]) @ cs)"
    "\<forall>q. written q cs = (if q = ?p then data else [])"
    using copy_obedient[OF G, of "length data" pos f ?p "(t @ ds) @ [Create ?p]"] f by auto
  have "HasWrittenFile G f dir rel name pos (word_of_nat (length data)) t =
      (True, pos + length data, t @ (ds @ [Create ?p] @ cs))"
    using G x ds(1) cs(1) n by (simp add: HasWrittenFile_def HasCopiedData_def)
  moreover have "\<forall>q. written q (ds @ [Create ?p] @ cs) = (if q = ?p then data else [])"
    using ds(2) cs(2) by (simp add: written_def)
  ultimately show ?thesis by auto
qed


lemma entry_length_file:
  "packable (name, rel, data) \<Longrightarrow>
   entry_length (length name) (length rel) (word_of_nat (length data)) = length (file_bytes (name, rel, data))"
  by (simp add: entry_length_def small_u64)

lemma extract_loop_obedient:
  assumes "obedient G" "drop pos f = concat (map file_bytes files)" "list_all (unpackable dir) files"
  shows "\<exists>cs. extract_loop G f dir (index + length (concat (map file_bytes files))) index pos t = (ERR_OK, t @ cs) \<and>
           (\<forall>q. written q cs = concat (map (snd \<circ> snd) (filter (\<lambda>x. unpacked_path dir x = q) files)))"
  using assms
proof (induction files arbitrary: index pos t)
  case Nil
  then show ?case by (subst extract_loop.simps) simp
next
  case (Cons x files)
  obtain name rel data where x: "x = (name, rel, data)" by (cases x)
  let ?len = "length (concat (map file_bytes (x # files)))" and ?k = "length (file_bytes x)"
  have ok2: "unpackable dir (name, rel, data)" "list_all (unpackable dir) files"
    using Cons.prems(3) x by simp_all
  have ok: "packable (name, rel, data)" "unpackable dir (name, rel, data)" "list_all (unpackable dir) files"
    using ok2 by (simp_all add: unpackable_def)
  have "drop pos f = file_bytes (name, rel, data) @ concat (map file_bytes files)"
    using Cons.prems(2) x by simp
  from ExtractFileAttr_bytes(1)[OF _ this ok(1), of G] Cons.prems(1) obtain q1 where
    a: "ExtractFileAttr G f pos = Some (name, rel, word_of_nat (length data), q1)"
      "drop q1 f = data @ concat (map file_bytes files)" by (auto simp: obedient_def)
  from HasWrittenFile_obedient[OF Cons.prems(1) a(2) ok(2)] obtain cs1 where
    w: "HasWrittenFile G f dir rel name q1 (word_of_nat (length data)) t = (True, q1 + length data, t @ cs1)"
      "\<forall>q. written q cs1 = (if q = unpacked_path dir x then data else [])" using x by blast
  have next_file: "drop (q1 + length data) f = concat (map file_bytes files)" using drop_past[OF a(2)] .
  have step: "extract_loop G f dir (index + ?len) index pos t =
      extract_loop G f dir (index + ?len) (index + ?k) (q1 + length data) (t @ cs1)"
    using a(1) w(1) entry_length_file[OF ok(1)] x by (subst extract_loop.simps) simp
  have "index + ?len = (index + ?k) + length (concat (map file_bytes files))" by simp
  with Cons.IH[OF Cons.prems(1) next_file ok(3), of "index + ?k" "t @ cs1"] obtain cs2 where
    r: "extract_loop G f dir (index + ?len) (index + ?k) (q1 + length data) (t @ cs1) = (ERR_OK, (t @ cs1) @ cs2)"
      "\<forall>q. written q cs2 = concat (map (snd \<circ> snd) (filter (\<lambda>x. unpacked_path dir x = q) files))" by metis
  show ?case unfolding step r(1) using w(2) r(2) x by (intro exI[of _ "cs1 @ cs2"]) (auto simp: o_def)
qed

lemma package_header:
  assumes "gt_alloc G = plentiful" "packable_string n"
  shows "ExtractFileDataPos G (package_bytes n files) = (ERR_OK, 5 + length n, 5 + length n)"
    and "drop (5 + length n) (package_bytes n files) = concat (map file_bytes files)"
    and "ExtractFileHeaderInfo G (package_bytes n files) 0 = (ERR_OK, Some n, 5 + length n)"
proof -
  let ?f = "package_bytes n files"
  have l: "length n < 512" using assms(2) by (simp add: packable_string_def)
  have 1: "drop 1 ?f = number_bytes 4 (length n) @ gt_bytes n @ concat (map file_bytes files)"
    by (simp add: package_bytes_def)
  have 2: "drop 5 ?f = gt_bytes n @ concat (map file_bytes files)" using drop_past[OF 1] by simp
  have "CheckMagicNumber ?f 0 = (True, 1)"
    by (simp add: CheckMagicNumber_def read_bytes_def package_bytes_def)
  moreover have "ReadInt ?f 1 = (word_of_nat (length n), 5)" using ReadInt_bytes[OF 1 l] by simp
  moreover note GT_ReadString_bytes[OF assms(1) 2 assms(2)]
  moreover have "(word_of_nat (length n) :: u32) \<noteq> UINT_MAX" using l by (simp add: small_neq_max)
  ultimately show h: "ExtractFileHeaderInfo G ?f 0 = (ERR_OK, Some n, 5 + length n)"
    by (simp add: ExtractFileHeaderInfo_def)
  then show "ExtractFileDataPos G ?f = (ERR_OK, 5 + length n, 5 + length n)"
    by (simp add: ExtractFileDataPos_def)
  show "drop (5 + length n) ?f = concat (map file_bytes files)" using drop_past[OF 2] by simp
qed

lemma length_package: "length (package_bytes n files) = 5 + length n + length (concat (map file_bytes files))"
  by (simp add: package_bytes_def)

lemma unpack_package:
  assumes "obedient G" and "packable_string n" and "list_all (unpackable dir) files"
    and "length (package_bytes n files) < 2 ^ 32"
  shows "\<exists>cs. GT_ExtractHap G (Some dir) (Some n) (package_bytes n files) (word_of_nat (length (package_bytes n files))) t =
             (ERR_OK, t @ cs) \<and>
           (\<forall>p. written p cs = concat (map (snd \<circ> snd) (filter (\<lambda>x. unpacked_path dir x = p) files)))"
proof -
  have G: "gt_alloc G = plentiful" using assms(1) by (simp add: obedient_def)
  show ?thesis
    using extract_loop_obedient[OF assms(1) package_header(2)[OF G assms(2), of files] assms(3), of "5 + length n" t]
    by (simp add: GT_ExtractHap_def package_header(1)[OF G assms(2)] small_u32[OF assms(4)] length_package[symmetric])
qed



text \<open>A system for the examples: everything succeeds; the directories, the files and the names are given.\<close>

definition gt_sample ::
    "(gt_trace \<Rightarrow> string \<Rightarrow> (bool \<times> int) option) \<Rightarrow> (gt_trace \<Rightarrow> string \<Rightarrow> u8 list option) \<Rightarrow> bool \<Rightarrow> js gt_system" where
  "gt_sample stat content m =
     \<lparr>gt_alloc = plentiful, gt_done = (\<lambda>_ _. True), gt_stat = stat, gt_content = content, gt_readdir = (\<lambda>_ _. Some []),
      gt_json = js_api, gt_mk = js_mk (\<lambda>_. Some ''{}'') (\<lambda>_. None), gt_global = (\<lambda>_ _ _. None), gt_deviceType = Some ''watch'',
      gt_nameLen = 64, gt_descLen = 256, gt_verify = (\<lambda>_. (0, \<lparr>ve_appid = None, ve_bundleName = None, ve_restricPermission = []\<rparr>)),
      gt_codes = \<lparr>V_ERR = 100, V_ERR_GET_CERT_INFO = 101, V_ERR_GET_CERT_TYPE = 102, V_ERR_GET_PROFILE_DATA = 103,
                  V_ERR_INVALID_DEVID = 104, V_ERR_FILE_OPEN = 105, V_ERR_FILE_LENGTH = 106, V_ERR_MEMSET = 107, V_ERR_MALLOC = 108\<rparr>,
      gt_length = (\<lambda>_. 0), gt_rand = (\<lambda>_ _. 0), gt_replace = (\<lambda>_ _ _. None), gt_send = (\<lambda>_ _. True), gt_liteos_m = m,
      gt_bc = False, gt_jerry = None\<rparr>"

lemma gt_sample_obedient: "obedient (gt_sample stat content m)"
  by (simp add: obedient_def gt_sample_def)

definition sample_files :: "packed_file list" where
  "sample_files = [(''a'', ''/d'', [1, 2, 3]), (''config.json'', [], [7, 7])]"


section \<open>The profile is found\<close>

lemma profile_loop_bytes:
  assumes G: "gt_alloc G = plentiful" and l: "length f < 2 ^ 31"
    and "drop pos f = concat (map file_bytes files)" "list_all packable files"
  shows "profile_loop G f (index + length (concat (map file_bytes files))) index pos =
           map_option (snd \<circ> snd) (find (\<lambda>x. fst x = PROFILE_NAME \<and> fst (snd x) = []) files)"
  using assms(3,4)
proof (induction files arbitrary: index pos)
  case Nil
  then show ?case by (subst profile_loop.simps) simp
next
  case (Cons x files)
  obtain name rel data where x: "x = (name, rel, data)" by (cases x)
  let ?len = "length (concat (map file_bytes (x # files)))" and ?k = "length (file_bytes x)"
  have ok: "packable (name, rel, data)" "list_all packable files" using Cons.prems(2) x by simp_all
  have "drop pos f = file_bytes (name, rel, data) @ concat (map file_bytes files)"
    using Cons.prems(1) x by simp
  from ExtractFileAttr_bytes(2)[OF G this ok(1) l] obtain q where
    a: "ExtractFileAttr_len G f pos = Some (name, word_of_nat (length rel), word_of_nat (length data), q)"
      "drop q f = data @ concat (map file_bytes files)" by blast
  have n: "unat (word_of_nat (length data) :: u64) = length data" "unat (word_of_nat (length rel) :: u32) = length rel"
    using ok(1) by (auto simp: packable_string_def intro!: small_u64 small_u32)
  have rel: "(word_of_nat (length rel) :: u32) = 0 \<longleftrightarrow> rel = []" using n(2) by force
  have lt: "index < index + ?len" by (simp add: x)
  show ?case
  proof (cases "name = PROFILE_NAME \<and> rel = []")
    case True
    moreover have "read_bytes f q (length data) = (data, q + length data)" by (simp add: read_bytes_def a(2))
    ultimately have "profile_loop G f (index + ?len) index pos = Some data"
      using a(1) lt n rel by (subst profile_loop.simps) (simp add: G plentiful_grants)
    then show ?thesis using True x by simp
  next
    case False
    have "length (drop q f) \<noteq> 0" using a(2) ok(1) by simp
    moreover have "length (drop q f) \<ge> length data" using a(2) by simp
    ultimately have "q + length data < 2 ^ 31" using l by simp
    then have "profile_loop G f (index + ?len) index pos =
        profile_loop G f (index + ?len) (index + ?k) (q + length data)"
      using a(1) lt n rel False entry_length_file[OF ok(1)] x
      by (subst profile_loop.simps) (auto simp: lseek_cur_def)
    also have "index + ?len = (index + ?k) + length (concat (map file_bytes files))" by simp
    also have "profile_loop G f \<dots> (index + ?k) (q + length data) =
        map_option (snd \<circ> snd) (find (\<lambda>x. fst x = PROFILE_NAME \<and> fst (snd x) = []) files)"
      by (rule Cons.IH[OF drop_past[OF a(2)] ok(2)])
    finally show ?thesis using False x by (auto simp: add.assoc o_def)
  qed
qed

lemma profile_of_package:
  assumes "gt_alloc G = plentiful" and "packable_string n" and "list_all packable files"
    and "length (package_bytes n files) < 2 ^ 31"
  shows "GT_ExtractHapProfile G (package_bytes n files) (word_of_nat (length (package_bytes n files))) =
           map_option (snd \<circ> snd) (find (\<lambda>x. fst x = ''config.json'' \<and> fst (snd x) = []) files)"
proof -
  have "unat (word_of_nat (length (package_bytes n files)) :: u32) = length (package_bytes n files)"
    using assms(4) by (intro small_u32) simp
  then show ?thesis
    using profile_loop_bytes[OF assms(1,4) package_header(2)[OF assms(1,2)] assms(3), of "5 + length n"]
    by (simp add: GT_ExtractHapProfile_def package_header(1)[OF assms(1,2)] length_package[symmetric])
qed

text \<open>C36 The profile of a package is the first file \<open>config.json\<close> outside any directory, with all its bytes, and a package without
  one has none.\<close>

theorem package_profile:
  assumes "gt_alloc G = plentiful" and "packable_string n" and "list_all packable files"
    and "length (package_bytes n files) < 2 ^ 31"
  shows "GT_ExtractHapProfile G (package_bytes n files) (word_of_nat (length (package_bytes n files))) =
           map_option (snd \<circ> snd) (find (\<lambda>x. fst x = ''config.json'' \<and> fst (snd x) = []) files)"
  using assms by (rule profile_of_package)

lemma package_profile_witness:
  "GT_ExtractHapProfile (gt_sample (\<lambda>_ _. None) (\<lambda>_ _. None) True) (package_bytes ''com.a.b'' sample_files)
     (word_of_nat (length (package_bytes ''com.a.b'' sample_files))) = Some [7, 7]"
proof -
  have "GT_ExtractHapProfile (gt_sample (\<lambda>_ _. None) (\<lambda>_ _. None) True) (package_bytes ''com.a.b'' sample_files)
     (word_of_nat (length (package_bytes ''com.a.b'' sample_files))) =
     map_option (snd \<circ> snd) (find (\<lambda>x. fst x = ''config.json'' \<and> fst (snd x) = []) sample_files)"
    by (rule package_profile) (simp_all add: gt_sample_def packable_string_def sample_files_def package_bytes_def)
  then show ?thesis by (simp add: sample_files_def)
qed

end
