(* ===== verification/Gt_Registry.thy ===== *)
theory Gt_Registry
  imports Gt_Service
begin

text \<open>
  The registry of the mini system as a map from names to bundles, and the invariant its operations keep.
\<close>

section \<open>The invariant\<close>

text \<open>
  The addresses are those of live objects with different names; the objects live below \<open>gt_next\<close>. An entry of the list of
  resources belongs to a registered object, and no two to the same one.
\<close>

definition gt_name :: "gt_map \<Rightarrow> nat \<Rightarrow> cstr" where
  "gt_name g a = (case gt_heap g a of None \<Rightarrow> None | Some b \<Rightarrow> gb_bundleName b)"

definition gt_wf :: "gt_map \<Rightarrow> bool" where
  "gt_wf g \<longleftrightarrow> (\<forall>a \<in> set (gt_infos g). gt_name g a \<noteq> None) \<and> distinct (map (gt_name g) (gt_infos g)) \<and>
     (\<forall>a. gt_heap g a \<noteq> None \<longrightarrow> a < gt_next g)"

definition gt_abs :: "gt_map \<Rightarrow> string \<rightharpoonup> GtBundleInfo" where
  "gt_abs g n = (case find (\<lambda>a. gt_name g a = Some n) (gt_infos g) of None \<Rightarrow> None | Some a \<Rightarrow> gt_heap g a)"

definition gs_ok :: "gt_service \<Rightarrow> bool" where
  "gs_ok s \<longleftrightarrow> gt_wf (gs_map s) \<and> br_owner ` set (gs_res s) \<subseteq> set (gt_infos (gs_map s)) \<and>
     distinct (map br_owner (gs_res s))"

abbreviation gs_abs :: "gt_service \<Rightarrow> string \<rightharpoonup> GtBundleInfo" where
  "gs_abs s \<equiv> gt_abs (gs_map s)"

lemma gt_name_Some: "gt_name g a = Some n \<longleftrightarrow> (\<exists>b. gt_heap g a = Some b \<and> gb_bundleName b = Some n)"
  by (auto simp: gt_name_def split: option.splits)

lemma gt_name_live: "gt_name g a \<noteq> None \<Longrightarrow> gt_heap g a \<noteq> None"
  by (cases "gt_heap g a") (auto simp: gt_name_def)

lemma find_info_find:
  "\<forall>a \<in> set as. gt_name g a \<noteq> None \<Longrightarrow> find_info (gt_heap g) n as = Some (find (\<lambda>a. gt_name g a = Some n) as)"
  by (induction as) (auto simp: gt_name_def split: option.splits)

lemma find_Some_iff_distinct:
  assumes "distinct (map f xs)" "\<And>x. P x \<longleftrightarrow> f x = k"
  shows "find P xs = Some x \<longleftrightarrow> x \<in> set xs \<and> f x = k"
  using assms by (induction xs) (auto simp: rev_image_eqI)

lemma find_name:
  "gt_wf g \<Longrightarrow> find (\<lambda>a. gt_name g a = Some n) (gt_infos g) = Some a \<longleftrightarrow> a \<in> set (gt_infos g) \<and> gt_name g a = Some n"
  by (rule find_Some_iff_distinct) (auto simp: gt_wf_def)

lemma GT_Get_wf: "gt_wf g \<Longrightarrow> GT_Get (Some n) g = Some (find (\<lambda>a. gt_name g a = Some n) (gt_infos g))"
  by (simp add: GT_Get_def find_info_find gt_wf_def)

lemma GT_Get_Some:
  assumes "gt_wf g" "GT_Get name g = Some (Some a)"
  shows "\<exists>n b. name = Some n \<and> a \<in> set (gt_infos g) \<and> gt_heap g a = Some b \<and> gb_bundleName b = Some n \<and> gt_abs g n = Some b"
proof -
  obtain n where n: "name = Some n" using assms(2) by (cases name) (auto simp: GT_Get_def)
  with assms have f: "find (\<lambda>a. gt_name g a = Some n) (gt_infos g) = Some a" by (simp add: GT_Get_wf)
  with assms(1) have "a \<in> set (gt_infos g)" "gt_name g a = Some n" by (simp_all add: find_name)
  then show ?thesis using n f by (auto simp: gt_name_Some gt_abs_def)
qed

lemma GT_Get_None:
  assumes "gt_wf g" "GT_Get name g = Some None"
  shows "name = None \<or> (\<exists>n. name = Some n \<and> gt_abs g n = None \<and> (\<forall>a \<in> set (gt_infos g). gt_name g a \<noteq> Some n))"
proof (cases name)
  case (Some n)
  with assms have f: "find (\<lambda>a. gt_name g a = Some n) (gt_infos g) = None" by (simp add: GT_Get_wf)
  then show ?thesis using Some by (simp add: gt_abs_def) (simp add: find_None_iff)
qed simp

lemma GT_Get_defined: "gt_wf g \<Longrightarrow> GT_Get name g \<noteq> None"
  by (cases name) (auto simp: GT_Get_wf, simp add: GT_Get_def)

section \<open>Operations on objects\<close>

text \<open>A change of the heap that spares the registered objects.\<close>

lemma gt_abs_cong:
  "gt_infos g' = gt_infos g \<Longrightarrow> \<forall>a \<in> set (gt_infos g). gt_heap g' a = gt_heap g a \<Longrightarrow> gt_abs g' = gt_abs g"
proof
  fix n
  assume i: "gt_infos g' = gt_infos g" and h: "\<forall>a \<in> set (gt_infos g). gt_heap g' a = gt_heap g a"
  then have "find (\<lambda>a. gt_name g' a = Some n) (gt_infos g) = find (\<lambda>a. gt_name g a = Some n) (gt_infos g)"
    by (intro find_cong) (auto simp: gt_name_def)
  moreover have "find P xs = Some a \<Longrightarrow> a \<in> set xs" for P a and xs :: "nat list"
    by (induction xs) (auto split: if_splits)
  ultimately show "gt_abs g' n = gt_abs g n"
    using i h by (auto simp: gt_abs_def split: option.splits)
qed

lemma gt_wf_cong:
  assumes "gt_wf g" "gt_infos g' = gt_infos g" "\<forall>a \<in> set (gt_infos g). gt_name g' a = gt_name g a"
    "\<forall>a. gt_heap g' a \<noteq> None \<longrightarrow> a < gt_next g'"
  shows "gt_wf g'"
  using assms by (auto simp: gt_wf_def cong: map_cong)

lemma gt_fresh: "gt_wf g \<Longrightarrow> gt_heap g (gt_next g) = None \<and> gt_next g \<notin> set (gt_infos g)"
  using gt_name_live by (force simp: gt_wf_def)

lemma gt_alloc_info:
  assumes "gt_wf g" "gt_alloc_info b g = (a, g')"
  shows "gt_wf g'" "gt_abs g' = gt_abs g" "gt_heap g' a = Some b" "a \<notin> set (gt_infos g')" "gt_infos g' = gt_infos g"
    "\<forall>x. x \<noteq> a \<longrightarrow> gt_heap g' x = gt_heap g x" "gt_heap g a = None"
proof -
  have g': "g' = g\<lparr>gt_heap := (gt_heap g)(gt_next g := Some b), gt_next := gt_next g + 1\<rparr>" "a = gt_next g"
    using assms(2) by (auto simp: gt_alloc_info_def)
  show "gt_heap g' a = Some b" "a \<notin> set (gt_infos g')" "gt_infos g' = gt_infos g"
    "\<forall>x. x \<noteq> a \<longrightarrow> gt_heap g' x = gt_heap g x" "gt_heap g a = None"
    using g' gt_fresh[OF assms(1)] by auto
  then show "gt_abs g' = gt_abs g" by (intro gt_abs_cong) auto
  show "gt_wf g'"
    by (rule gt_wf_cong[OF assms(1)]) (use g' gt_fresh[OF assms(1)] assms(1) in \<open>auto simp: gt_name_def gt_wf_def less_Suc_eq\<close>)
qed

lemma gt_put:
  assumes "gt_wf g" "gt_put a b g = Some g'" "a \<notin> set (gt_infos g)"
  shows "gt_wf g'" "gt_abs g' = gt_abs g" "gt_heap g' a = Some b" "gt_infos g' = gt_infos g"
    "\<forall>x. x \<noteq> a \<longrightarrow> gt_heap g' x = gt_heap g x"
proof -
  have g': "g' = g\<lparr>gt_heap := (gt_heap g)(a := Some b)\<rparr>" "gt_heap g a \<noteq> None"
    using assms(2) by (auto simp: gt_put_def split: option.splits)
  show "gt_heap g' a = Some b" "gt_infos g' = gt_infos g" "\<forall>x. x \<noteq> a \<longrightarrow> gt_heap g' x = gt_heap g x"
    using g' by auto
  then show "gt_abs g' = gt_abs g" using assms(3) by (intro gt_abs_cong) auto
  show "gt_wf g'"
    by (rule gt_wf_cong[OF assms(1)]) (use g' assms(1,3) in \<open>auto simp: gt_name_def gt_wf_def\<close>)
qed

lemma gt_free:
  assumes "gt_wf g" "gt_free a g = Some g'" "a \<notin> set (gt_infos g)"
  shows "gt_wf g'" "gt_abs g' = gt_abs g" "gt_infos g' = gt_infos g" "\<forall>x. x \<noteq> a \<longrightarrow> gt_heap g' x = gt_heap g x"
proof -
  have g': "g' = g\<lparr>gt_heap := (gt_heap g)(a := None)\<rparr>"
    using assms(2) by (auto simp: gt_free_def split: option.splits)
  show "gt_infos g' = gt_infos g" "\<forall>x. x \<noteq> a \<longrightarrow> gt_heap g' x = gt_heap g x" using g' by auto
  then show "gt_abs g' = gt_abs g" using assms(3) by (intro gt_abs_cong) auto
  show "gt_wf g'"
    by (rule gt_wf_cong[OF assms(1)]) (use g' assms(1,3) in \<open>auto simp: gt_name_def gt_wf_def\<close>)
qed


section \<open>The registry's own operations\<close>

lemma gt_abs_Some: "gt_wf g \<Longrightarrow> gt_abs g n = Some b \<longleftrightarrow> (\<exists>a \<in> set (gt_infos g). gt_heap g a = Some b \<and> gb_bundleName b = Some n)"
proof -
  assume wf: "gt_wf g"
  have "gt_abs g n = Some b \<longleftrightarrow> (\<exists>a. find (\<lambda>a. gt_name g a = Some n) (gt_infos g) = Some a \<and> gt_heap g a = Some b)"
    by (auto simp: gt_abs_def split: option.splits)
  also have "\<dots> \<longleftrightarrow> (\<exists>a \<in> set (gt_infos g). gt_heap g a = Some b \<and> gb_bundleName b = Some n)"
    unfolding find_name[OF wf] by (auto simp: gt_name_Some)
  finally show ?thesis .
qed

lemma gt_abs_eqI:
  assumes "gt_wf g" "gt_wf g'"
    and "\<And>n b. (\<exists>a \<in> set (gt_infos g'). gt_heap g' a = Some b \<and> gb_bundleName b = Some n) \<longleftrightarrow> F n = Some b"
  shows "gt_abs g' = F"
proof
  fix n
  show "gt_abs g' n = F n"
    using gt_abs_Some[OF assms(2), of n] assms(3)[of _ n] by (metis not_None_eq)
qed

text \<open>A live object with a name that none of the registered has, put in front.\<close>

lemma gt_cons:
  assumes wf: "gt_wf g" and b: "gt_heap g a = Some b" "gb_bundleName b = Some n" and new: "gt_abs g n = None"
  shows "gt_wf (g\<lparr>gt_infos := a # gt_infos g\<rparr>)" "gt_abs (g\<lparr>gt_infos := a # gt_infos g\<rparr>) = (gt_abs g)(n \<mapsto> b)"
proof -
  let ?g = "g\<lparr>gt_infos := a # gt_infos g\<rparr>"
  have name: "gt_name ?g = gt_name g" by (auto simp: gt_name_def)
  have na: "gt_name g a = Some n" using b by (simp add: gt_name_def)
  have fresh: "gt_name g x \<noteq> Some n" if "x \<in> set (gt_infos g)" for x
    using new gt_abs_Some[OF wf, of n] that by (force simp: gt_name_Some)
  show w: "gt_wf ?g" using wf na fresh unfolding gt_wf_def name by (auto simp: image_iff)
  show "gt_abs ?g = (gt_abs g)(n \<mapsto> b)"
    by (rule gt_abs_eqI[OF wf w]) (use b fresh in \<open>auto simp: gt_abs_Some[OF wf] gt_name_Some\<close>)
qed

lemma GT_Add_new:
  assumes "gt_wf g" "GT_Add a g = Some g'" "gt_heap g a = Some b" "gb_bundleName b = Some n" "gt_abs g n = None"
  shows "gt_wf g'" "gt_abs g' = (gt_abs g)(n \<mapsto> b)" "gt_heap g' = gt_heap g"
proof -
  have "find (\<lambda>a. gt_name g a = Some n) (gt_infos g) = None"
  proof (rule ccontr)
    assume "find (\<lambda>a. gt_name g a = Some n) (gt_infos g) \<noteq> None"
    then obtain x where x: "find (\<lambda>a. gt_name g a = Some n) (gt_infos g) = Some x" by blast
    then have "gt_name g x = Some n" using find_name[OF assms(1)] by simp
    then show False using x assms(5) by (auto simp: gt_abs_def gt_name_def split: option.splits)
  qed
  then have g': "g' = g\<lparr>gt_infos := a # gt_infos g\<rparr>"
    using assms by (simp add: GT_Add_def find_info_find gt_wf_def)
  show "gt_wf g'" "gt_abs g' = (gt_abs g)(n \<mapsto> b)" "gt_heap g' = gt_heap g"
    using gt_cons[OF assms(1,3-5)] by (simp_all add: g')
qed

lemma GT_Add_old:
  assumes "gt_wf g" "GT_Add a g = Some g'" "gt_heap g a = Some b" "gb_bundleName b = Some n" "gt_abs g n \<noteq> None"
  shows "g' = g"
proof -
  have "find (\<lambda>a. gt_name g a = Some n) (gt_infos g) \<noteq> None"
    using assms(5) by (auto simp: gt_abs_def split: option.splits)
  then show ?thesis using assms by (auto simp: GT_Add_def find_info_find gt_wf_def)
qed

lemma GT_Erase_wf:
  assumes wf: "gt_wf g" and e: "GT_Erase (Some n) g = Some g'"
  shows "gt_wf g'" "gt_abs g' = (gt_abs g)(n := None)"
    and "\<forall>x. gt_name g x \<noteq> Some n \<or> x \<notin> set (gt_infos g) \<longrightarrow> gt_heap g' x = gt_heap g x"
proof -
  have all: "\<forall>a \<in> set (gt_infos g). gt_name g a \<noteq> None" using wf by (simp add: gt_wf_def)
  have *: "gt_wf g' \<and> gt_abs g' = (gt_abs g)(n := None) \<and>
    (\<forall>x. gt_name g x \<noteq> Some n \<or> x \<notin> set (gt_infos g) \<longrightarrow> gt_heap g' x = gt_heap g x)"
  proof (cases "find (\<lambda>a. gt_name g a = Some n) (gt_infos g)")
    case None
    then have "g' = g" using e all by (simp add: GT_Erase_def find_info_find)
    moreover have "gt_abs g n = None" using None by (simp add: gt_abs_def)
    ultimately show ?thesis using wf by auto
  next
    case (Some a)
    then have a: "a \<in> set (gt_infos g)" "gt_name g a = Some n" by (simp_all add: find_name[OF wf])
    let ?g = "g\<lparr>gt_infos := remove1 a (gt_infos g)\<rparr>"
    have name: "gt_name ?g = gt_name g" by (auto simp: gt_name_def)
    have dist: "distinct (gt_infos g)" using wf by (auto simp: gt_wf_def distinct_map)
    have others: "gt_name g x \<noteq> Some n" if "x \<in> set (gt_infos g)" "x \<noteq> a" for x
      using distinct_map_eq[of "gt_name g" "gt_infos g" x a] wf a that by (auto simp: gt_wf_def)
    have "distinct (map (gt_name g) (remove1 a (gt_infos g)))"
      using wf by (auto simp: gt_wf_def distinct_map intro: inj_on_subset set_remove1_subset)
    then have w: "gt_wf ?g" using wf unfolding gt_wf_def name by (auto dest: set_remove1_subset[THEN subsetD])
    have f: "gt_free a ?g = Some g'" using e all Some by (simp add: GT_Erase_def find_info_find)
    note fr = gt_free[OF w f]
    have a': "a \<notin> set (gt_infos ?g)" using dist by simp
    have "gt_abs g' = (gt_abs g)(n := None)"
    proof (rule gt_abs_eqI[OF wf fr(1)[OF a']])
      fix m b
      show "(\<exists>x \<in> set (gt_infos g'). gt_heap g' x = Some b \<and> gb_bundleName b = Some m) \<longleftrightarrow> ((gt_abs g)(n := None)) m = Some b"
        using fr(3,4)[OF a'] a others dist by (auto simp: gt_abs_Some[OF wf] gt_name_Some)
    qed
    then show ?thesis using fr(1,4)[OF a'] a by auto
  qed
  then show "gt_wf g'" "gt_abs g' = (gt_abs g)(n := None)"
    "\<forall>x. gt_name g x \<noteq> Some n \<or> x \<notin> set (gt_infos g) \<longrightarrow> gt_heap g' x = gt_heap g x" by auto
qed


lemma GT_Update_wf:
  assumes wf: "gt_wf g" and u: "GT_Update a g = Some (ok, g')" and a: "a \<notin> set (gt_infos g)"
    and b: "gt_heap g a = Some b" "gb_bundleName b = Some n"
  shows "ok" "gt_wf g'" "gt_abs g' = (gt_abs g)(n \<mapsto> b)"
    and "\<forall>x. gt_name g x \<noteq> Some n \<or> x \<notin> set (gt_infos g) \<longrightarrow> gt_heap g' x = gt_heap g x"
proof -
  have all: "\<forall>x \<in> set (gt_infos g). gt_name g x \<noteq> None" using wf by (simp add: gt_wf_def)
  have na: "gt_name g a = Some n" using b by (simp add: gt_name_def)
  have *: "ok \<and> gt_wf g' \<and> gt_abs g' = (gt_abs g)(n \<mapsto> b) \<and>
    (\<forall>x. gt_name g x \<noteq> Some n \<or> x \<notin> set (gt_infos g) \<longrightarrow> gt_heap g' x = gt_heap g x)"
  proof (cases "find (\<lambda>a. gt_name g a = Some n) (gt_infos g)")
    case None
    then have "ok" "g' = g\<lparr>gt_infos := a # gt_infos g\<rparr>" using u all b by (auto simp: GT_Update_def find_info_find)
    moreover have "gt_abs g n = None" using None by (simp add: gt_abs_def)
    ultimately show ?thesis using gt_cons[OF wf b] by simp
  next
    case (Some old)
    then have old: "old \<in> set (gt_infos g)" "gt_name g old = Some n" by (simp_all add: find_name[OF wf])
    let ?f = "\<lambda>x. if x = old then a else x"
    let ?g = "g\<lparr>gt_infos := map ?f (gt_infos g)\<rparr>"
    have name: "gt_name ?g = gt_name g" by (auto simp: gt_name_def)
    have others: "gt_name g x \<noteq> Some n" if "x \<in> set (gt_infos g)" "x \<noteq> old" for x
      using distinct_map_eq[of "gt_name g" "gt_infos g" x old] wf old that by (auto simp: gt_wf_def)
    have same: "map (gt_name g) (gt_infos ?g) = map (gt_name g) (gt_infos g)"
      using na old(2) by auto
    have "\<forall>x \<in> set (gt_infos ?g). gt_name g x \<noteq> None" using all na by auto
    then have w: "gt_wf ?g"
      using wf unfolding gt_wf_def name same by simp
    have f: "gt_free old ?g = Some g'" "ok"
      using u all b Some by (auto simp: GT_Update_def find_info_find bind_eq_Some_conv)
    have ne: "a \<noteq> old" using a old(1) by auto
    then have old': "old \<notin> set (gt_infos ?g)" by auto
    note fr = gt_free[OF w f(1) old']
    have "gt_abs g' = (gt_abs g)(n \<mapsto> b)"
    proof (rule gt_abs_eqI[OF wf fr(1)])
      fix m c
      show "(\<exists>x \<in> set (gt_infos g'). gt_heap g' x = Some c \<and> gb_bundleName c = Some m) \<longleftrightarrow> ((gt_abs g)(n \<mapsto> b)) m = Some c"
        using fr(3,4) old others ne a b by (auto simp: gt_abs_Some[OF wf] gt_name_Some)
    qed
    then show ?thesis using fr(1,4) f(2) old by auto
  qed
  then show "ok" "gt_wf g'" "gt_abs g' = (gt_abs g)(n \<mapsto> b)"
    "\<forall>x. gt_name g x \<noteq> Some n \<or> x \<notin> set (gt_infos g) \<longrightarrow> gt_heap g' x = gt_heap g x" by auto
qed

section \<open>Who is registered afterwards\<close>

lemma gt_only:
  assumes "gt_wf g" "a \<in> set (gt_infos g)" "gt_name g a = Some n" "x \<in> set (gt_infos g)" "gt_name g x = Some n"
  shows "x = a"
  using distinct_map_eq[of "gt_name g" "gt_infos g" x a] assms by (simp add: gt_wf_def)

lemma GT_Erase_set:
  assumes wf: "gt_wf g" and e: "GT_Erase (Some n) g = Some g'"
  shows "set (gt_infos g') = {x \<in> set (gt_infos g). gt_name g x \<noteq> Some n}"
proof (cases "find (\<lambda>a. gt_name g a = Some n) (gt_infos g)")
  case None
  have "g' = g" using e None wf by (simp add: GT_Erase_def find_info_find gt_wf_def)
  then show ?thesis using None by (auto simp: find_None_iff)
next
  case (Some a)
  then have a: "a \<in> set (gt_infos g)" "gt_name g a = Some n" by (simp_all add: find_name[OF wf])
  have "gt_free a (g\<lparr>gt_infos := remove1 a (gt_infos g)\<rparr>) = Some g'"
    using e Some wf by (simp add: GT_Erase_def find_info_find gt_wf_def)
  then have "gt_infos g' = remove1 a (gt_infos g)" by (auto simp: gt_free_def split: option.splits)
  moreover have "distinct (gt_infos g)" using wf by (auto simp: gt_wf_def distinct_map)
  moreover have "{x \<in> set (gt_infos g). gt_name g x \<noteq> Some n} = set (gt_infos g) - {a}"
    using gt_only[OF wf a] a by blast
  ultimately show ?thesis by simp
qed

lemma GT_Update_set:
  assumes wf: "gt_wf g" and u: "GT_Update a g = Some (ok, g')" and b: "gt_heap g a = Some b" "gb_bundleName b = Some n"
  shows "set (gt_infos g') = insert a {x \<in> set (gt_infos g). gt_name g x \<noteq> Some n}"
proof (cases "find (\<lambda>a. gt_name g a = Some n) (gt_infos g)")
  case None
  have "gt_infos g' = a # gt_infos g" using u b None wf by (auto simp: GT_Update_def find_info_find gt_wf_def)
  then show ?thesis using None by (auto simp: find_None_iff)
next
  case (Some old)
  then have old: "old \<in> set (gt_infos g)" "gt_name g old = Some n" by (simp_all add: find_name[OF wf])
  have "gt_free old (g\<lparr>gt_infos := map (\<lambda>x. if x = old then a else x) (gt_infos g)\<rparr>) = Some g'"
    using u b Some wf by (auto simp: GT_Update_def find_info_find gt_wf_def bind_eq_Some_conv)
  then have "gt_infos g' = map (\<lambda>x. if x = old then a else x) (gt_infos g)" by (auto simp: gt_free_def split: option.splits)
  moreover have "{x \<in> set (gt_infos g). gt_name g x \<noteq> Some n} = set (gt_infos g) - {old}"
    using gt_only[OF wf old] old by blast
  ultimately show ?thesis using old(1) by auto
qed

lemma GT_Add_set:
  assumes "gt_wf g" "GT_Add a g = Some g'" "gt_heap g a = Some b" "gb_bundleName b = Some n" "gt_abs g n = None"
  shows "set (gt_infos g') = insert a (set (gt_infos g))"
proof -
  have "find (\<lambda>a. gt_name g a = Some n) (gt_infos g) = None"
  proof (rule ccontr)
    assume "find (\<lambda>a. gt_name g a = Some n) (gt_infos g) \<noteq> None"
    then obtain x where x: "find (\<lambda>a. gt_name g a = Some n) (gt_infos g) = Some x" by blast
    then have "gt_name g x = Some n" using find_name[OF assms(1)] by simp
    then show False using x assms(5) by (auto simp: gt_abs_def gt_name_def split: option.splits)
  qed
  then show ?thesis using assms by (auto simp: GT_Add_def find_info_find gt_wf_def)
qed

end
