(* ===== verification/Gt_Correct.thy ===== *)
theory Gt_Correct
  imports Gt_Registry Gt_Host Gt_Unpacked
begin

text \<open>
  What an installation of the mini system comes to, for the registry of bundles and the list of those with resources.
\<close>

section \<open>What the calls leave alone\<close>

definition gs_store :: "gt_service \<Rightarrow> gt_map \<times> gt_res list \<times> u32" where
  "gs_store s = (gs_map s, gs_res s, gs_third s)"

lemma gs_store_eq: "gs_store s' = gs_store s \<longleftrightarrow> gs_map s' = gs_map s \<and> gs_res s' = gs_res s \<and> gs_third s' = gs_third s"
  by (simp add: gs_store_def)

lemma store_updates [simp]:
  "gs_store (s\<lparr>gs_trace := t\<rparr>) = gs_store s" "gs_store (s\<lparr>gs_msg := m\<rparr>) = gs_store s"
  "gs_store (s\<lparr>gs_current := c\<rparr>) = gs_store s" "gs_store (s\<lparr>gs_paths := p\<rparr>) = gs_store s"
  by (simp_all add: gs_store_def)

lemma store_on_trace [simp]: "gs_store (snd (on_trace f s)) = gs_store s"
  by (simp add: on_trace_def split: prod.split)

lemma store_on_traceD: "on_trace f s = (x, s') \<Longrightarrow> gs_store s' = gs_store s"
  by (metis store_on_trace snd_conv)

lemma store_on_trace_optD: "on_trace_opt f s = Some (x, s') \<Longrightarrow> gs_store s' = gs_store s"
  by (auto simp: on_trace_opt_def bind_Some_iff)

lemma store_gs_do [simp]: "gs_store (snd (gs_do G c s)) = gs_store s"
  by (simp add: gs_do_def)

lemma store_gs_doD: "gs_do G c s = (x, s') \<Longrightarrow> gs_store s' = gs_store s"
  by (metis store_gs_do snd_conv)

lemma store_SetCurrentBundle [simp]: "gs_store (SetCurrentBundle G name s) = gs_store s"
  by (simp add: SetCurrentBundle_def)

lemma store_progress [simp]: "gs_store (gt_progress G process cb s) = gs_store s"
  by (simp add: gt_progress_def ReportInstallCallback_def Let_def split: option.split)

section \<open>A bundle that is not yet registered\<close>

text \<open>\<open>a\<close> is the address of the one that is being installed; \<open>n\<close> has no entry in the list of resources.\<close>

definition loose :: "nat \<Rightarrow> GtBundleInfo \<Rightarrow> gt_service \<Rightarrow> bool" where
  "loose a b s \<longleftrightarrow> gs_ok s \<and> a \<notin> set (gt_infos (gs_map s)) \<and> gs_info a s = Some b"

definition no_res :: "string \<Rightarrow> gt_service \<Rightarrow> bool" where
  "no_res n s \<longleftrightarrow> (\<forall>r \<in> set (gs_res s). gt_name (gs_map s) (br_owner r) \<noteq> Some n)"

lemma loose_cong: "gs_store s' = gs_store s \<Longrightarrow> loose a b s' = loose a b s"
  by (simp add: loose_def gs_ok_def gs_info_def gs_store_eq)

lemma no_res_cong: "gs_store s' = gs_store s \<Longrightarrow> no_res n s' = no_res n s"
  by (simp add: no_res_def gs_store_eq)

lemma gs_ok_cong: "gs_store s' = gs_store s \<Longrightarrow> gs_ok s' = gs_ok s"
  by (simp add: gs_ok_def gs_store_eq)

lemma on_map_SomeD:
  "on_map f s = Some s' \<Longrightarrow> f (gs_map s) = Some (gs_map s') \<and> gs_res s' = gs_res s \<and> gs_third s' = gs_third s"
  by (auto simp: on_map_def bind_Some_iff)

lemma loose_alloc:
  assumes "gs_ok s" "gt_alloc_info b (gs_map s) = (a, g)"
  shows "loose a b (s\<lparr>gs_map := g\<rparr>)" "gt_abs g = gs_abs s"
  using gt_alloc_info[OF _ assms(2)] assms(1) by (simp_all add: loose_def gs_ok_def gs_info_def)

lemma loose_put:
  assumes "loose a b s" "on_map (gt_put a b') s = Some s'"
  shows "loose a b' s'" "gs_abs s' = gs_abs s" "gs_res s' = gs_res s" "gs_third s' = gs_third s" "no_res n s' = no_res n s"
proof -
  note m = on_map_SomeD[OF assms(2)]
  have a: "gt_wf (gs_map s)" "a \<notin> set (gt_infos (gs_map s))" using assms(1) by (simp_all add: loose_def gs_ok_def)
  note p = gt_put[OF a(1) m[THEN conjunct1] a(2)]
  show "loose a b' s'" using p m assms(1) by (simp add: loose_def gs_ok_def gs_info_def)
  show "gs_abs s' = gs_abs s" "gs_res s' = gs_res s" "gs_third s' = gs_third s" using p m by simp_all
  have "gt_name (gs_map s') (br_owner r) = gt_name (gs_map s) (br_owner r)" if "r \<in> set (gs_res s)" for r
  proof -
    have "br_owner r \<noteq> a" using that assms(1) by (auto simp: loose_def gs_ok_def)
    then show ?thesis using p(5) by (simp add: gt_name_def)
  qed
  then show "no_res n s' = no_res n s" using m by (auto simp: no_res_def)
qed

lemma loose_free:
  assumes "loose a b s" "FREE_PRO a s = Some s'"
  shows "gs_ok s'" "gs_abs s' = gs_abs s" "gs_third s' = gs_third s"
proof -
  note m = on_map_SomeD[OF assms(2)[unfolded FREE_PRO_def]]
  have a: "gt_wf (gs_map s)" "a \<notin> set (gt_infos (gs_map s))" using assms(1) by (simp_all add: loose_def gs_ok_def)
  note p = gt_free[OF a(1) m[THEN conjunct1] a(2)]
  show "gs_ok s'" using p m assms(1) by (simp add: loose_def gs_ok_def)
  show "gs_abs s' = gs_abs s" "gs_third s' = gs_third s" using p m by simp_all
qed

lemma loose_erase:
  assumes "loose a b s" "no_res n s" "on_map (GT_Erase (Some n)) s = Some s'"
  shows "loose a b s'" "gs_abs s' = (gs_abs s)(n := None)" "gs_third s' = gs_third s"
proof -
  note m = on_map_SomeD[OF assms(3)]
  have a: "gt_wf (gs_map s)" "a \<notin> set (gt_infos (gs_map s))" using assms(1) by (simp_all add: loose_def gs_ok_def)
  note p = GT_Erase_wf[OF a(1) m[THEN conjunct1]] and i = GT_Erase_set[OF a(1) m[THEN conjunct1]]
  show "loose a b s'" using p i m assms(1,2) a(2) by (auto simp: loose_def gs_ok_def gs_info_def no_res_def)
  show "gs_abs s' = (gs_abs s)(n := None)" "gs_third s' = gs_third s" using p m by simp_all
qed

section \<open>What is undone\<close>

lemma loose_CLEAR:
  assumes "loose a b s" "GT_CLEAR_INSTALL_ENV G a s = Some s'"
  shows "gs_ok s'" "gs_abs s' = gs_abs s" "gs_third s' = gs_third s"
proof -
  from assms(2) obtain s1 where s1: "gs_store s1 = gs_store s" "FREE_PRO a s1 = Some s'"
    by (auto simp: GT_CLEAR_INSTALL_ENV_def bind_Some_iff dest!: store_on_trace_optD)
  have "loose a b s1" using assms(1) loose_cong[OF s1(1)] by simp
  from loose_free[OF this s1(2)] s1(1) show "gs_ok s'" "gs_abs s' = gs_abs s" "gs_third s' = gs_third s"
    by (simp_all add: gs_store_eq)
qed

lemma loose_PART_ROLLBACK:
  assumes "loose a b s" "PART_ROLLBACK G path a s = Some s'"
  shows "gs_ok s'" "gs_abs s' = gs_abs s" "gs_third s' = gs_third s"
proof -
  from assms(2) obtain s1 where s1: "gs_store s1 = gs_store s" "FREE_PRO a s1 = Some s'"
    by (auto simp: PART_ROLLBACK_def bind_Some_iff dest!: store_on_trace_optD)
  have "loose a b s1" using assms(1) loose_cong[OF s1(1)] by simp
  from loose_free[OF this s1(2)] s1(1) show "gs_ok s'" "gs_abs s' = gs_abs s" "gs_third s' = gs_third s"
    by (simp_all add: gs_store_eq)
qed

lemma loose_ROLLBACK:
  assumes "loose a b s" "gb_bundleName b = Some n" "no_res n s" "ROLLBACK G a randStr s = Some s'"
  shows "gs_ok s'" "gs_abs s' = (gs_abs s)(n := None)" "gs_third s' = gs_third s"
proof -
  have "gs_info a s = Some b" using assms(1) by (simp add: loose_def)
  with assms(2,4) obtain s1 t where s1: "on_map (GT_Erase (Some n)) s = Some s1"
      "GT_CLEAR_INSTALL_ENV G a (s1\<lparr>gs_trace := t\<rparr>) = Some s'"
    by (auto simp: ROLLBACK_def bind_Some_iff)
  note e = loose_erase[OF assms(1,3) s1(1)]
  have "loose a b (s1\<lparr>gs_trace := t\<rparr>)" using e(1) loose_cong[of "s1\<lparr>gs_trace := t\<rparr>" s1] by simp
  from loose_CLEAR[OF this s1(2)] e
  show "gs_ok s'" "gs_abs s' = (gs_abs s)(n := None)" "gs_third s' = gs_third s" by simp_all
qed

lemma gt_free_heap: "gt_free a g = Some g' \<Longrightarrow> gt_heap g' = (gt_heap g)(a := None)"
  by (auto simp: gt_free_def split: option.splits)

text \<open>Once the bundle is registered, it is freed before its name is read.\<close>

lemma registered_ROLLBACK:
  assumes "gt_wf (gs_map s)" "a \<in> set (gt_infos (gs_map s))" "gs_info a s = Some b" "gb_bundleName b = Some n"
  shows "ROLLBACK G a randStr s = None"
proof (cases "on_map (GT_Erase (Some n)) s")
  case (Some s1)
  have n: "gt_name (gs_map s) a = Some n" using assms(3,4) by (simp add: gt_name_def gs_info_def)
  then have f: "find (\<lambda>a. gt_name (gs_map s) a = Some n) (gt_infos (gs_map s)) = Some a"
    using assms(1,2) by (simp add: find_name)
  have "gt_free a (gs_map s\<lparr>gt_infos := remove1 a (gt_infos (gs_map s))\<rparr>) = Some (gs_map s1)"
    using on_map_SomeD[OF Some] f assms(1) by (simp add: GT_Erase_def find_info_find gt_wf_def)
  from gt_free_heap[OF this] have "gs_info a s1 = None" by (simp add: gs_info_def)
  then show ?thesis using Some assms(3,4) by (simp add: ROLLBACK_def)
qed (use assms(3,4) in \<open>simp add: ROLLBACK_def\<close>)
section \<open>The steps of an installation\<close>

lemma find_res_find:
  "\<forall>r \<in> set rs. gt_name g (br_owner r) \<noteq> None \<Longrightarrow>
   find_res (gt_heap g) n rs = Some (find (\<lambda>r. gt_name g (br_owner r) = Some n) rs)"
  by (induction rs) (auto simp: gt_name_def split: option.splits)

lemma gs_ok_named: "gs_ok s \<Longrightarrow> r \<in> set (gs_res s) \<Longrightarrow> gt_name (gs_map s) (br_owner r) \<noteq> None"
  by (auto simp: gs_ok_def gt_wf_def)

lemma gs_ok_one_res:
  assumes "gs_ok s" "r \<in> set (gs_res s)" "q \<in> set (gs_res s)" "gt_name (gs_map s) (br_owner r) = Some n"
    "gt_name (gs_map s) (br_owner q) = Some n"
  shows "q = r"
proof -
  have "br_owner q = br_owner r"
    by (rule gt_only[where g = "gs_map s" and n = n]) (use assms in \<open>auto simp: gs_ok_def\<close>)
  then show ?thesis using assms(1-3) distinct_map_eq[of br_owner "gs_res s" q r] by (simp add: gs_ok_def)
qed

lemma find_res_ok:
  "gs_ok s \<Longrightarrow> find_res (gt_heap (gs_map s)) n (gs_res s) = Some (find (\<lambda>r. gt_name (gs_map s) (br_owner r) = Some n) (gs_res s))"
  by (rule find_res_find) (simp add: gs_ok_named)

lemma RemoveBundleResList_ok:
  assumes ok: "gs_ok s" and r: "RemoveBundleResList (Some n) s = Some s'"
  shows "gs_ok s'" "gs_map s' = gs_map s" "gs_third s' = gs_third s" "no_res n s'"
proof -
  let ?P = "\<lambda>r. gt_name (gs_map s) (br_owner r) = Some n"
  have *: "gs_ok s' \<and> gs_map s' = gs_map s \<and> gs_third s' = gs_third s \<and> no_res n s'"
  proof (cases "find ?P (gs_res s)")
    case None
    then have "s' = s" using r by (simp add: RemoveBundleResList_def find_res_ok[OF ok])
    then show ?thesis using ok None by (auto simp: no_res_def find_None_iff)
  next
    case (Some e)
    then have s': "s' = s\<lparr>gs_res := remove1 e (gs_res s)\<rparr>" using r by (simp add: RemoveBundleResList_def find_res_ok[OF ok])
    have e: "e \<in> set (gs_res s)" "?P e" using Some by (auto simp: find_Some_iff)
    have d: "distinct (gs_res s)" using ok by (auto simp: gs_ok_def distinct_map)
    have "distinct (map br_owner (remove1 e (gs_res s)))"
      using ok d by (auto simp: gs_ok_def distinct_map intro: inj_on_subset set_remove1_subset)
    moreover have "no_res n s'"
      using gs_ok_one_res[OF ok e(1) _ e(2)] d unfolding no_res_def s' by auto
    ultimately show ?thesis using ok d by (auto simp: gs_ok_def s')
  qed
  then show "gs_ok s'" "gs_map s' = gs_map s" "gs_third s' = gs_third s" "no_res n s'" by auto
qed

lemma HandleFile_keeps:
  assumes "GT_HandleFileAndBackUpRecord G r tmpPath randStr (Some dataPath) isUpdate s = Some (e, s')"
  shows "\<exists>s1. RemoveBundleResList (gi_bundleName r) s = Some s1 \<and> gs_store s' = gs_store s1"
  using assms by (auto simp: GT_HandleFileAndBackUpRecord_def bind_Some_iff Let_def split_beta split: if_splits option.splits
      dest!: store_on_trace_optD)

lemma MoveRaw_keeps: "MoveRawFileToDataPath G b s = Some (e, s') \<Longrightarrow> gs_store s' = gs_store s"
  by (auto simp: MoveRawFileToDataPath_def bind_Some_iff split: if_splits option.splits list.splits dest!: store_on_trace_optD)

lemma StorePermissions_keeps: "gs_store (snd (GT_StorePermissions G n permissions isUpdate s)) = gs_store s"
  by (simp add: GT_StorePermissions_def Let_def split_beta split: option.split)

section \<open>Registering\<close>

definition same_bundle :: "GtBundleInfo \<Rightarrow> GtBundleInfo \<Rightarrow> bool" where
  "same_bundle b b' \<longleftrightarrow> gb_bundleName b' = gb_bundleName b \<and> gb_versionCode b' = gb_versionCode b \<and>
     gb_codePath b' = gb_codePath b \<and> gb_dataPath b' = gb_dataPath b \<and> gb_appId b' = gb_appId b"

lemma ConvertIcon_same: "GT_ConvertIconResToBundleInfo G t p i b = Some (ok, b') \<Longrightarrow> same_bundle b b' \<and> (ok \<longrightarrow> i \<noteq> 0)"
  by (auto simp: GT_ConvertIconResToBundleInfo_def same_bundle_def bind_Some_iff Let_def split: if_splits option.splits)

lemma same_bundle_trans: "same_bundle a b \<Longrightarrow> same_bundle b c \<Longrightarrow> same_bundle a c"
  by (simp add: same_bundle_def)

lemma ConvertRes_same:
  assumes "GT_ConvertResInfoToBundleInfo G t p l i b = Some (e, b')"
  shows "same_bundle b b' \<and> (e = ERR_OK \<longrightarrow> i \<noteq> 0)"
proof -
  have refl: "same_bundle b b" by (simp add: same_bundle_def)
  define X where "X resPath =
    (if l = 0 then (ERR_OK, b)
     else case gt_global G t l resPath of
         None \<Rightarrow> (ERR_INSTALL_FAILED_PARSE_LABEL_RES_ERROR, b)
       | Some label \<Rightarrow>
           (let b = b\<lparr>gb_label := Strdup (gt_alloc G) label\<rparr> in
            (if gb_label b = None then ERR_INSTALL_FAILED_INTERNAL_ERROR else ERR_OK, b)))" for resPath
  have X: "same_bundle b (snd (X resPath))" for resPath
    by (auto simp: X_def same_bundle_def Let_def split: option.splits)
  show ?thesis
  proof (cases p)
    case None
    then show ?thesis using assms refl by (simp add: GT_ConvertResInfoToBundleInfo_def)
  next
    case (Some dir)
    with assms have "gb_moduleInfos b \<noteq> None \<and> gb_moduleInfos b \<noteq> Some []"
      by (cases "gb_moduleInfos b"; cases "the (gb_moduleInfos b)") (simp_all add: GT_ConvertResInfoToBundleInfo_def)
    then obtain mi ms where mi: "gb_moduleInfos b = Some (mi # ms)" by (metis list.exhaust option.exhaust)
    note d = assms[unfolded GT_ConvertResInfoToBundleInfo_def X_def[symmetric], simplified Some mi, simplified]
    show ?thesis
    proof (cases "Strscat (gt_alloc G) [Some dir, Some ASSETS, gm_moduleName mi, Some RESOURCES_INDEX]")
      case None
      then show ?thesis using d refl by simp
    next
      case (Some resPath)
      then consider "e \<noteq> ERR_OK" "b' = b" | "e \<noteq> ERR_OK" "b' = snd (X resPath)"
        | ok where "GT_ConvertIconResToBundleInfo G t resPath i (snd (X resPath)) = Some (ok, b')" "e = ERR_OK \<longrightarrow> ok"
        using d by (auto simp: bind_Some_iff split_beta split: if_split_asm)
      then show ?thesis
      proof cases
        case (3 ok)
        from ConvertIcon_same[OF 3(1)] same_bundle_trans[OF X] 3(2) show ?thesis by blast
      qed (use X refl in auto)
    qed
  qed
qed

lemma AddBundleRes_outcome:
  assumes ok: "gs_ok s" and a: "a \<in> set (gt_infos (gs_map s))" "gs_info a s = Some b" "gb_bundleName b = Some n"
    and n: "no_res n s" and i: "i \<noteq> 0" and r: "GT_AddBundleRes G a l i s = Some (e, s')"
  shows "gs_map s' = gs_map s \<and> gs_third s' = gs_third s \<and> (e = ERR_OK \<longrightarrow> gs_ok s' \<and> \<not> no_res n s')"
proof -
  have name: "gt_name (gs_map s) a = Some n" using a by (simp add: gt_name_def gs_info_def)
  let ?r = "\<lparr>br_owner = a, br_abilityRes = \<lparr>gr_iconId = i, gr_labelId = l\<rparr>\<rparr>"
  have "find (\<lambda>r. gt_name (gs_map s) (br_owner r) = Some n) (gs_res s) = None"
    using n by (simp add: no_res_def find_None_iff)
  then have add: "GT_AddBundleResList ?r s = Some (s\<lparr>gs_res := ?r # gs_res s\<rparr>)"
    using a by (simp add: GT_AddBundleResList_def find_res_ok[OF ok])
  from r i a consider "e \<noteq> ERR_OK" "s' = s" | "s' = s\<lparr>gs_res := ?r # gs_res s\<rparr>"
    by (auto simp: GT_AddBundleRes_def add split: if_splits)
  then show ?thesis
  proof cases
    case 2
    have "a \<notin> br_owner ` set (gs_res s)" using n name by (auto simp: no_res_def)
    then have "gs_ok s'" using ok a(1) by (simp add: gs_ok_def 2)
    then show ?thesis using 2 name by (simp add: no_res_def)
  qed simp
qed

definition left_alone :: "nat \<Rightarrow> GtBundleInfo \<Rightarrow> string \<Rightarrow> gt_service \<Rightarrow> gt_service \<Rightarrow> bool" where
  "left_alone a b n s s' \<longleftrightarrow> (\<exists>b'. same_bundle b b' \<and> loose a b' s') \<and> no_res n s' \<and> gs_abs s' = gs_abs s \<and> gs_third s' = gs_third s"

definition entered :: "nat \<Rightarrow> GtBundleInfo \<Rightarrow> string \<Rightarrow> gt_service \<Rightarrow> gt_service \<Rightarrow> bool" where
  "entered a b n s s' \<longleftrightarrow> (\<exists>b'. same_bundle b b' \<and> gs_info a s' = Some b' \<and> gs_abs s' = (gs_abs s)(n \<mapsto> b')) \<and>
     gt_wf (gs_map s') \<and> a \<in> set (gt_infos (gs_map s')) \<and> gs_third s' = gs_third s"

lemma entered_AddBundleRes:
  assumes "gs_ok s1" "entered a b n s s1" "gb_bundleName b = Some n" "no_res n s1" "i \<noteq> 0"
    "GT_AddBundleRes G a l i s1 = Some (e, s')"
  shows "entered a b n s s' \<and> (e = ERR_OK \<longrightarrow> gs_ok s' \<and> \<not> no_res n s')"
proof -
  from assms(2,3) obtain b' where b': "gs_info a s1 = Some b'" "gb_bundleName b' = Some n"
    by (auto simp: entered_def same_bundle_def)
  from AddBundleRes_outcome[OF assms(1) _ b' assms(4-6)] assms(2) show ?thesis by (auto simp: entered_def gs_info_def)
qed

lemma enter_new:
  assumes l: "loose a b s" and n: "gb_bundleName b = Some n" "no_res n s" "gs_abs s n = None"
    and r: "on_map (GT_Add a) s = Some s'"
  shows "gs_ok s' \<and> entered a b n s s' \<and> no_res n s'"
proof -
  have ok: "gs_ok s" "gt_wf (gs_map s)" "gt_heap (gs_map s) a = Some b" using l by (simp_all add: loose_def gs_ok_def gs_info_def)
  note m = on_map_SomeD[OF r]
  note A = GT_Add_new[OF ok(2) m[THEN conjunct1] ok(3) n(1,3)] GT_Add_set[OF ok(2) m[THEN conjunct1] ok(3) n(1,3)]
  have "gs_ok s'" using A m ok(1) by (auto simp: gs_ok_def)
  moreover have "no_res n s'" using n(2) m A(3) by (simp add: no_res_def gt_name_def)
  ultimately show ?thesis using A m ok(3) by (auto simp: entered_def gs_info_def same_bundle_def)
qed

lemma enter_update:
  assumes l: "loose a b s" and n: "gb_bundleName b = Some n" "no_res n s"
    and r: "GT_Update a (gs_map s) = Some (ok, g)"
  shows "ok \<and> gs_ok (s\<lparr>gs_map := g\<rparr>) \<and> entered a b n s (s\<lparr>gs_map := g\<rparr>) \<and> no_res n (s\<lparr>gs_map := g\<rparr>)"
proof -
  have ok: "gs_ok s" "gt_wf (gs_map s)" "a \<notin> set (gt_infos (gs_map s))" "gt_heap (gs_map s) a = Some b"
    using l by (simp_all add: loose_def gs_ok_def gs_info_def)
  note U = GT_Update_wf[OF ok(2) r ok(3,4) n(1)] GT_Update_set[OF ok(2) r ok(4) n(1)]
  have owner: "gt_name (gs_map s) (br_owner x) \<noteq> Some n" "br_owner x \<in> set (gt_infos (gs_map s))" if "x \<in> set (gs_res s)" for x
    using that n(2) ok(1) by (auto simp: no_res_def gs_ok_def)
  have "gs_ok (s\<lparr>gs_map := g\<rparr>)" using U(2,5) owner ok(1) by (auto simp: gs_ok_def)
  moreover have "no_res n (s\<lparr>gs_map := g\<rparr>)" using owner U(4) by (auto simp: no_res_def gt_name_def)
  moreover have "gt_heap g a = Some b" using U(4) ok(3,4) by auto
  ultimately show ?thesis using U ok(4) by (auto simp: entered_def gs_info_def same_bundle_def)
qed

lemma left_alone_refl: "loose a b s \<Longrightarrow> no_res n s \<Longrightarrow> left_alone a b n s s"
  by (auto simp: left_alone_def same_bundle_def)

lemma left_alone_put:
  assumes "left_alone a b n s s1" "same_bundle b b'" "on_map (gt_put a b') s1 = Some s2"
  shows "left_alone a b n s s2" "loose a b' s2"
proof -
  from assms(1) obtain c where c: "loose a c s1" "no_res n s1" "gs_abs s1 = gs_abs s" "gs_third s1 = gs_third s"
    by (auto simp: left_alone_def)
  note p = loose_put[OF c(1) assms(3)]
  show "loose a b' s2" by (rule p(1))
  then show "left_alone a b n s s2" using p c(2-) assms(2) by (auto simp: left_alone_def)
qed

lemma entered_left_alone: "left_alone a b n s s1 \<Longrightarrow> same_bundle b b' \<Longrightarrow> entered a b' n s1 s2 \<Longrightarrow> entered a b n s s2"
  by (auto simp: left_alone_def entered_def intro: same_bundle_trans)

lemma bundle_flag_same: "same_bundle b c \<Longrightarrow> same_bundle b (c\<lparr>gb_isSystemApp := f\<rparr>)"
  by (simp add: same_bundle_def)

lemma UpdateBundleInfo_outcome:
  assumes l: "loose a b s" and n: "gb_bundleName b = Some n" "no_res n s" and up: "isUpdate \<longleftrightarrow> gs_abs s n \<noteq> None"
    and r: "GT_UpdateBundleInfo G style label icon a isUpdate s = Some (e, s')"
  shows "e \<noteq> ERR_OK \<and> left_alone a b n s s' \<or> entered a b n s s' \<and> (e = ERR_OK \<longrightarrow> gs_ok s' \<and> \<not> no_res n s')"
proof -
  have b: "gs_info a s = Some b" using l by (simp add: loose_def)
  note d = r[unfolded GT_UpdateBundleInfo_def, simplified b, simplified]
  have early: "e \<noteq> ERR_OK \<Longrightarrow> s' = s \<Longrightarrow> ?thesis" using left_alone_refl[OF l n(2)] by simp
  show ?thesis
  proof (cases "gb_abilityInfo b")
    case (Some ab)
    note d = d[simplified this, simplified]
    show ?thesis
    proof (cases "GT_IsDir G (gs_trace s) (ga_srcPath ab)")
      case True
      note d = d[simplified this, simplified]
      then obtain e1 b1 s1 where conv: "GT_ConvertResInfoToBundleInfo G (gs_trace s) (gb_codePath b) label icon b = Some (e1, b1)"
          "on_map (gt_put a b1) s = Some s1" by (auto simp: bind_Some_iff)
      note d = d[simplified conv, simplified, simplified conv, simplified]
      have c: "same_bundle b b1" "e1 = ERR_OK \<Longrightarrow> icon \<noteq> 0" using ConvertRes_same[OF conv(1)] by simp_all
      note la = left_alone_put(1)[OF left_alone_refl[OF l n(2)] c(1) conv(2)]
      have entering: "?thesis"
        if put: "on_map (gt_put a (b1\<lparr>gb_isSystemApp := f\<rparr>)) s1 = Some s2" and i: "icon \<noteq> 0"
          and enter: "loose a (b1\<lparr>gb_isSystemApp := f\<rparr>) s2 \<Longrightarrow> no_res n s2 \<Longrightarrow> gs_abs s2 n = gs_abs s n \<Longrightarrow>
            gs_ok s3 \<and> entered a (b1\<lparr>gb_isSystemApp := f\<rparr>) n s2 s3 \<and> no_res n s3"
          and res: "GT_AddBundleRes G a label icon s3 = Some (e, s')" for f s2 s3
      proof -
        note p = left_alone_put[OF la bundle_flag_same[OF c(1)] put]
        have "no_res n s2" "gs_abs s2 n = gs_abs s n" using p(1) by (simp_all add: left_alone_def)
        note en = enter[OF p(2) this]
        have nb: "gb_bundleName (b1\<lparr>gb_isSystemApp := f\<rparr>) = Some n" using c(1) n(1) by (simp add: same_bundle_def)
        from entered_AddBundleRes[OF _ _ nb _ i res] en entered_left_alone[OF p(1) bundle_flag_same[OF c(1)]]
        show ?thesis by blast
      qed
      have n1: "gb_bundleName (b1\<lparr>gb_isSystemApp := f\<rparr>) = Some n" for f using c(1) n(1) by (simp add: same_bundle_def)
      consider "e1 \<noteq> ERR_OK" | "e1 = ERR_OK" "\<not> isUpdate" | "e1 = ERR_OK" "isUpdate" by blast
      then show ?thesis
      proof cases
        case 1
        then show ?thesis using d la by simp
      next
        case 2
        with d obtain s2 s3 where *: "on_map (gt_put a (b1\<lparr>gb_isSystemApp := (style = SYSTEM_APP_FLAG)\<rparr>)) s1 = Some s2"
            "on_map (GT_Add a) s2 = Some s3" "GT_AddBundleRes G a label icon s3 = Some (e, s')"
          by (auto simp: bind_Some_iff)
        show ?thesis
          by (rule entering[OF *(1) c(2)[OF 2(1)] _ *(3)], rule enter_new[OF _ n1 _ _ *(2)]) (use up 2(2) in simp_all)
      next
        case 3
        show ?thesis
        proof (cases "gs_query (gb_bundleName b1) s1 = Some None")
          case True
          then show ?thesis using d 3 la by simp
        next
          case False
          with d 3 obtain old ob where q: "gs_query (gb_bundleName b1) s1 = Some (Some old)" "gs_info old s1 = Some ob"
            by (auto simp: bind_Some_iff split: option.split_asm)
          note d = d[simplified 3 q, simplified, simplified q, simplified]
          then obtain s2 ok g where *: "on_map (gt_put a (b1\<lparr>gb_isSystemApp := gb_isSystemApp ob\<rparr>)) s1 = Some s2"
              "GT_Update a (gs_map s2) = Some (ok, g)" "ok \<longrightarrow> GT_AddBundleRes G a label icon (s2\<lparr>gs_map := g\<rparr>) = Some (e, s')"
            by (auto simp: bind_Some_iff Let_def split: if_split_asm)
          note p = left_alone_put[OF la bundle_flag_same[OF c(1)] *(1)]
          have "no_res n s2" using p(1) by (simp add: left_alone_def)
          note en = enter_update[OF p(2) n1 this *(2)]
          show ?thesis by (rule entering[OF *(1) c(2)[OF 3(1)] _ *(3)[rule_format]]) (use en in auto)
        qed
      qed
    qed (use d early in simp)
  qed (use d early in simp)
qed

section \<open>An installation as a whole\<close>

definition undone :: "gt_service \<Rightarrow> gt_service \<Rightarrow> bool" where
  "undone s s' \<longleftrightarrow> gs_ok s' \<and> gs_third s' = gs_third s \<and> (gs_abs s' = gs_abs s \<or> (\<exists>n. gs_abs s' = (gs_abs s)(n := None)))"

definition replaced :: "string \<Rightarrow> GtBundleInfo \<Rightarrow> gt_service \<Rightarrow> gt_service \<Rightarrow> bool" where
  "replaced n b s s' \<longleftrightarrow> gs_ok s' \<and> gs_third s' = gs_third s \<and> \<not> no_res n s' \<and>
     (\<exists>b'. same_bundle b b' \<and> gs_abs s' = (gs_abs s)(n \<mapsto> b'))"

lemma left_alone_store:
  assumes "left_alone a b n s s1" "gs_store s2 = gs_store s1"
  shows "left_alone a b n s s2"
  using assms(1) loose_cong[OF assms(2)] no_res_cong[OF assms(2)] assms(2) by (simp add: left_alone_def gs_store_eq)

lemma left_alone_trans: "left_alone a b n s s1 \<Longrightarrow> same_bundle b c \<Longrightarrow> left_alone a c n s1 s2 \<Longrightarrow> left_alone a b n s s2"
  by (auto simp: left_alone_def intro: same_bundle_trans)

lemma rollback_undone:
  assumes "left_alone a b n s s1" "gb_bundleName b = Some n" "ROLLBACK G a randStr s1 = Some s'"
  shows "undone s s'"
proof -
  from assms(1) obtain c where c: "same_bundle b c" "loose a c s1" "no_res n s1" "gs_abs s1 = gs_abs s" "gs_third s1 = gs_third s"
    by (auto simp: left_alone_def)
  then have "gb_bundleName c = Some n" using assms(2) by (simp add: same_bundle_def)
  from loose_ROLLBACK[OF c(2) this c(3) assms(3)] c(4,5) show ?thesis by (auto simp: undone_def)
qed

lemma or_rollback_cases:
  assumes "or_rollback G a randStr r (e1, s1) cont = Some (e, r', s')" "left_alone a b n s s1" "gb_bundleName b = Some n"
  shows "e \<noteq> ERR_OK \<and> undone s s' \<or> e1 = ERR_OK \<and> cont s1 = Some (e, r', s')"
  using assms rollback_undone[OF assms(2,3)] by (auto simp: or_rollback_def bind_Some_iff split: if_split_asm)

lemma ROLLBACK_no_dataPath:
  assumes "loose a b s" "gb_bundleName b = Some n" "gb_dataPath b = None"
  shows "ROLLBACK G a randStr s = None"
proof (cases "on_map (GT_Erase (Some n)) s")
  case (Some s1)
  have a: "gt_wf (gs_map s)" "a \<notin> set (gt_infos (gs_map s))" "gs_info a s = Some b"
    using assms(1) by (simp_all add: loose_def gs_ok_def)
  have "gs_info a s1 = Some b"
    using GT_Erase_wf(3)[OF a(1) on_map_SomeD[OF Some, THEN conjunct1]] a by (simp add: gs_info_def)
  then show ?thesis using a(3) assms(2,3) Some by (simp add: ROLLBACK_def GT_CLEAR_INSTALL_ENV_def gs_info_def bind_eq_None_conv)
qed (use assms in \<open>simp add: ROLLBACK_def loose_def\<close>)

lemma HandleFile_left_alone:
  assumes l: "loose a b s" and n: "gi_bundleName r = Some n"
    and h: "GT_HandleFileAndBackUpRecord G r tmpPath randStr (Some dataPath) isUpdate s = Some (e, s')"
  shows "left_alone a b n s s'"
proof -
  from HandleFile_keeps[OF h] n obtain s1 where s1: "RemoveBundleResList (Some n) s = Some s1" "gs_store s' = gs_store s1" by auto
  have ok: "gs_ok s" using l by (simp add: loose_def)
  note R = RemoveBundleResList_ok[OF ok s1(1)]
  have "left_alone a b n s s1" using l R by (auto simp: left_alone_def same_bundle_def loose_def gs_info_def)
  then show ?thesis using left_alone_store s1(2) by blast
qed

lemma gs_query_abs: "gs_ok s \<Longrightarrow> gs_query (Some n) s = Some q \<Longrightarrow> q \<noteq> None \<longleftrightarrow> gs_abs s n \<noteq> None"
  using GT_Get_Some[of "gs_map s" "Some n"] GT_Get_None[of "gs_map s" "Some n"] by (cases q) (auto simp: gs_ok_def gs_query_def)

lemma gt_register_outcome:
  assumes l: "loose a b s" and n: "gb_bundleName b = Some n" "gi_bundleName r = Some n"
    and reg: "gt_register G randStr style cb a permissions labelId iconId tmp r s = Some (e, r', s')"
  shows "e = ERR_OK \<and> r' = r \<and> replaced n b s s' \<or> e \<noteq> ERR_OK \<and> undone s s'"
proof -
  have ok: "gs_ok s" and b: "gs_info a s = Some b" using l by (simp_all add: loose_def)
  from reg b n obtain q e1 s1 where q: "gs_query (Some n) s = Some q"
      "GT_HandleFileAndBackUpRecord G r tmp randStr (gb_dataPath b) (q \<noteq> None) s = Some (e1, s1)"
    and r1: "or_rollback G a (Some randStr) r (e1, s1) (\<lambda>s. do {
       b \<leftarrow> gs_info a s;
       x \<leftarrow> MoveRawFileToDataPath G b s;
       or_rollback G a (Some randStr) r x (\<lambda>s.
       let s = gt_progress G 80 cb s in
       or_rollback G a (Some randStr) r (GT_StorePermissions G (Some n) permissions (q \<noteq> None) s) (\<lambda>s. do {
       x \<leftarrow> GT_UpdateBundleInfo G style labelId iconId a (q \<noteq> None) s;
       or_rollback G a (Some randStr) r x (\<lambda>s. Some (ERR_OK, r, s)) })) }) = Some (e, r', s')"
    by (auto simp: gt_register_def bind_Some_iff Let_def)
  show ?thesis
  proof (cases "gb_dataPath b")
    case None
    then have "e1 \<noteq> ERR_OK" "s1 = s" using q(2) by (auto simp: GT_HandleFileAndBackUpRecord_def)
    then have False using r1 ROLLBACK_no_dataPath[OF l n(1) None, of G "Some randStr"] by (simp add: or_rollback_def)
    then show ?thesis ..
  next
    case (Some d)
    note la1 = HandleFile_left_alone[OF l n(2) q(2)[unfolded Some]]
    from or_rollback_cases[OF r1 la1 n(1)] consider "e \<noteq> ERR_OK" "undone s s'"
      | b1 e2 s2 where "MoveRawFileToDataPath G b1 s1 = Some (e2, s2)" "or_rollback G a (Some randStr) r (e2, s2) (\<lambda>s.
         let s = gt_progress G 80 cb s in
         or_rollback G a (Some randStr) r (GT_StorePermissions G (Some n) permissions (q \<noteq> None) s) (\<lambda>s. do {
         x \<leftarrow> GT_UpdateBundleInfo G style labelId iconId a (q \<noteq> None) s;
         or_rollback G a (Some randStr) r x (\<lambda>s. Some (ERR_OK, r, s)) })) = Some (e, r', s')"
      by (auto simp: bind_Some_iff)
    then show ?thesis
    proof cases
      case (2 b1 e2 s2)
      note la2 = left_alone_store[OF la1 MoveRaw_keeps[OF 2(1)]]
      obtain e3 s3 where s3: "GT_StorePermissions G (Some n) permissions (q \<noteq> None) (gt_progress G 80 cb s2) = (e3, s3)"
        by (cases "GT_StorePermissions G (Some n) permissions (q \<noteq> None) (gt_progress G 80 cb s2)")
      have "gs_store s3 = gs_store s2"
        using StorePermissions_keeps[of G "Some n" permissions "q \<noteq> None" "gt_progress G 80 cb s2"] unfolding s3 by simp
      note la3 = left_alone_store[OF la2 this]
      from or_rollback_cases[OF 2(2) la2 n(1)] have "e \<noteq> ERR_OK \<and> undone s s' \<or>
         or_rollback G a (Some randStr) r (e3, s3) (\<lambda>s. do {
           x \<leftarrow> GT_UpdateBundleInfo G style labelId iconId a (q \<noteq> None) s;
           or_rollback G a (Some randStr) r x (\<lambda>s. Some (ERR_OK, r, s)) }) = Some (e, r', s')"
        by (simp only: Let_def s3) blast
      with or_rollback_cases[OF _ la3 n(1)] have "e \<noteq> ERR_OK \<and> undone s s' \<or>
         (\<exists>e4 s4. GT_UpdateBundleInfo G style labelId iconId a (q \<noteq> None) s3 = Some (e4, s4) \<and>
           or_rollback G a (Some randStr) r (e4, s4) (\<lambda>s. Some (ERR_OK, r, s)) = Some (e, r', s'))"
        by (fastforce simp: bind_Some_iff)
      then show ?thesis
      proof (elim disjE exE conjE)
        fix e4 s4
        assume u: "GT_UpdateBundleInfo G style labelId iconId a (q \<noteq> None) s3 = Some (e4, s4)"
          and o4: "or_rollback G a (Some randStr) r (e4, s4) (\<lambda>s. Some (ERR_OK, r, s)) = Some (e, r', s')"
        from la3 obtain c where c: "same_bundle b c" "loose a c s3" "no_res n s3" "gs_abs s3 = gs_abs s" "gs_third s3 = gs_third s"
          by (auto simp: left_alone_def)
        have nc: "gb_bundleName c = Some n" using c(1) n(1) by (simp add: same_bundle_def)
        have up: "(q \<noteq> None) \<longleftrightarrow> gs_abs s3 n \<noteq> None" using gs_query_abs[OF ok q(1)] c(4) by simp
        from UpdateBundleInfo_outcome[OF c(2) nc c(3) up u]
        consider "left_alone a c n s3 s4" "e4 \<noteq> ERR_OK" | "entered a c n s3 s4" "e4 = ERR_OK \<longrightarrow> gs_ok s4 \<and> \<not> no_res n s4" by blast
        then show ?thesis
        proof cases
          case 1
          then show ?thesis using or_rollback_cases[OF o4 left_alone_trans[OF la3 c(1) 1(1)] n(1)] by blast
        next
          case 2
          then obtain b' where b': "same_bundle c b'" "gs_info a s4 = Some b'" "gs_abs s4 = (gs_abs s)(n \<mapsto> b')"
            using c(4) by (auto simp: entered_def)
          have "ROLLBACK G a (Some randStr) s4 = None"
            using registered_ROLLBACK[of s4 a b' n G "Some randStr"] 2(1) b'(1,2) nc by (simp add: entered_def same_bundle_def)
          then have "e4 = ERR_OK" "e = ERR_OK" "r' = r" "s' = s4" using o4 by (auto simp: or_rollback_def split: if_split_asm)
          then show ?thesis using 2 b' c(1,5) same_bundle_trans[OF c(1) b'(1)] by (auto simp: replaced_def entered_def)
        qed
      qed simp
    qed simp
  qed
qed

lemma undone_store: "gs_store s1 = gs_store s \<Longrightarrow> undone s1 s' \<longleftrightarrow> undone s s'"
  by (simp add: undone_def gs_store_eq)

lemma replaced_store: "gs_store s1 = gs_store s \<Longrightarrow> replaced n b s1 s' \<longleftrightarrow> replaced n b s s'"
  by (simp add: replaced_def gs_store_eq)

lemma undone_same: "gs_ok s \<Longrightarrow> gs_store s' = gs_store s \<Longrightarrow> undone s s'"
  using gs_ok_cong[of s' s] by (simp add: undone_def gs_store_eq)

lemma undone_freed: "loose a b s \<Longrightarrow> FREE_PRO a s = Some s' \<Longrightarrow> undone s s'"
  using loose_free[of a b s s'] by (simp add: undone_def)

lemma undone_part:
  assumes "loose a b s" "gs_store s1 = gs_store s" "PART_ROLLBACK G path a s1 = Some s'"
  shows "undone s s'"
proof -
  have "loose a b s1" using assms(1) loose_cong[OF assms(2)] by simp
  from loose_PART_ROLLBACK[OF this assms(3)] assms(2) show ?thesis by (simp add: undone_def gs_store_eq)
qed

lemma TransformJs_name: "TransformJsToBc_install G p r t = (e, r', t') \<Longrightarrow> gi_bundleName r' = gi_bundleName r"
  by (auto simp: TransformJsToBc_install_def Let_def split_beta split: if_splits option.splits)

lemma gt_unpack_outcome:
  assumes l: "loose a b s" and n: "gb_bundleName b = Some n" "gi_bundleName r = Some n"
    and u: "gt_unpack G randStr style cb f fileSize a permissions labelId iconId r s = Some (e, r', s')"
  shows "e = ERR_OK \<and> gi_bundleName r' = Some n \<and> replaced n b s s' \<or> e \<noteq> ERR_OK \<and> undone s s'"
proof (cases "Strscat (gt_alloc G) [gi_codePath r, Some randStr]")
  case None
  then obtain s1 where "FREE_PRO a s = Some s1" "e \<noteq> ERR_OK" "s' = s1" using u by (auto simp: gt_unpack_def bind_Some_iff)
  then show ?thesis using undone_freed[OF l] by blast
next
  case (Some tmp)
  obtain e1 s1 where x: "on_trace (GT_ExtractHap G (Some tmp) (gi_bundleName r) f fileSize) s = (e1, s1)" by fastforce
  have st: "gs_store s1 = gs_store s" by (rule store_on_traceD[OF x])
  define r1 where "r1 = (if gt_bc G then r\<lparr>gi_jsEngineVersion := gt_jerry G\<rparr> else r)"
  define y where "y = (if gt_bc G then TransformJsToBc_install G (Some tmp) r1 (gs_trace (gt_progress G 60 cb s1))
                       else (ERR_OK, r1, gs_trace (gt_progress G 60 cb s1)))"
  obtain e2 r2 t where y: "y = (e2, r2, t)" by (cases y)
  have r2: "gi_bundleName r2 = Some n"
    using y n(2) TransformJs_name[of G "Some tmp" r1 "gs_trace (gt_progress G 60 cb s1)" e2 r2 t]
    by (auto simp: y_def r1_def split: if_splits)
  let ?s2 = "(gt_progress G 60 cb s1)\<lparr>gs_trace := t\<rparr>"
  note d = u[unfolded gt_unpack_def, simplified Some option.case x Let_def split, folded r1_def, folded y_def, simplified y split]
  have early: "e \<noteq> ERR_OK \<and> undone s s'" if "PART_ROLLBACK G tmp a s3 = Some s'" "e \<noteq> ERR_OK" "gs_store s3 = gs_store s" for s3
    using undone_part[OF l that(3,1)] that(2) by simp
  have "e \<noteq> ERR_OK \<and> undone s s' \<or>
      gt_register G randStr style cb a permissions labelId iconId tmp r2 (gt_progress G 70 cb ?s2) = Some (e, r', s')"
    using d early[of s1] early[of "gt_progress G 60 cb s1"] early[of ?s2] st
    by (auto simp: bind_Some_iff split: if_split_asm)
  then show ?thesis
  proof
    assume reg: "gt_register G randStr style cb a permissions labelId iconId tmp r2 (gt_progress G 70 cb ?s2) = Some (e, r', s')"
    have st2: "gs_store (gt_progress G 70 cb ?s2) = gs_store s" by (simp add: st)
    have "loose a b (gt_progress G 70 cb ?s2)" using l loose_cong[OF st2] by simp
    from gt_register_outcome[OF this n(1) r2 reg] r2 show ?thesis
      unfolding undone_store[OF st2] replaced_store[OF st2] by blast
  qed simp
qed

text \<open>What the package has to be: signed for its bundle, and, when the bundle is there already, not older and of the same application.\<close>

definition gt_signed :: "'j gt_system \<Rightarrow> string \<Rightarrow> string \<Rightarrow> bool" where
  "gt_signed G path n \<longleftrightarrow> \<not> gt_liteos_m G \<and> GT_SwitchErrorCode G (fst (gt_verify G path)) = ERR_OK \<and>
     MatchBundleName (Some n) (ve_bundleName (snd (gt_verify G path)))"

definition gt_may_replace :: "'j gt_system \<Rightarrow> gt_service \<Rightarrow> string \<Rightarrow> GtBundleInfo \<Rightarrow> bool" where
  "gt_may_replace G s n b \<longleftrightarrow>
     (\<forall>old. gs_abs s n = Some old \<longrightarrow> gb_versionCode old \<le> gb_versionCode b \<and>
       (\<exists>t appId. prefix (gs_trace s) t \<and> GT_GetValueFromBundleJson G t (Some n) (Some JSON_SUB_KEY_APPID) = Some appId \<and>
          gb_appId b = Strdup (gt_alloc G) (Some appId)))"

lemma VerifySignature_signed:
  assumes "GT_VerifySignature G path = Some (ERR_OK, sig, fileSize)" and "sg_bundleName sig \<noteq> None"
  shows "\<not> gt_liteos_m G \<and> GT_SwitchErrorCode G (fst (gt_verify G path)) = ERR_OK \<and>
     sg_bundleName sig = ve_bundleName (snd (gt_verify G path))"
  using assms by (auto simp: GT_VerifySignature_def Let_def split_beta no_signature_def Strdup_def split: if_splits option.splits)

lemma PreCheck_signed:
  assumes "GT_PreCheckBundle G path style s = Some (ERR_OK, fp, sig, fileSize)" "MatchBundleName (Some n) (sg_bundleName sig)"
  shows "gt_signed G path n"
proof -
  from assms(1) obtain sig0 where v: "GT_VerifySignature G path = Some (ERR_OK, sig0, fileSize)"
      "sg_bundleName sig = sg_bundleName sig0"
    by (auto simp: GT_PreCheckBundle_def Let_def bind_Some_iff split_beta split: if_split_asm)
  from assms(2) have "sg_bundleName sig0 \<noteq> None" by (auto simp: MatchBundleName_def v(2) split: option.splits)
  from VerifySignature_signed[OF v(1) this] assms(2) v(2) show ?thesis by (simp add: gt_signed_def)
qed

lemma trace_progress: "prefix (gs_trace s) (gs_trace (gt_progress G process cb s))"
  by (simp add: gt_progress_def ReportInstallCallback_def Let_def gs_do_def on_trace_def gt_do_def split: option.split)

lemma CheckVersion_OK:
  assumes ok: "gs_ok s" and c: "GT_CheckVersionAndSignature G (Some n) appId b s = Some ERR_OK" and old: "gs_abs s n = Some ob"
  shows "gb_versionCode ob \<le> gb_versionCode b \<and> appId \<noteq> None \<and>
     GT_GetValueFromBundleJson G (gs_trace s) (Some n) (Some JSON_SUB_KEY_APPID) = appId"
proof -
  from c obtain q where q: "gs_query (Some n) s = Some q" "appId \<noteq> None"
    by (auto simp: GT_CheckVersionAndSignature_def bind_Some_iff split: if_splits)
  then obtain a where a: "q = Some a" using gs_query_abs[OF ok q(1)] old by auto
  have "gs_info a s = Some ob"
    using GT_Get_Some[of "gs_map s" "Some n" a] ok q(1) a old by (auto simp: gs_ok_def gs_query_def gs_info_def)
  then show ?thesis using c q a
    by (auto simp: GT_CheckVersionAndSignature_def split: if_splits option.splits)
qed

lemma may_replaceI:
  assumes ok: "gs_ok s" and c: "GT_CheckVersionAndSignature G (Some n) appId b s1 = Some ERR_OK"
    and s1: "gs_ok s1" "gs_abs s1 = gs_abs s" "prefix (gs_trace s) (gs_trace s1)" and b: "gb_appId b = Strdup (gt_alloc G) appId"
  shows "gt_may_replace G s n b"
  unfolding gt_may_replace_def
proof (intro allI impI)
  fix old
  assume "gs_abs s n = Some old"
  with CheckVersion_OK[OF s1(1) c, of old] s1(2,3) b
  show "gb_versionCode old \<le> gb_versionCode b \<and> (\<exists>t appId. prefix (gs_trace s) t \<and>
      GT_GetValueFromBundleJson G t (Some n) (Some JSON_SUB_KEY_APPID) = Some appId \<and> gb_appId b = Strdup (gt_alloc G) (Some appId))"
    by auto
qed

lemma undone_abs: "gs_abs s1 = gs_abs s \<Longrightarrow> gs_third s1 = gs_third s \<Longrightarrow> undone s1 s' \<longleftrightarrow> undone s s'"
  by (simp add: undone_def)

lemma replaced_abs: "gs_abs s1 = gs_abs s \<Longrightarrow> gs_third s1 = gs_third s \<Longrightarrow> replaced n b s1 s' \<longleftrightarrow> replaced n b s s'"
  by (simp add: replaced_def)

lemma ProcessBundleInstall_outcome:
  assumes ok: "gs_ok s" and P: "GT_ProcessBundleInstall G path randStr r style cb s = Some (e, r', s')"
  shows "e = ERR_OK \<and> (\<exists>n b. gi_bundleName r' = Some n \<and> gb_bundleName b = Some n \<and> gt_signed G path n \<and>
           gt_may_replace G s n b \<and> replaced n b s s') \<or> e \<noteq> ERR_OK \<and> undone s s'"
proof -
  define s1 where "s1 = gt_progress G 10 cb s"
  define s2 where "s2 = gt_progress G 50 cb s1"
  have st: "gs_store s1 = gs_store s" "gs_store s2 = gs_store s" by (simp_all add: s1_def s2_def)
  have tr: "prefix (gs_trace s) (gs_trace s2)"
    using trace_progress prefix_order.trans unfolding s1_def s2_def by blast
  have early: ?thesis if "e \<noteq> ERR_OK" "s' = s1 \<or> s' = s2" using that undone_same[OF ok] st by auto
  from P obtain e1 fp sig fileSize where pc: "GT_PreCheckBundle G path style s1 = Some (e1, fp, sig, fileSize)"
    by (auto simp: GT_ProcessBundleInstall_def s1_def[symmetric] bind_Some_iff)
  note d = P[unfolded GT_ProcessBundleInstall_def, folded s1_def, unfolded Let_def, folded s2_def, simplified pc, simplified]
  show ?thesis
  proof (cases "e1 = ERR_OK \<and> (if gt_liteos_m G then gt_content G (gs_trace s2) path else fp) \<noteq> None")
    case False
    then have "e \<noteq> ERR_OK \<and> (s' = s1 \<or> s' = s2)" using d by (auto split: if_splits)
    then show ?thesis using early by blast
  next
    case True
    then obtain f where f: "e1 = 0" "(if gt_liteos_m G then gt_content G (gs_trace s2) path else fp) = Some f" by auto
    note d = d[simplified f option.case, simplified]
    then obtain e2 h where h: "ParseHapProfile_fp G f fileSize = Some (e2, h)" by (auto simp: bind_Some_iff)
    note d = d[simplified h, simplified]
    show ?thesis
    proof (cases "e2 = ERR_OK")
      case False
      then show ?thesis using d early by auto
    next
      case e2: True
      note d = d[simplified e2, simplified]
      then obtain b permissions res where b: "h = Some (b, permissions, res)" by (auto simp: bind_Some_iff)
      obtain a g where g: "gt_alloc_info b (gs_map s2) = (a, g)" by fastforce
      define s3 where "s3 = SetCurrentBundle G (gb_bundleName b) (s2\<lparr>gs_map := g\<rparr>)"
      note d = d[simplified b g, simplified, simplified g, simplified, folded s3_def]
      have ok2: "gs_ok s2" using ok gs_ok_cong[OF st(2)] by simp
      note al = loose_alloc[OF ok2 g]
      have st3: "gs_store s3 = gs_store (s2\<lparr>gs_map := g\<rparr>)" by (simp add: s3_def)
      have l3: "loose a b s3" using al(1) loose_cong[OF st3] by simp
      have s3: "gs_abs s3 = gs_abs s" "gs_third s3 = gs_third s" "gs_trace s3 = gs_trace s2"
        using st3 al(2) st(2) by (simp_all add: gs_store_eq s3_def SetCurrentBundle_def)
      show ?thesis
      proof (cases "GT_CheckProvisionInfoIsValid sig (gb_bundleName b) = ERR_OK")
        case False
        then obtain s4 where "FREE_PRO a s3 = Some s4" "e \<noteq> ERR_OK" "s' = s4" using d by (auto simp: bind_Some_iff)
        then show ?thesis using undone_freed[OF l3] undone_abs[OF s3(1,2)] by blast
      next
        case prov: True
        then obtain n where n: "gb_bundleName b = Some n" "MatchBundleName (Some n) (sg_bundleName sig)"
          by (auto simp: GT_CheckProvisionInfoIsValid_def split: if_splits)
        let ?b = "b\<lparr>gb_appId := Strdup (gt_alloc G) (sg_appId sig)\<rparr>"
        from d prov obtain s4 e4 where s4: "on_map (gt_put a ?b) s3 = Some s4"
            "GT_CheckVersionAndSignature G (Some n) (sg_appId sig) ?b s4 = Some e4"
          by (auto simp: bind_Some_iff n(1))
        note prov = prov[unfolded n(1)]
        note d = d[unfolded n(1), simplified prov s4, simplified, simplified s4, simplified]
        note p = loose_put[OF l3 s4(1)]
        have s4': "gs_abs s4 = gs_abs s" "gs_third s4 = gs_third s" "gs_trace s4 = gs_trace s2"
          using p(2,4) s3 s4(1) by (auto simp: on_map_def bind_Some_iff)
        have nb: "gb_bundleName ?b = Some n" using n(1) by simp
        show ?thesis
        proof (cases "e4 = ERR_OK")
          case False
          then obtain s5 where "FREE_PRO a s4 = Some s5" "e \<noteq> ERR_OK" "s' = s5" using d by (auto simp: bind_Some_iff)
          then show ?thesis using undone_freed[OF p(1)] undone_abs[OF s4'(1,2)] by blast
        next
          case e4: True
          note d = d[simplified e4, simplified]
          have "gt_may_replace G s n ?b"
            by (rule may_replaceI[OF ok s4(2)[unfolded e4]]) (use p(1) s4' tr in \<open>simp_all add: loose_def\<close>)
          moreover have "gt_signed G path n" by (rule PreCheck_signed[OF pc[unfolded f(1)] n(2)])
          moreover from gt_unpack_outcome[OF p(1) nb _ d] have "e = ERR_OK \<and> gi_bundleName r' = Some n \<and> replaced n ?b s4 s' \<or>
              e \<noteq> ERR_OK \<and> undone s4 s'" by simp
          ultimately show ?thesis using nb undone_abs[OF s4'(1,2)] replaced_abs[OF s4'(1,2)] by blast
        qed
      qed
    qed
  qed
qed

lemma GT_Install_result:
  assumes ok: "gs_ok s" and I: "GT_Install G path cb s = Some (e, s')"
  shows "e = ERR_OK \<and> (\<exists>p n b s1. path = Some p \<and> gb_bundleName b = Some n \<and> gt_signed G p n \<and> gt_may_replace G s n b \<and>
           replaced n b s s1 \<and> gs_map s' = gs_map s1 \<and> gs_res s' = gs_res s1 \<and>
           gs_third s' = gs_third s1 + (if install_style path = THIRD_APP_FLAG then 1 else 0)) \<or>
         e \<noteq> ERR_OK \<and> (e = ERR_INSTALL_FAILED_RENAME_FILE_ERROR \<or> undone s s')"
proof (cases path)
  case None
  then show ?thesis using I undone_same[OF ok] by (simp add: GT_Install_def)
next
  case (Some p)
  obtain rand where r: "CreateRandStr (gt_rand G (gs_trace s)) (Some 16) 16 = Some (Some rand)"
    by (simp add: CreateRandStr_def)
  note d = I[unfolded GT_Install_def Some option.case Let_def r, simplified]
  show ?thesis
  proof (cases "rand = []")
    case True
    then show ?thesis using d undone_same[OF ok] by simp
  next
    case False
    note d = d[simplified False, simplified]
    then obtain e1 r s1 where p: "GT_ProcessBundleInstall G p rand empty_gt_record (install_style (Some p)) cb s = Some (e1, r, s1)"
      by (auto simp: bind_Some_iff)
    note d = d[simplified p, simplified]
    from ProcessBundleInstall_outcome[OF ok p] consider "e1 \<noteq> ERR_OK" "undone s s1"
      | n b where "e1 = 0" "gi_bundleName r = Some n" "gb_bundleName b = Some n" "gt_signed G p n" "gt_may_replace G s n b"
          "replaced n b s s1" by auto
    then show ?thesis
    proof cases
      case 1
      then show ?thesis using d by simp
    next
      case 2
      obtain ok2 s2 where s2: "on_trace (GT_RenameJsonFile G (gi_bundleName r) (Some rand)) (gt_progress G 90 cb s1) = (ok2, s2)"
        by fastforce
      have st: "gs_store s2 = gs_store s1" using store_on_traceD[OF s2] by simp
      note d = d[simplified 2(1), simplified, unfolded s2 split]
      show ?thesis
      proof (cases ok2)
        case False
        then show ?thesis using d by (auto simp: bind_Some_iff)
      next
        case True
        then have "e = ERR_OK" "gs_map s' = gs_map s1" "gs_res s' = gs_res s1"
            "gs_third s' = gs_third s1 + (if install_style path = THIRD_APP_FLAG then 1 else 0)"
          using d st Some by (auto simp: gs_store_eq)
        then show ?thesis using 2(3-6) Some by blast
      qed
    qed
  qed
qed

lemma gt_may_replace_same: "gt_may_replace G s n b \<Longrightarrow> same_bundle b c \<Longrightarrow> gt_may_replace G s n c"
  by (simp add: gt_may_replace_def same_bundle_def)

lemma mini_install:
  assumes "gs_ok s" and "GT_Install G path cb s = Some (ERR_OK, s')"
  shows "\<exists>p n b. path = Some p \<and> gb_bundleName b = Some n \<and> gt_signed G p n \<and> gt_may_replace G s n b \<and> gs_ok s' \<and>
     gs_abs s' = (gs_abs s)(n \<mapsto> b) \<and> \<not> no_res n s' \<and>
     gs_third s' = gs_third s + (if install_style path = THIRD_APP_FLAG then 1 else 0)"
proof -
  from GT_Install_result[OF assms] obtain p n b s1 where *: "path = Some p" "gb_bundleName b = Some n" "gt_signed G p n"
      "gt_may_replace G s n b" "replaced n b s s1" "gs_map s' = gs_map s1" "gs_res s' = gs_res s1"
      "gs_third s' = gs_third s1 + (if install_style path = THIRD_APP_FLAG then 1 else 0)"
    by auto
  from *(5) obtain c where c: "same_bundle b c" "gs_abs s1 = (gs_abs s)(n \<mapsto> c)" by (auto simp: replaced_def)
  have "gs_ok s'" "\<not> no_res n s'" "gs_third s1 = gs_third s" using *(5-7) by (simp_all add: replaced_def gs_ok_def no_res_def)
  moreover have "gb_bundleName c = Some n" using c(1) *(2) by (simp add: same_bundle_def)
  ultimately show ?thesis using * c gt_may_replace_same[OF *(4) c(1)] by auto
qed

section \<open>The properties\<close>

text \<open>C12 An installation that succeeds enters one bundle and changes no other: the one the package is signed for, which
  replaces a registered one only if that is not newer and its record names the same application; it is one more bundle of a
  third party whether or not it was there before, and it has an entry in the list of resources.\<close>

theorem mini_install_success:
  assumes "gs_ok s" and "GT_Install G path cb s = Some (ERR_OK, s')"
  shows "\<exists>p n b. path = Some p \<and> gb_bundleName b = Some n \<and> gt_signed G p n \<and> gt_may_replace G s n b \<and> gs_ok s' \<and>
     gs_abs s' = (gs_abs s)(n \<mapsto> b) \<and> \<not> no_res n s' \<and>
     gs_third s' = gs_third s + (if install_style path = THIRD_APP_FLAG then 1 else 0)"
  by (rule mini_install[OF assms])


section \<open>The build for LiteOS-M\<close>

lemma profile_of_nothing: "GT_ExtractHapProfile G f 0 = None"
  by (simp add: GT_ExtractHapProfile_def split_beta profile_loop.simps)

lemma PreCheck_liteos:
  assumes G: "gt_liteos_m G" and g: "gt_wf (gs_map s)"
  shows "\<exists>e fp sig. GT_PreCheckBundle G path style s = Some (e, fp, sig, 0)"
proof -
  obtain e fp n where x: "ExtractBundleParam G (gs_trace s) path = (e, fp, n)" by (cases "ExtractBundleParam G (gs_trace s) path")
  have v: "GT_VerifySignature G path = Some (ERR_OK, no_signature, 0)" using G by (simp add: GT_VerifySignature_def)
  have n: "e = ERR_OK \<Longrightarrow> n \<noteq> None"
    using x by (auto simp: ExtractBundleParam_def ExtractFileHeaderInfo_def Let_def split_beta dest: sym split: if_splits option.splits)
  have q: "\<exists>q. gs_query n s = Some q" using GT_Get_defined[OF g] by (auto simp: gs_query_def)
  show ?thesis using n q by (auto simp: GT_PreCheckBundle_def x v no_signature_def Let_def)
qed

text \<open>C37 Built for LiteOS-M, the mini system installs nothing: the length of the package is never asked for, so no
  profile is found in it. The installation ends with an error, and the registry is as it was.\<close>

theorem liteos_installs_nothing:
  assumes "gt_liteos_m G" and "gt_wf (gs_map s)"
  shows "\<exists>e s'. GT_Install G path cb s = Some (e, s') \<and> e \<noteq> ERR_OK \<and> gs_map s' = gs_map s \<and> gs_res s' = gs_res s"
proof (cases path)
  case None
  then show ?thesis by (simp add: GT_Install_def)
next
  case (Some p)
  obtain rand where r: "CreateRandStr (gt_rand G (gs_trace s)) (Some 16) 16 = Some (Some rand)" by (simp add: CreateRandStr_def)
  have "\<exists>e r' s'. GT_ProcessBundleInstall G p rand empty_gt_record (install_style path) cb s = Some (e, r', s') \<and>
      e \<noteq> ERR_OK \<and> gs_store s' = gs_store s"
  proof -
    let ?s = "gt_progress G 10 cb s"
    have "gt_wf (gs_map ?s)" using assms(2) store_progress[of G 10 cb s] by (simp add: gs_store_eq del: store_progress)
    from PreCheck_liteos[OF assms(1) this] obtain e fp sig where
      p: "GT_PreCheckBundle G p (install_style path) ?s = Some (e, fp, sig, 0)" by blast
    show ?thesis
      by (auto simp: GT_ProcessBundleInstall_def p Let_def ParseHapProfile_fp_def profile_of_nothing assms(1) split: option.split)
  qed
  then obtain e r' s' where "GT_ProcessBundleInstall G p rand empty_gt_record (install_style path) cb s = Some (e, r', s')"
      "e \<noteq> ERR_OK" "gs_store s' = gs_store s" by blast
  then show ?thesis using Some by (auto simp: GT_Install_def r Let_def gs_store_eq)
qed

section \<open>Uninstalling\<close>

lemma find_res_dead:
  "\<exists>r \<in> set rs. h (br_owner r) = None \<Longrightarrow> \<forall>r \<in> set rs. \<forall>b. h (br_owner r) = Some b \<longrightarrow> gb_bundleName b \<noteq> Some n \<Longrightarrow>
   find_res h n rs = None"
proof (induction rs)
  case (Cons r rs)
  then show ?case by (cases "h (br_owner r)") auto
qed simp

lemma gt_forget_res:
  assumes ok: "gs_ok s" and n: "\<not> no_res n s"
  shows "gt_forget n third s = None"
proof (cases "on_map (GT_Erase (Some n)) s")
  case (Some s1)
  note m = on_map_SomeD[OF Some]
  have wf: "gt_wf (gs_map s)" using ok by (simp add: gs_ok_def)
  from n obtain r where r: "r \<in> set (gs_res s)" "gt_name (gs_map s) (br_owner r) = Some n" by (auto simp: no_res_def)
  then have a: "br_owner r \<in> set (gt_infos (gs_map s))" using ok by (auto simp: gs_ok_def)
  then have "find (\<lambda>a. gt_name (gs_map s) a = Some n) (gt_infos (gs_map s)) = Some (br_owner r)"
    using r(2) by (simp add: find_name[OF wf])
  then have "gt_free (br_owner r) (gs_map s\<lparr>gt_infos := remove1 (br_owner r) (gt_infos (gs_map s))\<rparr>) = Some (gs_map s1)"
    using m wf by (simp add: GT_Erase_def find_info_find gt_wf_def)
  from gt_free_heap[OF this] have h: "gt_heap (gs_map s1) = (gt_heap (gs_map s))(br_owner r := None)" by simp
  have "find_res (gt_heap (gs_map s1)) n (gs_res s1) = None"
  proof (rule find_res_dead)
    show "\<exists>r \<in> set (gs_res s1). gt_heap (gs_map s1) (br_owner r) = None" using r(1) m h by auto
    show "\<forall>q \<in> set (gs_res s1). \<forall>b. gt_heap (gs_map s1) (br_owner q) = Some b \<longrightarrow> gb_bundleName b \<noteq> Some n"
      using gs_ok_one_res[OF ok r(1) _ r(2)] m h by (auto simp: gt_name_def)
  qed
  then show ?thesis using Some by (simp add: gt_forget_def RemoveBundleResList_def)
qed (simp add: gt_forget_def)

lemma gt_forget_ok:
  assumes ok: "gs_ok s" and n: "no_res n s" and f: "gt_forget n third s = Some s'"
  shows "gs_ok s' \<and> gs_abs s' = (gs_abs s)(n := None) \<and> gs_third s' = (if third then gs_third s else gs_third s - 1)"
proof -
  from f obtain s1 s2 where s: "on_map (GT_Erase (Some n)) s = Some s1" "RemoveBundleResList (Some n) s1 = Some s2"
      "s' = (if third then s2 else s2\<lparr>gs_third := gs_third s2 - 1\<rparr>)"
    by (auto simp: gt_forget_def bind_Some_iff)
  note m = on_map_SomeD[OF s(1)]
  have wf: "gt_wf (gs_map s)" using ok by (simp add: gs_ok_def)
  note E = GT_Erase_wf[OF wf m[THEN conjunct1]] GT_Erase_set[OF wf m[THEN conjunct1]]
  have "gs_ok s1" using E m ok n by (auto simp: gs_ok_def no_res_def)
  note R = RemoveBundleResList_ok[OF this s(2)]
  show ?thesis using R E m s(3) by (auto simp: gs_ok_def)
qed

lemma GT_Uninstall_cases:
  assumes ok: "gs_ok s" and U: "GT_Uninstall G (Some n) s = Some (e, s')"
  shows "e \<in> {ERR_UNINSTALL_FAILED_BUNDLE_NOT_EXISTS, ERR_UNINSTALL_FAILED_BUNDLE_NOT_UNINSTALLABLE,
            ERR_UNINSTALL_FAILED_INTERNAL_ERROR, ERR_UNINSTALL_FAILED_DELETE_PERMISSIONS_ERROR} \<and> gs_store s' = gs_store s \<or>
         e \<in> {ERR_OK, ERR_UNINSTALL_FAILED_DELETE_DIRS_ERROR, ERR_UNINSTALL_FAILED_DELETE_RECORD_INFO_ERROR} \<and>
         (\<exists>third s1 s2. gs_store s1 = gs_store s \<and> gt_forget n third s1 = Some s2 \<and> gs_store s' = gs_store s2) \<and>
         (\<exists>b. gs_abs s n = Some b \<and> \<not> gb_isSystemApp b)"
proof -
  from U obtain q where q: "gs_query (Some n) s = Some q" by (auto simp: GT_Uninstall_def bind_Some_iff)
  show ?thesis
  proof (cases q)
    case None
    then show ?thesis using U q by (simp add: GT_Uninstall_def)
  next
    case (Some a)
    then obtain b where b: "gs_info a s = Some b" "gs_abs s n = Some b"
      using GT_Get_Some[of "gs_map s" "Some n" a] ok q by (auto simp: gs_ok_def gs_query_def gs_info_def)
    note d = U[unfolded GT_Uninstall_def, simplified q Some b, simplified, simplified b, simplified]
    show ?thesis
    proof (cases "gb_isSystemApp b")
      case True
      then show ?thesis using d by simp
    next
      case False
      note d = d[simplified False, simplified]
      show ?thesis
      proof (cases "gt_bundle_json_path n")
        case None
        then show ?thesis using d by simp
      next
        case (Some json)
        note d = d[simplified Some, simplified]
        obtain ok1 s1 where s1: "(if gt_liteos_m G then (True, s) else gs_do G (Delete_permissions (Some n)) s) = (ok1, s1)" by fastforce
        have st1: "gs_store s1 = gs_store s" using s1 store_gs_doD by (auto split: if_splits)
        note d = d[unfolded s1 split]
        show ?thesis
        proof (cases ok1)
          case False
          then show ?thesis using d st1 by simp
        next
          case True
          obtain res s2 where s2: "on_trace (GT_CheckIsThirdSystemBundle G (Some n)) s1 = (res, s2)" by fastforce
          have st2: "gs_store s2 = gs_store s" using store_on_traceD[OF s2] st1 by simp
          note d = d[unfolded s2 split, simplified True, simplified]
          then obtain code ok3 s3 ok4 s4 s5 where c: "on_trace_opt (RemoveDir G code) s2 = Some (ok3, s3)"
              "(if ok3 then do { dataPath \<leftarrow> gb_dataPath b; on_trace_opt (RemoveDir G dataPath) s3 } else Some (False, s3)) = Some (ok4, s4)"
              "gt_forget n res s4 = Some s5"
              "(if \<not> ok4 then Some (ERR_UNINSTALL_FAILED_DELETE_DIRS_ERROR, s5)
                else let (ok, s) = gs_do G (Unlink json) s5 in
                if \<not> ok then Some (ERR_UNINSTALL_FAILED_DELETE_RECORD_INFO_ERROR, s)
                else Some (ERR_OK, if res then s\<lparr>gs_trace := GT_RecordThirdSystemBundle G (Some n)
                            (Some GT_UNINSTALL_THIRD_SYSTEM_BUNDLE_JSON) (gs_trace s)\<rparr> else s)) = Some (e, s')"
            by (auto simp: bind_Some_iff)
          have "gs_store s3 = gs_store s" using store_on_trace_optD[OF c(1)] st2 by simp
          then have "gs_store s4 = gs_store s" using c(2) by (auto simp: bind_Some_iff dest!: store_on_trace_optD split: if_splits)
          moreover have "e \<in> {ERR_OK, ERR_UNINSTALL_FAILED_DELETE_DIRS_ERROR, ERR_UNINSTALL_FAILED_DELETE_RECORD_INFO_ERROR} \<and>
              gs_store s' = gs_store s5"
            using c(4) by (auto simp: split_beta Let_def split: if_splits)
          ultimately show ?thesis using c(3) b(2) \<open>\<not> gb_isSystemApp b\<close> by blast
        qed
      qed
    qed
  qed
qed

text \<open>C35 Uninstalling takes one bundle out or leaves the service as it is: a bundle that is there and is no system bundle is
  forgotten even when its directories or its record could not be removed. That it gets that far takes a bundle
  without an entry in the list of resources.\<close>

theorem mini_uninstall_outcomes:
  assumes "gs_ok s" and "GT_Uninstall G (Some n) s = Some (e, s')"
  shows "e \<in> {ERR_UNINSTALL_FAILED_BUNDLE_NOT_EXISTS, ERR_UNINSTALL_FAILED_BUNDLE_NOT_UNINSTALLABLE,
            ERR_UNINSTALL_FAILED_INTERNAL_ERROR, ERR_UNINSTALL_FAILED_DELETE_PERMISSIONS_ERROR} \<and>
          gs_map s' = gs_map s \<and> gs_res s' = gs_res s \<and> gs_third s' = gs_third s \<or>
         e \<in> {ERR_OK, ERR_UNINSTALL_FAILED_DELETE_DIRS_ERROR, ERR_UNINSTALL_FAILED_DELETE_RECORD_INFO_ERROR} \<and>
          no_res n s \<and> (\<exists>b. gs_abs s n = Some b \<and> \<not> gb_isSystemApp b) \<and> gs_ok s' \<and> gs_abs s' = (gs_abs s)(n := None) \<and>
          gs_third s' \<in> {gs_third s, gs_third s - 1}"
  using GT_Uninstall_cases[OF assms]
proof (elim disjE conjE exE)
  fix b third s1 s2
  assume e: "e \<in> {ERR_OK, ERR_UNINSTALL_FAILED_DELETE_DIRS_ERROR, ERR_UNINSTALL_FAILED_DELETE_RECORD_INFO_ERROR}"
    and s1: "gs_store s1 = gs_store s" "gt_forget n third s1 = Some s2" "gs_store s' = gs_store s2"
    and b: "gs_abs s n = Some b" "\<not> gb_isSystemApp b"
  have ok1: "gs_ok s1" using assms(1) gs_ok_cong[OF s1(1)] by simp
  have n1: "no_res n s1" using gt_forget_res[OF ok1, of n third] s1(2) by auto
  note F = gt_forget_ok[OF ok1 n1 s1(2)]
  have "gs_ok s'" using F gs_ok_cong[OF s1(3)] by simp
  then show ?thesis using e b n1 no_res_cong[OF s1(1)] F s1(1,3) by (auto simp: gs_store_eq)
qed (simp add: gs_store_eq)


section \<open>Removing a directory\<close>

lemma remove_loop_opens:
  assumes "remove_loop G list t = Some x"
  shows "list = Some p # rest \<longrightarrow> gt_readdir G t p \<noteq> None"
  using assms
proof (rule remove_loop.raw_induct[where P = "\<lambda>G list t x. list = Some p # rest \<longrightarrow> gt_readdir G t p \<noteq> None", rotated])
  fix f G list t x
  assume IH: "\<And>G list t y. f G list t = Some y \<Longrightarrow> list = Some p # rest \<longrightarrow> gt_readdir G t p \<noteq> None"
    and body: "(case list of [] \<Rightarrow> Some (True, t) | None # _ \<Rightarrow> Some (False, t)
      | Some curPath # rest \<Rightarrow>
          (let (isEmptyDir, list, t) = CheckDirIsEmpty G curPath list t in
           if isEmptyDir
           then let (ok, t) = gt_do G (Rmdir curPath) t in
             if \<not> ok then Some (rest = [], t) else f G rest t
           else f G list t)) = Some x"
  show "list = Some p # rest \<longrightarrow> gt_readdir G t p \<noteq> None"
    using body IH[of G list t x] by (cases "gt_readdir G t p") (auto simp: CheckDirIsEmpty_def)
qed

text \<open>\<open>RemoveDir\<close> does not end for a directory that is there but cannot be opened: the loop finds it neither empty nor full.\<close>

theorem RemoveDir_unopened_hangs:
  assumes "GT_IsDir G t (Some path)" and "gt_readdir G t path = None" and "gt_alloc G = plentiful" and "length path \<le> MAX_STR_SIZE"
  shows "RemoveDir G path t = None"
proof -
  have "Strdup (gt_alloc G) (Some path) = Some path" using assms(3,4) by (simp add: Strdup_def plentiful_grants)
  then show ?thesis
    using assms remove_loop_opens[of G "[Some path]" t _ path "[]"]
    by (cases "remove_loop G [Some path] t") (auto simp: RemoveDir_def plentiful_grants)
qed

section \<open>The client of the mini system\<close>

lemma slite_sent:
  assumes "Slite_Install G (Some p) cb h = Some (True, h1)"
  shows "gh_buff h1 = Some \<lparr>bb_parameter = Some p, bb_callback = Some cb\<rparr> \<and> gh_queue h1 = gh_queue h @ [BMS_INSTALL_MSG] \<and>
     gh_service h1 = gh_service h"
  using assms
  by (auto simp: Slite_Install_def slite_request_def slite_buffer_def gh_send_def Let_def bind_Some_iff split: if_splits)

lemma handle_install:
  "gh_buff h = Some \<lparr>bb_parameter = Some p, bb_callback = Some cb\<rparr> \<Longrightarrow>
   ServiceMessageHandle G BMS_INSTALL_MSG h = with_service h (Gt_Install G (Some p) cb (gh_service h))"
  by (simp add: ServiceMessageHandle_def Let_def)

text \<open>A request to install that was accepted by an idle service is handled with its own path and its own function:
  the next message the service takes is an \<open>Install\<close> with them.\<close>

theorem install_request_handled:
  assumes "gh_queue h = []" and "Slite_Install G (Some p) cb h = Some (True, h1)"
  shows "gh_step G h1 = map_option (\<lambda>(_, s). h1\<lparr>gh_queue := [], gh_service := s\<rparr>) (Gt_Install G (Some p) cb (gh_service h))"
  using slite_sent[OF assms(2)] assms(1)
  by (cases "Gt_Install G (Some p) cb (gh_service h)") (auto simp: gh_step_def handle_install with_service_def)

text \<open>C39 A second request that is accepted before the first was handled takes its place: both messages are handled with the
  parameters of the second, and the first package is never looked at.\<close>

theorem second_package_installed_twice:
  assumes "gh_queue h = []" and "Slite_Install G (Some p1) cb1 h = Some (True, h1)"
    and "Slite_Install G (Some p2) cb2 h1 = Some (True, h2)"
  shows "gh_run G 2 h2 = do {
     (_, s) \<leftarrow> Gt_Install G (Some p2) cb2 (gh_service h);
     (_, s) \<leftarrow> Gt_Install G (Some p2) cb2 s;
     Some (h2\<lparr>gh_queue := [], gh_service := s\<rparr>) }"
proof -
  note h1 = slite_sent[OF assms(2)] and h2 = slite_sent[OF assms(3)]
  show ?thesis
    by (cases "Gt_Install G (Some p2) cb2 (gh_service h)")
      (use h1 h2 assms(1) in \<open>auto simp: numeral_2_eq_2 gh_step_def handle_install with_service_def bind_assoc case_prod_unfold\<close>)
qed

end
