(* ===== verification/Gt_Samples.thy ===== *)
theory Gt_Samples
  imports Gt_Correct
begin

text \<open>
  A mini system on which a package can be installed, and what the theorems say of it.
\<close>

section \<open>A shop\<close>

text \<open>
  One package, signed for \<open>com.a.b\<close>. The directory of the scripts is there, and every other path is a file; only the package
  has anything in it.
\<close>

definition mini_config :: js where
  "mini_config = JObj [
     (''app'', JObj [(''bundleName'', JStr ''com.a.b''), (''version'', JObj [(''name'', JStr ''1.0''), (''code'', JNum 2)])]),
     (''module'', JObj [(''deviceType'', JArr [JStr ''fitnessWatch'']),
        (''distro'', JObj [(''deliveryWithInstall'', JBool True), (''moduleName'', JStr ''entry''), (''moduleType'', JStr ''entry'')]),
        (''abilities'', JArr [JObj [(''label'', JStr ''A''), (''icon'', JStr ''$media:icon''), (''iconId'', JNum 1)]])])]"

definition mini_files :: "packed_file list" where
  "mini_files = [(''config.json'', [], [7, 7])]"

definition mini_package :: "u8 list" where
  "mini_package = package_bytes ''com.a.b'' mini_files"

definition mini_length :: u32 where
  "mini_length = word_of_nat (length mini_package)"

definition mini_shop :: "js gt_system" where
  "mini_shop = (gt_sample (\<lambda>_ p. Some (p = ''/data/user/ace/run/com.a.b/assets/js/default'', 100))
       (\<lambda>_ p. Some (if p = ''/s.bin'' then mini_package else [])) False)
     \<lparr>gt_mk := js_mk (\<lambda>_. Some ''{}'') (\<lambda>_. Some mini_config), gt_global := (\<lambda>_ _ _. Some (Some ''media/icon.png'')),
      gt_verify := (\<lambda>_. (0, \<lparr>ve_appid = Some ''com.a.b_id'', ve_bundleName = Some ''com.a.b'', ve_restricPermission = []\<rparr>)),
      gt_length := (\<lambda>_. mini_length)\<rparr>"

lemma mini_shop_simps:
  "gt_alloc mini_shop = plentiful" "gt_done mini_shop t c" "gt_json mini_shop = js_api"
  "gt_stat mini_shop t p = Some (p = ''/data/user/ace/run/com.a.b/assets/js/default'', 100)"
  "gt_content mini_shop t p = Some (if p = ''/s.bin'' then mini_package else [])"
  "gt_mk mini_shop = js_mk (\<lambda>_. Some ''{}'') (\<lambda>_. Some mini_config)" "gt_global mini_shop t i p = Some (Some ''media/icon.png'')"
  "gt_deviceType mini_shop = Some ''watch''" "gt_liteos_m mini_shop = False" "gt_bc mini_shop = False"
  "gt_verify mini_shop p = (0, \<lparr>ve_appid = Some ''com.a.b_id'', ve_bundleName = Some ''com.a.b'', ve_restricPermission = []\<rparr>)"
  "gt_length mini_shop p = mini_length" "gt_rand mini_shop t k = 0" "gt_nameLen mini_shop = 64" "gt_descLen mini_shop = 256"
  by (simp_all add: mini_shop_def gt_sample_def)

lemma mini_obedient: "obedient mini_shop"
  by (simp add: obedient_def mini_shop_def gt_sample_def)

lemma mini_name: "packable_string ''com.a.b''"
  by (simp add: packable_string_def)

lemma mini_is_file: "real_path_loop p \<Longrightarrow> length p \<le> 256 \<Longrightarrow> GT_IsFile mini_shop t (Some p)"
  by (simp add: IsFile_def CheckRealPath_def gt_posix_def mini_shop_simps)

lemma mini_is_dir: "GT_IsDir mini_shop t (Some p) \<longleftrightarrow> p = ''/data/user/ace/run/com.a.b/assets/js/default''"
  by (simp add: IsDir_def gt_posix_def mini_shop_simps)

lemma mini_checked:
  "GT_PreCheckBundle mini_shop ''/s.bin'' style s =
     (case gs_query (Some ''com.a.b'') s of None \<Rightarrow> None | Some q \<Rightarrow>
        Some (if style = THIRD_APP_FLAG \<and> q = None \<and> gs_third s \<ge> 50 then ERR_INSTALL_FAILED_EXCEED_MAX_BUNDLE_NUMBER else ERR_OK,
          Some mini_package, \<lparr>sg_bundleName = Some ''com.a.b'', sg_appId = Some ''com.a.b_id'', sg_restricPermission = []\<rparr>, mini_length))"
proof -
  have a: "gt_alloc mini_shop = plentiful" by (simp add: mini_shop_simps)
  have x: "ExtractBundleParam mini_shop t ''/s.bin'' = (ERR_OK, Some mini_package, Some ''com.a.b'')" for t
    using package_header(3)[OF a mini_name, of mini_files]
    by (simp add: ExtractBundleParam_def mini_shop_simps CheckRealPath_def mini_package_def contains_def)
  have v: "GT_VerifySignature mini_shop ''/s.bin'' =
      Some (ERR_OK, \<lparr>sg_bundleName = Some ''com.a.b'', sg_appId = Some ''com.a.b_id'', sg_restricPermission = []\<rparr>, mini_length)"
    by (simp add: GT_VerifySignature_def mini_shop_simps GT_SwitchErrorCode_def SwitchErrorCode_def Strdup_def plentiful_grants)
       (simp add: mini_shop_def gt_sample_def)
  have f: "GT_IsFile mini_shop t (Some ''/s.bin'')" "GetFileSize (gt_posix mini_shop t) (Some ''/s.bin'') \<noteq> 0" for t
    by (rule mini_is_file) (simp_all add: GetFileSize_def CheckRealPath_def gt_posix_def mini_shop_simps)
  have w: "StartWith (Some ''com.a.b_id'') (Some ''com.a.b'')" "\<not> contains ''com.a.b_id'' ''.*''" "contains ''com.a.b_id'' ''com.a.b''"
    by (simp_all add: StartWith_iff contains_def)
  show ?thesis by (simp add: GT_PreCheckBundle_def x v Let_def f w split: option.split)
qed


definition mini_bundle :: GtBundleInfo where
  "mini_bundle = \<lparr>gb_isSystemApp = False, gb_compatibleApi = 3, gb_targetApi = 3, gb_versionCode = 2, gb_versionName = Some ''1.0'',
      gb_bundleName = Some ''com.a.b'', gb_label = Some ''A'', gb_bigIconPath = None, gb_codePath = Some ''/data/user/ace/run/com.a.b'',
      gb_dataPath = Some ''/data/user/ace/data/com.a.b'', gb_vendor = None,
      gb_moduleInfos = Some [\<lparr>gm_moduleName = Some ''entry'', gm_metaData = replicate 16 None\<rparr>], gb_numOfModule = 1, gb_appId = None,
      gb_smallIconPath = None,
      gb_abilityInfo = Some \<lparr>ga_srcPath = Some ''/data/user/ace/run/com.a.b/assets/js/default'', ga_bundleName = Some ''com.a.b''\<rparr>\<rparr>"

lemma mini_profile: "GT_ExtractHapProfile mini_shop mini_package mini_length = Some [7, 7]"
proof -
  have "GT_ExtractHapProfile mini_shop mini_package mini_length =
      map_option (snd \<circ> snd) (find (\<lambda>x. fst x = ''config.json'' \<and> fst (snd x) = []) mini_files)"
    unfolding mini_package_def mini_length_def
    by (rule profile_of_package) (simp_all add: mini_shop_simps mini_name mini_files_def packable_string_def package_bytes_def)
  then show ?thesis by (simp add: mini_files_def)
qed

definition mini_app :: js where
  "mini_app = JObj [(''bundleName'', JStr ''com.a.b''), (''version'', JObj [(''name'', JStr ''1.0''), (''code'', JNum 2)])]"

definition mini_module :: js where
  "mini_module = JObj [(''deviceType'', JArr [JStr ''fitnessWatch'']),
     (''distro'', JObj [(''deliveryWithInstall'', JBool True), (''moduleName'', JStr ''entry''), (''moduleType'', JStr ''entry'')]),
     (''abilities'', JArr [JObj [(''label'', JStr ''A''), (''icon'', JStr ''$media:icon''), (''iconId'', JNum 1)]])]"

definition mini_parts :: "GtBundleProfile" where
  "mini_parts = (case GT_ParseJsonInfo js_api plentiful (Some ''watch'') (Some mini_app) (Some mini_module) (zero_GtBundleProfile, None) of
     None \<Rightarrow> zero_GtBundleProfile | Some (e, p, res) \<Rightarrow> p)"

lemma mini_objects:
  "j_GetObjectItem js_api (Some mini_config) ''app'' = Some mini_app" "j_GetObjectItem js_api (Some mini_config) ''module'' = Some mini_module"
  by code_simp+

lemma mini_json:
  "GT_ParseJsonInfo js_api plentiful (Some ''watch'') (Some mini_app) (Some mini_module) (zero_GtBundleProfile, None) =
     Some (ERR_OK, mini_parts, Some \<lparr>gr_iconId = 1, gr_labelId = 0\<rparr>)"
  by code_simp

lemma mini_saved: "GT_SaveBundleInfo plentiful mini_parts (Some \<lparr>gr_iconId = 1, gr_labelId = 0\<rparr>) = Some (ERR_OK, Some mini_bundle)"
  by code_simp

lemma mini_permissions:
  "GT_ParsePermissions js_api 64 256 plentiful (ParseValue_obj js_api (Some mini_module) ''reqPermissions'' None) = (ERR_OK, [])"
  by code_simp

lemma mini_hap: "ParseHapProfile_fp mini_shop mini_package mini_length =
    Some (ERR_OK, Some (mini_bundle, [], Some \<lparr>gr_iconId = 1, gr_labelId = 0\<rparr>))"
  by (simp add: ParseHapProfile_fp_def mini_profile mini_shop_simps js_mk_def mini_objects mini_json mini_saved mini_permissions)

section \<open>An installation in the shop\<close>

lemma mini_do: "gt_do mini_shop c t = (True, t @ [c])"
  by (simp add: gt_do_def mini_shop_simps)

lemma mini_RemoveDir: "p \<noteq> ''/data/user/ace/run/com.a.b/assets/js/default'' \<Longrightarrow> RemoveDir mini_shop p t = Some (True, t @ [Unlink p])"
  by (simp add: RemoveDir_def mini_is_dir mini_do)

lemma mini_RenameDir:
  "q \<noteq> ''/data/user/ace/run/com.a.b/assets/js/default'' \<Longrightarrow> RenameDir mini_shop (Some p) (Some q) t = Some (True, t @ [Rename p q])"
  by (simp add: RenameDir_def mini_is_dir mini_do)

lemma mini_Strscat: "None \<notin> set ps \<Longrightarrow> Strscat plentiful ps = Some (concat (map the ps))"
  by (simp add: Strscat_eq plentiful_grants)

lemma mini_BackUp:
  "real_path_loop p \<Longrightarrow> length p \<le> 256 \<Longrightarrow> gi_bundleName r \<noteq> None \<Longrightarrow> gi_appId r \<noteq> None \<Longrightarrow> gi_codePath r \<noteq> None \<Longrightarrow>
   GT_BackUpInstallRecord mini_shop r (Some p) t = (True, t @ [Unlink p, Create p, Write p (gt_bytes ''{}'')])"
  by (auto simp: GT_BackUpInstallRecord_def GT_ConvertInstallRecordToJson_def StoreJsonContentToFile_def mini_shop_simps js_mk_def
      js_add_def mini_is_file CheckRealPath_def mini_do)

lemma mini_MkDirs:
  assumes "length p \<le> 256" "p \<noteq> ''/data/user/ace/run/com.a.b/assets/js/default''"
  shows "\<exists>cs. MkDirs mini_shop p t = (True, t @ cs)"
  using MkDirs_obedient[OF mini_obedient, of p t] assms by auto

abbreviation "mini_rand \<equiv> ''AAAAAAAAAAAAAAA''"

lemma mini_random: "CreateRandStr (gt_rand mini_shop t) (Some 16) 16 = Some (Some mini_rand)"
proof -
  have "gt_rand mini_shop t = (\<lambda>_. 0)" by (rule ext) (simp add: mini_shop_simps)
  moreover have "CreateRandStr (\<lambda>_. 0) (Some 16) 16 = Some (Some mini_rand)" by code_simp
  ultimately show ?thesis by simp
qed

definition mini_record :: GtInstallRecord where
  "mini_record = empty_gt_record\<lparr>gi_codePath := Some ''/data/user/ace/run/com.a.b'', gi_bundleName := Some ''com.a.b'',
     gi_appId := Some ''com.a.b_id'', gi_versionCode := 2\<rparr>"

definition mini_loose :: "GtBundleInfo \<Rightarrow> gt_trace \<Rightarrow> gt_service" where
  "mini_loose b t = gs_new\<lparr>gs_map := \<lparr>gt_infos = [], gt_heap = (\<lambda>_. None)(0 := Some b), gt_next = 1\<rparr>,
     gs_current := Some ''com.a.b'', gs_trace := t\<rparr>"

lemma mini_progress: "gt_progress G process None s = s"
  by (simp add: gt_progress_def ReportInstallCallback_def split: option.split)

lemma mini_HandleFile:
  "\<exists>cs. GT_HandleFileAndBackUpRecord mini_shop mini_record (''/data/user/ace/run/com.a.b'' @ mini_rand) mini_rand
     (Some ''/data/user/ace/data/com.a.b'') False (mini_loose b t) = Some (ERR_OK, mini_loose b (t @ cs))"
proof -
  let ?p = "''/data/user/ace/etc/bundles/com.a.bAAAAAAAAAAAAAAA.json''"
  let ?t = "t @ [Rename (''/data/user/ace/run/com.a.b'' @ mini_rand) ''/data/user/ace/run/com.a.b'', Unlink ?p, Create ?p, Write ?p (gt_bytes ''{}''),
      Unlink ''/data/user/ace/data/com.a.b'']"
  from mini_MkDirs[of "''/data/user/ace/data/com.a.b''" ?t] obtain cs where cs: "MkDirs mini_shop ''/data/user/ace/data/com.a.b'' ?t = (True, ?t @ cs)"
    by auto
  have r: "gi_bundleName mini_record = Some ''com.a.b''" "gi_codePath mini_record = Some ''/data/user/ace/run/com.a.b''"
      "gi_appId mini_record = Some ''com.a.b_id''"
    by (simp_all add: mini_record_def)
  have "GT_HandleFileAndBackUpRecord mini_shop mini_record (''/data/user/ace/run/com.a.b'' @ mini_rand) mini_rand
     (Some ''/data/user/ace/data/com.a.b'') False (mini_loose b t) = Some (ERR_OK, mini_loose b (?t @ cs))"
    using cs
    by (simp add: GT_HandleFileAndBackUpRecord_def r RemoveBundleResList_def mini_loose_def gs_new_def on_trace_opt_def
        mini_RenameDir mini_shop_simps mini_Strscat on_trace_def mini_BackUp mini_RemoveDir Let_def)
  then show ?thesis by fastforce
qed

definition mini_signed :: GtBundleInfo where
  "mini_signed = mini_bundle\<lparr>gb_appId := Some ''com.a.b_id''\<rparr>"

definition mini_shown :: GtBundleInfo where
  "mini_shown = mini_signed\<lparr>gb_bigIconPath := Some ''/data/user/ace/run/com.a.b/assets/media/icon.bin'',
     gb_smallIconPath := Some ''/data/user/ace/run/com.a.b/assets/media/icon_small.bin''\<rparr>"

lemma mini_signed_fields:
  "gb_bundleName mini_signed = Some ''com.a.b''" "gb_codePath mini_signed = Some ''/data/user/ace/run/com.a.b''"
  "gb_dataPath mini_signed = Some ''/data/user/ace/data/com.a.b''" "gb_versionCode mini_signed = 2"
  "gb_moduleInfos mini_signed = Some [\<lparr>gm_moduleName = Some ''entry'', gm_metaData = replicate 16 None\<rparr>]"
  "gb_abilityInfo mini_signed = Some \<lparr>ga_srcPath = Some ''/data/user/ace/run/com.a.b/assets/js/default'', ga_bundleName = Some ''com.a.b''\<rparr>"
  by (simp_all add: mini_signed_def mini_bundle_def)

lemma mini_icon: "rfind_char (CHR ''/'') ''media/icon.png'' = Some 5"
  by code_simp

lemma mini_converted:
  "GT_ConvertResInfoToBundleInfo mini_shop t (Some ''/data/user/ace/run/com.a.b'') 0 1 mini_signed = Some (ERR_OK, mini_shown)"
  by (simp add: GT_ConvertResInfoToBundleInfo_def GT_ConvertIconResToBundleInfo_def mini_signed_fields mini_shop_simps mini_Strscat
      mini_is_file mini_icon mini_shown_def Let_def)

definition mini_stocked :: "gt_trace \<Rightarrow> gt_service" where
  "mini_stocked t = gs_new\<lparr>gs_map := \<lparr>gt_infos = [0], gt_heap = (\<lambda>_. None)(0 := Some mini_shown), gt_next = 1\<rparr>,
     gs_res := [\<lparr>br_owner = 0, br_abilityRes = \<lparr>gr_iconId = 1, gr_labelId = 0\<rparr>\<rparr>],
     gs_current := Some ''com.a.b'', gs_trace := t\<rparr>"

lemma mini_updated:
  "GT_UpdateBundleInfo mini_shop THIRD_APP_FLAG 0 1 0 False (mini_loose mini_signed t) = Some (ERR_OK, mini_stocked t)"
proof -
  have sh: "mini_shown\<lparr>gb_isSystemApp := False\<rparr> = mini_shown" "gb_bundleName mini_shown = Some ''com.a.b''"
    by (simp_all add: mini_shown_def mini_signed_def mini_bundle_def)
  show ?thesis
    by (simp add: GT_UpdateBundleInfo_def mini_loose_def gs_new_def gs_info_def mini_signed_fields mini_is_dir mini_converted
        on_map_def gt_put_def GT_Add_def GT_AddBundleRes_def GT_AddBundleResList_def mini_shop_simps plentiful_grants
        mini_stocked_def sh del: One_nat_def)
qed

lemma mini_registered:
  "\<exists>cs. gt_register mini_shop mini_rand THIRD_APP_FLAG None 0 [] 0 1 (''/data/user/ace/run/com.a.b'' @ mini_rand) mini_record
     (mini_loose mini_signed t) = Some (ERR_OK, mini_record, mini_stocked (t @ cs))"
proof -
  from mini_HandleFile[of mini_signed t] obtain cs where h:
    "GT_HandleFileAndBackUpRecord mini_shop mini_record (''/data/user/ace/run/com.a.b'' @ mini_rand) mini_rand
     (Some ''/data/user/ace/data/com.a.b'') False (mini_loose mini_signed t) = Some (ERR_OK, mini_loose mini_signed (t @ cs))" by blast
  have i: "gs_info 0 (mini_loose mini_signed u) = Some mini_signed" for u by (simp add: mini_loose_def gs_info_def)
  have q: "gs_query (Some ''com.a.b'') (mini_loose mini_signed t) = Some None"
    by (simp add: gs_query_def GT_Get_def mini_loose_def)
  have m: "MoveRawFileToDataPath mini_shop mini_signed s = Some (ERR_OK, s)" for s
    by (simp add: MoveRawFileToDataPath_def mini_signed_fields mini_shop_simps mini_Strscat mini_is_dir)
  have r: "gi_bundleName mini_record = Some ''com.a.b''" by (simp add: mini_record_def)
  have "gt_register mini_shop mini_rand THIRD_APP_FLAG None 0 [] 0 1 (''/data/user/ace/run/com.a.b'' @ mini_rand) mini_record
     (mini_loose mini_signed t) = Some (ERR_OK, mini_record, mini_stocked (t @ cs))"
    using h by (simp add: gt_register_def r q i m mini_signed_fields or_rollback_def mini_progress GT_StorePermissions_def
        mini_updated Let_def)
  then show ?thesis by blast
qed

lemma mini_unpacked:
  "\<exists>cs. gt_unpack mini_shop mini_rand THIRD_APP_FLAG None mini_package mini_length 0 [] 0 1 mini_record (mini_loose mini_signed t) =
     Some (ERR_OK, mini_record, mini_stocked (t @ cs))"
proof -
  let ?tmp = "''/data/user/ace/run/com.a.b'' @ mini_rand"
  have "\<exists>cs. GT_ExtractHap mini_shop (Some ?tmp) (Some ''com.a.b'') mini_package mini_length t = (ERR_OK, t @ cs)"
    using unpack_package[OF mini_obedient mini_name, of ?tmp mini_files t]
    unfolding mini_package_def[symmetric] mini_length_def[symmetric]
    by (auto simp: mini_files_def unpackable_def packable_string_def real_path_loop_iff[symmetric] mini_package_def package_bytes_def)
  then obtain cs where x: "GT_ExtractHap mini_shop (Some ?tmp) (Some ''com.a.b'') mini_package mini_length t = (ERR_OK, t @ cs)" by blast
  from mini_registered[of "t @ cs"] obtain ds where d: "gt_register mini_shop mini_rand THIRD_APP_FLAG None 0 [] 0 1 ?tmp mini_record
     (mini_loose mini_signed (t @ cs)) = Some (ERR_OK, mini_record, mini_stocked ((t @ cs) @ ds))" by blast
  have r: "gi_bundleName mini_record = Some ''com.a.b''" "gi_codePath mini_record = Some ''/data/user/ace/run/com.a.b''"
    by (simp_all add: mini_record_def)
  have l: "(mini_loose mini_signed t)\<lparr>gs_trace := u\<rparr> = mini_loose mini_signed u" "gs_trace (mini_loose mini_signed u) = u" for u
    by (simp_all add: mini_loose_def)
  have "gt_unpack mini_shop mini_rand THIRD_APP_FLAG None mini_package mini_length 0 [] 0 1 mini_record (mini_loose mini_signed t) =
     Some (ERR_OK, mini_record, mini_stocked ((t @ cs) @ ds))"
    using x d by (simp add: gt_unpack_def r mini_shop_simps mini_Strscat on_trace_def l mini_progress Let_def)
  then show ?thesis by (metis append.assoc)
qed

lemma mini_processed:
  "\<exists>t. GT_ProcessBundleInstall mini_shop ''/s.bin'' mini_rand empty_gt_record THIRD_APP_FLAG None gs_new =
     Some (ERR_OK, mini_record, mini_stocked t)"
proof -
  let ?sig = "\<lparr>sg_bundleName = Some ''com.a.b'', sg_appId = Some ''com.a.b_id'', sg_restricPermission = []\<rparr>"
  have n: "gs_query (Some ''com.a.b'') gs_new = Some None" "gs_third gs_new = 0" by (simp_all add: gs_query_def GT_Get_def gs_new_def gt_map_new_def)
  have c: "GT_PreCheckBundle mini_shop ''/s.bin'' THIRD_APP_FLAG gs_new = Some (ERR_OK, Some mini_package, ?sig, mini_length)"
    by (simp add: mini_checked n)
  have al: "gt_alloc_info mini_bundle (gs_map gs_new) = (0, \<lparr>gt_infos = [], gt_heap = (\<lambda>_. None)(0 := Some mini_bundle), gt_next = 1\<rparr>)"
    by (simp add: gt_alloc_info_def gs_new_def gt_map_new_def)
  have b: "gb_bundleName mini_bundle = Some ''com.a.b''" "gb_codePath mini_bundle = Some ''/data/user/ace/run/com.a.b''"
      "gb_versionCode mini_bundle = 2" by (simp_all add: mini_bundle_def)
  have cur: "SetCurrentBundle mini_shop (Some ''com.a.b'') (gs_new\<lparr>gs_map := \<lparr>gt_infos = [], gt_heap = (\<lambda>_. None)(0 := Some mini_bundle), gt_next = 1\<rparr>\<rparr>) =
      mini_loose mini_bundle []"
    by (simp add: SetCurrentBundle_def mini_shop_simps plentiful_grants mini_loose_def gs_new_def)
  have p: "GT_CheckProvisionInfoIsValid ?sig (Some ''com.a.b'') = ERR_OK"
    by (simp add: GT_CheckProvisionInfoIsValid_def MatchBundleName_def)
  have put: "on_map (gt_put 0 mini_signed) (mini_loose mini_bundle []) = Some (mini_loose mini_signed [])"
    by (simp add: on_map_def gt_put_def mini_loose_def)
  have dup: "Strdup plentiful (Some ''com.a.b_id'') = Some ''com.a.b_id''" by (simp add: Strdup_def plentiful_grants)
  have v: "GT_CheckVersionAndSignature mini_shop (Some ''com.a.b'') (Some ''com.a.b_id'') mini_signed (mini_loose mini_signed []) = Some ERR_OK"
    by (simp add: GT_CheckVersionAndSignature_def gs_query_def GT_Get_def mini_loose_def)
  from mini_unpacked[of "[]"] obtain t where u: "gt_unpack mini_shop mini_rand THIRD_APP_FLAG None mini_package mini_length 0 [] 0 1 mini_record
     (mini_loose mini_signed []) = Some (ERR_OK, mini_record, mini_stocked t)" by auto
  have r: "empty_gt_record\<lparr>gi_codePath := Some ''/data/user/ace/run/com.a.b'', gi_bundleName := Some ''com.a.b'',
      gi_appId := Some ''com.a.b_id'', gi_versionCode := 2\<rparr> = mini_record" by (simp add: mini_record_def)
  have rf: "gi_bundleName mini_record = Some ''com.a.b''" "gi_appId mini_record = Some ''com.a.b_id''" by (simp_all add: mini_record_def)
  have "GT_ProcessBundleInstall mini_shop ''/s.bin'' mini_rand empty_gt_record THIRD_APP_FLAG None gs_new =
     Some (ERR_OK, mini_record, mini_stocked t)"
    unfolding GT_ProcessBundleInstall_def mini_progress Let_def c
    by (simp add: mini_shop_simps mini_hap al b cur p dup r rf mini_signed_def[symmetric] put v u del: One_nat_def)
  then show ?thesis by blast
qed

lemma mini_installed:
  "\<exists>t. GT_Install mini_shop (Some ''/s.bin'') None gs_new = Some (ERR_OK, (mini_stocked t)\<lparr>gs_third := 1\<rparr>)"
proof -
  from mini_processed obtain t where p: "GT_ProcessBundleInstall mini_shop ''/s.bin'' mini_rand empty_gt_record THIRD_APP_FLAG None gs_new =
     Some (ERR_OK, mini_record, mini_stocked t)" by blast
  have style: "install_style (Some ''/s.bin'') = THIRD_APP_FLAG" by (simp add: install_style_def StartWith_iff)
  have r: "gi_bundleName mini_record = Some ''com.a.b''" by (simp add: mini_record_def)
  have "\<exists>cs. GT_RenameJsonFile mini_shop (Some ''com.a.b'') (Some mini_rand) t = (True, t @ cs)"
    by (simp add: GT_RenameJsonFile_def mini_shop_simps mini_Strscat mini_is_file GT_RenameFile_def mini_do)
  then obtain cs where j: "GT_RenameJsonFile mini_shop (Some ''com.a.b'') (Some mini_rand) t = (True, t @ cs)" by blast
  have s: "gs_trace (mini_stocked u) = u" "(mini_stocked u)\<lparr>gs_trace := w\<rparr> = mini_stocked w" "gs_third (mini_stocked u) = 0" for u w
    by (simp_all add: mini_stocked_def gs_new_def)
  have "GT_Install mini_shop (Some ''/s.bin'') None gs_new = Some (ERR_OK, (mini_stocked (t @ cs))\<lparr>gs_third := 1\<rparr>)"
    by (simp add: GT_Install_def style mini_random p mini_progress r on_trace_def j s Let_def)
  then show ?thesis by blast
qed

section \<open>The theorems at work\<close>

lemma gs_ok_new: "gs_ok gs_new"
  by (simp add: gs_ok_def gt_wf_def gs_new_def gt_map_new_def)

theorem mini_install_success_witness:
  "\<exists>n b s'. GT_Install mini_shop (Some ''/s.bin'') None gs_new = Some (ERR_OK, s') \<and> gs_abs s' = [n \<mapsto> b] \<and>
     gt_signed mini_shop ''/s.bin'' n \<and> gs_third s' = 1"
proof -
  from mini_installed obtain s' where i: "GT_Install mini_shop (Some ''/s.bin'') None gs_new = Some (ERR_OK, s')" by blast
  have "gs_abs gs_new = Map.empty" by (auto simp: gt_abs_def gs_new_def gt_map_new_def)
  moreover have "install_style (Some ''/s.bin'') = THIRD_APP_FLAG" "gs_third gs_new = 0"
    by (simp_all add: install_style_def StartWith_iff gs_new_def)
  ultimately show ?thesis using mini_install_success[OF gs_ok_new i] i by auto
qed



text \<open>The bundle as it is after a restart that found no resources.\<close>

definition mini_plain :: gt_service where
  "mini_plain = (mini_stocked [])\<lparr>gs_res := []\<rparr>"

lemma mini_shown_fields:
  "gb_bundleName mini_shown = Some ''com.a.b''" "gb_codePath mini_shown = Some ''/data/user/ace/run/com.a.b''"
  "gb_dataPath mini_shown = Some ''/data/user/ace/data/com.a.b''" "\<not> gb_isSystemApp mini_shown"
  by (simp_all add: mini_shown_def mini_signed_def mini_bundle_def)

lemma mini_plain_ok: "gs_ok mini_plain"
  by (simp add: gs_ok_def gt_wf_def gt_name_def mini_plain_def mini_stocked_def gs_new_def mini_shown_fields)

lemma mini_uninstalled: "\<exists>s'. GT_Uninstall mini_shop (Some ''com.a.b'') mini_plain = Some (ERR_OK, s')"
proof -
  have "GT_CheckIsThirdSystemBundle mini_shop (Some ''com.a.b'') t = (False, t)" for t
    by (simp add: GT_CheckIsThirdSystemBundle_def GT_GetJsonStream_def mini_is_file[unfolded gt_posix_def] gt_posix_def
        mini_shop_simps gt_chars_def plentiful_grants Let_def)
  then show ?thesis
    by (simp add: GT_Uninstall_def gs_query_def GT_Get_def gs_info_def mini_plain_def mini_stocked_def gs_new_def mini_shown_fields
        gt_bundle_json_path_def mini_shop_simps gs_do_def on_trace_def mini_do on_trace_opt_def mini_RemoveDir gt_forget_def
        on_map_def GT_Erase_def gt_free_def RemoveBundleResList_def Let_def)
qed

theorem mini_uninstall_outcomes_witness:
  "\<exists>s'. GT_Uninstall mini_shop (Some ''com.a.b'') mini_plain = Some (ERR_OK, s') \<and>
     gs_abs s' = (gs_abs mini_plain)(''com.a.b'' := None)"
proof -
  from mini_uninstalled obtain s' where u: "GT_Uninstall mini_shop (Some ''com.a.b'') mini_plain = Some (ERR_OK, s')" by blast
  from mini_uninstall_outcomes[OF mini_plain_ok u] u show ?thesis by auto
qed

theorem liteos_installs_nothing_witness:
  "\<exists>e s'. GT_Install (mini_shop\<lparr>gt_liteos_m := True\<rparr>) (Some ''/s.bin'') None gs_new = Some (e, s') \<and> e \<noteq> ERR_OK \<and>
     gs_map s' = gs_map gs_new \<and> gs_res s' = gs_res gs_new"
  by (rule liteos_installs_nothing) (use gs_ok_new in \<open>simp_all add: gs_ok_def\<close>)

lemma mini_sent:
  "length p < 256 \<Longrightarrow> \<exists>h1. Slite_Install mini_shop (Some p) cb h = Some (True, h1)"
  by (simp add: Slite_Install_def slite_buffer_def slite_request_def gh_send_def mini_shop_simps plentiful_grants Let_def)
     (auto simp: mini_shop_def gt_sample_def)

theorem install_request_handled_witness:
  "\<exists>h1. Slite_Install mini_shop (Some ''/s.bin'') (Some 7) gh_new = Some (True, h1) \<and>
     gh_step mini_shop h1 = map_option (\<lambda>(_, s). h1\<lparr>gh_queue := [], gh_service := s\<rparr>) (Gt_Install mini_shop (Some ''/s.bin'') (Some 7) gs_new)"
proof -
  from mini_sent[of "''/s.bin''"] obtain h1 where h1: "Slite_Install mini_shop (Some ''/s.bin'') (Some 7) gh_new = Some (True, h1)" by auto
  from install_request_handled[OF _ h1] h1 show ?thesis by (simp add: gh_new_def)
qed

theorem second_package_installed_twice_witness:
  "\<exists>h1 h2. Slite_Install mini_shop (Some ''/a.bin'') (Some 1) gh_new = Some (True, h1) \<and>
     Slite_Install mini_shop (Some ''/s.bin'') (Some 2) h1 = Some (True, h2) \<and>
     gh_run mini_shop 2 h2 = do {
       (_, s) \<leftarrow> Gt_Install mini_shop (Some ''/s.bin'') (Some 2) gs_new;
       (_, s) \<leftarrow> Gt_Install mini_shop (Some ''/s.bin'') (Some 2) s;
       Some (h2\<lparr>gh_queue := [], gh_service := s\<rparr>) }"
proof -
  from mini_sent[of "''/a.bin''"] obtain h1 where h1: "Slite_Install mini_shop (Some ''/a.bin'') (Some 1) gh_new = Some (True, h1)" by auto
  from mini_sent[of "''/s.bin''"] obtain h2 where h2: "Slite_Install mini_shop (Some ''/s.bin'') (Some 2) h1 = Some (True, h2)" by auto
  from second_package_installed_twice[OF _ h1 h2] h1 h2 show ?thesis by (simp add: gh_new_def)
qed

theorem RemoveDir_unopened_hangs_witness:
  "RemoveDir (mini_shop\<lparr>gt_readdir := (\<lambda>_ _. None)\<rparr>) ''/data/user/ace/run/com.a.b/assets/js/default'' [] = None"
  by (rule RemoveDir_unopened_hangs) (simp_all add: mini_shop_simps IsDir_def gt_posix_def)

end
