(* ===== verification/Gt_Answers.thy ===== *)
theory Gt_Answers
  imports Gt_Samples
begin

text \<open>
  What the caller of an installation is told at the end.
\<close>

section \<open>Who keeps the message\<close>

definition announced :: "gt_service \<Rightarrow> unit option" where
  "announced s = map_option (\<lambda>_. ()) (gs_msg s)"

lemma announced_updates [simp]:
  "announced (s\<lparr>gs_trace := t\<rparr>) = announced s" "announced (s\<lparr>gs_map := g\<rparr>) = announced s"
  "announced (s\<lparr>gs_res := r\<rparr>) = announced s" "announced (s\<lparr>gs_third := n\<rparr>) = announced s"
  "announced (s\<lparr>gs_current := c\<rparr>) = announced s"
  by (simp_all add: announced_def)

lemma announced_on_trace [simp]: "announced (snd (on_trace f s)) = announced s"
  by (simp add: on_trace_def split: prod.split)

lemma announced_gs_do [simp]: "announced (snd (gs_do G c s)) = announced s"
  by (simp add: gs_do_def)

lemma announced_SetCurrentBundle [simp]: "announced (SetCurrentBundle G n s) = announced s"
  by (simp add: SetCurrentBundle_def)

lemma announced_progress [simp]: "announced (gt_progress G p cb s) = announced s"
  by (simp add: gt_progress_def ReportInstallCallback_def Let_def split: option.split) (simp add: announced_def)

text \<open>What holds of the result, if there is one.\<close>

definition ends :: "('r \<Rightarrow> bool) \<Rightarrow> 'r option \<Rightarrow> bool" where
  "ends P r \<longleftrightarrow> (case r of None \<Rightarrow> True | Some x \<Rightarrow> P x)"

lemma ends_simps [simp]:
  "ends P None" "ends P (Some x) \<longleftrightarrow> P x" "ends P (Option.bind r f) \<longleftrightarrow> ends (\<lambda>x. ends P (f x)) r"
  by (simp_all add: ends_def split: option.split bind_split)

lemma ends_D: "ends P r \<Longrightarrow> r = Some x \<Longrightarrow> P x"
  by (simp add: ends_def)

lemma ends_any: "(\<And>x. P x) \<Longrightarrow> ends P r"
  by (simp add: ends_def split: option.split)

lemma ends_mono: "ends Q r \<Longrightarrow> (\<And>x. Q x \<Longrightarrow> P x) \<Longrightarrow> ends P r"
  by (simp add: ends_def split: option.splits)

text \<open>The steps that end in a state with a message exactly if they began in one.\<close>

abbreviation keeps_state :: "gt_service \<Rightarrow> gt_service \<Rightarrow> bool" where
  "keeps_state s \<equiv> \<lambda>s'. announced s' = announced s"

abbreviation keeps_pair :: "gt_service \<Rightarrow> 'a \<times> gt_service \<Rightarrow> bool" where
  "keeps_pair s \<equiv> \<lambda>x. announced (snd x) = announced s"

abbreviation keeps_step :: "gt_service \<Rightarrow> 'a \<times> 'b \<times> gt_service \<Rightarrow> bool" where
  "keeps_step s \<equiv> \<lambda>x. announced (snd (snd x)) = announced s"

lemma ends_on_map: "(\<And>s'. announced s' = announced s \<Longrightarrow> P s') \<Longrightarrow> ends P (on_map f s)"
  by (simp add: on_map_def ends_any)

lemma ends_on_trace_opt: "(\<And>x s'. announced s' = announced s \<Longrightarrow> P (x, s')) \<Longrightarrow> ends P (on_trace_opt f s)"
  by (simp add: on_trace_opt_def split_beta ends_any)

lemma ends_state: "ends (keeps_state s) r \<Longrightarrow> (\<And>s'. announced s' = announced s \<Longrightarrow> P s') \<Longrightarrow> ends P r"
  by (rule ends_mono)

lemma ends_pair: "ends (keeps_pair s) r \<Longrightarrow> (\<And>x s'. announced s' = announced s \<Longrightarrow> P (x, s')) \<Longrightarrow> ends P r"
  by (erule ends_mono) auto

lemma ends_step: "ends (keeps_step s) r \<Longrightarrow> (\<And>x y s'. announced s' = announced s \<Longrightarrow> P (x, y, s')) \<Longrightarrow> ends P r"
  by (erule ends_mono) auto

lemma FREE_PRO_announced: "ends (keeps_state s) (FREE_PRO a s)"
  by (simp add: FREE_PRO_def ends_on_map)

lemma PART_ROLLBACK_announced: "ends (keeps_state s) (PART_ROLLBACK G p a s)"
  by (auto simp: PART_ROLLBACK_def intro!: ends_on_trace_opt ends_state[OF FREE_PRO_announced])

lemma CLEAR_announced: "ends (keeps_state s) (GT_CLEAR_INSTALL_ENV G a s)"
  by (auto simp: GT_CLEAR_INSTALL_ENV_def intro!: ends_any[of _ "gs_info a s"] ends_any[of _ "gb_codePath b" for b]
      ends_any[of _ "gb_dataPath b" for b] ends_on_trace_opt ends_state[OF FREE_PRO_announced])

lemma ROLLBACK_announced: "ends (keeps_state s) (ROLLBACK G a r s)"
  by (auto simp: ROLLBACK_def intro!: ends_any[of _ "gs_info a s" for a s] ends_on_map ends_state[OF CLEAR_announced])

lemma RemoveBundleResList_announced: "ends (keeps_state s) (RemoveBundleResList n s)"
  by (auto simp: RemoveBundleResList_def intro!: ends_any[of _ "find_res h n r" for h n r] split: option.split)

lemma AddBundleRes_announced: "ends (keeps_pair s) (GT_AddBundleRes G a l i s)"
  by (auto simp: GT_AddBundleRes_def GT_AddBundleResList_def intro!: ends_any[of _ "gs_info a s" for a s]
      ends_any[of _ "find_res h n r" for h n r] split: option.split)

lemma HandleFile_announced: "ends (keeps_pair s) (GT_HandleFileAndBackUpRecord G r t n d u s)"
  by (auto simp: GT_HandleFileAndBackUpRecord_def Let_def split_beta
      intro!: ends_state[OF RemoveBundleResList_announced] ends_on_trace_opt split: option.split)

lemma MoveRaw_announced: "ends (keeps_pair s) (MoveRawFileToDataPath G b s)"
  by (auto simp: MoveRawFileToDataPath_def intro!: ends_any[of _ "gb_moduleInfos b" for b] ends_on_trace_opt split: option.split list.split)

lemma announced_StorePermissions [simp]: "announced (snd (GT_StorePermissions G n p u s)) = announced s"
  by (simp add: GT_StorePermissions_def Let_def split_beta split: option.split)

lemma UpdateBundleInfo_announced: "ends (keeps_pair s) (GT_UpdateBundleInfo G y l i a u s)"
  by (auto simp: GT_UpdateBundleInfo_def Let_def intro!: ends_any[of _ "gs_info a s" for a s] ends_any[of _ "gs_query n s" for n s]
      ends_any[of _ "GT_ConvertResInfoToBundleInfo G t p l i b" for t p l i b] ends_any[of _ "GT_Update a g" for a g]
      ends_on_map ends_pair[OF AddBundleRes_announced] split: option.split)

lemma or_rollback_announced:
  "announced (snd x) = announced s \<Longrightarrow> (\<And>s'. announced s' = announced s \<Longrightarrow> ends (keeps_step s) (cont s')) \<Longrightarrow>
   ends (keeps_step s) (or_rollback G a n r x cont)"
  by (auto simp: or_rollback_def split_beta intro!: ends_state[OF ROLLBACK_announced])

lemma register_announced: "ends (keeps_step s) (gt_register G n y cb a p l i t r s)"
  unfolding gt_register_def
  by (auto simp: Let_def intro!: ends_any[of _ "gs_info a s" for a s] ends_any[of _ "gs_query n s" for n s] or_rollback_announced
      ends_pair[OF HandleFile_announced] ends_pair[OF MoveRaw_announced] ends_pair[OF UpdateBundleInfo_announced])

lemma unpack_announced: "ends (keeps_step s) (gt_unpack G n y cb f k a p l i r s)"
  unfolding gt_unpack_def
  by (auto simp: Let_def split_beta intro!: ends_state[OF FREE_PRO_announced] ends_state[OF PART_ROLLBACK_announced]
      ends_step[OF register_announced] split: option.split)

lemma ends_if: "(c \<Longrightarrow> ends P x) \<Longrightarrow> (\<not> c \<Longrightarrow> ends P y) \<Longrightarrow> ends P (if c then x else y)"
  by simp

lemma ends_bind: "ends (\<lambda>x. ends P (f x)) r \<Longrightarrow> ends P (Option.bind r f)"
  by simp

lemma freed_announced: "announced s1 = announced s \<Longrightarrow> ends (keeps_step s) (do { s' \<leftarrow> FREE_PRO a s1; Some (e, r, s') })"
  by (auto intro!: ends_state[OF FREE_PRO_announced])

lemma Process_announced: "ends (keeps_step s) (GT_ProcessBundleInstall G p n r y cb s)"
    unfolding GT_ProcessBundleInstall_def Let_def
    apply (rule ends_bind, rule ends_any, simp only: split_beta)
    apply (rule ends_if)
     apply simp
    apply (rule option.split[THEN iffD2], intro conjI impI allI)
     apply simp
    apply (rule ends_bind, rule ends_any, simp only: split_beta)
    apply (rule ends_if)
     apply simp
    apply (rule ends_bind, rule ends_any, simp only: split_beta)
    apply (rule ends_if)
     apply (rule freed_announced, simp)
    apply (rule ends_bind, rule ends_on_map)
    apply (rule ends_bind, rule ends_any)
    apply (rule ends_if)
     apply (rule freed_announced, simp)
    apply (rule ends_step[OF unpack_announced], simp)
    done

lemma Install_announced: "ends (keeps_pair s) (GT_Install G p cb s)"
  unfolding GT_Install_def
  by (auto simp: Let_def split_beta intro!: ends_any[of _ "CreateRandStr f c l" for f c l] ends_any[of _ "str :: cstr" for str]
      ends_step[OF Process_announced] ends_any[of _ "gs_query n s" for n s] ends_state[OF CLEAR_announced] split: option.split)

section \<open>Removing a directory only removes\<close>

definition quiet_call :: "gt_call \<Rightarrow> bool" where
  "quiet_call c \<longleftrightarrow> (case c of Unlink _ \<Rightarrow> True | Rmdir _ \<Rightarrow> True | _ \<Rightarrow> False)"

lemma dir_entries_adds: "adds quiet_call t (snd (snd (dir_entries G p ns e list t)))"
proof (induction ns arbitrary: e list t)
  case (Cons n ns)
  have "adds quiet_call t (snd (gt_do G (Unlink (p @ ''/'' @ n)) t))" by (simp add: gt_do_def quiet_call_def)
  from gt_adds_trans[OF this Cons.IH] Cons.IH show ?case by (simp add: Let_def)
qed simp

lemma remove_loop_adds:
  assumes "remove_loop G list t = Some (x, t')"
  shows "adds quiet_call t t'"
proof -
  have "adds quiet_call t (snd y)" if "remove_loop G list t = Some y" for y
  proof (rule remove_loop.raw_induct[where P = "\<lambda>G list t y. adds quiet_call t (snd y)", OF _ that])
    fix f G list t y
    assume IH: "\<And>G list t y. f G list t = Some y \<Longrightarrow> adds quiet_call t (snd y)"
      and body: "(case list of [] \<Rightarrow> Some (True, t) | None # _ \<Rightarrow> Some (False, t)
      | Some curPath # rest \<Rightarrow>
          (let (isEmptyDir, list, t) = CheckDirIsEmpty G curPath list t in
           if isEmptyDir
           then let (ok, t) = gt_do G (Rmdir curPath) t in
             if \<not> ok then Some (rest = [], t) else f G rest t
           else f G list t)) = Some y"
    show "adds quiet_call t (snd y)"
    proof (cases list)
      case (Cons h rest)
      show ?thesis
      proof (cases h)
        case (Some p)
        obtain em l u where c: "CheckDirIsEmpty G p list t = (em, l, u)" by (cases "CheckDirIsEmpty G p list t")
        have 1: "adds quiet_call t u"
          using c dir_entries_adds[of t G p _ True list] by (auto simp: CheckDirIsEmpty_def split: option.splits) (metis snd_conv)
        obtain ok v where g: "gt_do G (Rmdir p) u = (ok, v)" by fastforce
        have 2: "adds quiet_call u v" using g by (auto simp: gt_do_def quiet_call_def)
        have "adds quiet_call u (snd y)"
          using body Cons Some c g 2 IH[of G l u y] gt_adds_trans[OF 2 IH[of G rest v y]] by (auto split: if_split_asm)
        with 1 show ?thesis by (rule gt_adds_trans)
      qed (use body Cons in auto)
    qed (use body in auto)
  qed
  from this[OF assms] show ?thesis by simp
qed

lemma RemoveDir_adds: "RemoveDir G p t = Some (x, t') \<Longrightarrow> adds quiet_call t t'"
  by (auto simp: RemoveDir_def gt_do_def quiet_call_def split: if_split_asm dest: remove_loop_adds)

section \<open>The end of a request\<close>

lemma remove_tmp_quiet: "remove_tmp G s = Some s' \<Longrightarrow> adds quiet_call (gs_trace s) (gs_trace s') \<and> gs_map s' = gs_map s"
  by (auto simp: remove_tmp_def on_trace_opt_def bind_Some_iff dest: RemoveDir_adds)

lemma report_trace:
  assumes "gt_alloc G = plentiful" and "announced s \<noteq> None"
  shows "\<exists>n. gs_trace (ReportInstallCallback G e st pr (Some f) s) = gs_trace s @ [Report f e st pr n]"
    and "gs_map (ReportInstallCallback G e st pr (Some f) s) = gs_map s"
  using assms by (auto simp: ReportInstallCallback_def announced_def plentiful_grants gs_do_def on_trace_def gt_do_def Let_def)

text \<open>The last report, before the temporary directory is removed.\<close>

definition told_last :: "nat \<Rightarrow> errcode \<Rightarrow> gt_trace \<Rightarrow> bool" where
  "told_last f ret t \<longleftrightarrow>
     (\<exists>before n cs. t = before @ Report f ret (if ret = ERR_OK then BUNDLE_INSTALL_OK else BUNDLE_INSTALL_FAIL) 100 n # cs \<and>
        list_all quiet_call cs)"

lemma told_lastI:
  assumes "gt_alloc G = plentiful" "announced s \<noteq> None" "st = (if ret = ERR_OK then BUNDLE_INSTALL_OK else BUNDLE_INSTALL_FAIL)"
    and "gs_trace s1 = gs_trace (ReportInstallCallback G ret st 100 (Some f) s)" "remove_tmp G s1 = Some s'"
  shows "told_last f ret (gs_trace s')"
proof -
  from report_trace(1)[OF assms(1,2), of ret st 100 f] obtain n where
    "gs_trace s1 = gs_trace s @ [Report f ret st 100 n]" using assms(4) by auto
  moreover from remove_tmp_quiet[OF assms(5)] obtain cs where "gs_trace s' = gs_trace s1 @ cs" "list_all quiet_call cs"
    by (auto simp: adds_def)
  ultimately show ?thesis using assms(3) unfolding told_last_def by fastforce
qed



end
