(* ===== verification/Spec2Isabelle.thy ===== *)
theory Spec2Isabelle
  imports Prelude Errors Utils_List Bundle_Types Info_Utils Bundle_Map Bundle_Util Json Bundle_Name Bundle_Parser Uid_Maps
    Info_Creator System Bundle_Records Hap_Profile Bundle_Store Installer Installer_Correct Folder_Size
    Manager_Service Manager_Correct Zip_File Zip_Correct Daemon_Files Daemon Daemon_Correct Convert_Utils
    Convert_Correct Ipc Element_Name Ms_Feature Callbacks Bundle_Client Api_Correct Api_Answers Daemon_Client
    Command_Parser Command_Correct Gt_System Gt_Types Gt_Records Gt_Extract Gt_Parser Gt_Installer Gt_Service
    Gt_Startup Gt_Host Gt_Unpacked Gt_Registry Gt_Correct Gt_Samples Gt_Answers
begin

text \<open>
  The bundle manager of OpenHarmony's lite systems: the service that installs, registers and removes application bundles,
  with the daemon that works on its files, the interface applications call, and the tool of the command line. The sources
  hold the service twice: for the small system, followed here in the release build without \<open>__LINUX__\<close> and \<open>OHOS_DEBUG\<close>
  on a 32-bit target, and for the mini system (\<^verbatim>\<open>gt_*\<close>), followed in all its builds.

  \<^bold>\<open>The program.\<close> An application (or the tool \<^verbatim>\<open>bm\<close>) calls \<^verbatim>\<open>frameworks/bundle_lite/src/bundle_manager.cpp\<close>, which
  sends a message to one of the two features of the service (\<^verbatim>\<open>bundle_ms_feature.cpp\<close> for queries,
  \<^verbatim>\<open>bundle_inner_feature.cpp\<close> for changes, in \<^verbatim>\<open>services/bundlemgr_lite/src\<close>). Queries are answered from the registry
  (\<^verbatim>\<open>bundle_map.cpp\<close>) with a text (\<^verbatim>\<open>convert_utils.cpp\<close>) that the client turns back into structures. A request to install or
  remove goes into the queue of the manager service (\<^verbatim>\<open>bundle_manager_service.cpp\<close>), which runs the installer
  (\<^verbatim>\<open>bundle_installer.cpp\<close>): signature and provision (\<^verbatim>\<open>hap_sign_verify.cpp\<close>), the profile in the package
  (\<^verbatim>\<open>bundle_parser.cpp\<close>, through the archive reader \<^verbatim>\<open>zip_file.cpp\<close>), the \<open>BundleInfo\<close> made of it (\<^verbatim>\<open>bundle_info_creator.cpp\<close>),
  the uid, the record on disk (\<^verbatim>\<open>bundle_util.cpp\<close>) and the registry. What needs privileges is asked of the bundle daemon
  (\<^verbatim>\<open>bundle_daemon_client.cpp\<close> to \<^verbatim>\<open>bundle_daemon/src\<close>). The result goes back to the client that asked and to the observers
  (\<^verbatim>\<open>bundle_callback.cpp\<close>). At boot the service scans its directories and rebuilds registry and uid maps from the records.

  In the mini system everything is in one address space. The client (\<^verbatim>\<open>slite/bundlems_slite_client.cpp\<close>) calls the queries of
  \<^verbatim>\<open>gt_bundle_manager_service.cpp\<close> and sends its requests through one buffer to the task of \<^verbatim>\<open>bundle_mgr_service.cpp\<close>; the
  installer (\<^verbatim>\<open>gt_bundle_installer.cpp\<close>) checks, unpacks (\<^verbatim>\<open>gt_bundle_extractor.cpp\<close>, \<^verbatim>\<open>gt_extractor_util.cpp\<close>) and
  registers a package of a format of its own, and works on the files itself. A list of the bundles with resources
  keeps pointers into the registry.

  \<^bold>\<open>Theories and code.\<close> The definitions bear the names of the functions they translate; a prefix tells apart functions of
  the same name (\<open>C_\<close> client, \<open>F_\<close> and \<open>MS_\<close> service, \<open>D_\<close> daemon, \<open>GT_\<close> and \<open>Slite_\<close> mini system).

  \<^item> \<open>Prelude\<close>, \<open>Errors\<close>, \<open>Json\<close>, \<open>System\<close>, \<open>Ipc\<close>: C strings and the string library, the allocator, the result codes
    (\<^verbatim>\<open>appexecfwk_errors.h\<close>), and what surrounds the program.
  \<^item> \<open>Utils_List\<close>: the intrusive list of \<^verbatim>\<open>utils_list.h\<close> on an explicit store of nodes; locale \<open>deque\<close>.
  \<^item> \<open>Bundle_Types\<close>, \<open>Info_Utils\<close>: the structures of \<^verbatim>\<open>interfaces/kits/bundle_lite\<close> as records, their setters and copies.
  \<^item> \<open>Bundle_Map\<close>, \<open>Bundle_Store\<close>: the registry, a list of pointers into a heap of \<open>BundleInfo\<close>; locales \<open>bundle_registry\<close>
    and \<open>bundle_store\<close>, its contract as a map from names to bundles.
  \<^item> \<open>Bundle_Util\<close>, \<open>Folder_Size\<close>, \<open>Bundle_Records\<close>: paths, sizes of folders, the records on disk.
  \<^item> \<open>Bundle_Name\<close>, \<open>Bundle_Parser\<close>, \<open>Hap_Profile\<close>, \<open>Info_Creator\<close>: from \<^verbatim>\<open>config.json\<close> to a \<open>BundleInfo\<close>.
  \<^item> \<open>Uid_Maps\<close>: the uids of bundles; locale \<open>uid_pool\<close>.
  \<^item> \<open>Installer\<close>, \<open>Installer_Correct\<close>, \<open>Manager_Service\<close>, \<open>Manager_Correct\<close>: installing, removing, the requests of the
    service and its restart. The state is \<open>service\<close> (registry, uid maps, counters, trace) in \<open>manager\<close> (observers, mode).
  \<^item> \<open>Zip_File\<close>, \<open>Zip_Correct\<close>: the archive reader, on lists of bytes.
  \<^item> \<open>Daemon_Files\<close>, \<open>Daemon\<close>, \<open>Daemon_Correct\<close>, \<open>Daemon_Client\<close>: the bundle daemon, its messages, and how the service
    waits for it, a step relation over the interleavings.
  \<^item> \<open>Convert_Utils\<close>, \<open>Convert_Correct\<close>, \<open>Element_Name\<close>: the text form of bundles and the names of abilities.
  \<^item> \<open>Ms_Feature\<close>, \<open>Callbacks\<close>, \<open>Bundle_Client\<close>, \<open>Api_Correct\<close>, \<open>Api_Answers\<close>: the two features of the service, the observers,
    the interface of applications, and both ends joined.
  \<^item> \<open>Command_Parser\<close>, \<open>Command_Correct\<close>: the tool \<^verbatim>\<open>bm\<close>.
  \<^item> \<open>Gt_System\<close>, \<open>Gt_Types\<close>, \<open>Gt_Records\<close>, \<open>Gt_Extract\<close>, \<open>Gt_Parser\<close>: the mini system's files and directories (the other half of
    \<^verbatim>\<open>bundle_util.cpp\<close>), structures and registry, records, package format, and profile.
  \<^item> \<open>Gt_Installer\<close>, \<open>Gt_Service\<close>, \<open>Gt_Startup\<close>, \<open>Gt_Host\<close>: its installer, requests, start, and the messages between client and
    task. The state is \<open>gt_service\<close> (a heap of bundles, the addresses registered, resources, counter, trace) in \<open>gt_host\<close>.
  \<^item> \<open>Gt_Unpacked\<close>, \<open>Gt_Registry\<close>, \<open>Gt_Correct\<close>, \<open>Gt_Answers\<close>: what unpacking does, the registry as a map and its invariant \<open>gs_ok\<close>,
    the outcomes of installing and uninstalling, and what the caller hears; \<open>Gt_Samples\<close> is a system they are tried on.

  \<^bold>\<open>Reading the model.\<close> A pointer is an \<open>option\<close>; where objects are shared, an address into a store. A definition whose C
  code may follow a null or dangling pointer, or index past an array, returns an \<open>option\<close>, and \<open>None\<close> is that undefined
  access: a theorem that gives \<open>Some\<close> shows there is none. Integers have the width of the code where it can overflow.
  Every allocation may fail (the parameter \<open>allocator\<close>); \<open>plentiful\<close> is the one that grants what fits in memory.
  Effects on the world are entries of a trace, and what the world answers may depend on the whole trace.

  Parameters, not made up: \<open>cjson\<close>, \<open>cjson_mk\<close>, \<open>cjson_io\<close> (the cJSON library), \<open>system\<close> (files, signature library, ability and
  permission services), the posix calls of the daemon (\<open>os\<close>), zlib, the resource index library, the IPC transport (\<open>space\<close> in a
  message, what a failed read leaves in a variable), \<open>getopt_long_only\<close>, and for the mini system \<open>gt_system\<close> (the same, with the
  switches of the build \<open>gt_liteos_m\<close> and \<open>gt_bc\<close> and the queue of the task). Their documented behaviour is a named hypothesis where a
  theorem needs it (\<open>cjson_ok\<close>, \<open>cjson_mk_ok\<close>, \<open>cjson_io_ok\<close>); the witnesses discharge it with a small implementation of JSON values.

  \<^bold>\<open>What the theorems show.\<close> The registry refines a finite map; the list refines a sequence. The parser is defined on every
  document (with the one exception proved) and what it accepts is well formed. Installation registers exactly the bundle of the approved package,
  keeps the identity of all others, and fails without a trace of itself before the point where the record is written; the
  errors after that point leave the dangling pointers proved as such. Uids and bundles stay one to one. Over the whole life of
  the service system bundles stay, and a restart restores the bundles recorded. The archive reader reads back what the format
  lays out, stays inside the file, and ends. The daemon stays inside the directories it serves, up to the exceptions of the findings;
  each request reaches it as sent; its answers reach their calls while it lives. A query answers the client with the bundle in the
  registry, a request to install arrives as sent, an observer is called.

  In the mini system unpacking stays inside its directory whatever the package holds, and gives back what the format lays out. An
  installation that succeeds enters the signed bundle only; one that fails keeps registry and list of resources
  in order, but may lose the bundle it was to update. The caller hears the end of each accepted request. Where the code does not do
  what it means to, that is a theorem: nothing can be installed in the build for LiteOS-M, nothing that was
  installed can be uninstalled without reading freed memory, and of two requests at once the second is handled twice.

  \<^bold>\<open>Termination.\<close> There is no fuel. A loop over an array or a list is a structural recursion; one that counts is a
  \<open>function\<close> with its measure. A loop that follows pointers or asks a library until it is done is a \<open>partial_function\<close>, whose
  \<open>None\<close> is also not returning: the loops of the list and the registry end on every well-formed list (\<open>List_is_a_sequence\<close>,
  \<open>BundleMap_is_a_map\<close>), the folder scan on every tree of finite depth (\<open>GetFileFolderSize_ends\<close>), and the extraction of a
  compressed entry always (\<open>ExtractFile_ends\<close>). The mini system's removal of a directory does not end when the directory
  cannot be opened (\<open>RemoveDir_unopened_hangs\<close>).

  \<^bold>\<open>Not modelled.\<close> The service host (\<^verbatim>\<open>bundle_ms_host.cpp\<close>) and the features of the mini system (\<^verbatim>\<open>bundle_mgr_slite_feature.cpp\<close>)
  only register with samgr and forward. The debug build adds three mode switches, the tests and their commands are left out.
  The JavaScript binding is glue. The mutexes and the watchdog of the mini system are left out: its task handles one message
  after the other, and the queries are steps between them.
\<close>

end
